(* ===== verification/Prelude.thy ===== *)
theory Prelude
  imports Complex_Main "HOL-Library.Multiset"
begin

section \<open>Prelude: JavaScript values and shared lemmas\<close>

text \<open>
  What every component shares: the JavaScript values the TypeScript sources store in untyped
  places (\<open>Record<string, unknown>\<close>, \<open>metadata\<close>, \<open>properties\<close>, \<open>value: unknown\<close>), the
  truthiness and \<open>??\<close> idioms of the language, the literal regular expressions the code writes
  down, and the lemmas on lists and multisets that the component proofs use.
\<close>

named_theorems op_defs
  \<open>definitions of the operations, unfolded together with their case splits\<close>

named_theorems field_simps_db
  \<open>frame facts: which collections an operation leaves alone\<close>

subsection \<open>Values\<close>

text \<open>
  A JavaScript number is a double. The model keeps the three special values the code can
  produce (\<open>NaN\<close> and the infinities, from \<open>Math.max(...[])\<close> and failed conversions) and takes
  finite numbers as exact rationals: rounding is not modelled.
\<close>

datatype jnum = NaN | PosInf | NegInf | Fin rat

datatype jsval =
    JUndef
  | JNull
  | JBool bool
  | JNum jnum
  | JStr string
  | JArr "jsval list"
  | JObj "(string \<times> jsval) list"

type_synonym jobject = "(string \<times> jsval) list"

subsection \<open>Truthiness and nullish coalescing\<close>

text \<open>
  \<open>if (x)\<close> on an optional string: neither \<open>undefined\<close> (or \<open>null\<close>) nor the empty string.
  \<open>a ?? b\<close> on an optional value: \<open>a\<close> unless it is missing.
\<close>

fun truthy :: "string option \<Rightarrow> bool" where
  "truthy None = False"
| "truthy (Some x) = (x \<noteq> [])"

definition nullish :: "'a option \<Rightarrow> 'a \<Rightarrow> 'a" where
  "nullish a b = (case a of None \<Rightarrow> b | Some x \<Rightarrow> x)"

text \<open>The truthiness of an arbitrary value.\<close>

fun js_truthy :: "jsval \<Rightarrow> bool" where
  "js_truthy JUndef = False"
| "js_truthy JNull = False"
| "js_truthy (JBool b) = b"
| "js_truthy (JNum n) = (n \<noteq> NaN \<and> n \<noteq> Fin 0)"
| "js_truthy (JStr x) = (x \<noteq> [])"
| "js_truthy (JArr xs) = True"
| "js_truthy (JObj m) = True"

text \<open>Reading a property of an object: \<open>undefined\<close> where it is missing.\<close>

definition js_get :: "jobject \<Rightarrow> string \<Rightarrow> jsval" where
  "js_get m k = (case map_of m k of None \<Rightarrow> JUndef | Some v \<Rightarrow> v)"

lemma truthy_iff: "truthy x \<longleftrightarrow> (\<exists>y. x = Some y \<and> y \<noteq> [])"
  by (cases x) auto

lemma nullish_simps [simp]: "nullish None b = b" "nullish (Some x) b = x"
  by (simp_all add: nullish_def)

subsection \<open>Literal regular expressions of the sources\<close>

text \<open>
  The regular expressions written in the sources are modelled as the sets of strings they match;
  regular expressions that users supply go through the environment (theory \<open>Database\<close>).
\<close>

definition is_digit :: "char \<Rightarrow> bool" where
  "is_digit c \<longleftrightarrow> c \<in> set ''0123456789''"

definition is_letter :: "char \<Rightarrow> bool" where
  "is_letter c \<longleftrightarrow> (let n = (of_char c :: nat) in 65 \<le> n \<and> n \<le> 90 \<or> 97 \<le> n \<and> n \<le> 122)"

definition digits :: "string \<Rightarrow> bool" where
  "digits s \<longleftrightarrow> s \<noteq> [] \<and> list_all is_digit s"

text \<open>\<open>/^[0-9]+(\.[0-9]+)?$/\<close>\<close>

definition matches_decimal :: "string \<Rightarrow> bool" where
  "matches_decimal s =
     (let a = takeWhile is_digit s; b = dropWhile is_digit s
      in a \<noteq> [] \<and> (b = [] \<or> (hd b = CHR ''.'' \<and> digits (tl b))))"

subsection \<open>Lists and multisets\<close>

lemma mset_eq_setD: "mset xs = mset ys \<Longrightarrow> set xs = set ys"
  by (metis set_mset_mset)

lemma mset_filter_set:
  assumes "mset xs = filter_mset q (mset ys)"
  shows "set xs = {y \<in> set ys. q y}"
proof -
  have "set_mset (mset xs) = set_mset (filter_mset q (mset ys))" using assms by simp
  then show ?thesis by auto
qed

lemma mset_filter_Nil:
  assumes "mset xs = filter_mset q (mset ys)"
  shows "xs = [] \<longleftrightarrow> (\<forall>y \<in> set ys. \<not> q y)"
proof -
  have "xs = [] \<longleftrightarrow> set xs = {}" by simp
  then show ?thesis unfolding mset_filter_set[OF assms] by blast
qed

lemma distinct_map_mset:
  assumes "mset xs = mset ys"
  shows "distinct (map k xs) \<longleftrightarrow> distinct (map k ys)"
proof -
  have "mset (map k xs) = mset (map k ys)" using assms by simp
  then show ?thesis by (rule mset_eq_imp_distinct_iff)
qed

lemma distinct_mapD: "distinct (map k xs) \<Longrightarrow> x \<in> set xs \<Longrightarrow> y \<in> set xs \<Longrightarrow> k x = k y \<Longrightarrow> x = y"
  by (simp add: distinct_map inj_on_def)

lemma set_add_mset_list: "mset c' = add_mset d (mset c) \<Longrightarrow> set c' = insert d (set c)"
  by (metis mset.simps(2) mset_eq_setD list.simps(15))

lemma set_image_mset_list: "mset c' = image_mset f (mset c) \<Longrightarrow> set c' = f ` set c"
  by (metis mset_map mset_eq_setD list.set_map)

end
