(* ===== verification/Store.thy ===== *)
theory Store
  imports Prelude
begin

section \<open>The document store interface\<close>

text \<open>
  Every component of the portal keeps its state in MongoDB collections and reaches them through
  the \<open>mongodb\<close> driver, which is not part of the repository. The driver is therefore a parameter
  of the model: a record of functions on the contents of one collection. What the code relies on
  is the locale \<open>document_store\<close>: the documented behaviour of \<open>find\<close>, \<open>findOne\<close>,
  \<open>insertOne\<close>, \<open>updateOne\<close>/\<open>findOneAndUpdate\<close> and \<open>updateMany\<close>, up to the order in which
  a collection returns its documents (MongoDB promises none), with the unique indexes that make a
  write fail. The contents of a collection are a list only so that the model is executable; the
  laws constrain it as a multiset.
\<close>

text \<open>
  A filter object is the predicate it stands for, an update object the function it applies.
  \<^item> \<open>insertOne\<close> is \<open>None\<close> when the driver throws (duplicate key).
  \<^item> \<open>updateOne\<close> stands for \<open>updateOne\<close> and \<open>findOneAndUpdate\<close>: \<open>None\<close> when the driver
    throws, otherwise the document it picked (as it was before) and the new contents.
  \<^item> \<open>updateMany\<close> returns whether it went through, and the contents it leaves, because a failing
    \<open>updateMany\<close> keeps the updates it has already made.
  \<^item> \<open>deleteOne\<close> removes one document that matches, if there is one.
\<close>

record 'd driver =
  indexes :: "('d \<Rightarrow> jsval) list"
  find_many :: "'d list \<Rightarrow> ('d \<Rightarrow> bool) \<Rightarrow> 'd list"
  findOne :: "'d list \<Rightarrow> ('d \<Rightarrow> bool) \<Rightarrow> 'd option"
  insertOne :: "'d list \<Rightarrow> 'd \<Rightarrow> 'd list option"
  updateOne :: "'d list \<Rightarrow> ('d \<Rightarrow> bool) \<Rightarrow> ('d \<Rightarrow> 'd) \<Rightarrow> ('d option \<times> 'd list) option"
  updateMany :: "'d list \<Rightarrow> ('d \<Rightarrow> bool) \<Rightarrow> ('d \<Rightarrow> 'd) \<Rightarrow> bool \<times> 'd list"
  deleteOne :: "'d list \<Rightarrow> ('d \<Rightarrow> bool) \<Rightarrow> 'd list"

text \<open>The collection respects its unique indexes.\<close>

definition indexed :: "'d driver \<Rightarrow> 'd list \<Rightarrow> bool" where
  "indexed dr c \<longleftrightarrow> (\<forall>k \<in> set (indexes dr). distinct (map k c))"

definition apply_where :: "('d \<Rightarrow> bool) \<Rightarrow> ('d \<Rightarrow> 'd) \<Rightarrow> 'd \<Rightarrow> 'd" where
  "apply_where q f d = (if q d then f d else d)"

lemma apply_where_simps [simp]:
  "q d \<Longrightarrow> apply_where q f d = f d"
  "\<not> q d \<Longrightarrow> apply_where q f d = d"
  by (simp_all add: apply_where_def)

lemma image_apply_single:
  assumes "d \<in> A" and "q d" and only: "\<And>e. e \<in> A \<Longrightarrow> q e \<Longrightarrow> e = d"
  shows "apply_where q f ` A = insert (f d) (A - {d})"
proof -
  have "apply_where q f e = e" if "e \<in> A - {d}" for e
    using that only[of e] by (auto simp: apply_where_def)
  then have "apply_where q f ` (A - {d}) = A - {d}" by (simp add: image_def)
  moreover have "A = insert d (A - {d})" using assms(1) by blast
  ultimately show ?thesis using assms(2) by (metis apply_where_simps(1) image_insert)
qed

lemma image_apply_none:
  assumes "\<And>e. e \<in> A \<Longrightarrow> \<not> q e"
  shows "apply_where q f ` A = A"
  using assms by (simp add: apply_where_def image_def)

lemma indexed_unique:
  "indexed dr c \<Longrightarrow> k \<in> set (indexes dr) \<Longrightarrow> d \<in> set c \<Longrightarrow> e \<in> set c \<Longrightarrow> k d = k e \<Longrightarrow> d = e"
  unfolding indexed_def using distinct_mapD[of k c d e] by blast

lemma indexed_mset: "mset c = mset c' \<Longrightarrow> indexed dr c = indexed dr c'"
  unfolding indexed_def using distinct_map_mset by blast

lemma set_remove_only:
  assumes "d \<in> set c" and "count (mset c) d = 1"
  shows "set_mset (mset c - {#d#}) = set c - {d}"
proof -
  have "d \<notin># mset c - {#d#}"
    using assms(2) by (simp add: not_in_iff)
  moreover have "set_mset (mset c) = insert d (set_mset (mset c - {#d#}))"
    using assms(1) by (metis insert_DiffM set_mset_add_mset_insert set_mset_mset)
  ultimately show ?thesis by (metis Diff_insert_absorb set_mset_mset)
qed

locale document_store =
  fixes dr :: "'d driver"
  assumes find_many_mset: "mset (find_many dr c q) = filter_mset q (mset c)"
    and findOne_None: "findOne dr c q = None \<longleftrightarrow> (\<forall>d \<in> set c. \<not> q d)"
    and findOne_Some: "findOne dr c q = Some d \<Longrightarrow> d \<in> set c \<and> q d"
    and insertOne_None: "insertOne dr c d = None \<longleftrightarrow> (\<exists>k \<in> set (indexes dr). k d \<in> k ` set c)"
    and insertOne_mset: "insertOne dr c d = Some c' \<Longrightarrow> mset c' = add_mset d (mset c)"
    and updateOne_cases: "updateOne dr c q f = Some (r, c') \<Longrightarrow>
      (r = None \<and> (\<forall>d \<in> set c. \<not> q d) \<and> mset c' = mset c) \<or>
      (\<exists>d. r = Some d \<and> d \<in> set c \<and> q d \<and> mset c' = add_mset (f d) (mset c - {#d#}))"
    and updateOne_ok: "indexed dr c \<Longrightarrow>
      (\<And>k d. k \<in> set (indexes dr) \<Longrightarrow> d \<in> set c \<Longrightarrow> q d \<Longrightarrow> k (f d) = k d \<or> k (f d) \<notin> k ` set c) \<Longrightarrow>
      updateOne dr c q f \<noteq> None"
    and updateOne_indexed: "updateOne dr c q f = Some (r, c') \<Longrightarrow> indexed dr c \<Longrightarrow> indexed dr c'"
    and updateMany_mset: "updateMany dr c q f = (True, c') \<Longrightarrow> mset c' = image_mset (apply_where q f) (mset c)"
    and updateMany_partial: "updateMany dr c q f = (ok, c') \<Longrightarrow>
      \<exists>A B. mset c = A + B \<and> (\<forall>d \<in># A. q d) \<and> mset c' = image_mset f A + B"
    and updateMany_ok: "indexed dr c \<Longrightarrow>
      (\<And>k d. k \<in> set (indexes dr) \<Longrightarrow> d \<in> set c \<Longrightarrow> q d \<Longrightarrow> k (f d) = k d) \<Longrightarrow>
      fst (updateMany dr c q f)"
    and updateMany_indexed: "updateMany dr c q f = (ok, c') \<Longrightarrow> indexed dr c \<Longrightarrow> indexed dr c'"
    and deleteOne_cases: "(\<forall>d \<in> set c. \<not> q d) \<and> mset (deleteOne dr c q) = mset c \<or>
      (\<exists>d \<in> set c. q d \<and> mset (deleteOne dr c q) = mset c - {#d#})"
begin

lemma find_many_set: "set (find_many dr c q) = {d \<in> set c. q d}"
  by (rule mset_filter_set[OF find_many_mset])

lemma find_many_Nil: "find_many dr c q = [] \<longleftrightarrow> (\<forall>d \<in> set c. \<not> q d)"
  by (rule mset_filter_Nil[OF find_many_mset])

lemma find_many_length: "length (find_many dr c q) = size (filter_mset q (mset c))"
  by (metis find_many_mset size_mset)

lemma findOne_exists: "d \<in> set c \<Longrightarrow> q d \<Longrightarrow> \<exists>e. findOne dr c q = Some e \<and> e \<in> set c \<and> q e"
  using findOne_None[of c q] findOne_Some[of c q] by (cases "findOne dr c q") auto

lemma findOne_unique:
  assumes "d \<in> set c" and "q d" and "\<And>e. e \<in> set c \<Longrightarrow> q e \<Longrightarrow> e = d"
  shows "findOne dr c q = Some d"
  using findOne_exists[where q = q, OF assms(1,2)] assms(3) by blast

lemma insertOne_set: "insertOne dr c d = Some c' \<Longrightarrow> set c' = insert d (set c)"
  by (rule set_add_mset_list[OF insertOne_mset])

lemma insertOne_indexed:
  assumes "insertOne dr c d = Some c'" and "indexed dr c"
  shows "indexed dr c'"
proof -
  have "mset c' = mset (d # c)" using insertOne_mset[OF assms(1)] by simp
  moreover have "\<forall>k \<in> set (indexes dr). k d \<notin> k ` set c"
    using insertOne_None[of c d] assms(1) by auto
  then have "indexed dr (d # c)" using assms(2) by (auto simp: indexed_def)
  ultimately show ?thesis by (simp add: indexed_mset[of c' "d # c"])
qed

lemma updateMany_set:
  "updateMany dr c q f = (True, c') \<Longrightarrow> set c' = apply_where q f ` set c"
  by (rule set_image_mset_list[OF updateMany_mset])

text \<open>Whatever document an update picks: the new contents are old documents and one updated one.\<close>

lemma updateOne_mem:
  assumes up: "updateOne dr c q f = Some (r, c')" and "e \<in> set c'"
  shows "e \<in> set c \<or> (\<exists>d \<in> set c. q d \<and> e = f d)"
  using updateOne_cases[OF up]
proof
  assume "r = None \<and> (\<forall>d \<in> set c. \<not> q d) \<and> mset c' = mset c"
  then have "set c' = set c" by (metis mset_eq_setD)
  with assms(2) show ?thesis by blast
next
  assume "\<exists>d. r = Some d \<and> d \<in> set c \<and> q d \<and> mset c' = add_mset (f d) (mset c - {#d#})"
  then obtain d where d: "d \<in> set c" "q d" "mset c' = add_mset (f d) (mset c - {#d#})" by blast
  from assms(2) have "e \<in># mset c'" by simp
  then have "e = f d \<or> e \<in> set c" unfolding d(3) by (auto dest: in_diffD)
  with d show ?thesis by blast
qed

lemma updateOne_all:
  assumes "updateOne dr c q f = Some (r, c')" and "\<forall>d \<in> set c. P d"
    and "\<And>d. d \<in> set c \<Longrightarrow> q d \<Longrightarrow> P d \<Longrightarrow> P (f d)"
  shows "\<forall>d \<in> set c'. P d"
  using updateOne_mem[OF assms(1)] assms(2,3) by blast

lemma insertOne_all:
  "insertOne dr c d = Some c' \<Longrightarrow> \<forall>e \<in> set c. P e \<Longrightarrow> P d \<Longrightarrow> \<forall>e \<in> set c'. P e"
  by (simp add: insertOne_set)

text \<open>Where the filter can match one document only, the update acts on that document.\<close>

lemma updateOne_unique:
  assumes up: "updateOne dr c q f = Some (r, c')"
    and d: "d \<in> set c" "q d" "\<And>e. e \<in> set c \<Longrightarrow> q e \<Longrightarrow> e = d"
    and one: "count (mset c) d = 1"
  shows "r = Some d \<and> set c' = apply_where q f ` set c"
proof -
  from updateOne_cases[OF up] d obtain e where
    e: "r = Some e" "e \<in> set c" "q e" "mset c' = add_mset (f e) (mset c - {#e#})"
    by blast
  with d(3) have ed: "e = d" by blast
  note rest = set_remove_only[OF d(1) one]
  have "set c' = insert (f d) (set c - {d})"
    using e(4) rest ed by (metis set_mset_add_mset_insert set_mset_mset)
  also have "\<dots> = apply_where q f ` set c"
    using image_apply_single[where q = q and f = f, OF d(1,2)] d(3) by metis
  finally show ?thesis using e(1) ed by simp
qed

end

subsection \<open>Collections with a unique id\<close>

text \<open>
  All collections of the portal have a unique index on \<open>id\<close>
  (\<open>collectionsAndIndexes.ts\<close>); a store with that index finds and updates by identity.
\<close>

locale id_store = document_store dr for dr :: "'d driver" +
  fixes key :: "'d \<Rightarrow> string"
  assumes id_index: "(\<lambda>d. JStr (key d)) \<in> set (indexes dr)"
begin

lemma key_distinct: "indexed dr c \<Longrightarrow> distinct (map key c)"
proof -
  assume "indexed dr c"
  with id_index have "distinct (map (\<lambda>d. JStr (key d)) c)" by (auto simp: indexed_def)
  then show ?thesis by (simp add: distinct_map inj_on_def)
qed

lemma key_inj: "indexed dr c \<Longrightarrow> d \<in> set c \<Longrightarrow> e \<in> set c \<Longrightarrow> key d = key e \<Longrightarrow> d = e"
  by (rule distinct_mapD[OF key_distinct])

lemma count_one: "indexed dr c \<Longrightarrow> d \<in> set c \<Longrightarrow> count (mset c) d = 1"
  by (metis key_distinct distinct_count_atmost_1 distinct_map)

lemma findOne_key:
  "indexed dr c \<Longrightarrow> d \<in> set c \<Longrightarrow> q d \<Longrightarrow> (\<And>e. q e \<Longrightarrow> key e = key d) \<Longrightarrow> findOne dr c q = Some d"
  by (rule findOne_unique) (auto intro: key_inj)

lemma updateOne_keyed:
  assumes ix: "indexed dr c" and up: "updateOne dr c q f = Some (r, c')"
    and qi: "\<And>d. q d \<Longrightarrow> key d = i"
  shows "set c' = apply_where q f ` set c"
proof (cases "\<exists>d \<in> set c. q d")
  case True
  then obtain d where d: "d \<in> set c" "q d" by blast
  have "e = d" if "e \<in> set c" "q e" for e
    using key_inj[OF ix that(1) d(1)] qi[OF that(2)] qi[OF d(2)] by simp
  then show ?thesis
    using updateOne_unique[OF up d _ count_one[OF ix d(1)]] by blast
next
  case False
  with updateOne_cases[OF up] have "mset c' = mset c" by blast
  then have "set c' = set c" by (rule mset_eq_setD)
  also have "\<dots> = apply_where q f ` set c"
    by (rule image_apply_none[symmetric]) (use False in blast)
  finally show ?thesis .
qed

lemma updateOne_key:
  assumes "indexed dr c" and "updateOne dr c (\<lambda>d. key d = i) f = Some (r, c')"
  shows "set c' = apply_where (\<lambda>d. key d = i) f ` set c"
  by (rule updateOne_keyed[OF assms]) simp

lemma updateOne_key_result:
  assumes ix: "indexed dr c" and up: "updateOne dr c (\<lambda>d. key d = i) f = Some (r, c')"
    and d: "d \<in> set c" "key d = i"
  shows "r = Some d"
proof -
  have "e = d" if "e \<in> set c" "key e = i" for e
    using key_inj[OF ix that(1) d(1)] that(2) d(2) by simp
  then show ?thesis
    using updateOne_unique[OF up d _ count_one[OF ix d(1)]] by blast
qed

lemma deleteOne_key:
  assumes ix: "indexed dr c"
  shows "set (deleteOne dr c (\<lambda>d. key d = i)) = {d \<in> set c. key d \<noteq> i}"
  using deleteOne_cases[of c "\<lambda>d. key d = i"]
proof
  assume "(\<forall>d \<in> set c. key d \<noteq> i) \<and> mset (deleteOne dr c (\<lambda>d. key d = i)) = mset c"
  then show ?thesis using mset_eq_setD by blast
next
  assume "\<exists>d \<in> set c. key d = i \<and> mset (deleteOne dr c (\<lambda>d. key d = i)) = mset c - {#d#}"
  then obtain d where d: "d \<in> set c" "key d = i" "mset (deleteOne dr c (\<lambda>d. key d = i)) = mset c - {#d#}" by blast
  have "set_mset (mset c - {#d#}) = set c - {d}"
    by (rule set_remove_only[OF d(1) count_one[OF ix d(1)]])
  moreover have "e = d" if "e \<in> set c" "key e = i" for e
    using key_inj[OF ix that(1) d(1)] that(2) d(2) by simp
  then have "{e \<in> set c. key e \<noteq> i} = set c - {d}" using d(2) by blast
  ultimately show ?thesis using d(3) by (metis set_mset_mset)
qed

lemma insertOne_fresh: "insertOne dr c d = Some c' \<Longrightarrow> key d \<notin> key ` set c"
proof -
  assume "insertOne dr c d = Some c'"
  then have "\<forall>k \<in> set (indexes dr). k d \<notin> k ` set c" using insertOne_None[of c d] by auto
  from bspec[OF this id_index] show ?thesis by (simp add: image_iff)
qed

end

end
