(* ===== verification/Reference_Store.thy ===== *)
theory Reference_Store
  imports Store
begin

section \<open>A reference implementation of the document store\<close>

text \<open>
  A driver that keeps the documents in insertion order and checks the unique indexes by
  comparing keys. It shows that the laws of \<open>Store\<close> can be met, and it is the concrete driver
  at which the witnesses of the development evaluate.
\<close>

fun update_first :: "('d \<Rightarrow> bool) \<Rightarrow> ('d \<Rightarrow> 'd) \<Rightarrow> 'd list \<Rightarrow> 'd option \<times> 'd list" where
  "update_first q f [] = (None, [])"
| "update_first q f (d # c) =
     (if q d then (Some d, f d # c)
      else (case update_first q f c of (r, c') \<Rightarrow> (r, d # c')))"

fun remove_first :: "('d \<Rightarrow> bool) \<Rightarrow> 'd list \<Rightarrow> 'd list" where
  "remove_first q [] = []"
| "remove_first q (d # c) = (if q d then c else d # remove_first q c)"

definition keys_distinct :: "('d \<Rightarrow> jsval) list \<Rightarrow> 'd list \<Rightarrow> bool" where
  "keys_distinct ix c = list_all (\<lambda>k. distinct (map k c)) ix"

definition list_insert :: "('d \<Rightarrow> jsval) list \<Rightarrow> 'd list \<Rightarrow> 'd \<Rightarrow> 'd list option" where
  "list_insert ix c d =
     (if list_ex (\<lambda>k. k d \<in> set (map k c)) ix then None else Some (c @ [d]))"

definition list_update_one :: "('d \<Rightarrow> jsval) list \<Rightarrow> 'd list \<Rightarrow> ('d \<Rightarrow> bool) \<Rightarrow> ('d \<Rightarrow> 'd)
    \<Rightarrow> ('d option \<times> 'd list) option" where
  "list_update_one ix c q f =
     (let u = update_first q f c
      in if keys_distinct ix (snd u) \<or> \<not> keys_distinct ix c then Some u else None)"

definition list_update_many :: "('d \<Rightarrow> jsval) list \<Rightarrow> 'd list \<Rightarrow> ('d \<Rightarrow> bool) \<Rightarrow> ('d \<Rightarrow> 'd)
    \<Rightarrow> bool \<times> 'd list" where
  "list_update_many ix c q f =
     (let c' = map (apply_where q f) c
      in if keys_distinct ix c' then (True, c') else (False, c))"

definition list_driver :: "('d \<Rightarrow> jsval) list \<Rightarrow> 'd driver" where
  "list_driver ix =
     \<lparr>indexes = ix,
      find_many = (\<lambda>c q. filter q c),
      findOne = (\<lambda>c q. List.find q c),
      insertOne = list_insert ix,
      updateOne = list_update_one ix,
      updateMany = list_update_many ix,
      deleteOne = (\<lambda>c q. remove_first q c)\<rparr>"

lemmas list_driver_simps =
  list_driver_def list_insert_def list_update_one_def list_update_many_def keys_distinct_def
  apply_where_def Let_def

lemma list_driver_indexes [simp]: "indexes (list_driver ix) = ix"
  by (simp add: list_driver_def)

lemma keys_distinct_indexed: "keys_distinct ix c = indexed (list_driver ix) c"
  by (simp add: keys_distinct_def indexed_def list_all_iff)

lemma update_first_cases:
  "update_first q f c = (r, c') \<Longrightarrow>
     (r = None \<and> (\<forall>d \<in> set c. \<not> q d) \<and> c' = c) \<or>
     (\<exists>d. r = Some d \<and> d \<in> set c \<and> q d \<and> mset c' = add_mset (f d) (mset c - {#d#}))"
proof (induction c arbitrary: r c')
  case Nil
  then show ?case by simp
next
  case (Cons x xs)
  show ?case
  proof (cases "q x")
    case True
    with Cons.prems show ?thesis by auto
  next
    case False
    with Cons.prems obtain ys where ys: "update_first q f xs = (r, ys)" "c' = x # ys"
      by (auto split: prod.splits)
    show ?thesis
      using Cons.IH[OF ys(1)]
    proof
      assume "r = None \<and> (\<forall>d \<in> set xs. \<not> q d) \<and> ys = xs"
      then show ?thesis using False ys(2) by simp
    next
      assume "\<exists>d. r = Some d \<and> d \<in> set xs \<and> q d \<and> mset ys = add_mset (f d) (mset xs - {#d#})"
      then show ?thesis using False ys(2) by (auto simp: add_mset_commute)
    qed
  qed
qed

text \<open>A replaced key that no document has keeps the keys distinct.\<close>

lemma update_first_distinct:
  assumes "distinct (map k c)"
    and "\<And>d. d \<in> set c \<Longrightarrow> q d \<Longrightarrow> k (f d) = k d \<or> k (f d) \<notin> k ` set c"
  shows "distinct (map k (snd (update_first q f c)))"
  using assms
proof (induction c)
  case Nil
  then show ?case by simp
next
  case (Cons x xs)
  show ?case
  proof (cases "q x")
    case True
    then have "k (f x) = k x \<or> k (f x) \<notin> k ` set (x # xs)" using Cons.prems(2) by simp
    with True Cons.prems(1) show ?thesis by auto
  next
    case False
    obtain r ys where ys: "update_first q f xs = (r, ys)" by force
    have "distinct (map k ys)"
      using Cons.IH Cons.prems ys by auto
    moreover have "k x \<notin> k ` set ys"
    proof -
      have x: "k x \<notin> k ` set xs" using Cons.prems(1) by auto
      from update_first_cases[OF ys] show ?thesis
      proof
        assume "r = None \<and> (\<forall>d \<in> set xs. \<not> q d) \<and> ys = xs"
        with x show ?thesis by simp
      next
        assume "\<exists>d. r = Some d \<and> d \<in> set xs \<and> q d \<and> mset ys = add_mset (f d) (mset xs - {#d#})"
        then obtain d where d: "d \<in> set xs" "q d" "mset ys = add_mset (f d) (mset xs - {#d#})"
          by blast
        from d(3) have "set ys \<subseteq> insert (f d) (set xs)"
          by (metis in_diffD insert_iff set_mset_add_mset_insert set_mset_mset subsetI)
        moreover have "k d \<noteq> k x"
          using d(1) x by (metis image_eqI)
        with Cons.prems(2)[of d] d have "k (f d) \<noteq> k x" by auto
        ultimately show ?thesis using x by auto
      qed
    qed
    ultimately show ?thesis using False ys Cons.prems by auto
  qed
qed

lemma remove_first_cases:
  "(\<forall>d \<in> set c. \<not> q d) \<and> remove_first q c = c \<or> (\<exists>d \<in> set c. q d \<and> mset (remove_first q c) = mset c - {#d#})"
  by (induction c) auto

interpretation list_store: document_store "list_driver ix" for ix :: "('d \<Rightarrow> jsval) list"
proof unfold_locales
  fix c :: "'d list" and q :: "'d \<Rightarrow> bool"
  show "(\<forall>d \<in> set c. \<not> q d) \<and> mset (deleteOne (list_driver ix) c q) = mset c \<or>
      (\<exists>d \<in> set c. q d \<and> mset (deleteOne (list_driver ix) c q) = mset c - {#d#})"
    using remove_first_cases[of c q] by (auto simp: list_driver_def)
  show "mset (find_many (list_driver ix) c q) = filter_mset q (mset c)"
    by (simp add: list_driver_def)
  show "findOne (list_driver ix) c q = None \<longleftrightarrow> (\<forall>d \<in> set c. \<not> q d)"
    by (simp add: list_driver_def find_None_iff Ball_def)
next
  fix c :: "'d list" and q :: "'d \<Rightarrow> bool" and d
  assume "findOne (list_driver ix) c q = Some d"
  then show "d \<in> set c \<and> q d"
    by (auto simp: list_driver_def find_Some_iff)
next
  fix c :: "'d list" and d
  show "insertOne (list_driver ix) c d = None \<longleftrightarrow>
      (\<exists>k \<in> set (indexes (list_driver ix)). k d \<in> k ` set c)"
    by (simp add: list_driver_def list_insert_def list_ex_iff)
next
  fix c :: "'d list" and d c'
  assume "insertOne (list_driver ix) c d = Some c'"
  then show "mset c' = add_mset d (mset c)"
    by (auto simp: list_driver_def list_insert_def split: if_splits)
next
  fix c :: "'d list" and q f r c'
  assume "updateOne (list_driver ix) c q f = Some (r, c')"
  then have "update_first q f c = (r, c')"
    by (auto simp: list_driver_def list_update_one_def Let_def split: if_splits)
  from update_first_cases[OF this]
  show "(r = None \<and> (\<forall>d \<in> set c. \<not> q d) \<and> mset c' = mset c) \<or>
    (\<exists>d. r = Some d \<and> d \<in> set c \<and> q d \<and> mset c' = add_mset (f d) (mset c - {#d#}))" by auto
next
  fix c :: "'d list" and q f
  assume ix: "indexed (list_driver ix) c"
    and keys: "\<And>k d. k \<in> set (indexes (list_driver ix)) \<Longrightarrow> d \<in> set c \<Longrightarrow> q d \<Longrightarrow>
      k (f d) = k d \<or> k (f d) \<notin> k ` set c"
  have "distinct (map k (snd (update_first q f c)))" if "k \<in> set ix" for k
    using update_first_distinct[of k c q f] ix keys that by (auto simp: indexed_def)
  then have "keys_distinct ix (snd (update_first q f c))"
    by (simp add: keys_distinct_def list_all_iff)
  then show "updateOne (list_driver ix) c q f \<noteq> None"
    by (simp add: list_driver_def list_update_one_def)
next
  fix c :: "'d list" and q f r c'
  assume "updateOne (list_driver ix) c q f = Some (r, c')" and "indexed (list_driver ix) c"
  then show "indexed (list_driver ix) c'"
    by (auto simp: list_driver_def list_update_one_def Let_def keys_distinct_indexed split: if_splits)
next
  fix c :: "'d list" and q f c'
  assume "updateMany (list_driver ix) c q f = (True, c')"
  then show "mset c' = image_mset (apply_where q f) (mset c)"
    by (auto simp: list_driver_def list_update_many_def Let_def split: if_splits)
next
  fix c :: "'d list" and q f ok c'
  assume up: "updateMany (list_driver ix) c q f = (ok, c')"
  show "\<exists>A B. mset c = A + B \<and> (\<forall>d \<in># A. q d) \<and> mset c' = image_mset f A + B"
  proof (cases ok)
    case True
    with up have "c' = map (apply_where q f) c"
      by (auto simp: list_driver_def list_update_many_def Let_def split: if_splits)
    moreover have "mset (map (apply_where q f) c) =
        image_mset f (filter_mset q (mset c)) + filter_mset (\<lambda>d. \<not> q d) (mset c)"
      by (induction c) (simp_all add: apply_where_def)
    ultimately have
      "mset c' = image_mset f (filter_mset q (mset c)) + filter_mset (\<lambda>d. \<not> q d) (mset c)"
      by simp
    moreover have "mset c = filter_mset q (mset c) + filter_mset (\<lambda>d. \<not> q d) (mset c)"
      by (rule multiset_partition)
    moreover have "\<forall>d \<in># filter_mset q (mset c). q d" by simp
    ultimately show ?thesis by blast
  next
    case False
    with up have "c' = c"
      by (auto simp: list_driver_def list_update_many_def Let_def split: if_splits)
    then show ?thesis by (intro exI[of _ "{#}"] exI[of _ "mset c"]) simp
  qed
next
  fix c :: "'d list" and q f
  assume ix: "indexed (list_driver ix) c"
    and keys: "\<And>k d. k \<in> set (indexes (list_driver ix)) \<Longrightarrow> d \<in> set c \<Longrightarrow> q d \<Longrightarrow> k (f d) = k d"
  have "map k (map (apply_where q f) c) = map k c" if "k \<in> set ix" for k
    using keys that by (auto simp: apply_where_def)
  then have "keys_distinct ix (map (apply_where q f) c)"
    using ix unfolding keys_distinct_def indexed_def list_all_iff
    by (metis list_driver_indexes)
  then show "fst (updateMany (list_driver ix) c q f)"
    by (simp add: list_driver_def list_update_many_def)
next
  fix c :: "'d list" and q f ok c'
  assume "updateMany (list_driver ix) c q f = (ok, c')" and "indexed (list_driver ix) c"
  then show "indexed (list_driver ix) c'"
    using keys_distinct_indexed[of ix c']
    by (simp add: list_driver_def list_update_many_def Let_def indexed_def split: if_splits)
qed

lemma list_id_store:
  "(\<lambda>d. JStr (key d)) \<in> set ix \<Longrightarrow> id_store (list_driver ix) key"
  by (intro id_store.intro id_store_axioms.intro) (simp_all add: list_store.document_store_axioms)

end
