(* ===== verification/Types.thy ===== *)
theory Types
  imports Prelude
begin

section \<open>The shared data types\<close>

text \<open>
  The interfaces and enumerations of the package \<open>itmat-types\<close> that the modelled components
  use. An interface is a record, \<open>extends\<close> is record extension, an optional property
  (\<open>p?: t\<close>) and a nullable one (\<open>t | null\<close>) are of type \<open>t option\<close>, a \<open>number\<close> that
  holds a count, a size or a time stamp is an \<open>int\<close>, and an untyped object is a
  JavaScript value. The property \<open>id\<close> is named \<open>doc_id\<close>; properties that several
  interfaces share (\<open>name\<close>, \<open>description\<close>, \<open>type\<close>) carry the interface's name.
\<close>

subsection \<open>Errors (\<open>coreErrors.ts\<close>)\<close>

datatype enumCoreErrors =
    DATABASE_ERROR
  | NOT_LOGGED_IN
  | CLIENT_MALFORMED_INPUT
  | CLIENT_ACTION_ON_NON_EXISTENT_ENTRY
  | AUTHENTICATION_ERROR
  | NO_PERMISSION_ERROR
  | FILE_STREAM_ERROR
  | OBJ_STORE_ERROR
  | UNQUALIFIED_ERROR
  | NOT_IMPLEMENTED
  | POLLING_ERROR

text \<open>The string value of an error code, used as the message in most \<open>throw\<close>s.\<close>

fun error_string :: "enumCoreErrors \<Rightarrow> string" where
  "error_string DATABASE_ERROR = ''DATABASE_ERROR''"
| "error_string NOT_LOGGED_IN = ''NOT_LOGGED_IN''"
| "error_string CLIENT_MALFORMED_INPUT = ''CLIENT_MALFORMED_INPUT''"
| "error_string CLIENT_ACTION_ON_NON_EXISTENT_ENTRY = ''CLIENT_ACTION_ON_NON_EXISTENT_ENTRY''"
| "error_string AUTHENTICATION_ERROR = ''AUTHENTICATION_ERROR''"
| "error_string NO_PERMISSION_ERROR = ''NO_PERMISSION_ERROR''"
| "error_string FILE_STREAM_ERROR = ''FILE_STREAM_ERROR''"
| "error_string OBJ_STORE_ERROR = ''OBJ_STORE_ERROR''"
| "error_string UNQUALIFIED_ERROR = ''UNQUALIFIED_ERROR''"
| "error_string NOT_IMPLEMENTED = ''NOT_IMPLEMENTED''"
| "error_string POLLING_ERROR = ''POLLING_ERROR''"

text \<open>
  What an operation can throw: a \<open>CoreError\<close> with its code and message, an exception of the
  database driver or the object store, or a JavaScript exception (\<open>TypeError\<close>,
  \<open>SyntaxError\<close>, \<open>Error\<close>) with its message.
\<close>

datatype error =
    CoreError enumCoreErrors string
  | MongoServerError
  | MinioError
  | JSError string

abbreviation core_error :: "enumCoreErrors \<Rightarrow> error" where
  "core_error c \<equiv> CoreError c (error_string c)"

type_synonym 'a result = "error + 'a"

text \<open>\<open>e.message\<close>. The texts of the libraries' messages are stand-ins.\<close>

fun error_message :: "error \<Rightarrow> string" where
  "error_message (CoreError c m) = m"
| "error_message (JSError m) = m"
| "error_message MongoServerError = ''MongoServerError''"
| "error_message MinioError = ''S3Error''"

subsection \<open>Base documents (\<open>base.ts\<close>)\<close>

text \<open>
  \<open>deletedUser\<close> and \<open>managerId\<close> are declared as strings, but some operations store the whole
  user object there (\<open>deleteStudy\<close>, \<open>editDrive\<close>). A reference is therefore either a
  user id or a user document, of which the model keeps the id; the two are never equal, as a
  string never equals an object.
\<close>

datatype uref = Uid string | UserDoc string

record ILifeCircle =
  createdTime :: int
  createdUser :: string
  deletedTime :: "int option"
  deletedUser :: "uref option"

record IBase =
  doc_id :: string
  life :: ILifeCircle
  metadata :: jobject

definition alive :: "'a IBase_scheme \<Rightarrow> bool" where
  "alive d \<longleftrightarrow> deletedTime (life d) = None"

definition new_life :: "int \<Rightarrow> string \<Rightarrow> ILifeCircle" where
  "new_life t u = \<lparr>createdTime = t, createdUser = u, deletedTime = None, deletedUser = None\<rparr>"

lemma alive_new_life [simp]: "life d = new_life t u \<Longrightarrow> alive d"
  by (simp add: alive_def new_life_def)

subsection \<open>Users (\<open>user.ts\<close>)\<close>

datatype enumUserTypes = ADMIN | STANDARD | SYSTEM | GUEST

record IResetPasswordRequest =
  request_id :: string
  timeOfRequest :: int
  used :: bool

record IUserWithoutToken = IBase +
  username :: string
  email :: string
  firstname :: string
  lastname :: string
  organisation :: string
  user_type :: enumUserTypes
  emailNotificationsActivated :: bool
  expiringNotification :: bool
  resetPasswordRequests :: "IResetPasswordRequest list"
  user_profile :: "string option"
  expiredAt :: int
  user_description :: "string option"

record IUser = IUserWithoutToken +
  password :: string
  otpSecret :: string

text \<open>The requester of an operation is \<open>IUserWithoutToken | undefined\<close>.\<close>

type_synonym requester = "IUserWithoutToken option"

subsection \<open>Roles (\<open>permission.ts\<close>)\<close>

datatype enumStudyRoles = STUDY_MANAGER | STUDY_ASSISTANT | STUDY_USER

datatype enumDataAtomicPermissions = READ | WRITE | DELETE

record IDataPermission =
  perm_fields :: "string list"
  dataProperties :: "(string \<times> string list) list"
  includeUnVersioned :: bool
  permission :: int

record IRole = IBase +
  role_studyId :: string
  role_name :: string
  role_description :: "string option"
  dataPermissions :: "IDataPermission list"
  studyRole :: enumStudyRoles
  role_users :: "string list"

fun permissionString :: "enumDataAtomicPermissions \<Rightarrow> int list" where
  "permissionString READ = [4, 5, 6, 7]"
| "permissionString WRITE = [6, 7]"
| "permissionString DELETE = [7]"

subsection \<open>Drives (\<open>drive.ts\<close>)\<close>

datatype enumDriveNodeTypes = FOLDER | FILE

record IDrivePermission =
  iid :: string
  can_read :: bool
  can_write :: bool
  can_delete :: bool

text \<open>
  \<open>childeren\<close> is not declared in the interface: \<open>editDrive\<close> writes this misspelt property
  on the stored document.
\<close>

record IDrive = IBase +
  managerId :: uref
  path :: "string list"
  restricted :: bool
  drive_name :: string
  drive_description :: "string option"
  fileId :: "string option"
  drive_type :: enumDriveNodeTypes
  parent :: "string option"
  children :: "string list"
  sharedUsers :: "IDrivePermission list"
  childeren :: "string list option"

subsection \<open>Files (\<open>file.ts\<close>)\<close>

datatype enumFileTypes =
    CSV | ZIP | RAR | UNKNOWN | MARKDOWN | TXT | JSON | PDF | DOCX | XLSX | XLS | MAT
  | JPG | JPEG | PNG | WEBP | GIF | MP4 | AVI | FEATHER

text \<open>\<open>Object.keys(enumFileTypes)\<close>, with the member each key names.\<close>

definition file_type_keys :: "(string \<times> enumFileTypes) list" where
  "file_type_keys =
     [(''CSV'', CSV), (''ZIP'', ZIP), (''RAR'', RAR), (''UNKNOWN'', UNKNOWN),
      (''MARKDOWN'', MARKDOWN), (''TXT'', TXT), (''JSON'', JSON), (''PDF'', PDF),
      (''DOCX'', DOCX), (''XLSX'', XLSX), (''XLS'', XLS), (''MAT'', MAT),
      (''JPG'', JPG), (''JPEG'', JPEG), (''PNG'', PNG), (''WEBP'', WEBP), (''GIF'', GIF),
      (''MP4'', MP4), (''AVI'', AVI), (''FEATHER'', FEATHER)]"

datatype enumFileCategories =
    STUDY_DATA_FILE | USER_DRIVE_FILE | DOC_FILE | CACHE | PROFILE_FILE | DOMAIN_FILE

record IFile = IBase +
  file_studyId :: "string option"
  file_userId :: "string option"
  fileName :: string
  fileSize :: int
  file_description :: "string option"
  file_properties :: jobject
  uri :: string
  hash :: string
  fileType :: enumFileTypes
  fileCategory :: enumFileCategories

text \<open>
  An upload is a file name and a stream. The stream is what it delivers: its chunks (of bytes,
  as characters) and whether it ends or breaks with an error.
\<close>

record FileUpload =
  filename :: string
  stream_chunks :: "string list"
  stream_error :: "string option"

subsection \<open>Configurations (\<open>config.ts\<close>)\<close>

datatype enumConfigType =
    SYSTEMCONFIG | STUDYCONFIG | USERCONFIG | DOCCONFIG | CACHECONFIG | DOMAINCONFIG

datatype enumInstanceType = SMALL | MEDIUM | LARGE

datatype enumJobSchedulerStrategy = FIFO

record IJobSchedulerConfig =
  strategy :: enumJobSchedulerStrategy
  usePriority :: bool
  reExecuteFailedJobs :: bool
  failedJobDelayTime :: int
  maxAttempts :: int

record LXDFlavor =
  cpuLimit :: int
  memoryLimit :: int
  diskLimit :: int

record ISystemConfig =
  defaultBackgroundColor :: string
  system_defaultMaximumFileSize :: int
  system_defaultFileBucketId :: string
  defaultProfileBucketId :: string
  logoLink :: "string option"
  logoSize :: "string list"
  archiveAddress :: string
  defaultEventTimeConsumptionBar :: "int list"
  defaultUserExpireDays :: int
  jobSchedulerConfig :: IJobSchedulerConfig
  defaultLXDFlavor :: "enumInstanceType \<Rightarrow> LXDFlavor"

datatype enumStudyBlockColumnValueType = BLOCK_STRING | BLOCK_TIME

record IStudyFileBlock =
  block_title :: string
  block_fieldIds :: "string list"
  defaultFileColumns :: "(string \<times> string \<times> enumStudyBlockColumnValueType) list"
  defaultFileColumnsPropertyColor :: "string option"

record IStudyConfig =
  defaultStudyProfile :: "string option"
  study_defaultMaximumFileSize :: int
  defaultRepresentationForMissingValue :: string
  defaultFileBlocks :: "IStudyFileBlock list"
  defaultVersioningKeys :: "string list"

record IUserConfig =
  defaultUserExpiredDays :: int
  user_defaultMaximumFileSize :: int
  defaultMaximumFileRepoSize :: int
  defaultMaximumRepoSize :: int
  user_defaultFileBucketId :: string
  defaultMaximumQPS :: int
  defaultLXDMaximumInstances :: int
  defaultLXDMaximumInstanceCPUCores :: int
  defaultLXDMaximumInstanceDiskSize :: int
  defaultLXDMaximumInstanceMemory :: int
  defaultLXDMaximumInstanceLife :: int
  defaultLXDflavor :: "enumInstanceType list"

text \<open>\<open>IDocConfig\<close>, \<open>ICacheConfig\<close> and \<open>IDomainConfig\<close> have the same two properties.\<close>

record IBucketConfig =
  defaultFileBucketId :: string
  defaultMaximumFileSize :: int

text \<open>
  The \<open>properties\<close> of a configuration: the union type, tagged. (The bases \<open>id\<close>, \<open>life\<close>
  and \<open>metadata\<close> of the nested properties object are not used by any operation.)
\<close>

datatype config_properties =
    SystemProps ISystemConfig
  | StudyProps IStudyConfig
  | UserProps IUserConfig
  | DocProps IBucketConfig
  | CacheProps IBucketConfig
  | DomainProps IBucketConfig

record IConfig = IBase +
  config_type :: enumConfigType
  config_key :: "string option"
  properties :: config_properties

text \<open>\<open>class DefaultSettings\<close>.\<close>

definition default_systemConfig :: ISystemConfig where
  "default_systemConfig = \<lparr>
     defaultBackgroundColor = ''#FFFFFF'',
     system_defaultMaximumFileSize = 1 * 1024 * 1024 * 1024,
     system_defaultFileBucketId = ''system'',
     defaultProfileBucketId = ''profile'',
     logoLink = None,
     logoSize = [''24px'', ''24px''],
     archiveAddress = '''',
     defaultEventTimeConsumptionBar = [50, 100],
     defaultUserExpireDays = 90,
     jobSchedulerConfig = \<lparr>
       strategy = FIFO,
       usePriority = True,
       reExecuteFailedJobs = True,
       failedJobDelayTime = 10 * 60 * 1000,
       maxAttempts = 10\<rparr>,
     defaultLXDFlavor = (\<lambda>i. case i of
         SMALL \<Rightarrow> \<lparr>cpuLimit = 4, memoryLimit = 16 * 1024 * 1024 * 1024, diskLimit = 40 * 1024 * 1024 * 1024\<rparr>
       | MEDIUM \<Rightarrow> \<lparr>cpuLimit = 8, memoryLimit = 32 * 1024 * 1024 * 1024, diskLimit = 60 * 1024 * 1024 * 1024\<rparr>
       | LARGE \<Rightarrow> \<lparr>cpuLimit = 16, memoryLimit = 64 * 1024 * 1024 * 1024, diskLimit = 80 * 1024 * 1024 * 1024\<rparr>)\<rparr>"

definition default_studyConfig :: IStudyConfig where
  "default_studyConfig = \<lparr>
     defaultStudyProfile = None,
     study_defaultMaximumFileSize = 8 * 1024 * 1024 * 1024,
     defaultRepresentationForMissingValue = ''99999'',
     defaultFileBlocks = [],
     defaultVersioningKeys = []\<rparr>"

definition default_userConfig :: IUserConfig where
  "default_userConfig = \<lparr>
     defaultUserExpiredDays = 90,
     user_defaultMaximumFileSize = 100 * 1024 * 1024,
     defaultMaximumFileRepoSize = 500 * 1024 * 1024,
     defaultMaximumRepoSize = 10 * 1024 * 1024 * 1024,
     user_defaultFileBucketId = ''user'',
     defaultMaximumQPS = 500,
     defaultLXDMaximumInstances = 3,
     defaultLXDMaximumInstanceCPUCores = 3 * 8,
     defaultLXDMaximumInstanceDiskSize = 3 * 40 * 1024 * 1024 * 1024,
     defaultLXDMaximumInstanceMemory = 3 * 16 * 1024 * 1024 * 1024,
     defaultLXDMaximumInstanceLife = 360 * 60 * 60 * 1000,
     defaultLXDflavor = [SMALL, MEDIUM]\<rparr>"

definition default_docConfig :: IBucketConfig where
  "default_docConfig = \<lparr>defaultFileBucketId = ''doc'', defaultMaximumFileSize = 100 * 1024 * 1024\<rparr>"

definition default_cacheConfig :: IBucketConfig where
  "default_cacheConfig = \<lparr>defaultFileBucketId = ''cache'', defaultMaximumFileSize = 100 * 1024 * 1024\<rparr>"

definition default_domainConfig :: IBucketConfig where
  "default_domainConfig = \<lparr>defaultFileBucketId = ''domain'', defaultMaximumFileSize = 10 * 1024 * 1024\<rparr>"

subsection \<open>Studies (\<open>study.ts\<close>)\<close>

record IStudyDataVersion = IBase +
  version :: string
  version_tag :: "string option"

record IStudy = IBase +
  study_name :: string
  currentDataVersion :: int
  dataVersions :: "IStudyDataVersion list"
  study_description :: "string option"
  study_profile :: "string option"
  isPublic :: bool

subsection \<open>Organisations and domains (\<open>organisation.ts\<close>, \<open>domain.ts\<close>)\<close>

record IOrganisation = IBase +
  org_name :: string
  shortname :: "string option"
  org_profile :: "string option"

record IDomain = IBase +
  domainPath :: string
  domain_name :: string
  logo :: "string option"
  color :: "string option"

subsection \<open>Formulas and verifiers (\<open>utils.ts\<close>)\<close>

datatype enumConditionOps =
    NUMERICALEQUAL | NUMERICALNOTEQUAL | NUMERICALLESSTHAN | NUMERICALGREATERTHAN
  | NUMERICALNOTLESSTHAN | NUMERICALNOTGREATERTHAN
  | STRINGREGEXMATCH | STRINGEQUAL | GENERALISNULL | GENERALISNOTNULL

datatype enumASTNodeTypes = OPERATION | VARIABLE | SELF | VALUE | MAP

datatype enumMathOps =
    NUMERICALADD | NUMERICALMINUS | NUMERICALMULTIPLY | NUMERICALDIVIDE | NUMERICALPOW
  | STRINGCONCAT | STRINGSUBSTR | TYPECONVERSION

text \<open>A node of a formula: type, operator, value, parameters, children.\<close>

datatype IAST =
  IAST (ast_type: enumASTNodeTypes) (ast_operator: "enumMathOps option") (ast_value: jsval)
    (ast_parameters: jobject) (ast_children: "IAST list option")

record IValueVerifier =
  formula :: IAST
  condition :: enumConditionOps
  verifier_value :: jsval
  verifier_parameters :: jobject

subsection \<open>Fields and data (\<open>field.ts\<close>, \<open>data.ts\<close>)\<close>

datatype enumDataTypes =
    INTEGER | DECIMAL | STRING | BOOLEAN | DATETIME | FILE_TYPE | JSON_TYPE | CATEGORICAL

record ICategoricalOption = IBase +
  code :: string
  option_description :: string

record IFieldProperty =
  property_name :: string
  property_verifier :: "IValueVerifier list list option"
  property_description :: "string option"
  required :: bool

record IField = IBase +
  field_studyId :: string
  fieldName :: string
  field_fieldId :: string
  field_description :: "string option"
  dataType :: enumDataTypes
  categoricalOptions :: "ICategoricalOption list option"
  unit_of :: "string option"
  comments :: "string option"
  field_dataVersion :: "string option"
  verifier :: "IValueVerifier list list option"
  field_properties :: "IFieldProperty list option"

record IData = IBase +
  data_studyId :: string
  data_fieldId :: string
  data_dataVersion :: "string option"
  data_value :: jsval
  data_properties :: jsval

subsection \<open>Caches (\<open>cache.ts\<close>)\<close>

datatype enumCacheStatus = OUTDATED | INUSE_CACHE

record ICache = IBase +
  keyHash :: string
  cache_keys :: jobject
  cache_uri :: string
  cache_status :: enumCacheStatus

subsection \<open>Jobs (\<open>job.ts\<close>)\<close>

datatype enumJobType = DMPAPI | AE | SYSTEMPROCESS | LXD | LXD_MONITOR

datatype enumJobStatus = PENDING | CANCELLED | FINISHED | INUSE | ERROR

datatype enumJobHistoryStatus = SUCCESS | FAILED

record IJobHistory =
  history_time :: int
  history_status :: enumJobHistoryStatus
  history_errors :: "string list"

record IExecutor =
  executor_id :: string
  executor_path :: string
  executor_type :: "string option"

record IJob = IBase +
  job_name :: string
  nextExecutionTime :: int
  period :: "int option"
  job_type :: enumJobType
  executor :: "IExecutor option"
  job_data :: jsval
  job_parameters :: jsval
  priority :: int
  history :: "IJobHistory list"
  counter :: int
  job_status :: enumJobStatus

record IJobActionReturn =
  successful :: bool
  action_error :: string

subsection \<open>Public keys and logs (\<open>pubkey.ts\<close>, \<open>log.ts\<close>)\<close>

record IPubkey = IBase +
  pubkey :: string
  hashedPrivateKey :: "string option"
  jwtPubkey :: string
  jwtSeckey :: string
  refreshCounter :: int
  associatedUserId :: "string option"
  challenge :: "string option"
  lastUsedTime :: "int option"

datatype enumAPIResolver = TRPC | FILE_RESOLVER

datatype enumEventType = SYSTEM_LOG | API_LOG

datatype enumEventStatus = SUCCESS_EVENT | FAIL_EVENT | UNKNOWN_EVENT

record ILog = IBase +
  log_requester :: string
  log_type :: enumEventType
  apiResolver :: "enumAPIResolver option"
  log_event :: string
  log_parameters :: "jobject option"
  log_status :: enumEventStatus
  log_errors :: "string option"
  timeConsumed :: "int option"

subsection \<open>Authenticators (\<open>webauthn.ts\<close>)\<close>

text \<open>
  \<open>AuthenticatorDevice\<close> with the fields of the package \<open>@simplewebauthn/types\<close> it keeps. The
  transports are stored as the client sent them. Bytes are numbers.
\<close>

record AuthenticatorDevice =
  credentialPublicKey :: "nat list option"
  credentialID :: string
  device_counter :: int
  transports :: jsval
  device_id :: string
  device_name :: "string option"
  device_origin :: "string option"

record IWebAuthn = IBase +
  webauthn_userId :: string
  webauthn_username :: string
  devices :: "AuthenticatorDevice list"
  webauthn_challenge :: "nat list"
  challengeTimestamp :: int

subsection \<open>Instances (\<open>instance.ts\<close>, \<open>lxd.ts\<close>)\<close>

datatype enumInstanceStatus =
    PENDING_INSTANCE | FAILED_INSTANCE | STARTING | STOPPING | RUNNING | STOPPED | DELETED

datatype enumAppType = JUPYTER | MATLAB | DESKTOP

fun app_string :: "enumAppType \<Rightarrow> string" where
  "app_string JUPYTER = ''Jupyter''"
| "app_string MATLAB = ''Matlab''"
| "app_string DESKTOP = ''Desktop''"

datatype enumOpeType = OPE_CREATE | OPE_UPDATE | OPE_STOP | OPE_START | OPE_DELETE

fun ope_string :: "enumOpeType \<Rightarrow> string" where
  "ope_string OPE_CREATE = ''create''"
| "ope_string OPE_UPDATE = ''update''"
| "ope_string OPE_STOP = ''stop''"
| "ope_string OPE_START = ''start''"
| "ope_string OPE_DELETE = ''delete''"

datatype enumMonitorType = STATE | SYNC_DELETION

fun monitor_string :: "enumMonitorType \<Rightarrow> string" where
  "monitor_string STATE = ''state''"
| "monitor_string SYNC_DELETION = ''sync-deletion''"

datatype LXDInstanceTypeEnum = CONTAINER | VIRTUAL_MACHINE

fun lxd_type_string :: "LXDInstanceTypeEnum \<Rightarrow> string" where
  "lxd_type_string CONTAINER = ''container''"
| "lxd_type_string VIRTUAL_MACHINE = ''virtual-machine''"

text \<open>Of the state of a container the model keeps what the code reads.\<close>

record LxdInstanceNetworkAddress =
  address :: string
  family :: string

record LXDInstanceState =
  cpu_usage :: int
  memory_usage :: int
  network :: "(string \<times> LxdInstanceNetworkAddress list) list option"
  hostIp :: "string option"

record IInstance = IBase +
  instance_name :: string
  instance_userId :: string
  instance_username :: string
  instance_status :: enumInstanceStatus
  instance_type :: LXDInstanceTypeEnum
  appType :: enumAppType
  createAt :: int
  lifeSpan :: int
  instanceToken :: string
  instance_project :: "string option"
  webDavToken :: "string option"
  instance_config :: jobject
  lxdState :: "LXDInstanceState option"
  hostMapPort :: "int option"

subsection \<open>Standardisation rules (\<open>standardization.ts\<close>)\<close>

datatype StandardizationRuleSource = SRC_value | SRC_data | SRC_fieldDef | SRC_reserved | SRC_inc

record IStandardizationRule =
  rule_id :: string
  rule_entry :: string
  rule_source :: StandardizationRuleSource
  rule_parameter :: "string list"
  rule_filters :: "jobject option"

text \<open>
  The base document is optional here, and two properties are not declared: a deletion may insert a
  document that has no more than the fields it sets, among them \<open>uploadedAt\<close> and \<open>deleted\<close>.
\<close>

record IStandardization =
  std_id :: string
  std_life :: "ILifeCircle option"
  std_metadata :: jsval
  std_studyId :: string
  std_type :: string
  std_field :: "string list"
  std_path :: "string list option"
  stdRules :: "IStandardizationRule list option"
  joinByKeys :: "string list option"
  std_dataVersion :: "string option"
  std_uploadedAt :: "int option"
  std_deleted :: "int option"

subsection \<open>Mails\<close>

text \<open>
  The mails the portal sends: the address, and what each template inserts. The fixed text of the
  templates is left out.
\<close>

datatype mail =
    Mail_Registered (mail_to: string) (mail_firstname: string) (mail_username: string) (mail_secret: string)
  | Mail_Reset_Link (mail_to: string) (mail_firstname: string) (mail_username: string) (mail_link: string)
  | Mail_Username (mail_to: string) (mail_username: string)
  | Mail_Reset_Done (mail_to: string) (mail_firstname: string) (mail_secret: string)
  | Mail_Expiry_Client (mail_to: string) (mail_username: string)
  | Mail_Expiry_Admin (mail_username: string) (mail_about: string)
  | Mail_Expiry_Updated (mail_to: string) (mail_username: string)

subsection \<open>Responses (\<open>responses.ts\<close>)\<close>

record IGenericResponse =
  resp_successful :: bool
  resp_id :: "string option"
  resp_code :: "string option"
  resp_description :: "string option"

definition makeGenericResponse ::
    "string option \<Rightarrow> bool option \<Rightarrow> string option \<Rightarrow> string option \<Rightarrow> IGenericResponse" where
  "makeGenericResponse i ok c d =
     \<lparr>resp_successful = nullish ok True, resp_id = i, resp_code = c, resp_description = d\<rparr>"

end
