(* ===== verification/Database.thy ===== *)
theory Database
  imports Reference_Store Types
begin

section \<open>The database, its driver and the environment\<close>

text \<open>
  The state every core class shares: the collections of \<open>DBType\<close>, with the unique indexes
  \<open>itmat-setup\<close> creates on them (\<open>collectionsAndIndexes.ts\<close>). The driver of each
  collection is a parameter \<open>M\<close>; \<open>mongo_ok M\<close> says that it obeys the laws of theory
  \<open>Store\<close> and enforces exactly those indexes. The environment \<open>E\<close> supplies what the code
  gets from outside: fresh ids (\<open>uuid()\<close>), the clock (\<open>Date.now()\<close>), the meaning of regular
  expressions given by users (\<open>None\<close> where \<open>new RegExp\<close> throws), the SHA-256 digest and the
  printing of numbers. The counters in the state say how many ids
  and clock readings have been consumed.
\<close>

subsection \<open>Unique indexes\<close>

text \<open>Index keys are compared as JavaScript values; a missing value is \<open>null\<close>.\<close>

definition opt_key :: "string option \<Rightarrow> jsval" where
  "opt_key x = (case x of None \<Rightarrow> JNull | Some y \<Rightarrow> JStr y)"

definition time_key :: "int \<Rightarrow> jsval" where
  "time_key t = JNum (Fin (of_int t))"

definition created_key :: "'a IBase_scheme \<Rightarrow> jsval" where
  "created_key d = time_key (createdTime (life d))"

definition deleted_key :: "'a IBase_scheme \<Rightarrow> jsval" where
  "deleted_key d = (case deletedTime (life d) of None \<Rightarrow> JNull | Some t \<Rightarrow> time_key t)"

fun config_type_key :: "enumConfigType \<Rightarrow> jsval" where
  "config_type_key SYSTEMCONFIG = JStr ''SYSTEMCONFIG''"
| "config_type_key STUDYCONFIG = JStr ''STUDYCONFIG''"
| "config_type_key USERCONFIG = JStr ''USERCONFIG''"
| "config_type_key DOCCONFIG = JStr ''DOCCONFIG''"
| "config_type_key CACHECONFIG = JStr ''CACHECONFIG''"
| "config_type_key DOMAINCONFIG = JStr ''DOMAINCONFIG''"

lemma opt_key_inj [simp]: "opt_key x = opt_key y \<longleftrightarrow> x = y"
  by (simp add: opt_key_def split: option.splits)

lemma time_key_inj [simp]: "time_key x = time_key y \<longleftrightarrow> x = y"
  by (simp add: time_key_def)

lemma config_type_key_inj [simp]: "config_type_key x = config_type_key y \<longleftrightarrow> x = y"
  by (cases x; cases y) simp_all

definition users_indexes :: "(IUser \<Rightarrow> jsval) list" where
  "users_indexes = [\<lambda>d. JStr (doc_id d),
     \<lambda>d. JArr [JStr (username d), deleted_key d],
     \<lambda>d. JArr [JStr (email d), deleted_key d]]"

definition roles_indexes :: "(IRole \<Rightarrow> jsval) list" where
  "roles_indexes = [\<lambda>d. JStr (doc_id d)]"

definition studies_indexes :: "(IStudy \<Rightarrow> jsval) list" where
  "studies_indexes = [\<lambda>d. JStr (doc_id d),
     \<lambda>d. JArr [JStr (study_name d), deleted_key d]]"

definition drives_indexes :: "(IDrive \<Rightarrow> jsval) list" where
  "drives_indexes = [\<lambda>d. JStr (doc_id d)]"

definition files_indexes :: "(IFile \<Rightarrow> jsval) list" where
  "files_indexes = [\<lambda>d. JStr (doc_id d)]"

definition configs_indexes :: "(IConfig \<Rightarrow> jsval) list" where
  "configs_indexes = [\<lambda>d. JStr (doc_id d),
     \<lambda>d. JArr [config_type_key (config_type d), opt_key (config_key d)]]"

definition organisations_indexes :: "(IOrganisation \<Rightarrow> jsval) list" where
  "organisations_indexes = [\<lambda>d. JStr (doc_id d),
     \<lambda>d. JStr (org_name d)]"

definition domains_indexes :: "(IDomain \<Rightarrow> jsval) list" where
  "domains_indexes = [\<lambda>d. JStr (doc_id d),
     \<lambda>d. JStr (domainPath d)]"

definition jobs_indexes :: "(IJob \<Rightarrow> jsval) list" where
  "jobs_indexes = [\<lambda>d. JStr (doc_id d)]"

text \<open>
  The second index of the field dictionary covers the array \<open>properties\<close> (a multikey index),
  whose conflicts the model leaves open: of this collection it only requires the index on \<open>id\<close>.
\<close>

definition field_dictionary_indexes :: "(IField \<Rightarrow> jsval) list" where
  "field_dictionary_indexes = [\<lambda>d. JStr (doc_id d)]"

definition data_indexes :: "(IData \<Rightarrow> jsval) list" where
  "data_indexes = [\<lambda>d. JStr (doc_id d),
     \<lambda>d. JArr [JStr (data_studyId d), JStr (data_fieldId d), created_key d, deleted_key d,
       data_properties d]]"

definition colddata_indexes :: "(IData \<Rightarrow> jsval) list" where
  "colddata_indexes = [\<lambda>d. JStr (doc_id d),
     \<lambda>d. JArr [JStr (data_studyId d), JStr (data_fieldId d), created_key d, deleted_key d,
       data_properties d]]"

definition pubkeys_indexes :: "(IPubkey \<Rightarrow> jsval) list" where
  "pubkeys_indexes = [\<lambda>d. JStr (doc_id d), \<lambda>d. JStr (pubkey d)]"

definition log_indexes :: "(ILog \<Rightarrow> jsval) list" where
  "log_indexes = [\<lambda>d. JStr (doc_id d)]"

definition webauthn_indexes :: "(IWebAuthn \<Rightarrow> jsval) list" where
  "webauthn_indexes = [\<lambda>d. JStr (doc_id d)]"

definition instance_indexes :: "(IInstance \<Rightarrow> jsval) list" where
  "instance_indexes = [\<lambda>d. JStr (doc_id d)]"

definition standardizations_indexes :: "(IStandardization \<Rightarrow> jsval) list" where
  "standardizations_indexes = [\<lambda>d. JStr (std_id d)]"

definition cache_indexes :: "(ICache \<Rightarrow> jsval) list" where
  "cache_indexes = [\<lambda>d. JStr (doc_id d),
     \<lambda>d. JArr [JStr (keyHash d), created_key d]]"

subsection \<open>State, drivers, environment\<close>

text \<open>
  The object store: its buckets, and the content of each object by bucket and object name. Its
  client is the \<open>minio\<close> package, a parameter as the database driver is: an operation that
  throws is \<open>None\<close>.
\<close>

record ostore =
  buckets :: "string list"
  objects :: "((string \<times> string) \<times> string) list"

record minio_client =
  bucketExists :: "ostore \<Rightarrow> string \<Rightarrow> bool"
  makeBucket :: "ostore \<Rightarrow> string \<Rightarrow> ostore option"
  statObject :: "ostore \<Rightarrow> string \<Rightarrow> string \<Rightarrow> bool"
  putObject :: "ostore \<Rightarrow> string \<Rightarrow> string \<Rightarrow> string \<Rightarrow> ostore option"
  minio_copyObject :: "ostore \<Rightarrow> string \<Rightarrow> string \<Rightarrow> string \<Rightarrow> string \<Rightarrow> ostore option"
  getObject :: "ostore \<Rightarrow> string \<Rightarrow> string \<Rightarrow> string option"

text \<open>
  The cryptographic functions the sources call (\<open>bcrypt\<close>, \<open>crypto\<close>, \<open>hi-base32\<close>,
  \<open>jsonwebtoken\<close>). A function that draws random numbers takes the number of the draw; one
  that can throw returns an option, or a sum where the message of the exception is read. Bytes
  are numbers. \<open>verify_rsa_sha256\<close> and \<open>verify_challenge\<close> are the two ways \<open>crypto.verify\<close> is
  called.
\<close>

record crypto_client =
  bcrypt_hash :: "nat \<Rightarrow> string \<Rightarrow> string"
  bcrypt_compare :: "string \<Rightarrow> string \<Rightarrow> bool"
  randomBytes :: "nat \<Rightarrow> nat \<Rightarrow> nat list"
  base32_encode :: "nat list \<Rightarrow> string"
  base32_decode :: "string \<Rightarrow> nat list option"
  hmac_sha1 :: "nat list \<Rightarrow> nat list \<Rightarrow> nat list"
  aes_encrypt :: "string \<Rightarrow> string \<Rightarrow> string \<Rightarrow> string \<Rightarrow> string"
  aes_decrypt :: "string \<Rightarrow> string \<Rightarrow> string \<Rightarrow> string \<Rightarrow> string option"
  rsa_keygen :: "nat \<Rightarrow> string \<times> string"
  verify_rsa_sha256 :: "string \<Rightarrow> string \<Rightarrow> string \<Rightarrow> bool option"
  verify_challenge :: "string \<Rightarrow> string \<Rightarrow> string \<Rightarrow> bool option"
  sha256_base64 :: "string \<Rightarrow> string"
  rsa_sign :: "string \<Rightarrow> string \<Rightarrow> string + string"
  publicKey_of :: "string \<Rightarrow> string + string"
  jwt_sign :: "jobject \<Rightarrow> string \<Rightarrow> int option \<Rightarrow> string option"
  jwt_decode :: "string \<Rightarrow> jsval"
  jwt_verify :: "string \<Rightarrow> jsval \<Rightarrow> bool"

text \<open>
  The functions of the package \<open>@simplewebauthn/server\<close>. They take one object and throw or answer;
  of a verified registration the code keeps the public key, the id of the credential and the counter, of a
  verified assertion the new counter.
\<close>

record webauthn_client =
  generateRegistrationOptions :: "jobject \<Rightarrow> jsval option"
  verifyRegistrationResponse :: "jobject \<Rightarrow> (bool \<times> (nat list \<times> string \<times> int) option) option"
  generateAuthenticationOptions :: "jobject \<Rightarrow> jsval option"
  verifyAuthenticationResponse :: "jobject \<Rightarrow> (bool \<times> int) option"
  isoBase64URL_fromBuffer :: "nat list \<Rightarrow> string"

text \<open>
  Requests to the REST interface of the container server: method, address, and body. The client is the
  package \<open>axios\<close>, set up to throw for a status from 500 on and when there is no answer at all; the response is
  part of the exception where there was one. What the server answers may depend on all requests so far.
\<close>

type_synonym lxd_request = "string \<times> string \<times> jsval"

datatype axios_answer = Answer int jsval | AxiosError "(int \<times> jsval) option" string

record db =
  users_collection :: "IUser list"
  roles_collection :: "IRole list"
  studies_collection :: "IStudy list"
  drives_collection :: "IDrive list"
  files_collection :: "IFile list"
  configs_collection :: "IConfig list"
  organisations_collection :: "IOrganisation list"
  domains_collection :: "IDomain list"
  jobs_collection :: "IJob list"
  field_dictionary_collection :: "IField list"
  data_collection :: "IData list"
  colddata_collection :: "IData list"
  cache_collection :: "ICache list"
  pubkeys_collection :: "IPubkey list"
  log_collection :: "ILog list"
  webauthn_collection :: "IWebAuthn list"
  instance_collection :: "IInstance list"
  standardizations_collection :: "IStandardization list"
  store :: ostore
  outbox :: "mail list"
  lxd_requests :: "lxd_request list"
  uuid_next :: nat
  tick :: nat
  draws :: nat

text \<open>
  \<open>filter_value v\<close> is what the value \<open>v\<close> of a filter accepts of a string field: a string accepts
  itself, an object is read as a query.
\<close>

record mongo =
  users_dr :: "IUser driver"
  roles_dr :: "IRole driver"
  studies_dr :: "IStudy driver"
  drives_dr :: "IDrive driver"
  files_dr :: "IFile driver"
  configs_dr :: "IConfig driver"
  organisations_dr :: "IOrganisation driver"
  domains_dr :: "IDomain driver"
  jobs_dr :: "IJob driver"
  field_dictionary_dr :: "IField driver"
  data_dr :: "IData driver"
  colddata_dr :: "IData driver"
  cache_dr :: "ICache driver"
  pubkeys_dr :: "IPubkey driver"
  log_dr :: "ILog driver"
  webauthn_dr :: "IWebAuthn driver"
  instance_dr :: "IInstance driver"
  standardizations_dr :: "IStandardization driver"
  filter_value :: "jsval \<Rightarrow> string \<Rightarrow> bool"

record env =
  uuid_gen :: "nat \<Rightarrow> string"
  clock :: "nat \<Rightarrow> int"
  RegExp :: "string \<Rightarrow> (string \<Rightarrow> bool) option"
  RegExp_i :: "string \<Rightarrow> (string \<Rightarrow> bool) option"
  sha256 :: "string \<Rightarrow> string"
  num_to_string :: "jnum \<Rightarrow> string"
  minio :: minio_client
  crypto :: crypto_client
  webauthn :: webauthn_client
  lxd_server :: "lxd_request list \<Rightarrow> axios_answer"
  url_hostname :: "string \<Rightarrow> string option"
  sendMail :: "mail list \<Rightarrow> mail \<Rightarrow> bool"
  aesSecret :: string
  math_pow :: "jnum \<Rightarrow> jnum \<Rightarrow> jnum"

text \<open>
  \<open>uuid()\<close> and \<open>Date.now()\<close> consume one element of their supply, and so does each call of a
  function that draws random numbers.
\<close>

definition uuid :: "env \<Rightarrow> db \<Rightarrow> string \<times> db" where
  "uuid E s = (uuid_gen E (uuid_next s), s\<lparr>uuid_next := Suc (uuid_next s)\<rparr>)"

definition Date_now :: "env \<Rightarrow> db \<Rightarrow> int \<times> db" where
  "Date_now E s = (clock E (tick s), s\<lparr>tick := Suc (tick s)\<rparr>)"

definition random_draw :: "db \<Rightarrow> nat \<times> db" where
  "random_draw s = (draws s, s\<lparr>draws := Suc (draws s)\<rparr>)"

definition mark_deleted :: "int \<Rightarrow> uref \<Rightarrow> 'a IBase_scheme \<Rightarrow> 'a IBase_scheme" where
  "mark_deleted t u d = d\<lparr>life := (life d)\<lparr>deletedTime := Some t, deletedUser := Some u\<rparr>\<rparr>"

lemma mark_deleted_id [simp]: "doc_id (mark_deleted t u d) = doc_id d"
  by (simp add: mark_deleted_def)

lemma mark_deleted_dead [simp]: "\<not> alive (mark_deleted t u d)"
  by (simp add: mark_deleted_def alive_def)

subsection \<open>What the code relies on\<close>

definition mongo_ok :: "mongo \<Rightarrow> bool" where
  "mongo_ok M \<longleftrightarrow>
     (document_store (users_dr M) \<and> indexes (users_dr M) = users_indexes) \<and>
     (document_store (roles_dr M) \<and> indexes (roles_dr M) = roles_indexes) \<and>
     (document_store (studies_dr M) \<and> indexes (studies_dr M) = studies_indexes) \<and>
     (document_store (drives_dr M) \<and> indexes (drives_dr M) = drives_indexes) \<and>
     (document_store (files_dr M) \<and> indexes (files_dr M) = files_indexes) \<and>
     (document_store (configs_dr M) \<and> indexes (configs_dr M) = configs_indexes) \<and>
     (document_store (organisations_dr M) \<and> indexes (organisations_dr M) = organisations_indexes) \<and>
     (document_store (domains_dr M) \<and> indexes (domains_dr M) = domains_indexes) \<and>
     (document_store (jobs_dr M) \<and> indexes (jobs_dr M) = jobs_indexes) \<and>
     (document_store (field_dictionary_dr M) \<and> set field_dictionary_indexes \<subseteq> set (indexes (field_dictionary_dr M))) \<and>
     (document_store (data_dr M) \<and> indexes (data_dr M) = data_indexes) \<and>
     (document_store (colddata_dr M) \<and> indexes (colddata_dr M) = colddata_indexes) \<and>
     (document_store (cache_dr M) \<and> indexes (cache_dr M) = cache_indexes) \<and>
     (document_store (pubkeys_dr M) \<and> indexes (pubkeys_dr M) = pubkeys_indexes) \<and>
     (document_store (log_dr M) \<and> indexes (log_dr M) = log_indexes) \<and>
     (document_store (webauthn_dr M) \<and> indexes (webauthn_dr M) = webauthn_indexes) \<and>
     (document_store (instance_dr M) \<and> indexes (instance_dr M) = instance_indexes) \<and>
     (document_store (standardizations_dr M) \<and> indexes (standardizations_dr M) = standardizations_indexes) \<and>
     (\<forall>x y. filter_value M (JStr x) y \<longleftrightarrow> x = y)"

text \<open>Every collection respects its unique indexes.\<close>

definition db_indexed :: "mongo \<Rightarrow> db \<Rightarrow> bool" where
  "db_indexed M s \<longleftrightarrow>
     indexed (users_dr M) (users_collection s) \<and>
     indexed (roles_dr M) (roles_collection s) \<and>
     indexed (studies_dr M) (studies_collection s) \<and>
     indexed (drives_dr M) (drives_collection s) \<and>
     indexed (files_dr M) (files_collection s) \<and>
     indexed (configs_dr M) (configs_collection s) \<and>
     indexed (organisations_dr M) (organisations_collection s) \<and>
     indexed (domains_dr M) (domains_collection s) \<and>
     indexed (jobs_dr M) (jobs_collection s) \<and>
     indexed (field_dictionary_dr M) (field_dictionary_collection s) \<and>
     indexed (data_dr M) (data_collection s) \<and>
     indexed (colddata_dr M) (colddata_collection s) \<and>
     indexed (cache_dr M) (cache_collection s) \<and>
     indexed (pubkeys_dr M) (pubkeys_collection s) \<and>
     indexed (log_dr M) (log_collection s) \<and>
     indexed (webauthn_dr M) (webauthn_collection s) \<and>
     indexed (instance_dr M) (instance_collection s) \<and>
     indexed (standardizations_dr M) (standardizations_collection s)"

text \<open>
  Ids still to be drawn are new: no two draws agree (\<open>uuid\<close> version 4), and no document carries
  one already.
\<close>

definition uuid_ok :: "env \<Rightarrow> bool" where
  "uuid_ok E \<longleftrightarrow> inj (uuid_gen E)"

locale mongo_db =
  fixes M :: mongo
  assumes ok: "mongo_ok M"

sublocale mongo_db < users_store: id_store "users_dr M" doc_id
  using ok by (intro id_store.intro id_store_axioms.intro) (simp_all add: mongo_ok_def users_indexes_def)

sublocale mongo_db < roles_store: id_store "roles_dr M" doc_id
  using ok by (intro id_store.intro id_store_axioms.intro) (simp_all add: mongo_ok_def roles_indexes_def)

sublocale mongo_db < studies_store: id_store "studies_dr M" doc_id
  using ok by (intro id_store.intro id_store_axioms.intro) (simp_all add: mongo_ok_def studies_indexes_def)

sublocale mongo_db < drives_store: id_store "drives_dr M" doc_id
  using ok by (intro id_store.intro id_store_axioms.intro) (simp_all add: mongo_ok_def drives_indexes_def)

sublocale mongo_db < files_store: id_store "files_dr M" doc_id
  using ok by (intro id_store.intro id_store_axioms.intro) (simp_all add: mongo_ok_def files_indexes_def)

sublocale mongo_db < configs_store: id_store "configs_dr M" doc_id
  using ok by (intro id_store.intro id_store_axioms.intro) (simp_all add: mongo_ok_def configs_indexes_def)

sublocale mongo_db < organisations_store: id_store "organisations_dr M" doc_id
  using ok by (intro id_store.intro id_store_axioms.intro) (simp_all add: mongo_ok_def organisations_indexes_def)

sublocale mongo_db < domains_store: id_store "domains_dr M" doc_id
  using ok by (intro id_store.intro id_store_axioms.intro) (simp_all add: mongo_ok_def domains_indexes_def)

sublocale mongo_db < jobs_store: id_store "jobs_dr M" doc_id
  using ok by (intro id_store.intro id_store_axioms.intro) (simp_all add: mongo_ok_def jobs_indexes_def)

sublocale mongo_db < field_dictionary_store: id_store "field_dictionary_dr M" doc_id
  using ok by (intro id_store.intro id_store_axioms.intro) (simp_all add: mongo_ok_def field_dictionary_indexes_def)

sublocale mongo_db < data_store: id_store "data_dr M" doc_id
  using ok by (intro id_store.intro id_store_axioms.intro) (simp_all add: mongo_ok_def data_indexes_def)

sublocale mongo_db < colddata_store: id_store "colddata_dr M" doc_id
  using ok by (intro id_store.intro id_store_axioms.intro) (simp_all add: mongo_ok_def colddata_indexes_def)

sublocale mongo_db < cache_store: id_store "cache_dr M" doc_id
  using ok by (intro id_store.intro id_store_axioms.intro) (simp_all add: mongo_ok_def cache_indexes_def)

sublocale mongo_db < pubkeys_store: id_store "pubkeys_dr M" doc_id
  using ok by (intro id_store.intro id_store_axioms.intro) (simp_all add: mongo_ok_def pubkeys_indexes_def)

sublocale mongo_db < log_store: id_store "log_dr M" doc_id
  using ok by (intro id_store.intro id_store_axioms.intro) (simp_all add: mongo_ok_def log_indexes_def)

sublocale mongo_db < webauthn_store: id_store "webauthn_dr M" doc_id
  using ok by (intro id_store.intro id_store_axioms.intro) (simp_all add: mongo_ok_def webauthn_indexes_def)

sublocale mongo_db < instance_store: id_store "instance_dr M" doc_id
  using ok by (intro id_store.intro id_store_axioms.intro) (simp_all add: mongo_ok_def instance_indexes_def)

sublocale mongo_db < standardizations_store: id_store "standardizations_dr M" std_id
  using ok by (intro id_store.intro id_store_axioms.intro) (simp_all add: mongo_ok_def standardizations_indexes_def)

text \<open>The reference driver of every collection, with the indexes of the setup package.\<close>

definition list_mongo :: mongo where
  "list_mongo = \<lparr>
     users_dr = list_driver users_indexes,
     roles_dr = list_driver roles_indexes,
     studies_dr = list_driver studies_indexes,
     drives_dr = list_driver drives_indexes,
     files_dr = list_driver files_indexes,
     configs_dr = list_driver configs_indexes,
     organisations_dr = list_driver organisations_indexes,
     domains_dr = list_driver domains_indexes,
     jobs_dr = list_driver jobs_indexes,
     field_dictionary_dr = list_driver field_dictionary_indexes,
     data_dr = list_driver data_indexes,
     colddata_dr = list_driver colddata_indexes,
     cache_dr = list_driver cache_indexes,
     pubkeys_dr = list_driver pubkeys_indexes,
     log_dr = list_driver log_indexes,
     webauthn_dr = list_driver webauthn_indexes,
     instance_dr = list_driver instance_indexes,
     standardizations_dr = list_driver standardizations_indexes,
     filter_value = (\<lambda>v y. v = JStr y)\<rparr>"

lemma list_mongo_ok: "mongo_ok list_mongo"
  by (simp add: mongo_ok_def list_mongo_def list_store.document_store_axioms)

interpretation list_db: mongo_db list_mongo
  by unfold_locales (rule list_mongo_ok)

end
