(* ===== verification/Samples.thy ===== *)
theory Samples
  imports Database
begin

section \<open>Concrete inputs for the witnesses\<close>

text \<open>
  A concrete environment, with an object store that keeps its objects in a list, and an empty
  database. Ids are strings of growing length, so they are
  all different; the clock counts; a pattern matches exactly itself, and the empty string is not
  a regular expression.
\<close>

definition list_minio :: minio_client where
  "list_minio = \<lparr>
     bucketExists = (\<lambda>st b. b \<in> set (buckets st)),
     makeBucket = (\<lambda>st b. Some (st\<lparr>buckets := b # buckets st\<rparr>)),
     statObject = (\<lambda>st b u. map_of (objects st) (b, u) \<noteq> None),
     putObject = (\<lambda>st b u x. Some (st\<lparr>objects := ((b, u), x) # objects st\<rparr>)),
     minio_copyObject = (\<lambda>st tb tu sb su.
       case map_of (objects st) (sb, su) of
         None \<Rightarrow> None
       | Some x \<Rightarrow> Some (st\<lparr>objects := ((tb, tu), x) # objects st\<rparr>)),
     getObject = (\<lambda>st b u. map_of (objects st) (b, u))\<rparr>"

text \<open>
  A stand-in for the cryptographic functions, good enough to run the code: a hash names its
  password, a ciphertext its key and its text, a signature its message.
\<close>

definition crypto0 :: crypto_client where
  "crypto0 = \<lparr>
     bcrypt_hash = (\<lambda>n p. CHR ''h'' # p),
     bcrypt_compare = (\<lambda>p h. h = CHR ''h'' # p),
     randomBytes = (\<lambda>n k. replicate k (n mod 256)),
     base32_encode = (\<lambda>bs. map (\<lambda>b. char_of b) bs),
     base32_decode = (\<lambda>x. Some (map of_char x)),
     hmac_sha1 = (\<lambda>k m. replicate 20 0),
     aes_encrypt = (\<lambda>sec salt iv x. salt @ x),
     aes_decrypt = (\<lambda>sec salt iv x. if take (length salt) x = salt then Some (drop (length salt) x) else None),
     rsa_keygen = (\<lambda>n. (''pk'' @ replicate n (CHR ''i''), ''sk'' @ replicate n (CHR ''i''))),
     verify_rsa_sha256 = (\<lambda>pk m sig. Some (sig = pk)),
     verify_challenge = (\<lambda>pk m sig. Some (sig = pk @ m)),
     sha256_base64 = (\<lambda>x. x),
     rsa_sign = (\<lambda>sk m. if sk = [] then Inl ''bad key'' else Inr (sk @ m)),
     publicKey_of = (\<lambda>sk. if sk = [] then Inl ''bad key'' else Inr (''pk'' @ drop 2 sk)),
     jwt_sign = (\<lambda>p k l. Some (''token'' @ k)),
     jwt_decode = (\<lambda>t. JObj [(''publicKey'', JStr (''pk'' @ drop 7 t))]),
     jwt_verify = (\<lambda>t k. k = JStr (''pk'' @ drop 7 t))\<rparr>"

text \<open>
  A stand-in for the ceremonies of an authenticator: a response is accepted when it repeats the
  challenge, and the counter stays 0, as it does with authenticators that have none.
\<close>

definition webauthn0 :: webauthn_client where
  "webauthn0 = \<lparr>
     generateRegistrationOptions = (\<lambda>a. Some (JObj a)),
     verifyRegistrationResponse = (\<lambda>a. Some (True, Some ([1], ''credential'', 0))),
     generateAuthenticationOptions = (\<lambda>a. Some (JObj a)),
     verifyAuthenticationResponse = (\<lambda>a.
       Some (js_get a ''response'' = JObj [(''rawId'', JStr ''credential''), (''signed'', js_get a ''expectedChallenge'')], 0)),
     isoBase64URL_fromBuffer = map char_of\<rparr>"

definition env0 :: env where
  "env0 = \<lparr>
     uuid_gen = (\<lambda>n. ''id-'' @ replicate n (CHR ''i'')),
     clock = (\<lambda>n. 1000 + int n),
     RegExp = (\<lambda>re. if re = [] then None else Some (\<lambda>v. v = re)),
     RegExp_i = (\<lambda>re. if re = [] then None else Some (\<lambda>v. v = re)),
     sha256 = (\<lambda>x. x),
     num_to_string = (\<lambda>n. ''n''),
     minio = list_minio,
     crypto = crypto0,
     webauthn = webauthn0,
     lxd_server = (\<lambda>rs. Answer 404 (JObj [(''metadata'', JNull)])),
     url_hostname = (\<lambda>u. Some u),
     sendMail = (\<lambda>ms m. True),
     aesSecret = ''secret'',
     math_pow = (\<lambda>x y. case (x, y) of
       (Fin a, Fin b) \<Rightarrow> if 0 \<le> b \<and> b = of_int \<lfloor>b\<rfloor> then Fin (a ^ nat \<lfloor>b\<rfloor>) else NaN
     | _ \<Rightarrow> NaN)\<rparr>"

definition db0 :: db where
  "db0 = \<lparr>
     users_collection = [],
     roles_collection = [],
     studies_collection = [],
     drives_collection = [],
     files_collection = [],
     configs_collection = [],
     organisations_collection = [],
     domains_collection = [],
     jobs_collection = [],
     field_dictionary_collection = [],
     data_collection = [],
     colddata_collection = [],
     cache_collection = [],
     pubkeys_collection = [],
     log_collection = [],
     webauthn_collection = [],
     instance_collection = [],
     standardizations_collection = [],
     store = \<lparr>buckets = [], objects = []\<rparr>, outbox = [], lxd_requests = [], uuid_next = 0, tick = 0, draws = 0\<rparr>"

definition life0 :: ILifeCircle where
  "life0 = new_life 1 ''admin''"

definition user0 :: "string \<Rightarrow> enumUserTypes \<Rightarrow> IUserWithoutToken" where
  "user0 i t = \<lparr>doc_id = i, life = life0, metadata = [],
     username = i, email = i, firstname = i, lastname = i, organisation = ''org'',
     user_type = t, emailNotificationsActivated = False, expiringNotification = False,
     resetPasswordRequests = [], user_profile = None, expiredAt = 5000, user_description = None\<rparr>"

definition with_token :: "IUserWithoutToken \<Rightarrow> IUser" where
  "with_token u = IUserWithoutToken.extend u (IUser.fields ''pw'' ''otp'')"

definition role0 :: "string \<Rightarrow> string \<Rightarrow> enumStudyRoles \<Rightarrow> string list \<Rightarrow> IDataPermission list \<Rightarrow> IRole" where
  "role0 i st r us dps = \<lparr>doc_id = i, life = life0, metadata = [],
     role_studyId = st, role_name = ''Guest'', role_description = None, dataPermissions = dps,
     studyRole = r, role_users = us\<rparr>"

definition study0 :: "string \<Rightarrow> IStudy" where
  "study0 i = \<lparr>doc_id = i, life = life0, metadata = [], study_name = i, currentDataVersion = -1,
     dataVersions = [], study_description = None, study_profile = None, isPublic = True\<rparr>"

lemma alive_life0 [simp]: "life d = life0 \<Longrightarrow> alive d"
  by (simp add: life0_def)

lemma env0_uuid: "uuid_ok env0"
proof -
  have "replicate m (CHR ''i'') = replicate n (CHR ''i'') \<Longrightarrow> m = n" for m n
    by (drule arg_cong[of _ _ length]) simp
  then show ?thesis by (auto simp: uuid_ok_def env0_def inj_def)
qed

lemmas sample_defs = env0_def webauthn0_def list_minio_def db0_def life0_def new_life_def user0_def with_token_def role0_def
  study0_def IUserWithoutToken.extend_def IUser.fields_def

end
