(* ===== verification/Permission.thy ===== *)
theory Permission
  imports Samples
begin

section \<open>Roles and permissions (\<open>permissionCore.ts\<close>)\<close>

text \<open>
  The class \<open>PermissionCore\<close>: the roles of a user, the decision whether a user may read, write
  or delete a field or a data clip, and the operations on roles. An operation takes the
  environment, the driver and the requester, and returns its result (or what it throws) with the
  new state.
\<close>

subsection \<open>Reading roles\<close>

definition getUsersOfRole :: "mongo \<Rightarrow> db \<Rightarrow> string \<Rightarrow> IUserWithoutToken list result" where
  "getUsersOfRole M s roleId =
     (case findOne (roles_dr M) (roles_collection s) (\<lambda>r. doc_id r = roleId \<and> alive r) of
        None \<Rightarrow> Inl (core_error NO_PERMISSION_ERROR)
      | Some role \<Rightarrow>
          Inr (map IUserWithoutToken.truncate
                (find_many (users_dr M) (users_collection s) (\<lambda>u. doc_id u \<in> set (role_users role)))))"

definition getRolesOfUser ::
    "mongo \<Rightarrow> db \<Rightarrow> requester \<Rightarrow> string \<Rightarrow> string option \<Rightarrow> IRole list result" where
  "getRolesOfUser M s requester userId studyId =
     (case requester of
        None \<Rightarrow> Inl (core_error NOT_LOGGED_IN)
      | Some req \<Rightarrow>
          if truthy studyId
          then Inr (find_many (roles_dr M) (roles_collection s)
                 (\<lambda>r. Some (role_studyId r) = studyId \<and> userId \<in> set (role_users r) \<and> alive r))
          else if user_type req \<noteq> ADMIN \<and> doc_id req \<noteq> userId
          then Inl (core_error NO_PERMISSION_ERROR)
          else Inr (find_many (roles_dr M) (roles_collection s)
                 (\<lambda>r. userId \<in> set (role_users r) \<and> alive r)))"

text \<open>
  \<open>requester.type !== ADMIN && roles.every(role => role.studyRole !== STUDY_MANAGER)\<close>, the guard
  several operations repeat.
\<close>

definition not_manager :: "IUserWithoutToken \<Rightarrow> IRole list \<Rightarrow> bool" where
  "not_manager req roles \<longleftrightarrow>
     user_type req \<noteq> ADMIN \<and> list_all (\<lambda>r. studyRole r \<noteq> STUDY_MANAGER) roles"

definition getRolesOfStudy :: "mongo \<Rightarrow> db \<Rightarrow> requester \<Rightarrow> string \<Rightarrow> IRole list result" where
  "getRolesOfStudy M s requester studyId =
     (case requester of
        None \<Rightarrow> Inl (core_error NOT_LOGGED_IN)
      | Some req \<Rightarrow>
          (case getRolesOfUser M s requester (doc_id req) (Some studyId) of
             Inl e \<Rightarrow> Inl e
           | Inr roles \<Rightarrow>
               if not_manager req roles then Inl (core_error NO_PERMISSION_ERROR)
               else Inr (find_many (roles_dr M) (roles_collection s)
                      (\<lambda>r. role_studyId r = studyId \<and> alive r))))"

subsection \<open>The permission check\<close>

text \<open>
  The entry that is checked, \<open>Partial<IField> | Partial<IData>\<close>: its \<open>fieldId\<close>, whether it has a
  property \<open>value\<close>, and its \<open>properties\<close>.
\<close>

record perm_entry =
  entry_fieldId :: "string option"
  entry_has_value :: bool
  entry_properties :: "jobject option"

text \<open>\<open>String(x)\<close>.\<close>

fun join_with :: "string \<Rightarrow> string list \<Rightarrow> string" where
  "join_with sep [] = []"
| "join_with sep [x] = x"
| "join_with sep (x # xs) = x @ sep @ join_with sep xs"

fun js_String :: "env \<Rightarrow> jsval \<Rightarrow> string" where
  "js_String E JUndef = ''undefined''"
| "js_String E JNull = ''null''"
| "js_String E (JBool b) = (if b then ''true'' else ''false'')"
| "js_String E (JNum n) = num_to_string E n"
| "js_String E (JStr x) = x"
| "js_String E (JArr xs) =
     join_with '','' (map (\<lambda>x. case x of JUndef \<Rightarrow> [] | JNull \<Rightarrow> [] | _ \<Rightarrow> js_String E x) xs)"
| "js_String E (JObj _) = ''[object Object]''"

text \<open>
  \<open>res.every(re => !(new RegExp(re).test(v)))\<close>: stops at the first match, and throws where it
  reaches a pattern that is not a regular expression.
\<close>

fun every_no_match :: "env \<Rightarrow> string list \<Rightarrow> string \<Rightarrow> bool result" where
  "every_no_match E [] v = Inr True"
| "every_no_match E (re # res) v =
     (case RegExp E re of
        None \<Rightarrow> Inl (JSError ''SyntaxError'')
      | Some test \<Rightarrow> if test v then Inr False else every_no_match E res v)"

text \<open>The loop over the property patterns of one data permission.\<close>

fun properties_tag :: "env \<Rightarrow> jobject \<Rightarrow> (string \<times> string list) list \<Rightarrow> bool \<Rightarrow> bool result" where
  "properties_tag E props [] tag = Inr tag"
| "properties_tag E props ((property, pats) # rest) tag =
     (case every_no_match E pats (js_String E (js_get props property)) of
        Inl e \<Rightarrow> Inl e
      | Inr none \<Rightarrow> properties_tag E props rest (if none then False else tag))"

text \<open>The loop over the data permissions of one role.\<close>

fun role_tag ::
    "env \<Rightarrow> perm_entry \<Rightarrow> enumDataAtomicPermissions \<Rightarrow> IDataPermission list \<Rightarrow> bool \<Rightarrow> bool result" where
  "role_tag E entry p [] tag = Inr tag"
| "role_tag E entry p (dp # dps) tag =
     (case every_no_match E (perm_fields dp) (nullish (entry_fieldId entry) ''undefined'') of
        Inl e \<Rightarrow> Inl e
      | Inr none \<Rightarrow>
          (let tag1 = (if none then False else tag)
           in case (if entry_has_value entry
                    then (case entry_properties entry of
                            None \<Rightarrow> Inr tag1
                          | Some props \<Rightarrow> properties_tag E props (dataProperties dp) tag1)
                    else Inr tag1) of
                Inl e \<Rightarrow> Inl e
              | Inr tag2 \<Rightarrow>
                  role_tag E entry p dps
                    (if permission dp \<notin> set (permissionString p) then False else tag2)))"

text \<open>The loop over the roles, collecting one tag each.\<close>

fun roles_tags ::
    "env \<Rightarrow> perm_entry \<Rightarrow> enumDataAtomicPermissions \<Rightarrow> IRole list \<Rightarrow> bool list result" where
  "roles_tags E entry p [] = Inr []"
| "roles_tags E entry p (r # rs) =
     (case role_tag E entry p (dataPermissions r) True of
        Inl e \<Rightarrow> Inl e
      | Inr tag \<Rightarrow>
          (case roles_tags E entry p rs of
             Inl e \<Rightarrow> Inl e
           | Inr tags \<Rightarrow> Inr (tag # tags)))"

definition checkFieldOrDataPermission ::
    "env \<Rightarrow> mongo \<Rightarrow> db \<Rightarrow> IUserWithoutToken \<Rightarrow> string \<Rightarrow> perm_entry \<Rightarrow> enumDataAtomicPermissions
     \<Rightarrow> bool result" where
  "checkFieldOrDataPermission E M s user studyId entry p =
     (case getRolesOfUser M s (Some user) (doc_id user) (Some studyId) of
        Inl e \<Rightarrow> Inl e
      | Inr roles \<Rightarrow>
          (case roles_tags E entry p roles of
             Inl e \<Rightarrow> Inl e
           | Inr tags \<Rightarrow> Inr (\<not> list_all (\<lambda>tag. tag = False) tags)))"

subsection \<open>Operations on roles\<close>

definition default_dataPermissions :: "IDataPermission list" where
  "default_dataPermissions =
     [\<lparr>perm_fields = [], dataProperties = [], includeUnVersioned = False, permission = 0\<rparr>]"

definition createStudyRole ::
    "env \<Rightarrow> mongo \<Rightarrow> requester \<Rightarrow> string \<Rightarrow> string \<Rightarrow> string option \<Rightarrow> IDataPermission list option
     \<Rightarrow> enumStudyRoles option \<Rightarrow> string list option \<Rightarrow> db \<Rightarrow> IRole result \<times> db" where
  "createStudyRole E M requester studyId name description dps srole users s =
     (case requester of
        None \<Rightarrow> (Inl (core_error NOT_LOGGED_IN), s)
      | Some req \<Rightarrow>
          (case getRolesOfUser M s requester (doc_id req) (Some studyId) of
             Inl e \<Rightarrow> (Inl e, s)
           | Inr roles \<Rightarrow>
               if not_manager req roles then (Inl (core_error NO_PERMISSION_ERROR), s)
               else
                 (let (newId, s1) = uuid E s;
                      (now, s2) = Date_now E s1;
                      newRole = \<lparr>doc_id = newId, life = new_life now (doc_id req), metadata = [],
                        role_studyId = studyId, role_name = name, role_description = description,
                        dataPermissions = nullish dps default_dataPermissions,
                        studyRole = nullish srole STUDY_USER,
                        role_users = nullish users []\<rparr>
                  in case insertOne (roles_dr M) (roles_collection s2) newRole of
                       None \<Rightarrow> (Inl MongoServerError, s2)
                     | Some c \<Rightarrow> (Inr newRole, s2\<lparr>roles_collection := c\<rparr>))))"

text \<open>The \<open>$set\<close> of \<open>editStudyRole\<close>; \<open>role\<close> is the document it has read.\<close>

definition edit_role_set ::
    "IRole \<Rightarrow> string option \<Rightarrow> string option \<Rightarrow> IDataPermission list option
     \<Rightarrow> enumStudyRoles option \<Rightarrow> string list option \<Rightarrow> IRole \<Rightarrow> IRole" where
  "edit_role_set role name description dps srole users d = d\<lparr>
     role_name := nullish name (role_name role),
     role_description := (case description of None \<Rightarrow> role_description role | Some x \<Rightarrow> Some x),
     dataPermissions := nullish dps (dataPermissions role),
     studyRole := nullish srole (studyRole role),
     role_users := nullish users (role_users role)\<rparr>"

definition editStudyRole ::
    "mongo \<Rightarrow> requester \<Rightarrow> string \<Rightarrow> string option \<Rightarrow> string option \<Rightarrow> IDataPermission list option
     \<Rightarrow> enumStudyRoles option \<Rightarrow> string list option \<Rightarrow> db \<Rightarrow> IRole option result \<times> db" where
  "editStudyRole M requester roleId name description dps srole users s =
     (case requester of
        None \<Rightarrow> (Inl (core_error NOT_LOGGED_IN), s)
      | Some req \<Rightarrow>
          (case findOne (roles_dr M) (roles_collection s) (\<lambda>r. doc_id r = roleId \<and> alive r) of
             None \<Rightarrow> (Inl (core_error NO_PERMISSION_ERROR), s)
           | Some role \<Rightarrow>
               (case getRolesOfUser M s requester (doc_id req) (Some (role_studyId role)) of
                  Inl e \<Rightarrow> (Inl e, s)
                | Inr roles \<Rightarrow>
                    if not_manager req roles then (Inl (core_error NO_PERMISSION_ERROR), s)
                    else
                      (let f = edit_role_set role name description dps srole users
                       in case updateOne (roles_dr M) (roles_collection s) (\<lambda>d. doc_id d = roleId) f of
                            None \<Rightarrow> (Inl MongoServerError, s)
                          | Some (r, c) \<Rightarrow> (Inr (map_option f r), s\<lparr>roles_collection := c\<rparr>)))))"

text \<open>The updates of \<open>addGuestUser\<close>, one guest role after the other.\<close>

fun add_user_to_roles :: "mongo \<Rightarrow> string \<Rightarrow> IRole list \<Rightarrow> db \<Rightarrow> unit result \<times> db" where
  "add_user_to_roles M uid [] s = (Inr (), s)"
| "add_user_to_roles M uid (role # roles) s =
     (case updateOne (roles_dr M) (roles_collection s)
             (\<lambda>d. doc_id d = doc_id role \<and> uid \<notin> set (role_users d))
             (\<lambda>d. d\<lparr>role_users := role_users d @ [uid]\<rparr>) of
        None \<Rightarrow> (Inl MongoServerError, s)
      | Some (_, c) \<Rightarrow> add_user_to_roles M uid roles (s\<lparr>roles_collection := c\<rparr>))"

text \<open>\<open>{ $bitsAllSet: 4 }\<close> on some data permission.\<close>

definition is_guest_role :: "string list \<Rightarrow> IRole \<Rightarrow> bool" where
  "is_guest_role studyIds r \<longleftrightarrow>
     role_studyId r \<in> set studyIds \<and> role_name r = ''Guest'' \<and>
     list_ex (\<lambda>dp. and (permission dp) 4 = 4) (dataPermissions r) \<and> alive r"

definition addGuestUser :: "env \<Rightarrow> mongo \<Rightarrow> string \<Rightarrow> db \<Rightarrow> IGenericResponse result \<times> db" where
  "addGuestUser E M uname s =
     (if uname = [] then
        (Inl (CoreError CLIENT_MALFORMED_INPUT ''Username is required to add a guest user.''), s)
      else
        (case findOne (users_dr M) (users_collection s) (\<lambda>u. username u = uname) of
           None \<Rightarrow> (Inl (CoreError CLIENT_ACTION_ON_NON_EXISTENT_ENTRY ''User not found''), s)
         | Some user \<Rightarrow>
             if user_type user \<noteq> GUEST then
               (Inl (CoreError NO_PERMISSION_ERROR ''User is not a guest user.''), s)
             else
               (let publicStudies = find_many (studies_dr M) (studies_collection s)
                      (\<lambda>d. isPublic d \<and> alive d)
                in if publicStudies = [] then
                     (Inr (makeGenericResponse (Some (doc_id user)) (Some True) None
                        (Some ''No public studies found.'')), s)
                   else
                     (let studyIds = map doc_id publicStudies;
                          guestRoles = find_many (roles_dr M) (roles_collection s) (is_guest_role studyIds)
                      in if guestRoles = [] then
                           (Inl (CoreError NO_PERMISSION_ERROR ''No guest roles found for public studies.''), s)
                         else
                           (case add_user_to_roles M (doc_id user) guestRoles s of
                              (Inl e, s1) \<Rightarrow> (Inl e, s1)
                            | (Inr _, s1) \<Rightarrow>
                                (Inr (makeGenericResponse (Some (doc_id user)) (Some True) None
                                   (Some (''User added to '' @
                                      num_to_string E (Fin (of_nat (length guestRoles))) @
                                      '' public study roles''))), s1))))))"

definition deleteStudyRole ::
    "env \<Rightarrow> mongo \<Rightarrow> requester \<Rightarrow> string \<Rightarrow> db \<Rightarrow> IGenericResponse result \<times> db" where
  "deleteStudyRole E M requester roleId s =
     (case requester of
        None \<Rightarrow> (Inl (core_error NOT_LOGGED_IN), s)
      | Some req \<Rightarrow>
          (case findOne (roles_dr M) (roles_collection s) (\<lambda>r. doc_id r = roleId \<and> alive r) of
             None \<Rightarrow> (Inl (core_error NO_PERMISSION_ERROR), s)
           | Some role \<Rightarrow>
               (case getRolesOfUser M s requester (doc_id req) (Some (role_studyId role)) of
                  Inl e \<Rightarrow> (Inl e, s)
                | Inr roles \<Rightarrow>
                    if not_manager req roles then (Inl (core_error NO_PERMISSION_ERROR), s)
                    else
                      (let (now, s1) = Date_now E s
                       in case updateOne (roles_dr M) (roles_collection s1) (\<lambda>d. doc_id d = roleId)
                                 (mark_deleted now (Uid (doc_id req))) of
                            None \<Rightarrow> (Inl MongoServerError, s1)
                          | Some (_, c) \<Rightarrow>
                              (Inr (makeGenericResponse (Some roleId) (Some True) None
                                 (Some ''Role deleted successfully.'')), s1\<lparr>roles_collection := c\<rparr>)))))"

subsection \<open>What the operations do\<close>

text \<open>
  The abstract meaning of the permission check: a pattern matches, a data permission grants an
  access, and all patterns of a list of data permissions are regular expressions.
\<close>

definition re_matches :: "env \<Rightarrow> string \<Rightarrow> string \<Rightarrow> bool" where
  "re_matches E re v \<longleftrightarrow> (\<exists>test. RegExp E re = Some test \<and> test v)"

definition dp_grants ::
    "env \<Rightarrow> perm_entry \<Rightarrow> enumDataAtomicPermissions \<Rightarrow> IDataPermission \<Rightarrow> bool" where
  "dp_grants E entry p dp \<longleftrightarrow>
     (\<exists>re \<in> set (perm_fields dp). re_matches E re (nullish (entry_fieldId entry) ''undefined'')) \<and>
     (entry_has_value entry \<longrightarrow>
        (\<forall>props. entry_properties entry = Some props \<longrightarrow>
           (\<forall>(k, pats) \<in> set (dataProperties dp).
              \<exists>re \<in> set pats. re_matches E re (js_String E (js_get props k))))) \<and>
     permission dp \<in> set (permissionString p)"

definition patterns_ok :: "env \<Rightarrow> IDataPermission list \<Rightarrow> bool" where
  "patterns_ok E dps \<longleftrightarrow>
     (\<forall>dp \<in> set dps.
        (\<forall>re \<in> set (perm_fields dp). RegExp E re \<noteq> None) \<and>
        (\<forall>(k, pats) \<in> set (dataProperties dp). \<forall>re \<in> set pats. RegExp E re \<noteq> None))"

definition user_role :: "db \<Rightarrow> string \<Rightarrow> string \<Rightarrow> IRole \<Rightarrow> bool" where
  "user_role s u studyId r \<longleftrightarrow>
     r \<in> set (roles_collection s) \<and> role_studyId r = studyId \<and> u \<in> set (role_users r) \<and> alive r"

lemma every_no_match_ok:
  "(\<forall>re \<in> set res. RegExp E re \<noteq> None) \<Longrightarrow>
     every_no_match E res v = Inr (\<forall>re \<in> set res. \<not> re_matches E re v)"
  by (induction res) (auto simp: re_matches_def split: option.splits)

lemma properties_tag_ok:
  "(\<forall>(k, pats) \<in> set rest. \<forall>re \<in> set pats. RegExp E re \<noteq> None) \<Longrightarrow>
     properties_tag E props rest tag =
       Inr (tag \<and> (\<forall>(k, pats) \<in> set rest.
                     \<exists>re \<in> set pats. re_matches E re (js_String E (js_get props k))))"
proof (induction E props rest tag rule: properties_tag.induct)
  case (2 E props k pats rest tag)
  then show ?case by (simp add: every_no_match_ok)
qed simp

lemma role_tag_ok:
  "patterns_ok E dps \<Longrightarrow>
     role_tag E entry p dps tag = Inr (tag \<and> (\<forall>dp \<in> set dps. dp_grants E entry p dp))"
proof (induction dps arbitrary: tag)
  case Nil
  then show ?case by simp
next
  case (Cons dp dps)
  from Cons.prems have dps: "patterns_ok E dps"
    and fields: "\<forall>re \<in> set (perm_fields dp). RegExp E re \<noteq> None"
    and props: "\<forall>(k, pats) \<in> set (dataProperties dp). \<forall>re \<in> set pats. RegExp E re \<noteq> None"
    by (simp_all add: patterns_ok_def)
  show ?case
    by (cases "entry_has_value entry"; cases "entry_properties entry")
      (auto simp: Let_def every_no_match_ok[OF fields] properties_tag_ok[OF props]
        Cons.IH[OF dps] dp_grants_def)
qed

lemma roles_tags_ok:
  "\<forall>r \<in> set rs. patterns_ok E (dataPermissions r) \<Longrightarrow>
     roles_tags E entry p rs = Inr (map (\<lambda>r. \<forall>dp \<in> set (dataPermissions r). dp_grants E entry p dp) rs)"
  by (induction rs) (simp_all add: role_tag_ok)

lemma roles_tags_length: "roles_tags E entry p rs = Inr tags \<Longrightarrow> length tags = length rs"
  by (induction rs arbitrary: tags) (auto split: sum.splits)

lemma roles_tags_empty_role:
  "roles_tags E entry p rs = Inr tags \<Longrightarrow> r \<in> set rs \<Longrightarrow> dataPermissions r = [] \<Longrightarrow> True \<in> set tags"
  by (induction rs arbitrary: tags) (auto split: sum.splits)

context mongo_db
begin

lemma getRolesOfUser_study:
  assumes "studyId \<noteq> []"
  shows "\<exists>rs. getRolesOfUser M s (Some req) u (Some studyId) = Inr rs
    \<and> set rs = {r. user_role s u studyId r}"
  using assms roles_store.find_many_set
  by (auto simp: getRolesOfUser_def user_role_def)

lemma getRolesOfUser_studyD:
  "studyId \<noteq> [] \<Longrightarrow> getRolesOfUser M s (Some req) u (Some studyId) = Inr rs \<Longrightarrow>
     set rs = {r. user_role s u studyId r}"
  using getRolesOfUser_study[of studyId s req u] by auto

lemma getRolesOfUser_alive:
  "getRolesOfUser M s req u st = Inr rs \<Longrightarrow> r \<in> set rs \<Longrightarrow> r \<in> set (roles_collection s) \<and> alive r"
  by (auto simp: getRolesOfUser_def roles_store.find_many_set split: option.splits if_splits)

lemma not_manager_iff:
  assumes "studyId \<noteq> []" and "getRolesOfUser M s (Some req) u (Some studyId) = Inr rs"
  shows "\<not> not_manager req rs \<longleftrightarrow>
    user_type req = ADMIN \<or> (\<exists>r. user_role s u studyId r \<and> studyRole r = STUDY_MANAGER)"
  using getRolesOfUser_studyD[OF assms] by (auto simp: not_manager_def list_all_iff)

lemma check_permission_spec:
  assumes "studyId \<noteq> []"
    and "\<And>r. user_role s (doc_id user) studyId r \<Longrightarrow> patterns_ok E (dataPermissions r)"
  shows "checkFieldOrDataPermission E M s user studyId entry p =
    Inr (\<exists>r. user_role s (doc_id user) studyId r
          \<and> (\<forall>dp \<in> set (dataPermissions r). dp_grants E entry p dp))"
proof -
  obtain rs where rs: "getRolesOfUser M s (Some user) (doc_id user) (Some studyId) = Inr rs"
    "set rs = {r. user_role s (doc_id user) studyId r}"
    using getRolesOfUser_study[OF assms(1)] by blast
  then have "\<forall>r \<in> set rs. patterns_ok E (dataPermissions r)" using assms(2) by blast
  from roles_tags_ok[OF this] rs show ?thesis
    by (auto simp: checkFieldOrDataPermission_def list_all_iff)
qed

lemma check_permission_empty_role:
  assumes "studyId \<noteq> []" and "user_role s (doc_id user) studyId r" and "dataPermissions r = []"
  shows "checkFieldOrDataPermission E M s user studyId entry p \<noteq> Inr False"
proof -
  obtain rs where rs: "getRolesOfUser M s (Some user) (doc_id user) (Some studyId) = Inr rs"
    "set rs = {r. user_role s (doc_id user) studyId r}"
    using getRolesOfUser_study[OF assms(1)] by blast
  then have "r \<in> set rs" using assms(2) by blast
  from roles_tags_empty_role[OF _ this assms(3)] rs(1) show ?thesis
    by (force simp: checkFieldOrDataPermission_def list_all_iff split: sum.splits)
qed

lemma createStudyRole_spec:
  assumes "studyId \<noteq> []"
    and "createStudyRole E M (Some req) studyId name desc dps srole users s = (Inr role, s')"
  shows "(user_type req = ADMIN \<or>
      (\<exists>r. user_role s (doc_id req) studyId r \<and> studyRole r = STUDY_MANAGER)) \<and>
    role_studyId role = studyId \<and> alive role \<and>
    set (roles_collection s') = insert role (set (roles_collection s)) \<and>
    doc_id role \<notin> doc_id ` set (roles_collection s) \<and>
    s' = s\<lparr>roles_collection := roles_collection s',
            uuid_next := Suc (uuid_next s), tick := Suc (tick s)\<rparr>"
proof -
  obtain rs where rs: "getRolesOfUser M s (Some req) (doc_id req) (Some studyId) = Inr rs"
    using getRolesOfUser_study[OF assms(1)] by blast
  with assms(2) have nm: "\<not> not_manager req rs" by (auto simp: createStudyRole_def split: if_splits)
  from rs nm assms(2) obtain c where
    "insertOne (roles_dr M) (roles_collection s) role = Some c"
    "s' = s\<lparr>roles_collection := c, uuid_next := Suc (uuid_next s), tick := Suc (tick s)\<rparr>"
    "role_studyId role = studyId" "alive role"
    by (auto simp: createStudyRole_def uuid_def Date_now_def Let_def split: option.splits)
  with not_manager_iff[OF assms(1) rs] nm show ?thesis
    using roles_store.insertOne_set roles_store.insertOne_fresh by auto
qed

lemma deleteStudyRole_spec:
  assumes ix: "indexed (roles_dr M) (roles_collection s)"
    and del: "deleteStudyRole E M (Some req) roleId s = (Inr resp, s')"
  shows "set (roles_collection s') =
      apply_where (\<lambda>r. doc_id r = roleId) (mark_deleted (clock E (tick s)) (Uid (doc_id req)))
        ` set (roles_collection s)
    \<and> s' = s\<lparr>roles_collection := roles_collection s', tick := Suc (tick s)\<rparr>"
proof -
  from del obtain r c where
    "updateOne (roles_dr M) (roles_collection s) (\<lambda>d. doc_id d = roleId)
       (mark_deleted (clock E (tick s)) (Uid (doc_id req))) = Some (r, c)"
    and "s' = s\<lparr>roles_collection := c, tick := Suc (tick s)\<rparr>"
    by (auto simp: deleteStudyRole_def Date_now_def Let_def
        split: option.splits sum.splits if_splits)
  with roles_store.updateOne_key[OF ix] show ?thesis by auto
qed

lemma add_user_to_roles_spec:
  assumes "indexed (roles_dr M) (roles_collection s)"
  shows "\<exists>c. add_user_to_roles M uid rs s = (Inr (), s\<lparr>roles_collection := c\<rparr>) \<and>
    indexed (roles_dr M) c \<and>
    set c = apply_where (\<lambda>d. doc_id d \<in> doc_id ` set rs \<and> uid \<notin> set (role_users d))
       (\<lambda>d. d\<lparr>role_users := role_users d @ [uid]\<rparr>) ` set (roles_collection s)"
  using assms
proof (induction rs arbitrary: s)
  case Nil
  then show ?case by (intro exI[of _ "roles_collection s"]) (simp add: image_apply_none)
next
  case (Cons r rs)
  let ?q = "\<lambda>d. doc_id d = doc_id r \<and> uid \<notin> set (role_users d)"
  let ?f = "\<lambda>d. d\<lparr>role_users := role_users d @ [uid]\<rparr>"
  have "updateOne (roles_dr M) (roles_collection s) ?q ?f \<noteq> None"
    by (rule roles_store.updateOne_ok[OF Cons.prems])
      (use ok in \<open>auto simp: mongo_ok_def roles_indexes_def\<close>)
  then obtain x c where up: "updateOne (roles_dr M) (roles_collection s) ?q ?f = Some (x, c)"
    by auto
  have ixc: "indexed (roles_dr M) c" by (rule roles_store.updateOne_indexed[OF up Cons.prems])
  have setc: "set c = apply_where ?q ?f ` set (roles_collection s)"
    by (rule roles_store.updateOne_keyed[OF Cons.prems up]) simp
  obtain c' where c': "add_user_to_roles M uid rs (s\<lparr>roles_collection := c\<rparr>) =
      (Inr (), s\<lparr>roles_collection := c'\<rparr>)" "indexed (roles_dr M) c'"
    "set c' = apply_where (\<lambda>d. doc_id d \<in> doc_id ` set rs \<and> uid \<notin> set (role_users d)) ?f ` set c"
    using Cons.IH[of "s\<lparr>roles_collection := c\<rparr>"] ixc by auto
  have "set c' = apply_where (\<lambda>d. doc_id d \<in> doc_id ` set (r # rs) \<and> uid \<notin> set (role_users d)) ?f
      ` set (roles_collection s)"
    unfolding c'(3) setc image_image by (rule image_cong) (auto simp: apply_where_def)
  with c' up show ?case by (intro exI[of _ c']) simp
qed

lemma guest_roles_ids:
  assumes ix: "indexed (roles_dr M) (roles_collection s)" and "d \<in> set (roles_collection s)"
  shows "doc_id d \<in> doc_id ` set (find_many (roles_dr M) (roles_collection s) q) \<longleftrightarrow> q d"
  using assms roles_store.key_inj[OF ix] by (auto simp: roles_store.find_many_set)

text \<open>The public studies, and the roles a guest joins.\<close>

lemma addGuestUser_spec:
  assumes ix: "indexed (roles_dr M) (roles_collection s)"
    and u: "findOne (users_dr M) (users_collection s) (\<lambda>u. username u = uname) = Some user"
      "user_type user = GUEST" "uname \<noteq> []"
    and pub: "ids = map doc_id (find_many (studies_dr M) (studies_collection s) (\<lambda>d. isPublic d \<and> alive d))"
    and some: "\<exists>r \<in> set (roles_collection s). is_guest_role ids r"
  shows "\<exists>resp c. addGuestUser E M uname s = (Inr resp, s\<lparr>roles_collection := c\<rparr>) \<and>
    indexed (roles_dr M) c \<and>
    set c = apply_where (\<lambda>d. is_guest_role ids d \<and> doc_id user \<notin> set (role_users d))
      (\<lambda>d. d\<lparr>role_users := role_users d @ [doc_id user]\<rparr>) ` set (roles_collection s)"
proof -
  let ?g = "find_many (roles_dr M) (roles_collection s) (is_guest_role ids)"
  from some have g: "?g \<noteq> []" by (auto simp: roles_store.find_many_Nil)
  from some have "ids \<noteq> []" by (auto simp: is_guest_role_def)
  then have p: "find_many (studies_dr M) (studies_collection s) (\<lambda>d. isPublic d \<and> alive d) \<noteq> []"
    using pub by auto
  obtain c where c: "add_user_to_roles M (doc_id user) ?g s = (Inr (), s\<lparr>roles_collection := c\<rparr>)"
    "indexed (roles_dr M) c"
    "set c = apply_where (\<lambda>d. doc_id d \<in> doc_id ` set ?g \<and> doc_id user \<notin> set (role_users d))
       (\<lambda>d. d\<lparr>role_users := role_users d @ [doc_id user]\<rparr>) ` set (roles_collection s)"
    using add_user_to_roles_spec[OF ix] by blast
  have "set c = apply_where (\<lambda>d. is_guest_role ids d \<and> doc_id user \<notin> set (role_users d))
      (\<lambda>d. d\<lparr>role_users := role_users d @ [doc_id user]\<rparr>) ` set (roles_collection s)"
    unfolding c(3) by (rule image_cong) (auto simp: apply_where_def guest_roles_ids[OF ix])
  with c u p g show ?thesis
    by (auto simp: addGuestUser_def Let_def pub[symmetric])
qed

end

subsection \<open>Properties\<close>

definition sample_dp :: "string \<Rightarrow> int \<Rightarrow> IDataPermission" where
  "sample_dp re n = \<lparr>perm_fields = [re], dataProperties = [], includeUnVersioned = False, permission = n\<rparr>"

definition sample_roles :: db where
  "sample_roles = db0\<lparr>
     roles_collection := [role0 ''r1'' ''st'' STUDY_USER [''bob''] [sample_dp ''age'' 4],
                          role0 ''r2'' ''st'' STUDY_USER [''eve''] [],
                          role0 ''r3'' ''st'' STUDY_MANAGER [''ann''] [sample_dp ''age'' 7]],
     studies_collection := [study0 ''st''],
     users_collection := [with_token (user0 ''gus'' GUEST)]\<rparr>"

lemma sample_roles_simps:
  "roles_collection sample_roles =
     [role0 ''r1'' ''st'' STUDY_USER [''bob''] [sample_dp ''age'' 4],
      role0 ''r2'' ''st'' STUDY_USER [''eve''] [],
      role0 ''r3'' ''st'' STUDY_MANAGER [''ann''] [sample_dp ''age'' 7]]"
  "studies_collection sample_roles = [study0 ''st'']"
  "users_collection sample_roles = [with_token (user0 ''gus'' GUEST)]"
  by (simp_all add: sample_roles_def)

text \<open>
  C2. The permission check decides exactly this: some live role of the user in the study has only
  data permissions that grant the access (the field patterns match, the property patterns match
  where the entry has a value, and the permission number is in the list of the access), provided
  the patterns of the user's roles are regular expressions.
\<close>

theorem permission_check_iff:
  assumes "mongo_ok M" and "studyId \<noteq> []"
    and "\<And>r. user_role s (doc_id user) studyId r \<Longrightarrow> patterns_ok E (dataPermissions r)"
  shows "checkFieldOrDataPermission E M s user studyId entry p =
    Inr (\<exists>r. user_role s (doc_id user) studyId r
          \<and> (\<forall>dp \<in> set (dataPermissions r). dp_grants E entry p dp))"
  by (rule mongo_db.check_permission_spec[OF mongo_db.intro[OF assms(1)] assms(2,3)])

theorem permission_check_iff_witness:
  "checkFieldOrDataPermission env0 list_mongo sample_roles (user0 ''bob'' STANDARD) ''st''
     \<lparr>entry_fieldId = Some ''age'', entry_has_value = False, entry_properties = None\<rparr> READ =
   Inr (\<exists>r. user_role sample_roles ''bob'' ''st'' r
          \<and> (\<forall>dp \<in> set (dataPermissions r). dp_grants env0
               \<lparr>entry_fieldId = Some ''age'', entry_has_value = False, entry_properties = None\<rparr> READ dp))"
proof -
  have "patterns_ok env0 (dataPermissions r)" if "user_role sample_roles ''bob'' ''st'' r" for r
    using that by (auto simp: user_role_def sample_roles_simps role0_def sample_dp_def
        patterns_ok_def env0_def)
  then show ?thesis
    using permission_check_iff[OF list_mongo_ok, of "''st''" sample_roles "user0 ''bob'' STANDARD" env0]
    by (simp add: user0_def)
qed

text \<open>
  C3. A live role without data permissions grants every access to every field and data clip of
  the study: with such a role the check never answers no (the loop over an empty list leaves the
  tag true).
\<close>

theorem empty_role_grants_everything:
  assumes "mongo_ok M" and "studyId \<noteq> []"
    and "user_role s (doc_id user) studyId r" and "dataPermissions r = []"
  shows "checkFieldOrDataPermission E M s user studyId entry p \<noteq> Inr False"
  by (rule mongo_db.check_permission_empty_role[OF mongo_db.intro[OF assms(1)] assms(2-4)])

theorem empty_role_grants_everything_witness:
  "checkFieldOrDataPermission env0 list_mongo sample_roles (user0 ''eve'' STANDARD) ''st''
     \<lparr>entry_fieldId = Some ''secret'', entry_has_value = False, entry_properties = None\<rparr> DELETE
     \<noteq> Inr False"
proof -
  have "user_role sample_roles (doc_id (user0 ''eve'' STANDARD)) ''st''
      (role0 ''r2'' ''st'' STUDY_USER [''eve''] [])"
    by (simp add: user_role_def sample_roles_simps role0_def user0_def)
  from empty_role_grants_everything[OF list_mongo_ok _ this] show ?thesis
    by (simp add: role0_def)
qed

text \<open>
  Creating a role needs an administrator or a manager of that same study, and its only effect
  is one new live role of the study, with an id no role had.
\<close>

theorem createStudyRole_authorised:
  assumes "mongo_ok M" and "studyId \<noteq> []"
    and "createStudyRole E M (Some req) studyId name desc dps srole users s = (Inr role, s')"
  shows "(user_type req = ADMIN \<or>
      (\<exists>r. user_role s (doc_id req) studyId r \<and> studyRole r = STUDY_MANAGER)) \<and>
    role_studyId role = studyId \<and> alive role \<and>
    set (roles_collection s') = insert role (set (roles_collection s)) \<and>
    doc_id role \<notin> doc_id ` set (roles_collection s) \<and>
    s' = s\<lparr>roles_collection := roles_collection s',
            uuid_next := Suc (uuid_next s), tick := Suc (tick s)\<rparr>"
  by (rule mongo_db.createStudyRole_spec[OF mongo_db.intro[OF assms(1)] assms(2,3)])

theorem createStudyRole_authorised_witness:
  "\<exists>role s'. createStudyRole env0 list_mongo (Some (user0 ''ann'' STANDARD)) ''st'' ''new'' None None None None
      sample_roles = (Inr role, s') \<and>
    role_studyId role = ''st'' \<and>
    set (roles_collection s') = insert role (set (roles_collection sample_roles))"
proof -
  have "\<exists>role s'. createStudyRole env0 list_mongo (Some (user0 ''ann'' STANDARD)) ''st'' ''new'' None None None None
      sample_roles = (Inr role, s')"
    by (simp add: createStudyRole_def getRolesOfUser_def not_manager_def uuid_def Date_now_def Let_def
        list_mongo_def list_driver_simps roles_indexes_def sample_roles_def sample_defs alive_def)
  then obtain role s' where "createStudyRole env0 list_mongo (Some (user0 ''ann'' STANDARD)) ''st'' ''new''
      None None None None sample_roles = (Inr role, s')" by blast
  with createStudyRole_authorised[OF list_mongo_ok _ this] show ?thesis by blast
qed

text \<open>
  C4. Deleting a role revokes it: no later reading of roles, for any user and any study, returns
  it, and every other role is as before.
\<close>

theorem deleteStudyRole_revokes:
  assumes "mongo_ok M" and "indexed (roles_dr M) (roles_collection s)"
    and "deleteStudyRole E M (Some req) roleId s = (Inr resp, s')"
  shows "(\<forall>q u st rs. getRolesOfUser M s' q u st = Inr rs \<longrightarrow> roleId \<notin> doc_id ` set rs) \<and>
    {r \<in> set (roles_collection s'). doc_id r \<noteq> roleId} =
      {r \<in> set (roles_collection s). doc_id r \<noteq> roleId}"
proof -
  note spec = mongo_db.deleteStudyRole_spec[OF mongo_db.intro[OF assms(1)] assms(2,3)]
  let ?g = "apply_where (\<lambda>r. doc_id r = roleId) (mark_deleted (clock E (tick s)) (Uid (doc_id req)))"
  have set': "set (roles_collection s') = ?g ` set (roles_collection s)" using spec by blast
  have dead: "\<not> alive r" if "r \<in> set (roles_collection s')" "doc_id r = roleId" for r
  proof -
    from that(1) obtain d where "r = ?g d" unfolding set' by (elim imageE)
    with that(2) show ?thesis by (simp add: apply_where_def split: if_splits)
  qed
  have "roleId \<notin> doc_id ` set rs" if "getRolesOfUser M s' q u st = Inr rs" for q u st rs
    using mongo_db.getRolesOfUser_alive[OF mongo_db.intro[OF assms(1)] that] dead by blast
  moreover have "{r \<in> set (roles_collection s'). doc_id r \<noteq> roleId} =
      {r \<in> set (roles_collection s). doc_id r \<noteq> roleId}"
    unfolding set' by (auto simp: apply_where_def image_iff split: if_splits)
  ultimately show ?thesis by blast
qed

theorem deleteStudyRole_revokes_witness:
  "\<exists>resp s'. deleteStudyRole env0 list_mongo (Some (user0 ''ann'' STANDARD)) ''r2'' sample_roles = (Inr resp, s')
    \<and> (\<forall>q u st rs. getRolesOfUser list_mongo s' q u st = Inr rs \<longrightarrow> ''r2'' \<notin> doc_id ` set rs)"
proof -
  have "\<exists>resp s'. deleteStudyRole env0 list_mongo (Some (user0 ''ann'' STANDARD)) ''r2'' sample_roles = (Inr resp, s')"
    by (simp add: deleteStudyRole_def getRolesOfUser_def not_manager_def Date_now_def Let_def
        list_mongo_def list_driver_simps roles_indexes_def sample_roles_def sample_defs alive_def
        mark_deleted_def)
  moreover have "indexed (roles_dr list_mongo) (roles_collection sample_roles)"
    by (simp add: indexed_def list_mongo_def roles_indexes_def sample_roles_def sample_defs)
  ultimately show ?thesis using deleteStudyRole_revokes[OF list_mongo_ok] by blast
qed

text \<open>
  Adding a guest user puts him in every guest role of the public studies, changes nothing else
  of any role, and a second call leaves the roles as the first one left them.
\<close>

theorem addGuestUser_joins_once:
  assumes "mongo_ok M" and "indexed (roles_dr M) (roles_collection s)" and "uname \<noteq> []"
    and "findOne (users_dr M) (users_collection s) (\<lambda>u. username u = uname) = Some user"
    and "user_type user = GUEST"
    and "ids = map doc_id (find_many (studies_dr M) (studies_collection s) (\<lambda>d. isPublic d \<and> alive d))"
    and "\<exists>r \<in> set (roles_collection s). is_guest_role ids r"
  shows "\<exists>resp s1. addGuestUser E M uname s = (Inr resp, s1) \<and>
    set (roles_collection s1) =
      (\<lambda>r. if is_guest_role ids r \<and> doc_id user \<notin> set (role_users r)
           then r\<lparr>role_users := role_users r @ [doc_id user]\<rparr> else r) ` set (roles_collection s) \<and>
    (\<exists>resp2 s2. addGuestUser E M uname s1 = (Inr resp2, s2) \<and>
       set (roles_collection s2) = set (roles_collection s1))"
proof -
  note spec = mongo_db.addGuestUser_spec[OF mongo_db.intro[OF assms(1)]]
  let ?g = "apply_where (\<lambda>d. is_guest_role ids d \<and> doc_id user \<notin> set (role_users d))
      (\<lambda>d. d\<lparr>role_users := role_users d @ [doc_id user]\<rparr>)"
  obtain resp c where 1: "addGuestUser E M uname s = (Inr resp, s\<lparr>roles_collection := c\<rparr>)"
    "indexed (roles_dr M) c" "set c = ?g ` set (roles_collection s)"
    using spec[OF assms(2,4,5,3,6,7)] by blast
  have guest: "is_guest_role ids (?g d) = is_guest_role ids d" for d
    by (simp add: is_guest_role_def apply_where_def alive_def)
  with assms(7) 1(3) have "\<exists>r \<in> set c. is_guest_role ids r" by auto
  with spec[of "s\<lparr>roles_collection := c\<rparr>" uname user ids] 1(2) assms(3-5) assms(6)[symmetric]
  obtain resp2 c2 where 2: "addGuestUser E M uname (s\<lparr>roles_collection := c\<rparr>) =
      (Inr resp2, s\<lparr>roles_collection := c2\<rparr>)" "set c2 = ?g ` set c"
    by (simp del: ex_simps) blast
  have "?g (?g d) = ?g d" for d
    using guest[of d] by (auto simp: apply_where_def)
  then have "set c2 = set c" unfolding 2(2) 1(3) image_image by simp
  with 1 2 show ?thesis by (auto simp: apply_where_def)
qed

theorem addGuestUser_joins_once_witness:
  "\<exists>resp s1. addGuestUser env0 list_mongo ''gus''
      (sample_roles\<lparr>roles_collection := [role0 ''r1'' ''st'' STUDY_USER [''bob''] [sample_dp ''age'' 4]]\<rparr>) = (Inr resp, s1) \<and>
    (\<exists>resp2 s2. addGuestUser env0 list_mongo ''gus'' s1 = (Inr resp2, s2) \<and>
       set (roles_collection s2) = set (roles_collection s1))"
proof -
  let ?s = "sample_roles\<lparr>roles_collection := [role0 ''r1'' ''st'' STUDY_USER [''bob''] [sample_dp ''age'' 4]]\<rparr>"
  have ix: "indexed (roles_dr list_mongo) (roles_collection ?s)"
    by (simp add: indexed_def list_mongo_def roles_indexes_def)
  have u: "findOne (users_dr list_mongo) (users_collection ?s) (\<lambda>u. username u = ''gus'') =
      Some (with_token (user0 ''gus'' GUEST))"
    by (simp add: list_mongo_def list_driver_def sample_roles_simps sample_defs)
  have g: "user_type (with_token (user0 ''gus'' GUEST)) = GUEST" by (simp add: sample_defs)
  have ids: "[''st''] = map doc_id (find_many (studies_dr list_mongo) (studies_collection ?s)
      (\<lambda>d. isPublic d \<and> alive d))"
    by (simp add: list_mongo_def list_driver_def sample_roles_simps sample_defs alive_def)
  have r: "\<exists>r \<in> set (roles_collection ?s). is_guest_role [''st''] r"
    by (simp add: is_guest_role_def role0_def sample_dp_def)
  show ?thesis
    using addGuestUser_joins_once[OF list_mongo_ok ix _ u g ids r, of env0] by auto
qed

end
