(* ===== verification/FileStore.thy ===== *)
theory FileStore
  imports Samples
begin

section \<open>Files and the object store (\<open>fileCore.ts\<close>, \<open>objStore.ts\<close>)\<close>

text \<open>
  The class \<open>ObjectStore\<close>, a thin layer over the MinIO client that refuses to overwrite an
  object, and the class \<open>FileCore\<close>: uploading a stream under a size limit that depends on the
  kind of file, deleting a file, and reading files by id. What the code relies on of the client is
  the locale \<open>object_store\<close>.
\<close>

subsection \<open>The client\<close>

definition obj :: "ostore \<Rightarrow> string \<times> string \<Rightarrow> string option" where
  "obj st k = map_of (objects st) k"

locale object_store =
  fixes cl :: minio_client
  assumes bucketExists_iff: "bucketExists cl st b \<longleftrightarrow> b \<in> set (buckets st)"
    and makeBucket_buckets: "makeBucket cl st b = Some st' \<Longrightarrow> set (buckets st') = insert b (set (buckets st))"
    and makeBucket_objects: "makeBucket cl st b = Some st' \<Longrightarrow> obj st' = obj st"
    and statObject_iff: "statObject cl st b u \<longleftrightarrow> obj st (b, u) \<noteq> None"
    and putObject_buckets: "putObject cl st b u x = Some st' \<Longrightarrow> set (buckets st') = set (buckets st)"
    and putObject_objects: "putObject cl st b u x = Some st' \<Longrightarrow> obj st' = (obj st)((b, u) := Some x)"
    and copyObject_objects: "minio_copyObject cl st tb tu sb su = Some st' \<Longrightarrow>
      obj st (sb, su) \<noteq> None \<and> obj st' = (obj st)((tb, tu) := obj st (sb, su))"
    and copyObject_buckets: "minio_copyObject cl st tb tu sb su = Some st' \<Longrightarrow>
      set (buckets st') = set (buckets st)"
    and getObject_obj: "getObject cl st b u = obj st (b, u)"

interpretation list_objects: object_store list_minio
  by unfold_locales (auto simp: list_minio_def obj_def split: option.splits)

subsection \<open>\<open>ObjectStore\<close>\<close>

text \<open>\<open>toLowerCase()\<close>, on the ASCII letters.\<close>

definition lower :: "char \<Rightarrow> char" where
  "lower c = (if 65 \<le> (of_char c :: nat) \<and> (of_char c :: nat) \<le> 90
              then char_of ((of_char c :: nat) + 32) else c)"

definition toLowerCase :: "string \<Rightarrow> string" where
  "toLowerCase x = List.map lower x"

definition ensure_bucket :: "env \<Rightarrow> ostore \<Rightarrow> string \<Rightarrow> ostore option" where
  "ensure_bucket E st b = (if bucketExists (minio E) st b then Some st else makeBucket (minio E) st b)"

text \<open>
  \<open>uploadFile\<close> of the object store. A bucket id may be \<open>undefined\<close> here (a configuration
  without bucket), which throws a \<open>TypeError\<close>.
\<close>

definition objStore_uploadFile ::
    "env \<Rightarrow> string \<Rightarrow> string option \<Rightarrow> string \<Rightarrow> db \<Rightarrow> unit result \<times> db" where
  "objStore_uploadFile E content bucketId objUri s =
     (case bucketId of
        None \<Rightarrow> (Inl (JSError ''TypeError''), s)
      | Some b \<Rightarrow>
          (let lowerCaseBucketId = toLowerCase b
           in case ensure_bucket E (store s) lowerCaseBucketId of
                None \<Rightarrow> (Inl MinioError, s)
              | Some st \<Rightarrow>
                  if statObject (minio E) st lowerCaseBucketId objUri
                  then (Inl (JSError (''File \"'' @ objUri @ ''\" of bucket \"'' @ b @ ''\" already exists.'')),
                        s\<lparr>store := st\<rparr>)
                  else (case putObject (minio E) st lowerCaseBucketId objUri content of
                          None \<Rightarrow> (Inl MinioError, s\<lparr>store := st\<rparr>)
                        | Some st' \<Rightarrow> (Inr (), s\<lparr>store := st'\<rparr>))))"

definition objStore_downloadFile :: "env \<Rightarrow> string \<Rightarrow> string \<Rightarrow> db \<Rightarrow> string result" where
  "objStore_downloadFile E bucketId objUri s =
     (case getObject (minio E) (store s) (toLowerCase bucketId) objUri of
        None \<Rightarrow> Inl MinioError
      | Some x \<Rightarrow> Inr x)"

definition objStore_copyObject ::
    "env \<Rightarrow> string \<Rightarrow> string \<Rightarrow> string option \<Rightarrow> string \<Rightarrow> db \<Rightarrow> unit result \<times> db" where
  "objStore_copyObject E sourceBucket sourceUri targetBucket targetUri s =
     (case targetBucket of
        None \<Rightarrow> (Inl (JSError ''TypeError''), s)
      | Some t \<Rightarrow>
          (case ensure_bucket E (store s) (toLowerCase t) of
             None \<Rightarrow> (Inl MinioError, s)
           | Some st \<Rightarrow>
               (case minio_copyObject (minio E) st (toLowerCase t) targetUri
                       (toLowerCase sourceBucket) sourceUri of
                  None \<Rightarrow> (Inl MinioError, s\<lparr>store := st\<rparr>)
                | Some st' \<Rightarrow> (Inr (), s\<lparr>store := st'\<rparr>))))"

subsection \<open>Size limits\<close>

text \<open>
  The properties \<open>uploadFile\<close> reads from a configuration, whatever its type: \<open>undefined\<close> where
  the object does not have them.
\<close>

fun config_maximumFileSize :: "config_properties \<Rightarrow> int" where
  "config_maximumFileSize (SystemProps p) = system_defaultMaximumFileSize p"
| "config_maximumFileSize (StudyProps p) = study_defaultMaximumFileSize p"
| "config_maximumFileSize (UserProps p) = user_defaultMaximumFileSize p"
| "config_maximumFileSize (DocProps p) = defaultMaximumFileSize p"
| "config_maximumFileSize (CacheProps p) = defaultMaximumFileSize p"
| "config_maximumFileSize (DomainProps p) = defaultMaximumFileSize p"

fun config_fileBucketId :: "config_properties \<Rightarrow> string option" where
  "config_fileBucketId (SystemProps p) = Some (system_defaultFileBucketId p)"
| "config_fileBucketId (StudyProps p) = None"
| "config_fileBucketId (UserProps p) = Some (user_defaultFileBucketId p)"
| "config_fileBucketId (DocProps p) = Some (defaultFileBucketId p)"
| "config_fileBucketId (CacheProps p) = Some (defaultFileBucketId p)"
| "config_fileBucketId (DomainProps p) = Some (defaultFileBucketId p)"

fun config_profileBucketId :: "config_properties \<Rightarrow> string option" where
  "config_profileBucketId (SystemProps p) = Some (defaultProfileBucketId p)"
| "config_profileBucketId _ = None"

fun config_fileRepoSize :: "config_properties \<Rightarrow> int option" where
  "config_fileRepoSize (UserProps p) = Some (defaultMaximumFileRepoSize p)"
| "config_fileRepoSize _ = None"

definition config_or :: "mongo \<Rightarrow> db \<Rightarrow> enumConfigType \<Rightarrow> string option \<Rightarrow> config_properties
    \<Rightarrow> config_properties" where
  "config_or M s t k dflt =
     (case findOne (configs_dr M) (configs_collection s) (\<lambda>c. config_type c = t \<and> config_key c = k) of
        None \<Rightarrow> dflt
      | Some config \<Rightarrow> properties config)"

text \<open>
  The total size of the user's files as \<open>uploadFile\<close> computes it:
  \<open>(await aggregate(...))[0]?.totalSize ?? 0\<close>. The driver's \<open>aggregate\<close> returns a cursor, not
  an array, and the code does not call \<open>toArray()\<close>: the cursor has no property \<open>0\<close>.
\<close>

definition aggregate_cursor_0 :: "mongo \<Rightarrow> db \<Rightarrow> string \<Rightarrow> int option" where
  "aggregate_cursor_0 M s userId = None"

text \<open>\<open>Math.min(a, b - n)\<close> where \<open>b\<close> may be \<open>undefined\<close>: then \<open>NaN\<close>, written \<open>None\<close>.\<close>

definition min_remaining :: "int \<Rightarrow> int option \<Rightarrow> int \<Rightarrow> int option" where
  "min_remaining a b n = (case b of None \<Rightarrow> None | Some r \<Rightarrow> Some (min a (r - n)))"

text \<open>The limit (\<open>None\<close> for \<open>NaN\<close>) and the bucket of an upload.\<close>

definition upload_limit ::
    "mongo \<Rightarrow> db \<Rightarrow> IUserWithoutToken \<Rightarrow> string option \<Rightarrow> enumFileCategories
     \<Rightarrow> (int option \<times> string option) result" where
  "upload_limit M s requester studyId cat =
     (if cat = STUDY_DATA_FILE \<and> truthy studyId then
        Inr (Some (config_maximumFileSize
               (config_or M s STUDYCONFIG studyId (StudyProps default_studyConfig))), studyId)
      else (case cat of
        USER_DRIVE_FILE \<Rightarrow>
          (let c = config_or M s USERCONFIG (Some (doc_id requester)) (UserProps default_userConfig);
               totalSize = nullish (aggregate_cursor_0 M s (doc_id requester)) 0
           in Inr (min_remaining (config_maximumFileSize c) (config_fileRepoSize c) totalSize,
                   config_fileBucketId c))
      | DOC_FILE \<Rightarrow>
          (let c = config_or M s DOCCONFIG None (DocProps default_docConfig)
           in Inr (Some (config_maximumFileSize c), config_fileBucketId c))
      | CACHE \<Rightarrow>
          (let c = config_or M s CACHECONFIG None (CacheProps default_cacheConfig)
           in Inr (Some (config_maximumFileSize c), config_fileBucketId c))
      | PROFILE_FILE \<Rightarrow>
          (let c = config_or M s SYSTEMCONFIG None (SystemProps default_systemConfig)
           in Inr (Some (config_maximumFileSize c), config_profileBucketId c))
      | DOMAIN_FILE \<Rightarrow>
          (let c = config_or M s DOMAINCONFIG None (DomainProps default_domainConfig)
           in Inr (Some (config_maximumFileSize c), config_fileBucketId c))
      | STUDY_DATA_FILE \<Rightarrow>
          Inl (CoreError CLIENT_MALFORMED_INPUT ''File category does not exist.'')))"

text \<open>\<open>size > limit\<close>, false when the limit is \<open>NaN\<close>.\<close>

definition exceeds :: "int \<Rightarrow> int option \<Rightarrow> bool" where
  "exceeds n limit = (case limit of None \<Rightarrow> False | Some l \<Rightarrow> n > l)"

subsection \<open>Uploading\<close>

text \<open>
  A chunk is fed to the hash in slices of at most 64 KB; the model keeps what the hash has been
  fed, whose digest \<open>sha256\<close> gives.
\<close>

definition MAX_CHUNK_SIZE :: nat where
  "MAX_CHUNK_SIZE = 64 * 1024"

function sub_chunks :: "string \<Rightarrow> string list" where
  "sub_chunks chunk =
     (if chunk = [] then []
      else take MAX_CHUNK_SIZE chunk # sub_chunks (drop MAX_CHUNK_SIZE chunk))"
  by auto

termination by (relation "measure length") (auto simp: MAX_CHUNK_SIZE_def)

declare sub_chunks.simps [simp del]

lemma concat_sub_chunks: "concat (sub_chunks chunk) = chunk"
proof (induction chunk rule: sub_chunks.induct)
  case (1 chunk)
  then show ?case by (subst sub_chunks.simps) auto
qed

text \<open>
  The state of the three listeners: the size so far, the chunks stored, what the hash was fed. A
  stream that grows beyond the limit is destroyed with an error, so the error listener answers;
  so does a stream that breaks. Otherwise \<open>end\<close> is reached.
\<close>

record stream_state =
  st_fileSize :: int
  st_chunks :: "string list"
  st_hashed :: string

fun read_stream :: "int option \<Rightarrow> string option \<Rightarrow> string list \<Rightarrow> stream_state \<Rightarrow> stream_state result" where
  "read_stream limit err [] st =
     (case err of
        Some m \<Rightarrow> Inl (CoreError FILE_STREAM_ERROR (''Error reading file stream: '' @ m))
      | None \<Rightarrow> Inr st)"
| "read_stream limit err (chunk # rest) st =
     (let sz = st_fileSize st + int (length chunk)
      in if exceeds sz limit
         then Inl (CoreError FILE_STREAM_ERROR
                (''Error reading file stream: '' @ ''File size exceeds the limit.''))
         else read_stream limit err rest
                \<lparr>st_fileSize = sz, st_chunks = st_chunks st @ [chunk],
                 st_hashed = st_hashed st @ concat (sub_chunks chunk)\<rparr>)"

text \<open>\<open>handleFileUpload\<close>. The field \<open>sharedUsers: []\<close> it also writes is read nowhere.\<close>

definition handleFileUpload ::
    "env \<Rightarrow> mongo \<Rightarrow> int \<Rightarrow> int option \<Rightarrow> string \<Rightarrow> string \<Rightarrow> FileUpload \<Rightarrow> string option \<Rightarrow> string
     \<Rightarrow> IUserWithoutToken \<Rightarrow> string option \<Rightarrow> string option \<Rightarrow> enumFileTypes \<Rightarrow> enumFileCategories
     \<Rightarrow> string option \<Rightarrow> jobject option \<Rightarrow> db \<Rightarrow> IFile result \<times> db" where
  "handleFileUpload E M sz fileSizeLimit content hashString fileUpload defaultBucketId fileUri
       requester studyId userId ftype cat description props s =
     (if exceeds sz fileSizeLimit
      then (Inl (CoreError UNQUALIFIED_ERROR ''File size exceeds the limit.''), s)
      else
        (case objStore_uploadFile E content defaultBucketId fileUri s of
           (Inl e, s1) \<Rightarrow> (Inl e, s1)
         | (Inr _, s1) \<Rightarrow>
             (let (newId, s2) = uuid E s1;
                  (now, s3) = Date_now E s2;
                  fileEntry = \<lparr>doc_id = newId, life = new_life now (doc_id requester), metadata = [],
                    file_studyId = studyId, file_userId = userId,
                    fileName = filename fileUpload, fileSize = sz,
                    file_description = description, file_properties = nullish props [],
                    uri = fileUri, hash = hashString, fileType = ftype, fileCategory = cat\<rparr>
              in case insertOne (files_dr M) (files_collection s3) fileEntry of
                   None \<Rightarrow> (Inl MongoServerError, s3)
                 | Some c \<Rightarrow> (Inr fileEntry, s3\<lparr>files_collection := c\<rparr>))))"

definition uploadFile ::
    "env \<Rightarrow> mongo \<Rightarrow> IUserWithoutToken \<Rightarrow> string option \<Rightarrow> string option \<Rightarrow> FileUpload \<Rightarrow> enumFileTypes
     \<Rightarrow> enumFileCategories \<Rightarrow> string option \<Rightarrow> jobject option \<Rightarrow> db \<Rightarrow> IFile result \<times> db" where
  "uploadFile E M requester studyId userId fileUpload ftype cat description props s =
     (if truthy studyId \<and>
         findOne (studies_dr M) (studies_collection s) (\<lambda>d. Some (doc_id d) = studyId \<and> alive d) = None
      then (Inl (CoreError CLIENT_ACTION_ON_NON_EXISTENT_ENTRY ''Study does not exist.''), s)
      else
        (case upload_limit M s requester studyId cat of
           Inl e \<Rightarrow> (Inl e, s)
         | Inr (fileSizeLimit, defaultBucketId) \<Rightarrow>
             (let (fileUri, s1) = uuid E s
              in case read_stream fileSizeLimit (stream_error fileUpload) (stream_chunks fileUpload)
                        \<lparr>st_fileSize = 0, st_chunks = [], st_hashed = []\<rparr> of
                   Inl e \<Rightarrow> (Inl e, s1)
                 | Inr st \<Rightarrow>
                     handleFileUpload E M (st_fileSize st) fileSizeLimit (concat (st_chunks st))
                       (sha256 E (st_hashed st)) fileUpload defaultBucketId fileUri requester
                       studyId userId ftype cat description props s1)))"

text \<open>\<open>toUpperCase()\<close> on ASCII letters, and the extension of a name: the last part of \<open>split('.')\<close>.\<close>

definition upper :: "char \<Rightarrow> char" where
  "upper c = (if 97 \<le> (of_char c :: nat) \<and> (of_char c :: nat) \<le> 122
              then char_of ((of_char c :: nat) - 32) else c)"

definition file_extension :: "string \<Rightarrow> string" where
  "file_extension fn = rev (takeWhile (\<lambda>c. c \<noteq> CHR ''.'') (rev fn))"

definition file_type_of_extension :: "string \<Rightarrow> enumFileTypes option" where
  "file_type_of_extension fn = map_of file_type_keys (List.map upper (file_extension fn))"

text \<open>
  Profiles and logos are uploaded the same way by several components: the extension must be the
  name of a file type.
\<close>

definition upload_by_extension ::
    "env \<Rightarrow> mongo \<Rightarrow> IUserWithoutToken \<Rightarrow> string option \<Rightarrow> FileUpload \<Rightarrow> enumFileCategories \<Rightarrow> db
     \<Rightarrow> IFile result \<times> db" where
  "upload_by_extension E M req studyId file cat s =
     (case file_type_of_extension (filename file) of
        None \<Rightarrow> (Inl (CoreError CLIENT_MALFORMED_INPUT ''File type not supported.''), s)
      | Some ftype \<Rightarrow> uploadFile E M req studyId None file ftype cat None None s)"

text \<open>An optional upload.\<close>

definition upload_optional ::
    "env \<Rightarrow> mongo \<Rightarrow> IUserWithoutToken \<Rightarrow> string option \<Rightarrow> FileUpload option \<Rightarrow> enumFileCategories \<Rightarrow> db
     \<Rightarrow> IFile option result \<times> db" where
  "upload_optional E M req studyId file cat s =
     (case file of
        None \<Rightarrow> (Inr None, s)
      | Some fu \<Rightarrow>
          (case upload_by_extension E M req studyId fu cat s of
             (Inl e, s1) \<Rightarrow> (Inl e, s1)
           | (Inr f, s1) \<Rightarrow> (Inr (Some f), s1)))"

subsection \<open>Deleting and finding files\<close>

definition deleteFile :: "env \<Rightarrow> mongo \<Rightarrow> string \<Rightarrow> string \<Rightarrow> db \<Rightarrow> IGenericResponse result \<times> db" where
  "deleteFile E M requester fid s =
     (case findOne (files_dr M) (files_collection s) (\<lambda>d. doc_id d = fid \<and> alive d) of
        None \<Rightarrow> (Inl (CoreError CLIENT_ACTION_ON_NON_EXISTENT_ENTRY ''File does not exist.''), s)
      | Some _ \<Rightarrow>
          (let (now, s1) = Date_now E s
           in case updateOne (files_dr M) (files_collection s1) (\<lambda>d. doc_id d = fid)
                     (mark_deleted now (Uid requester)) of
                None \<Rightarrow> (Inl (core_error DATABASE_ERROR), s1)
              | Some (_, c) \<Rightarrow>
                  (Inr (makeGenericResponse (Some fid) None None (Some ''File has been deleted.'')),
                   s1\<lparr>files_collection := c\<rparr>)))"

text \<open>The readable form of \<open>life.createdUser\<close>.\<close>

definition readable_user :: "IUser list \<Rightarrow> string \<Rightarrow> string" where
  "readable_user users u =
     (case filter (\<lambda>ek. doc_id ek = u) users of
        [] \<Rightarrow> ''UNKNOWN''
      | user # _ \<Rightarrow> firstname user @ '' '' @ lastname user)"

definition findFiles :: "mongo \<Rightarrow> db \<Rightarrow> string list \<Rightarrow> bool option \<Rightarrow> IFile list" where
  "findFiles M s fileIds readable =
     (let result = find_many (files_dr M) (files_collection s) (\<lambda>d. doc_id d \<in> set fileIds)
      in if readable = Some True
         then (let users = find_many (users_dr M) (users_collection s) alive
               in map (\<lambda>el. el\<lparr>life := (life el)\<lparr>createdUser :=
                         readable_user users (createdUser (life el))\<rparr>\<rparr>) result)
         else result)"

subsection \<open>What an upload does\<close>

locale portal = mongo_db M + object_store "minio E" for M :: mongo and E :: env

interpretation list_portal: portal list_mongo env0
proof -
  have "minio env0 = list_minio" by (simp add: env0_def)
  then show "portal list_mongo env0"
    unfolding portal_def using list_db.mongo_db_axioms list_objects.object_store_axioms by simp
qed

lemma read_stream_ok:
  "read_stream limit err chunks st = Inr st' \<Longrightarrow>
     err = None \<and> st_chunks st' = st_chunks st @ chunks \<and>
     st_hashed st' = st_hashed st @ concat chunks \<and>
     st_fileSize st' = st_fileSize st + int (length (concat chunks)) \<and>
     (exceeds (st_fileSize st') limit \<longrightarrow> exceeds (st_fileSize st) limit \<and> chunks = [])"
proof (induction chunks arbitrary: st)
  case Nil
  then show ?case by (auto split: option.splits)
next
  case (Cons c chunks)
  then show ?case
    by (fastforce simp: Let_def concat_sub_chunks split: if_splits)
qed

lemma read_stream_error:
  "read_stream limit err chunks st = Inl e \<Longrightarrow> \<exists>m. e = CoreError FILE_STREAM_ERROR m"
  by (induction chunks arbitrary: st) (auto simp: Let_def split: option.splits if_splits)

context portal
begin

lemma files_insert:
  "insertOne (files_dr M) (files_collection s) f = Some c \<Longrightarrow>
     set c = insert f (set (files_collection s)) \<and> doc_id f \<notin> doc_id ` set (files_collection s)"
  using files_store.insertOne_set files_store.insertOne_fresh by blast

lemma ensure_bucket_objects: "ensure_bucket E st b = Some st' \<Longrightarrow> obj st' = obj st"
  by (auto simp: ensure_bucket_def makeBucket_objects split: if_splits)

lemma objStore_upload_ok:
  assumes "objStore_uploadFile E x bucket u s = (Inr (), s')"
  shows "\<exists>b. bucket = Some b \<and> obj (store s) (toLowerCase b, u) = None \<and>
    obj (store s') = (obj (store s))((toLowerCase b, u) := Some x) \<and> s' = s\<lparr>store := store s'\<rparr>"
  using assms
  by (auto simp: objStore_uploadFile_def Let_def statObject_iff
      dest!: putObject_objects ensure_bucket_objects split: option.splits if_splits)

lemma objStore_upload_error:
  assumes "objStore_uploadFile E x bucket u s = (Inl e, s')"
  shows "obj (store s') = obj (store s) \<and> s' = s\<lparr>store := store s'\<rparr>"
  using assms
  by (auto simp: objStore_uploadFile_def Let_def
      dest!: putObject_objects ensure_bucket_objects split: option.splits if_splits)

lemma uploadFile_ok:
  assumes "uploadFile E M req studyId userId fu ft cat d ps s = (Inr f, s')"
  shows "\<exists>limit b. upload_limit M s req studyId cat = Inr (limit, Some b) \<and>
    stream_error fu = None \<and> fileSize f = int (length (concat (stream_chunks fu))) \<and>
    \<not> exceeds (fileSize f) limit \<and> hash f = sha256 E (concat (stream_chunks fu)) \<and>
    uri f = uuid_gen E (uuid_next s) \<and> doc_id f = uuid_gen E (Suc (uuid_next s)) \<and>
    file_studyId f = studyId \<and> file_userId f = userId \<and> fileCategory f = cat \<and>
    fileName f = filename fu \<and> fileType f = ft \<and>
    life f = new_life (clock E (tick s)) (doc_id req) \<and>
    obj (store s) (toLowerCase b, uri f) = None \<and>
    obj (store s') = (obj (store s))((toLowerCase b, uri f) := Some (concat (stream_chunks fu))) \<and>
    insertOne (files_dr M) (files_collection s) f = Some (files_collection s') \<and>
    s' = s\<lparr>store := store s', files_collection := files_collection s',
      uuid_next := Suc (Suc (uuid_next s)), tick := Suc (tick s)\<rparr>"
proof -
  from assms obtain limit bucket st s2 where 1: "upload_limit M s req studyId cat = Inr (limit, bucket)"
    "read_stream limit (stream_error fu) (stream_chunks fu)
       \<lparr>st_fileSize = 0, st_chunks = [], st_hashed = []\<rparr> = Inr st"
    "\<not> exceeds (st_fileSize st) limit"
    "objStore_uploadFile E (concat (st_chunks st)) bucket (uuid_gen E (uuid_next s))
       (s\<lparr>uuid_next := Suc (uuid_next s)\<rparr>) = (Inr (), s2)"
    and rest: "f = \<lparr>doc_id = uuid_gen E (uuid_next s2), life = new_life (clock E (tick s2)) (doc_id req),
        metadata = [], file_studyId = studyId, file_userId = userId,
        fileName = filename fu, fileSize = st_fileSize st, file_description = d,
        file_properties = nullish ps [], uri = uuid_gen E (uuid_next s),
        hash = sha256 E (st_hashed st), fileType = ft, fileCategory = cat\<rparr>"
      "insertOne (files_dr M) (files_collection s2) f = Some (files_collection s')"
      "s' = s2\<lparr>files_collection := files_collection s', uuid_next := Suc (uuid_next s2),
         tick := Suc (tick s2)\<rparr>"
    by (auto simp: uploadFile_def handleFileUpload_def uuid_def Date_now_def Let_def
        split: if_splits sum.splits option.splits prod.splits)
  from objStore_upload_ok[OF 1(4)] obtain b where b: "bucket = Some b"
    "obj (store s) (toLowerCase b, uuid_gen E (uuid_next s)) = None"
    "obj (store s2) = (obj (store s))((toLowerCase b, uuid_gen E (uuid_next s)) := Some (concat (st_chunks st)))"
    "s2 = s\<lparr>uuid_next := Suc (uuid_next s), store := store s2\<rparr>"
    by auto
  have fields: "uuid_next s2 = Suc (uuid_next s)" "tick s2 = tick s"
      "files_collection s2 = files_collection s"
    by (subst b(4), simp)+
  have st: "store s' = store s2" by (subst rest(3)) simp
  have "s' = s\<lparr>store := store s', files_collection := files_collection s',
      uuid_next := Suc (Suc (uuid_next s)), tick := Suc (tick s)\<rparr>"
    unfolding st by (subst rest(3), subst (1) b(4)) (simp add: fields)
  with 1 b(1-3) rest(1,2) read_stream_ok[OF 1(2)] show ?thesis
    unfolding fields st by auto
qed

lemma objStore_upload_keeps:
  assumes "objStore_uploadFile E x bucket u s = (r, s')"
  shows "\<exists>st. s' = s\<lparr>store := st\<rparr> \<and> (\<forall>k y. obj (store s) k = Some y \<longrightarrow> obj st k = Some y)"
proof (cases r)
  case (Inl e)
  with objStore_upload_error[of x bucket u s e s'] assms show ?thesis by metis
next
  case (Inr v)
  with objStore_upload_ok[of x bucket u s s'] assms obtain b where
    b: "obj (store s) (toLowerCase b, u) = None"
      "obj (store s') = (obj (store s))((toLowerCase b, u) := Some x)" "s' = s\<lparr>store := store s'\<rparr>"
    by auto
  have "\<forall>k y. obj (store s) k = Some y \<longrightarrow> obj (store s') k = Some y" using b(1,2) by auto
  with b(3) show ?thesis by blast
qed

lemma handleFileUpload_error:
  assumes "handleFileUpload E M sz limit x h fu bucket u req st us ft cat d ps s = (Inl e, s')"
  shows "\<exists>o' n t. s' = s\<lparr>store := o', uuid_next := n, tick := t\<rparr> \<and>
    (\<forall>k y. obj (store s) k = Some y \<longrightarrow> obj o' k = Some y)"
proof (cases "exceeds sz limit")
  case True
  with assms have "s' = s\<lparr>store := store s, uuid_next := uuid_next s, tick := tick s\<rparr>"
    by (simp add: handleFileUpload_def)
  then show ?thesis by blast
next
  case False
  obtain r s1 where up: "objStore_uploadFile E x bucket u s = (r, s1)" by fastforce
  with False assms have "s' = s1\<lparr>uuid_next := uuid_next s1, tick := tick s1\<rparr> \<or>
      s' = s1\<lparr>uuid_next := Suc (uuid_next s1), tick := Suc (tick s1)\<rparr>"
    by (simp add: handleFileUpload_def uuid_def Date_now_def Let_def split: sum.splits option.splits)
  then obtain n t where "s' = s1\<lparr>uuid_next := n, tick := t\<rparr>" by blast
  with objStore_upload_keeps[OF up] show ?thesis by fastforce
qed

lemma uploadFile_error:
  assumes "uploadFile E M req studyId userId fu ft cat d ps s = (Inl e, s')"
  shows "\<exists>o' n t. s' = s\<lparr>store := o', uuid_next := n, tick := t\<rparr> \<and>
    (\<forall>k y. obj (store s) k = Some y \<longrightarrow> obj o' k = Some y)"
proof -
  have same: ?thesis if "s' = s\<lparr>uuid_next := n\<rparr>" for n
  proof -
    have "s' = s\<lparr>store := store s, uuid_next := n, tick := tick s\<rparr>" using that by simp
    then show ?thesis by blast
  qed
  show ?thesis
  proof (cases "truthy studyId \<and>
      findOne (studies_dr M) (studies_collection s) (\<lambda>d. Some (doc_id d) = studyId \<and> alive d) = None")
    case True
    with assms have "s' = s\<lparr>uuid_next := uuid_next s\<rparr>" by (simp add: uploadFile_def)
    then show ?thesis by (rule same)
  next
    case False
    note upd = assms[unfolded uploadFile_def if_not_P[OF False]]
    show ?thesis
    proof (cases "upload_limit M s req studyId cat")
      case (Inl e')
      with upd have "s' = s\<lparr>uuid_next := uuid_next s\<rparr>" by simp
      then show ?thesis by (rule same)
    next
      case (Inr lb)
      obtain limit bucket where lb: "lb = (limit, bucket)" by fastforce
      show ?thesis
      proof (cases "read_stream limit (stream_error fu) (stream_chunks fu)
          \<lparr>st_fileSize = 0, st_chunks = [], st_hashed = []\<rparr>")
        case (Inl e')
        with upd Inr lb have "s' = s\<lparr>uuid_next := Suc (uuid_next s)\<rparr>"
          by (simp add: uuid_def)
        then show ?thesis by (rule same)
      next
        case (Inr st)
        with upd \<open>upload_limit M s req studyId cat = Inr lb\<close> lb
        have "handleFileUpload E M (st_fileSize st) limit (concat (st_chunks st))
            (sha256 E (st_hashed st)) fu bucket (uuid_gen E (uuid_next s)) req studyId userId ft cat d ps
            (s\<lparr>uuid_next := Suc (uuid_next s)\<rparr>) = (Inl e, s')"
          by (simp add: uuid_def)
        from handleFileUpload_error[OF this] show ?thesis by auto
      qed
    qed
  qed
qed

text \<open>Whatever becomes of an upload, it only touches the files and the object store.\<close>

lemma uploadFile_frame:
  assumes "uploadFile E M req studyId userId fu ft cat d ps s = (r, s')"
  shows "\<exists>n t o' fc. s' = s\<lparr>store := o', files_collection := fc, uuid_next := n, tick := t\<rparr>"
proof (cases r)
  case (Inl e)
  with assms uploadFile_error obtain o' n t where
    "s' = s\<lparr>store := o', uuid_next := n, tick := t\<rparr>" by blast
  then have "s' = s\<lparr>store := o', files_collection := files_collection s, uuid_next := n, tick := t\<rparr>" by simp
  then show ?thesis by blast
next
  case (Inr f)
  with assms uploadFile_ok show ?thesis by blast
qed

end

subsection \<open>Properties\<close>

definition upload0 :: FileUpload where
  "upload0 = \<lparr>filename = ''a.txt'', stream_chunks = [''hello'', ''world''], stream_error = None\<rparr>"

definition file0 :: "string \<Rightarrow> string \<Rightarrow> int \<Rightarrow> IFile" where
  "file0 i u n = \<lparr>doc_id = i, life = life0, metadata = [], file_studyId = None, file_userId = Some u,
     fileName = i, fileSize = n, file_description = None, file_properties = [], uri = i, hash = i,
     fileType = TXT, fileCategory = USER_DRIVE_FILE\<rparr>"

definition userconfig0 :: "string \<Rightarrow> int \<Rightarrow> IConfig" where
  "userconfig0 u n = \<lparr>doc_id = ''cfg'' @ u, life = life0, metadata = [], config_type = USERCONFIG,
     config_key = Some u,
     properties = UserProps (default_userConfig\<lparr>defaultMaximumFileRepoSize := n\<rparr>)\<rparr>"

lemma toLowerCase_user: "toLowerCase ''user'' = ''user''"
  by (simp add: toLowerCase_def lower_def of_char_def)

lemmas upload_eval = uploadFile_def handleFileUpload_def upload_limit_def config_or_def
  aggregate_cursor_0_def min_remaining_def exceeds_def uuid_def Date_now_def Let_def
  objStore_uploadFile_def ensure_bucket_def obj_def list_mongo_def list_driver_simps
  files_indexes_def upload0_def file0_def sub_chunks.simps MAX_CHUNK_SIZE_def sample_defs

text \<open>
  C5. A successful upload stores exactly the bytes of the stream, under a name of the object store
  that was free, and records them: the file document has the length of the content, which is
  within the limit of its category, and the content's SHA-256 digest. No other object and no other
  file document changes.
\<close>

theorem upload_stores_within_limit:
  assumes "mongo_ok M" and "object_store (minio E)"
    and "uploadFile E M req studyId userId fu ft cat d ps s = (Inr f, s')"
  shows "\<exists>limit b. upload_limit M s req studyId cat = Inr (limit, Some b) \<and>
    fileSize f = int (length (concat (stream_chunks fu))) \<and> \<not> exceeds (fileSize f) limit \<and>
    hash f = sha256 E (concat (stream_chunks fu)) \<and>
    obj (store s) (toLowerCase b, uri f) = None \<and>
    obj (store s') = (obj (store s))((toLowerCase b, uri f) := Some (concat (stream_chunks fu))) \<and>
    set (files_collection s') = insert f (set (files_collection s)) \<and>
    doc_id f \<notin> doc_id ` set (files_collection s)"
proof -
  have p: "portal M E"
    using assms(1,2) by (simp add: portal_def mongo_db_def)
  from portal.uploadFile_ok[OF p assms(3)] obtain limit b where
    f: "upload_limit M s req studyId cat = Inr (limit, Some b)"
      "fileSize f = int (length (concat (stream_chunks fu)))" "\<not> exceeds (fileSize f) limit"
      "hash f = sha256 E (concat (stream_chunks fu))"
      "obj (store s) (toLowerCase b, uri f) = None"
      "obj (store s') = (obj (store s))((toLowerCase b, uri f) := Some (concat (stream_chunks fu)))"
    and ins: "insertOne (files_dr M) (files_collection s) f = Some (files_collection s')"
    by blast
  from f portal.files_insert[OF p ins] show ?thesis by blast
qed

theorem upload_stores_within_limit_witness:
  "\<exists>f s'. uploadFile env0 list_mongo (user0 ''ann'' STANDARD) None (Some ''ann'') upload0 TXT USER_DRIVE_FILE
      None None db0 = (Inr f, s') \<and>
    fileSize f = 10 \<and> set (files_collection s') = {f}"
proof -
  have "\<exists>f s'. uploadFile env0 list_mongo (user0 ''ann'' STANDARD) None (Some ''ann'') upload0 TXT
      USER_DRIVE_FILE None None db0 = (Inr f, s')"
    by (simp add: upload_eval default_userConfig_def)
  then obtain f s' where up: "uploadFile env0 list_mongo (user0 ''ann'' STANDARD) None (Some ''ann'') upload0 TXT
      USER_DRIVE_FILE None None db0 = (Inr f, s')" by blast
  have "object_store (minio env0)" by (simp add: env0_def list_objects.object_store_axioms)
  from upload_stores_within_limit[OF list_mongo_ok this up] up show ?thesis
    by (auto simp: upload0_def db0_def)
qed

text \<open>
  An upload that fails, for whatever reason (unknown study, stream error, size, object store,
  database), leaves every file document and every stored object as it was.
\<close>

theorem upload_failure_keeps_files:
  assumes "mongo_ok M" and "object_store (minio E)"
    and "uploadFile E M req studyId userId fu ft cat d ps s = (Inl e, s')"
  shows "files_collection s' = files_collection s \<and>
    (\<forall>k x. obj (store s) k = Some x \<longrightarrow> obj (store s') k = Some x)"
proof -
  have p: "portal M E" using assms(1,2) by (simp add: portal_def mongo_db_def)
  from portal.uploadFile_error[OF p assms(3)] show ?thesis by auto
qed

theorem upload_failure_keeps_files_witness:
  "\<exists>e s'. uploadFile env0 list_mongo (user0 ''ann'' STANDARD) None (Some ''ann'') upload0 TXT USER_DRIVE_FILE
      None None (db0\<lparr>configs_collection := [userconfig0 ''ann'' 7]\<rparr>) = (Inl e, s') \<and>
    files_collection s' = []"
proof -
  let ?s = "db0\<lparr>configs_collection := [userconfig0 ''ann'' 7]\<rparr>"
  have "\<exists>e s'. uploadFile env0 list_mongo (user0 ''ann'' STANDARD) None (Some ''ann'') upload0 TXT
      USER_DRIVE_FILE None None ?s = (Inl e, s')"
    by (simp add: upload_eval userconfig0_def default_userConfig_def)
  then obtain e s' where up: "uploadFile env0 list_mongo (user0 ''ann'' STANDARD) None (Some ''ann'') upload0 TXT
      USER_DRIVE_FILE None None ?s = (Inl e, s')" by blast
  have "object_store (minio env0)" by (simp add: env0_def list_objects.object_store_axioms)
  from upload_failure_keeps_files[OF list_mongo_ok this up] up show ?thesis
    by (auto simp: db0_def)
qed

text \<open>
  The repository quota of a user is not enforced: with a quota of 12 bytes and a file of 8
  bytes stored, an upload of 10 bytes succeeds and the user's live files exceed the quota. (The
  total of the stored files is read off a cursor that was never turned into an array.)
\<close>

theorem user_quota_not_enforced:
  "\<exists>f s'. uploadFile env0 list_mongo (user0 ''ann'' STANDARD) None (Some ''ann'') upload0 TXT USER_DRIVE_FILE
      None None (db0\<lparr>configs_collection := [userconfig0 ''ann'' 12], files_collection := [file0 ''f'' ''ann'' 8]\<rparr>)
      = (Inr f, s') \<and>
    sum_list (map fileSize (filter (\<lambda>g. file_userId g = Some ''ann'' \<and> alive g) (files_collection s'))) = 18"
  by (simp add: upload_eval userconfig0_def default_userConfig_def alive_def toLowerCase_user)

end
