(* ===== verification/Drive.thy ===== *)
theory Drive
  imports FileStore
begin

section \<open>User drives (\<open>driveCore.ts\<close>)\<close>

text \<open>
  The class \<open>DriveCore\<close>: a forest of folders and files per user. A node names its parent and
  lists its children, keeps the path of ids from its root, its manager and the users it is shared
  with. The operations are the code's, step by step; \<open>recursiveFindDrives\<close> walks the stored
  child lists, which may be cyclic, so it takes fuel and \<open>None\<close> means that it does not return.
\<close>

subsection \<open>Creating folders and files\<close>

text \<open>A shared user with the right to write; the manager compared with a user id.\<close>

definition shared_write :: "string \<Rightarrow> IDrive \<Rightarrow> bool" where
  "shared_write u d = list_ex (\<lambda>el. iid el = u \<and> can_write el) (sharedUsers d)"

definition push_child :: "string \<Rightarrow> IDrive \<Rightarrow> IDrive" where
  "push_child c d = d\<lparr>children := children d @ [c]\<rparr>"

text \<open>Both operations end by inserting the node and pushing its id to the parent.\<close>

definition insert_node :: "mongo \<Rightarrow> IDrive \<Rightarrow> string \<Rightarrow> db \<Rightarrow> IDrive result \<times> db" where
  "insert_node M driveEntry parentId s =
     (case insertOne (drives_dr M) (drives_collection s) driveEntry of
        None \<Rightarrow> (Inl MongoServerError, s)
      | Some c \<Rightarrow>
          (case updateOne (drives_dr M) c (\<lambda>d. doc_id d = parentId) (push_child (doc_id driveEntry)) of
             None \<Rightarrow> (Inl MongoServerError, s\<lparr>drives_collection := c\<rparr>)
           | Some (_, c') \<Rightarrow> (Inr driveEntry, s\<lparr>drives_collection := c'\<rparr>)))"

text \<open>The node an optional parent id stands for: the requester's root when it is not given.\<close>

definition find_parent :: "mongo \<Rightarrow> IUserWithoutToken \<Rightarrow> string option \<Rightarrow> db \<Rightarrow> IDrive option" where
  "find_parent M req parentId s =
     (if truthy parentId
      then findOne (drives_dr M) (drives_collection s) (\<lambda>d. Some (doc_id d) = parentId \<and> alive d)
      else findOne (drives_dr M) (drives_collection s)
             (\<lambda>d. managerId d = Uid (doc_id req) \<and> parent d = None))"

definition createDriveFolder ::
    "env \<Rightarrow> mongo \<Rightarrow> requester \<Rightarrow> string \<Rightarrow> string option \<Rightarrow> bool \<Rightarrow> string option \<Rightarrow> db
     \<Rightarrow> IDrive result \<times> db" where
  "createDriveFolder E M requester folderName parentId restr description s =
     (case requester of
        None \<Rightarrow> (Inl (core_error NOT_LOGGED_IN), s)
      | Some req \<Rightarrow>
          (case find_parent M req parentId s of
             None \<Rightarrow> (Inl (CoreError NO_PERMISSION_ERROR ''No permission to create folder.''), s)
           | Some par \<Rightarrow>
               if \<not> shared_write (doc_id req) par \<and> managerId par \<noteq> Uid (doc_id req)
               then (Inl (CoreError NO_PERMISSION_ERROR ''No permission to create folder.''), s)
               else if drive_type par \<noteq> FOLDER
               then (Inl (CoreError CLIENT_MALFORMED_INPUT ''Parent is not a folder.''), s)
               else if folderName \<in> drive_name ` set (filter (\<lambda>el. drive_type el = FOLDER)
                         (find_many (drives_dr M) (drives_collection s)
                            (\<lambda>d. parent d = Some (doc_id par) \<and> alive d)))
               then (Inl (CoreError CLIENT_MALFORMED_INPUT ''Folder already exists.''), s)
               else
                 (let (folderDriveId, s1) = uuid E s;
                      (now, s2) = Date_now E s1;
                      driveEntry = \<lparr>doc_id = folderDriveId, life = new_life now (doc_id req),
                        metadata = [], managerId = managerId par,
                        path = path par @ [folderDriveId], restricted = restr,
                        drive_name = folderName, drive_description = description, fileId = None,
                        drive_type = FOLDER, parent = Some (doc_id par), children = [],
                        sharedUsers = sharedUsers par, childeren = None\<rparr>
                  in insert_node M driveEntry (doc_id par) s2)))"

text \<open>
  \<open>createDriveFile\<close> compares the shared user's id with the requester object itself
  (\<open>el.iid === requester\<close>), which is never equal; and it looks for a file of the same name among
  the nodes whose parent is the given id, not the id of the node it found.
\<close>

definition shared_write_object :: "IUserWithoutToken \<Rightarrow> IDrive \<Rightarrow> bool" where
  "shared_write_object req d =
     list_ex (\<lambda>el. Uid (iid el) = UserDoc (doc_id req) \<and> can_write el) (sharedUsers d)"

definition createDriveFile ::
    "env \<Rightarrow> mongo \<Rightarrow> requester \<Rightarrow> string option \<Rightarrow> string option \<Rightarrow> enumFileTypes \<Rightarrow> FileUpload \<Rightarrow> db
     \<Rightarrow> IDrive result \<times> db" where
  "createDriveFile E M requester parentId description ftype file s =
     (case requester of
        None \<Rightarrow> (Inl (core_error NOT_LOGGED_IN), s)
      | Some req \<Rightarrow>
          (case find_parent M req parentId s of
             None \<Rightarrow> (Inl (core_error NO_PERMISSION_ERROR), s)
           | Some par \<Rightarrow>
               if \<not> shared_write_object req par \<and> managerId par \<noteq> Uid (doc_id req)
               then (Inl (core_error NO_PERMISSION_ERROR), s)
               else if drive_type par \<noteq> FOLDER
               then (Inl (CoreError CLIENT_MALFORMED_INPUT ''Parent is not a folder.''), s)
               else if filename file \<in> drive_name ` set (filter (\<lambda>el. drive_type el = FILE)
                         (find_many (drives_dr M) (drives_collection s)
                            (\<lambda>d. parent d = parentId \<and> alive d)))
               then (Inl (CoreError CLIENT_MALFORMED_INPUT ''File already exists.''), s)
               else
                 (case uploadFile E M req None (Some (doc_id req)) file ftype USER_DRIVE_FILE
                         description None s of
                    (Inl e, s1) \<Rightarrow> (Inl e, s1)
                  | (Inr fileEntry, s1) \<Rightarrow>
                      (let (fileDriveId, s2) = uuid E s1;
                           (now, s3) = Date_now E s2;
                           driveEntry = \<lparr>doc_id = fileDriveId, life = new_life now (doc_id req),
                             metadata = [(''fileSize'', JNum (Fin (of_int (fileSize fileEntry))))],
                             managerId = Uid (doc_id req), path = path par @ [fileDriveId],
                             restricted = False, drive_name = filename file,
                             drive_description = description, fileId = Some (doc_id fileEntry),
                             drive_type = FILE, parent = Some (doc_id par), children = [],
                             sharedUsers = sharedUsers par, childeren = None\<rparr>
                       in insert_node M driveEntry (doc_id par) s3))))"

subsection \<open>Creating drives recursively\<close>

text \<open>The file type of a name, by its extension.\<close>

definition file_type_of_name :: "string \<Rightarrow> enumFileTypes" where
  "file_type_of_name fn =
     (case file_type_of_extension fn of
        None \<Rightarrow> UNKNOWN
      | Some t \<Rightarrow> t)"

definition find_named :: "mongo \<Rightarrow> string \<Rightarrow> string \<Rightarrow> db \<Rightarrow> IDrive option" where
  "find_named M parentId name s =
     findOne (drives_dr M) (drives_collection s)
       (\<lambda>d. parent d = Some parentId \<and> drive_name d = name \<and> alive d)"

text \<open>The inner loops: one folder per name, created where it does not exist.\<close>

fun create_folders ::
    "env \<Rightarrow> mongo \<Rightarrow> requester \<Rightarrow> string list \<Rightarrow> string \<Rightarrow> IDrive list \<Rightarrow> db
     \<Rightarrow> (string \<times> IDrive list) result \<times> db" where
  "create_folders E M requester [] currentParent created s = (Inr (currentParent, created), s)"
| "create_folders E M requester (name # names) currentParent created s =
     (case find_named M currentParent name s of
        Some existing \<Rightarrow>
          create_folders E M requester names (doc_id existing) (created @ [existing]) s
      | None \<Rightarrow>
          (case createDriveFolder E M requester name (Some currentParent) False None s of
             (Inl e, s1) \<Rightarrow> (Inl e, s1)
           | (Inr res, s1) \<Rightarrow>
               create_folders E M requester names (doc_id res) (created @ [res]) s1))"

fun create_paths ::
    "env \<Rightarrow> mongo \<Rightarrow> requester \<Rightarrow> string \<Rightarrow> FileUpload list \<Rightarrow> string list list \<Rightarrow> IDrive list \<Rightarrow> db
     \<Rightarrow> IDrive list result \<times> db" where
  "create_paths E M requester parentId files [] created s = (Inr created, s)"
| "create_paths E M requester parentId (file # files) (p # paths) created s =
     (case create_folders E M requester (butlast p) parentId created s of
        (Inl e, s1) \<Rightarrow> (Inl e, s1)
      | (Inr (currentParent, created1), s1) \<Rightarrow>
          (case find_named M currentParent (filename file) s1 of
             Some _ \<Rightarrow> create_paths E M requester parentId files paths created1 s1
           | None \<Rightarrow>
               (case createDriveFile E M requester (Some currentParent) None
                       (file_type_of_name (filename file)) file s1 of
                  (Inl e, s2) \<Rightarrow> (Inl e, s2)
                | (Inr res, s2) \<Rightarrow>
                    create_paths E M requester parentId files paths (created1 @ [res]) s2)))"
| "create_paths E M requester parentId [] (p # paths) created s =
     (case create_folders E M requester p parentId created s of
        (Inl e, s1) \<Rightarrow> (Inl e, s1)
      | (Inr (_, created1), s1) \<Rightarrow> create_paths E M requester parentId [] paths created1 s1)"

definition createRecursiveDrives ::
    "env \<Rightarrow> mongo \<Rightarrow> requester \<Rightarrow> string \<Rightarrow> FileUpload list \<Rightarrow> string list list \<Rightarrow> db
     \<Rightarrow> IDrive list result \<times> db" where
  "createRecursiveDrives E M requester parentId files paths s =
     (case requester of
        None \<Rightarrow> (Inl (core_error NOT_LOGGED_IN), s)
      | Some req \<Rightarrow>
          (case find_parent M req (Some parentId) s of
             None \<Rightarrow>
               (if parentId \<noteq> []
                then (Inl (CoreError CLIENT_ACTION_ON_NON_EXISTENT_ENTRY ''Parent node does not exist.''), s)
                else (Inl (CoreError CLIENT_MALFORMED_INPUT ''Default root node not found.''), s))
           | Some par \<Rightarrow>
               if drive_type par \<noteq> FOLDER
               then (Inl (CoreError CLIENT_MALFORMED_INPUT ''Parent is not a folder.''), s)
               else create_paths E M requester parentId files paths [] s))"

subsection \<open>Walking a drive\<close>

text \<open>
  \<open>recursiveFindDrives(root, driveFileIds, driveIds)\<close>: the two arrays it pushes to are the
  accumulator and the result. Each level of recursion takes one unit of fuel.
\<close>

function (sequential) recursiveFindDrives ::
    "nat \<Rightarrow> mongo \<Rightarrow> db \<Rightarrow> IDrive \<Rightarrow> string list \<times> string list \<Rightarrow> (string list \<times> string list) option"
  and find_children ::
    "nat \<Rightarrow> mongo \<Rightarrow> db \<Rightarrow> string list \<Rightarrow> string list \<times> string list \<Rightarrow> (string list \<times> string list) option"
where
  "recursiveFindDrives 0 M s rt acc = None"
| "recursiveFindDrives (Suc n) M s rt (driveFileIds, driveIds) =
     (if drive_type rt = FILE \<and> truthy (fileId rt)
      then Some (driveFileIds @ [the (fileId rt)], driveIds @ [doc_id rt])
      else if drive_type rt = FOLDER
      then find_children n M s (children rt) (driveFileIds, driveIds @ [doc_id rt])
      else Some (driveFileIds, driveIds @ [doc_id rt]))"
| "find_children n M s [] acc = Some acc"
| "find_children n M s (child # rest) acc =
     (case findOne (drives_dr M) (drives_collection s) (\<lambda>d. doc_id d = child \<and> alive d) of
        None \<Rightarrow> find_children n M s rest acc
      | Some thisDrive \<Rightarrow>
          (case recursiveFindDrives n M s thisDrive acc of
             None \<Rightarrow> None
           | Some acc' \<Rightarrow> find_children n M s rest acc'))"
  by pat_completeness auto

termination
  by (relation "inv_image (less_than <*lex*> less_than)
        (\<lambda>x. case x of Inl (n, _) \<Rightarrow> (n, 0) | Inr (n, _, _, cs, _) \<Rightarrow> (n, Suc (length cs)))") auto

subsection \<open>Editing, moving and sharing\<close>

text \<open>
  The object \<open>setObj\<close>, as the update it makes: the manager is stored as the user document, the
  child list under the misspelt property \<open>childeren\<close>.
\<close>

definition edit_drive_set ::
    "string option \<Rightarrow> string option \<Rightarrow> string option \<Rightarrow> string option \<Rightarrow> string list option
     \<Rightarrow> IDrivePermission list option \<Rightarrow> IDrive \<Rightarrow> IDrive" where
  "edit_drive_set mgr name description parentId chs shared d = d\<lparr>
     managerId := (if truthy mgr then UserDoc (the mgr) else managerId d),
     drive_name := (if truthy name then the name else drive_name d),
     drive_description := (if truthy description then description else drive_description d),
     parent := (if truthy parentId then parentId else parent d),
     childeren := (case chs of None \<Rightarrow> childeren d | Some x \<Rightarrow> Some x),
     sharedUsers := (case shared of None \<Rightarrow> sharedUsers d | Some x \<Rightarrow> x)\<rparr>"

text \<open>The object \<open>setObjTmp\<close>, for all nodes below.\<close>

definition edit_drive_tree_set ::
    "string option \<Rightarrow> IDrivePermission list option \<Rightarrow> IDrive \<Rightarrow> IDrive" where
  "edit_drive_tree_set mgr shared d = d\<lparr>
     managerId := (if truthy mgr then Uid (the mgr) else managerId d),
     sharedUsers := (case shared of None \<Rightarrow> sharedUsers d | Some x \<Rightarrow> x)\<rparr>"

text \<open>The checks on the arguments, in the order of the code; \<open>None\<close> when all pass.\<close>

definition edit_drive_error ::
    "mongo \<Rightarrow> db \<Rightarrow> IDrive \<Rightarrow> string option \<Rightarrow> string option \<Rightarrow> string option \<Rightarrow> string option
     \<Rightarrow> string list option \<Rightarrow> IDrivePermission list option \<Rightarrow> error option" where
  "edit_drive_error M s drive mgr name description parentId chs shared =
     (if truthy mgr \<and> findOne (users_dr M) (users_collection s) (\<lambda>u. Some (doc_id u) = mgr \<and> alive u) = None
      then Some (CoreError CLIENT_MALFORMED_INPUT ''Manager does not exist.'')
      else if truthy name \<and> the name \<in> drive_name ` set (find_many (drives_dr M) (drives_collection s)
                (\<lambda>d. parent d = parent drive \<and> alive d))
      then Some (CoreError CLIENT_MALFORMED_INPUT ''Name already exists.'')
      else if truthy parentId \<and>
              findOne (drives_dr M) (drives_collection s) (\<lambda>d. Some (doc_id d) = parentId \<and> alive d) = None
      then Some (CoreError CLIENT_ACTION_ON_NON_EXISTENT_ENTRY ''Parent does not exist.'')
      else if list_ex (\<lambda>c. c \<notin> doc_id ` set (find_many (drives_dr M) (drives_collection s) alive))
                (nullish chs [])
      then Some (CoreError CLIENT_ACTION_ON_NON_EXISTENT_ENTRY ''Children do not exist.'')
      else if list_ex (\<lambda>p. iid p \<notin> doc_id ` set (find_many (users_dr M) (users_collection s) alive))
                (nullish shared [])
      then Some (CoreError CLIENT_ACTION_ON_NON_EXISTENT_ENTRY ''Shared users do not exist.'')
      else if \<not> truthy mgr \<and> \<not> truthy name \<and> \<not> truthy description \<and> \<not> truthy parentId \<and>
              chs = None \<and> shared = None
      then Some (CoreError CLIENT_MALFORMED_INPUT ''You have to edit at lease one property.'')
      else None)"

text \<open>The loop that rewrites the paths of the moved nodes.\<close>

fun update_paths :: "mongo \<Rightarrow> string \<Rightarrow> string list \<Rightarrow> string list \<Rightarrow> db \<Rightarrow> unit result \<times> db" where
  "update_paths M driveId parentPath [] s = (Inr (), s)"
| "update_paths M driveId parentPath (childId # driveIds) s =
     (case findOne (drives_dr M) (drives_collection s) (\<lambda>d. doc_id d = childId) of
        None \<Rightarrow> update_paths M driveId parentPath driveIds s
      | Some childNode \<Rightarrow>
          (case updateOne (drives_dr M) (drives_collection s) (\<lambda>d. doc_id d = childId)
                  (\<lambda>d. d\<lparr>path := parentPath @ dropWhile (\<lambda>i. i \<noteq> driveId) (path childNode)\<rparr>) of
             None \<Rightarrow> (Inl MongoServerError, s)
           | Some (_, c) \<Rightarrow> update_paths M driveId parentPath driveIds (s\<lparr>drives_collection := c\<rparr>)))"

text \<open>The part for the \<open>mv\<close> command.\<close>

definition move_drive :: "mongo \<Rightarrow> string \<Rightarrow> string option \<Rightarrow> string list \<Rightarrow> db \<Rightarrow> unit result \<times> db" where
  "move_drive M driveId parentId driveIds s =
     (if \<not> truthy parentId then (Inr (), s)
      else
        (case findOne (drives_dr M) (drives_collection s) (\<lambda>d. Some (doc_id d) = parentId \<and> alive d) of
           None \<Rightarrow> (Inr (), s)
         | Some parentNode \<Rightarrow>
             (case updateOne (drives_dr M) (drives_collection s) (\<lambda>d. Some (doc_id d) = parentId)
                     (push_child driveId) of
                None \<Rightarrow> (Inl MongoServerError, s)
              | Some (_, c) \<Rightarrow>
                  update_paths M driveId (path parentNode) driveIds (s\<lparr>drives_collection := c\<rparr>))))"

definition editDrive ::
    "nat \<Rightarrow> mongo \<Rightarrow> requester \<Rightarrow> string \<Rightarrow> string option \<Rightarrow> string option \<Rightarrow> string option
     \<Rightarrow> string option \<Rightarrow> string list option \<Rightarrow> IDrivePermission list option \<Rightarrow> db
     \<Rightarrow> ((string list \<times> IDrive) result \<times> db) option" where
  "editDrive n M requester driveId mgr name description parentId chs shared s =
     (case requester of
        None \<Rightarrow> Some (Inl (core_error NOT_LOGGED_IN), s)
      | Some req \<Rightarrow>
     (case findOne (drives_dr M) (drives_collection s) (\<lambda>d. doc_id d = driveId \<and> alive d) of
        None \<Rightarrow> Some (Inl (core_error NO_PERMISSION_ERROR), s)
      | Some drive \<Rightarrow>
     if user_type req \<noteq> ADMIN \<and> managerId drive \<noteq> Uid (doc_id req)
     then Some (Inl (core_error NO_PERMISSION_ERROR), s)
     else
     (case edit_drive_error M s drive mgr name description parentId chs shared of
        Some e \<Rightarrow> Some (Inl e, s)
      | None \<Rightarrow>
     (let f = edit_drive_set mgr name description parentId chs shared in
      case updateOne (drives_dr M) (drives_collection s) (\<lambda>d. doc_id d = driveId) f of
        None \<Rightarrow> Some (Inl MongoServerError, s)
      | Some (before, c) \<Rightarrow>
     (let s1 = s\<lparr>drives_collection := c\<rparr> in
      case (if shared \<noteq> None \<or> truthy mgr then map_option snd (recursiveFindDrives n M s1 drive ([], []))
            else Some [driveId]) of
        None \<Rightarrow> None
      | Some driveIds \<Rightarrow>
     (let (ok, c2) = (if shared \<noteq> None \<or> truthy mgr
             then updateMany (drives_dr M) (drives_collection s1) (\<lambda>d. doc_id d \<in> set driveIds)
                    (edit_drive_tree_set mgr shared)
             else (True, drives_collection s1));
          s2 = s1\<lparr>drives_collection := c2\<rparr>
      in Some (if \<not> ok then (Inl MongoServerError, s2)
               else (case move_drive M driveId parentId driveIds s2 of
                       (Inl e, s3) \<Rightarrow> (Inl e, s3)
                     | (Inr _, s3) \<Rightarrow>
                         (case before of
                            None \<Rightarrow> (Inl (core_error DATABASE_ERROR), s3)
                          | Some b \<Rightarrow> (Inr (driveIds, f b), s3))))))))))"

text \<open>The users behind the e-mail addresses; unknown addresses are skipped.\<close>

fun emails_to_permissions ::
    "mongo \<Rightarrow> db \<Rightarrow> string list \<Rightarrow> bool \<times> bool \<times> bool \<Rightarrow> IDrivePermission list" where
  "emails_to_permissions M s [] perms = []"
| "emails_to_permissions M s (em # ems) perms =
     (case findOne (users_dr M) (users_collection s) (\<lambda>u. email u = em \<and> alive u) of
        None \<Rightarrow> emails_to_permissions M s ems perms
      | Some user \<Rightarrow>
          \<lparr>iid = doc_id user, can_read = fst perms, can_write = fst (snd perms),
           can_delete = snd (snd perms)\<rparr> # emails_to_permissions M s ems perms)"

fun share_drives ::
    "nat \<Rightarrow> mongo \<Rightarrow> requester \<Rightarrow> IDrivePermission list \<Rightarrow> string list \<Rightarrow> db \<Rightarrow> (unit result \<times> db) option" where
  "share_drives n M requester perms [] s = Some (Inr (), s)"
| "share_drives n M requester perms (driveId # driveIds) s =
     (case findOne (drives_dr M) (drives_collection s) (\<lambda>d. doc_id d = driveId \<and> alive d) of
        None \<Rightarrow> share_drives n M requester perms driveIds s
      | Some _ \<Rightarrow>
          (case editDrive n M requester driveId None None None None None (Some perms) s of
             None \<Rightarrow> None
           | Some (Inl e, s1) \<Rightarrow> Some (Inl e, s1)
           | Some (Inr _, s1) \<Rightarrow> share_drives n M requester perms driveIds s1))"

definition shareDriveToUserViaEmail ::
    "nat \<Rightarrow> mongo \<Rightarrow> requester \<Rightarrow> string list \<Rightarrow> string \<Rightarrow> bool \<times> bool \<times> bool \<Rightarrow> db
     \<Rightarrow> (string list result \<times> db) option" where
  "shareDriveToUserViaEmail n M requester userEmails driveId perms s =
     (case requester of
        None \<Rightarrow> Some (Inl (core_error NOT_LOGGED_IN), s)
      | Some req \<Rightarrow>
          (case findOne (drives_dr M) (drives_collection s)
                  (\<lambda>d. doc_id d = driveId \<and> alive d \<and> managerId d = Uid (doc_id req)) of
             None \<Rightarrow> Some (Inl (CoreError NO_PERMISSION_ERROR
                         ''You do not have permission to share this drive.''), s)
           | Some drive \<Rightarrow>
               (let userIds = emails_to_permissions M s userEmails perms
                in case recursiveFindDrives n M s drive ([], []) of
                     None \<Rightarrow> None
                   | Some (_, driveIds) \<Rightarrow>
                       (case share_drives n M requester userIds driveIds s of
                          None \<Rightarrow> None
                        | Some (Inl e, s1) \<Rightarrow> Some (Inl e, s1)
                        | Some (Inr _, s1) \<Rightarrow> Some (Inr driveIds, s1)))))"

subsection \<open>Deleting\<close>

text \<open>
  There is no check of the requester beyond being logged in. The last update is made on the
  collection of files, by the id of the parent drive, and pulls from a property that file
  documents do not have: it changes nothing.
\<close>

definition deleteDrive ::
    "nat \<Rightarrow> env \<Rightarrow> mongo \<Rightarrow> requester \<Rightarrow> string \<Rightarrow> db \<Rightarrow> (IDrive result \<times> db) option" where
  "deleteDrive n E M requester driveId s =
     (case requester of
        None \<Rightarrow> Some (Inl (core_error NOT_LOGGED_IN), s)
      | Some req \<Rightarrow>
     (case findOne (drives_dr M) (drives_collection s) (\<lambda>d. doc_id d = driveId \<and> alive d) of
        None \<Rightarrow> Some (Inl (CoreError CLIENT_ACTION_ON_NON_EXISTENT_ENTRY ''Drive does not exist.''), s)
      | Some drive \<Rightarrow>
     if restricted drive \<or> parent drive = None
     then Some (Inl (CoreError NO_PERMISSION_ERROR ''You can not delete this drive.''), s)
     else
     (case recursiveFindDrives n M s drive ([], []) of
        None \<Rightarrow> None
      | Some (driveFileIds, driveIds) \<Rightarrow>
     (let (now1, s1) = Date_now E s;
          (ok1, c1) = updateMany (drives_dr M) (drives_collection s1) (\<lambda>d. doc_id d \<in> set driveIds)
                        (mark_deleted now1 (Uid (doc_id req)));
          s2 = s1\<lparr>drives_collection := c1\<rparr>
      in if \<not> ok1 then Some (Inl MongoServerError, s2) else
     (let (now2, s3) = Date_now E s2;
          (ok2, c2) = updateMany (files_dr M) (files_collection s3) (\<lambda>d. doc_id d \<in> set driveFileIds)
                        (mark_deleted now2 (Uid (doc_id req)));
          s4 = s3\<lparr>files_collection := c2\<rparr>
      in if \<not> ok2 then Some (Inl MongoServerError, s4) else
     (let (ok3, c3) = updateMany (files_dr M) (files_collection s4)
                        (\<lambda>d. Some (doc_id d) = parent drive) (\<lambda>d. d);
          s5 = s4\<lparr>files_collection := c3\<rparr>
      in Some (if \<not> ok3 then (Inl MongoServerError, s5) else (Inr drive, s5))))))))"

subsection \<open>Listing\<close>

text \<open>A manager as a property name of the result object.\<close>

fun uref_String :: "uref \<Rightarrow> string" where
  "uref_String (Uid u) = u"
| "uref_String (UserDoc u) = ''[object Object]''"

definition visible_drive :: "IUserWithoutToken \<Rightarrow> IDrive \<Rightarrow> IDrive" where
  "visible_drive req drive =
     (if user_type req \<noteq> ADMIN \<and> managerId drive \<noteq> Uid (doc_id req)
      then drive\<lparr>sharedUsers := filter (\<lambda>el. iid el = doc_id req) (sharedUsers drive)\<rparr>
      else drive)"

text \<open>
  One group: the drives of one manager. Where no root is among them a root node is made up, and
  the drives whose parent is not among them are hung below it.
\<close>

definition shared_root :: "IUserWithoutToken \<Rightarrow> int \<Rightarrow> uref \<Rightarrow> string list \<Rightarrow> IDrive" where
  "shared_root req now manager chs =
     \<lparr>doc_id = ''shared_by_'' @ uref_String manager,
      life = new_life now (uref_String manager), metadata = [], managerId = manager,
      path = [''shared_by_'' @ uref_String manager], restricted = False, drive_name = ''Shared'',
      drive_description = None, fileId = None, drive_type = FOLDER, parent = None, children = chs,
      sharedUsers = [\<lparr>iid = doc_id req, can_read = True, can_write = False, can_delete = False\<rparr>],
      childeren = None\<rparr>"

definition group_drives :: "env \<Rightarrow> IUserWithoutToken \<Rightarrow> uref \<Rightarrow> IDrive list \<Rightarrow> db \<Rightarrow> IDrive list \<times> db" where
  "group_drives E req manager drives s =
     (let result = map (visible_drive req) drives
      in if list_ex (\<lambda>el. parent el = None) drives then (result, s)
         else
           (let (now, s1) = Date_now E s;
                existingIds = map doc_id drives;
                orphan = (\<lambda>d. \<not> truthy (parent d) \<or> the (parent d) \<notin> set existingIds);
                rid = ''shared_by_'' @ uref_String manager
            in (map (\<lambda>d. if orphan d then d\<lparr>parent := Some rid\<rparr> else d) result @
                  [shared_root req now manager (map doc_id (filter orphan result))], s1)))"

fun group_all ::
    "env \<Rightarrow> IUserWithoutToken \<Rightarrow> IDrive list \<Rightarrow> uref list \<Rightarrow> db \<Rightarrow> (uref \<times> IDrive list) list \<times> db" where
  "group_all E req drives [] s = ([], s)"
| "group_all E req drives (m # ms) s =
     (let (g, s1) = group_drives E req m (filter (\<lambda>d. managerId d = m) drives) s;
          (gs, s2) = group_all E req drives ms s1
      in ((m, g) # gs, s2))"

text \<open>
  The result is the list of groups by manager, one for each, in some order (MongoDB's \<open>$group\<close>
  promises none, and the code stores the groups in an object).
\<close>

definition getDrives ::
    "env \<Rightarrow> mongo \<Rightarrow> requester \<Rightarrow> string option \<Rightarrow> db \<Rightarrow> (uref \<times> IDrive list) list result \<times> db" where
  "getDrives E M requester rootId s =
     (case requester of
        None \<Rightarrow> (Inl (core_error NOT_LOGGED_IN), s)
      | Some req \<Rightarrow>
          (let rootDrive = (if truthy rootId
                 then findOne (drives_dr M) (drives_collection s) (\<lambda>d. Some (doc_id d) = rootId \<and> alive d)
                 else None)
           in if truthy rootId \<and> rootDrive = None
              then (Inl (CoreError CLIENT_ACTION_ON_NON_EXISTENT_ENTRY ''Root drive does not exist.''), s)
              else if user_type req \<noteq> ADMIN \<and> rootDrive \<noteq> None \<and>
                      managerId (the rootDrive) \<noteq> Uid (doc_id req)
              then (Inl (CoreError NO_PERMISSION_ERROR ''No permission to get drives.''), s)
              else
                (case RegExp E (if truthy rootId then ''^'' @ the rootId @ ''$'' else ''^.*$'') of
                   None \<Rightarrow> (Inl (JSError ''SyntaxError''), s)
                 | Some test \<Rightarrow>
                     (let drives = find_many (drives_dr M) (drives_collection s)
                            (\<lambda>d. alive d \<and> test (doc_id d) \<and>
                               (managerId d = Uid (doc_id req) \<or>
                                list_ex (\<lambda>p. iid p = doc_id req) (sharedUsers d)));
                          (gs, s1) = group_all E req drives (remdups (map managerId drives)) s
                      in (Inr gs, s1)))))"

end
