(* ===== verification/DriveTree.thy ===== *)
theory DriveTree
  imports Drive
begin

section \<open>The drive forest: invariant and operations\<close>

text \<open>
  The abstract view of the drives: the edges the walk follows, the well-formedness of the forest,
  and what the operations of theory \<open>Drive\<close> do to it. A well-formed forest has no cycles, which
  bounds the fuel the walk needs.
\<close>

subsection \<open>Edges and the walk\<close>

definition edge :: "db \<Rightarrow> IDrive \<Rightarrow> IDrive \<Rightarrow> bool" where
  "edge s d e \<longleftrightarrow> drive_type d = FOLDER \<and> doc_id e \<in> set (children d) \<and>
     e \<in> set (drives_collection s) \<and> alive e"

definition below :: "db \<Rightarrow> IDrive \<Rightarrow> IDrive set" where
  "below s d = {e. (edge s)\<^sup>*\<^sup>* d e}"

definition file_of :: "IDrive \<Rightarrow> string \<Rightarrow> bool" where
  "file_of d f \<longleftrightarrow> drive_type d = FILE \<and> fileId d = Some f \<and> f \<noteq> []"

lemma below_self: "d \<in> below s d"
  by (simp add: below_def)

lemma below_leaf: "drive_type d \<noteq> FOLDER \<Longrightarrow> below s d = {d}"
  unfolding below_def by (auto elim: converse_rtranclpE simp: edge_def)

lemma below_folder:
  "drive_type d = FOLDER \<Longrightarrow>
     below s d = insert d (\<Union>e \<in> {e \<in> set (drives_collection s). alive e \<and> doc_id e \<in> set (children d)}. below s e)"
  unfolding below_def
  by (auto elim: converse_rtranclpE intro: converse_rtranclp_into_rtranclp simp: edge_def)

lemma below_stored: "e \<in> below s d \<Longrightarrow> e = d \<or> (e \<in> set (drives_collection s) \<and> alive e)"
  unfolding below_def by (auto elim: rtranclp.cases simp: edge_def)

definition collects :: "db \<Rightarrow> IDrive set \<Rightarrow> string list \<times> string list \<Rightarrow> string list \<times> string list \<Rightarrow> bool" where
  "collects s X acc acc' \<longleftrightarrow>
     set (snd acc') = set (snd acc) \<union> doc_id ` X \<and>
     set (fst acc') = set (fst acc) \<union> {f. \<exists>e \<in> X. file_of e f}"

lemma collects_trans: "collects s X a b \<Longrightarrow> collects s Y b c \<Longrightarrow> collects s (X \<union> Y) a c"
  unfolding collects_def by auto

abbreviation (input) live_children :: "db \<Rightarrow> string list \<Rightarrow> IDrive set" where
  "live_children s cs \<equiv> {e \<in> set (drives_collection s). alive e \<and> doc_id e \<in> set cs}"

context mongo_db
begin

lemma findOne_live:
  assumes "indexed (drives_dr M) (drives_collection s)"
  shows "findOne (drives_dr M) (drives_collection s) (\<lambda>d. doc_id d = c \<and> alive d) = Some e \<longleftrightarrow>
    e \<in> set (drives_collection s) \<and> alive e \<and> doc_id e = c"
proof
  assume "findOne (drives_dr M) (drives_collection s) (\<lambda>d. doc_id d = c \<and> alive d) = Some e"
  from drives_store.findOne_Some[OF this] show "e \<in> set (drives_collection s) \<and> alive e \<and> doc_id e = c"
    by simp
next
  assume e: "e \<in> set (drives_collection s) \<and> alive e \<and> doc_id e = c"
  show "findOne (drives_dr M) (drives_collection s) (\<lambda>d. doc_id d = c \<and> alive d) = Some e"
    by (rule drives_store.findOne_key[OF assms]) (use e in simp_all)
qed

lemma findOne_live_None:
  "findOne (drives_dr M) (drives_collection s) (\<lambda>d. doc_id d = c \<and> alive d) = None \<longleftrightarrow>
    (\<forall>e \<in> set (drives_collection s). alive e \<longrightarrow> doc_id e \<noteq> c)"
  by (auto simp: drives_store.findOne_None)

lemma live_children_Cons_None:
  "findOne (drives_dr M) (drives_collection s) (\<lambda>d. doc_id d = c \<and> alive d) = None \<Longrightarrow>
     live_children s (c # cs) = live_children s cs"
  by (auto simp: findOne_live_None)

lemma live_children_Cons_Some:
  assumes "indexed (drives_dr M) (drives_collection s)"
    and "findOne (drives_dr M) (drives_collection s) (\<lambda>d. doc_id d = c \<and> alive d) = Some e"
  shows "live_children s (c # cs) = insert e (live_children s cs)"
  using assms drives_store.key_inj[OF assms(1)] by (auto simp: findOne_live)

lemma find_children_collects:
  assumes ix: "indexed (drives_dr M) (drives_collection s)"
    and IH: "\<And>d acc acc'. recursiveFindDrives n M s d acc = Some acc' \<Longrightarrow> collects s (below s d) acc acc'"
  shows "find_children n M s cs acc = Some acc' \<Longrightarrow>
    collects s (\<Union>e \<in> live_children s cs. below s e) acc acc'"
proof (induction cs arbitrary: acc)
  case Nil
  then show ?case by (simp add: collects_def)
next
  case (Cons c cs)
  show ?case
  proof (cases "findOne (drives_dr M) (drives_collection s) (\<lambda>d. doc_id d = c \<and> alive d)")
    case None
    with Cons show ?thesis by (simp add: live_children_Cons_None del: list.set)
  next
    case (Some e)
    with Cons.prems obtain acc1 where 1: "recursiveFindDrives n M s e acc = Some acc1"
      "find_children n M s cs acc1 = Some acc'"
      by (auto split: option.splits)
    from collects_trans[OF IH[OF 1(1)] Cons.IH[OF 1(2)]] show ?thesis
      by (simp add: live_children_Cons_Some[OF ix Some] del: list.set)
  qed
qed

lemma find_drives_collects:
  assumes ix: "indexed (drives_dr M) (drives_collection s)"
  shows "recursiveFindDrives n M s d acc = Some acc' \<Longrightarrow> collects s (below s d) acc acc'"
proof (induction n arbitrary: d acc acc')
  case 0
  then show ?case by simp
next
  case (Suc n)
  obtain fs ids where acc: "acc = (fs, ids)" by fastforce
  show ?case
  proof (cases "drive_type d = FOLDER")
    case True
    with Suc.prems acc have "find_children n M s (children d) (fs, ids @ [doc_id d]) = Some acc'" by simp
    from find_children_collects[OF ix Suc.IH this]
    have "collects s (\<Union>e \<in> live_children s (children d). below s e) (fs, ids @ [doc_id d]) acc'" by simp
    then show ?thesis
      unfolding below_folder[OF True] acc using True
      by (auto simp: collects_def file_of_def)
  next
    case False
    with Suc.prems acc show ?thesis
      by (auto simp: below_leaf[OF False] collects_def file_of_def truthy_iff split: if_splits)
  qed
qed

text \<open>Fuel above the rank of a node is enough; along a cycle no fuel is.\<close>

lemma find_children_returns:
  "(\<And>e acc. e \<in> live_children s cs \<Longrightarrow> recursiveFindDrives n M s e acc \<noteq> None) \<Longrightarrow>
     find_children n M s cs acc \<noteq> None"
proof (induction cs arbitrary: acc)
  case Nil
  then show ?case by simp
next
  case (Cons c cs)
  have IH: "find_children n M s cs acc \<noteq> None" for acc
    by (rule Cons.IH) (use Cons.prems in auto)
  show ?case
  proof (cases "findOne (drives_dr M) (drives_collection s) (\<lambda>d. doc_id d = c \<and> alive d)")
    case None
    with IH show ?thesis by simp
  next
    case (Some e)
    from drives_store.findOne_Some[OF this] have "e \<in> live_children s (c # cs)" by simp
    with Cons.prems obtain acc1 where "recursiveFindDrives n M s e acc = Some acc1" by blast
    with Some IH show ?thesis by simp
  qed
qed

lemma find_drives_returns:
  assumes "\<And>d e. d \<in> set (drives_collection s) \<Longrightarrow> edge s d e \<Longrightarrow> rank e < rank d"
    and "d \<in> set (drives_collection s)" and "rank d < n"
  shows "recursiveFindDrives n M s d acc \<noteq> None"
  using assms(2,3)
proof (induction n arbitrary: d acc)
  case 0
  then show ?case by simp
next
  case (Suc n)
  obtain fs ids where acc: "acc = (fs, ids)" by fastforce
  have "find_children n M s (children d) acc' \<noteq> None" if "drive_type d = FOLDER" for acc'
  proof (rule find_children_returns)
    fix e acc2 assume "e \<in> live_children s (children d)"
    then have e: "edge s d e" "e \<in> set (drives_collection s)" using that by (simp_all add: edge_def)
    from assms(1)[OF Suc.prems(1) e(1)] Suc.prems have "rank e < n" by simp
    then show "recursiveFindDrives n M s e acc2 \<noteq> None" by (rule Suc.IH[OF e(2)])
  qed
  then show ?case unfolding acc by simp
qed

lemma find_children_diverges:
  assumes ix: "indexed (drives_dr M) (drives_collection s)"
    and e: "e \<in> live_children s cs" "\<And>acc. recursiveFindDrives n M s e acc = None"
  shows "find_children n M s cs acc = None"
  using e(1)
proof (induction cs arbitrary: acc)
  case Nil
  then show ?case by simp
next
  case (Cons c cs)
  show ?case
  proof (cases "findOne (drives_dr M) (drives_collection s) (\<lambda>d. doc_id d = c \<and> alive d)")
    case None
    with Cons.prems have "e \<in> live_children s cs" by (auto simp: findOne_live_None)
    with None Cons.IH show ?thesis by simp
  next
    case (Some e')
    show ?thesis
    proof (cases "e = e'")
      case True
      with Some e(2) show ?thesis by simp
    next
      case False
      have "e \<in> insert e' (live_children s cs)"
        using Cons.prems unfolding live_children_Cons_Some[OF ix Some] .
      with False have "e \<in> live_children s cs" by blast
      with Some Cons.IH show ?thesis by (simp split: option.split)
    qed
  qed
qed

lemma find_drives_diverges:
  assumes ix: "indexed (drives_dr M) (drives_collection s)"
    and X: "\<And>d. d \<in> X \<Longrightarrow> \<exists>e \<in> X. edge s d e" and d: "d \<in> X"
  shows "recursiveFindDrives n M s d acc = None"
  using d
proof (induction n arbitrary: d acc)
  case 0
  then show ?case by simp
next
  case (Suc n)
  from X[OF Suc.prems] obtain e where e: "e \<in> X" "edge s d e" by blast
  obtain fs ids where acc: "acc = (fs, ids)" by fastforce
  from e(2) have "e \<in> live_children s (children d)" by (simp add: edge_def)
  from find_children_diverges[OF ix this Suc.IH[OF e(1)]] e(2) show ?case
    by (simp add: acc edge_def)
qed

end

subsection \<open>Well-formed forests\<close>

text \<open>
  Parents, child lists and paths agree: a root's path is its own id, any other node has a parent
  whose path it extends and which lists it, and a listed child names the folder as its parent.
\<close>

definition tree_ok :: "IDrive set \<Rightarrow> bool" where
  "tree_ok D \<longleftrightarrow>
     (\<forall>d \<in> D. case parent d of
        None \<Rightarrow> path d = [doc_id d]
      | Some p \<Rightarrow> \<exists>q \<in> D. doc_id q = p \<and> path d = path q @ [doc_id d] \<and> doc_id d \<in> set (children q)) \<and>
     (\<forall>d \<in> D. \<forall>c \<in> set (children d). \<exists>e \<in> D. doc_id e = c \<and> parent e = Some (doc_id d))"

definition folder_names_unique :: "IDrive set \<Rightarrow> bool" where
  "folder_names_unique D \<longleftrightarrow>
     (\<forall>d \<in> D. \<forall>e \<in> D. alive d \<longrightarrow> alive e \<longrightarrow> drive_type d = FOLDER \<longrightarrow> drive_type e = FOLDER \<longrightarrow>
        parent d \<noteq> None \<longrightarrow> parent d = parent e \<longrightarrow> drive_name d = drive_name e \<longrightarrow> doc_id d = doc_id e)"

definition drive_depth :: "db \<Rightarrow> nat" where
  "drive_depth s = Max (insert 0 ((\<lambda>d. length (path d)) ` set (drives_collection s)))"

lemma path_le_depth: "d \<in> set (drives_collection s) \<Longrightarrow> length (path d) \<le> drive_depth s"
  unfolding drive_depth_def by (intro Max_ge) auto

lemma tree_ok_parent:
  "tree_ok D \<Longrightarrow> d \<in> D \<Longrightarrow> parent d = Some p \<Longrightarrow>
     \<exists>q \<in> D. doc_id q = p \<and> path d = path q @ [doc_id d] \<and> doc_id d \<in> set (children q)"
  unfolding tree_ok_def by fastforce

lemma tree_ok_root: "tree_ok D \<Longrightarrow> d \<in> D \<Longrightarrow> parent d = None \<Longrightarrow> path d = [doc_id d]"
  unfolding tree_ok_def by fastforce

lemma tree_ok_child:
  "tree_ok D \<Longrightarrow> d \<in> D \<Longrightarrow> c \<in> set (children d) \<Longrightarrow> \<exists>e \<in> D. doc_id e = c \<and> parent e = Some (doc_id d)"
  unfolding tree_ok_def by blast

lemma tree_okI:
  assumes "\<And>d. d \<in> D \<Longrightarrow> parent d = None \<Longrightarrow> path d = [doc_id d]"
    and "\<And>d p. d \<in> D \<Longrightarrow> parent d = Some p \<Longrightarrow>
      \<exists>q \<in> D. doc_id q = p \<and> path d = path q @ [doc_id d] \<and> doc_id d \<in> set (children q)"
    and "\<And>d c. d \<in> D \<Longrightarrow> c \<in> set (children d) \<Longrightarrow> \<exists>e \<in> D. doc_id e = c \<and> parent e = Some (doc_id d)"
  shows "tree_ok D"
  unfolding tree_ok_def using assms by (auto split: option.split)

text \<open>Updates that keep ids, parents, paths and child lists keep the forest.\<close>

lemma tree_ok_image:
  assumes "tree_ok D"
    and f: "\<And>d. doc_id (f d) = doc_id d" "\<And>d. parent (f d) = parent d"
      "\<And>d. path (f d) = path d" "\<And>d. children (f d) = children d"
  shows "tree_ok (f ` D)"
proof (rule tree_okI)
  fix d assume "d \<in> f ` D" "parent d = None"
  then show "path d = [doc_id d]" using tree_ok_root[OF assms(1)] by (auto simp: f)
next
  fix d p assume "d \<in> f ` D" "parent d = Some p"
  then obtain d' where "d = f d'" "d' \<in> D" "parent d' = Some p" by (auto simp: f)
  with tree_ok_parent[OF assms(1) this(2,3)]
  show "\<exists>q \<in> f ` D. doc_id q = p \<and> path d = path q @ [doc_id d] \<and> doc_id d \<in> set (children q)"
    by (auto simp: f)
next
  fix d c assume "d \<in> f ` D" "c \<in> set (children d)"
  then obtain d' where "d = f d'" "d' \<in> D" "c \<in> set (children d')" by (auto simp: f)
  with tree_ok_child[OF assms(1) this(2,3)]
  show "\<exists>e \<in> f ` D. doc_id e = c \<and> parent e = Some (doc_id d)" by (auto simp: f)
qed

text \<open>Hanging a new leaf below a node keeps the forest.\<close>

lemma push_child_simps [simp]:
  "doc_id (push_child c d) = doc_id d" "parent (push_child c d) = parent d"
  "path (push_child c d) = path d" "children (push_child c d) = children d @ [c]"
  "alive (push_child c d) = alive d" "drive_type (push_child c d) = drive_type d"
  "drive_name (push_child c d) = drive_name d" "managerId (push_child c d) = managerId d"
  by (simp_all add: push_child_def alive_def)

definition hang :: "IDrive \<Rightarrow> string \<Rightarrow> IDrive set \<Rightarrow> IDrive set" where
  "hang e p D = insert e (apply_where (\<lambda>d. doc_id d = p) (push_child (doc_id e)) ` D)"

lemma hang_old:
  "d \<in> D \<Longrightarrow> \<exists>d' \<in> hang e p D. doc_id d' = doc_id d \<and> parent d' = parent d \<and> path d' = path d \<and>
     set (children d) \<subseteq> set (children d') \<and> (doc_id d = p \<longrightarrow> doc_id e \<in> set (children d'))"
  unfolding hang_def
  by (rule bexI[of _ "apply_where (\<lambda>d. doc_id d = p) (push_child (doc_id e)) d"]) (auto simp: apply_where_def)

lemma hang_cases:
  assumes "d \<in> hang e p D"
  shows "d = e \<or> (\<exists>d0 \<in> D. doc_id d = doc_id d0 \<and> parent d = parent d0 \<and> path d = path d0 \<and>
    alive d = alive d0 \<and> drive_type d = drive_type d0 \<and> drive_name d = drive_name d0 \<and>
    (\<forall>c \<in> set (children d). c \<in> set (children d0) \<or> (c = doc_id e \<and> doc_id d0 = p)))"
proof -
  from assms consider "d = e" |
    d0 where "d0 \<in> D" "d = apply_where (\<lambda>d. doc_id d = p) (push_child (doc_id e)) d0"
    unfolding hang_def by blast
  then show ?thesis
  proof cases
    case 2
    show ?thesis unfolding 2(2) by (intro disjI2 bexI[OF _ 2(1)]) (auto simp: apply_where_def)
  qed simp
qed

lemma tree_ok_hang:
  assumes ok: "tree_ok D" and q: "q \<in> D"
    and e: "parent e = Some (doc_id q)" "path e = path q @ [doc_id e]" "children e = []"
  shows "tree_ok (hang e (doc_id q) D)"
proof (rule tree_okI)
  fix d assume d: "d \<in> hang e (doc_id q) D" "parent d = None"
  then show "path d = [doc_id d]"
    using hang_cases[OF d(1)] tree_ok_root[OF ok] e(1) by fastforce
next
  fix d p assume d: "d \<in> hang e (doc_id q) D" "parent d = Some p"
  have "d = e \<or> (\<exists>d0 \<in> D. doc_id d = doc_id d0 \<and> parent d = parent d0 \<and> path d = path d0)"
    using hang_cases[OF d(1)] by blast
  then show "\<exists>q' \<in> hang e (doc_id q) D. doc_id q' = p \<and> path d = path q' @ [doc_id d] \<and>
      doc_id d \<in> set (children q')"
  proof
    assume "d = e"
    with hang_old[OF q, of e "doc_id q"] e d(2) show ?thesis by auto
  next
    assume "\<exists>d0 \<in> D. doc_id d = doc_id d0 \<and> parent d = parent d0 \<and> path d = path d0"
    then obtain d0 where d0: "d0 \<in> D" "doc_id d = doc_id d0" "parent d0 = Some p" "path d = path d0"
      using d(2) by auto
    from tree_ok_parent[OF ok d0(1,3)] obtain q0 where
      "q0 \<in> D" "doc_id q0 = p" "path d0 = path q0 @ [doc_id d0]" "doc_id d0 \<in> set (children q0)" by blast
    with hang_old[OF this(1), of e "doc_id q"] d0 show ?thesis by fastforce
  qed
next
  fix d c assume d: "d \<in> hang e (doc_id q) D" "c \<in> set (children d)"
  then obtain d0 where d0: "d0 \<in> D" "doc_id d = doc_id d0"
    "c \<in> set (children d0) \<or> (c = doc_id e \<and> doc_id d0 = doc_id q)"
    using hang_cases[OF d(1)] e(3) by fastforce
  from d0(3) show "\<exists>e' \<in> hang e (doc_id q) D. doc_id e' = c \<and> parent e' = Some (doc_id d)"
  proof
    assume "c \<in> set (children d0)"
    from tree_ok_child[OF ok d0(1) this] obtain e0 where "e0 \<in> D" "doc_id e0 = c" "parent e0 = Some (doc_id d0)"
      by blast
    with hang_old[OF this(1), of e "doc_id q"] d0(2) show ?thesis by fastforce
  next
    assume "c = doc_id e \<and> doc_id d0 = doc_id q"
    with e(1) d0(2) show ?thesis by (auto simp: hang_def)
  qed
qed

lemma folder_names_hang:
  assumes "folder_names_unique D"
    and new: "\<And>d. d \<in> D \<Longrightarrow> alive d \<Longrightarrow> drive_type d = FOLDER \<Longrightarrow> parent d = Some p \<Longrightarrow>
      drive_name d \<noteq> drive_name e"
    and e: "parent e = Some p"
  shows "folder_names_unique (hang e p D)"
proof -
  have cases: "d = e \<or> (\<exists>d0 \<in> D. doc_id d = doc_id d0 \<and> parent d = parent d0 \<and> alive d = alive d0 \<and>
      drive_type d = drive_type d0 \<and> drive_name d = drive_name d0)" if "d \<in> hang e p D" for d
    using hang_cases[OF that] by blast
  show ?thesis
    unfolding folder_names_unique_def
  proof (intro ballI impI)
    fix d d' assume d: "d \<in> hang e p D" "d' \<in> hang e p D" "alive d" "alive d'" "drive_type d = FOLDER"
      "drive_type d' = FOLDER" "parent d \<noteq> None" "parent d = parent d'" "drive_name d = drive_name d'"
    show "doc_id d = doc_id d'"
      using cases[OF d(1)] cases[OF d(2)] d(3-) new e assms(1)
      unfolding folder_names_unique_def by metis
  qed
qed

context mongo_db
begin

lemma edge_path:
  assumes ix: "indexed (drives_dr M) (drives_collection s)" and ok: "tree_ok (set (drives_collection s))"
    and d: "d \<in> set (drives_collection s)" and e: "edge s d e"
  shows "length (path e) = Suc (length (path d))"
proof -
  from e have c: "doc_id e \<in> set (children d)" "e \<in> set (drives_collection s)" by (simp_all add: edge_def)
  from tree_ok_child[OF ok d c(1)] c(2) drives_store.key_inj[OF ix] have p: "parent e = Some (doc_id d)"
    by metis
  from tree_ok_parent[OF ok c(2) p] d drives_store.key_inj[OF ix] have "path e = path d @ [doc_id e]"
    by metis
  then show ?thesis by simp
qed

lemma find_drives_total:
  assumes ix: "indexed (drives_dr M) (drives_collection s)" and ok: "tree_ok (set (drives_collection s))"
    and d: "d \<in> set (drives_collection s)" and n: "drive_depth s < n"
  shows "\<exists>acc'. recursiveFindDrives n M s d acc = Some acc' \<and> collects s (below s d) acc acc'"
proof -
  have "drive_depth s - length (path e') < drive_depth s - length (path d')"
    if "d' \<in> set (drives_collection s)" "edge s d' e'" for d' e'
    using edge_path[OF ix ok that] path_le_depth[of e' s] that(2) by (simp add: edge_def)
  from find_drives_returns[of s "\<lambda>x. drive_depth s - length (path x)", OF this d] n
  have "recursiveFindDrives n M s d acc \<noteq> None" by simp
  then obtain acc' where "recursiveFindDrives n M s d acc = Some acc'" by blast
  with find_drives_collects[OF ix this] show ?thesis by blast
qed

lemma drives_index: "k \<in> set (indexes (drives_dr M)) \<Longrightarrow> k = (\<lambda>d. JStr (doc_id d))"
  using ok by (simp add: mongo_ok_def drives_indexes_def)

lemma files_index: "k \<in> set (indexes (files_dr M)) \<Longrightarrow> k = (\<lambda>d. JStr (doc_id d))"
  using ok by (simp add: mongo_ok_def files_indexes_def)

lemma insert_node_ok:
  assumes ix: "indexed (drives_dr M) (drives_collection s)"
    and p: "p \<in> doc_id ` set (drives_collection s)"
    and ins: "insert_node M e p s = (Inr e', s')"
  shows "e' = e \<and> doc_id e \<notin> doc_id ` set (drives_collection s) \<and>
    indexed (drives_dr M) (drives_collection s') \<and>
    set (drives_collection s') = hang e p (set (drives_collection s)) \<and>
    s' = s\<lparr>drives_collection := drives_collection s'\<rparr>"
proof -
  from ins obtain c r c' where c: "insertOne (drives_dr M) (drives_collection s) e = Some c"
    "updateOne (drives_dr M) c (\<lambda>d. doc_id d = p) (push_child (doc_id e)) = Some (r, c')"
    "e' = e" "s' = s\<lparr>drives_collection := c'\<rparr>"
    by (auto simp: insert_node_def split: option.splits)
  from drives_store.insertOne_indexed[OF c(1) ix] have ixc: "indexed (drives_dr M) c" .
  from drives_store.insertOne_fresh[OF c(1)] have fresh: "doc_id e \<notin> doc_id ` set (drives_collection s)" .
  with p have "doc_id e \<noteq> p" by blast
  then have "set c' = hang e p (set (drives_collection s))"
    using drives_store.updateOne_key[OF ixc c(2)] drives_store.insertOne_set[OF c(1)]
    by (simp add: hang_def)
  with c(3,4) fresh drives_store.updateOne_indexed[OF c(2) ixc] show ?thesis by simp
qed

lemma find_parent_stored: "find_parent M req pid s = Some par \<Longrightarrow> par \<in> set (drives_collection s)"
  using drives_store.findOne_Some by (auto simp: find_parent_def split: if_splits)

lemma createDriveFolder_spec:
  assumes ix: "indexed (drives_dr M) (drives_collection s)"
    and cr: "createDriveFolder E M (Some req) name pid r desc s = (Inr d, s')"
  shows "\<exists>par \<in> set (drives_collection s).
    (managerId par = Uid (doc_id req) \<or> shared_write (doc_id req) par) \<and> drive_type par = FOLDER \<and>
    (\<forall>x \<in> set (drives_collection s). alive x \<longrightarrow> drive_type x = FOLDER \<longrightarrow>
       parent x = Some (doc_id par) \<longrightarrow> drive_name x \<noteq> name) \<and>
    parent d = Some (doc_id par) \<and> path d = path par @ [doc_id d] \<and> children d = [] \<and>
    drive_name d = name \<and> managerId d = managerId par \<and> sharedUsers d = sharedUsers par \<and>
    drive_type d = FOLDER \<and> alive d \<and>
    doc_id d \<notin> doc_id ` set (drives_collection s) \<and>
    indexed (drives_dr M) (drives_collection s') \<and>
    set (drives_collection s') = hang d (doc_id par) (set (drives_collection s))"
proof -
  from cr obtain par where par: "find_parent M req pid s = Some par"
    by (auto simp: createDriveFolder_def split: option.splits)
  note stored = find_parent_stored[OF par]
  let ?e = "\<lparr>doc_id = uuid_gen E (uuid_next s), life = new_life (clock E (tick s)) (doc_id req), metadata = [],
    managerId = managerId par, path = path par @ [uuid_gen E (uuid_next s)], restricted = r,
    drive_name = name, drive_description = desc, fileId = None, drive_type = FOLDER,
    parent = Some (doc_id par), children = [], sharedUsers = sharedUsers par, childeren = None\<rparr>"
  let ?s = "s\<lparr>uuid_next := Suc (uuid_next s), tick := Suc (tick s)\<rparr>"
  from cr par have guards: "managerId par = Uid (doc_id req) \<or> shared_write (doc_id req) par"
    "drive_type par = FOLDER"
    "name \<notin> drive_name ` set (filter (\<lambda>el. drive_type el = FOLDER)
       (find_many (drives_dr M) (drives_collection s) (\<lambda>d. parent d = Some (doc_id par) \<and> alive d)))"
    and ins: "insert_node M ?e (doc_id par) ?s = (Inr d, s')"
    by (auto simp: createDriveFolder_def uuid_def Date_now_def Let_def split: if_splits)
  have "indexed (drives_dr M) (drives_collection ?s)" using ix by simp
  from insert_node_ok[OF this _ ins] stored have i: "d = ?e"
    "doc_id d \<notin> doc_id ` set (drives_collection s)"
    "indexed (drives_dr M) (drives_collection s')"
    "set (drives_collection s') = hang d (doc_id par) (set (drives_collection s))"
    by auto
  have names: "\<forall>x \<in> set (drives_collection s). alive x \<longrightarrow> drive_type x = FOLDER \<longrightarrow>
       parent x = Some (doc_id par) \<longrightarrow> drive_name x \<noteq> name"
    using guards(3) by (auto simp: drives_store.find_many_set)
  show ?thesis
    by (rule bexI[OF _ stored], intro conjI guards(1,2) names i(2-4)) (simp_all add: i(1))
qed

lemma createDriveFile_spec:
  assumes ix: "indexed (drives_dr M) (drives_collection s)" and os: "object_store (minio E)"
    and cr: "createDriveFile E M (Some req) pid desc ft fu s = (Inr d, s')"
  shows "\<exists>par \<in> set (drives_collection s). \<exists>f \<in> set (files_collection s').
    managerId par = Uid (doc_id req) \<and> drive_type par = FOLDER \<and>
    parent d = Some (doc_id par) \<and> path d = path par @ [doc_id d] \<and> children d = [] \<and>
    drive_name d = filename fu \<and> managerId d = Uid (doc_id req) \<and> drive_type d = FILE \<and>
    fileId d = Some (doc_id f) \<and> fileSize f = int (length (concat (stream_chunks fu))) \<and>
    doc_id d \<notin> doc_id ` set (drives_collection s) \<and>
    indexed (drives_dr M) (drives_collection s') \<and>
    set (drives_collection s') = hang d (doc_id par) (set (drives_collection s))"
proof -
  from cr obtain par where par: "find_parent M req pid s = Some par"
    by (auto simp: createDriveFile_def split: option.splits)
  note stored = find_parent_stored[OF par]
  have "\<not> shared_write_object req par" by (simp add: shared_write_object_def list_ex_iff)
  with cr par have guards: "managerId par = Uid (doc_id req)" "drive_type par = FOLDER"
    by (auto simp: createDriveFile_def split: if_splits)
  with cr par obtain f s1 where up: "uploadFile E M req None (Some (doc_id req)) fu ft USER_DRIVE_FILE
      desc None s = (Inr f, s1)"
    by (auto simp: createDriveFile_def split: if_splits prod.splits sum.splits)
  let ?e = "\<lparr>doc_id = uuid_gen E (uuid_next s1), life = new_life (clock E (tick s1)) (doc_id req),
    metadata = [(''fileSize'', JNum (Fin (of_int (fileSize f))))],
    managerId = Uid (doc_id req), path = path par @ [uuid_gen E (uuid_next s1)], restricted = False,
    drive_name = filename fu, drive_description = desc, fileId = Some (doc_id f), drive_type = FILE,
    parent = Some (doc_id par), children = [], sharedUsers = sharedUsers par, childeren = None\<rparr>"
  let ?s = "s1\<lparr>uuid_next := Suc (uuid_next s1), tick := Suc (tick s1)\<rparr>"
  from cr par guards up have ins: "insert_node M ?e (doc_id par) ?s = (Inr d, s')"
    by (auto simp: createDriveFile_def uuid_def Date_now_def Let_def split: if_splits)
  have p: "portal M E" using os by (simp add: portal_def mongo_db_axioms)
  from portal.uploadFile_ok[OF p up] have f: "fileSize f = int (length (concat (stream_chunks fu)))"
    "insertOne (files_dr M) (files_collection s) f = Some (files_collection s1)" by blast+
  have "\<exists>n t o' fc. s1 = s\<lparr>store := o', files_collection := fc, uuid_next := n, tick := t\<rparr>"
    using portal.uploadFile_ok[OF p up] by blast
  then have ds: "drives_collection s1 = drives_collection s" by auto
  have "indexed (drives_dr M) (drives_collection ?s)" using ix ds by simp
  from insert_node_ok[OF this _ ins] stored ds have i: "d = ?e"
    "doc_id d \<notin> doc_id ` set (drives_collection s)"
    "indexed (drives_dr M) (drives_collection s')"
    "set (drives_collection s') = hang d (doc_id par) (set (drives_collection s))"
    and s': "s' = ?s\<lparr>drives_collection := drives_collection s'\<rparr>"
    by auto
  have "files_collection s' = files_collection s1" by (subst s') simp
  with files_store.insertOne_set[OF f(2)] have fin: "f \<in> set (files_collection s')" by simp
  show ?thesis
    by (rule bexI[OF _ stored], rule bexI[OF _ fin], intro conjI guards f(1) i(2-4)) (simp_all add: i(1))
qed

lemma updateMany_drives:
  assumes "indexed (drives_dr M) c" and "\<And>d. doc_id (f d) = doc_id d"
  shows "\<exists>c'. updateMany (drives_dr M) c q f = (True, c') \<and> set c' = apply_where q f ` set c \<and>
    indexed (drives_dr M) c'"
proof -
  have "fst (updateMany (drives_dr M) c q f)"
    by (rule drives_store.updateMany_ok[OF assms(1)]) (use drives_index assms(2) in fastforce)
  then obtain c' where c': "updateMany (drives_dr M) c q f = (True, c')" by (metis (full_types) prod.collapse)
  with drives_store.updateMany_set[OF c'] drives_store.updateMany_indexed[OF c' assms(1)] show ?thesis by blast
qed

lemma updateMany_files:
  assumes "indexed (files_dr M) c" and "\<And>d. doc_id (f d) = doc_id d"
  shows "\<exists>c'. updateMany (files_dr M) c q f = (True, c') \<and> set c' = apply_where q f ` set c \<and>
    indexed (files_dr M) c'"
proof -
  have "fst (updateMany (files_dr M) c q f)"
    by (rule files_store.updateMany_ok[OF assms(1)]) (use files_index assms(2) in fastforce)
  then obtain c' where c': "updateMany (files_dr M) c q f = (True, c')" by (metis (full_types) prod.collapse)
  with files_store.updateMany_set[OF c'] files_store.updateMany_indexed[OF c' assms(1)] show ?thesis by blast
qed

lemma deleteDrive_spec:
  assumes ix: "indexed (drives_dr M) (drives_collection s)" "indexed (files_dr M) (files_collection s)"
    and ok: "tree_ok (set (drives_collection s))"
    and d: "d \<in> set (drives_collection s)" "alive d" "\<not> restricted d" "parent d \<noteq> None"
    and n: "drive_depth s < n"
  shows "\<exists>s'. deleteDrive n E M (Some req) (doc_id d) s = Some (Inr d, s') \<and>
    set (drives_collection s') =
      apply_where (\<lambda>e. doc_id e \<in> doc_id ` below s d) (mark_deleted (clock E (tick s)) (Uid (doc_id req)))
        ` set (drives_collection s) \<and>
    set (files_collection s') =
      apply_where (\<lambda>f. \<exists>e \<in> below s d. file_of e (doc_id f))
        (mark_deleted (clock E (Suc (tick s))) (Uid (doc_id req))) ` set (files_collection s) \<and>
    s' = s\<lparr>drives_collection := drives_collection s', files_collection := files_collection s',
            tick := Suc (Suc (tick s))\<rparr>"
proof -
  have found: "findOne (drives_dr M) (drives_collection s) (\<lambda>x. doc_id x = doc_id d \<and> alive x) = Some d"
    using findOne_live[OF ix(1), of "doc_id d" d] d(1,2) by simp
  from find_drives_total[OF ix(1) ok d(1) n] obtain fs ids where
    w: "recursiveFindDrives n M s d ([], []) = Some (fs, ids)"
    and c: "set ids = doc_id ` below s d" "set fs = {f. \<exists>e \<in> below s d. file_of e f}"
    by (force simp: collects_def)
  obtain c1 where c1: "updateMany (drives_dr M) (drives_collection s) (\<lambda>d. doc_id d \<in> set ids)
      (mark_deleted (clock E (tick s)) (Uid (doc_id req))) = (True, c1)"
    "set c1 = apply_where (\<lambda>d. doc_id d \<in> set ids)
      (mark_deleted (clock E (tick s)) (Uid (doc_id req))) ` set (drives_collection s)"
    using updateMany_drives[OF ix(1)] mark_deleted_id by metis
  obtain c2 where c2: "updateMany (files_dr M) (files_collection s) (\<lambda>d. doc_id d \<in> set fs)
      (mark_deleted (clock E (Suc (tick s))) (Uid (doc_id req))) = (True, c2)"
    "set c2 = apply_where (\<lambda>d. doc_id d \<in> set fs)
      (mark_deleted (clock E (Suc (tick s))) (Uid (doc_id req))) ` set (files_collection s)"
    "indexed (files_dr M) c2"
    using updateMany_files[OF ix(2)] mark_deleted_id by metis
  obtain c3 where c3: "updateMany (files_dr M) c2 (\<lambda>x. Some (doc_id x) = parent d) (\<lambda>x. x) = (True, c3)"
    "set c3 = apply_where (\<lambda>x. Some (doc_id x) = parent d) (\<lambda>x. x) ` set c2"
    using updateMany_files[OF c2(3), of "\<lambda>x. x"] by metis
  have "set c3 = set c2" unfolding c3(2) by (simp add: apply_where_def)
  moreover have "deleteDrive n E M (Some req) (doc_id d) s =
      Some (Inr d, s\<lparr>drives_collection := c1, files_collection := c3, tick := Suc (Suc (tick s))\<rparr>)"
    using found d(3,4) w c1(1) c2(1) c3(1) by (simp add: deleteDrive_def Date_now_def Let_def)
  ultimately show ?thesis using c1(2) c2(2) c by simp
qed

text \<open>
  What a move without other changes does to a drive document: the moved drive gets its new parent
  and path, the new parent one more child.
\<close>

lemma updateOne_drive:
  assumes ix: "indexed (drives_dr M) c" and f: "\<And>d. doc_id (f d) = doc_id d"
  shows "\<exists>r c'. updateOne (drives_dr M) c (\<lambda>d. doc_id d = i) f = Some (r, c') \<and>
    set c' = apply_where (\<lambda>d. doc_id d = i) f ` set c \<and> indexed (drives_dr M) c' \<and>
    (\<forall>d \<in> set c. doc_id d = i \<longrightarrow> r = Some d)"
proof -
  have "updateOne (drives_dr M) c (\<lambda>d. doc_id d = i) f \<noteq> None"
    by (rule drives_store.updateOne_ok[OF ix]) (use drives_index f in fastforce)
  then obtain r c' where up: "updateOne (drives_dr M) c (\<lambda>d. doc_id d = i) f = Some (r, c')" by auto
  with drives_store.updateOne_key[OF ix up] drives_store.updateOne_indexed[OF up ix]
    drives_store.updateOne_key_result[OF ix up] show ?thesis by blast
qed

lemma update_own_path:
  assumes ix: "indexed (drives_dr M) (drives_collection s)"
  shows "\<exists>c q. update_paths M a pth [a] s = (Inr (), s\<lparr>drives_collection := c\<rparr>) \<and> indexed (drives_dr M) c \<and>
    set c = apply_where (\<lambda>d. doc_id d = a) (path_update (\<lambda>_. q)) ` set (drives_collection s)"
proof (cases "findOne (drives_dr M) (drives_collection s) (\<lambda>d. doc_id d = a)")
  case None
  then have "\<forall>d \<in> set (drives_collection s). doc_id d \<noteq> a" by (simp add: drives_store.findOne_None)
  then have "apply_where (\<lambda>d. doc_id d = a) (path_update (\<lambda>_. [])) ` set (drives_collection s) =
      set (drives_collection s)"
    by (force simp: apply_where_def)
  with None ix show ?thesis by (intro exI[of _ "drives_collection s"] exI[of _ "[]"]) simp
next
  case (Some node)
  let ?q = "pth @ dropWhile (\<lambda>i. i \<noteq> a) (path node)"
  from updateOne_drive[OF ix, of "path_update (\<lambda>_. ?q)" a] obtain r c where
    "updateOne (drives_dr M) (drives_collection s) (\<lambda>d. doc_id d = a) (path_update (\<lambda>_. ?q)) = Some (r, c)"
    "set c = apply_where (\<lambda>d. doc_id d = a) (path_update (\<lambda>_. ?q)) ` set (drives_collection s)"
    "indexed (drives_dr M) c"
    by auto
  with Some show ?thesis by (intro exI[of _ c] exI[of _ ?q]) simp
qed

end

definition moved :: "string \<Rightarrow> string \<Rightarrow> string list \<Rightarrow> IDrive \<Rightarrow> IDrive" where
  "moved a b q d = d\<lparr>
     parent := (if doc_id d = a then Some b else parent d),
     path := (if doc_id d = a then q else path d),
     children := children d @ (if doc_id d = b then [a] else [])\<rparr>"

lemma moved_simps [simp]:
  "doc_id (moved a b q d) = doc_id d" "alive (moved a b q d) = alive d"
  "drive_type (moved a b q d) = drive_type d" "restricted (moved a b q d) = restricted d"
  "children (moved a b q d) = children d @ (if doc_id d = b then [a] else [])"
  "parent (moved a b q d) = (if doc_id d = a then Some b else parent d)"
  by (simp_all add: moved_def alive_def)

lemma moved_steps:
  "apply_where (\<lambda>d. doc_id d = a) (path_update (\<lambda>_. q))
     (apply_where (\<lambda>d. doc_id d = b) (push_child a)
       (apply_where (\<lambda>d. doc_id d = a) (\<lambda>d. d\<lparr>parent := Some b\<rparr>) d)) = moved a b q d"
  by (cases "doc_id d = a"; cases "doc_id d = b") (simp_all add: apply_where_def moved_def push_child_def)

context mongo_db
begin

lemma editDrive_move:
  assumes ix: "indexed (drives_dr M) (drives_collection s)"
    and d: "d \<in> set (drives_collection s)" "alive d"
    and p: "p \<in> set (drives_collection s)" "alive p" "doc_id p \<noteq> []"
    and req: "user_type req = ADMIN \<or> managerId d = Uid (doc_id req)"
  shows "\<exists>ids d' c q. editDrive n M (Some req) (doc_id d) None None None (Some (doc_id p)) None None s =
      Some (Inr (ids, d'), s\<lparr>drives_collection := c\<rparr>) \<and> indexed (drives_dr M) c \<and>
    set c = moved (doc_id d) (doc_id p) q ` set (drives_collection s)"
proof -
  let ?a = "doc_id d" and ?b = "doc_id p"
  let ?f = "edit_drive_set None None None (Some ?b) None None"
  have f: "?f = (\<lambda>d. d\<lparr>parent := Some ?b\<rparr>)"
    using p(3) by (auto simp: edit_drive_set_def fun_eq_iff)
  have fd: "findOne (drives_dr M) (drives_collection s) (\<lambda>x. doc_id x = ?a \<and> alive x) = Some d"
    using findOne_live[OF ix] d by simp
  have fp: "findOne (drives_dr M) (drives_collection s) (\<lambda>x. doc_id x = ?b \<and> alive x) = Some p"
    using findOne_live[OF ix] p by simp
  from updateOne_drive[OF ix, of ?f ?a] obtain c1 where c1:
    "updateOne (drives_dr M) (drives_collection s) (\<lambda>x. doc_id x = ?a) ?f = Some (Some d, c1)"
    "set c1 = apply_where (\<lambda>x. doc_id x = ?a) (\<lambda>x. x\<lparr>parent := Some ?b\<rparr>) ` set (drives_collection s)"
    "indexed (drives_dr M) c1"
    using d(1) unfolding f by auto
  obtain pn where pn: "findOne (drives_dr M) c1 (\<lambda>x. doc_id x = ?b \<and> alive x) = Some pn"
  proof -
    have "apply_where (\<lambda>x. doc_id x = ?a) (\<lambda>x. x\<lparr>parent := Some ?b\<rparr>) p \<in> set c1" using p(1) c1(2) by blast
    moreover have "doc_id (apply_where (\<lambda>x. doc_id x = ?a) (\<lambda>x. x\<lparr>parent := Some ?b\<rparr>) p) = ?b"
      "alive (apply_where (\<lambda>x. doc_id x = ?a) (\<lambda>x. x\<lparr>parent := Some ?b\<rparr>) p)"
      using p(2) by (simp_all add: apply_where_def alive_def)
    ultimately show ?thesis
      using drives_store.findOne_None[of c1 "\<lambda>x. doc_id x = ?b \<and> alive x"] that by blast
  qed
  have "\<And>x. doc_id (push_child ?a x) = doc_id x" by simp
  from updateOne_drive[OF c1(3) this, of ?b] obtain r2 c2 where c2:
    "updateOne (drives_dr M) c1 (\<lambda>x. doc_id x = ?b) (push_child ?a) = Some (r2, c2)"
    "set c2 = apply_where (\<lambda>x. doc_id x = ?b) (push_child ?a) ` set c1" "indexed (drives_dr M) c2"
    by blast
  from update_own_path[of "s\<lparr>drives_collection := c2\<rparr>" ?a "path pn"] c2(3) obtain c3 q where c3:
    "update_paths M ?a (path pn) [?a] (s\<lparr>drives_collection := c2\<rparr>) = (Inr (), s\<lparr>drives_collection := c3\<rparr>)"
    "indexed (drives_dr M) c3" "set c3 = apply_where (\<lambda>x. doc_id x = ?a) (path_update (\<lambda>_. q)) ` set c2"
    by auto
  have "editDrive n M (Some req) ?a None None None (Some ?b) None None s =
      Some (Inr ([?a], ?f d), s\<lparr>drives_collection := c3\<rparr>)"
    using fd fp req p(3) c1(1) pn c2(1) c3(1)
    by (auto simp: editDrive_def edit_drive_error_def move_drive_def Let_def
        simp del: update_paths.simps)
  moreover have "set c3 = moved ?a ?b q ` set (drives_collection s)"
    unfolding c3(3) c2(2) c1(2) image_image moved_steps ..
  ultimately show ?thesis using c3(2) by blast
qed

text \<open>
  Once a folder is listed by a folder of its own subtree, each node on the way between them has a
  next one: the walk runs in a circle.
\<close>

lemma moved_cycle:
  assumes way: "(edge s)\<^sup>*\<^sup>* x p" and p: "drive_type p = FOLDER"
    and d: "d \<in> set (drives_collection s)" "alive d"
    and c: "drives_collection s' = c" "set c = moved (doc_id d) (doc_id p) q ` set (drives_collection s)"
  shows "\<exists>y. (y = d \<or> edge s x y) \<and> (y = d \<or> (edge s)\<^sup>*\<^sup>* y p) \<and>
    edge s' (moved (doc_id d) (doc_id p) q x) (moved (doc_id d) (doc_id p) q y)"
proof (cases "x = p")
  case True
  then show ?thesis using p d c by (intro exI[of _ d]) (simp add: edge_def)
next
  case False
  with way obtain y where "edge s x y" "(edge s)\<^sup>*\<^sup>* y p" by (metis converse_rtranclpE)
  moreover from this(1) have "edge s' (moved (doc_id d) (doc_id p) q x) (moved (doc_id d) (doc_id p) q y)"
    using c by (simp add: edge_def)
  ultimately show ?thesis by blast
qed

lemma deleteDrive_cycle:
  assumes ix: "indexed (drives_dr M) c"
    and c: "set c = moved (doc_id d) (doc_id p) q ` set (drives_collection s)"
    and d: "d \<in> set (drives_collection s)" "alive d" "\<not> restricted d"
    and p: "p \<in> below s d" "drive_type p = FOLDER" and s': "drives_collection s' = c"
  shows "deleteDrive n E M (Some rq) (doc_id d) s' = None"
proof -
  let ?g = "moved (doc_id d) (doc_id p) q"
  have way: "(edge s)\<^sup>*\<^sup>* d p" using p(1) by (simp add: below_def)
  let ?X = "{x. (edge s)\<^sup>*\<^sup>* x p}"
  have ix': "indexed (drives_dr M) (drives_collection s')" using ix s' by simp
  have "\<exists>e \<in> ?g ` ?X. edge s' x e" if x: "x \<in> ?g ` ?X" for x
  proof -
    from x obtain x0 where "x = ?g x0" "(edge s)\<^sup>*\<^sup>* x0 p" by blast
    with moved_cycle[OF this(2) p(2) d(1,2) s' c] way show ?thesis by blast
  qed
  from find_drives_diverges[OF ix' this, of "?g d"] way
  have "recursiveFindDrives n M s' (?g d) ([], []) = None" by blast
  moreover have "findOne (drives_dr M) (drives_collection s') (\<lambda>x. doc_id x = doc_id d \<and> alive x) = Some (?g d)"
    using findOne_live[OF ix'] d c s' by simp
  ultimately show ?thesis using d(3) by (simp add: deleteDrive_def)
qed

end

subsection \<open>Properties\<close>

definition drive0 :: "string \<Rightarrow> string list \<Rightarrow> enumDriveNodeTypes \<Rightarrow> string option \<Rightarrow> string list
    \<Rightarrow> string option \<Rightarrow> IDrive" where
  "drive0 i ancestors t par chs f = \<lparr>doc_id = i, life = life0, metadata = [], managerId = Uid ''ann'',
     path = ancestors @ [i], restricted = False, drive_name = i, drive_description = None, fileId = f,
     drive_type = t, parent = par, children = chs,
     sharedUsers = [\<lparr>iid = ''bob'', can_read = True, can_write = True, can_delete = True\<rparr>],
     childeren = None\<rparr>"

definition drives0 :: db where
  "drives0 = db0\<lparr>
     drives_collection := [drive0 ''R'' [] FOLDER None [''A''] None,
                           drive0 ''A'' [''R''] FOLDER (Some ''R'') [''B'', ''F''] None,
                           drive0 ''B'' [''R'', ''A''] FOLDER (Some ''A'') [] None,
                           drive0 ''F'' [''R'', ''A''] FILE (Some ''A'') [] (Some ''f'')],
     files_collection := [file0 ''f'' ''ann'' 8, file0 ''g'' ''ann'' 8]\<rparr>"

lemma drives0_simps:
  "drives_collection drives0 =
     [drive0 ''R'' [] FOLDER None [''A''] None,
      drive0 ''A'' [''R''] FOLDER (Some ''R'') [''B'', ''F''] None,
      drive0 ''B'' [''R'', ''A''] FOLDER (Some ''A'') [] None,
      drive0 ''F'' [''R'', ''A''] FILE (Some ''A'') [] (Some ''f'')]"
  "files_collection drives0 = [file0 ''f'' ''ann'' 8, file0 ''g'' ''ann'' 8]"
  "users_collection drives0 = []" "store drives0 = \<lparr>buckets = [], objects = []\<rparr>"
  "configs_collection drives0 = []" "uuid_next drives0 = 0" "tick drives0 = 0"
  by (simp_all add: drives0_def db0_def)

lemma drive0_simps [simp]:
  "doc_id (drive0 i a t p c f) = i" "path (drive0 i a t p c f) = a @ [i]"
  "parent (drive0 i a t p c f) = p" "children (drive0 i a t p c f) = c"
  "drive_type (drive0 i a t p c f) = t" "fileId (drive0 i a t p c f) = f"
  "drive_name (drive0 i a t p c f) = i" "managerId (drive0 i a t p c f) = Uid ''ann''"
  "restricted (drive0 i a t p c f) = False" "alive (drive0 i a t p c f)"
  "sharedUsers (drive0 i a t p c f) =
     [\<lparr>iid = ''bob'', can_read = True, can_write = True, can_delete = True\<rparr>]"
  by (simp_all add: drive0_def)

lemma drives0_indexed:
  "indexed (drives_dr list_mongo) (drives_collection drives0)"
  "indexed (files_dr list_mongo) (files_collection drives0)"
  by (simp_all add: indexed_def list_mongo_def drives_indexes_def files_indexes_def drives0_simps file0_def)

lemma drives0_tree: "tree_ok (set (drives_collection drives0))"
  by (simp add: tree_ok_def drives0_simps)

lemma drives0_names: "folder_names_unique (set (drives_collection drives0))"
  by (simp add: folder_names_unique_def drives0_simps)

lemma drives0_depth: "drive_depth drives0 = 3"
  by (simp add: drive_depth_def drives0_simps)

lemma object_store_env0: "object_store (minio env0)"
  by (simp add: env0_def list_objects.object_store_axioms)

text \<open>
  C6. In a well-formed forest the walk over a drive returns, with fuel one above the longest
  stored path, and collects exactly the drive and the live nodes below it, and exactly the files
  those nodes hold.
\<close>

theorem recursiveFindDrives_exact:
  assumes "mongo_ok M" and "indexed (drives_dr M) (drives_collection s)"
    and "tree_ok (set (drives_collection s))" and "d \<in> set (drives_collection s)"
    and "drive_depth s < n"
  shows "\<exists>fs ids. recursiveFindDrives n M s d ([], []) = Some (fs, ids) \<and>
    set ids = doc_id ` below s d \<and> set fs = {f. \<exists>e \<in> below s d. file_of e f}"
  using mongo_db.find_drives_total[OF mongo_db.intro[OF assms(1)] assms(2-5), of "([], [])"]
  by (force simp: collects_def)

theorem recursiveFindDrives_exact_witness:
  "\<exists>fs ids. recursiveFindDrives 4 list_mongo drives0 (drive0 ''A'' [''R''] FOLDER (Some ''R'') [''B'', ''F''] None)
      ([], []) = Some (fs, ids) \<and> ''A'' \<in> set ids"
proof -
  let ?A = "drive0 ''A'' [''R''] FOLDER (Some ''R'') [''B'', ''F''] None"
  have "?A \<in> set (drives_collection drives0)" by (simp add: drives0_simps)
  from recursiveFindDrives_exact[OF list_mongo_ok drives0_indexed(1) drives0_tree this, of 4]
  obtain fs ids where "recursiveFindDrives 4 list_mongo drives0 ?A ([], []) = Some (fs, ids)"
    "set ids = doc_id ` below drives0 ?A"
    by (auto simp: drives0_depth)
  with imageI[OF below_self[of ?A drives0], of doc_id] show ?thesis by auto
qed

text \<open>
  C7. Creating a folder keeps the forest well-formed and the names of live sibling folders
  distinct; only the manager of the parent or a user with write access to it can do it; and the
  new folder is managed by the parent's manager and shared like the parent.
\<close>

theorem createDriveFolder_keeps_forest:
  assumes "mongo_ok M" and "indexed (drives_dr M) (drives_collection s)"
    and "tree_ok (set (drives_collection s))" and "folder_names_unique (set (drives_collection s))"
    and "createDriveFolder E M (Some req) name pid r desc s = (Inr d, s')"
  shows "tree_ok (set (drives_collection s')) \<and> folder_names_unique (set (drives_collection s')) \<and>
    (\<exists>par \<in> set (drives_collection s).
       (managerId par = Uid (doc_id req) \<or> shared_write (doc_id req) par) \<and>
       parent d = Some (doc_id par) \<and> managerId d = managerId par \<and> sharedUsers d = sharedUsers par)"
proof -
  obtain par where p: "par \<in> set (drives_collection s)"
    "managerId par = Uid (doc_id req) \<or> shared_write (doc_id req) par"
    "\<And>x. x \<in> set (drives_collection s) \<Longrightarrow> alive x \<Longrightarrow> drive_type x = FOLDER \<Longrightarrow>
       parent x = Some (doc_id par) \<Longrightarrow> drive_name x \<noteq> name"
    "parent d = Some (doc_id par)" "path d = path par @ [doc_id d]" "children d = []"
    "drive_name d = name" "managerId d = managerId par" "sharedUsers d = sharedUsers par"
    "set (drives_collection s') = hang d (doc_id par) (set (drives_collection s))"
    using mongo_db.createDriveFolder_spec[OF mongo_db.intro[OF assms(1)] assms(2,5)] by blast
  have "tree_ok (set (drives_collection s'))"
    unfolding p(10) by (rule tree_ok_hang[OF assms(3) p(1,4-6)])
  moreover have "folder_names_unique (set (drives_collection s'))"
    unfolding p(10) by (rule folder_names_hang[OF assms(4) _ p(4)]) (use p(3,7) in blast)
  ultimately show ?thesis using p by blast
qed

theorem createDriveFolder_keeps_forest_witness:
  "\<exists>d s'. createDriveFolder env0 list_mongo (Some (user0 ''bob'' STANDARD)) ''new'' (Some ''A'') False None drives0
      = (Inr d, s') \<and> tree_ok (set (drives_collection s')) \<and> folder_names_unique (set (drives_collection s'))"
proof -
  have "\<exists>d s'. createDriveFolder env0 list_mongo (Some (user0 ''bob'' STANDARD)) ''new'' (Some ''A'') False None
      drives0 = (Inr d, s')"
    by (simp add: createDriveFolder_def find_parent_def insert_node_def push_child_def shared_write_def
        uuid_def Date_now_def Let_def list_mongo_def list_driver_simps drives_indexes_def drives0_simps
        sample_defs)
  then obtain d s' where cr: "createDriveFolder env0 list_mongo (Some (user0 ''bob'' STANDARD)) ''new'' (Some ''A'')
      False None drives0 = (Inr d, s')" by blast
  from createDriveFolder_keeps_forest[OF list_mongo_ok drives0_indexed(1) drives0_tree drives0_names cr] cr
  show ?thesis by blast
qed

text \<open>
  A file can only be uploaded by the manager of the folder: a user the folder is shared with,
  write access or not, is refused (the code compares the shared user's id with the requester
  object). The forest stays well-formed, and the new node refers to a file document with the size
  of the upload.
\<close>

theorem createDriveFile_manager_only:
  assumes "mongo_ok M" and "object_store (minio E)" and "indexed (drives_dr M) (drives_collection s)"
    and "tree_ok (set (drives_collection s))"
    and "createDriveFile E M (Some req) pid desc ft fu s = (Inr d, s')"
  shows "tree_ok (set (drives_collection s')) \<and>
    (\<exists>par \<in> set (drives_collection s). managerId par = Uid (doc_id req) \<and> parent d = Some (doc_id par)) \<and>
    (\<exists>f \<in> set (files_collection s'). fileId d = Some (doc_id f) \<and>
       fileSize f = int (length (concat (stream_chunks fu))))"
proof -
  obtain par f where p: "par \<in> set (drives_collection s)" "f \<in> set (files_collection s')"
    "managerId par = Uid (doc_id req)" "parent d = Some (doc_id par)" "path d = path par @ [doc_id d]"
    "children d = []" "fileId d = Some (doc_id f)" "fileSize f = int (length (concat (stream_chunks fu)))"
    "set (drives_collection s') = hang d (doc_id par) (set (drives_collection s))"
    using mongo_db.createDriveFile_spec[OF mongo_db.intro[OF assms(1)] assms(3,2,5)] by blast
  have "tree_ok (set (drives_collection s'))"
    unfolding p(9) by (rule tree_ok_hang[OF assms(4) p(1,4-6)])
  with p show ?thesis by blast
qed

theorem createDriveFile_manager_only_witness:
  "\<exists>d s'. createDriveFile env0 list_mongo (Some (user0 ''ann'' STANDARD)) (Some ''A'') None TXT upload0 drives0
      = (Inr d, s') \<and> tree_ok (set (drives_collection s'))"
proof -
  have "\<exists>d s'. createDriveFile env0 list_mongo (Some (user0 ''ann'' STANDARD)) (Some ''A'') None TXT upload0
      drives0 = (Inr d, s')"
    by (simp add: createDriveFile_def find_parent_def insert_node_def push_child_def shared_write_object_def
        drives_indexes_def drives0_simps default_userConfig_def upload_eval)
  then obtain d s' where cr: "createDriveFile env0 list_mongo (Some (user0 ''ann'' STANDARD)) (Some ''A'') None
      TXT upload0 drives0 = (Inr d, s')" by blast
  from createDriveFile_manager_only[OF list_mongo_ok object_store_env0 drives0_indexed(1) drives0_tree cr] cr
  show ?thesis by blast
qed

text \<open>
  C8. Deleting a drive that is neither restricted nor a root returns, and marks exactly its
  subtree and the files in it as deleted, whoever the requester is: any logged-in user can delete
  any such drive.
\<close>

theorem deleteDrive_exact:
  assumes "mongo_ok M" and "indexed (drives_dr M) (drives_collection s)"
    and "indexed (files_dr M) (files_collection s)" and "tree_ok (set (drives_collection s))"
    and "d \<in> set (drives_collection s)" and "alive d" and "\<not> restricted d" and "parent d \<noteq> None"
    and "drive_depth s < n"
  shows "\<exists>s'. deleteDrive n E M (Some req) (doc_id d) s = Some (Inr d, s') \<and>
    set (drives_collection s') =
      apply_where (\<lambda>e. doc_id e \<in> doc_id ` below s d) (mark_deleted (clock E (tick s)) (Uid (doc_id req)))
        ` set (drives_collection s) \<and>
    set (files_collection s') =
      apply_where (\<lambda>f. \<exists>e \<in> below s d. file_of e (doc_id f))
        (mark_deleted (clock E (Suc (tick s))) (Uid (doc_id req))) ` set (files_collection s) \<and>
    s' = s\<lparr>drives_collection := drives_collection s', files_collection := files_collection s',
            tick := Suc (Suc (tick s))\<rparr>"
  by (rule mongo_db.deleteDrive_spec[OF mongo_db.intro[OF assms(1)] assms(2-9)])

theorem deleteDrive_exact_witness:
  "\<exists>s'. deleteDrive 4 env0 list_mongo (Some (user0 ''mallory'' GUEST)) ''A'' drives0 =
      Some (Inr (drive0 ''A'' [''R''] FOLDER (Some ''R'') [''B'', ''F''] None), s')"
  using deleteDrive_exact[OF list_mongo_ok drives0_indexed drives0_tree,
      of "drive0 ''A'' [''R''] FOLDER (Some ''R'') [''B'', ''F''] None" 4 env0 "user0 ''mallory'' GUEST"]
  by (auto simp: drives0_simps drives0_depth)

text \<open>
  C9. Moving any folder below any folder of its own subtree (a child, a deeper one, or itself) is
  accepted from an administrator or the folder's manager, in every database, and makes a cycle on
  which the walk never ends: when the folder is not restricted, a later deletion of it, by any
  logged-in user, does not return, whatever the fuel.
\<close>

theorem move_below_itself_diverges:
  assumes "mongo_ok M" and "indexed (drives_dr M) (drives_collection s)"
    and "d \<in> set (drives_collection s)" and "alive d" and "\<not> restricted d"
    and "p \<in> below s d" and "drive_type p = FOLDER" and "doc_id p \<noteq> []"
    and "user_type req = ADMIN \<or> managerId d = Uid (doc_id req)"
  shows "\<exists>ids d' s'. editDrive n M (Some req) (doc_id d) None None None (Some (doc_id p)) None None s =
      Some (Inr (ids, d'), s') \<and>
    (\<forall>m E rq. deleteDrive m E M (Some rq) (doc_id d) s' = None)"
proof -
  have p: "p \<in> set (drives_collection s)" "alive p" using below_stored[OF assms(6)] assms(3,4) by auto
  obtain ids d' c q where "editDrive n M (Some req) (doc_id d) None None None (Some (doc_id p)) None None s =
      Some (Inr (ids, d'), s\<lparr>drives_collection := c\<rparr>)" "indexed (drives_dr M) c"
    "set c = moved (doc_id d) (doc_id p) q ` set (drives_collection s)"
    using mongo_db.editDrive_move[OF mongo_db.intro[OF assms(1)] assms(2-4) p assms(8,9), of n] by blast
  with mongo_db.deleteDrive_cycle[OF mongo_db.intro[OF assms(1)] this(2,3) assms(3-7)] show ?thesis by simp
qed

theorem move_below_itself_diverges_witness:
  "\<exists>ids d s'. editDrive 1 list_mongo (Some (user0 ''ann'' STANDARD)) ''A'' None None None (Some ''B'') None None
      drives0 = Some (Inr (ids, d), s') \<and>
    deleteDrive 100 env0 list_mongo (Some (user0 ''mallory'' GUEST)) ''A'' s' = None"
proof -
  let ?A = "drive0 ''A'' [''R''] FOLDER (Some ''R'') [''B'', ''F''] None"
    and ?B = "drive0 ''B'' [''R'', ''A''] FOLDER (Some ''A'') [] None"
  have "edge drives0 ?A ?B" by (simp add: edge_def drives0_simps)
  then have "?B \<in> below drives0 ?A" by (auto simp: below_def)
  with move_below_itself_diverges[OF list_mongo_ok drives0_indexed(1), of ?A ?B "user0 ''ann'' STANDARD" 1]
  show ?thesis by (simp add: drives0_simps user0_def) blast
qed

end
