(* ===== verification/Config.thy ===== *)
theory Config
  imports FileStore
begin

section \<open>Configurations (\<open>configCore.ts\<close>)\<close>

text \<open>
  The class \<open>ConfigCore\<close>: reading a configuration with its default, and the two operations of
  administrators. The configurations decide the size limits of theory \<open>FileStore\<close>.
\<close>

subsection \<open>Operations\<close>

fun default_properties :: "enumConfigType \<Rightarrow> config_properties" where
  "default_properties CACHECONFIG = CacheProps default_cacheConfig"
| "default_properties STUDYCONFIG = StudyProps default_studyConfig"
| "default_properties SYSTEMCONFIG = SystemProps default_systemConfig"
| "default_properties USERCONFIG = UserProps default_userConfig"
| "default_properties DOCCONFIG = DocProps default_docConfig"
| "default_properties DOMAINCONFIG = DomainProps default_domainConfig"

definition is_config :: "enumConfigType \<Rightarrow> string option \<Rightarrow> IConfig \<Rightarrow> bool" where
  "is_config t k c \<longleftrightarrow> config_type c = t \<and> config_key c = k \<and> alive c"

definition getConfig ::
    "env \<Rightarrow> mongo \<Rightarrow> enumConfigType \<Rightarrow> string option \<Rightarrow> bool \<Rightarrow> db \<Rightarrow> IConfig result \<times> db" where
  "getConfig E M t k useDefault s =
     (case findOne (configs_dr M) (configs_collection s) (is_config t k) of
        Some config \<Rightarrow> (Inr config, s)
      | None \<Rightarrow>
          if useDefault then
            (let (newId, s1) = uuid E s;
                 (now, s2) = Date_now E s1
             in (Inr \<lparr>doc_id = newId, life = new_life now ''SYSTEM'', metadata = [], config_type = t,
                       config_key = k, properties = default_properties t\<rparr>, s2))
          else (Inl (CoreError CLIENT_MALFORMED_INPUT ''Config does not exist.''), s))"

text \<open>The properties fit the type of the configuration.\<close>

fun config_matches :: "enumConfigType \<Rightarrow> config_properties \<Rightarrow> bool" where
  "config_matches SYSTEMCONFIG p = (case p of SystemProps _ \<Rightarrow> True | _ \<Rightarrow> False)"
| "config_matches STUDYCONFIG p = (case p of StudyProps _ \<Rightarrow> True | _ \<Rightarrow> False)"
| "config_matches USERCONFIG p = (case p of UserProps _ \<Rightarrow> True | _ \<Rightarrow> False)"
| "config_matches DOCCONFIG p = (config_fileBucketId p = Some ''doc'')"
| "config_matches CACHECONFIG p = (config_fileBucketId p = Some ''cache'')"
| "config_matches DOMAINCONFIG p = (config_fileBucketId p = Some ''domain'')"

definition editConfig ::
    "mongo \<Rightarrow> requester \<Rightarrow> enumConfigType \<Rightarrow> string option \<Rightarrow> config_properties \<Rightarrow> db
     \<Rightarrow> IGenericResponse result \<times> db" where
  "editConfig M requester t k props s =
     (case requester of
        None \<Rightarrow> (Inl (core_error NOT_LOGGED_IN), s)
      | Some req \<Rightarrow>
          if user_type req \<noteq> ADMIN then (Inl (core_error NO_PERMISSION_ERROR), s)
          else if \<not> config_matches t props
          then (Inl (CoreError CLIENT_MALFORMED_INPUT ''Config type and properties do not match.''), s)
          else
            (case findOne (configs_dr M) (configs_collection s) (is_config t k) of
               None \<Rightarrow> (Inl (CoreError CLIENT_MALFORMED_INPUT ''Config does not exist.''), s)
             | Some config \<Rightarrow>
                 (case updateOne (configs_dr M) (configs_collection s) (is_config t k)
                         (\<lambda>c. c\<lparr>properties := props\<rparr>) of
                    None \<Rightarrow> (Inl MongoServerError, s)
                  | Some (_, c) \<Rightarrow>
                      (Inr (makeGenericResponse (Some (doc_id config)) (Some True) None
                         (Some ''Config updated.'')), s\<lparr>configs_collection := c\<rparr>))))"

definition createConfig ::
    "env \<Rightarrow> mongo \<Rightarrow> requester \<Rightarrow> enumConfigType \<Rightarrow> string option \<Rightarrow> config_properties \<Rightarrow> db
     \<Rightarrow> IConfig result \<times> db" where
  "createConfig E M requester t k props s =
     (case requester of
        None \<Rightarrow> (Inl (core_error NOT_LOGGED_IN), s)
      | Some req \<Rightarrow>
          if user_type req \<noteq> ADMIN then (Inl (core_error NO_PERMISSION_ERROR), s)
          else
            (let (newId, s1) = uuid E s;
                 (now, s2) = Date_now E s1;
                 config = \<lparr>doc_id = newId, life = new_life now (doc_id req), metadata = [],
                   config_type = t, config_key = k, properties = props\<rparr>
             in case insertOne (configs_dr M) (configs_collection s2) config of
                  None \<Rightarrow> (Inl MongoServerError, s2)
                | Some c \<Rightarrow> (Inr config, s2\<lparr>configs_collection := c\<rparr>)))"

subsection \<open>What the operations do\<close>

text \<open>
  Properties are usable when they have what the upload of a file reads: then the limit of every
  kind of upload is a number and its bucket is known.
\<close>

fun usable :: "enumConfigType \<Rightarrow> config_properties \<Rightarrow> bool" where
  "usable SYSTEMCONFIG p = (config_profileBucketId p \<noteq> None)"
| "usable STUDYCONFIG p = True"
| "usable USERCONFIG p = (config_fileBucketId p \<noteq> None \<and> config_fileRepoSize p \<noteq> None)"
| "usable DOCCONFIG p = (config_fileBucketId p \<noteq> None)"
| "usable CACHECONFIG p = (config_fileBucketId p \<noteq> None)"
| "usable DOMAINCONFIG p = (config_fileBucketId p \<noteq> None)"

definition config_usable :: "IConfig \<Rightarrow> bool" where
  "config_usable c = usable (config_type c) (properties c)"

lemma matches_usable: "config_matches t p \<Longrightarrow> usable t p"
  by (cases t; cases p) simp_all

lemma default_usable: "usable t (default_properties t)"
  by (cases t) simp_all

context mongo_db
begin

lemma config_unique:
  assumes "indexed (configs_dr M) c" and "x \<in> set c" "y \<in> set c"
    and "config_type x = config_type y" "config_key x = config_key y"
  shows "x = y"
proof -
  let ?k = "\<lambda>d. JArr [config_type_key (config_type d), opt_key (config_key d)]"
  have "?k \<in> set (indexes (configs_dr M))" using ok by (simp add: mongo_ok_def configs_indexes_def)
  from indexed_unique[OF assms(1) this assms(2,3)] assms(4,5) show ?thesis by simp
qed

lemma findOne_config:
  assumes ix: "indexed (configs_dr M) c"
  shows "findOne (configs_dr M) c (is_config t k) = Some x \<longleftrightarrow> x \<in> set c \<and> is_config t k x"
proof
  assume "findOne (configs_dr M) c (is_config t k) = Some x"
  from configs_store.findOne_Some[OF this] show "x \<in> set c \<and> is_config t k x" .
next
  assume x: "x \<in> set c \<and> is_config t k x"
  show "findOne (configs_dr M) c (is_config t k) = Some x"
  proof (rule configs_store.findOne_unique)
    fix e assume "e \<in> set c" "is_config t k e"
    with x show "e = x" using config_unique[OF ix] by (auto simp: is_config_def)
  qed (use x in simp_all)
qed

lemma config_or_usable:
  assumes "\<forall>c \<in> set (configs_collection s). config_usable c"
  shows "usable t (config_or M s t k (default_properties t))"
proof (cases "findOne (configs_dr M) (configs_collection s) (\<lambda>c. config_type c = t \<and> config_key c = k)")
  case None
  then show ?thesis by (simp add: config_or_def default_usable)
next
  case (Some c)
  from configs_store.findOne_Some[OF Some] assms have "config_usable c" "config_type c = t" by simp_all
  with Some show ?thesis by (simp add: config_or_def config_usable_def)
qed

lemma upload_limit_defined:
  assumes u: "\<forall>c \<in> set (configs_collection s). config_usable c"
    and "upload_limit M s req studyId cat = Inr (limit, bucket)"
  shows "limit \<noteq> None \<and> bucket \<noteq> None"
  using assms(2) config_or_usable[OF u, of STUDYCONFIG studyId]
    config_or_usable[OF u, of USERCONFIG "Some (doc_id req)"] config_or_usable[OF u, of DOCCONFIG None]
    config_or_usable[OF u, of CACHECONFIG None] config_or_usable[OF u, of SYSTEMCONFIG None]
    config_or_usable[OF u, of DOMAINCONFIG None]
  by (cases cat) (auto simp: upload_limit_def min_remaining_def Let_def truthy_iff
      split: if_splits option.splits)

lemma editConfig_spec:
  assumes ix: "indexed (configs_dr M) (configs_collection s)"
    and ed: "editConfig M (Some req) t k p s = (Inr resp, s')"
  shows "user_type req = ADMIN \<and> config_matches t p \<and>
    (\<exists>c \<in> set (configs_collection s). is_config t k c \<and>
       set (configs_collection s') =
         insert (c\<lparr>properties := p\<rparr>) (set (configs_collection s) - {c})) \<and>
    indexed (configs_dr M) (configs_collection s') \<and>
    s' = s\<lparr>configs_collection := configs_collection s'\<rparr>"
proof -
  let ?f = "\<lambda>c. c\<lparr>properties := p\<rparr>"
  from ed obtain c r c' where c: "findOne (configs_dr M) (configs_collection s) (is_config t k) = Some c"
    "updateOne (configs_dr M) (configs_collection s) (is_config t k) ?f = Some (r, c')"
    "user_type req = ADMIN" "config_matches t p" "s' = s\<lparr>configs_collection := c'\<rparr>"
    by (auto simp: editConfig_def split: if_splits option.splits)
  from configs_store.findOne_Some[OF c(1)] have cin: "c \<in> set (configs_collection s)" "is_config t k c" by auto
  have uniq: "e = c" if "e \<in> set (configs_collection s)" "is_config t k e" for e
    using findOne_config[OF ix, of t k e] c(1) that by simp
  have "set c' = apply_where (is_config t k) ?f ` set (configs_collection s)"
    by (rule configs_store.updateOne_unique[THEN conjunct2, OF c(2) cin uniq configs_store.count_one[OF ix cin(1)]])
  also have "\<dots> = insert (?f c) (set (configs_collection s) - {c})"
    by (rule image_apply_single[where q = "is_config t k" and f = ?f, OF cin uniq])
  finally show ?thesis
    using c cin configs_store.updateOne_indexed[OF c(2) ix] by auto
qed

end

subsection \<open>Properties\<close>

text \<open>
  A configuration that an administrator has edited is what the next reading returns, for every
  other type and key the reading is unchanged, and the properties fit the type.
\<close>

theorem editConfig_then_getConfig:
  assumes "mongo_ok M" and "indexed (configs_dr M) (configs_collection s)"
    and "editConfig M (Some req) t k p s = (Inr resp, s')"
  shows "config_matches t p \<and> (\<exists>c. getConfig E M t k dflt s' = (Inr c, s') \<and> properties c = p) \<and>
    (t' \<noteq> t \<or> k' \<noteq> k \<longrightarrow> fst (getConfig E M t' k' dflt s') = fst (getConfig E M t' k' dflt s))"
proof -
  note db = mongo_db.intro[OF assms(1)]
  obtain c where c: "config_matches t p" "c \<in> set (configs_collection s)" "is_config t k c"
    "set (configs_collection s') = insert (c\<lparr>properties := p\<rparr>) (set (configs_collection s) - {c})"
    "indexed (configs_dr M) (configs_collection s')" "s' = s\<lparr>configs_collection := configs_collection s'\<rparr>"
    using mongo_db.editConfig_spec[OF db assms(2,3)] by blast
  note found = mongo_db.findOne_config[OF db]
  have "is_config t k (c\<lparr>properties := p\<rparr>)" using c(3) by (simp add: is_config_def alive_def)
  then have "findOne (configs_dr M) (configs_collection s') (is_config t k) = Some (c\<lparr>properties := p\<rparr>)"
    by (simp add: found[OF c(5)] c(4))
  then have 1: "\<exists>c. getConfig E M t k dflt s' = (Inr c, s') \<and> properties c = p"
    by (simp add: getConfig_def)
  have 2: "fst (getConfig E M t' k' dflt s') = fst (getConfig E M t' k' dflt s)" if "t' \<noteq> t \<or> k' \<noteq> k"
  proof -
    have "x \<in> set (configs_collection s') \<and> is_config t' k' x \<longleftrightarrow>
        x \<in> set (configs_collection s) \<and> is_config t' k' x" for x
      using that c(3,4) by (auto simp: is_config_def)
    then have "findOne (configs_dr M) (configs_collection s') (is_config t' k') =
        findOne (configs_dr M) (configs_collection s) (is_config t' k')"
      by (metis found[OF c(5)] found[OF assms(2)] not_Some_eq)
    moreover have "uuid_next s' = uuid_next s \<and> tick s' = tick s"
      by (subst c(6), subst (2) c(6)) simp
    ultimately show ?thesis
      by (simp add: getConfig_def uuid_def Date_now_def Let_def split: option.split)
  qed
  from c(1) 1 2 show ?thesis by blast
qed

theorem editConfig_then_getConfig_witness:
  "\<exists>resp s'. editConfig list_mongo (Some (user0 ''root'' ADMIN)) USERCONFIG (Some ''ann'') (UserProps default_userConfig)
      (db0\<lparr>configs_collection := [userconfig0 ''ann'' 7]\<rparr>) = (Inr resp, s') \<and>
    (\<exists>c. getConfig env0 list_mongo USERCONFIG (Some ''ann'') False s' = (Inr c, s') \<and>
       properties c = UserProps default_userConfig)"
proof -
  let ?s = "db0\<lparr>configs_collection := [userconfig0 ''ann'' 7]\<rparr>"
  have "\<exists>resp s'. editConfig list_mongo (Some (user0 ''root'' ADMIN)) USERCONFIG (Some ''ann'')
      (UserProps default_userConfig) ?s = (Inr resp, s')"
    by (simp add: editConfig_def is_config_def list_mongo_def list_driver_simps configs_indexes_def
        userconfig0_def user0_def alive_def life0_def new_life_def)
  then obtain resp s' where ed: "editConfig list_mongo (Some (user0 ''root'' ADMIN)) USERCONFIG (Some ''ann'')
      (UserProps default_userConfig) ?s = (Inr resp, s')" by blast
  have ix: "indexed (configs_dr list_mongo) (configs_collection ?s)"
    by (simp add: indexed_def list_mongo_def configs_indexes_def)
  from editConfig_then_getConfig[OF list_mongo_ok ix ed] ed show ?thesis by blast
qed

text \<open>
  Editing keeps every configuration usable, and then every upload that is let through to the
  size check has a numeric limit and a bucket (with an unusable user configuration the limit
  would not be a number, and no upload would exceed it).
\<close>

theorem editConfig_keeps_limits:
  assumes "mongo_ok M" and "indexed (configs_dr M) (configs_collection s)"
    and "\<forall>c \<in> set (configs_collection s). config_usable c"
    and "editConfig M (Some req) t k p s = (Inr resp, s')"
  shows "(\<forall>c \<in> set (configs_collection s'). config_usable c) \<and>
    (\<forall>u studyId cat limit bucket. upload_limit M s' u studyId cat = Inr (limit, bucket) \<longrightarrow>
       limit \<noteq> None \<and> bucket \<noteq> None)"
proof -
  note db = mongo_db.intro[OF assms(1)]
  obtain c where c: "config_matches t p" "is_config t k c"
    "set (configs_collection s') = insert (c\<lparr>properties := p\<rparr>) (set (configs_collection s) - {c})"
    using mongo_db.editConfig_spec[OF db assms(2,4)] by blast
  have "config_usable (c\<lparr>properties := p\<rparr>)"
    using matches_usable[OF c(1)] c(2) by (simp add: is_config_def config_usable_def)
  with c(3) assms(3) have u: "\<forall>c \<in> set (configs_collection s'). config_usable c" by auto
  with mongo_db.upload_limit_defined[OF db u] show ?thesis by blast
qed

theorem editConfig_keeps_limits_witness:
  "\<exists>resp s'. editConfig list_mongo (Some (user0 ''root'' ADMIN)) USERCONFIG (Some ''ann'') (UserProps default_userConfig)
      (db0\<lparr>configs_collection := [userconfig0 ''ann'' 7]\<rparr>) = (Inr resp, s') \<and>
    (\<forall>c \<in> set (configs_collection s'). config_usable c)"
proof -
  let ?s = "db0\<lparr>configs_collection := [userconfig0 ''ann'' 7]\<rparr>"
  have "\<exists>resp s'. editConfig list_mongo (Some (user0 ''root'' ADMIN)) USERCONFIG (Some ''ann'')
      (UserProps default_userConfig) ?s = (Inr resp, s')"
    by (simp add: editConfig_def is_config_def list_mongo_def list_driver_simps configs_indexes_def
        userconfig0_def user0_def alive_def life0_def new_life_def)
  then obtain resp s' where ed: "editConfig list_mongo (Some (user0 ''root'' ADMIN)) USERCONFIG (Some ''ann'')
      (UserProps default_userConfig) ?s = (Inr resp, s')" by blast
  have ix: "indexed (configs_dr list_mongo) (configs_collection ?s)"
    by (simp add: indexed_def list_mongo_def configs_indexes_def)
  have us: "\<forall>c \<in> set (configs_collection ?s). config_usable c"
    by (simp add: userconfig0_def config_usable_def)
  from editConfig_keeps_limits[OF list_mongo_ok ix us ed] ed show ?thesis by blast
qed

end
