(* ===== verification/Organisation.thy ===== *)
theory Organisation
  imports FileStore
begin

section \<open>Organisations (\<open>organisationCore.ts\<close>)\<close>

text \<open>
  The class \<open>OrganisationCore\<close>. The code keeps the names of live organisations distinct; the
  unique index of the collection keeps the names of all organisations distinct, deleted ones
  included.
\<close>

definition getOrganisations :: "mongo \<Rightarrow> string option \<Rightarrow> db \<Rightarrow> IOrganisation list" where
  "getOrganisations M organisationId s =
     (if truthy organisationId
      then find_many (organisations_dr M) (organisations_collection s)
             (\<lambda>d. Some (doc_id d) = organisationId \<and> alive d)
      else find_many (organisations_dr M) (organisations_collection s) alive)"

definition createOrganisation ::
    "env \<Rightarrow> mongo \<Rightarrow> requester \<Rightarrow> string \<Rightarrow> string option \<Rightarrow> FileUpload option \<Rightarrow> db
     \<Rightarrow> IOrganisation result \<times> db" where
  "createOrganisation E M requester name sname profile s =
     (case requester of
        None \<Rightarrow> (Inl (core_error NOT_LOGGED_IN), s)
      | Some req \<Rightarrow>
          if user_type req \<noteq> ADMIN then (Inl (core_error NO_PERMISSION_ERROR), s)
          else if findOne (organisations_dr M) (organisations_collection s)
                    (\<lambda>d. org_name d = name \<and> alive d) \<noteq> None
          then (Inl (CoreError CLIENT_MALFORMED_INPUT ''Organisation already exists.''), s)
          else
            (case upload_optional E M req None profile PROFILE_FILE s of
               (Inl e, s1) \<Rightarrow> (Inl e, s1)
             | (Inr fileEntry, s1) \<Rightarrow>
                 (let (newId, s2) = uuid E s1;
                      (now, s3) = Date_now E s2;
                      entry = \<lparr>doc_id = newId, life = new_life now (doc_id req), metadata = [],
                        org_name = name, shortname = sname, org_profile = map_option doc_id fileEntry\<rparr>
                  in case insertOne (organisations_dr M) (organisations_collection s3) entry of
                       None \<Rightarrow> (Inl MongoServerError, s3)
                     | Some c \<Rightarrow> (Inr entry, s3\<lparr>organisations_collection := c\<rparr>))))"

definition edit_organisation_set ::
    "string option \<Rightarrow> string option \<Rightarrow> IFile option \<Rightarrow> IOrganisation \<Rightarrow> IOrganisation" where
  "edit_organisation_set name sname fileEntry d = d\<lparr>
     org_name := (if truthy name then the name else org_name d),
     shortname := (if truthy sname then sname else shortname d),
     org_profile := (case fileEntry of None \<Rightarrow> org_profile d | Some f \<Rightarrow> Some (doc_id f))\<rparr>"

definition editOrganisation ::
    "env \<Rightarrow> mongo \<Rightarrow> requester \<Rightarrow> string \<Rightarrow> string option \<Rightarrow> string option \<Rightarrow> FileUpload option \<Rightarrow> db
     \<Rightarrow> IGenericResponse result \<times> db" where
  "editOrganisation E M requester organisationId name sname profile s =
     (case requester of
        None \<Rightarrow> (Inl (core_error NOT_LOGGED_IN), s)
      | Some req \<Rightarrow>
          if user_type req \<noteq> ADMIN then (Inl (core_error NO_PERMISSION_ERROR), s)
          else if findOne (organisations_dr M) (organisations_collection s)
                    (\<lambda>d. doc_id d = organisationId \<and> alive d) = None
          then (Inl (CoreError CLIENT_ACTION_ON_NON_EXISTENT_ENTRY ''Organisation not found.''), s)
          else if truthy name \<and>
                  (case findOne (organisations_dr M) (organisations_collection s)
                          (\<lambda>d. Some (org_name d) = name \<and> alive d) of
                     None \<Rightarrow> False
                   | Some org \<Rightarrow> doc_id org \<noteq> organisationId)
          then (Inl (CoreError CLIENT_MALFORMED_INPUT ''Organisation already exists.''), s)
          else
            (case upload_optional E M req None profile PROFILE_FILE s of
               (Inl e, s1) \<Rightarrow> (Inl e, s1)
             | (Inr fileEntry, s1) \<Rightarrow>
                 (case updateOne (organisations_dr M) (organisations_collection s1)
                         (\<lambda>d. doc_id d = organisationId) (edit_organisation_set name sname fileEntry) of
                    None \<Rightarrow> (Inl MongoServerError, s1)
                  | Some (_, c) \<Rightarrow>
                      (Inr (makeGenericResponse (Some organisationId) (Some True) None
                         (Some ''Organisation updated successfully.'')),
                       s1\<lparr>organisations_collection := c\<rparr>))))"

definition deleteOrganisation ::
    "env \<Rightarrow> mongo \<Rightarrow> requester \<Rightarrow> string \<Rightarrow> db \<Rightarrow> IGenericResponse result \<times> db" where
  "deleteOrganisation E M requester organisationId s =
     (case requester of
        None \<Rightarrow> (Inl (core_error NOT_LOGGED_IN), s)
      | Some req \<Rightarrow>
          if user_type req \<noteq> ADMIN then (Inl (core_error NO_PERMISSION_ERROR), s)
          else if findOne (organisations_dr M) (organisations_collection s)
                    (\<lambda>d. doc_id d = organisationId \<and> alive d) = None
          then (Inl (CoreError CLIENT_ACTION_ON_NON_EXISTENT_ENTRY ''Organisation not found.''), s)
          else
            (let (now, s1) = Date_now E s
             in case updateOne (organisations_dr M) (organisations_collection s1)
                       (\<lambda>d. doc_id d = organisationId) (mark_deleted now (Uid (doc_id req))) of
                  None \<Rightarrow> (Inl MongoServerError, s1)
                | Some (_, c) \<Rightarrow>
                    (Inr (makeGenericResponse (Some organisationId) (Some True) None
                       (Some ''Organisation deleted successfully.'')),
                     s1\<lparr>organisations_collection := c\<rparr>)))"

subsection \<open>What the operations do\<close>

lemma mark_deleted_org_name [simp]: "org_name (mark_deleted t u d) = org_name d"
  by (simp add: mark_deleted_def)

context mongo_db
begin

lemmas org_key_inj = organisations_store.key_inj

lemma org_find: "set (find_many (organisations_dr M) c q) = {d \<in> set c. q d}"
  by (rule organisations_store.find_many_set)

lemma org_name_index: "(\<lambda>d. JStr (org_name d)) \<in> set (indexes (organisations_dr M))"
  using ok by (simp add: mongo_ok_def organisations_indexes_def)

text \<open>An organisation whose name some document has cannot be inserted.\<close>

lemma org_insert_blocked:
  "o' \<in> set c \<Longrightarrow> org_name o' = org_name e \<Longrightarrow> insertOne (organisations_dr M) c e = None"
  unfolding organisations_store.insertOne_None
  by (rule bexI[OF _ org_name_index]) (metis (mono_tags, lifting) image_eqI)

lemma createOrganisation_blocked:
  assumes "user_type req = ADMIN"
    and "\<forall>d \<in> set (organisations_collection s). org_name d = name \<longrightarrow> \<not> alive d"
    and "o' \<in> set (organisations_collection s)" and "org_name o' = name"
  shows "fst (createOrganisation E M (Some req) name sname None s) = Inl MongoServerError \<and>
    organisations_collection (snd (createOrganisation E M (Some req) name sname None s)) =
      organisations_collection s"
proof -
  have "findOne (organisations_dr M) (organisations_collection s) (\<lambda>d. org_name d = name \<and> alive d) = None"
    using assms(2) by (auto simp: organisations_store.findOne_None)
  moreover have "insertOne (organisations_dr M) (organisations_collection s) e = None"
    if "org_name e = name" for e
    by (rule org_insert_blocked[OF assms(3)]) (simp add: assms(4) that)
  ultimately show ?thesis
    using assms(1)
    by (simp add: createOrganisation_def upload_optional_def uuid_def Date_now_def Let_def)
qed

lemma deleteOrganisation_spec:
  assumes ix: "indexed (organisations_dr M) (organisations_collection s)"
    and del: "deleteOrganisation E M (Some req) i s = (Inr resp, s')"
  shows "user_type req = ADMIN \<and>
    (\<exists>d \<in> set (organisations_collection s). doc_id d = i \<and> alive d \<and>
       set (organisations_collection s') =
         insert (mark_deleted (clock E (tick s)) (Uid (doc_id req)) d) (set (organisations_collection s) - {d})) \<and>
    s' = s\<lparr>organisations_collection := organisations_collection s', tick := Suc (tick s)\<rparr>"
proof -
  let ?f = "mark_deleted (clock E (tick s)) (Uid (doc_id req)) :: IOrganisation \<Rightarrow> IOrganisation"
  from del obtain d r c where c: "findOne (organisations_dr M) (organisations_collection s)
      (\<lambda>d. doc_id d = i \<and> alive d) = Some d"
    "updateOne (organisations_dr M) (organisations_collection s) (\<lambda>d. doc_id d = i) ?f = Some (r, c)"
    "user_type req = ADMIN" "s' = s\<lparr>organisations_collection := c, tick := Suc (tick s)\<rparr>"
    by (auto simp: deleteOrganisation_def Date_now_def Let_def split: if_splits option.splits)
  from organisations_store.findOne_Some[OF c(1)] have d: "d \<in> set (organisations_collection s)"
    "doc_id d = i" "alive d" by auto
  have "set c = apply_where (\<lambda>d. doc_id d = i) ?f ` set (organisations_collection s)"
    by (rule organisations_store.updateOne_key[OF ix c(2)])
  also have "\<dots> = insert (?f d) (set (organisations_collection s) - {d})"
    by (rule image_apply_single) (use d organisations_store.key_inj[OF ix] in auto)
  finally show ?thesis using c d by auto
qed

end

subsection \<open>Properties\<close>

definition org0 :: "string \<Rightarrow> IOrganisation" where
  "org0 i = \<lparr>doc_id = i, life = life0, metadata = [], org_name = i, shortname = None, org_profile = None\<rparr>"

text \<open>
  A deleted organisation blocks its name for good: after a deletion the organisation is no
  longer listed, and creating an organisation of that name passes the code's own check and then
  fails in the database, whose unique index on the name covers deleted documents too.
\<close>

theorem deleted_organisation_blocks_name:
  assumes "mongo_ok M" and "indexed (organisations_dr M) (organisations_collection s)"
    and "d \<in> set (organisations_collection s)" and "user_type admin = ADMIN"
    and "deleteOrganisation E M (Some req) (doc_id d) s = (Inr resp, s')"
  shows "d \<notin> set (getOrganisations M None s') \<and>
    fst (createOrganisation E M (Some admin) (org_name d) sname None s') = Inl MongoServerError"
proof -
  note db = mongo_db.intro[OF assms(1)]
  let ?f = "mark_deleted (clock E (tick s)) (Uid (doc_id req)) :: IOrganisation \<Rightarrow> IOrganisation"
  have keys: "e = d" if "e \<in> set (organisations_collection s)" "doc_id e = doc_id d" for e
    using mongo_db.org_key_inj[OF db assms(2) that(1) assms(3) that(2)] .
  have names: "e = d" if "e \<in> set (organisations_collection s)" "org_name e = org_name d" for e
    using indexed_unique[OF assms(2) mongo_db.org_name_index[OF db] that(1) assms(3)] that(2) by simp
  from mongo_db.deleteOrganisation_spec[OF db assms(2,5)] keys have
    s': "set (organisations_collection s') = insert (?f d) (set (organisations_collection s) - {d})"
      "alive d"
    by blast+
  have dead: "\<not> alive e" if "e \<in> set (organisations_collection s')" "org_name e = org_name d" for e
    using that names unfolding s'(1) by auto
  have "?f d \<in> set (organisations_collection s')" by (simp add: s'(1))
  from mongo_db.createOrganisation_blocked[OF db assms(4) _ this] dead
  have "fst (createOrganisation E M (Some admin) (org_name d) sname None s') = Inl MongoServerError"
    by auto
  moreover have "d \<notin> set (organisations_collection s')"
    using dead s'(2) by blast
  then have "d \<notin> set (getOrganisations M None s')"
    using mongo_db.org_find[OF db] by (auto simp: getOrganisations_def)
  ultimately show ?thesis by blast
qed

theorem deleted_organisation_blocks_name_witness:
  "\<exists>resp s'. deleteOrganisation env0 list_mongo (Some (user0 ''root'' ADMIN)) ''icl''
      (db0\<lparr>organisations_collection := [org0 ''icl'']\<rparr>) = (Inr resp, s') \<and>
    fst (createOrganisation env0 list_mongo (Some (user0 ''root'' ADMIN)) ''icl'' None None s') = Inl MongoServerError"
proof -
  let ?s = "db0\<lparr>organisations_collection := [org0 ''icl'']\<rparr>"
  have "\<exists>resp s'. deleteOrganisation env0 list_mongo (Some (user0 ''root'' ADMIN)) (doc_id (org0 ''icl'')) ?s =
      (Inr resp, s')"
    by (simp add: deleteOrganisation_def Date_now_def Let_def list_mongo_def list_driver_simps
        organisations_indexes_def org0_def user0_def)
  then obtain resp s' where del: "deleteOrganisation env0 list_mongo (Some (user0 ''root'' ADMIN))
      (doc_id (org0 ''icl'')) ?s = (Inr resp, s')" by blast
  have ix: "indexed (organisations_dr list_mongo) (organisations_collection ?s)"
    by (simp add: indexed_def list_mongo_def organisations_indexes_def)
  have "org0 ''icl'' \<in> set (organisations_collection ?s)" by simp
  from deleted_organisation_blocks_name[OF list_mongo_ok ix this _ del, of "user0 ''root'' ADMIN" None] del
  show ?thesis by (auto simp: org0_def user0_def)
qed

end
