(* ===== verification/Domain.thy ===== *)
theory Domain
  imports FileStore
begin

section \<open>Domains (\<open>domainCore.ts\<close>)\<close>

text \<open>
  The class \<open>DomainCore\<close>: the sub-sites of the portal, found by the host name of a request.
\<close>

definition getDomains ::
    "mongo \<Rightarrow> requester \<Rightarrow> string option \<Rightarrow> string option \<Rightarrow> string option \<Rightarrow> db \<Rightarrow> IDomain list result" where
  "getDomains M requester domainId domainName dpath s =
     (case requester of
        None \<Rightarrow> Inl (core_error NOT_LOGGED_IN)
      | Some req \<Rightarrow>
          if user_type req \<noteq> ADMIN then Inl (core_error NO_PERMISSION_ERROR)
          else Inr (find_many (domains_dr M) (domains_collection s)
                 (\<lambda>d. alive d \<and> (truthy domainId \<longrightarrow> Some (doc_id d) = domainId) \<and>
                    (truthy domainName \<longrightarrow> Some (domain_name d) = domainName) \<and>
                    (truthy dpath \<longrightarrow> Some (domainPath d) = dpath))))"

text \<open>
  \<open>getCurrentDomain\<close>, with the host name of the request: the pattern is built from it as it
  stands, and deleted domains are searched too.
\<close>

definition getCurrentDomain :: "env \<Rightarrow> mongo \<Rightarrow> string option \<Rightarrow> db \<Rightarrow> IDomain option result" where
  "getCurrentDomain E M hostname s =
     (if \<not> truthy hostname
      then Inl (CoreError CLIENT_ACTION_ON_NON_EXISTENT_ENTRY ''Domain does not exist.'')
      else (case RegExp_i E (''^'' @ the hostname @ ''$'') of
              None \<Rightarrow> Inl (JSError ''SyntaxError'')
            | Some test \<Rightarrow> Inr (findOne (domains_dr M) (domains_collection s) (\<lambda>d. test (domainPath d)))))"

definition createDomain ::
    "env \<Rightarrow> mongo \<Rightarrow> requester \<Rightarrow> string \<Rightarrow> string \<Rightarrow> FileUpload option \<Rightarrow> string option \<Rightarrow> db
     \<Rightarrow> IDomain result \<times> db" where
  "createDomain E M requester domainName dpath logoFile col s =
     (case requester of
        None \<Rightarrow> (Inl (core_error NOT_LOGGED_IN), s)
      | Some req \<Rightarrow>
          if user_type req \<noteq> ADMIN then (Inl (core_error NO_PERMISSION_ERROR), s)
          else if findOne (domains_dr M) (domains_collection s) (\<lambda>d. domainPath d = dpath \<and> alive d) \<noteq> None
          then (Inl (CoreError CLIENT_ACTION_ON_NON_EXISTENT_ENTRY ''Domain already exists.''), s)
          else
            (case upload_optional E M req None logoFile DOMAIN_FILE s of
               (Inl e, s1) \<Rightarrow> (Inl e, s1)
             | (Inr fileEntry, s1) \<Rightarrow>
                 (let (newId, s2) = uuid E s1;
                      (now, s3) = Date_now E s2;
                      entry = \<lparr>doc_id = newId, life = new_life now (doc_id req), metadata = [],
                        domainPath = dpath, domain_name = domainName,
                        logo = map_option doc_id fileEntry, color = col\<rparr>
                  in case insertOne (domains_dr M) (domains_collection s3) entry of
                       None \<Rightarrow> (Inl MongoServerError, s3)
                     | Some c \<Rightarrow> (Inr entry, s3\<lparr>domains_collection := c\<rparr>))))"

definition edit_domain_set ::
    "string option \<Rightarrow> string option \<Rightarrow> string option \<Rightarrow> IFile option \<Rightarrow> IDomain \<Rightarrow> IDomain" where
  "edit_domain_set domainName dpath col fileEntry d = d\<lparr>
     domainPath := (if truthy dpath then the dpath else domainPath d),
     domain_name := (if truthy domainName then the domainName else domain_name d),
     logo := (case fileEntry of None \<Rightarrow> logo d | Some f \<Rightarrow> Some (doc_id f)),
     color := (if truthy col then col else color d)\<rparr>"

definition editDomain ::
    "env \<Rightarrow> mongo \<Rightarrow> requester \<Rightarrow> string \<Rightarrow> string option \<Rightarrow> string option \<Rightarrow> FileUpload option
     \<Rightarrow> string option \<Rightarrow> db \<Rightarrow> IGenericResponse result \<times> db" where
  "editDomain E M requester domainId domainName dpath logoFile col s =
     (case requester of
        None \<Rightarrow> (Inl (core_error NOT_LOGGED_IN), s)
      | Some req \<Rightarrow>
          if user_type req \<noteq> ADMIN then (Inl (core_error NO_PERMISSION_ERROR), s)
          else
            (case findOne (domains_dr M) (domains_collection s) (\<lambda>d. doc_id d = domainId \<and> alive d) of
               None \<Rightarrow> (Inl (CoreError CLIENT_ACTION_ON_NON_EXISTENT_ENTRY ''Domain does not exist.''), s)
             | Some domain \<Rightarrow>
                 if truthy dpath \<and>
                    (case findOne (domains_dr M) (domains_collection s)
                            (\<lambda>d. Some (domainPath d) = dpath \<and> alive d) of
                       None \<Rightarrow> False
                     | Some d \<Rightarrow> doc_id d \<noteq> domainId)
                 then (Inl (CoreError CLIENT_MALFORMED_INPUT ''Domain path already exists.''), s)
                 else
                   (case upload_optional E M req None logoFile DOMAIN_FILE s of
                      (Inl e, s1) \<Rightarrow> (Inl e, s1)
                    | (Inr fileEntry, s1) \<Rightarrow>
                        (case updateOne (domains_dr M) (domains_collection s1)
                                (\<lambda>d. doc_id d = doc_id domain)
                                (edit_domain_set domainName dpath col fileEntry) of
                           None \<Rightarrow> (Inl MongoServerError, s1)
                         | Some (_, c) \<Rightarrow>
                             (Inr (makeGenericResponse (Some domainId) (Some True) None
                                (Some (''Domain '' @ domain_name domain @ '' has been updated''))),
                              s1\<lparr>domains_collection := c\<rparr>)))))"

definition deleteDomain ::
    "env \<Rightarrow> mongo \<Rightarrow> requester \<Rightarrow> string \<Rightarrow> db \<Rightarrow> IGenericResponse result \<times> db" where
  "deleteDomain E M requester domainId s =
     (case requester of
        None \<Rightarrow> (Inl (core_error NOT_LOGGED_IN), s)
      | Some req \<Rightarrow>
          if user_type req \<noteq> ADMIN then (Inl (core_error NO_PERMISSION_ERROR), s)
          else
            (case findOne (domains_dr M) (domains_collection s) (\<lambda>d. doc_id d = domainId \<and> alive d) of
               None \<Rightarrow> (Inl (CoreError CLIENT_ACTION_ON_NON_EXISTENT_ENTRY ''Domain does not exist.''), s)
             | Some domain \<Rightarrow>
                 (let (now, s1) = Date_now E s
                  in case updateOne (domains_dr M) (domains_collection s1) (\<lambda>d. doc_id d = doc_id domain)
                            (mark_deleted now (Uid (doc_id req))) of
                       None \<Rightarrow> (Inl MongoServerError, s1)
                     | Some (_, c) \<Rightarrow>
                         (let s2 = s1\<lparr>domains_collection := c\<rparr>;
                              resp = makeGenericResponse (Some domainId) (Some True) None
                                (Some (''Domain '' @ domain_name domain @ '' has been deleted''))
                          in if \<not> truthy (logo domain) then (Inr resp, s2)
                             else
                               (let (now2, s3) = Date_now E s2
                                in case updateOne (files_dr M) (files_collection s3)
                                          (\<lambda>f. Some (doc_id f) = logo domain)
                                          (mark_deleted now2 (Uid (doc_id req))) of
                                     None \<Rightarrow> (Inl MongoServerError, s3)
                                   | Some (_, c2) \<Rightarrow> (Inr resp, s3\<lparr>files_collection := c2\<rparr>))))))"

subsection \<open>What the operations do\<close>

lemma mark_deleted_domain [simp]:
  "domainPath (mark_deleted t u d) = domainPath d" "logo (mark_deleted t u d) = logo d"
  by (simp_all add: mark_deleted_def)

context mongo_db
begin

lemmas domain_key_inj = domains_store.key_inj

lemmas domain_findOne_unique = domains_store.findOne_unique

lemma domain_path_index: "(\<lambda>d. JStr (domainPath d)) \<in> set (indexes (domains_dr M))"
  using ok by (simp add: mongo_ok_def domains_indexes_def)

lemma deleteDomain_spec:
  assumes ix: "indexed (domains_dr M) (domains_collection s)" "indexed (files_dr M) (files_collection s)"
    and del: "deleteDomain E M (Some req) i s = (Inr resp, s')"
  shows "\<exists>d \<in> set (domains_collection s). doc_id d = i \<and> alive d \<and>
    set (domains_collection s') =
      insert (mark_deleted (clock E (tick s)) (Uid (doc_id req)) d) (set (domains_collection s) - {d}) \<and>
    (\<forall>f \<in> set (files_collection s'). Some (doc_id f) = logo d \<and> truthy (logo d) \<longrightarrow> \<not> alive f) \<and>
    {f \<in> set (files_collection s'). Some (doc_id f) \<noteq> logo d} =
      {f \<in> set (files_collection s). Some (doc_id f) \<noteq> logo d}"
proof -
  let ?f = "mark_deleted (clock E (tick s)) (Uid (doc_id req)) :: IDomain \<Rightarrow> IDomain"
  let ?g = "mark_deleted (clock E (Suc (tick s))) (Uid (doc_id req)) :: IFile \<Rightarrow> IFile"
  from del obtain d r c where c: "findOne (domains_dr M) (domains_collection s)
      (\<lambda>d. doc_id d = i \<and> alive d) = Some d"
    "updateOne (domains_dr M) (domains_collection s) (\<lambda>e. doc_id e = doc_id d) ?f = Some (r, c)"
    and rest: "domains_collection s' = c \<and>
      (\<not> truthy (logo d) \<and> files_collection s' = files_collection s \<or>
       truthy (logo d) \<and> (\<exists>r2. updateOne (files_dr M) (files_collection s)
         (\<lambda>f. Some (doc_id f) = logo d) ?g = Some (r2, files_collection s')))"
    by (auto simp: deleteDomain_def Date_now_def Let_def split: if_splits option.splits)
  from domains_store.findOne_Some[OF c(1)] have d: "d \<in> set (domains_collection s)"
    "doc_id d = i" "alive d" by auto
  have "set c = apply_where (\<lambda>e. doc_id e = doc_id d) ?f ` set (domains_collection s)"
    by (rule domains_store.updateOne_key[OF ix(1) c(2)])
  also have "\<dots> = insert (?f d) (set (domains_collection s) - {d})"
    by (rule image_apply_single) (use d domains_store.key_inj[OF ix(1)] in auto)
  finally have 1: "set (domains_collection s') = insert (?f d) (set (domains_collection s) - {d})"
    using rest by simp
  have 2: "set (files_collection s') = (if truthy (logo d)
      then apply_where (\<lambda>f. Some (doc_id f) = logo d) ?g ` set (files_collection s)
      else set (files_collection s))"
  proof (cases "truthy (logo d)")
    case True
    then obtain l where l: "logo d = Some l" by (auto simp: truthy_iff)
    from rest True obtain r2 where up: "updateOne (files_dr M) (files_collection s)
        (\<lambda>f. Some (doc_id f) = logo d) ?g = Some (r2, files_collection s')" by blast
    show ?thesis
      using files_store.updateOne_keyed[OF ix(2) up, of l] l True by auto
  qed (use rest in simp)
  have 3: "\<not> alive f" if "f \<in> set (files_collection s')" "Some (doc_id f) = logo d \<and> truthy (logo d)" for f
  proof -
    from that 2 obtain f0 where "f = apply_where (\<lambda>f. Some (doc_id f) = logo d) ?g f0" by auto
    with that(2) show ?thesis by (simp add: apply_where_def split: if_splits)
  qed
  have 4: "{f \<in> set (files_collection s'). Some (doc_id f) \<noteq> logo d} =
      {f \<in> set (files_collection s). Some (doc_id f) \<noteq> logo d}"
    unfolding 2 by (auto simp: apply_where_def image_iff split: if_splits)
  show ?thesis by (rule bexI[OF _ d(1)]) (use d 1 3 4 in blast)
qed

end

subsection \<open>Properties\<close>

definition domain0 :: "string \<Rightarrow> IDomain" where
  "domain0 p = \<lparr>doc_id = p, life = life0, metadata = [], domainPath = p, domain_name = p,
     logo = Some ''f'', color = None\<rparr>"

definition env_host :: env where
  "env_host = env0\<lparr>RegExp_i := (\<lambda>re. Some (\<lambda>v. re = ''^'' @ v @ ''$''))\<rparr>"

text \<open>
  Deleting a domain marks the domain and its logo file, and no other, as deleted; but a
  request to that host is still answered with the deleted domain.
\<close>

theorem deleteDomain_still_served:
  assumes "mongo_ok M" and "indexed (domains_dr M) (domains_collection s)"
    and "indexed (files_dr M) (files_collection s)"
    and "d \<in> set (domains_collection s)" and "domainPath d \<noteq> []"
    and "RegExp_i E (''^'' @ domainPath d @ ''$'') = Some test" and "test (domainPath d)"
    and "\<forall>e \<in> set (domains_collection s). test (domainPath e) \<longrightarrow> e = d"
    and "deleteDomain E M (Some req) (doc_id d) s = (Inr resp, s')"
  shows "(\<forall>f \<in> set (files_collection s'). Some (doc_id f) = logo d \<and> truthy (logo d) \<longrightarrow> \<not> alive f) \<and>
    {f \<in> set (files_collection s'). Some (doc_id f) \<noteq> logo d} =
      {f \<in> set (files_collection s). Some (doc_id f) \<noteq> logo d} \<and>
    (\<exists>d'. getCurrentDomain E M (Some (domainPath d)) s' = Inr (Some d') \<and> doc_id d' = doc_id d \<and> \<not> alive d')"
proof -
  note db = mongo_db.intro[OF assms(1)]
  let ?f = "mark_deleted (clock E (tick s)) (Uid (doc_id req)) :: IDomain \<Rightarrow> IDomain"
  have keys: "e = d" if "e \<in> set (domains_collection s)" "doc_id e = doc_id d" for e
    using mongo_db.domain_key_inj[OF db assms(2) that(1) assms(4) that(2)] .
  from mongo_db.deleteDomain_spec[OF db assms(2,3,9)] keys have
    s': "set (domains_collection s') = insert (?f d) (set (domains_collection s) - {d})"
    "\<forall>f \<in> set (files_collection s'). Some (doc_id f) = logo d \<and> truthy (logo d) \<longrightarrow> \<not> alive f"
    "{f \<in> set (files_collection s'). Some (doc_id f) \<noteq> logo d} =
      {f \<in> set (files_collection s). Some (doc_id f) \<noteq> logo d}"
    by blast+
  have "findOne (domains_dr M) (domains_collection s') (\<lambda>d. test (domainPath d)) = Some (?f d)"
    by (rule mongo_db.domain_findOne_unique[OF db]) (use s'(1) assms(7,8) in auto)
  then have "getCurrentDomain E M (Some (domainPath d)) s' = Inr (Some (?f d))"
    using assms(5,6) by (simp add: getCurrentDomain_def)
  with s'(2,3) show ?thesis by (metis mark_deleted_dead mark_deleted_id)
qed

theorem deleteDomain_still_served_witness:
  "\<exists>resp s' d'. deleteDomain env_host list_mongo (Some (user0 ''root'' ADMIN)) ''a.org''
      (db0\<lparr>domains_collection := [domain0 ''a.org'', domain0 ''b.org''], files_collection := [file0 ''f'' ''u'' 8]\<rparr>)
      = (Inr resp, s') \<and>
    getCurrentDomain env_host list_mongo (Some ''a.org'') s' = Inr (Some d') \<and> \<not> alive d'"
proof -
  let ?s = "db0\<lparr>domains_collection := [domain0 ''a.org'', domain0 ''b.org''], files_collection := [file0 ''f'' ''u'' 8]\<rparr>"
  let ?d = "domain0 ''a.org''"
  have "\<exists>resp s'. deleteDomain env_host list_mongo (Some (user0 ''root'' ADMIN)) (doc_id ?d) ?s = (Inr resp, s')"
    by (simp add: deleteDomain_def Date_now_def Let_def list_mongo_def list_driver_simps alive_def
        domains_indexes_def files_indexes_def domain0_def file0_def user0_def life0_def new_life_def mark_deleted_def)
  then obtain resp s' where del: "deleteDomain env_host list_mongo (Some (user0 ''root'' ADMIN)) (doc_id ?d) ?s =
      (Inr resp, s')" by blast
  have ix: "indexed (domains_dr list_mongo) (domains_collection ?s)"
    "indexed (files_dr list_mongo) (files_collection ?s)"
    by (simp_all add: indexed_def list_mongo_def domains_indexes_def files_indexes_def domain0_def)
  have re: "RegExp_i env_host (''^'' @ domainPath ?d @ ''$'') =
      Some (\<lambda>v. ''^'' @ domainPath ?d @ ''$'' = ''^'' @ v @ ''$'')"
    by (simp add: env_host_def)
  have "?d \<in> set (domains_collection ?s)" by simp
  from deleteDomain_still_served[OF list_mongo_ok ix this _ re _ _ del] del
  show ?thesis by (auto simp: domain0_def)
qed

end
