(* ===== verification/Study.thy ===== *)
theory Study
  imports Permission FileStore
begin

section \<open>Studies and data versions (\<open>studyCore.ts\<close>)\<close>

text \<open>
  The class \<open>StudyCore\<close>: listing, creating, editing and deleting studies, and the versions of a
  study's data. A new version stamps the data and fields that have none yet; the study keeps its
  versions in a list and the index of the current one, $-1$ before the first.
\<close>

subsection \<open>Listing\<close>

definition getStudies :: "mongo \<Rightarrow> requester \<Rightarrow> string option \<Rightarrow> db \<Rightarrow> IStudy list result" where
  "getStudies M requester studyId s =
     (case requester of
        None \<Rightarrow> Inl (core_error NOT_LOGGED_IN)
      | Some req \<Rightarrow>
          (let no_access = CoreError NO_PERMISSION_ERROR ''No permission to access the study.'';
               studies =
                 (if user_type req = ADMIN
                  then Inr (find_many (studies_dr M) (studies_collection s)
                         (\<lambda>d. alive d \<and> (truthy studyId \<longrightarrow> Some (doc_id d) = studyId)))
                  else
                    (case getRolesOfUser M s requester (doc_id req) None of
                       Inl e \<Rightarrow> Inl e
                     | Inr roles \<Rightarrow>
                         (let roleStudyIds = map role_studyId roles
                          in if truthy studyId \<and> the studyId \<notin> set roleStudyIds then Inl no_access
                             else Inr (find_many (studies_dr M) (studies_collection s)
                                    (\<lambda>d. alive d \<and> (if truthy studyId then Some (doc_id d) = studyId
                                                    else doc_id d \<in> set roleStudyIds))))))
           in case studies of
                Inl e \<Rightarrow> Inl e
              | Inr ds \<Rightarrow> if ds = [] \<and> truthy studyId then Inl no_access else Inr ds))"

subsection \<open>Creating and editing\<close>

text \<open>The last part of \<open>createStudy\<close>: the study is stored already.\<close>

definition createStudy_profile ::
    "env \<Rightarrow> mongo \<Rightarrow> IUserWithoutToken \<Rightarrow> IStudy \<Rightarrow> FileUpload option \<Rightarrow> db \<Rightarrow> IStudy result \<times> db" where
  "createStudy_profile E M req studyEntry profile s =
     (case profile of
        None \<Rightarrow> (Inr studyEntry, s)
      | Some fu \<Rightarrow>
     (case upload_by_extension E M req (Some (doc_id studyEntry)) fu PROFILE_FILE s of
        (Inl e, s1) \<Rightarrow> (Inl e, s1)
      | (Inr fileEntry, s1) \<Rightarrow>
     (case updateOne (studies_dr M) (studies_collection s1) (\<lambda>d. doc_id d = doc_id studyEntry)
             (\<lambda>d. d\<lparr>study_profile := Some (doc_id fileEntry)\<rparr>) of
        None \<Rightarrow> (Inl MongoServerError, s1)
      | Some (_, c) \<Rightarrow>
          (Inr (studyEntry\<lparr>study_profile := Some (doc_id fileEntry)\<rparr>), s1\<lparr>studies_collection := c\<rparr>))))"

definition createStudy ::
    "env \<Rightarrow> mongo \<Rightarrow> requester \<Rightarrow> string \<Rightarrow> string option \<Rightarrow> FileUpload option \<Rightarrow> db
     \<Rightarrow> IStudy result \<times> db" where
  "createStudy E M requester studyName description profile s =
     (case requester of
        None \<Rightarrow> (Inl (core_error NOT_LOGGED_IN), s)
      | Some req \<Rightarrow>
     if user_type req \<noteq> ADMIN
     then (Inl (CoreError NO_PERMISSION_ERROR ''Only admin can create a study.''), s)
     else
     (let (studyId, s1) = uuid E s in
      case RegExp_i E (''^'' @ studyName @ ''$'') of
        None \<Rightarrow> (Inl (JSError ''SyntaxError''), s1)
      | Some test \<Rightarrow>
     if findOne (studies_dr M) (studies_collection s1) (\<lambda>d. test (study_name d) \<and> alive d) \<noteq> None
     then (Inl (CoreError CLIENT_MALFORMED_INPUT ''Study name already used.''), s1)
     else
     (let (now, s2) = Date_now E s1;
          studyEntry = \<lparr>doc_id = studyId, life = new_life now (doc_id req), metadata = [],
            study_name = studyName, currentDataVersion = -1, dataVersions = [],
            study_description = Some (nullish description ''''), study_profile = None, isPublic = False\<rparr>;
          (configId, s3) = uuid E s2;
          (propertiesId, s4) = uuid E s3;
          (now2, s5) = Date_now E s4;
          (now3, s6) = Date_now E s5;
          config = \<lparr>doc_id = configId, life = new_life now3 (doc_id req), metadata = [],
            config_type = STUDYCONFIG, config_key = Some studyId,
            properties = StudyProps default_studyConfig\<rparr>
      in case insertOne (configs_dr M) (configs_collection s6) config of
        None \<Rightarrow> (Inl MongoServerError, s6)
      | Some cc \<Rightarrow>
     (let s7 = s6\<lparr>configs_collection := cc\<rparr> in
      case insertOne (studies_dr M) (studies_collection s7) studyEntry of
        None \<Rightarrow> (Inl MongoServerError, s7)
      | Some sc \<Rightarrow>
     createStudy_profile E M req studyEntry profile (s7\<lparr>studies_collection := sc\<rparr>)))))"

text \<open>The guard of the operations on one study.\<close>

definition no_study_manager :: "mongo \<Rightarrow> db \<Rightarrow> IUserWithoutToken \<Rightarrow> string option \<Rightarrow> bool result" where
  "no_study_manager M s req studyId =
     (case getRolesOfUser M s (Some req) (doc_id req) studyId of
        Inl e \<Rightarrow> Inl e
      | Inr roles \<Rightarrow> Inr (user_type req \<noteq> ADMIN \<and> STUDY_MANAGER \<notin> set (map studyRole roles)))"

definition find_study :: "mongo \<Rightarrow> db \<Rightarrow> string \<Rightarrow> IStudy option" where
  "find_study M s studyId =
     findOne (studies_dr M) (studies_collection s) (\<lambda>d. doc_id d = studyId \<and> alive d)"

definition edit_study_set ::
    "string option \<Rightarrow> string option \<Rightarrow> string option option \<Rightarrow> IStudy \<Rightarrow> IStudy" where
  "edit_study_set name description newProfile d = d\<lparr>
     study_name := (if truthy name then the name else study_name d),
     study_description := (if truthy description then description else study_description d),
     study_profile := (case newProfile of None \<Rightarrow> study_profile d | Some p \<Rightarrow> p)\<rparr>"

text \<open>The \<open>try\<close> block: a profile that cannot be stored is replaced by the old one.\<close>

definition study_profile_upload ::
    "env \<Rightarrow> mongo \<Rightarrow> IUserWithoutToken \<Rightarrow> IStudy \<Rightarrow> FileUpload option \<Rightarrow> db \<Rightarrow> string option option \<times> db" where
  "study_profile_upload E M req study profile s =
     (case profile of
        None \<Rightarrow> (None, s)
      | Some fu \<Rightarrow>
          (case upload_by_extension E M req (Some (doc_id study)) fu PROFILE_FILE s of
             (Inl _, s1) \<Rightarrow> (Some (study_profile study), s1)
           | (Inr f, s1) \<Rightarrow> (Some (Some (doc_id f)), s1)))"

definition editStudy ::
    "env \<Rightarrow> mongo \<Rightarrow> requester \<Rightarrow> string \<Rightarrow> string option \<Rightarrow> string option \<Rightarrow> FileUpload option \<Rightarrow> db
     \<Rightarrow> IStudy option result \<times> db" where
  "editStudy E M requester studyId name description profile s =
     (case requester of
        None \<Rightarrow> (Inl (core_error NOT_LOGGED_IN), s)
      | Some req \<Rightarrow>
     (case no_study_manager M s req (Some studyId) of
        Inl e \<Rightarrow> (Inl e, s)
      | Inr True \<Rightarrow>
          (Inl (CoreError NO_PERMISSION_ERROR ''Only admin or study manager can edit a study.''), s)
      | Inr False \<Rightarrow>
     (case find_study M s studyId of
        None \<Rightarrow> (Inl (CoreError CLIENT_ACTION_ON_NON_EXISTENT_ENTRY ''Study does not exist.''), s)
      | Some study \<Rightarrow>
     (let (newProfile, s1) = study_profile_upload E M req study profile s in
      if truthy name \<and> name \<noteq> Some (study_name study) \<and>
         findOne (studies_dr M) (studies_collection s1) (\<lambda>d. Some (study_name d) = name \<and> alive d) \<noteq> None
      then (Inl (CoreError CLIENT_MALFORMED_INPUT ''Study name already used.''), s1)
      else
        (let f = edit_study_set name description newProfile
         in case updateOne (studies_dr M) (studies_collection s1) (\<lambda>d. doc_id d = studyId) f of
              None \<Rightarrow> (Inl MongoServerError, s1)
            | Some (r, c) \<Rightarrow> (Inr (map_option f r), s1\<lparr>studies_collection := c\<rparr>))))))"

definition editStudyVisibility ::
    "mongo \<Rightarrow> requester \<Rightarrow> string \<Rightarrow> bool \<Rightarrow> db \<Rightarrow> IStudy option result \<times> db" where
  "editStudyVisibility M requester studyId public s =
     (case requester of
        None \<Rightarrow> (Inl (core_error NOT_LOGGED_IN), s)
      | Some req \<Rightarrow>
     (case no_study_manager M s req (Some studyId) of
        Inl e \<Rightarrow> (Inl e, s)
      | Inr True \<Rightarrow>
          (Inl (CoreError NO_PERMISSION_ERROR
             ''Only admin or study manager can change study visibility.''), s)
      | Inr False \<Rightarrow>
     (case find_study M s studyId of
        None \<Rightarrow> (Inl (CoreError CLIENT_ACTION_ON_NON_EXISTENT_ENTRY ''Study does not exist.''), s)
      | Some _ \<Rightarrow>
     (let f = (\<lambda>d. d\<lparr>isPublic := public\<rparr>)
      in case updateOne (studies_dr M) (studies_collection s) (\<lambda>d. doc_id d = studyId) f of
           None \<Rightarrow> (Inl MongoServerError, s)
         | Some (r, c) \<Rightarrow> (Inr (map_option f r), s\<lparr>studies_collection := c\<rparr>)))))"

subsection \<open>Deleting\<close>

text \<open>
  The deleting user is stored as the whole user object. The five updates are made one after the
  other, so a failing one leaves the earlier ones made.
\<close>

definition deleteStudy ::
    "env \<Rightarrow> mongo \<Rightarrow> requester \<Rightarrow> string \<Rightarrow> db \<Rightarrow> IGenericResponse result \<times> db" where
  "deleteStudy E M requester studyId s =
     (case requester of
        None \<Rightarrow> (Inl (core_error NOT_LOGGED_IN), s)
      | Some req \<Rightarrow>
     if user_type req \<noteq> ADMIN
     then (Inl (CoreError NO_PERMISSION_ERROR ''Only admin can delete a study.''), s)
     else
     (case find_study M s studyId of
        None \<Rightarrow> (Inl (CoreError CLIENT_ACTION_ON_NON_EXISTENT_ENTRY ''Study does not exist.''), s)
      | Some study \<Rightarrow>
     (let (timestamp, s1) = Date_now E s in
      case updateOne (studies_dr M) (studies_collection s1) (\<lambda>d. doc_id d = studyId \<and> alive d)
             (mark_deleted timestamp (UserDoc (doc_id req))) of
        None \<Rightarrow> (Inl MongoServerError, s1)
      | Some (_, c1) \<Rightarrow>
     (let s2 = s1\<lparr>studies_collection := c1\<rparr>;
          (ok2, c2) = updateMany (files_dr M) (files_collection s2)
            (\<lambda>d. file_studyId d = Some studyId \<and> alive d) (mark_deleted timestamp (UserDoc (doc_id req)));
          s3 = s2\<lparr>files_collection := c2\<rparr>
      in if \<not> ok2 then (Inl MongoServerError, s3) else
     (let (ok3, c3) = updateMany (field_dictionary_dr M) (field_dictionary_collection s3)
            (\<lambda>d. field_studyId d = studyId \<and> alive d) (mark_deleted timestamp (UserDoc (doc_id req)));
          s4 = s3\<lparr>field_dictionary_collection := c3\<rparr>
      in if \<not> ok3 then (Inl MongoServerError, s4) else
     (let (ok4, c4) = updateMany (data_dr M) (data_collection s4)
            (\<lambda>d. data_studyId d = studyId \<and> alive d) (mark_deleted timestamp (UserDoc (doc_id req)));
          s5 = s4\<lparr>data_collection := c4\<rparr>
      in if \<not> ok4 then (Inl MongoServerError, s5) else
     (let (ok5, c5) = updateMany (configs_dr M) (configs_collection s5)
            (\<lambda>d. config_type d = STUDYCONFIG \<and> config_key d = Some studyId \<and> alive d)
            (mark_deleted timestamp (UserDoc (doc_id req)));
          s6 = s5\<lparr>configs_collection := c5\<rparr>
      in if \<not> ok5 then (Inl MongoServerError, s6)
         else (Inr (makeGenericResponse (Some studyId) (Some True) None
                 (Some (''Study '' @ study_name study @ '' has been deleted.''))), s6))))))))"

subsection \<open>Data versions\<close>

text \<open>
  The copy to cold storage: one upsert per stamped data document, in unordered bulks of 1000. An
  upsert updates the documents that match and inserts one where none does; an unordered bulk makes
  all its operations and then throws if one of them failed.
\<close>

definition cold_set :: "string \<Rightarrow> jsval \<Rightarrow> string \<Rightarrow> int \<Rightarrow> string \<Rightarrow> IData \<Rightarrow> IData" where
  "cold_set newId v versionId now user d = d\<lparr>doc_id := newId, data_value := v,
     data_dataVersion := Some versionId, life := new_life now user, metadata := []\<rparr>"

definition upsert_cold ::
    "env \<Rightarrow> mongo \<Rightarrow> string \<Rightarrow> string \<Rightarrow> string \<Rightarrow> IData \<Rightarrow> db \<Rightarrow> bool \<times> db" where
  "upsert_cold E M studyId versionId user doc s =
     (let (newId, s1) = uuid E s;
          (now, s2) = Date_now E s1;
          q = (\<lambda>d. data_studyId d = studyId \<and> data_fieldId d = data_fieldId doc \<and>
                   data_properties d = data_properties doc);
          f = cold_set newId (data_value doc) versionId now user
      in if findOne (colddata_dr M) (colddata_collection s2) q = None
         then (case insertOne (colddata_dr M) (colddata_collection s2)
                      (f \<lparr>doc_id = newId, life = new_life now user, metadata = [],
                          data_studyId = studyId, data_fieldId = data_fieldId doc,
                          data_dataVersion = Some versionId, data_value = data_value doc,
                          data_properties = data_properties doc\<rparr>) of
                 None \<Rightarrow> (False, s2)
               | Some c \<Rightarrow> (True, s2\<lparr>colddata_collection := c\<rparr>))
         else (let (ok, c) = updateMany (colddata_dr M) (colddata_collection s2) q f
               in (ok, s2\<lparr>colddata_collection := c\<rparr>)))"

fun cold_bulk ::
    "env \<Rightarrow> mongo \<Rightarrow> string \<Rightarrow> string \<Rightarrow> string \<Rightarrow> IData list \<Rightarrow> db \<Rightarrow> bool \<times> db" where
  "cold_bulk E M studyId versionId user [] s = (True, s)"
| "cold_bulk E M studyId versionId user (doc # docs) s =
     (let (ok, s1) = upsert_cold E M studyId versionId user doc s;
          (oks, s2) = cold_bulk E M studyId versionId user docs s1
      in (ok \<and> oks, s2))"

function sync_cold ::
    "env \<Rightarrow> mongo \<Rightarrow> string \<Rightarrow> string \<Rightarrow> string \<Rightarrow> IData list \<Rightarrow> db \<Rightarrow> bool \<times> db" where
  "sync_cold E M studyId versionId user docs s =
     (if docs = [] then (True, s)
      else (case cold_bulk E M studyId versionId user (take 1000 docs) s of
              (False, s1) \<Rightarrow> (False, s1)
            | (True, s1) \<Rightarrow> sync_cold E M studyId versionId user (drop 1000 docs) s1))"
  by pat_completeness auto

termination by (relation "measure (\<lambda>(_, _, _, _, _, docs, _). length docs)") auto

declare sync_cold.simps [simp del]

text \<open>The three stamping updates, with the counts of modified documents.\<close>

definition stamp_version ::
    "mongo \<Rightarrow> string \<Rightarrow> string \<Rightarrow> db \<Rightarrow> (nat \<times> nat) result \<times> db" where
  "stamp_version M studyId versionId s =
     (let q = (\<lambda>d. data_studyId d = studyId \<and> data_dataVersion d = None);
          resData = length (find_many (data_dr M) (data_collection s) q);
          (ok1, c1) = updateMany (data_dr M) (data_collection s) q
                        (\<lambda>d. d\<lparr>data_dataVersion := Some versionId\<rparr>);
          s1 = s\<lparr>data_collection := c1\<rparr>
      in if \<not> ok1 then (Inl MongoServerError, s1) else
     (let q' = (\<lambda>d. field_studyId d = studyId \<and> field_dataVersion d = None);
          resField = length (find_many (field_dictionary_dr M) (field_dictionary_collection s1) q');
          (ok2, c2) = updateMany (field_dictionary_dr M) (field_dictionary_collection s1) q'
                        (\<lambda>d. d\<lparr>field_dataVersion := Some versionId\<rparr>);
          s2 = s1\<lparr>field_dictionary_collection := c2\<rparr>
      in if \<not> ok2 then (Inl MongoServerError, s2) else
     (let (ok3, c3) = updateMany (cache_dr M) (cache_collection s2)
                        (\<lambda>d. js_get (cache_keys d) ''studyId'' = JStr studyId)
                        (\<lambda>d. d\<lparr>cache_status := OUTDATED\<rparr>);
          s3 = s2\<lparr>cache_collection := c3\<rparr>
      in if \<not> ok3 then (Inl MongoServerError, s3) else (Inr (resData, resField), s3))))"

definition push_version :: "IStudyDataVersion \<Rightarrow> IStudy \<Rightarrow> IStudy" where
  "push_version v d = d\<lparr>dataVersions := dataVersions d @ [v], currentDataVersion := currentDataVersion d + 1\<rparr>"

text \<open>The roles are those of the requester in any study.\<close>

definition createDataVersion ::
    "env \<Rightarrow> mongo \<Rightarrow> requester \<Rightarrow> string \<Rightarrow> string \<Rightarrow> string \<Rightarrow> bool option \<Rightarrow> db
     \<Rightarrow> IStudyDataVersion result \<times> db" where
  "createDataVersion E M requester studyId tag dataVersion syncCold s =
     (case requester of
        None \<Rightarrow> (Inl (core_error NOT_LOGGED_IN), s)
      | Some req \<Rightarrow>
     (case no_study_manager M s req None of
        Inl e \<Rightarrow> (Inl e, s)
      | Inr True \<Rightarrow>
          (Inl (CoreError NO_PERMISSION_ERROR ''Only admin or study manager can create a study version.''), s)
      | Inr False \<Rightarrow>
     (case find_study M s studyId of
        None \<Rightarrow> (Inl (CoreError CLIENT_ACTION_ON_NON_EXISTENT_ENTRY ''Study does not exist.''), s)
      | Some study \<Rightarrow>
     if \<not> matches_decimal dataVersion
     then (Inl (CoreError CLIENT_MALFORMED_INPUT ''Version must be a float number.''), s)
     else if dataVersion \<in> set (map version (dataVersions study))
     then (Inl (CoreError CLIENT_MALFORMED_INPUT ''Version has been used.''), s)
     else
     (let (newDataVersionId, s1) = uuid E s in
      case stamp_version M studyId newDataVersionId s1 of
        (Inl e, s2) \<Rightarrow> (Inl e, s2)
      | (Inr (resData, resField), s2) \<Rightarrow>
     (let (ok, s3) = (if syncCold = Some True
             then sync_cold E M studyId newDataVersionId (doc_id req)
                    (find_many (data_dr M) (data_collection s2)
                       (\<lambda>d. data_studyId d = studyId \<and> data_dataVersion d = Some newDataVersionId)) s2
             else (True, s2))
      in if \<not> ok then (Inl MongoServerError, s3) else
     (let (now, s4) = Date_now E s3;
          newDataVersion = \<lparr>doc_id = newDataVersionId, life = new_life now (doc_id req), metadata = [],
            version = dataVersion, version_tag = Some tag\<rparr>
      in case updateOne (studies_dr M) (studies_collection s4) (\<lambda>d. doc_id d = studyId)
                (push_version newDataVersion) of
           None \<Rightarrow> (Inl MongoServerError, s4)
         | Some (_, c) \<Rightarrow>
             (if resData = 0 \<and> resField = 0
              then Inl (CoreError UNQUALIFIED_ERROR ''Nothing to update.'') else Inr newDataVersion,
              s4\<lparr>studies_collection := c\<rparr>)))))))"

text \<open>\<open>indexOf\<close>, $-1$ where the value does not occur.\<close>

fun indexOf :: "'a list \<Rightarrow> 'a \<Rightarrow> int" where
  "indexOf [] x = -1"
| "indexOf (y # ys) x = (if y = x then 0 else (let i = indexOf ys x in if i = -1 then -1 else i + 1))"

definition setDataversionAsCurrent ::
    "mongo \<Rightarrow> requester \<Rightarrow> string \<Rightarrow> string \<Rightarrow> db \<Rightarrow> IGenericResponse result \<times> db" where
  "setDataversionAsCurrent M requester studyId dataVersionId s =
     (case requester of
        None \<Rightarrow> (Inl (core_error NOT_LOGGED_IN), s)
      | Some req \<Rightarrow>
     (case no_study_manager M s req None of
        Inl e \<Rightarrow> (Inl e, s)
      | Inr True \<Rightarrow>
          (Inl (CoreError NO_PERMISSION_ERROR ''Only admin or study manager can set a study version.''), s)
      | Inr False \<Rightarrow>
     (case find_study M s studyId of
        None \<Rightarrow> (Inl (CoreError CLIENT_ACTION_ON_NON_EXISTENT_ENTRY ''Study does not exist.''), s)
      | Some study \<Rightarrow>
     if length (filter (\<lambda>el. doc_id el = dataVersionId) (dataVersions study)) \<noteq> 1
     then (Inl (CoreError CLIENT_MALFORMED_INPUT ''Data version does not exist.''), s)
     else
       (case updateOne (studies_dr M) (studies_collection s) (\<lambda>d. doc_id d = studyId)
               (\<lambda>d. d\<lparr>currentDataVersion := indexOf (map doc_id (dataVersions study)) dataVersionId\<rparr>) of
          None \<Rightarrow> (Inl MongoServerError, s)
        | Some (_, c) \<Rightarrow>
            (Inr (makeGenericResponse (Some studyId) (Some True) None
               (Some (''Data version '' @ dataVersionId @ '' has been set as the current version of study '' @
                      study_name study @ ''.''))),
             s\<lparr>studies_collection := c\<rparr>)))))"

end
