(* ===== verification/StudyVersions.thy ===== *)
theory StudyVersions
  imports Study
begin

section \<open>Studies: invariant and operations\<close>

text \<open>
  The version list of a study as a state machine: every operation of theory \<open>Study\<close> keeps the
  index of the current version inside the list and the version numbers distinct decimals, errors
  included. Then what creating a version and deleting a study do to the other collections.
\<close>

subsection \<open>The version invariant\<close>

definition study_ok :: "IStudy \<Rightarrow> bool" where
  "study_ok d \<longleftrightarrow> -1 \<le> currentDataVersion d \<and> currentDataVersion d < int (length (dataVersions d)) \<and>
     distinct (map version (dataVersions d)) \<and> (\<forall>v \<in> set (dataVersions d). matches_decimal (version v))"

definition studies_ok :: "mongo \<Rightarrow> db \<Rightarrow> bool" where
  "studies_ok M s \<longleftrightarrow> indexed (studies_dr M) (studies_collection s) \<and>
     (\<forall>d \<in> set (studies_collection s). study_ok d)"

text \<open>
  The steps of the state machine: any call of an operation, by anyone, with any arguments and any
  outcome, and any step of another component, which leaves the studies alone.
\<close>

inductive study_step :: "env \<Rightarrow> mongo \<Rightarrow> db \<Rightarrow> db \<Rightarrow> bool" for E M where
  create: "study_step E M s (snd (createStudy E M req n d p s))"
| edit: "study_step E M s (snd (editStudy E M req i n' d p s))"
| visibility: "study_step E M s (snd (editStudyVisibility M req i b s))"
| delete: "study_step E M s (snd (deleteStudy E M req i s))"
| new_version: "study_step E M s (snd (createDataVersion E M req i t v cold s))"
| set_current: "study_step E M s (snd (setDataversionAsCurrent M req i v s))"
| other: "studies_collection s' = studies_collection s \<Longrightarrow> study_step E M s s'"

lemma studies_ok_cong: "studies_collection s' = studies_collection s \<Longrightarrow> studies_ok M s' = studies_ok M s"
  by (simp add: studies_ok_def)

lemma study_ok_fields:
  "currentDataVersion (f d) = currentDataVersion d \<Longrightarrow> dataVersions (f d) = dataVersions d \<Longrightarrow>
     study_ok (f d) = study_ok d"
  by (simp add: study_ok_def)

lemma indexOf_range: "-1 \<le> indexOf xs x" "indexOf xs x < int (length xs)"
  by (induction xs) (auto simp: Let_def)

lemma mark_deleted_study [simp]: "study_ok (mark_deleted t u d) = study_ok d"
  by (simp add: study_ok_def mark_deleted_def)

lemma stamp_version_frame:
  "stamp_version M i v s = (r, s') \<Longrightarrow> studies_collection s' = studies_collection s"
  by (auto simp: stamp_version_def Let_def split: prod.splits if_splits)

definition same_data :: "db \<Rightarrow> db \<Rightarrow> bool" where
  "same_data s s' \<longleftrightarrow> studies_collection s' = studies_collection s \<and>
     data_collection s' = data_collection s \<and>
     field_dictionary_collection s' = field_dictionary_collection s"

lemma upsert_cold_frame: "upsert_cold E M i v u doc s = (r, s') \<Longrightarrow> same_data s s'"
  by (auto simp: same_data_def upsert_cold_def uuid_def Date_now_def Let_def
      split: prod.splits if_splits option.splits)

lemma same_data_trans: "same_data a b \<Longrightarrow> same_data b c \<Longrightarrow> same_data a c"
  by (simp add: same_data_def)

lemma cold_bulk_frame: "cold_bulk E M i v u docs s = (r, s') \<Longrightarrow> same_data s s'"
proof (induction docs arbitrary: s r s')
  case Nil
  then show ?case by (simp add: same_data_def)
next
  case (Cons doc docs)
  obtain ok s1 where 1: "upsert_cold E M i v u doc s = (ok, s1)" by fastforce
  obtain oks s2 where 2: "cold_bulk E M i v u docs s1 = (oks, s2)" by fastforce
  from Cons.prems 1 2 have "s' = s2" by (simp add: Let_def)
  with same_data_trans[OF upsert_cold_frame[OF 1] Cons.IH[OF 2]] show ?case by simp
qed

lemma sync_cold_frame: "same_data s (snd (sync_cold E M i v u docs s))"
proof (induction E M i v u docs s rule: sync_cold.induct)
  case (1 E M i v u docs s)
  show ?case
  proof (cases "docs = []")
    case True
    then show ?thesis by (simp add: sync_cold.simps same_data_def)
  next
    case False
    obtain ok s1 where b: "cold_bulk E M i v u (take 1000 docs) s = (ok, s1)" by fastforce
    show ?thesis
    proof (cases ok)
      case True
      with False b have "sync_cold E M i v u docs s = sync_cold E M i v u (drop 1000 docs) s1"
        by (subst sync_cold.simps) simp
      moreover have "same_data s1 (snd (sync_cold E M i v u (drop 1000 docs) s1))"
        by (rule "1"[OF False b[symmetric]]) (simp add: True)
      ultimately show ?thesis using same_data_trans[OF cold_bulk_frame[OF b]] by simp
    next
      case False
      with \<open>docs \<noteq> []\<close> b have "sync_cold E M i v u docs s = (False, s1)"
        by (subst sync_cold.simps) simp
      then show ?thesis using cold_bulk_frame[OF b] by simp
    qed
  qed
qed

context mongo_db
begin

lemma update_studies_ok:
  assumes "studies_ok M s" and "studies_collection s1 = studies_collection s"
    and up: "updateOne (studies_dr M) (studies_collection s1) q f = Some (r, c)"
    and f: "\<And>d. d \<in> set (studies_collection s) \<Longrightarrow> q d \<Longrightarrow> study_ok (f d)"
  shows "studies_ok M (s1\<lparr>studies_collection := c\<rparr>)"
proof -
  have ix: "indexed (studies_dr M) (studies_collection s1)" and old: "\<forall>d \<in> set (studies_collection s1). study_ok d"
    using assms(1,2) by (simp_all add: studies_ok_def)
  have "\<forall>e \<in> set c. study_ok e"
    by (rule studies_store.updateOne_all[OF up old]) (use f assms(2) in auto)
  with studies_store.updateOne_indexed[OF up ix] show ?thesis by (simp add: studies_ok_def)
qed

lemma find_study_stored: "find_study M s i = Some d \<Longrightarrow> d \<in> set (studies_collection s) \<and> doc_id d = i \<and> alive d"
  using studies_store.findOne_Some by (auto simp: find_study_def)

end

context portal
begin

lemma upload_by_extension_studies:
  "upload_by_extension E M req st fu cat s = (r, s') \<Longrightarrow> studies_collection s' = studies_collection s"
proof (cases "file_type_of_extension (filename fu)")
  case None
  then show "upload_by_extension E M req st fu cat s = (r, s') \<Longrightarrow> ?thesis"
    by (simp add: upload_by_extension_def)
next
  case (Some ft)
  assume "upload_by_extension E M req st fu cat s = (r, s')"
  with Some have up: "uploadFile E M req st None fu ft cat None None s = (r, s')"
    by (simp add: upload_by_extension_def)
  from uploadFile_frame[OF up] have "\<exists>n t o' fc. s' = s\<lparr>store := o', files_collection := fc, uuid_next := n, tick := t\<rparr>" .
  then show ?thesis by auto
qed

lemma study_profile_upload_studies:
  "study_profile_upload E M req d p s = (r, s') \<Longrightarrow> studies_collection s' = studies_collection s"
  by (auto simp: study_profile_upload_def upload_by_extension_studies split: option.splits prod.splits sum.splits)

lemma createStudy_profile_cases:
  assumes "createStudy_profile E M u e p s = (r, s')"
  shows "studies_collection s' = studies_collection s \<or>
    (\<exists>q pr r' c'. updateOne (studies_dr M) (studies_collection s) q (\<lambda>d. d\<lparr>study_profile := pr\<rparr>) = Some (r', c') \<and>
       studies_collection s' = c')"
proof (cases p)
  case None
  with assms show ?thesis by (simp add: createStudy_profile_def)
next
  case (Some fu)
  obtain x s1 where up: "upload_by_extension E M u (Some (doc_id e)) fu PROFILE_FILE s = (x, s1)"
    by fastforce
  from upload_by_extension_studies[OF up] have s1: "studies_collection s1 = studies_collection s" .
  show ?thesis
  proof (cases x)
    case (Inl err)
    with assms Some up s1 show ?thesis by (simp add: createStudy_profile_def)
  next
    case (Inr f)
    with assms Some up show ?thesis
      unfolding s1[symmetric]
      by (cases "updateOne (studies_dr M) (studies_collection s1) (\<lambda>d. doc_id d = doc_id e)
          (\<lambda>d. d\<lparr>study_profile := Some (doc_id f)\<rparr>)") (auto simp: createStudy_profile_def)
  qed
qed

lemma createStudy_cases:
  assumes "createStudy E M req n d p s = (r, s')"
  shows "studies_collection s' = studies_collection s \<or>
    (\<exists>e c. study_ok e \<and> insertOne (studies_dr M) (studies_collection s) e = Some c \<and>
      (studies_collection s' = c \<or>
       (\<exists>q pr r' c'. updateOne (studies_dr M) c q (\<lambda>d. d\<lparr>study_profile := pr\<rparr>) = Some (r', c') \<and>
          studies_collection s' = c')))"
proof (cases req)
  case None
  with assms show ?thesis by (simp add: createStudy_def)
next
  case (Some u)
  let ?e = "\<lparr>doc_id = uuid_gen E (uuid_next s), life = new_life (clock E (tick s)) (doc_id u), metadata = [],
    study_name = n, currentDataVersion = -1, dataVersions = [],
    study_description = Some (nullish d ''''), study_profile = None, isPublic = False\<rparr>"
  have e: "study_ok ?e" by (simp add: study_ok_def)
  show ?thesis
  proof (cases "studies_collection s' = studies_collection s")
    case False
    from assms Some False obtain c cc where
      ins: "insertOne (studies_dr M) (studies_collection s) ?e = Some c"
      and rest: "createStudy_profile E M u ?e p (s\<lparr>uuid_next := Suc (Suc (Suc (uuid_next s))),
         tick := Suc (Suc (Suc (tick s))), configs_collection := cc, studies_collection := c\<rparr>) = (r, s')"
      by (auto simp: createStudy_def uuid_def Date_now_def Let_def split: if_splits option.splits)
    have "studies_collection s' = c \<or>
       (\<exists>q pr r' c'. updateOne (studies_dr M) c q (\<lambda>d. d\<lparr>study_profile := pr\<rparr>) = Some (r', c') \<and>
          studies_collection s' = c')"
      using createStudy_profile_cases[OF rest] by simp
    with e ins show ?thesis by blast
  qed simp
qed

lemma createStudy_ok:
  assumes "studies_ok M s"
  shows "studies_ok M (snd (createStudy E M req n d p s))"
proof -
  obtain r s' where cr: "createStudy E M req n d p s = (r, s')" by fastforce
  have ix: "indexed (studies_dr M) (studies_collection s)" using assms by (simp add: studies_ok_def)
  from createStudy_cases[OF cr] have "studies_ok M s'"
  proof
    assume "studies_collection s' = studies_collection s"
    with assms studies_ok_cong show ?thesis by metis
  next
    assume "\<exists>e c. study_ok e \<and> insertOne (studies_dr M) (studies_collection s) e = Some c \<and>
      (studies_collection s' = c \<or>
       (\<exists>q pr r' c'. updateOne (studies_dr M) c q (\<lambda>d. d\<lparr>study_profile := pr\<rparr>) = Some (r', c') \<and>
          studies_collection s' = c'))"
    then obtain e c where e: "study_ok e" "insertOne (studies_dr M) (studies_collection s) e = Some c"
      and s': "studies_collection s' = c \<or>
       (\<exists>q pr r' c'. updateOne (studies_dr M) c q (\<lambda>d. d\<lparr>study_profile := pr\<rparr>) = Some (r', c') \<and>
          studies_collection s' = c')" by blast
    from studies_store.insertOne_set[OF e(2)] studies_store.insertOne_indexed[OF e(2) ix] e(1) assms
    have c: "studies_ok M (s\<lparr>studies_collection := c\<rparr>)" by (simp add: studies_ok_def)
    from s' show ?thesis
    proof
      assume "studies_collection s' = c"
      then have "studies_collection s' = studies_collection (s\<lparr>studies_collection := c\<rparr>)" by simp
      from studies_ok_cong[OF this] c show ?thesis by simp
    next
      assume "\<exists>q pr r' c'. updateOne (studies_dr M) c q (\<lambda>d. d\<lparr>study_profile := pr\<rparr>) = Some (r', c') \<and>
          studies_collection s' = c'"
      then obtain q pr r' where up: "updateOne (studies_dr M) (studies_collection (s\<lparr>studies_collection := c\<rparr>)) q
          (\<lambda>d. d\<lparr>study_profile := pr\<rparr>) = Some (r', studies_collection s')" by auto
      have "studies_ok M (s\<lparr>studies_collection := c\<rparr>\<lparr>studies_collection := studies_collection s'\<rparr>)"
        by (rule update_studies_ok[OF c refl up]) (use c in \<open>auto simp: studies_ok_def study_ok_def\<close>)
      then show ?thesis by (simp add: studies_ok_def)
    qed
  qed
  then show ?thesis by (simp add: cr)
qed

lemma editStudy_ok:
  assumes "studies_ok M s"
  shows "studies_ok M (snd (editStudy E M req i n d p s))"
proof -
  obtain r s' where ed: "editStudy E M req i n d p s = (r, s')" by fastforce
  have same: "studies_ok M s1" if "studies_collection s1 = studies_collection s" for s1
    using that assms studies_ok_cong by metis
  have "studies_collection s' = studies_collection s \<or>
    (\<exists>s1 q pr r' c. studies_collection s1 = studies_collection s \<and>
       updateOne (studies_dr M) (studies_collection s1) q (edit_study_set n d pr) = Some (r', c) \<and>
       s' = s1\<lparr>studies_collection := c\<rparr>)"
    using ed
    by (auto simp: editStudy_def Let_def dest!: study_profile_upload_studies
        split: option.split_asm sum.split_asm bool.split_asm if_split_asm prod.split_asm) blast+
  then have "studies_ok M s'"
  proof
    assume "\<exists>s1 q pr r' c. studies_collection s1 = studies_collection s \<and>
       updateOne (studies_dr M) (studies_collection s1) q (edit_study_set n d pr) = Some (r', c) \<and>
       s' = s1\<lparr>studies_collection := c\<rparr>"
    then obtain s1 q pr r' c where 1: "studies_collection s1 = studies_collection s"
      "updateOne (studies_dr M) (studies_collection s1) q (edit_study_set n d pr) = Some (r', c)"
      "s' = s1\<lparr>studies_collection := c\<rparr>" by blast
    show ?thesis unfolding 1(3)
      by (rule update_studies_ok[OF assms 1(1,2)]) (use assms in \<open>auto simp: studies_ok_def study_ok_def edit_study_set_def\<close>)
  qed (rule same)
  then show ?thesis by (simp add: ed)
qed

end

definition pushed :: "IStudyDataVersion result \<Rightarrow> bool" where
  "pushed r \<longleftrightarrow> (\<exists>v. r = Inr v) \<or> r = Inl (CoreError UNQUALIFIED_ERROR ''Nothing to update.'')"

lemma no_study_manager_error:
  "no_study_manager M s u st = Inl e \<Longrightarrow> e = core_error NO_PERMISSION_ERROR"
  by (auto simp: no_study_manager_def getRolesOfUser_def split: sum.splits if_splits)

lemma stamp_version_error: "stamp_version M i v s = (Inl e, s') \<Longrightarrow> e = MongoServerError"
  by (auto simp: stamp_version_def Let_def split: prod.splits if_splits)

context mongo_db
begin

lemma editStudyVisibility_ok:
  assumes "studies_ok M s"
  shows "studies_ok M (snd (editStudyVisibility M req i b s))"
proof -
  obtain r s' where ed: "editStudyVisibility M req i b s = (r, s')" by fastforce
  have "s' = s \<or> (\<exists>r' c. updateOne (studies_dr M) (studies_collection s) (\<lambda>d. doc_id d = i)
      (\<lambda>d. d\<lparr>isPublic := b\<rparr>) = Some (r', c) \<and> s' = s\<lparr>studies_collection := c\<rparr>)"
    using ed by (auto simp: editStudyVisibility_def Let_def
        split: option.splits sum.splits bool.splits prod.splits)
  then have "studies_ok M s'"
  proof
    assume "\<exists>r' c. updateOne (studies_dr M) (studies_collection s) (\<lambda>d. doc_id d = i)
      (\<lambda>d. d\<lparr>isPublic := b\<rparr>) = Some (r', c) \<and> s' = s\<lparr>studies_collection := c\<rparr>"
    then obtain r' c where 1: "updateOne (studies_dr M) (studies_collection s) (\<lambda>d. doc_id d = i)
      (\<lambda>d. d\<lparr>isPublic := b\<rparr>) = Some (r', c)" "s' = s\<lparr>studies_collection := c\<rparr>" by blast
    show ?thesis unfolding 1(2)
      by (rule update_studies_ok[OF assms refl 1(1)]) (use assms in \<open>auto simp: studies_ok_def study_ok_def\<close>)
  qed (use assms in simp)
  then show ?thesis by (simp add: ed)
qed

lemma deleteStudy_cases:
  assumes "deleteStudy E M req i s = (r, s')"
  shows "studies_collection s' = studies_collection s \<or>
    (\<exists>u r'. updateOne (studies_dr M) (studies_collection s) (\<lambda>d. doc_id d = i \<and> alive d)
       (mark_deleted (clock E (tick s)) (UserDoc u)) = Some (r', studies_collection s'))"
  using assms
  by (auto simp: deleteStudy_def Date_now_def Let_def split: option.splits if_splits prod.splits)

lemma deleteStudy_ok:
  assumes "studies_ok M s"
  shows "studies_ok M (snd (deleteStudy E M req i s))"
proof -
  obtain r s' where del: "deleteStudy E M req i s = (r, s')" by fastforce
  from deleteStudy_cases[OF del] have "studies_ok M s'"
  proof
    assume "studies_collection s' = studies_collection s"
    with assms studies_ok_cong show ?thesis by metis
  next
    assume "\<exists>u r'. updateOne (studies_dr M) (studies_collection s) (\<lambda>d. doc_id d = i \<and> alive d)
       (mark_deleted (clock E (tick s)) (UserDoc u)) = Some (r', studies_collection s')"
    then obtain u r' where up: "updateOne (studies_dr M) (studies_collection s) (\<lambda>d. doc_id d = i \<and> alive d)
       (mark_deleted (clock E (tick s)) (UserDoc u)) = Some (r', studies_collection s')" by blast
    have "studies_ok M (s\<lparr>studies_collection := studies_collection s'\<rparr>)"
      by (rule update_studies_ok[OF assms refl up]) (use assms in \<open>simp add: studies_ok_def\<close>)
    then show ?thesis by (simp add: studies_ok_def)
  qed
  then show ?thesis by (simp add: del)
qed

text \<open>
  A call of \<open>createDataVersion\<close> that changes the studies: the guards it has passed, the state at
  the last update and that update.
\<close>

lemma createDataVersion_cases:
  assumes "createDataVersion E M req i t dv cold s = (r, s')"
  shows "(studies_collection s' = studies_collection s \<and> \<not> pushed r) \<or>
    (\<exists>u study s2 s4 resData resField v c r'. req = Some u \<and> find_study M s i = Some study \<and>
       matches_decimal dv \<and> dv \<notin> set (map version (dataVersions study)) \<and>
       stamp_version M i (uuid_gen E (uuid_next s)) (s\<lparr>uuid_next := Suc (uuid_next s)\<rparr>) =
         (Inr (resData, resField), s2) \<and> same_data s2 s4 \<and>
       doc_id v = uuid_gen E (uuid_next s) \<and> version v = dv \<and>
       updateOne (studies_dr M) (studies_collection s4) (\<lambda>d. doc_id d = i) (push_version v) = Some (r', c) \<and>
       s' = s4\<lparr>studies_collection := c\<rparr> \<and>
       r = (if resData = 0 \<and> resField = 0
            then Inl (CoreError UNQUALIFIED_ERROR ''Nothing to update.'') else Inr v))"
proof (cases "\<exists>u study. req = Some u \<and> no_study_manager M s u None = Inr False \<and>
    find_study M s i = Some study \<and> matches_decimal dv \<and> dv \<notin> set (map version (dataVersions study))")
  case False
  with assms have "s' = s \<and> \<not> pushed r"
    by (auto simp: createDataVersion_def pushed_def dest!: no_study_manager_error
        split: option.splits sum.splits bool.splits if_splits)
  then show ?thesis by simp
next
  case True
  then obtain u study where g: "req = Some u" "no_study_manager M s u None = Inr False"
    "find_study M s i = Some study" "matches_decimal dv" "dv \<notin> set (map version (dataVersions study))"
    by blast
  let ?id = "uuid_gen E (uuid_next s)"
  let ?s1 = "s\<lparr>uuid_next := Suc (uuid_next s)\<rparr>"
  obtain x s2 where st: "stamp_version M i ?id ?s1 = (x, s2)" by fastforce
  from stamp_version_frame[OF st] have f2: "studies_collection s2 = studies_collection s" by simp
  let ?docs = "find_many (data_dr M) (data_collection s2)
     (\<lambda>d. data_studyId d = i \<and> data_dataVersion d = Some ?id)"
  obtain ok s3 where c: "(if cold = Some True then sync_cold E M i ?id (doc_id u) ?docs s2 else (True, s2)) = (ok, s3)"
    by fastforce
  have f3: "same_data s2 s3"
    using c sync_cold_frame[of s2 E M i ?id "doc_id u" ?docs] by (auto simp: same_data_def split: if_splits)
  let ?s4 = "s3\<lparr>tick := Suc (tick s3)\<rparr>"
  let ?v = "\<lparr>doc_id = ?id, life = new_life (clock E (tick s3)) (doc_id u), metadata = [],
    version = dv, version_tag = Some t\<rparr>"
  have f4: "same_data s2 ?s4" using f3 by (simp add: same_data_def)
  show ?thesis
  proof (cases x)
    case (Inl e)
    with assms g st have "s' = s2 \<and> r = Inl e" by (simp add: createDataVersion_def uuid_def)
    with stamp_version_error[OF st[unfolded Inl]] have "s' = s2 \<and> \<not> pushed r" by (simp add: pushed_def)
    with f2 show ?thesis by simp
  next
    case (Inr counts)
    obtain resData resField where counts: "counts = (resData, resField)" by fastforce
    have main: "createDataVersion E M req i t dv cold s =
        (if \<not> ok then (Inl MongoServerError, s3) else
          (case updateOne (studies_dr M) (studies_collection ?s4) (\<lambda>d. doc_id d = i) (push_version ?v) of
             None \<Rightarrow> (Inl MongoServerError, ?s4)
           | Some (_, c) \<Rightarrow>
               (if resData = 0 \<and> resField = 0
                then Inl (CoreError UNQUALIFIED_ERROR ''Nothing to update.'') else Inr ?v,
                ?s4\<lparr>studies_collection := c\<rparr>)))"
      using g st Inr counts c by (simp add: createDataVersion_def uuid_def Date_now_def Let_def)
    show ?thesis
    proof (cases "ok \<and> updateOne (studies_dr M) (studies_collection ?s4) (\<lambda>d. doc_id d = i) (push_version ?v) \<noteq> None")
      case False
      have "(s' = s3 \<or> s' = ?s4) \<and> r = Inl MongoServerError"
      proof (cases ok)
        case True
        with False have "updateOne (studies_dr M) (studies_collection ?s4) (\<lambda>d. doc_id d = i) (push_version ?v) = None"
          by blast
        with assms[unfolded main] True show ?thesis by simp
      next
        case False
        with assms[unfolded main] show ?thesis by simp
      qed
      then have "studies_collection s' = studies_collection s2 \<and> \<not> pushed r"
        using f3 by (elim conjE disjE) (simp_all add: same_data_def pushed_def)
      with f2 show ?thesis by simp
    next
      case True
      then obtain r' c' where up: "ok" "updateOne (studies_dr M) (studies_collection ?s4) (\<lambda>d. doc_id d = i)
          (push_version ?v) = Some (r', c')" by auto
      with assms[unfolded main] have "s' = ?s4\<lparr>studies_collection := c'\<rparr>"
        "r = (if resData = 0 \<and> resField = 0
            then Inl (CoreError UNQUALIFIED_ERROR ''Nothing to update.'') else Inr ?v)" by auto
      with g st Inr counts f4 up(2) show ?thesis
        by (intro disjI2 exI[of _ u] exI[of _ study] exI[of _ s2] exI[of _ ?s4] exI[of _ resData]
            exI[of _ resField] exI[of _ ?v] exI[of _ c'] exI[of _ r']) simp
    qed
  qed
qed

lemma push_version_ok:
  "study_ok d \<Longrightarrow> matches_decimal (version v) \<Longrightarrow> version v \<notin> set (map version (dataVersions d)) \<Longrightarrow>
     study_ok (push_version v d)"
  by (auto simp: study_ok_def push_version_def)

lemma createDataVersion_ok:
  assumes ok: "studies_ok M s"
  shows "studies_ok M (snd (createDataVersion E M req i t dv cold s))"
proof -
  obtain r s' where cr: "createDataVersion E M req i t dv cold s = (r, s')" by fastforce
  have ix: "indexed (studies_dr M) (studies_collection s)" using ok by (simp add: studies_ok_def)
  from createDataVersion_cases[OF cr] have "studies_ok M s'"
  proof
    assume "studies_collection s' = studies_collection s \<and> \<not> pushed r"
    with ok studies_ok_cong show ?thesis by metis
  next
    assume "\<exists>u study s2 s4 resData resField v c r'. req = Some u \<and> find_study M s i = Some study \<and>
       matches_decimal dv \<and> dv \<notin> set (map version (dataVersions study)) \<and>
       stamp_version M i (uuid_gen E (uuid_next s)) (s\<lparr>uuid_next := Suc (uuid_next s)\<rparr>) =
         (Inr (resData, resField), s2) \<and> same_data s2 s4 \<and>
       doc_id v = uuid_gen E (uuid_next s) \<and> version v = dv \<and>
       updateOne (studies_dr M) (studies_collection s4) (\<lambda>d. doc_id d = i) (push_version v) = Some (r', c) \<and>
       s' = s4\<lparr>studies_collection := c\<rparr> \<and>
       r = (if resData = 0 \<and> resField = 0
            then Inl (CoreError UNQUALIFIED_ERROR ''Nothing to update.'') else Inr v)"
    then obtain study s2 s4 x v c r' where 1: "find_study M s i = Some study" "matches_decimal dv"
      "dv \<notin> set (map version (dataVersions study))"
      "stamp_version M i (uuid_gen E (uuid_next s)) (s\<lparr>uuid_next := Suc (uuid_next s)\<rparr>) = (x, s2)"
      "same_data s2 s4" "version v = dv"
      "updateOne (studies_dr M) (studies_collection s4) (\<lambda>d. doc_id d = i) (push_version v) = Some (r', c)"
      "s' = s4\<lparr>studies_collection := c\<rparr>" by blast
    from stamp_version_frame[OF 1(4)] 1(5) have s4: "studies_collection s4 = studies_collection s"
      by (simp add: same_data_def)
    show ?thesis unfolding 1(8)
    proof (rule update_studies_ok[OF ok s4 1(7)])
      fix d assume d: "d \<in> set (studies_collection s)" "doc_id d = i"
      with find_study_stored[OF 1(1)] studies_store.key_inj[OF ix] have "d = study" by blast
      with d ok 1(2,3,6) show "study_ok (push_version v d)"
        by (intro push_version_ok) (simp_all add: studies_ok_def)
    qed
  qed
  then show ?thesis by (simp add: cr)
qed

lemma setDataversionAsCurrent_ok:
  assumes ok: "studies_ok M s"
  shows "studies_ok M (snd (setDataversionAsCurrent M req i v s))"
proof -
  obtain r s' where cr: "setDataversionAsCurrent M req i v s = (r, s')" by fastforce
  have ix: "indexed (studies_dr M) (studies_collection s)" using ok by (simp add: studies_ok_def)
  have "s' = s \<or> (\<exists>study r' c. find_study M s i = Some study \<and>
      updateOne (studies_dr M) (studies_collection s) (\<lambda>d. doc_id d = i)
        (\<lambda>d. d\<lparr>currentDataVersion := indexOf (map doc_id (dataVersions study)) v\<rparr>) = Some (r', c) \<and>
      s' = s\<lparr>studies_collection := c\<rparr>)"
    using cr by (auto simp: setDataversionAsCurrent_def
        split: option.splits sum.splits bool.splits prod.splits if_splits)
  then have "studies_ok M s'"
  proof
    assume "\<exists>study r' c. find_study M s i = Some study \<and>
      updateOne (studies_dr M) (studies_collection s) (\<lambda>d. doc_id d = i)
        (\<lambda>d. d\<lparr>currentDataVersion := indexOf (map doc_id (dataVersions study)) v\<rparr>) = Some (r', c) \<and>
      s' = s\<lparr>studies_collection := c\<rparr>"
    then obtain study r' c where 1: "find_study M s i = Some study"
      "updateOne (studies_dr M) (studies_collection s) (\<lambda>d. doc_id d = i)
        (\<lambda>d. d\<lparr>currentDataVersion := indexOf (map doc_id (dataVersions study)) v\<rparr>) = Some (r', c)"
      "s' = s\<lparr>studies_collection := c\<rparr>" by blast
    show ?thesis unfolding 1(3)
    proof (rule update_studies_ok[OF ok refl 1(2)])
      fix d assume d: "d \<in> set (studies_collection s)" "doc_id d = i"
      with find_study_stored[OF 1(1)] studies_store.key_inj[OF ix] have "d = study" by blast
      with d ok indexOf_range[of "map doc_id (dataVersions study)" v]
      show "study_ok (d\<lparr>currentDataVersion := indexOf (map doc_id (dataVersions study)) v\<rparr>)"
        by (simp add: studies_ok_def study_ok_def)
    qed
  qed (use ok in simp)
  then show ?thesis by (simp add: cr)
qed

end

context portal
begin

lemma study_step_ok: "study_step E M s s' \<Longrightarrow> studies_ok M s \<Longrightarrow> studies_ok M s'"
proof (induction rule: study_step.induct)
  case (other s' s)
  then show ?case using studies_ok_cong by blast
qed (simp_all add: createStudy_ok editStudy_ok editStudyVisibility_ok deleteStudy_ok createDataVersion_ok
      setDataversionAsCurrent_ok)

lemma study_steps_ok: "(study_step E M)\<^sup>*\<^sup>* s s' \<Longrightarrow> studies_ok M s \<Longrightarrow> studies_ok M s'"
  by (induction rule: rtranclp_induct) (auto intro: study_step_ok)

end

subsection \<open>What the operations do\<close>

context mongo_db
begin

lemma stamp_version_spec:
  assumes "stamp_version M i v s = (Inr (a, b), s')"
  shows "set (data_collection s') = apply_where (\<lambda>d. data_studyId d = i \<and> data_dataVersion d = None)
      (\<lambda>d. d\<lparr>data_dataVersion := Some v\<rparr>) ` set (data_collection s) \<and>
    set (field_dictionary_collection s') =
      apply_where (\<lambda>d. field_studyId d = i \<and> field_dataVersion d = None)
        (\<lambda>d. d\<lparr>field_dataVersion := Some v\<rparr>) ` set (field_dictionary_collection s) \<and>
    (a = 0 \<longleftrightarrow> \<not> (\<exists>d \<in> set (data_collection s). data_studyId d = i \<and> data_dataVersion d = None)) \<and>
    (b = 0 \<longleftrightarrow> \<not> (\<exists>d \<in> set (field_dictionary_collection s). field_studyId d = i \<and> field_dataVersion d = None))"
  using assms
  by (auto simp: stamp_version_def Let_def data_store.find_many_Nil field_dictionary_store.find_many_Nil
      dest!: data_store.updateMany_set field_dictionary_store.updateMany_set split: prod.splits if_splits)

lemma push_set:
  assumes ix: "indexed (studies_dr M) c" and d: "d \<in> set c" "doc_id d = i"
    and up: "updateOne (studies_dr M) c (\<lambda>d. doc_id d = i) f = Some (r, c')"
  shows "set c' = insert (f d) (set c - {d})"
proof -
  have "set c' = apply_where (\<lambda>d. doc_id d = i) f ` set c" by (rule studies_store.updateOne_key[OF ix up])
  also have "\<dots> = insert (f d) (set c - {d})"
    by (rule image_apply_single) (use d studies_store.key_inj[OF ix] in auto)
  finally show ?thesis .
qed

text \<open>The effect of a call that pushes a version.\<close>

lemma createDataVersion_pushes:
  assumes ix: "indexed (studies_dr M) (studies_collection s)"
    and cr: "createDataVersion E M req i t dv cold s = (r, s')"
    and ch: "pushed r"
  shows "\<exists>v d. d \<in> set (studies_collection s) \<and> doc_id d = i \<and> alive d \<and> version v = dv \<and>
    dv \<notin> set (map version (dataVersions d)) \<and>
    set (studies_collection s') = insert (push_version v d) (set (studies_collection s) - {d}) \<and>
    set (data_collection s') = apply_where (\<lambda>d. data_studyId d = i \<and> data_dataVersion d = None)
      (\<lambda>d. d\<lparr>data_dataVersion := Some (doc_id v)\<rparr>) ` set (data_collection s) \<and>
    set (field_dictionary_collection s') =
      apply_where (\<lambda>d. field_studyId d = i \<and> field_dataVersion d = None)
        (\<lambda>d. d\<lparr>field_dataVersion := Some (doc_id v)\<rparr>) ` set (field_dictionary_collection s) \<and>
    r = (if (\<exists>d \<in> set (data_collection s). data_studyId d = i \<and> data_dataVersion d = None) \<or>
            (\<exists>d \<in> set (field_dictionary_collection s). field_studyId d = i \<and> field_dataVersion d = None)
         then Inr v else Inl (CoreError UNQUALIFIED_ERROR ''Nothing to update.''))"
proof -
  from createDataVersion_cases[OF cr] ch obtain u study s2 s4 a b v c r' where
    1: "find_study M s i = Some study" "dv \<notin> set (map version (dataVersions study))"
      "stamp_version M i (uuid_gen E (uuid_next s)) (s\<lparr>uuid_next := Suc (uuid_next s)\<rparr>) = (Inr (a, b), s2)"
      "same_data s2 s4" "doc_id v = uuid_gen E (uuid_next s)" "version v = dv"
      "updateOne (studies_dr M) (studies_collection s4) (\<lambda>d. doc_id d = i) (push_version v) = Some (r', c)"
      "s' = s4\<lparr>studies_collection := c\<rparr>"
      "r = (if a = 0 \<and> b = 0 then Inl (CoreError UNQUALIFIED_ERROR ''Nothing to update.'') else Inr v)"
    by blast
  note d = find_study_stored[OF 1(1)]
  have s4: "studies_collection s4 = studies_collection s"
    using stamp_version_frame[OF 1(3)] 1(4) by (simp add: same_data_def)
  have set': "set c = insert (push_version v study) (set (studies_collection s) - {study})"
    using push_set[OF ix conjunct1[OF d] _ 1(7)[unfolded s4]] d by blast
  note st = stamp_version_spec[OF 1(3)]
  have same: "data_collection s' = data_collection s2"
    "field_dictionary_collection s' = field_dictionary_collection s2" "studies_collection s' = c"
    using 1(4) by (simp_all add: 1(8) same_data_def)
  have r: "r = (if (\<exists>d \<in> set (data_collection s). data_studyId d = i \<and> data_dataVersion d = None) \<or>
            (\<exists>d \<in> set (field_dictionary_collection s). field_studyId d = i \<and> field_dataVersion d = None)
         then Inr v else Inl (CoreError UNQUALIFIED_ERROR ''Nothing to update.''))"
    using st unfolding 1(9) by auto
  show ?thesis
    by (rule exI[of _ v], rule exI[of _ study], intro conjI r)
      (use d 1(2,6) st set' in \<open>simp_all add: same 1(5)\<close>)
qed

lemma deleteStudy_spec:
  assumes ix: "indexed (studies_dr M) (studies_collection s)"
    and del: "deleteStudy E M (Some req) i s = (Inr resp, s')"
  shows "user_type req = ADMIN \<and>
    (\<forall>d \<in> set (studies_collection s'). doc_id d = i \<longrightarrow> \<not> alive d) \<and>
    set (files_collection s') = apply_where (\<lambda>d. file_studyId d = Some i \<and> alive d)
      (mark_deleted (clock E (tick s)) (UserDoc (doc_id req))) ` set (files_collection s) \<and>
    set (field_dictionary_collection s') = apply_where (\<lambda>d. field_studyId d = i \<and> alive d)
      (mark_deleted (clock E (tick s)) (UserDoc (doc_id req))) ` set (field_dictionary_collection s) \<and>
    set (data_collection s') = apply_where (\<lambda>d. data_studyId d = i \<and> alive d)
      (mark_deleted (clock E (tick s)) (UserDoc (doc_id req))) ` set (data_collection s) \<and>
    set (configs_collection s') =
      apply_where (\<lambda>d. config_type d = STUDYCONFIG \<and> config_key d = Some i \<and> alive d)
      (mark_deleted (clock E (tick s)) (UserDoc (doc_id req))) ` set (configs_collection s) \<and>
    roles_collection s' = roles_collection s"
proof -
  from del obtain r c1 where admin: "user_type req = ADMIN" and up: "updateOne (studies_dr M) (studies_collection s)
      (\<lambda>d. doc_id d = i \<and> alive d) (mark_deleted (clock E (tick s)) (UserDoc (doc_id req))) = Some (r, c1)"
    and rest: "updateMany (files_dr M) (files_collection s) (\<lambda>d. file_studyId d = Some i \<and> alive d)
        (mark_deleted (clock E (tick s)) (UserDoc (doc_id req))) = (True, files_collection s')"
      "updateMany (field_dictionary_dr M) (field_dictionary_collection s) (\<lambda>d. field_studyId d = i \<and> alive d)
        (mark_deleted (clock E (tick s)) (UserDoc (doc_id req))) = (True, field_dictionary_collection s')"
      "updateMany (data_dr M) (data_collection s) (\<lambda>d. data_studyId d = i \<and> alive d)
        (mark_deleted (clock E (tick s)) (UserDoc (doc_id req))) = (True, data_collection s')"
      "updateMany (configs_dr M) (configs_collection s)
        (\<lambda>d. config_type d = STUDYCONFIG \<and> config_key d = Some i \<and> alive d)
        (mark_deleted (clock E (tick s)) (UserDoc (doc_id req))) = (True, configs_collection s')"
      "studies_collection s' = c1" "roles_collection s' = roles_collection s"
    by (auto simp: deleteStudy_def Date_now_def Let_def split: option.splits if_splits prod.splits)
  have set1: "set c1 = apply_where (\<lambda>d. doc_id d = i \<and> alive d)
      (mark_deleted (clock E (tick s)) (UserDoc (doc_id req))) ` set (studies_collection s)"
    by (rule studies_store.updateOne_keyed[OF ix up]) simp
  have "\<not> alive d" if "d \<in> set c1" "doc_id d = i" for d
  proof -
    from that(1) set1 obtain e where "d = apply_where (\<lambda>d. doc_id d = i \<and> alive d)
      (mark_deleted (clock E (tick s)) (UserDoc (doc_id req))) e" by blast
    with that(2) show ?thesis by (auto simp: apply_where_def split: if_splits)
  qed
  with admin rest show ?thesis
    using files_store.updateMany_set[OF rest(1)] field_dictionary_store.updateMany_set[OF rest(2)]
      data_store.updateMany_set[OF rest(3)] configs_store.updateMany_set[OF rest(4)] by auto
qed

lemma getStudies_spec:
  assumes "getStudies M (Some req) st s = Inr ds" and "d \<in> set ds"
  shows "d \<in> set (studies_collection s) \<and> alive d \<and>
    (user_type req = ADMIN \<or> (\<exists>r. user_role s (doc_id req) (doc_id d) r))"
  using assms
  by (auto simp: getStudies_def getRolesOfUser_def user_role_def studies_store.find_many_set
      roles_store.find_many_set Let_def split: if_splits) blast+

end

subsection \<open>Properties\<close>

definition data0 :: "string \<Rightarrow> string \<Rightarrow> IData" where
  "data0 i st = \<lparr>doc_id = i, life = life0, metadata = [], data_studyId = st, data_fieldId = ''age'',
     data_dataVersion = None, data_value = JStr ''7'', data_properties = JObj [(''pid'', JStr i)]\<rparr>"

text \<open>Marking the live documents of a key as deleted.\<close>

lemma marked_dead:
  assumes "d \<in> apply_where (\<lambda>d. key d = k \<and> alive d) (mark_deleted t u) ` A" and "key d = k"
    and "\<And>d. key (mark_deleted t u d) = key d"
  shows "\<not> alive d"
proof -
  from assms(1) obtain e where "d = apply_where (\<lambda>d. key d = k \<and> alive d) (mark_deleted t u) e" by blast
  with assms(2,3) show ?thesis by (auto simp: apply_where_def split: if_splits)
qed

lemma marked_others:
  assumes "\<And>d. key (mark_deleted t u d) = key d"
  shows "{d \<in> apply_where (\<lambda>d. key d = k \<and> alive d) (mark_deleted t u) ` A. key d \<noteq> k} = {d \<in> A. key d \<noteq> k}"
proof -
  let ?m = "apply_where (\<lambda>d. key d = k \<and> alive d) (mark_deleted t u)"
  have same: "?m d = d" if "key d \<noteq> k" for d
    using that by simp
  have key: "key (?m d) = key d" for d
    using assms by (simp add: apply_where_def)
  show ?thesis
  proof (rule set_eqI, rule iffI)
    fix x assume "x \<in> {d \<in> ?m ` A. key d \<noteq> k}"
    then obtain e where "e \<in> A" "x = ?m e" "key e \<noteq> k" by (auto simp: key)
    with same show "x \<in> {d \<in> A. key d \<noteq> k}" by simp
  next
    fix x assume "x \<in> {d \<in> A. key d \<noteq> k}"
    then have x: "x \<in> A" "key x \<noteq> k" by auto
    with imageI[OF x(1), of ?m] same[OF x(2)] show "x \<in> {d \<in> ?m ` A. key d \<noteq> k}" by simp
  qed
qed

text \<open>When the five updates go through, so does the deletion.\<close>

lemma deleteStudy_runs:
  assumes "user_type req = ADMIN" and "find_study M s i = Some d"
    and "updateOne (studies_dr M) (studies_collection s) (\<lambda>d. doc_id d = i \<and> alive d)
      (mark_deleted (clock E (tick s)) (UserDoc (doc_id req))) \<noteq> None"
    and "fst (updateMany (files_dr M) (files_collection s) (\<lambda>d. file_studyId d = Some i \<and> alive d)
      (mark_deleted (clock E (tick s)) (UserDoc (doc_id req))))"
    and "fst (updateMany (field_dictionary_dr M) (field_dictionary_collection s)
      (\<lambda>d. field_studyId d = i \<and> alive d) (mark_deleted (clock E (tick s)) (UserDoc (doc_id req))))"
    and "fst (updateMany (data_dr M) (data_collection s) (\<lambda>d. data_studyId d = i \<and> alive d)
      (mark_deleted (clock E (tick s)) (UserDoc (doc_id req))))"
    and "fst (updateMany (configs_dr M) (configs_collection s)
      (\<lambda>d. config_type d = STUDYCONFIG \<and> config_key d = Some i \<and> alive d)
      (mark_deleted (clock E (tick s)) (UserDoc (doc_id req))))"
  shows "\<exists>resp s'. deleteStudy E M (Some req) i s = (Inr resp, s')"
  using assms by (auto simp: deleteStudy_def Date_now_def Let_def split: prod.splits)

definition versions0 :: db where
  "versions0 = db0\<lparr>studies_collection := [study0 ''st'', study0 ''tt''],
     data_collection := [data0 ''d1'' ''st'', data0 ''d2'' ''tt''],
     files_collection := [(file0 ''f'' ''ann'' 8)\<lparr>file_studyId := Some ''st''\<rparr>],
     roles_collection := [role0 ''r'' ''tt'' STUDY_MANAGER [''ann''] []]\<rparr>"

lemma versions0_studies: "studies_collection versions0 = [study0 ''st'', study0 ''tt'']"
  by (simp add: versions0_def)

lemma study0_id: "doc_id (study0 i) = i"
  by (simp add: study0_def)

lemma study0_other: "study0 ''tt'' \<noteq> study0 ''st''"
  using study0_id[of "''tt''"] study0_id[of "''st''"] by auto

lemma versions0_ok: "studies_ok list_mongo versions0"
  by (simp add: studies_ok_def study_ok_def indexed_def list_mongo_def studies_indexes_def versions0_def study0_def)

lemma versions0_indexed: "indexed (studies_dr list_mongo) (studies_collection versions0)"
  using versions0_ok by (simp add: studies_ok_def)

lemmas version_eval = createDataVersion_def no_study_manager_def getRolesOfUser_def find_study_def
  stamp_version_def push_version_def uuid_def Date_now_def Let_def list_mongo_def list_driver_simps
  studies_indexes_def data_indexes_def field_dictionary_indexes_def cache_indexes_def
  versions0_def data0_def alive_def matches_decimal_def is_digit_def digits_def sample_defs

text \<open>
  C1. In every state that calls of the study operations can reach from a good one, whoever makes
  them, with whatever arguments and outcomes, and whatever other components do in between, the
  current version of every study is $-1$ or an index of its version list, and its version numbers
  are distinct decimals.
\<close>

theorem data_versions_invariant:
  assumes "mongo_ok M" and "object_store (minio E)"
    and "studies_ok M s" and "(study_step E M)\<^sup>*\<^sup>* s s'"
  shows "studies_ok M s'"
proof -
  have "portal M E" using assms(1,2) by (simp add: portal_def mongo_db_def)
  from portal.study_steps_ok[OF this assms(4,3)] show ?thesis .
qed

theorem data_versions_invariant_witness:
  "studies_ok list_mongo (snd (createDataVersion env0 list_mongo (Some (user0 ''root'' ADMIN)) ''st'' ''t'' ''1.0'' None
     versions0))"
proof -
  have "object_store (minio env0)" by (simp add: env0_def list_objects.object_store_axioms)
  moreover have "(study_step env0 list_mongo)\<^sup>*\<^sup>* versions0
      (snd (createDataVersion env0 list_mongo (Some (user0 ''root'' ADMIN)) ''st'' ''t'' ''1.0'' None versions0))"
    by (rule r_into_rtranclp) (rule study_step.new_version)
  ultimately show ?thesis by (rule data_versions_invariant[OF list_mongo_ok _ versions0_ok])
qed

text \<open>
  A successful new version stamps exactly the data and fields of that study that had no
  version (whether deleted or not), is appended to the study's list under an unused number, and
  is the current version afterwards if the last one was before; no other study changes.
\<close>

theorem createDataVersion_stamps:
  assumes "mongo_ok M" and "indexed (studies_dr M) (studies_collection s)"
    and "createDataVersion E M req i t dv cold s = (Inr v, s')"
  shows "set (data_collection s') = apply_where (\<lambda>d. data_studyId d = i \<and> data_dataVersion d = None)
      (\<lambda>d. d\<lparr>data_dataVersion := Some (doc_id v)\<rparr>) ` set (data_collection s) \<and>
    set (field_dictionary_collection s') =
      apply_where (\<lambda>d. field_studyId d = i \<and> field_dataVersion d = None)
        (\<lambda>d. d\<lparr>field_dataVersion := Some (doc_id v)\<rparr>) ` set (field_dictionary_collection s) \<and>
    (\<exists>d d'. d \<in> set (studies_collection s) \<and> doc_id d = i \<and> alive d \<and>
      version v = dv \<and> dv \<notin> set (map version (dataVersions d)) \<and>
      set (studies_collection s') = insert d' (set (studies_collection s) - {d}) \<and>
      dataVersions d' = dataVersions d @ [v] \<and>
      (currentDataVersion d = int (length (dataVersions d)) - 1 \<longrightarrow>
         dataVersions d' ! nat (currentDataVersion d') = v))"
proof -
  have "pushed (Inr v)" by (simp add: pushed_def)
  from mongo_db.createDataVersion_pushes[OF mongo_db.intro[OF assms(1)] assms(2,3) this]
  obtain v' d where p: "d \<in> set (studies_collection s)" "doc_id d = i" "alive d" "version v' = dv"
    "dv \<notin> set (map version (dataVersions d))"
    "set (studies_collection s') = insert (push_version v' d) (set (studies_collection s) - {d})"
    "set (data_collection s') = apply_where (\<lambda>d. data_studyId d = i \<and> data_dataVersion d = None)
      (\<lambda>d. d\<lparr>data_dataVersion := Some (doc_id v')\<rparr>) ` set (data_collection s)"
    "set (field_dictionary_collection s') =
      apply_where (\<lambda>d. field_studyId d = i \<and> field_dataVersion d = None)
        (\<lambda>d. d\<lparr>field_dataVersion := Some (doc_id v')\<rparr>) ` set (field_dictionary_collection s)"
    "v' = v"
    by (auto split: if_splits)
  have cur: "dataVersions (push_version v d) = dataVersions d @ [v]"
    "currentDataVersion d = int (length (dataVersions d)) - 1 \<longrightarrow>
       dataVersions (push_version v d) ! nat (currentDataVersion (push_version v d)) = v"
    by (simp_all add: push_version_def)
  show ?thesis
    using p cur by (intro conjI exI[of _ d] exI[of _ "push_version v d"]) simp_all
qed

theorem createDataVersion_stamps_witness:
  "\<exists>v s'. createDataVersion env0 list_mongo (Some (user0 ''root'' ADMIN)) ''st'' ''t'' ''1.0'' None versions0 =
      (Inr v, s') \<and> version v = ''1.0''"
proof -
  have "\<exists>v s'. createDataVersion env0 list_mongo (Some (user0 ''root'' ADMIN)) ''st'' ''t'' ''1.0'' None versions0 =
      (Inr v, s')"
    by (simp add: version_eval)
  then obtain v s' where cr: "createDataVersion env0 list_mongo (Some (user0 ''root'' ADMIN)) ''st'' ''t'' ''1.0'' None
      versions0 = (Inr v, s')" by blast
  from createDataVersion_stamps[OF list_mongo_ok versions0_indexed cr] cr show ?thesis by auto
qed

text \<open>
  A call that answers \<open>Nothing to update.\<close> has added a version all the same: nothing of the
  study was without a version, and yet its list has grown and its current version has moved.
\<close>

theorem nothing_to_update_still_adds:
  assumes "mongo_ok M" and "indexed (studies_dr M) (studies_collection s)"
    and "createDataVersion E M req i t dv cold s =
      (Inl (CoreError UNQUALIFIED_ERROR ''Nothing to update.''), s')"
  shows "(\<forall>d \<in> set (data_collection s). data_studyId d = i \<longrightarrow> data_dataVersion d \<noteq> None) \<and>
    (\<exists>v d. d \<in> set (studies_collection s) \<and> doc_id d = i \<and> version v = dv \<and>
      set (studies_collection s') = insert (push_version v d) (set (studies_collection s) - {d}))"
proof -
  have "pushed (Inl (CoreError UNQUALIFIED_ERROR ''Nothing to update.''))" by (simp add: pushed_def)
  from mongo_db.createDataVersion_pushes[OF mongo_db.intro[OF assms(1)] assms(2,3) this]
  obtain v d where p: "d \<in> set (studies_collection s)" "doc_id d = i" "version v = dv"
    "set (studies_collection s') = insert (push_version v d) (set (studies_collection s) - {d})"
    and r: "(Inl (CoreError UNQUALIFIED_ERROR ''Nothing to update.'') :: IStudyDataVersion result) =
      (if (\<exists>d \<in> set (data_collection s). data_studyId d = i \<and> data_dataVersion d = None) \<or>
          (\<exists>d \<in> set (field_dictionary_collection s). field_studyId d = i \<and> field_dataVersion d = None)
       then Inr v else Inl (CoreError UNQUALIFIED_ERROR ''Nothing to update.''))"
    by blast
  from r have "\<forall>d \<in> set (data_collection s). data_studyId d = i \<longrightarrow> data_dataVersion d \<noteq> None"
    by (auto split: if_splits)
  with p show ?thesis by blast
qed

theorem nothing_to_update_still_adds_witness:
  "\<exists>s' v. createDataVersion env0 list_mongo (Some (user0 ''root'' ADMIN)) ''st'' ''t'' ''1.0'' None
      (versions0\<lparr>data_collection := []\<rparr>) =
      (Inl (CoreError UNQUALIFIED_ERROR ''Nothing to update.''), s') \<and>
    set (studies_collection s') = {push_version v (study0 ''st''), study0 ''tt''}"
proof -
  let ?s = "versions0\<lparr>data_collection := []\<rparr>"
  have "\<exists>s'. createDataVersion env0 list_mongo (Some (user0 ''root'' ADMIN)) ''st'' ''t'' ''1.0'' None ?s =
      (Inl (CoreError UNQUALIFIED_ERROR ''Nothing to update.''), s')"
    by (simp add: version_eval)
  then obtain s' where cr: "createDataVersion env0 list_mongo (Some (user0 ''root'' ADMIN)) ''st'' ''t'' ''1.0'' None
      ?s = (Inl (CoreError UNQUALIFIED_ERROR ''Nothing to update.''), s')" by blast
  have ix: "indexed (studies_dr list_mongo) (studies_collection ?s)" using versions0_indexed by simp
  from nothing_to_update_still_adds[OF list_mongo_ok ix cr] obtain v d where
    "d \<in> set (studies_collection ?s)" "doc_id d = ''st''"
    "set (studies_collection s') = insert (push_version v d) (set (studies_collection ?s) - {d})" by blast
  moreover from this have "d = study0 ''st''" by (auto simp: versions0_studies study0_id)
  ultimately have "set (studies_collection s') = {push_version v (study0 ''st''), study0 ''tt''}"
    using study0_other by (simp add: versions0_studies insert_Diff_if)
  with cr show ?thesis by blast
qed

text \<open>
  The manager of any one study can create versions of every other: the check of
  \<open>createDataVersion\<close> looks at the requester's roles in all studies.
\<close>

theorem any_manager_versions_any_study:
  "\<exists>v s'. createDataVersion env0 list_mongo (Some (user0 ''ann'' STANDARD)) ''st'' ''t'' ''1.0'' None versions0 =
      (Inr v, s') \<and>
    \<not> (\<exists>r. user_role versions0 ''ann'' ''st'' r)"
  by (simp add: version_eval user_role_def)

text \<open>
  Deleting a study leaves no live study of that id, no live file, field or data clip of it and
  no live configuration for it, touches nothing of another study, and keeps the roles as they
  are.
\<close>

theorem deleteStudy_cascades:
  assumes "mongo_ok M" and "indexed (studies_dr M) (studies_collection s)"
    and "deleteStudy E M (Some req) i s = (Inr resp, s')"
  shows "(\<forall>d \<in> set (studies_collection s'). doc_id d = i \<longrightarrow> \<not> alive d) \<and>
    (\<forall>d \<in> set (files_collection s'). file_studyId d = Some i \<longrightarrow> \<not> alive d) \<and>
    (\<forall>d \<in> set (field_dictionary_collection s'). field_studyId d = i \<longrightarrow> \<not> alive d) \<and>
    (\<forall>d \<in> set (data_collection s'). data_studyId d = i \<longrightarrow> \<not> alive d) \<and>
    {d \<in> set (files_collection s'). file_studyId d \<noteq> Some i} =
      {d \<in> set (files_collection s). file_studyId d \<noteq> Some i} \<and>
    {d \<in> set (data_collection s'). data_studyId d \<noteq> i} = {d \<in> set (data_collection s). data_studyId d \<noteq> i} \<and>
    roles_collection s' = roles_collection s \<and> user_type req = ADMIN"
proof -
  let ?m = "\<lambda>P. apply_where (\<lambda>d. P d \<and> alive d) (mark_deleted (clock E (tick s)) (UserDoc (doc_id req)))"
  note spec = mongo_db.deleteStudy_spec[OF mongo_db.intro[OF assms(1)] assms(2,3)]
  have files: "set (files_collection s') = ?m (\<lambda>d. file_studyId d = Some i) ` set (files_collection s)"
    and fields: "set (field_dictionary_collection s') =
      ?m (\<lambda>d. field_studyId d = i) ` set (field_dictionary_collection s)"
    and data: "set (data_collection s') = ?m (\<lambda>d. data_studyId d = i) ` set (data_collection s)"
    using spec by blast+
  have 1: "\<not> alive d" if "d \<in> set (files_collection s')" "file_studyId d = Some i" for d
    by (rule marked_dead[where key = file_studyId, OF that(1)[unfolded files] that(2)]) (simp add: mark_deleted_def)
  have 2: "\<not> alive d" if "d \<in> set (field_dictionary_collection s')" "field_studyId d = i" for d
    by (rule marked_dead[where key = field_studyId, OF that(1)[unfolded fields] that(2)]) (simp add: mark_deleted_def)
  have 3: "\<not> alive d" if "d \<in> set (data_collection s')" "data_studyId d = i" for d
    by (rule marked_dead[where key = data_studyId, OF that(1)[unfolded data] that(2)]) (simp add: mark_deleted_def)
  have 4: "{d \<in> set (files_collection s'). file_studyId d \<noteq> Some i} =
      {d \<in> set (files_collection s). file_studyId d \<noteq> Some i}"
    unfolding files by (rule marked_others) (simp add: mark_deleted_def)
  have 5: "{d \<in> set (data_collection s'). data_studyId d \<noteq> i} = {d \<in> set (data_collection s). data_studyId d \<noteq> i}"
    unfolding data by (rule marked_others) (simp add: mark_deleted_def)
  have st: "\<forall>d \<in> set (studies_collection s'). doc_id d = i \<longrightarrow> \<not> alive d"
    using spec by (elim conjE)
  have roles: "roles_collection s' = roles_collection s" using spec by (elim conjE)
  have admin: "user_type req = ADMIN" using spec by (elim conjE)
  have d: "\<forall>d \<in> set (files_collection s'). file_studyId d = Some i \<longrightarrow> \<not> alive d"
    "\<forall>d \<in> set (field_dictionary_collection s'). field_studyId d = i \<longrightarrow> \<not> alive d"
    "\<forall>d \<in> set (data_collection s'). data_studyId d = i \<longrightarrow> \<not> alive d"
    by (simp_all add: 1 2 3)
  show ?thesis by (intro conjI st d 4 5 roles admin)
qed

theorem deleteStudy_cascades_witness:
  "\<exists>resp s'. deleteStudy env0 list_mongo (Some (user0 ''root'' ADMIN)) ''st'' versions0 = (Inr resp, s') \<and>
    (\<forall>d \<in> set (data_collection s'). data_studyId d = ''st'' \<longrightarrow> \<not> alive d)"
proof -
  have "\<exists>resp s'. deleteStudy env0 list_mongo (Some (user0 ''root'' ADMIN)) ''st'' versions0 = (Inr resp, s')"
  proof (rule deleteStudy_runs)
    show "find_study list_mongo versions0 ''st'' = Some (study0 ''st'')"
      by (simp add: find_study_def list_mongo_def list_driver_def versions0_def study0_def)
    show "updateOne (studies_dr list_mongo) (studies_collection versions0) (\<lambda>d. doc_id d = ''st'' \<and> alive d)
        (mark_deleted (clock env0 (tick versions0)) (UserDoc (doc_id (user0 ''root'' ADMIN)))) \<noteq> None"
      by (simp add: list_mongo_def list_driver_simps versions0_studies studies_indexes_def study0_def mark_deleted_def)
    show "fst (updateMany (files_dr list_mongo) (files_collection versions0)
        (\<lambda>d. file_studyId d = Some ''st'' \<and> alive d)
        (mark_deleted (clock env0 (tick versions0)) (UserDoc (doc_id (user0 ''root'' ADMIN)))))"
      by (simp add: list_mongo_def list_driver_simps versions0_def files_indexes_def)
    show "fst (updateMany (field_dictionary_dr list_mongo) (field_dictionary_collection versions0)
        (\<lambda>d. field_studyId d = ''st'' \<and> alive d)
        (mark_deleted (clock env0 (tick versions0)) (UserDoc (doc_id (user0 ''root'' ADMIN)))))"
      by (simp add: list_mongo_def list_driver_simps versions0_def db0_def field_dictionary_indexes_def)
    show "fst (updateMany (data_dr list_mongo) (data_collection versions0)
        (\<lambda>d. data_studyId d = ''st'' \<and> alive d)
        (mark_deleted (clock env0 (tick versions0)) (UserDoc (doc_id (user0 ''root'' ADMIN)))))"
      by (simp add: list_mongo_def list_driver_simps versions0_def data0_def data_indexes_def mark_deleted_def)
    show "fst (updateMany (configs_dr list_mongo) (configs_collection versions0)
        (\<lambda>d. config_type d = STUDYCONFIG \<and> config_key d = Some ''st'' \<and> alive d)
        (mark_deleted (clock env0 (tick versions0)) (UserDoc (doc_id (user0 ''root'' ADMIN)))))"
      by (simp add: list_mongo_def list_driver_simps versions0_def db0_def configs_indexes_def)
  qed (simp add: user0_def)
  then obtain resp s' where del: "deleteStudy env0 list_mongo (Some (user0 ''root'' ADMIN)) ''st'' versions0 =
      (Inr resp, s')" by blast
  from deleteStudy_cascades[OF list_mongo_ok versions0_indexed del] del show ?thesis by blast
qed

text \<open>
  A user who is not an administrator only ever lists live studies in which he has a live role.
\<close>

theorem getStudies_only_own:
  assumes "mongo_ok M" and "getStudies M (Some req) st s = Inr ds" and "d \<in> set ds"
    and "user_type req \<noteq> ADMIN"
  shows "d \<in> set (studies_collection s) \<and> alive d \<and> (\<exists>r. user_role s (doc_id req) (doc_id d) r)"
  using mongo_db.getStudies_spec[OF mongo_db.intro[OF assms(1)] assms(2,3)] assms(4) by blast

theorem getStudies_only_own_witness:
  "getStudies list_mongo (Some (user0 ''ann'' STANDARD)) None versions0 = Inr [study0 ''tt''] \<and>
    (\<exists>r. user_role versions0 ''ann'' ''tt'' r)"
proof -
  have g: "getStudies list_mongo (Some (user0 ''ann'' STANDARD)) None versions0 = Inr [study0 ''tt'']"
    by (simp add: getStudies_def version_eval)
  from getStudies_only_own[OF list_mongo_ok g, of "study0 ''tt''"] g show ?thesis
    by (simp add: user0_def study0_def)
qed

end
