(* ===== verification/Jobs.thy ===== *)
theory Jobs
  imports Samples "HOL-Library.Product_Lexorder"
begin

section \<open>Jobs (\<open>jobCore.ts\<close>) and their poller (\<open>poller.ts\<close>)\<close>

text \<open>
  The class \<open>JobCore\<close>, and the classes \<open>JobScheduler\<close> and \<open>JobPoller\<close> that pick a job at every
  tick of a timer and run an action on it. The action (the handlers of the executor and of
  the instances) is an argument: it may change the database, and it may throw.
\<close>

subsection \<open>\<open>JobCore\<close>\<close>

definition createJob ::
    "env \<Rightarrow> mongo \<Rightarrow> string \<Rightarrow> string \<Rightarrow> enumJobType \<Rightarrow> int option \<Rightarrow> int option \<Rightarrow> IExecutor option
     \<Rightarrow> jsval option \<Rightarrow> jsval option \<Rightarrow> int option \<Rightarrow> jobject option \<Rightarrow> db \<Rightarrow> IJob result \<times> db" where
  "createJob E M requester name type nextTime per exec dat params prio meta s =
     (let (newId, s1) = uuid E s;
          (next, s2) = (case nextTime of Some t \<Rightarrow> (t, s1) | None \<Rightarrow> Date_now E s1);
          (now, s3) = Date_now E s2;
          jobEntry = \<lparr>doc_id = newId, life = new_life now requester, metadata = nullish meta [],
            job_name = name, nextExecutionTime = next, period = per, job_type = type, executor = exec,
            job_data = nullish dat JNull, job_parameters = nullish params JNull,
            priority = nullish prio 0, history = [], counter = 0, job_status = PENDING\<rparr>
      in case insertOne (jobs_dr M) (jobs_collection s3) jobEntry of
           None \<Rightarrow> (Inl MongoServerError, s3)
         | Some c \<Rightarrow> (Inr jobEntry, s3\<lparr>jobs_collection := c\<rparr>))"

text \<open>\<open>getJobs\<close> and \<open>getJob\<close> pass their filter to the driver.\<close>

definition getJobs :: "mongo \<Rightarrow> (IJob \<Rightarrow> bool) \<Rightarrow> db \<Rightarrow> IJob list" where
  "getJobs M filt s = find_many (jobs_dr M) (jobs_collection s) filt"

text \<open>The period is \<open>None\<close> when it is \<open>undefined\<close>, \<open>Some None\<close> when it is \<open>null\<close>.\<close>

definition edit_job_set :: "int option \<Rightarrow> int option \<Rightarrow> int option option \<Rightarrow> IJob \<Rightarrow> IJob" where
  "edit_job_set prio nextTime per d = d\<lparr>
     nextExecutionTime := nullish nextTime (nextExecutionTime d),
     period := (case per of None \<Rightarrow> period d | Some p \<Rightarrow> p),
     priority := nullish prio (priority d),
     job_status := (if nextTime = None then job_status d else PENDING)\<rparr>"

definition editJob ::
    "mongo \<Rightarrow> string \<Rightarrow> int option \<Rightarrow> int option \<Rightarrow> int option option \<Rightarrow> db \<Rightarrow> IJob result \<times> db" where
  "editJob M jobId prio nextTime per s =
     (case findOne (jobs_dr M) (jobs_collection s) (\<lambda>d. doc_id d = jobId) of
        None \<Rightarrow> (Inl (CoreError CLIENT_ACTION_ON_NON_EXISTENT_ENTRY ''Job does not exist.''), s)
      | Some _ \<Rightarrow>
          (case updateOne (jobs_dr M) (jobs_collection s) (\<lambda>d. doc_id d = jobId)
                  (edit_job_set prio nextTime per) of
             None \<Rightarrow> (Inl MongoServerError, s)
           | Some (None, c) \<Rightarrow>
               (Inl (CoreError DATABASE_ERROR ''Failed to update the job.''), s\<lparr>jobs_collection := c\<rparr>)
           | Some (Some d, c) \<Rightarrow> (Inr (edit_job_set prio nextTime per d), s\<lparr>jobs_collection := c\<rparr>)))"

subsection \<open>\<open>JobScheduler\<close>\<close>

definition failed_count :: "IJob \<Rightarrow> nat" where
  "failed_count j = length (filter (\<lambda>h. history_status h = FAILED) (history j))"

text \<open>The filter; the clock is read for the one-off jobs that get that far.\<close>

fun eligible_jobs :: "env \<Rightarrow> IJobSchedulerConfig \<Rightarrow> IJob list \<Rightarrow> db \<Rightarrow> IJob list \<times> db" where
  "eligible_jobs E cfg [] s = ([], s)"
| "eligible_jobs E cfg (j # js) s =
     (if period j \<noteq> None
      then (let (r, s1) = eligible_jobs E cfg js s in (j # r, s1))
      else if reExecuteFailedJobs cfg \<and> int (failed_count j) > maxAttempts cfg
      then eligible_jobs E cfg js s
      else (let (now, s1) = Date_now E s;
                (r, s2) = eligible_jobs E cfg js s1
            in (if now < nextExecutionTime j then r else j # r, s2)))"

text \<open>\<open>Array.sort\<close> is stable; its comparison is the order of these keys. (The update that follows
  goes by \<open>_id\<close>, which is as unique as \<open>id\<close> is by its index.)\<close>

definition job_key :: "IJobSchedulerConfig \<Rightarrow> IJob \<Rightarrow> int \<times> int" where
  "job_key cfg j = (if usePriority cfg then - priority j else 0, nextExecutionTime j)"

definition findNextJob ::
    "env \<Rightarrow> mongo \<Rightarrow> IJobSchedulerConfig \<Rightarrow> db \<Rightarrow> IJob option result \<times> db" where
  "findNextJob E M cfg s =
     (let (availableJobs, s1) = eligible_jobs E cfg
            (find_many (jobs_dr M) (jobs_collection s) (\<lambda>j. job_status j = PENDING)) s
      in case sort_key (job_key cfg) availableJobs of
           [] \<Rightarrow> (Inr None, s1)
         | job # _ \<Rightarrow>
             (case period job of
                None \<Rightarrow> (Inr (Some job), s1)
              | Some p \<Rightarrow>
                  (let (now, s2) = Date_now E s1
                   in case updateOne (jobs_dr M) (jobs_collection s2) (\<lambda>d. doc_id d = doc_id job)
                             (\<lambda>d. d\<lparr>nextExecutionTime := now + p, job_status := PENDING\<rparr>) of
                        None \<Rightarrow> (Inl MongoServerError, s2)
                      | Some (_, c) \<Rightarrow>
                          (Inr (Some (job\<lparr>nextExecutionTime := now + p\<rparr>)), s2\<lparr>jobs_collection := c\<rparr>))))"

subsection \<open>\<open>JobPoller\<close>\<close>

datatype action_outcome = Returns "IJobActionReturn option" | Throws string

text \<open>The object \<open>setObj\<close> without its history, and the update it makes.\<close>

record job_set =
  set_status :: "enumJobStatus option"
  set_next :: "int option"
  set_counter :: "int option"

definition no_set :: job_set where
  "no_set = \<lparr>set_status = None, set_next = None, set_counter = None\<rparr>"

definition apply_job_set :: "job_set \<Rightarrow> IJobHistory list \<Rightarrow> IJob \<Rightarrow> IJob" where
  "apply_job_set st hist d = d\<lparr>
     nextExecutionTime := nullish (set_next st) (nextExecutionTime d),
     history := hist,
     counter := nullish (set_counter st) (counter d),
     job_status := nullish (set_status st) (job_status d)\<rparr>"

lemma apply_job_set_simps:
  "doc_id (apply_job_set st hist d) = doc_id d"
  "job_status (apply_job_set st hist d) = (case set_status st of None \<Rightarrow> job_status d | Some x \<Rightarrow> x)"
  by (simp_all add: apply_job_set_def split: option.split)

definition write_job :: "mongo \<Rightarrow> string \<Rightarrow> job_set \<Rightarrow> IJobHistory list \<Rightarrow> db \<Rightarrow> unit result \<times> db" where
  "write_job M jobId st hist s =
     (case updateOne (jobs_dr M) (jobs_collection s) (\<lambda>d. doc_id d = jobId) (apply_job_set st hist) of
        None \<Rightarrow> (Inl MongoServerError, s)
      | Some (_, c) \<Rightarrow> (Inr (), s\<lparr>jobs_collection := c\<rparr>))"

text \<open>The \<open>catch\<close> block: it writes the history the job had when it was picked, and a failure.\<close>

definition catch_block ::
    "env \<Rightarrow> mongo \<Rightarrow> IJob \<Rightarrow> job_set \<Rightarrow> string \<Rightarrow> db \<Rightarrow> unit result \<times> db" where
  "catch_block E M job st err s =
     (let (now, s1) = Date_now E s
      in write_job M (doc_id job) st
           (history job @ [\<lparr>history_time = now, history_status = FAILED, history_errors = [err]\<rparr>]) s1)"

text \<open>\<open>if (job.period)\<close>: neither \<open>null\<close> nor 0.\<close>

definition periodic :: "IJob \<Rightarrow> bool" where
  "periodic job \<longleftrightarrow> (\<exists>p. period job = Some p \<and> p \<noteq> 0)"

lemma periodic_code [code]: "periodic job = (case period job of None \<Rightarrow> False | Some p \<Rightarrow> p \<noteq> 0)"
  by (auto simp: periodic_def split: option.split)

text \<open>
  What the result of the action adds to \<open>setObj\<close> and to the history. (The entry of a success
  carries the result instead of errors; the model leaves it out.)
\<close>

definition outcome_set ::
    "env \<Rightarrow> IJobSchedulerConfig \<Rightarrow> IJob \<Rightarrow> IJobActionReturn option \<Rightarrow> job_set \<Rightarrow> db
     \<Rightarrow> (job_set \<times> IJobHistory list) \<times> db" where
  "outcome_set E cfg job res st s =
     (case res of
        None \<Rightarrow> ((st, []), s)
      | Some r \<Rightarrow>
          (let (now, s1) = Date_now E s in
           if \<not> successful r then
             (let st1 = st\<lparr>set_status := Some (if periodic job then PENDING else ERROR)\<rparr>;
                  entry = \<lparr>history_time = now, history_status = FAILED, history_errors = [action_error r]\<rparr>
              in if \<not> periodic job \<and> counter job < maxAttempts cfg
                 then (let (now2, s2) = Date_now E s1
                       in ((st1\<lparr>set_next := Some (now2 + failedJobDelayTime cfg)\<rparr>, [entry]), s2))
                 else ((st1, [entry]), s1))
           else
             ((st\<lparr>set_status := Some (if periodic job then PENDING else FINISHED)\<rparr>,
               [\<lparr>history_time = now, history_status = SUCCESS, history_errors = []\<rparr>]), s1)))"

definition run_job ::
    "env \<Rightarrow> mongo \<Rightarrow> IJobSchedulerConfig \<Rightarrow> (IJob \<Rightarrow> db \<Rightarrow> action_outcome \<times> db) \<Rightarrow> IJob \<Rightarrow> db
     \<Rightarrow> unit result \<times> db" where
  "run_job E M cfg action job s =
     (case action job s of
        (Throws err, s1) \<Rightarrow> catch_block E M job no_set err s1
      | (Returns res, s1) \<Rightarrow>
          (let (st0, s2) =
                 (case period job of
                    None \<Rightarrow> (no_set, s1)
                  | Some p \<Rightarrow>
                      if p = 0 then (no_set, s1)
                      else (let (now, s2) = Date_now E s1
                            in (no_set\<lparr>set_status := Some PENDING, set_next := Some (now + p)\<rparr>, s2)));
               ((st1, entries), s3) = outcome_set E cfg job res st0 s2;
               st2 = st1\<lparr>set_counter := Some (counter job + 1)\<rparr>
           in case findOne (jobs_dr M) (jobs_collection s3) (\<lambda>d. doc_id d = doc_id job) of
                None \<Rightarrow> (Inr (), s3)
              | Some jobUpdate \<Rightarrow>
                  (case write_job M (doc_id job) st2 (history jobUpdate @ entries) s3 of
                     (Inl _, s4) \<Rightarrow> catch_block E M job st2 ''MongoServerError'' s4
                   | (Inr _, s4) \<Rightarrow> (Inr (), s4))))"

definition checkForJobs ::
    "env \<Rightarrow> mongo \<Rightarrow> IJobSchedulerConfig \<Rightarrow> (IJob \<Rightarrow> db \<Rightarrow> action_outcome \<times> db) \<Rightarrow> db
     \<Rightarrow> unit result \<times> db" where
  "checkForJobs E M cfg action s =
     (case findNextJob E M cfg s of
        (Inl _, s1) \<Rightarrow> (Inr (), s1)
      | (Inr None, s1) \<Rightarrow> (Inr (), s1)
      | (Inr (Some job), s1) \<Rightarrow> run_job E M cfg action job s1)"

subsection \<open>What the scheduler and the poller do\<close>

definition exhausted :: "IJobSchedulerConfig \<Rightarrow> IJob \<Rightarrow> bool" where
  "exhausted cfg j \<longleftrightarrow> reExecuteFailedJobs cfg \<and> int (failed_count j) > maxAttempts cfg"

text \<open>A job that may be picked at a time: periodic ones always, one-off ones when they are due.\<close>

definition due :: "IJobSchedulerConfig \<Rightarrow> int \<Rightarrow> IJob \<Rightarrow> bool" where
  "due cfg now j \<longleftrightarrow> period j \<noteq> None \<or> (\<not> exhausted cfg j \<and> nextExecutionTime j \<le> now)"

lemma eligible_jobs_sound:
  assumes "eligible_jobs E cfg js s = (r, s')" and "j \<in> set r"
  shows "j \<in> set js \<and> (\<exists>t \<ge> tick s. due cfg (clock E t) j)"
  using assms
proof (induction js arbitrary: s r s')
  case Nil
  then show ?case by simp
next
  case (Cons k js)
  obtain r1 s1 where 1: "eligible_jobs E cfg js s = (r1, s1)" by fastforce
  obtain r2 s2 where 2: "eligible_jobs E cfg js (s\<lparr>tick := Suc (tick s)\<rparr>) = (r2, s2)" by fastforce
  consider "period k \<noteq> None" "r = k # r1" | "period k = None" "r = r1"
    | "period k = None" "\<not> exhausted cfg k" "r = (if clock E (tick s) < nextExecutionTime k then r2 else k # r2)"
    using Cons.prems(1) 1 2
    by (cases "period k"; cases "exhausted cfg k") (auto simp: Let_def Date_now_def exhausted_def split: if_splits)
  then show ?case
  proof cases
    case 1
    with Cons.prems(2) Cons.IH[OF \<open>eligible_jobs E cfg js s = (r1, s1)\<close>] show ?thesis by (auto simp: due_def)
  next
    case 2
    with Cons.prems(2) Cons.IH[OF \<open>eligible_jobs E cfg js s = (r1, s1)\<close>] show ?thesis by auto
  next
    case 3
    with Cons.prems(2) consider "j = k" "nextExecutionTime k \<le> clock E (tick s)" | "j \<in> set r2"
      by (auto split: if_splits)
    then show ?thesis
    proof cases
      case 1
      with 3 show ?thesis by (auto simp: due_def)
    next
      case b: 2
      from Cons.IH[OF \<open>eligible_jobs E cfg js (s\<lparr>tick := Suc (tick s)\<rparr>) = (r2, s2)\<close> b]
      obtain t where "j \<in> set js" "Suc (tick s) \<le> t" "due cfg (clock E t) j" by auto
      then have "j \<in> set (k # js)" "tick s \<le> t" "due cfg (clock E t) j" by auto
      then show ?thesis by blast
    qed
  qed
qed

lemma due_mono: "due cfg n j \<Longrightarrow> n \<le> m \<Longrightarrow> due cfg m j"
  by (auto simp: due_def)

lemma eligible_jobs_complete:
  assumes "mono (clock E)" and "eligible_jobs E cfg js s = (r, s')" and "j \<in> set js"
    and "due cfg (clock E (tick s)) j"
  shows "j \<in> set r"
  using assms(2-)
proof (induction js arbitrary: s r s')
  case Nil
  then show ?case by simp
next
  case (Cons k js)
  obtain r1 s1 where 1: "eligible_jobs E cfg js s = (r1, s1)" by fastforce
  obtain r2 s2 where 2: "eligible_jobs E cfg js (s\<lparr>tick := Suc (tick s)\<rparr>) = (r2, s2)" by fastforce
  have later: "due cfg (clock E (tick (s\<lparr>tick := Suc (tick s)\<rparr>))) j"
    by (rule due_mono[OF Cons.prems(3)]) (use monoD[OF assms(1), of "tick s" "Suc (tick s)"] in simp)
  show ?case
    using Cons.prems Cons.IH[OF 1] Cons.IH[OF 2 _ later] 1 2
    by (cases "period k") (auto simp: Let_def Date_now_def due_def exhausted_def split: if_splits)
qed

lemma eligible_jobs_state: "eligible_jobs E cfg js s = (r, s') \<Longrightarrow> \<exists>t. s' = s\<lparr>tick := t\<rparr>"
proof (induction js arbitrary: s r s')
  case Nil
  then show ?case by (auto intro: exI[of _ "tick s"])
next
  case (Cons k js)
  then show ?case
    by (fastforce simp: Let_def Date_now_def split: if_splits prod.splits)
qed

lemma job_key_order: "job_key cfg j \<le> job_key cfg k \<longleftrightarrow>
    (if usePriority cfg
     then priority k < priority j \<or> priority k = priority j \<and> nextExecutionTime j \<le> nextExecutionTime k
     else nextExecutionTime j \<le> nextExecutionTime k)"
  by (auto simp: job_key_def)

lemma sort_key_hd_le:
  assumes "sort_key f xs = y # ys" and "x \<in> set xs"
  shows "f y \<le> f x"
proof -
  have "sorted (map f (y # ys))" using sorted_sort_key[of f xs] assms(1) by simp
  moreover have "x \<in> set (y # ys)" using assms by (metis set_sort)
  ultimately show ?thesis by auto
qed

context mongo_db
begin

lemma findNextJob_spec:
  assumes "findNextJob E M cfg s = (Inr (Some j), s')"
  shows "\<exists>j0 \<in> set (jobs_collection s). job_status j0 = PENDING \<and> doc_id j = doc_id j0 \<and>
    (\<exists>t \<ge> tick s. due cfg (clock E t) j0) \<and>
    (mono (clock E) \<longrightarrow> (\<forall>k \<in> set (jobs_collection s).
       job_status k = PENDING \<and> due cfg (clock E (tick s)) k \<longrightarrow> job_key cfg j0 \<le> job_key cfg k))"
proof -
  let ?js = "find_many (jobs_dr M) (jobs_collection s) (\<lambda>j. job_status j = PENDING)"
  obtain r s1 where e: "eligible_jobs E cfg ?js s = (r, s1)" by fastforce
  with assms obtain j0 rest where j0: "sort_key (job_key cfg) r = j0 # rest" "doc_id j = doc_id j0"
    by (auto simp: findNextJob_def Date_now_def Let_def split: list.splits option.splits)
  then have in_r: "j0 \<in> set r" by (metis list.set_intros(1) set_sort)
  from eligible_jobs_sound[OF e in_r] have 1: "j0 \<in> set (jobs_collection s)" "job_status j0 = PENDING"
    "\<exists>t \<ge> tick s. due cfg (clock E t) j0"
    by (auto simp: jobs_store.find_many_set)
  have 2: "job_key cfg j0 \<le> job_key cfg k" if "mono (clock E)" "k \<in> set (jobs_collection s)"
    "job_status k = PENDING" "due cfg (clock E (tick s)) k" for k
  proof -
    have "k \<in> set ?js" using that by (simp add: jobs_store.find_many_set)
    from eligible_jobs_complete[OF that(1) e this that(4)] have "k \<in> set r" .
    from sort_key_hd_le[OF j0(1) this] show ?thesis .
  qed
  show ?thesis by (rule bexI[OF _ 1(1)]) (use 1 2 j0(2) in blast)
qed

lemma jobs_index: "k \<in> set (indexes (jobs_dr M)) \<Longrightarrow> k = (\<lambda>d. JStr (doc_id d))"
  using ok by (simp add: mongo_ok_def jobs_indexes_def)

lemma updateOne_job:
  assumes ix: "indexed (jobs_dr M) c" and f: "\<And>d. doc_id (f d) = doc_id d"
  shows "\<exists>r c'. updateOne (jobs_dr M) c (\<lambda>d. doc_id d = i) f = Some (r, c') \<and>
    set c' = apply_where (\<lambda>d. doc_id d = i) f ` set c \<and> indexed (jobs_dr M) c'"
proof -
  have "updateOne (jobs_dr M) c (\<lambda>d. doc_id d = i) f \<noteq> None"
    by (rule jobs_store.updateOne_ok[OF ix]) (use jobs_index f in fastforce)
  then obtain r c' where up: "updateOne (jobs_dr M) c (\<lambda>d. doc_id d = i) f = Some (r, c')" by auto
  with jobs_store.updateOne_key[OF ix up] jobs_store.updateOne_indexed[OF up ix] show ?thesis by blast
qed

lemma write_job_ok:
  assumes "indexed (jobs_dr M) (jobs_collection s)"
  shows "\<exists>c. write_job M i st h s = (Inr (), s\<lparr>jobs_collection := c\<rparr>) \<and>
    set c = apply_where (\<lambda>d. doc_id d = i) (apply_job_set st h) ` set (jobs_collection s) \<and>
    indexed (jobs_dr M) c"
proof -
  have "doc_id (apply_job_set st h d) = doc_id d" for d by (simp add: apply_job_set_def)
  from updateOne_job[OF assms this, where i = i] show ?thesis by (auto simp: write_job_def)
qed

text \<open>
  A run of a job that leaves the jobs alone itself: the job's document gets one set of changes,
  and its history at most one entry more.
\<close>

lemma outcome_set_jobs:
  "outcome_set E cfg job res st s = ((st', es), s') \<Longrightarrow>
     jobs_collection s' = jobs_collection s \<and> length es \<le> 1"
  by (auto simp: outcome_set_def Date_now_def Let_def split: option.splits if_splits)

lemma run_job_writes:
  assumes ix: "indexed (jobs_dr M) (jobs_collection s)" and job: "job0 \<in> set (jobs_collection s)"
    "doc_id job0 = doc_id job" "history job0 = history job"
    and act: "jobs_collection (snd (action job s)) = jobs_collection s"
  shows "\<exists>s' st es. run_job E M cfg action job s = (Inr (), s') \<and> length es \<le> 1 \<and>
    set (jobs_collection s') = apply_where (\<lambda>d. doc_id d = doc_id job) (apply_job_set st (history job @ es))
      ` set (jobs_collection s) \<and> indexed (jobs_dr M) (jobs_collection s')"
proof -
  obtain out s1 where a: "action job s = (out, s1)" by fastforce
  have s1: "jobs_collection s1 = jobs_collection s" using act a by simp
  show ?thesis
  proof (cases out)
    case (Throws err)
    let ?e = "\<lparr>history_time = clock E (tick s1), history_status = FAILED, history_errors = [err]\<rparr>"
    have "indexed (jobs_dr M) (jobs_collection (s1\<lparr>tick := Suc (tick s1)\<rparr>))" using ix s1 by simp
    from write_job_ok[OF this, of "doc_id job" no_set "history job @ [?e]"] obtain c where
      "write_job M (doc_id job) no_set (history job @ [?e]) (s1\<lparr>tick := Suc (tick s1)\<rparr>) =
        (Inr (), s1\<lparr>tick := Suc (tick s1), jobs_collection := c\<rparr>)"
      "set c = apply_where (\<lambda>d. doc_id d = doc_id job) (apply_job_set no_set (history job @ [?e])) ` set (jobs_collection s)"
      "indexed (jobs_dr M) c" using s1 by auto
    then show ?thesis
      using a Throws
      by (intro exI[of _ "s1\<lparr>tick := Suc (tick s1), jobs_collection := c\<rparr>"] exI[of _ no_set] exI[of _ "[?e]"])
        (simp add: run_job_def catch_block_def Date_now_def)
  next
    case (Returns res)
    obtain st0 s2 where 0: "(case period job of None \<Rightarrow> (no_set, s1)
        | Some p \<Rightarrow> if p = 0 then (no_set, s1)
            else (let (now, s2) = Date_now E s1
                  in (no_set\<lparr>set_status := Some PENDING, set_next := Some (now + p)\<rparr>, s2))) = (st0, s2)"
      by fastforce
    then have s2: "jobs_collection s2 = jobs_collection s"
      using s1 by (auto simp: Date_now_def Let_def split: option.splits if_splits)
    obtain st1 es s3 where o: "outcome_set E cfg job res st0 s2 = ((st1, es), s3)"
      by (metis prod.collapse)
    let ?st = "st1\<lparr>set_counter := Some (counter job + 1)\<rparr>"
    from outcome_set_jobs[OF o] s2 have s3: "jobs_collection s3 = jobs_collection s" "length es \<le> 1" by auto
    have f: "findOne (jobs_dr M) (jobs_collection s3) (\<lambda>d. doc_id d = doc_id job) = Some job0"
      by (rule jobs_store.findOne_key) (use ix job s3 in auto)
    from write_job_ok[of s3 "doc_id job" ?st "history job0 @ es"] ix s3(1) obtain c where
      w: "write_job M (doc_id job) ?st (history job0 @ es) s3 = (Inr (), s3\<lparr>jobs_collection := c\<rparr>)"
      "set c = apply_where (\<lambda>d. doc_id d = doc_id job) (apply_job_set ?st (history job0 @ es)) ` set (jobs_collection s)"
      "indexed (jobs_dr M) c" by auto
    have "run_job E M cfg action job s = (Inr (), s3\<lparr>jobs_collection := c\<rparr>)"
      using a Returns 0 o f w(1) by (simp add: run_job_def)
    with w(2,3) s3(2) job(3) show ?thesis
      by (intro exI[of _ "s3\<lparr>jobs_collection := c\<rparr>"] exI[of _ ?st] exI[of _ es]) simp
  qed
qed

lemma job_findOne:
  "indexed (jobs_dr M) c \<Longrightarrow> d \<in> set c \<Longrightarrow> q d \<Longrightarrow> (\<And>e. q e \<Longrightarrow> doc_id e = doc_id d) \<Longrightarrow>
     findOne (jobs_dr M) c q = Some d"
  by (rule jobs_store.findOne_key)

end

text \<open>Jobs of the first list are in the second, with at most \<open>n\<close> more history entries.\<close>

definition jobs_extend :: "nat \<Rightarrow> IJob list \<Rightarrow> IJob list \<Rightarrow> bool" where
  "jobs_extend n c c' \<longleftrightarrow> (\<forall>d \<in> set c. \<exists>d' \<in> set c'. doc_id d' = doc_id d \<and>
     (\<exists>es. history d' = history d @ es \<and> length es \<le> n))"

lemma jobs_extend_refl: "jobs_extend n c c"
  unfolding jobs_extend_def by force

lemma jobs_extend_trans:
  assumes "jobs_extend 0 a b" and "jobs_extend n b c"
  shows "jobs_extend n a c"
  unfolding jobs_extend_def
proof
  fix d assume "d \<in> set a"
  with assms(1) obtain d1 where d1: "d1 \<in> set b" "doc_id d1 = doc_id d" "history d1 = history d"
    by (fastforce simp: jobs_extend_def)
  with assms(2) show "\<exists>d' \<in> set c. doc_id d' = doc_id d \<and> (\<exists>es. history d' = history d @ es \<and> length es \<le> n)"
    unfolding jobs_extend_def by metis
qed

lemma jobs_extend_apply:
  assumes "set c' = apply_where q f ` set c" and "\<And>d. doc_id (f d) = doc_id d"
    and "\<And>d. d \<in> set c \<Longrightarrow> q d \<Longrightarrow> \<exists>es. history (f d) = history d @ es \<and> length es \<le> n"
  shows "jobs_extend n c c'"
  unfolding jobs_extend_def
proof
  fix d assume d: "d \<in> set c"
  then have "apply_where q f d \<in> set c'" using assms(1) by blast
  moreover have "doc_id (apply_where q f d) = doc_id d" using assms(2) by (simp add: apply_where_def)
  moreover have "\<exists>es. history (apply_where q f d) = history d @ es \<and> length es \<le> n"
    using assms(3)[OF d] by (cases "q d") (simp_all add: apply_where_def)
  ultimately show "\<exists>d' \<in> set c'. doc_id d' = doc_id d \<and> (\<exists>es. history d' = history d @ es \<and> length es \<le> n)"
    by blast
qed

context mongo_db
begin

lemma findNextJob_state:
  assumes ix: "indexed (jobs_dr M) (jobs_collection s)" and f: "findNextJob E M cfg s = (r, s')"
  shows "indexed (jobs_dr M) (jobs_collection s') \<and> jobs_extend 0 (jobs_collection s) (jobs_collection s') \<and>
    (\<forall>j. r = Inr (Some j) \<longrightarrow> (\<exists>d \<in> set (jobs_collection s'). doc_id d = doc_id j \<and> history d = history j))"
proof -
  let ?js = "find_many (jobs_dr M) (jobs_collection s) (\<lambda>j. job_status j = PENDING)"
  obtain rs s1 where e: "eligible_jobs E cfg ?js s = (rs, s1)" by fastforce
  from eligible_jobs_state[OF e] obtain t where s1: "s1 = s\<lparr>tick := t\<rparr>" by blast
  show ?thesis
  proof (cases "sort_key (job_key cfg) rs")
    case Nil
    with e f s1 have "s' = s\<lparr>tick := t\<rparr>" "r = Inr None" by (simp_all add: findNextJob_def)
    with ix show ?thesis by (simp add: jobs_extend_refl)
  next
    case (Cons job rest)
    then have "job \<in> set rs" by (metis list.set_intros(1) set_sort)
    from eligible_jobs_sound[OF e this] have job: "job \<in> set (jobs_collection s)"
      by (simp add: jobs_store.find_many_set)
    show ?thesis
    proof (cases "period job")
      case None
      with e f s1 Cons have "s' = s\<lparr>tick := t\<rparr>" "r = Inr (Some job)" by (simp_all add: findNextJob_def)
      with ix job show ?thesis by (auto simp: jobs_extend_refl)
    next
      case (Some p)
      let ?f = "\<lambda>d. d\<lparr>nextExecutionTime := clock E t + p, job_status := PENDING\<rparr> :: IJob"
      have "doc_id (?f d) = doc_id d" for d by simp
      from updateOne_job[OF ix this, where i = "doc_id job"] obtain x c where c:
        "updateOne (jobs_dr M) (jobs_collection s) (\<lambda>d. doc_id d = doc_id job) ?f = Some (x, c)"
        "set c = apply_where (\<lambda>d. doc_id d = doc_id job) ?f ` set (jobs_collection s)"
        "indexed (jobs_dr M) c" by blast
      with e f s1 Cons Some have s': "s' = s\<lparr>tick := Suc t, jobs_collection := c\<rparr>"
        "r = Inr (Some (job\<lparr>nextExecutionTime := clock E t + p\<rparr>))"
        by (simp_all add: findNextJob_def Date_now_def Let_def)
      have "?f job \<in> set c" unfolding c(2) using job by (metis (mono_tags) apply_where_simps(1) image_eqI)
      moreover have "jobs_extend 0 (jobs_collection s) c"
        by (rule jobs_extend_apply[OF c(2)]) simp_all
      ultimately show ?thesis using c(3)
        by (auto simp: s' intro!: bexI[of _ "?f job"])
    qed
  qed
qed

lemma checkForJobs_spec:
  assumes ix: "indexed (jobs_dr M) (jobs_collection s)"
    and act: "\<And>j s. jobs_collection (snd (action j s)) = jobs_collection s"
  shows "\<exists>s'. checkForJobs E M cfg action s = (Inr (), s') \<and> indexed (jobs_dr M) (jobs_collection s') \<and>
    jobs_extend 1 (jobs_collection s) (jobs_collection s')"
proof -
  obtain r s1 where f: "findNextJob E M cfg s = (r, s1)" by fastforce
  note st = findNextJob_state[OF ix f]
  show ?thesis
  proof (cases "\<exists>j. r = Inr (Some j)")
    case False
    with f have "checkForJobs E M cfg action s = (Inr (), s1)"
      by (auto simp: checkForJobs_def split: sum.splits option.splits)
    with st jobs_extend_trans[OF _ jobs_extend_refl] show ?thesis by blast
  next
    case True
    then obtain j where j: "r = Inr (Some j)" by blast
    with st obtain d where d: "d \<in> set (jobs_collection s1)" "doc_id d = doc_id j" "history d = history j"
      by blast
    from st have ix1: "indexed (jobs_dr M) (jobs_collection s1)" by blast
    from run_job_writes[where action = action and job = j, OF ix1 d act] obtain s' u es where w:
      "run_job E M cfg action j s1 = (Inr (), s')" "length es \<le> 1"
      "set (jobs_collection s') = apply_where (\<lambda>d. doc_id d = doc_id j) (apply_job_set u (history j @ es))
        ` set (jobs_collection s1)" "indexed (jobs_dr M) (jobs_collection s')" by blast
    have "jobs_extend 1 (jobs_collection s1) (jobs_collection s')"
    proof (rule jobs_extend_apply[OF w(3)])
      fix x assume "x \<in> set (jobs_collection s1)" "doc_id x = doc_id j"
      with d jobs_store.key_inj[OF ix1] have "x = d" by simp
      with d(3) w(2) show "\<exists>es'. history (apply_job_set u (history j @ es) x) = history x @ es' \<and> length es' \<le> 1"
        by (simp add: apply_job_set_def)
    qed (simp add: apply_job_set_def)
    with st have "jobs_extend 1 (jobs_collection s) (jobs_collection s')" using jobs_extend_trans by blast
    with f j w(1,4) show ?thesis by (simp add: checkForJobs_def)
  qed
qed

end

subsection \<open>A job at rest\<close>

text \<open>
  What can happen to the jobs, seen from the job with the id \<open>i\<close>: everything that writes to
  \<open>jobs_collection\<close> (\<open>createJob\<close>, \<open>editJob\<close>, a tick of any poller, the end of a run that
  started earlier, and the change of pending jobs by \<open>deleteInstance\<close>), and all that leaves the
  collection alone. An edit that gives this very job a new time is left out; the actions the
  pollers run may do all of this too.
\<close>

inductive jobs_step :: "mongo \<Rightarrow> string \<Rightarrow> db \<Rightarrow> db \<Rightarrow> bool" for M :: mongo and i :: string where
  elsewhere: "jobs_collection s' = jobs_collection s \<Longrightarrow> jobs_step M i s s'"
| creates: "jobs_step M i s (snd (createJob E M requester name type nextTime per exec dat params prio meta s))"
| edits: "jobId \<noteq> i \<or> nextTime = None \<Longrightarrow> jobs_step M i s (snd (editJob M jobId prio nextTime per s))"
| ticks: "(\<And>j t. (jobs_step M i)\<^sup>*\<^sup>* t (snd (action j t))) \<Longrightarrow>
    jobs_step M i s (snd (checkForJobs E M cfg action s))"
| ends: "(\<And>t. (jobs_step M i)\<^sup>*\<^sup>* t (snd (action j t))) \<Longrightarrow> doc_id j = i \<longrightarrow> period j = None \<Longrightarrow>
    jobs_step M i s (snd (run_job E M cfg action j s))"
| cancels: "(\<And>d. q d \<Longrightarrow> job_status d = PENDING) \<Longrightarrow> (\<And>d. doc_id (f d) = doc_id d) \<Longrightarrow>
    jobs_step M i s (s\<lparr>jobs_collection := snd (updateMany (jobs_dr M) (jobs_collection s) q f)\<rparr>)"

definition resting :: "mongo \<Rightarrow> string \<Rightarrow> db \<Rightarrow> bool" where
  "resting M i s \<longleftrightarrow> indexed (jobs_dr M) (jobs_collection s) \<and>
     i \<in> doc_id ` set (jobs_collection s) \<and>
     (\<forall>d \<in> set (jobs_collection s). doc_id d = i \<longrightarrow> job_status d \<noteq> PENDING)"

lemma restingD:
  "resting M i s \<Longrightarrow> d \<in> set (jobs_collection s) \<Longrightarrow> doc_id d = i \<Longrightarrow> job_status d \<noteq> PENDING"
  by (simp add: resting_def)

lemma resting_same: "jobs_collection s' = jobs_collection s \<Longrightarrow> resting M i s' = resting M i s"
  by (simp add: resting_def)

lemma resting_apply:
  assumes "resting M i s" and "jobs_collection s' = c" and "set c = apply_where q f ` set (jobs_collection s)"
    and "indexed (jobs_dr M) c" and "\<And>d. doc_id (f d) = doc_id d"
    and "\<And>d. d \<in> set (jobs_collection s) \<Longrightarrow> q d \<Longrightarrow> doc_id d = i \<Longrightarrow> job_status d \<noteq> PENDING \<Longrightarrow>
      job_status (f d) \<noteq> PENDING"
  shows "resting M i s'"
proof -
  have "doc_id (apply_where q f d) = doc_id d" for d by (simp add: apply_where_def assms(5))
  then have "doc_id ` set c = doc_id ` set (jobs_collection s)" unfolding assms(3) by (simp add: image_image)
  moreover have "job_status d \<noteq> PENDING" if "d \<in> set c" "doc_id d = i" for d
  proof -
    from that(1) obtain d0 where d0: "d0 \<in> set (jobs_collection s)" "d = apply_where q f d0"
      unfolding assms(3) by blast
    with that(2) have "doc_id d0 = i" by (simp add: apply_where_def assms(5) split: if_splits)
    with d0 assms(6)[OF d0(1)] restingD[OF assms(1) d0(1)] show ?thesis by (simp add: apply_where_def)
  qed
  ultimately show ?thesis using assms(1,4) by (simp add: resting_def assms(2))
qed

context mongo_db
begin

lemma write_job_resting:
  assumes rest: "resting M i s" and st: "k = i \<longrightarrow> set_status st \<noteq> Some PENDING"
  shows "resting M i (snd (write_job M k st h s)) \<and> fst (write_job M k st h s) = Inr ()"
proof -
  from rest have "indexed (jobs_dr M) (jobs_collection s)" by (simp add: resting_def)
  from write_job_ok[OF this, of k st h] obtain c where c:
    "write_job M k st h s = (Inr (), s\<lparr>jobs_collection := c\<rparr>)"
    "set c = apply_where (\<lambda>d. doc_id d = k) (apply_job_set st h) ` set (jobs_collection s)"
    "indexed (jobs_dr M) c" by blast
  have "resting M i (s\<lparr>jobs_collection := c\<rparr>)"
    by (rule resting_apply[OF rest _ c(2,3)]) (use st in \<open>auto simp: apply_job_set_simps split: option.splits\<close>)
  with c(1) show ?thesis by simp
qed

lemma createJob_resting:
  assumes "resting M i s"
  shows "resting M i (snd (createJob E M requester name type nextTime per exec dat params prio meta s))"
    (is "resting M i ?s'")
proof -
  consider "jobs_collection ?s' = jobs_collection s"
    | t where "insertOne (jobs_dr M) (jobs_collection s) t = Some (jobs_collection ?s')"
    by (cases "createJob E M requester name type nextTime per exec dat params prio meta s")
      (auto simp: createJob_def uuid_def Date_now_def Let_def split: option.splits prod.splits)
  then show ?thesis
  proof cases
    case 1
    with assms show ?thesis by (simp add: resting_same[of ?s' s])
  next
    case 2
    from assms have ix: "indexed (jobs_dr M) (jobs_collection s)" by (simp add: resting_def)
    from jobs_store.insertOne_fresh[OF 2] assms have "doc_id t \<noteq> i" by (auto simp: resting_def)
    with assms jobs_store.insertOne_set[OF 2] jobs_store.insertOne_indexed[OF 2 ix] show ?thesis
      by (simp add: resting_def)
  qed
qed

lemma editJob_resting:
  assumes rest: "resting M i s" and other: "jobId \<noteq> i \<or> nextTime = None"
  shows "resting M i (snd (editJob M jobId prio nextTime per s))"
proof -
  from rest have "indexed (jobs_dr M) (jobs_collection s)" by (simp add: resting_def)
  moreover have id: "\<And>d. doc_id (edit_job_set prio nextTime per d) = doc_id d" by (simp add: edit_job_set_def)
  ultimately obtain r c where c:
    "updateOne (jobs_dr M) (jobs_collection s) (\<lambda>d. doc_id d = jobId) (edit_job_set prio nextTime per) = Some (r, c)"
    "set c = apply_where (\<lambda>d. doc_id d = jobId) (edit_job_set prio nextTime per) ` set (jobs_collection s)"
    "indexed (jobs_dr M) c"
    using updateOne_job[of "jobs_collection s" "edit_job_set prio nextTime per" jobId] by blast
  have "resting M i (s\<lparr>jobs_collection := c\<rparr>)"
    by (rule resting_apply[OF rest _ c(2,3) id]) (use other in \<open>auto simp: edit_job_set_def\<close>)
  with c(1) rest show ?thesis by (auto simp: editJob_def split: option.split)
qed

lemma findNextJob_resting:
  assumes rest: "resting M i s"
  shows "resting M i (snd (findNextJob E M cfg s))"
    and "findNextJob E M cfg s = (Inr (Some j), s') \<Longrightarrow> doc_id j \<noteq> i"
proof -
  from rest have ix: "indexed (jobs_dr M) (jobs_collection s)" by (simp add: resting_def)
  let ?js = "find_many (jobs_dr M) (jobs_collection s) (\<lambda>j. job_status j = PENDING)"
  obtain rs s1 where e: "eligible_jobs E cfg ?js s = (rs, s1)" by fastforce
  from eligible_jobs_state[OF e] obtain t where s1: "s1 = s\<lparr>tick := t\<rparr>" by blast
  show "resting M i (snd (findNextJob E M cfg s))"
  proof (cases "sort_key (job_key cfg) rs")
    case Nil
    with e s1 rest show ?thesis by (simp add: findNextJob_def resting_same[of "s\<lparr>tick := t\<rparr>" s])
  next
    case (Cons job rest')
    then have "job \<in> set rs" by (metis list.set_intros(1) set_sort)
    from eligible_jobs_sound[OF e this] have "doc_id job \<noteq> i"
      using restingD[OF rest, of job] by (auto simp: jobs_store.find_many_set)
    show ?thesis
    proof (cases "period job")
      case None
      with e s1 Cons rest show ?thesis by (simp add: findNextJob_def resting_same[of "s\<lparr>tick := t\<rparr>" s])
    next
      case (Some p)
      let ?f = "\<lambda>d. d\<lparr>nextExecutionTime := clock E t + p, job_status := PENDING\<rparr> :: IJob"
      have id: "doc_id (?f d) = doc_id d" for d by simp
      from updateOne_job[OF ix this, where i = "doc_id job"] obtain x c where c:
        "updateOne (jobs_dr M) (jobs_collection s) (\<lambda>d. doc_id d = doc_id job) ?f = Some (x, c)"
        "set c = apply_where (\<lambda>d. doc_id d = doc_id job) ?f ` set (jobs_collection s)"
        "indexed (jobs_dr M) c" by blast
      have "resting M i (s\<lparr>tick := Suc t, jobs_collection := c\<rparr>)"
        by (rule resting_apply[OF rest _ c(2,3) id]) (use \<open>doc_id job \<noteq> i\<close> in auto)
      with e s1 Cons Some c(1) show ?thesis by (simp add: findNextJob_def Date_now_def Let_def)
    qed
  qed
  show "doc_id j \<noteq> i" if "findNextJob E M cfg s = (Inr (Some j), s')"
    using findNextJob_spec[OF that] restingD[OF rest] by force
qed

lemma catch_block_resting:
  assumes "resting M i s" and "doc_id j = i \<longrightarrow> set_status st \<noteq> Some PENDING"
  shows "resting M i (snd (catch_block E M j st err s))"
  using write_job_resting[where s = "s\<lparr>tick := Suc (tick s)\<rparr>", OF _ assms(2)] assms(1)
  by (simp add: catch_block_def Date_now_def resting_same[of "s\<lparr>tick := Suc (tick s)\<rparr>" s])

text \<open>A run of another job, or of this one when it is not periodic, does not make it pending again.\<close>

lemma outcome_set_status:
  assumes "outcome_set E cfg j res st s = ((st', es), s')" and "set_status st = None" and "period j = None"
  shows "set_status st' \<noteq> Some PENDING"
  using assms by (auto simp: outcome_set_def periodic_def Date_now_def Let_def split: option.splits if_splits)

lemma run_job_resting:
  assumes rest: "resting M i s" and act: "\<And>t. resting M i t \<Longrightarrow> resting M i (snd (action j t))"
    and own: "doc_id j = i \<longrightarrow> period j = None"
  shows "resting M i (snd (run_job E M cfg action j s))"
proof -
  obtain out s1 where a: "action j s = (out, s1)" by fastforce
  from act[OF rest] a have s1: "resting M i s1" by simp
  show ?thesis
  proof (cases out)
    case (Throws err)
    with a catch_block_resting[OF s1, of j no_set] show ?thesis by (simp add: run_job_def no_set_def)
  next
    case (Returns res)
    obtain st0 s2 where 0: "(case period j of None \<Rightarrow> (no_set, s1)
        | Some p \<Rightarrow> if p = 0 then (no_set, s1)
            else (let (now, s2) = Date_now E s1
                  in (no_set\<lparr>set_status := Some PENDING, set_next := Some (now + p)\<rparr>, s2))) = (st0, s2)"
      by fastforce
    then have s2: "jobs_collection s2 = jobs_collection s1" "period j = None \<Longrightarrow> set_status st0 = None"
      by (auto simp: no_set_def Date_now_def Let_def split: option.splits if_splits)
    obtain st1 es s3 where o: "outcome_set E cfg j res st0 s2 = ((st1, es), s3)"
      by (metis prod.collapse)
    let ?st = "st1\<lparr>set_counter := Some (counter j + 1)\<rparr>"
    have own': "doc_id j = i \<longrightarrow> set_status ?st \<noteq> Some PENDING"
      using outcome_set_status[OF o] s2(2) own by simp
    have s3: "resting M i s3" using s1 outcome_set_jobs[OF o] s2(1) by (simp add: resting_def)
    show ?thesis
    proof (cases "findOne (jobs_dr M) (jobs_collection s3) (\<lambda>d. doc_id d = doc_id j)")
      case None
      with a Returns 0 o s3 show ?thesis by (simp add: run_job_def)
    next
      case (Some upd)
      from write_job_resting[OF s3 own', of "history upd @ es"] obtain s4 where
        w: "write_job M (doc_id j) ?st (history upd @ es) s3 = (Inr (), s4)" "resting M i s4"
        by (metis prod.collapse)
      from a Returns 0 o Some w show ?thesis by (simp add: run_job_def)
    qed
  qed
qed

lemma checkForJobs_resting:
  assumes rest: "resting M i s" and act: "\<And>j t. resting M i t \<Longrightarrow> resting M i (snd (action j t))"
  shows "resting M i (snd (checkForJobs E M cfg action s))"
proof -
  obtain r s1 where f: "findNextJob E M cfg s = (r, s1)" by fastforce
  from findNextJob_resting(1)[OF rest] f have s1: "resting M i s1" by (metis snd_conv)
  show ?thesis
  proof (cases "\<exists>j. r = Inr (Some j)")
    case False
    with f s1 show ?thesis by (auto simp: checkForJobs_def split: sum.split option.split)
  next
    case True
    then obtain j where j: "r = Inr (Some j)" by blast
    with findNextJob_resting(2)[OF rest] f have "doc_id j \<noteq> i" by blast
    with run_job_resting[where j = j and action = action and E = E and cfg = cfg, OF s1 act] f j show ?thesis by (simp add: checkForJobs_def)
  qed
qed

lemma steps_preserve: "(\<lambda>x y. S x y \<and> (R x \<longrightarrow> R y))\<^sup>*\<^sup>* x y \<Longrightarrow> R x \<Longrightarrow> R y"
  by (induction rule: rtranclp_induct) blast+

lemma cancels_resting:
  assumes rest: "resting M i s" and q: "\<And>d. q d \<Longrightarrow> job_status d = PENDING" and f: "\<And>d. doc_id (f d) = doc_id d"
  shows "resting M i (s\<lparr>jobs_collection := snd (updateMany (jobs_dr M) (jobs_collection s) q f)\<rparr>)"
proof -
  obtain ok' c where up: "updateMany (jobs_dr M) (jobs_collection s) q f = (ok', c)" by fastforce
  from rest have ix: "indexed (jobs_dr M) (jobs_collection s)" by (simp add: resting_def)
  from jobs_store.updateMany_partial[OF up] obtain A B where ab: "mset (jobs_collection s) = A + B"
    "\<forall>d \<in># A. q d" "mset c = image_mset f A + B" by blast
  then have sets: "set (jobs_collection s) = set_mset A \<union> set_mset B" "set c = f ` set_mset A \<union> set_mset B"
    by (metis set_mset_mset set_mset_union, metis set_image_mset set_mset_mset set_mset_union)
  have A: "doc_id d \<noteq> i" if "d \<in># A" for d
    using restingD[OF rest, of d] ab(2) q that sets(1) by blast
  then have "doc_id d \<noteq> i" if "d \<in> f ` set_mset A" for d
    using that f by (metis imageE)
  with A rest jobs_store.updateMany_indexed[OF up ix] show ?thesis
    unfolding resting_def by (auto simp: up sets)
qed

theorem jobs_step_resting: "jobs_step M i s s' \<Longrightarrow> resting M i s \<Longrightarrow> resting M i s'"
proof (induction rule: jobs_step.induct)
  case (ticks action s E cfg)
  have "resting M i (snd (action j t))" if "resting M i t" for j t
    by (rule steps_preserve[where S = "jobs_step M i" and R = "resting M i", OF ticks(1) that])
  then show ?case by (rule checkForJobs_resting[OF ticks(2)])
next
  case (ends action j s E cfg)
  have "resting M i (snd (action j t))" if "resting M i t" for t
    by (rule steps_preserve[where S = "jobs_step M i" and R = "resting M i", OF ends(1) that])
  then show ?case by (rule run_job_resting[OF ends(3) _ ends(2)])
next
  case (elsewhere s' s)
  then show ?case by (metis resting_same)
next
  case (creates s E requester name type nextTime per exec dat params prio meta)
  then show ?case by (rule createJob_resting)
next
  case (edits jobId nextTime s prio per)
  show ?case by (rule editJob_resting[OF edits(2,1)])
next
  case (cancels q f s)
  show ?case by (rule cancels_resting[OF cancels(3,1,2)])
qed

lemma jobs_steps_resting: "(jobs_step M i)\<^sup>*\<^sup>* s s' \<Longrightarrow> resting M i s \<Longrightarrow> resting M i s'"
  by (induction rule: rtranclp_induct) (auto dest: jobs_step_resting)

lemma never_picked:
  assumes "resting M i s" and "(jobs_step M i)\<^sup>*\<^sup>* s s'" and "findNextJob E M cfg s' = (Inr (Some j), s'')"
  shows "doc_id j \<noteq> i"
  by (rule findNextJob_resting(2)[OF jobs_steps_resting[OF assms(2,1)] assms(3)])

text \<open>An edit that gives the job a time makes it pending, whatever its status.\<close>

lemma editJob_reopens:
  assumes "indexed (jobs_dr M) (jobs_collection s)" and "i \<in> doc_id ` set (jobs_collection s)"
  shows "\<exists>d s'. editJob M i prio (Some t) per s = (Inr d, s') \<and> doc_id d = i \<and> job_status d = PENDING \<and>
    d \<in> set (jobs_collection s')"
proof -
  from assms(2) obtain d0 where d0: "d0 \<in> set (jobs_collection s)" "doc_id d0 = i" by blast
  let ?f = "edit_job_set prio (Some t) per"
  have id: "\<And>d. doc_id (?f d) = doc_id d" by (simp add: edit_job_set_def)
  from updateOne_job[OF assms(1) id, of i] obtain r c where up:
    "updateOne (jobs_dr M) (jobs_collection s) (\<lambda>d. doc_id d = i) ?f = Some (r, c)"
    "set c = apply_where (\<lambda>d. doc_id d = i) ?f ` set (jobs_collection s)" by blast
  from jobs_store.updateOne_key_result[OF assms(1) up(1) d0] have r: "r = Some d0" .
  have f: "findOne (jobs_dr M) (jobs_collection s) (\<lambda>d. doc_id d = i) = Some d0"
    by (rule job_findOne[OF assms(1) d0(1)]) (use d0 in simp_all)
  have "editJob M i prio (Some t) per s = (Inr (?f d0), s\<lparr>jobs_collection := c\<rparr>)"
    using f up(1) r by (simp add: editJob_def)
  moreover have "?f d0 \<in> set c" unfolding up(2) using d0 by (force simp: apply_where_def)
  moreover have "job_status (?f d0) = PENDING" by (simp add: edit_job_set_def)
  ultimately show ?thesis using d0(2) id by simp
qed

lemma resting_reopens:
  "resting M i s \<Longrightarrow>
     \<exists>d s'. editJob M i prio (Some t) per s = (Inr d, s') \<and> doc_id d = i \<and> job_status d = PENDING"
  using editJob_reopens[of s i prio t per] by (auto simp: resting_def)

text \<open>The end of a run of a one-off job whose action reports a success or a failure.\<close>

lemma reported_run:
  assumes ix: "indexed (jobs_dr M) (jobs_collection s)"
    and job: "job \<in> set (jobs_collection s)" "period job = None"
    and act: "action job s = (Returns (Some r), s1)" "jobs_collection s1 = jobs_collection s"
  shows "\<exists>s' t c. run_job E M cfg action job s = (Inr (), s') \<and> s' = s1\<lparr>tick := t, jobs_collection := c\<rparr> \<and>
    resting M (doc_id job) s' \<and>
    (\<forall>d \<in> set (jobs_collection s'). doc_id d = doc_id job \<longrightarrow>
       job_status d = (if successful r then FINISHED else ERROR) \<and> counter d = counter job + 1 \<and>
       failed_count d = (if successful r then failed_count job else Suc (failed_count job)))"
proof -
  obtain st es s3 where o: "outcome_set E cfg job (Some r) no_set s1 = ((st, es), s3)"
    by (metis prod.collapse)
  with job(2) have st: "set_status st = Some (if successful r then FINISHED else ERROR)"
    "\<exists>h. es = [h] \<and> history_status h = (if successful r then SUCCESS else FAILED)" "\<exists>t. s3 = s1\<lparr>tick := t\<rparr>"
    by (auto simp: outcome_set_def periodic_def Date_now_def Let_def no_set_def split: if_splits)
  from st(3) obtain t where t: "s3 = s1\<lparr>tick := t\<rparr>" ..
  let ?st = "st\<lparr>set_counter := Some (counter job + 1)\<rparr>"
  have s3: "jobs_collection s3 = jobs_collection s" using t act(2) by simp
  have f: "findOne (jobs_dr M) (jobs_collection s3) (\<lambda>d. doc_id d = doc_id job) = Some job"
    unfolding s3 by (rule job_findOne[OF ix job(1)]) simp_all
  have "indexed (jobs_dr M) (jobs_collection s3)" using ix s3 by simp
  from write_job_ok[OF this, of "doc_id job" ?st "history job @ es"] obtain c where
    w: "write_job M (doc_id job) ?st (history job @ es) s3 = (Inr (), s3\<lparr>jobs_collection := c\<rparr>)"
    "set c = apply_where (\<lambda>d. doc_id d = doc_id job) (apply_job_set ?st (history job @ es)) ` set (jobs_collection s)"
    "indexed (jobs_dr M) c"
    using s3 by auto
  have run: "run_job E M cfg action job s = (Inr (), s3\<lparr>jobs_collection := c\<rparr>)"
    using job(2) act(1) o f w(1) by (simp add: run_job_def)
  have fields: "job_status d = (if successful r then FINISHED else ERROR) \<and> counter d = counter job + 1 \<and>
      failed_count d = (if successful r then failed_count job else Suc (failed_count job))"
    if "d \<in> set c" "doc_id d = doc_id job" for d
  proof -
    from that(1) w(2) obtain d0 where "d = apply_where (\<lambda>d. doc_id d = doc_id job)
        (apply_job_set ?st (history job @ es)) d0" by blast
    with that(2) have "d = apply_job_set ?st (history job @ es) d0"
      by (simp add: apply_where_def split: if_splits)
    with st(1,2) show ?thesis by (auto simp: apply_job_set_def failed_count_def)
  qed
  have "doc_id (apply_where (\<lambda>d. doc_id d = doc_id job) (apply_job_set ?st (history job @ es)) job) = doc_id job"
    by (simp add: apply_where_def apply_job_set_simps)
  with w(2) job(1) have "doc_id job \<in> doc_id ` set c" by (metis image_eqI)
  then have "resting M (doc_id job) (s3\<lparr>jobs_collection := c\<rparr>)"
    using fields w(3) by (auto simp: resting_def)
  with run fields show ?thesis
    by (intro exI[of _ "s3\<lparr>jobs_collection := c\<rparr>"] exI[of _ t] exI[of _ c]) (simp add: t)
qed

end

subsection \<open>Properties\<close>

definition job0 :: "string \<Rightarrow> int option \<Rightarrow> int \<Rightarrow> int \<Rightarrow> IJob" where
  "job0 i p t prio = \<lparr>doc_id = i, life = life0, metadata = [], job_name = i, nextExecutionTime = t,
     period = p, job_type = DMPAPI, executor = None, job_data = JNull, job_parameters = JNull,
     priority = prio, history = [], counter = 0, job_status = PENDING\<rparr>"

definition jobs0 :: db where
  "jobs0 = db0\<lparr>jobs_collection := [job0 ''low'' None 10 0, job0 ''high'' None 20 5, job0 ''later'' None 9000 9]\<rparr>"

definition cfg0 :: IJobSchedulerConfig where
  "cfg0 = jobSchedulerConfig default_systemConfig"

definition failing_action :: "IJob \<Rightarrow> db \<Rightarrow> action_outcome \<times> db" where
  "failing_action j s = (Returns (Some \<lparr>successful = False, action_error = ''boom''\<rparr>), s)"

lemma jobs0_indexed: "indexed (jobs_dr list_mongo) (jobs_collection jobs0)"
  by (simp add: indexed_def list_mongo_def jobs_indexes_def jobs0_def job0_def)

lemma env0_clock: "mono (clock env0)"
  by (simp add: env0_def mono_def)

text \<open>
  C10. The scheduler only picks a pending job that is periodic, or due and not failed too often;
  and no job that was so when it started comes before it: with priorities in use, every such job
  has a lower priority, or the same priority and no earlier time of execution; without, none has
  an earlier time of execution.
\<close>

theorem scheduler_picks_first:
  assumes "mongo_ok M" and "mono (clock E)" and "findNextJob E M cfg s = (Inr (Some j), s')"
  shows "\<exists>j0 \<in> set (jobs_collection s). job_status j0 = PENDING \<and> doc_id j = doc_id j0 \<and>
    (\<exists>t \<ge> tick s. due cfg (clock E t) j0) \<and>
    (\<forall>k \<in> set (jobs_collection s). job_status k = PENDING \<and> due cfg (clock E (tick s)) k \<longrightarrow>
       (if usePriority cfg
        then priority k < priority j0 \<or>
             priority k = priority j0 \<and> nextExecutionTime j0 \<le> nextExecutionTime k
        else nextExecutionTime j0 \<le> nextExecutionTime k))"
  using mongo_db.findNextJob_spec[OF mongo_db.intro[OF assms(1)] assms(3)] assms(2)
  unfolding job_key_order by blast

theorem scheduler_picks_first_witness:
  "\<exists>s'. findNextJob env0 list_mongo cfg0 jobs0 = (Inr (Some (job0 ''high'' None 20 5)), s') \<and>
    (\<exists>j0 \<in> set (jobs_collection jobs0). job_status j0 = PENDING \<and> doc_id j0 = ''high'')"
proof -
  have "\<exists>s'. findNextJob env0 list_mongo cfg0 jobs0 = (Inr (Some (job0 ''high'' None 20 5)), s')"
    by (simp add: findNextJob_def list_mongo_def list_driver_def jobs0_def db0_def job0_def failed_count_def
        Date_now_def env0_def job_key_def cfg0_def default_systemConfig_def Let_def)
  then obtain s' where f: "findNextJob env0 list_mongo cfg0 jobs0 = (Inr (Some (job0 ''high'' None 20 5)), s')"
    by blast
  from scheduler_picks_first[OF list_mongo_ok env0_clock f] f show ?thesis
    by (auto simp: job0_def)
qed

text \<open>
  C11. A one-off job whose action reports a failure gets the status \<open>ERROR\<close>, one more attempt on its
  counter and one failure in its history. Although the poller sets a new time for it while attempts
  are left (\<open>poller.ts\<close> means to run it again), no scheduler, whatever its configuration, picks it
  from then on: whatever is done to the jobs (new jobs, edits of other jobs, ticks of pollers, ends
  of overlapping runs, cancellations), it stays off the pending jobs, until an \<open>editJob\<close> of this
  very job with a time makes it pending again.
\<close>

theorem failed_job_never_retried:
  assumes "mongo_ok M" and "indexed (jobs_dr M) (jobs_collection s)"
    and "job \<in> set (jobs_collection s)" and "period job = None"
    and "action job s = (Returns (Some r), s1)" and "jobs_collection s1 = jobs_collection s"
    and "\<not> successful r"
  shows "\<exists>s'. run_job E M cfg action job s = (Inr (), s') \<and>
    (\<forall>d \<in> set (jobs_collection s'). doc_id d = doc_id job \<longrightarrow> job_status d = ERROR \<and>
       counter d = counter job + 1 \<and> failed_count d = Suc (failed_count job)) \<and>
    (\<forall>s2. (jobs_step M (doc_id job))\<^sup>*\<^sup>* s' s2 \<longrightarrow>
       (\<forall>E' cfg' j s3. findNextJob E' M cfg' s2 = (Inr (Some j), s3) \<longrightarrow> doc_id j \<noteq> doc_id job) \<and>
       (\<forall>prio t per. \<exists>d s3. editJob M (doc_id job) prio (Some t) per s2 = (Inr d, s3) \<and>
          doc_id d = doc_id job \<and> job_status d = PENDING))"
proof -
  note db = mongo_db.intro[OF assms(1)]
  from mongo_db.reported_run[where action = action and E = E and cfg = cfg, OF db assms(2-6)] assms(7) obtain s' where s':
    "run_job E M cfg action job s = (Inr (), s')" "resting M (doc_id job) s'"
    "\<forall>d \<in> set (jobs_collection s'). doc_id d = doc_id job \<longrightarrow> job_status d = ERROR \<and>
       counter d = counter job + 1 \<and> failed_count d = Suc (failed_count job)" by auto
  have "resting M (doc_id job) s2" if "(jobs_step M (doc_id job))\<^sup>*\<^sup>* s' s2" for s2
    by (rule mongo_db.jobs_steps_resting[OF db that s'(2)])
  with mongo_db.never_picked[OF db s'(2)] mongo_db.resting_reopens[OF db] s'(1,3) show ?thesis by metis
qed

theorem failed_job_never_retried_witness:
  "\<exists>s'. run_job env0 list_mongo cfg0 failing_action (job0 ''high'' None 20 5) jobs0 = (Inr (), s') \<and>
    (\<forall>d \<in> set (jobs_collection s'). doc_id d = ''high'' \<longrightarrow> job_status d = ERROR) \<and>
    (\<forall>j s3. findNextJob env0 list_mongo cfg0 (s'\<lparr>tick := 9999\<rparr>) = (Inr (Some j), s3) \<longrightarrow> doc_id j \<noteq> ''high'')"
proof -
  have "job0 ''high'' None 20 5 \<in> set (jobs_collection jobs0)" by (simp add: jobs0_def)
  from failed_job_never_retried[OF list_mongo_ok jobs0_indexed this _ _ refl, of failing_action _ env0 cfg0]
  obtain s' where s': "run_job env0 list_mongo cfg0 failing_action (job0 ''high'' None 20 5) jobs0 = (Inr (), s')"
    "\<forall>d \<in> set (jobs_collection s'). doc_id d = ''high'' \<longrightarrow> job_status d = ERROR"
    "\<And>s2 E' cfg' j s3. (jobs_step list_mongo ''high'')\<^sup>*\<^sup>* s' s2 \<Longrightarrow>
       findNextJob E' list_mongo cfg' s2 = (Inr (Some j), s3) \<Longrightarrow> doc_id j \<noteq> ''high''"
    by (fastforce simp: job0_def failing_action_def)
  have "(jobs_step list_mongo ''high'')\<^sup>*\<^sup>* s' (s'\<lparr>tick := 9999\<rparr>)"
    by (rule r_into_rtranclp[of "jobs_step list_mongo ''high''"]) (simp add: jobs_step.elsewhere)
  from s'(1,2) s'(3)[OF this] show ?thesis by blast
qed

text \<open>
  A tick of the poller, with an action that leaves the jobs alone, returns without an error
  whatever the action does; it keeps every job and extends the history of each by at most one
  entry.
\<close>

theorem poll_appends_history:
  assumes "mongo_ok M" and "indexed (jobs_dr M) (jobs_collection s)"
    and "\<And>j s. jobs_collection (snd (action j s)) = jobs_collection s"
  shows "\<exists>s'. checkForJobs E M cfg action s = (Inr (), s') \<and> indexed (jobs_dr M) (jobs_collection s') \<and>
    (\<forall>d \<in> set (jobs_collection s). \<exists>d' \<in> set (jobs_collection s'). doc_id d' = doc_id d \<and>
       (\<exists>es. history d' = history d @ es \<and> length es \<le> 1))"
  using mongo_db.checkForJobs_spec[OF mongo_db.intro[OF assms(1)] assms(2,3)]
  unfolding jobs_extend_def .

theorem poll_appends_history_witness:
  "\<exists>s'. checkForJobs env0 list_mongo cfg0 failing_action jobs0 = (Inr (), s') \<and>
    (\<exists>d' \<in> set (jobs_collection s'). doc_id d' = ''high'' \<and> length (history d') \<le> 1)"
proof -
  have "jobs_collection (snd (failing_action j s)) = jobs_collection s" for j s
    by (simp add: failing_action_def)
  from poll_appends_history[where action = failing_action and E = env0 and cfg = cfg0,
      OF list_mongo_ok jobs0_indexed this] obtain s' where
    s': "checkForJobs env0 list_mongo cfg0 failing_action jobs0 = (Inr (), s')"
      "\<forall>d \<in> set (jobs_collection jobs0). \<exists>d' \<in> set (jobs_collection s'). doc_id d' = doc_id d \<and>
         (\<exists>es. history d' = history d @ es \<and> length es \<le> 1)" by blast
  have "job0 ''high'' None 20 5 \<in> set (jobs_collection jobs0)" by (simp add: jobs0_def)
  with s'(2) have "\<exists>d' \<in> set (jobs_collection s'). doc_id d' = ''high'' \<and> length (history d') \<le> 1"
    by (fastforce simp: job0_def)
  with s'(1) show ?thesis by blast
qed

end
