(* ===== verification/LogThrottler.thy ===== *)
theory LogThrottler
  imports Prelude
begin

section \<open>Throttled logging (\<open>logThrottler.ts\<close>)\<close>

text \<open>
  The class \<open>LogThrottler\<close>: one record per key counts its messages and remembers when the last
  of them was written. The clock is an argument, the line written (if any) a result.
\<close>

subsection \<open>Messages\<close>

fun decimal :: "nat \<Rightarrow> string" where
  "decimal n = (if n < 10 then [''0123456789'' ! n] else decimal (n div 10) @ [''0123456789'' ! (n mod 10)])"

declare decimal.simps [simp del]

definition show_int :: "int \<Rightarrow> string" where
  "show_int i = (if i < 0 then CHR ''-'' # decimal (nat (- i)) else decimal (nat i))"

definition formatDuration :: "int \<Rightarrow> string" where
  "formatDuration ms =
     (let seconds = ms div 1000; minutes = seconds div 60; hours = minutes div 60
      in if hours > 0 then show_int hours @ ''h '' @ show_int (minutes mod 60) @ ''m''
         else if minutes > 0 then show_int minutes @ ''m '' @ show_int (seconds mod 60) @ ''s''
         else show_int seconds @ ''s'')"

subsection \<open>The throttle\<close>

record ErrorRecord =
  record_count :: int
  lastLogged :: int
  firstSeen :: int
  record_message :: string

type_synonym errorRecords = "string \<Rightarrow> ErrorRecord option"

datatype log_level = Error_Level | Warn_Level | Info_Level

record throttle_options =
  initialLogInterval :: "int option"
  subsequentLogInterval :: "int option"
  maxOccurrences :: "int option"
  summarizeInterval :: "int option"

definition default_options :: throttle_options where
  "default_options = \<lparr>initialLogInterval = None, subsequentLogInterval = None,
     maxOccurrences = None, summarizeInterval = None\<rparr>"

text \<open>The defaults, overridden by what the caller passes.\<close>

definition initial_interval :: "throttle_options \<Rightarrow> int" where
  "initial_interval opts = nullish (initialLogInterval opts) 60000"

definition subsequent_interval :: "throttle_options \<Rightarrow> int" where
  "subsequent_interval opts = nullish (subsequentLogInterval opts) 300000"

definition max_occurrences :: "throttle_options \<Rightarrow> int" where
  "max_occurrences opts = nullish (maxOccurrences opts) 10"

definition summarize_interval :: "throttle_options \<Rightarrow> int" where
  "summarize_interval opts = nullish (summarizeInterval opts) 1800000"

text \<open>Whether a record, already counted, is due for a line.\<close>

definition shouldLog :: "throttle_options \<Rightarrow> int \<Rightarrow> ErrorRecord \<Rightarrow> bool" where
  "shouldLog opts now r \<longleftrightarrow>
     (if record_count r = 1 then True
      else
        (let timeSinceLastLog = now - lastLogged r;
             logInterval = (if record_count r \<le> max_occurrences opts then initial_interval opts
                            else subsequent_interval opts)
         in timeSinceLastLog \<ge> logInterval \<or>
            (now - firstSeen r \<ge> summarize_interval opts \<and> now - lastLogged r \<ge> summarize_interval opts)))"

definition log_message :: "string \<Rightarrow> int \<Rightarrow> ErrorRecord \<Rightarrow> string" where
  "log_message message now r =
     (if record_count r > 1
      then message @ '' (occurred '' @ show_int (record_count r) @ '' times in the last '' @
           formatDuration (now - firstSeen r) @ '')''
      else message)"

definition throttledLog ::
    "int \<Rightarrow> string \<Rightarrow> string \<Rightarrow> log_level \<Rightarrow> throttle_options \<Rightarrow> errorRecords
     \<Rightarrow> (log_level \<times> string) option \<times> errorRecords" where
  "throttledLog now key message level opts st =
     (let r0 = (case st key of Some r \<Rightarrow> r
          | None \<Rightarrow> \<lparr>record_count = 0, lastLogged = 0, firstSeen = now, record_message = message\<rparr>);
          r = r0\<lparr>record_count := record_count r0 + 1\<rparr>
      in if shouldLog opts now r
         then (Some (level, log_message message now r), st(key \<mapsto> r\<lparr>lastLogged := now\<rparr>))
         else (None, st(key \<mapsto> r)))"

definition resetTracking :: "string \<Rightarrow> errorRecords \<Rightarrow> errorRecords" where
  "resetTracking key st = st(key := None)"

subsection \<open>Runs\<close>

text \<open>A run is a list of calls; its lines for a key are their times and texts.\<close>

datatype log_call =
    Throttled (call_time: int) (call_key: string) (call_message: string) (call_level: log_level)
      (call_options: throttle_options)
  | Reset (call_key: string)

fun log_lines :: "string \<Rightarrow> log_call list \<Rightarrow> errorRecords \<Rightarrow> (int \<times> string) list" where
  "log_lines k [] st = []"
| "log_lines k (Reset key # cs) st = log_lines k cs (resetTracking key st)"
| "log_lines k (Throttled now key message level opts # cs) st =
     (case throttledLog now key message level opts st of
        (Some (_, l), st') \<Rightarrow> (if key = k then [(now, l)] else []) @ log_lines k cs st'
      | (None, st') \<Rightarrow> log_lines k cs st')"

fun after :: "log_call list \<Rightarrow> errorRecords \<Rightarrow> errorRecords" where
  "after [] st = st"
| "after (Reset key # cs) st = after cs (resetTracking key st)"
| "after (Throttled now key message level opts # cs) st =
     after cs (snd (throttledLog now key message level opts st))"

text \<open>The options of a call keep the lines at least \<open>d\<close> milliseconds apart.\<close>

definition intervals_at_least :: "int \<Rightarrow> throttle_options \<Rightarrow> bool" where
  "intervals_at_least d opts \<longleftrightarrow>
     d \<le> initial_interval opts \<and> d \<le> subsequent_interval opts \<and> d \<le> summarize_interval opts"

fun spaced :: "string \<Rightarrow> int \<Rightarrow> log_call \<Rightarrow> bool" where
  "spaced k d (Reset key) \<longleftrightarrow> key \<noteq> k"
| "spaced k d (Throttled now key message level opts) \<longleftrightarrow> (key = k \<longrightarrow> intervals_at_least d opts)"

lemma shouldLog_gap:
  assumes "shouldLog opts now r" and "record_count r \<noteq> 1" and "intervals_at_least d opts"
  shows "lastLogged r + d \<le> now"
  using assms by (auto simp: shouldLog_def intervals_at_least_def Let_def split: if_splits)

lemma resetTracking_other [simp]: "key \<noteq> k \<Longrightarrow> resetTracking key st k = st k"
  by (simp add: resetTracking_def)

lemma throttledLog_other:
  "key \<noteq> k \<Longrightarrow> throttledLog now key message level opts st = (l, st') \<Longrightarrow> st' k = st k"
  by (auto simp: throttledLog_def Let_def split: if_splits)

lemma throttledLog_tracked:
  assumes "st key = Some r" and "throttledLog now key message level opts st = (l, st')"
  shows "st' key = Some (r\<lparr>record_count := record_count r + 1,
           lastLogged := (if l = None then lastLogged r else now)\<rparr>)"
    and "l \<noteq> None \<longleftrightarrow> shouldLog opts now (r\<lparr>record_count := record_count r + 1\<rparr>)"
  using assms by (auto simp: throttledLog_def Let_def split: if_splits)

lemma throttledLog_first:
  assumes "st key = None"
  shows "throttledLog now key message level opts st =
    (Some (level, message), st(key \<mapsto> \<lparr>record_count = 1, lastLogged = now, firstSeen = now, record_message = message\<rparr>))"
  using assms by (simp add: throttledLog_def shouldLog_def log_message_def)

lemma lines_after:
  assumes "\<forall>c \<in> set cs. spaced k d c" and "st k = Some r" and "1 \<le> record_count r" and "0 \<le> d"
  shows "(\<forall>x \<in> set (log_lines k cs st). lastLogged r + d \<le> fst x) \<and>
    sorted_wrt (\<lambda>x y. fst x + d \<le> fst y) (log_lines k cs st)"
  using assms(1-3)
proof (induction cs arbitrary: st r)
  case (Cons c cs)
  show ?case
  proof (cases c)
    case (Reset key)
    with Cons.prems Cons.IH[of "resetTracking key st" r] show ?thesis by simp
  next
    case (Throttled now key message level opts)
    obtain l st' where t: "throttledLog now key message level opts st = (l, st')" by fastforce
    show ?thesis
    proof (cases "key = k")
      case False
      with t Cons.prems throttledLog_other[OF False t] have "st' k = Some r" by simp
      with Cons.IH[of st' r] Cons.prems have IH: "(\<forall>x \<in> set (log_lines k cs st'). lastLogged r + d \<le> fst x) \<and>
        sorted_wrt (\<lambda>x y. fst x + d \<le> fst y) (log_lines k cs st')" by simp
      have "log_lines k (c # cs) st = log_lines k cs st'"
        using t Throttled False by (cases l) auto
      with IH show ?thesis by simp
    next
      case True
      note tr = throttledLog_tracked[OF _ t, unfolded True, OF Cons.prems(2)]
      let ?r = "r\<lparr>record_count := record_count r + 1, lastLogged := (if l = None then lastLogged r else now)\<rparr>"
      have IH: "(\<forall>x \<in> set (log_lines k cs st'). lastLogged ?r + d \<le> fst x) \<and>
        sorted_wrt (\<lambda>x y. fst x + d \<le> fst y) (log_lines k cs st')"
        using Cons.IH[of st' ?r] tr(1) Cons.prems by simp
      show ?thesis
      proof (cases l)
        case None
        with IH t Throttled show ?thesis by simp
      next
        case (Some a)
        have "intervals_at_least d opts" using Cons.prems(1) Throttled True by simp
        from shouldLog_gap[OF _ _ this] tr(2) Some Cons.prems(3)
        have "lastLogged r + d \<le> now" by fastforce
        with IH t Some Throttled True assms(4) show ?thesis by (cases a) fastforce
      qed
    qed
  qed
qed simp

lemma lines_spaced:
  assumes "\<forall>c \<in> set cs. spaced k d c" and "st k = None" and "0 \<le> d"
  shows "sorted_wrt (\<lambda>x y. fst x + d \<le> fst y) (log_lines k cs st)"
  using assms(1,2)
proof (induction cs arbitrary: st)
  case (Cons c cs)
  show ?case
  proof (cases c)
    case (Reset key)
    with Cons show ?thesis by simp
  next
    case (Throttled now key message level opts)
    obtain l st' where t: "throttledLog now key message level opts st = (l, st')" by fastforce
    show ?thesis
    proof (cases "key = k")
      case False
      with t Cons.prems throttledLog_other[OF False t] have "st' k = None" by simp
      with Cons t Throttled False show ?thesis by (cases l) auto
    next
      case True
      with Cons.prems(2) throttledLog_first have t':
        "throttledLog now key message level opts st = (Some (level, message),
          st(key \<mapsto> \<lparr>record_count = 1, lastLogged = now, firstSeen = now, record_message = message\<rparr>))" by blast
      from lines_after[where st = "st(key \<mapsto> \<lparr>record_count = 1, lastLogged = now, firstSeen = now, record_message = message\<rparr>)"
          and cs = cs and k = k and d = d] Cons.prems(1) True assms(3)
      show ?thesis using t' Throttled by simp
    qed
  qed
qed simp

text \<open>Numbers that are at least \<open>d\<close> apart, in a window.\<close>

lemma spaced_window:
  assumes "sorted_wrt (\<lambda>x y. x + d \<le> y) ts" and "0 < d" and "\<forall>t \<in> set ts. a \<le> t \<and> t \<le> b" and "ts \<noteq> []"
  shows "int (length ts - 1) * d \<le> b - a"
  using assms(1,3,4)
proof (induction ts arbitrary: a)
  case (Cons t ts)
  show ?case
  proof (cases "ts = []")
    case False
    have "\<forall>x \<in> set ts. t + d \<le> x \<and> x \<le> b" using Cons.prems by simp
    with Cons.IH[of "t + d"] Cons.prems(1) False have "int (length ts - 1) * d \<le> b - (t + d)" by simp
    moreover have "a \<le> t" using Cons.prems(2) by simp
    moreover have "int (length ts) * d = int (length ts - 1) * d + d"
      using False by (cases ts) (simp_all add: algebra_simps)
    ultimately show ?thesis by simp
  qed (use Cons.prems in auto)
qed simp

text \<open>The number of calls of a key since it was last reset.\<close>

lemma after_count:
  assumes "st k = None" and "\<forall>c \<in> set cs. c \<noteq> Reset k"
  shows "after cs st k = None \<and> (\<forall>c \<in> set cs. call_key c \<noteq> k) \<or>
    (\<exists>r. after cs st k = Some r \<and> record_count r = int (length (filter (\<lambda>c. call_key c = k) cs)))"
proof -
  have "(st k = None \<or> (\<exists>r. st k = Some r \<and> record_count r = int n)) \<Longrightarrow> (st k = None \<longrightarrow> n = 0) \<Longrightarrow>
    after cs st k = None \<and> st k = None \<and> (\<forall>c \<in> set cs. call_key c \<noteq> k) \<or>
    (\<exists>r. after cs st k = Some r \<and> record_count r = int (n + length (filter (\<lambda>c. call_key c = k) cs)))" for n
    using assms(2)
  proof (induction cs st arbitrary: n rule: after.induct)
    case (2 key cs st)
    then show ?case by simp
  next
    case (3 now key message level opts cs st)
    obtain l st' where t: "throttledLog now key message level opts st = (l, st')" by fastforce
    show ?case
    proof (cases "key = k")
      case False
      with throttledLog_other[OF False t] "3.IH"[of n] "3.prems" t show ?thesis by simp
    next
      case True
      have "\<exists>r. st' k = Some r \<and> record_count r = int (Suc n)"
        using "3.prems"(1,2) t True by (auto simp: throttledLog_def Let_def split: if_splits)
      with "3.IH"[of "Suc n"] "3.prems" t True show ?thesis by auto
    qed
  qed auto
  from this[of 0] assms(1) show ?thesis by auto
qed

lemma after_positive:
  assumes "\<And>r. st k = Some r \<Longrightarrow> 1 \<le> record_count r" and "after cs st k = Some r"
  shows "1 \<le> record_count r"
  using assms
proof (induction cs st rule: after.induct)
  case (2 key cs st)
  have "1 \<le> record_count r" if "resetTracking key st k = Some r" for r
    using that "2.prems"(1) by (simp add: resetTracking_def split: if_splits)
  with "2.IH" "2.prems"(2) show ?case by simp
next
  case (3 now key message level opts cs st)
  obtain l st' where t: "throttledLog now key message level opts st = (l, st')" by fastforce
  have "1 \<le> record_count r" if "st' k = Some r" for r
  proof (cases "key = k")
    case False
    with throttledLog_other[OF False t] "3.prems"(1) that show ?thesis by simp
  next
    case True
    show ?thesis
    proof (cases "st k")
      case None
      with throttledLog_first[of st key] t True that show ?thesis by auto
    next
      case (Some r0)
      with throttledLog_tracked(1)[OF _ t] True that "3.prems"(1) show ?thesis by fastforce
    qed
  qed
  with "3.IH" "3.prems"(2) t show ?case by simp
qed simp

subsection \<open>Properties\<close>

definition opts0 :: throttle_options where
  "opts0 = default_options\<lparr>maxOccurrences := Some 2\<rparr>"

text \<open>
  Throttling holds: as long as a key is not reset, two lines of it are at least the smallest of
  the intervals apart, whatever the clock does in between; so in a window of length \<open>b - a\<close> at
  most \<open>(b - a) / d + 1\<close> log_lines are written.
\<close>

theorem throttled_lines_spaced:
  assumes "st k = None" and "\<forall>c \<in> set cs. spaced k d c" and "0 < d"
    and "\<forall>x \<in> set (log_lines k cs st). a \<le> fst x \<and> fst x \<le> b" and "a \<le> b"
  shows "sorted_wrt (\<lambda>x y. fst x + d \<le> fst y) (log_lines k cs st) \<and>
    int (length (log_lines k cs st)) \<le> (b - a) div d + 1"
proof -
  from lines_spaced[where k = k and st = st, OF assms(2,1)] assms(3) have s: "sorted_wrt (\<lambda>x y. fst x + d \<le> fst y) (log_lines k cs st)" by simp
  then have m: "sorted_wrt (\<lambda>x y. x + d \<le> y) (map fst (log_lines k cs st))" by (simp add: sorted_wrt_map)
  show ?thesis
  proof (cases "log_lines k cs st = []")
    case True
    then show ?thesis using assms(3,5) by (simp add: pos_imp_zdiv_nonneg_iff)
  next
    case False
    with spaced_window[OF m assms(3), of a b] assms(4)
    have "int (length (log_lines k cs st) - 1) * d \<le> b - a" by simp
    then have "int (length (log_lines k cs st) - 1) \<le> (b - a) div d"
      using zdiv_mono1[OF _ assms(3)] assms(3) by fastforce
    with s show ?thesis by linarith
  qed
qed

theorem throttled_lines_spaced_witness:
  "log_lines ''k'' [Throttled 0 ''k'' ''m'' Warn_Level opts0, Throttled 59999 ''k'' ''m'' Warn_Level opts0,
      Throttled 310000 ''k'' ''m'' Warn_Level opts0] Map.empty =
     [(0, ''m''), (310000, ''m (occurred 3 times in the last 5m 10s)'')] \<and>
   int (length (log_lines ''k'' [Throttled 0 ''k'' ''m'' Warn_Level opts0, Throttled 59999 ''k'' ''m'' Warn_Level opts0,
      Throttled 310000 ''k'' ''m'' Warn_Level opts0] Map.empty)) \<le> 310000 div 60000 + 1"
proof -
  let ?cs = "[Throttled 0 ''k'' ''m'' Warn_Level opts0, Throttled 59999 ''k'' ''m'' Warn_Level opts0,
      Throttled 310000 ''k'' ''m'' Warn_Level opts0]"
  have l: "log_lines ''k'' ?cs Map.empty = [(0, ''m''), (310000, ''m (occurred 3 times in the last 5m 10s)'')]"
    by (simp add: throttledLog_def shouldLog_def log_message_def opts0_def default_options_def
        initial_interval_def subsequent_interval_def max_occurrences_def summarize_interval_def
        formatDuration_def show_int_def decimal.simps)
  have "\<forall>c \<in> set ?cs. spaced ''k'' 60000 c"
    by (simp add: intervals_at_least_def opts0_def default_options_def initial_interval_def
        subsequent_interval_def summarize_interval_def)
  from throttled_lines_spaced[OF _ this, of Map.empty 0 310000] l show ?thesis by simp
qed

text \<open>
  No message is lost to the throttle for ever: the first message of a key is written as it
  is; and after any run without a reset of the key, a message that comes at least an initial and
  a subsequent interval after the last line is written, with the number of all messages of the
  key so far.
\<close>

theorem throttled_message_returns:
  assumes "st k = None" and "\<forall>c \<in> set cs. c \<noteq> Reset k" and "after cs st k = Some r"
    and "lastLogged r + initial_interval opts \<le> now" and "lastLogged r + subsequent_interval opts \<le> now"
  shows "\<exists>st'. throttledLog now k message level opts (after cs st) =
      (Some (level, message @ '' (occurred '' @
        show_int (int (length (filter (\<lambda>c. call_key c = k) cs)) + 1) @ '' times in the last '' @
        formatDuration (now - firstSeen r) @ '')''), st') \<and>
    log_lines k [Throttled now k message level opts] st = [(now, message)]"
proof -
  from after_count[where k = k and st = st, OF assms(1,2)] assms(3)
  have n: "record_count r = int (length (filter (\<lambda>c. call_key c = k) cs))" by simp
  have "1 \<le> record_count r"
    by (rule after_positive[OF _ assms(3)]) (simp add: assms(1))
  then have "shouldLog opts now (r\<lparr>record_count := record_count r + 1\<rparr>)"
    using assms(4,5) by (simp add: shouldLog_def Let_def)
  with assms(3) n \<open>1 \<le> record_count r\<close> have "\<exists>st'. throttledLog now k message level opts (after cs st) =
      (Some (level, message @ '' (occurred '' @
        show_int (int (length (filter (\<lambda>c. call_key c = k) cs)) + 1) @ '' times in the last '' @
        formatDuration (now - firstSeen r) @ '')''), st')"
    by (auto simp: throttledLog_def log_message_def Let_def)
  moreover have "log_lines k [Throttled now k message level opts] st = [(now, message)]"
    by (simp add: throttledLog_first[where st = st and key = k, OF assms(1)])
  ultimately show ?thesis by blast
qed

theorem throttled_message_returns_witness:
  "\<exists>st'. throttledLog 400000 ''k'' ''m'' Error_Level default_options
     (after [Throttled 0 ''k'' ''m'' Warn_Level opts0, Throttled 5 ''j'' ''x'' Warn_Level opts0,
        Throttled 59999 ''k'' ''m'' Warn_Level opts0] Map.empty) =
   (Some (Error_Level, ''m (occurred 3 times in the last 6m 40s)''), st')"
proof -
  let ?cs = "[Throttled 0 ''k'' ''m'' Warn_Level opts0, Throttled 5 ''j'' ''x'' Warn_Level opts0,
        Throttled 59999 ''k'' ''m'' Warn_Level opts0]"
  have a: "after ?cs Map.empty ''k'' =
    Some \<lparr>record_count = 2, lastLogged = 0, firstSeen = 0, record_message = ''m''\<rparr>"
    by (simp add: throttledLog_def shouldLog_def log_message_def opts0_def default_options_def
        initial_interval_def subsequent_interval_def max_occurrences_def summarize_interval_def)
  have "\<forall>c \<in> set ?cs. c \<noteq> Reset ''k''" by simp
  from throttled_message_returns[OF _ this a, of default_options 400000 "''m''" Error_Level] show ?thesis
    by (simp add: default_options_def initial_interval_def subsequent_interval_def
        formatDuration_def show_int_def decimal.simps)
qed

end
