(* ===== verification/JsNumber.thy ===== *)
theory JsNumber
  imports Prelude
begin

section \<open>Reading numbers (\<open>parseInt\<close>, \<open>parseFloat\<close>)\<close>

text \<open>
  The two functions of the language that turn the longest numeric prefix of a string into a number.
  The result is exact: the rounding to a double is not modelled.
\<close>

definition is_js_space :: "char \<Rightarrow> bool" where
  "is_js_space c \<longleftrightarrow> (of_char c :: nat) \<in> {9, 10, 11, 12, 13, 32, 160}"

text \<open>The value of a digit, up to base 16.\<close>

definition digit_value :: "char \<Rightarrow> nat option" where
  "digit_value c =
     (let n = (of_char c :: nat)
      in if 48 \<le> n \<and> n \<le> 57 then Some (n - 48)
         else if 97 \<le> n \<and> n \<le> 102 then Some (n - 87)
         else if 65 \<le> n \<and> n \<le> 70 then Some (n - 55)
         else None)"

fun digits_prefix :: "nat \<Rightarrow> string \<Rightarrow> nat list" where
  "digits_prefix base [] = []"
| "digits_prefix base (c # cs) =
     (case digit_value c of
        None \<Rightarrow> []
      | Some d \<Rightarrow> if d < base then d # digits_prefix base cs else [])"

definition nat_of_digits :: "nat \<Rightarrow> nat list \<Rightarrow> nat" where
  "nat_of_digits base ds = foldl (\<lambda>a d. a * base + d) 0 ds"

text \<open>A sign, and whether it is negative.\<close>

fun read_sign :: "string \<Rightarrow> bool \<times> string" where
  "read_sign [] = (False, [])"
| "read_sign (c # cs) =
     (if c = CHR ''-'' then (True, cs) else if c = CHR ''+'' then (False, cs) else (False, c # cs))"

definition with_sign :: "bool \<Rightarrow> rat \<Rightarrow> rat" where
  "with_sign neg x = (if neg then - x else x)"

text \<open>\<open>parseInt(s, 10)\<close>.\<close>

definition parseInt10 :: "string \<Rightarrow> jnum" where
  "parseInt10 s =
     (let (neg, t) = read_sign (dropWhile is_js_space s);
          ds = digits_prefix 10 t
      in if ds = [] then NaN else Fin (with_sign neg (of_nat (nat_of_digits 10 ds))))"

text \<open>\<open>parseInt(s)\<close>: the prefix \<open>0x\<close> selects base 16.\<close>

definition parseInt :: "string \<Rightarrow> jnum" where
  "parseInt s =
     (let (neg, t) = read_sign (dropWhile is_js_space s);
          hex = (take 2 t = ''0x'' \<or> take 2 t = ''0X'');
          base = (if hex then 16 else 10);
          ds = digits_prefix base (if hex then drop 2 t else t)
      in if ds = [] then NaN else Fin (with_sign neg (of_nat (nat_of_digits base ds))))"

text \<open>
  The longest prefix that is an unsigned decimal number (\<open>None\<close> without a digit), and the rest.
\<close>

definition scan_decimal :: "string \<Rightarrow> (rat \<times> string) option" where
  "scan_decimal t =
     (let ds1 = digits_prefix 10 t;
          t1 = drop (length ds1) t;
          dot = (t1 \<noteq> [] \<and> hd t1 = CHR ''.'');
          ds2 = (if dot then digits_prefix 10 (tl t1) else []);
          t2 = (if dot then drop (length ds2) (tl t1) else t1);
          mantissa = of_nat (nat_of_digits 10 (ds1 @ ds2)) / 10 ^ length ds2 :: rat;
          expo = (t2 \<noteq> [] \<and> (hd t2 = CHR ''e'' \<or> hd t2 = CHR ''E''));
          (eneg, u) = (if expo then read_sign (tl t2) else (False, []));
          es = digits_prefix 10 u;
          k = nat_of_digits 10 es
      in if ds1 = [] \<and> ds2 = [] then None
         else if es = [] then Some (mantissa, t2)
         else Some (if eneg then mantissa / 10 ^ k else mantissa * 10 ^ k, drop (length es) u))"

definition parseFloat :: "string \<Rightarrow> jnum" where
  "parseFloat s =
     (let (neg, t) = read_sign (dropWhile is_js_space s) in
      if take 8 t = ''Infinity'' then (if neg then NegInf else PosInf)
      else (case scan_decimal t of None \<Rightarrow> NaN | Some (x, rest) \<Rightarrow> Fin (with_sign neg x)))"

text \<open>
  \<open>Number(s)\<close>: the whole string, without the space around it, has to be a number; an empty one is 0.
\<close>

definition number_of_string :: "string \<Rightarrow> jnum" where
  "number_of_string s =
     (let t = rev (dropWhile is_js_space (rev (dropWhile is_js_space s)));
          radix = (if take 2 t \<in> {''0x'', ''0X''} then 16 else if take 2 t \<in> {''0o'', ''0O''} then 8
                   else if take 2 t \<in> {''0b'', ''0B''} then 2 else 0);
          (neg, u) = read_sign t
      in if t = [] then Fin 0
         else if radix \<noteq> 0 then
           (let ds = digits_prefix radix (drop 2 t)
            in if ds = [] \<or> length ds + 2 \<noteq> length t then NaN else Fin (of_nat (nat_of_digits radix ds)))
         else if u = ''Infinity'' then (if neg then NegInf else PosInf)
         else (case scan_decimal u of
                 Some (x, []) \<Rightarrow> Fin (with_sign neg x)
               | _ \<Rightarrow> NaN))"

lemma digits_prefix_less: "d \<in> set (digits_prefix base cs) \<Longrightarrow> d < base"
proof (induction cs)
  case (Cons c cs)
  then show ?case by (cases "digit_value c") (auto split: if_splits)
qed simp

lemma nat_of_digits_append:
  "nat_of_digits base (ds @ [d]) = nat_of_digits base ds * base + d"
  by (simp add: nat_of_digits_def)

lemma nat_of_digits_bound:
  assumes "\<And>d. d \<in> set ds \<Longrightarrow> d < base"
  shows "nat_of_digits base ds < base ^ length ds"
  using assms
proof (induction ds rule: rev_induct)
  case (snoc d ds)
  then have "nat_of_digits base ds + 1 \<le> base ^ length ds" "d < base" by (simp_all add: Suc_le_eq)
  then have "(nat_of_digits base ds + 1) * base \<le> base ^ length ds * base" by (intro mult_right_mono) simp_all
  with \<open>d < base\<close> show ?case by (simp add: nat_of_digits_append algebra_simps)
qed (simp add: nat_of_digits_def)

end
