(* ===== verification/Mfa.thy ===== *)
theory Mfa
  imports Samples JsNumber "HOL-Library.Word"
begin

section \<open>One-time passwords (\<open>mfa.ts\<close>)\<close>

text \<open>
  Time-based one-time passwords, with the 32-bit arithmetic of JavaScript's bitwise operators
  written out: \<open>&\<close>, \<open>|\<close>, \<open><<\<close> and \<open>>>\<close> convert their operands to signed 32-bit words.
\<close>

unbundle bit_operations_syntax

definition generateSecret :: "env \<Rightarrow> nat \<Rightarrow> db \<Rightarrow> string \<times> db" where
  "generateSecret E len s =
     (let (n, s1) = random_draw s
      in (filter (\<lambda>c. c \<noteq> CHR ''='') (base32_encode (crypto E) (randomBytes (crypto E) n len)), s1))"

text \<open>The loop that writes the counter into the buffer.\<close>

function fill_buffer :: "nat \<Rightarrow> 32 word \<Rightarrow> nat list \<Rightarrow> nat list" where
  "fill_buffer i c buffer =
     (if i < 8
      then fill_buffer (i + 1) (signed_drop_bit 8 c) (buffer[7 - i := unat (c AND 0xff)])
      else buffer)"
  by pat_completeness auto

termination by (relation "measure (\<lambda>(i, _, _). 8 - i)") auto

declare fill_buffer.simps [simp del]

text \<open>An element of a buffer; outside of it \<open>undefined\<close>, which the operators take as 0.\<close>

definition byte_at :: "nat list \<Rightarrow> nat \<Rightarrow> 32 word" where
  "byte_at bs i = (if i < length bs then of_nat (bs ! i) else 0)"

definition dynamicTruncationFn :: "nat list \<Rightarrow> int" where
  "dynamicTruncationFn hmacValue =
     (let offset = unat (byte_at hmacValue (length hmacValue - 1) AND 0xf)
      in sint (push_bit 24 (byte_at hmacValue offset AND 0x7f)
            OR push_bit 16 (byte_at hmacValue (offset + 1) AND 0xff)
            OR push_bit 8 (byte_at hmacValue (offset + 2) AND 0xff)
            OR (byte_at hmacValue (offset + 3) AND 0xff)))"

text \<open>The remainder of the language has the sign of the dividend.\<close>

definition js_rem :: "int \<Rightarrow> int \<Rightarrow> int" where
  "js_rem a b = sgn a * (\<bar>a\<bar> mod \<bar>b\<bar>)"

definition generateHOTP :: "env \<Rightarrow> string \<Rightarrow> int \<Rightarrow> int result" where
  "generateHOTP E secret c =
     (case base32_decode (crypto E) secret of
        None \<Rightarrow> Inl (JSError ''Input is not a valid base32 string'')
      | Some decodedSecret \<Rightarrow>
          (let buffer = fill_buffer 0 (word_of_int c) (replicate 8 0);
               hmacResult = hmac_sha1 (crypto E) decodedSecret buffer;
               code = dynamicTruncationFn hmacResult
           in Inr (js_rem code (10 ^ 6))))"

definition generateTOTP :: "env \<Rightarrow> string \<Rightarrow> int \<Rightarrow> db \<Rightarrow> int result \<times> db" where
  "generateTOTP E secret window s =
     (let (now, s1) = Date_now E s; c = now div 30000
      in (generateHOTP E secret (c + window), s1))"

fun try_windows :: "env \<Rightarrow> string \<Rightarrow> string \<Rightarrow> int list \<Rightarrow> db \<Rightarrow> bool result \<times> db" where
  "try_windows E token secret [] s = (Inr False, s)"
| "try_windows E token secret (w # ws) s =
     (case generateTOTP E secret w s of
        (Inl e, s1) \<Rightarrow> (Inl e, s1)
      | (Inr totp, s1) \<Rightarrow>
          if parseInt token = Fin (of_int totp) then (Inr True, s1)
          else try_windows E token secret ws s1)"

definition verifyTOTP :: "env \<Rightarrow> string \<Rightarrow> string \<Rightarrow> int \<Rightarrow> db \<Rightarrow> bool result \<times> db" where
  "verifyTOTP E token secret window s =
     (if \<bar>window\<bar> > 10 then (Inr False, s)
      else try_windows E token secret [- window .. window] s)"

subsection \<open>The reference definitions\<close>

text \<open>
  RFC 4226: the counter is an 8-byte big-endian string; the code is the last 31 bits of the four
  bytes at the offset that the last half-byte of the HMAC names, modulo $10^6$.
\<close>

definition rfc_counter :: "nat \<Rightarrow> nat list" where
  "rfc_counter c = map (\<lambda>i. (c div 256 ^ (7 - i)) mod 256) [0..<8]"

definition rfc_truncate :: "nat list \<Rightarrow> nat" where
  "rfc_truncate h =
     (let i = last h mod 16
      in (h ! i * 2 ^ 24 + h ! (i + 1) * 2 ^ 16 + h ! (i + 2) * 2 ^ 8 + h ! (i + 3)) mod 2 ^ 31)"

definition rfc_hotp :: "env \<Rightarrow> nat list \<Rightarrow> nat \<Rightarrow> nat" where
  "rfc_hotp E secret c = rfc_truncate (hmac_sha1 (crypto E) secret (rfc_counter c)) mod 10 ^ 6"

text \<open>What is documented of \<open>HMAC-SHA-1\<close>: it returns 20 bytes.\<close>

definition hmac_ok :: "env \<Rightarrow> bool" where
  "hmac_ok E \<longleftrightarrow> (\<forall>k m. length (hmac_sha1 (crypto E) k m) = 20 \<and>
     (\<forall>b \<in> set (hmac_sha1 (crypto E) k m). b < 256))"

subsection \<open>The counter\<close>

lemma unat_and_ff: "unat ((w :: 32 word) AND 0xff) = unat w mod 256"
proof -
  have "w AND 0xff = take_bit 8 w" by (simp add: take_bit_eq_mask mask_eq_exp_minus_1)
  then show ?thesis by (simp add: take_bit_eq_mod unat_mod)
qed

lemma signed_drop_bit_of_nat:
  assumes "n < 2 ^ 31"
  shows "signed_drop_bit 8 (word_of_nat n :: 32 word) = word_of_nat (n div 256)"
proof -
  have "sint (word_of_nat n :: 32 word) = int n"
    using assms by (simp add: signed_of_nat signed_take_bit_int_eq_self)
  moreover have "sint (word_of_nat (n div 256) :: 32 word) = int (n div 256)"
    using assms by (simp add: signed_of_nat signed_take_bit_int_eq_self)
  ultimately have "sint (signed_drop_bit 8 (word_of_nat n :: 32 word)) = sint (word_of_nat (n div 256) :: 32 word)"
    by (simp add: sint_signed_drop_bit_eq drop_bit_eq_div zdiv_int)
  then show ?thesis by (simp add: signed_word_eqI)
qed

lemma unat_byte_of_nat:
  assumes "n < 2 ^ 31"
  shows "unat ((word_of_nat n :: 32 word) AND 0xff) = n mod 256"
  using assms by (simp add: unat_and_ff unat_of_nat take_bit_eq_mod)

lemma fill_buffer_step:
  assumes "i < 8" and "n < 2 ^ 31"
  shows "fill_buffer i (word_of_nat n) b = fill_buffer (Suc i) (word_of_nat (n div 256)) (b[7 - i := n mod 256])"
  using assms by (subst fill_buffer.simps) (simp add: signed_drop_bit_of_nat unat_byte_of_nat)

lemma fill_buffer_rfc:
  assumes "c < 2 ^ 31"
  shows "fill_buffer 0 (word_of_nat c) (replicate 8 0) = rfc_counter c"
proof -
  have lt: "c div k < 2 ^ 31" for k
    using assms by (meson div_le_dividend le_less_trans)
  have stop: "fill_buffer i w b = b" if "8 \<le> i" for i w b
    using that by (subst fill_buffer.simps) simp
  have zero: "fill_buffer i 0 b = fill_buffer (Suc i) 0 (b[7 - i := 0])" if "i < 8" for i b
    using fill_buffer_step[OF that, of 0 b] by simp
  have r: "replicate 8 (0 :: nat) = [0, 0, 0, 0, 0, 0, 0, 0]" by (simp add: numeral_eq_Suc)
  have "fill_buffer 0 (word_of_nat c) (replicate 8 0) =
    [c div 256 div 256 div 256 div 256 div 256 div 256 div 256 mod 256,
     c div 256 div 256 div 256 div 256 div 256 div 256 mod 256,
     c div 256 div 256 div 256 div 256 div 256 mod 256,
     c div 256 div 256 div 256 div 256 mod 256,
     c div 256 div 256 div 256 mod 256, c div 256 div 256 mod 256, c div 256 mod 256, c mod 256]"
    using assms lt by (simp add: r fill_buffer_step stop zero div_mult2_eq[symmetric])
  also have "\<dots> = rfc_counter c"
    by (simp add: rfc_counter_def upt_rec div_mult2_eq[symmetric])
  finally show ?thesis .
qed

subsection \<open>The truncation\<close>

lemma byte_at_unat: "i < length bs \<Longrightarrow> bs ! i < 256 \<Longrightarrow> unat (byte_at bs i) = bs ! i"
  by (simp add: byte_at_def unat_of_nat take_bit_eq_mod)

lemma or_push_bit:
  assumes "a < 2 ^ k"
  shows "push_bit k b OR a = b * 2 ^ k + (a :: nat)"
proof -
  have "\<not> bit a n" if "k \<le> n" for n
    using assms that by (metis bit_take_bit_iff not_le take_bit_nat_eq_self)
  then have "push_bit k b AND a = 0"
    by (intro bit_eqI) (auto simp: bit_simps)
  then have "push_bit k b + a = push_bit k b OR a" by (rule disjunctive_add_eq_or)
  then show ?thesis by (simp add: push_bit_eq_mult)
qed

lemma unat_and_7f: "unat ((w :: 32 word) AND 0x7f) = unat w mod 128"
proof -
  have "w AND 0x7f = take_bit 7 w" by (simp add: take_bit_eq_mask mask_eq_exp_minus_1)
  then show ?thesis by (simp add: take_bit_eq_mod unat_mod)
qed

lemma unat_push_small:
  assumes "unat (w :: 32 word) < 256" and "k \<le> 24"
  shows "unat (push_bit k w) = push_bit k (unat w)"
proof -
  have "unat w * 2 ^ k < 2 ^ 8 * 2 ^ k" using assms(1) by simp
  also have "\<dots> \<le> 2 ^ 32" using assms(2) power_increasing[of "8 + k" 32 "2 :: nat"] by (simp add: power_add)
  finally have "push_bit k (unat w) < 2 ^ LENGTH(32)" by (simp add: push_bit_eq_mult)
  then show ?thesis by (simp only: unsigned_push_bit_eq take_bit_nat_eq_self)
qed

lemma unat_or_bytes:
  fixes p q r t :: "32 word"
  assumes "unat p < 128" "unat q < 256" "unat r < 256" "unat t < 256"
  shows "unat (push_bit 24 p OR push_bit 16 q OR push_bit 8 r OR t)
    = unat p * 2 ^ 24 + (unat q * 2 ^ 16 + (unat r * 2 ^ 8 + unat t))"
proof -
  have "unat (push_bit 24 p OR push_bit 16 q OR push_bit 8 r OR t) =
    push_bit 24 (unat p) OR (push_bit 16 (unat q) OR (push_bit 8 (unat r) OR unat t))"
    using assms by (simp only: unsigned_or_eq unat_push_small or.assoc)
  also have "\<dots> = unat p * 2 ^ 24 + (unat q * 2 ^ 16 + (unat r * 2 ^ 8 + unat t))"
    using assms by (simp add: or_push_bit)
  finally show ?thesis .
qed

lemma sint_small:
  assumes "unat (w :: 32 word) < 2 ^ 31"
  shows "sint w = int (unat w)"
proof -
  have "0 \<le> uint w" by simp
  then have "- (2 ^ 31) \<le> uint w" by (rule order_trans[rotated]) simp
  moreover have "uint w < 2 ^ 31"
    using assms nat_less_iff[of "uint w" "2 ^ 31"] by (simp add: unat_eq_nat_uint[symmetric])
  ultimately have "signed_take_bit 31 (uint w) = uint w" by (rule signed_take_bit_int_eq_self)
  then show ?thesis by (simp add: sint_uint)
qed

lemma four_bytes:
  assumes "unat p < 256" "unat q < 256" "unat r < 256" "unat t < 256"
  shows "sint (push_bit 24 (p AND 0x7f) OR push_bit 16 (q AND 0xff) OR push_bit 8 (r AND 0xff) OR (t AND 0xff) :: 32 word)
    = int ((unat p * 2 ^ 24 + unat q * 2 ^ 16 + unat r * 2 ^ 8 + unat t) mod 2 ^ 31)"
    (is "sint ?w = int (?n mod 2 ^ 31)")
proof -
  have p7: "unat p mod 128 < 128" by simp
  have u: "unat ?w = (unat p mod 128) * 2 ^ 24 + (unat q * 2 ^ 16 + (unat r * 2 ^ 8 + unat t))"
    using assms unat_or_bytes[of "p AND 0x7f" "q AND 0xff" "r AND 0xff" "t AND 0xff"]
    by (simp only: unat_and_ff unat_and_7f p7 mod_less)
  have small: "unat ?w < 2 ^ 31" unfolding u using assms p7 by simp
  have "unat p * 16777216 = (unat p div 128) * 2147483648 + (unat p mod 128) * 16777216"
    using div_mult_mod_eq[of "unat p" 128] by linarith
  then have "?n = unat ?w + (unat p div 128) * 2 ^ 31" unfolding u by simp
  then have n: "unat ?w = ?n mod 2 ^ 31" using small by (metis mod_less mod_mult_self1)
  from sint_small[OF small] n show ?thesis by (simp only:)
qed

lemma js_rem_nonneg: "0 \<le> a \<Longrightarrow> 0 < b \<Longrightarrow> js_rem a b = a mod b"
  by (cases "a = 0") (simp_all add: js_rem_def)

lemma dynamicTruncationFn_rfc:
  assumes "length h = 20" and "\<forall>b \<in> set h. b < 256"
  shows "dynamicTruncationFn h = int (rfc_truncate h)"
proof -
  have b: "h ! i < 256" if "i < 20" for i using assms that by simp
  then have u: "unat (byte_at h i) = h ! i" if "i < 20" for i
    using assms(1) that by (simp add: byte_at_unat)
  let ?o = "last h mod 16"
  have "last h = h ! 19" using assms(1) by (subst last_conv_nth) auto
  moreover have "(w :: 32 word) AND 0xf = take_bit 4 w" for w
    by (simp add: take_bit_eq_mask mask_eq_exp_minus_1)
  ultimately have off: "unat (byte_at h (length h - 1) AND 0xf) = ?o"
    using assms(1) u[of 19] by (simp add: take_bit_eq_mod unat_mod)
  have "?o < 16" by simp
  then have o: "?o < 20" "?o + 1 < 20" "?o + 2 < 20" "?o + 3 < 20" by simp_all
  show ?thesis
    using four_bytes[of "byte_at h ?o" "byte_at h (?o + 1)" "byte_at h (?o + 2)" "byte_at h (?o + 3)"]
      b[OF o(1)] b[OF o(2)] b[OF o(3)] b[OF o(4)] u[OF o(1)] u[OF o(2)] u[OF o(3)] u[OF o(4)] off
    unfolding dynamicTruncationFn_def rfc_truncate_def Let_def by (simp only:)
qed

subsection \<open>The codes\<close>

lemma generateHOTP_rfc:
  assumes "hmac_ok E" and "base32_decode (crypto E) secret = Some key" and "0 \<le> c" and "c < 2 ^ 31"
  shows "generateHOTP E secret c = Inr (int (rfc_hotp E key (nat c)))"
proof -
  have "word_of_int c = (word_of_nat (nat c) :: 32 word)" using assms(3) by simp
  then have buf: "fill_buffer 0 (word_of_int c) (replicate 8 0) = rfc_counter (nat c)"
    using fill_buffer_rfc[of "nat c"] assms(3,4) by simp
  have "dynamicTruncationFn (hmac_sha1 (crypto E) key (rfc_counter (nat c))) =
    int (rfc_truncate (hmac_sha1 (crypto E) key (rfc_counter (nat c))))"
    by (rule dynamicTruncationFn_rfc) (use assms(1) in \<open>auto simp: hmac_ok_def\<close>)
  then show ?thesis
    using assms(2) buf by (simp add: generateHOTP_def rfc_hotp_def js_rem_nonneg zmod_int Let_def)
qed

text \<open>Where the clock stands still, the verifier accepts the codes of the window.\<close>

lemma try_windows_iff:
  assumes "\<And>w t. w \<in> set ws \<Longrightarrow> generateHOTP E secret (clock E t div 30000 + w) = Inr (h w)"
  shows "\<exists>s'. try_windows E token secret ws s = (Inr (\<exists>w \<in> set ws. parseInt token = Fin (of_int (h w))), s') \<and>
    s' = s\<lparr>tick := tick s'\<rparr>"
  using assms
proof (induction ws arbitrary: s)
  case (Cons w ws)
  let ?s1 = "s\<lparr>tick := Suc (tick s)\<rparr>"
  have g: "generateTOTP E secret w s = (Inr (h w), ?s1)"
    using Cons.prems[of w "tick s"] by (simp add: generateTOTP_def Date_now_def Let_def)
  have "\<exists>s'. try_windows E token secret ws ?s1 =
      (Inr (\<exists>w \<in> set ws. parseInt token = Fin (of_int (h w))), s') \<and> s' = ?s1\<lparr>tick := tick s'\<rparr>"
    by (rule Cons.IH) (use Cons.prems in simp)
  then obtain s' where "try_windows E token secret ws ?s1 =
      (Inr (\<exists>w \<in> set ws. parseInt token = Fin (of_int (h w))), s')" "s' = s\<lparr>tick := tick s'\<rparr>" by auto
  with g show ?case by (cases "parseInt token = Fin (of_int (h w))") auto
qed simp

subsection \<open>Properties\<close>

text \<open>
  C12. The one-time passwords are those of RFC 4226 and RFC 6238: while the clock stays in one
  30-second step (and the step number fits a signed 32-bit word, as it does until the year 4010),
  the verifier accepts a token exactly if it reads as the reference code of that step, the one
  before or the one after.
\<close>

theorem verifyTOTP_rfc6238:
  assumes "hmac_ok E" and "base32_decode (crypto E) secret = Some key"
    and "\<And>t. clock E t div 30000 = c" and "1 \<le> c" and "c + 1 < 2 ^ 31"
  shows "\<exists>s'. verifyTOTP E token secret 1 s =
    (Inr (\<exists>w \<in> {-1, 0, 1}. parseInt token = Fin (of_nat (rfc_hotp E key (nat (c + w))))), s') \<and>
    (\<forall>w. rfc_hotp E key (nat (c + w)) < 10 ^ 6)"
proof -
  have "generateHOTP E secret (clock E t div 30000 + w) = Inr (int (rfc_hotp E key (nat (c + w))))"
    if "w \<in> set [- 1 .. 1]" for w t
    using that generateHOTP_rfc[OF assms(1,2), of "c + w"] assms(3-5) by simp
  from try_windows_iff[where ws = "[- 1 .. 1]" and h = "\<lambda>w. int (rfc_hotp E key (nat (c + w)))" and token = token and s = s,
      OF this] obtain s' where
    "try_windows E token secret [- 1 .. 1] s =
      (Inr (\<exists>w \<in> set [- 1 .. 1]. parseInt token = Fin (of_int (int (rfc_hotp E key (nat (c + w)))))), s')" by blast
  moreover have "set [- 1 .. 1] = {-1, 0, 1 :: int}" by auto
  ultimately show ?thesis by (simp add: verifyTOTP_def rfc_hotp_def)
qed

theorem verifyTOTP_rfc6238_witness:
  "\<exists>s'. verifyTOTP (env0\<lparr>clock := (\<lambda>t. 60000)\<rparr>) ''000000'' ''S'' 1 db0 = (Inr True, s')"
proof -
  let ?E = "env0\<lparr>clock := (\<lambda>t. 60000)\<rparr>"
  have "hmac_ok ?E" by (simp add: hmac_ok_def env0_def crypto0_def)
  moreover have "base32_decode (crypto ?E) ''S'' = Some [83]" by (simp add: env0_def crypto0_def)
  moreover have "clock ?E t div 30000 = 2" for t by simp
  ultimately have "\<exists>s'. verifyTOTP ?E ''000000'' ''S'' 1 db0 =
    (Inr (\<exists>w \<in> {-1, 0, 1}. parseInt ''000000'' = Fin (of_nat (rfc_hotp ?E [83] (nat (2 + w))))), s') \<and>
    (\<forall>w. rfc_hotp ?E [83] (nat (2 + w)) < 10 ^ 6)"
    by (rule verifyTOTP_rfc6238) simp_all
  moreover have "rfc_hotp ?E [83] n = 0" for n
    by (simp add: rfc_hotp_def rfc_truncate_def env0_def crypto0_def)
  moreover have "parseInt ''000000'' = Fin 0"
    by (simp add: parseInt_def is_js_space_def digit_value_def nat_of_digits_def with_sign_def)
  moreover have "\<exists>w :: int. w = - 1 \<or> w = 0 \<or> w = 1" by blast
  ultimately show ?thesis by simp
qed

end
