(* ===== verification/Users.thy ===== *)
theory Users
  imports Permission FileStore Mfa
begin

section \<open>Users (\<open>userCore.ts\<close>): accounts, passwords and sessions\<close>

text \<open>
  The class \<open>UserCore\<close> without its public keys (theory \<open>UserKeys\<close>): finding, creating, editing
  and deleting users, the requests that reset a password, and logging in. Mails go to the outbox
  of the state; drawing the QR code they attach is left out. The cryptographic functions are
  those of the environment.
\<close>

subsection \<open>Finding users\<close>

text \<open>The projection that hides the password and the secret.\<close>

abbreviation without_token :: "IUser \<Rightarrow> IUserWithoutToken" where
  "without_token u \<equiv> IUserWithoutToken.truncate u"

definition getUser ::
    "mongo \<Rightarrow> requester \<Rightarrow> string option \<Rightarrow> string option \<Rightarrow> string option \<Rightarrow> db
     \<Rightarrow> IUserWithoutToken result" where
  "getUser M requester userId uname mail s =
     (let found = (\<lambda>q. case findOne (users_dr M) (users_collection s) (\<lambda>u. q u \<and> alive u) of
            None \<Rightarrow> Inl (CoreError CLIENT_ACTION_ON_NON_EXISTENT_ENTRY ''User does not exist.'')
          | Some u \<Rightarrow> Inr (without_token u))
      in if \<not> truthy userId \<and> \<not> truthy uname \<and> \<not> truthy mail
         then Inl (CoreError CLIENT_MALFORMED_INPUT ''At least one of the parameters should not be empty.'')
         else case requester of
           None \<Rightarrow> Inl (core_error NO_PERMISSION_ERROR)
         | Some req \<Rightarrow>
             if user_type req \<noteq> ADMIN \<and>
                (truthy userId \<and> Some (doc_id req) \<noteq> userId \<or>
                 truthy uname \<and> Some (username req) \<noteq> uname \<or>
                 truthy mail \<and> Some (email req) \<noteq> mail)
             then Inl (core_error NO_PERMISSION_ERROR)
             else if truthy userId then found (\<lambda>u. Some (doc_id u) = userId)
             else if truthy uname then found (\<lambda>u. Some (username u) = uname)
             else found (\<lambda>u. Some (email u) = mail))"

text \<open>
  \<open>getUsers\<close> reads whole documents: its declared result type hides the password and the
  secret from the compiler only.
\<close>

definition getUsers :: "mongo \<Rightarrow> requester \<Rightarrow> bool \<Rightarrow> db \<Rightarrow> IUser list result" where
  "getUsers M requester includeDeleted s =
     (case requester of
        None \<Rightarrow> Inl (core_error NOT_LOGGED_IN)
      | Some req \<Rightarrow>
          if user_type req = ADMIN
          then Inr (find_many (users_dr M) (users_collection s) (\<lambda>u. includeDeleted \<or> alive u))
          else
            (let userIds = map managerId (find_many (drives_dr M) (drives_collection s)
                   (\<lambda>d. doc_id req \<in> set (map iid (sharedUsers d))))
             in Inr (find_many (users_dr M) (users_collection s) (\<lambda>u. Uid (doc_id u) \<in> set userIds))))"

text \<open>\<open>UserLoginUtils._getUser\<close>, which reads the user of a session: the secret stays in.\<close>

definition deserialiseUser :: "mongo \<Rightarrow> string \<Rightarrow> db \<Rightarrow> IUser option" where
  "deserialiseUser M uname s =
     map_option (\<lambda>u. u\<lparr>password := []\<rparr>)
       (findOne (users_dr M) (users_collection s) (\<lambda>u. alive u \<and> username u = uname))"

subsection \<open>Sending mails\<close>

definition send_mail :: "env \<Rightarrow> mail \<Rightarrow> db \<Rightarrow> unit result \<times> db" where
  "send_mail E m s =
     (if sendMail E (outbox s) m then (Inr (), s\<lparr>outbox := outbox s @ [m]\<rparr>)
      else (Inl (JSError ''Mail could not be sent''), s))"

subsection \<open>Creating and editing\<close>

definition passwordIsGoodEnough :: "string \<Rightarrow> bool" where
  "passwordIsGoodEnough pw \<longleftrightarrow> 8 \<le> length pw"

text \<open>The pattern of a mail address: \<open>/^([a-zA-Z0-9_\-.]+)@([a-zA-Z0-9_\-.]+)\.([a-zA-Z]{2,5})$/\<close>.\<close>

definition mail_char :: "char \<Rightarrow> bool" where
  "mail_char c \<longleftrightarrow> is_letter c \<or> is_digit c \<or> c \<in> set ''_-.''"

definition email_format :: "string \<Rightarrow> bool" where
  "email_format x =
     (let local = takeWhile (\<lambda>c. c \<noteq> CHR ''@'') x;
          host = tl (dropWhile (\<lambda>c. c \<noteq> CHR ''@'') x);
          tld = rev (takeWhile (\<lambda>c. c \<noteq> CHR ''.'') (rev host));
          domain = rev (tl (dropWhile (\<lambda>c. c \<noteq> CHR ''.'') (rev host)))
      in CHR ''@'' \<in> set x \<and> local \<noteq> [] \<and> list_all mail_char local \<and>
         CHR ''.'' \<in> set host \<and> domain \<noteq> [] \<and> list_all mail_char domain \<and>
         2 \<le> length tld \<and> length tld \<le> 5 \<and> list_all is_letter tld)"

text \<open>The profile of a new or an edited user.\<close>

definition profile_upload ::
    "env \<Rightarrow> mongo \<Rightarrow> IUserWithoutToken \<Rightarrow> string \<Rightarrow> FileUpload option \<Rightarrow> db \<Rightarrow> string option result \<times> db" where
  "profile_upload E M req userId profile s =
     (case profile of
        None \<Rightarrow> (Inr None, s)
      | Some fu \<Rightarrow>
          (case file_type_of_extension (filename fu) of
             None \<Rightarrow> (Inl (CoreError CLIENT_MALFORMED_INPUT ''File type not supported.''), s)
           | Some ftype \<Rightarrow>
               (case uploadFile E M req None (Some userId) fu ftype PROFILE_FILE None None s of
                  (Inl e, s1) \<Rightarrow> (Inl e, s1)
                | (Inr f, s1) \<Rightarrow> (Inr (Some (doc_id f)), s1))))"

text \<open>
  The part of \<open>createUser\<close> behind its checks: it stores the user, a root drive and a
  configuration, and mails the secret.
\<close>

definition createUser_store ::
    "env \<Rightarrow> mongo \<Rightarrow> IUser \<Rightarrow> db \<Rightarrow> IUser result \<times> db" where
  "createUser_store E M entry s =
     (case insertOne (users_dr M) (users_collection s) entry of
        None \<Rightarrow> (Inl MongoServerError, s)
      | Some uc \<Rightarrow>
     (let (driveId, s1) = uuid E (s\<lparr>users_collection := uc\<rparr>);
          (now1, s2) = Date_now E s1;
          drive = \<lparr>doc_id = driveId, life = new_life now1 (doc_id entry), metadata = [],
            managerId = Uid (doc_id entry), path = [driveId], restricted = True,
            drive_name = ''My Drive'', drive_description = Some ''This is your own drive.'',
            fileId = None, drive_type = FOLDER, parent = None, children = [], sharedUsers = [],
            childeren = None\<rparr>
      in case insertOne (drives_dr M) (drives_collection s2) drive of
        None \<Rightarrow> (Inl MongoServerError, s2)
      | Some dc \<Rightarrow>
     (let (configId, s3) = uuid E (s2\<lparr>drives_collection := dc\<rparr>);
          (now2, s4) = Date_now E s3;
          config = \<lparr>doc_id = configId, life = new_life now2 (doc_id entry), metadata = [],
            config_type = USERCONFIG, config_key = Some (doc_id entry),
            properties = UserProps default_userConfig\<rparr>
      in case insertOne (configs_dr M) (configs_collection s4) config of
        None \<Rightarrow> (Inl MongoServerError, s4)
      | Some cc \<Rightarrow>
     (case send_mail E (Mail_Registered (email entry) (firstname entry) (username entry)
               (toLowerCase (otpSecret entry))) (s4\<lparr>configs_collection := cc\<rparr>) of
        (Inl e, s5) \<Rightarrow> (Inl e, s5)
      | (Inr _, s5) \<Rightarrow> (Inr entry, s5)))))"

definition createUser ::
    "env \<Rightarrow> mongo \<Rightarrow> requester \<Rightarrow> string \<Rightarrow> string \<Rightarrow> string \<Rightarrow> string \<Rightarrow> string \<Rightarrow> enumUserTypes
     \<Rightarrow> bool \<Rightarrow> string \<Rightarrow> FileUpload option \<Rightarrow> string option \<Rightarrow> db \<Rightarrow> IUser result \<times> db" where
  "createUser E M requester uname mail fname lname org utype notify pw profile description s =
     (if \<not> email_format mail
      then (Inl (CoreError CLIENT_MALFORMED_INPUT ''Email is not the right format.''), s)
      else if pw \<noteq> [] \<and> \<not> passwordIsGoodEnough pw
      then (Inl (CoreError CLIENT_MALFORMED_INPUT ''Password has to be at least 8 character long.''), s)
      else if CHR '' '' \<in> set uname \<or> CHR '' '' \<in> set pw
      then (Inl (CoreError CLIENT_MALFORMED_INPUT ''Username or password cannot have spaces.''), s)
      else
     (let (secret, s1) = generateSecret E 20 s in
      if findOne (users_dr M) (users_collection s1) (\<lambda>u. username u = uname \<or> email u = mail) \<noteq> None
      then (Inl (CoreError CLIENT_MALFORMED_INPUT ''Username or email already exists.''), s1)
      else if findOne (organisations_dr M) (organisations_collection s1)
                (\<lambda>d. doc_id d = org \<and> alive d) = None
      then (Inl (CoreError CLIENT_ACTION_ON_NON_EXISTENT_ENTRY ''Organisation does not exist.''), s1)
      else
     (let (userId, s2) = uuid E s1;
          (n, s3) = random_draw s2;
          hashedPassword = bcrypt_hash (crypto E) n pw;
          (now, s4) = Date_now E s3;
          (now2, s5) = Date_now E s4;
          entry = \<lparr>doc_id = userId,
            life = new_life now2 (case requester of None \<Rightarrow> userId | Some req \<Rightarrow> doc_id req),
            metadata = [], username = uname, email = mail, firstname = fname, lastname = lname,
            organisation = org, user_type = utype, emailNotificationsActivated = notify,
            expiringNotification = False, resetPasswordRequests = [], user_profile = None,
            expiredAt = now + 86400 * 1000 * defaultUserExpiredDays default_userConfig,
            user_description = Some (nullish description ''''),
            password = hashedPassword, otpSecret = secret\<rparr>
      in case profile_upload E M (without_token entry) userId profile s5 of
           (Inl e, s6) \<Rightarrow> (Inl e, s6)
         | (Inr p, s6) \<Rightarrow> createUser_store E M (entry\<lparr>user_profile := p\<rparr>) s6)))"

text \<open>\<open>setObj\<close> of \<open>editUser\<close>, as the update it makes.\<close>

definition edit_user_set ::
    "string option \<Rightarrow> string option \<Rightarrow> string option \<Rightarrow> string option \<Rightarrow> string option \<Rightarrow> string option
     \<Rightarrow> bool \<Rightarrow> string option \<Rightarrow> string option \<Rightarrow> string option \<Rightarrow> int option \<Rightarrow> IUser \<Rightarrow> IUser" where
  "edit_user_set uname mail fname lname description org notify hashed secret profile expired u = u\<lparr>
     username := (if truthy uname then the uname else username u),
     email := (if truthy mail then the mail else email u),
     firstname := (if truthy fname then the fname else firstname u),
     lastname := (if truthy lname then the lname else lastname u),
     user_description := (if truthy description then description else user_description u),
     emailNotificationsActivated := (notify \<or> emailNotificationsActivated u),
     organisation := (if truthy org then the org else organisation u),
     user_profile := (case profile of None \<Rightarrow> user_profile u | Some p \<Rightarrow> Some p),
     expiredAt := nullish expired (expiredAt u),
     password := nullish hashed (password u),
     otpSecret := (if truthy secret then the secret else otpSecret u)\<rparr>"

text \<open>
  The last part of \<open>editUser\<close>: the password, the profile and the update. Its user name, mail and
  organisation have been checked. A password that is the old one is refused (after hashing it).
\<close>

definition editUser_store ::
    "env \<Rightarrow> mongo \<Rightarrow> IUserWithoutToken \<Rightarrow> IUser \<Rightarrow> (string option \<Rightarrow> string option \<Rightarrow> IUser \<Rightarrow> IUser)
     \<Rightarrow> string option \<Rightarrow> FileUpload option \<Rightarrow> int option \<Rightarrow> db \<Rightarrow> IUser result \<times> db" where
  "editUser_store E M req user setObj pw profile expired s =
     (case (if truthy pw
            then (let (n, s1) = random_draw s in
                  if bcrypt_compare (crypto E) (the pw) (password user)
                  then (Inl (CoreError CLIENT_MALFORMED_INPUT ''You need to select a new password.''), s1)
                  else (Inr (Some (bcrypt_hash (crypto E) n (the pw))), s1))
            else (Inr None, s)) of
        (Inl e, s1) \<Rightarrow> (Inl e, s1)
      | (Inr hashed, s1) \<Rightarrow>
     (case profile_upload E M req (doc_id user) profile s1 of
        (Inl e, s2) \<Rightarrow> (Inl e, s2)
      | (Inr p, s2) \<Rightarrow>
     (case updateOne (users_dr M) (users_collection s2) (\<lambda>u. doc_id u = doc_id user) (setObj hashed p) of
        None \<Rightarrow> (Inl MongoServerError, s2)
      | Some (None, c) \<Rightarrow> (Inl (core_error DATABASE_ERROR), s2\<lparr>users_collection := c\<rparr>)
      | Some (Some u, c) \<Rightarrow>
          (let s3 = s2\<lparr>users_collection := c\<rparr>; result = setObj hashed p u
           in if expired \<noteq> None
              then (case send_mail E (Mail_Expiry_Updated (email result) (username result)) s3 of
                      (Inl e, s4) \<Rightarrow> (Inl e, s4)
                    | (Inr _, s4) \<Rightarrow> (Inr result, s4))
              else (Inr result, s3)))))"

text \<open>
  The checks of \<open>editUser\<close> that need no query, and those that do, each with the error it throws.
\<close>

definition edit_user_refused ::
    "IUserWithoutToken \<Rightarrow> string \<Rightarrow> string option \<Rightarrow> string option \<Rightarrow> enumUserTypes option
     \<Rightarrow> string option \<Rightarrow> string option \<Rightarrow> int option \<Rightarrow> error option" where
  "edit_user_refused req userId uname mail utype pw secret expired =
     (if user_type req \<noteq> ADMIN \<and> doc_id req \<noteq> userId
      then Some (CoreError NO_PERMISSION_ERROR ''User can only edit his/her own account.'')
      else if user_type req \<noteq> ADMIN \<and> (utype \<noteq> None \<or> expired \<noteq> None)
      then Some (CoreError NO_PERMISSION_ERROR
             ''Standard user can not change their type, expiration time. Please contact admins for help.'')
      else if (truthy pw \<or> truthy secret) \<and> doc_id req \<noteq> userId
      then Some (CoreError NO_PERMISSION_ERROR ''User can only edit his/her own account.'')
      else if truthy pw \<and> \<not> passwordIsGoodEnough (the pw)
      then Some (CoreError CLIENT_MALFORMED_INPUT ''Password has to be at least 8 character long.'')
      else if truthy uname \<and> CHR '' '' \<in> set (the uname) \<or> truthy pw \<and> CHR '' '' \<in> set (the pw)
      then Some (CoreError CLIENT_MALFORMED_INPUT ''Username or password cannot have spaces.'')
      else if truthy mail \<and> \<not> email_format (the mail)
      then Some (CoreError CLIENT_MALFORMED_INPUT ''Email is not the right format.'')
      else None)"

definition edit_user_conflict ::
    "mongo \<Rightarrow> db \<Rightarrow> IUser \<Rightarrow> string option \<Rightarrow> string option \<Rightarrow> string option \<Rightarrow> error option" where
  "edit_user_conflict M s user uname mail org =
     (if truthy uname \<and> the uname \<noteq> username user \<and>
         findOne (users_dr M) (users_collection s) (\<lambda>u. Some (username u) = uname \<and> alive u) \<noteq> None
      then Some (CoreError CLIENT_MALFORMED_INPUT ''Username already used.'')
      else if truthy mail \<and> the mail \<noteq> email user \<and>
         findOne (users_dr M) (users_collection s) (\<lambda>u. Some (email u) = mail \<and> alive u) \<noteq> None
      then Some (CoreError CLIENT_MALFORMED_INPUT ''Email already used.'')
      else if truthy org \<and> findOne (organisations_dr M) (organisations_collection s)
                (\<lambda>d. Some (doc_id d) = org \<and> alive d) = None
      then Some (CoreError CLIENT_MALFORMED_INPUT ''Organisation does not exist.'')
      else None)"

text \<open>\<open>expiredAt\<close> counts as given unless it is 0.\<close>

definition editUser ::
    "env \<Rightarrow> mongo \<Rightarrow> requester \<Rightarrow> string \<Rightarrow> string option \<Rightarrow> string option \<Rightarrow> string option \<Rightarrow> string option
     \<Rightarrow> string option \<Rightarrow> enumUserTypes option \<Rightarrow> bool \<Rightarrow> string option \<Rightarrow> string option \<Rightarrow> FileUpload option
     \<Rightarrow> string option \<Rightarrow> int option \<Rightarrow> db \<Rightarrow> IUser result \<times> db" where
  "editUser E M requester userId uname mail fname lname org utype notify pw secret profile description expiry s =
     (case requester of
        None \<Rightarrow> (Inl (core_error NOT_LOGGED_IN), s)
      | Some req \<Rightarrow>
     (let expired = (if expiry = Some 0 then None else expiry) in
      case edit_user_refused req userId uname mail utype pw secret expired of
        Some e \<Rightarrow> (Inl e, s)
      | None \<Rightarrow>
     (let (past, s1) = (case expired of
             None \<Rightarrow> (False, s)
           | Some t \<Rightarrow> (let (now, s1) = Date_now E s in (t < now, s1)))
      in if past then (Inl (CoreError CLIENT_MALFORMED_INPUT ''Cannot set to a previous time.''), s1)
      else
     (case findOne (users_dr M) (users_collection s1) (\<lambda>u. doc_id u = userId \<and> alive u) of
        None \<Rightarrow> (Inl (CoreError CLIENT_ACTION_ON_NON_EXISTENT_ENTRY ''User does not exist.''), s1)
      | Some user \<Rightarrow>
     (case edit_user_conflict M s1 user uname mail org of
        Some e \<Rightarrow> (Inl e, s1)
      | None \<Rightarrow>
          editUser_store E M req user
            (\<lambda>hashed p. edit_user_set (if truthy uname \<and> the uname \<noteq> username user then uname else None)
               (if truthy mail \<and> the mail \<noteq> email user then mail else None)
               fname lname description org notify hashed secret p expired)
            pw profile expired s1)))))"

text \<open>
  \<open>deleteUser\<close>. It opens a transaction but makes its two updates outside of it (without the
  session), so aborting the transaction undoes nothing.
\<close>

definition delete_user_set :: "int \<Rightarrow> string \<Rightarrow> IUser \<Rightarrow> IUser" where
  "delete_user_set now by u = (mark_deleted now (Uid by) u)\<lparr>
     password := ''DeletedUserDummyPassword'', otpSecret := ''DeletedUserDummpOtpSecret''\<rparr>"

definition deleteUser :: "env \<Rightarrow> mongo \<Rightarrow> requester \<Rightarrow> string \<Rightarrow> db \<Rightarrow> IGenericResponse result \<times> db" where
  "deleteUser E M requester userId s =
     (case requester of
        None \<Rightarrow> (Inl (core_error NOT_LOGGED_IN), s)
      | Some req \<Rightarrow>
     if user_type req \<noteq> ADMIN \<and> doc_id req \<noteq> userId
     then (Inl (CoreError NO_PERMISSION_ERROR ''User can only delete his/her own account.''), s)
     else
     (case findOne (users_dr M) (users_collection s) (\<lambda>u. doc_id u = userId \<and> alive u) of
        None \<Rightarrow> (Inl (CoreError CLIENT_ACTION_ON_NON_EXISTENT_ENTRY ''User does not exist.''), s)
      | Some user \<Rightarrow>
     (let (now, s1) = Date_now E s in
      case updateOne (users_dr M) (users_collection s1) (\<lambda>u. doc_id u = userId \<and> alive u)
             (delete_user_set now (doc_id req)) of
        None \<Rightarrow> (Inl (CoreError DATABASE_ERROR ''MongoServerError''), s1)
      | Some (_, uc) \<Rightarrow>
     (let s2 = s1\<lparr>users_collection := uc\<rparr>;
          (ok, rc) = updateMany (roles_dr M) (roles_collection s2)
            (\<lambda>r. alive r \<and> userId \<in> set (role_users r))
            (\<lambda>r. r\<lparr>role_users := removeAll userId (role_users r)\<rparr>);
          s3 = s2\<lparr>roles_collection := rc\<rparr>
      in if \<not> ok then (Inl (CoreError DATABASE_ERROR ''MongoServerError''), s3)
         else (Inr (makeGenericResponse (Some userId) (Some True) None
                 (Some (''User '' @ username user @ '' has been deleted.''))), s3)))))"

subsection \<open>Resetting a password\<close>

definition ONE_HOUR_IN_MILLISEC :: int where
  "ONE_HOUR_IN_MILLISEC = 60 * 60 * 1000"

text \<open>The element of \<open>resetPasswordRequests\<close> that \<open>$elemMatch\<close> looks for.\<close>

definition usable :: "string \<Rightarrow> int \<Rightarrow> IResetPasswordRequest \<Rightarrow> bool" where
  "usable token now r \<longleftrightarrow>
     request_id r = token \<and> timeOfRequest r > now - ONE_HOUR_IN_MILLISEC \<and> \<not> used r"

definition makeAESKeySalt :: "string \<Rightarrow> string" where
  "makeAESKeySalt str = str"

definition makeAESIv :: "string \<Rightarrow> string result" where
  "makeAESIv str = (if length str < 16 then Inl (JSError ''IV cannot be less than 16 bytes long.'')
     else Inr (take 16 str))"

definition encryptEmail :: "env \<Rightarrow> string \<Rightarrow> string \<Rightarrow> string \<Rightarrow> string" where
  "encryptEmail E mail keySalt iv = aes_encrypt (crypto E) (aesSecret E) keySalt iv mail"

definition decryptEmail :: "env \<Rightarrow> string \<Rightarrow> string \<Rightarrow> string \<Rightarrow> string option" where
  "decryptEmail E encryptedEmail keySalt iv = aes_decrypt (crypto E) (aesSecret E) keySalt iv encryptedEmail"

definition validateResetPassword ::
    "env \<Rightarrow> mongo \<Rightarrow> string \<Rightarrow> string \<Rightarrow> db \<Rightarrow> IGenericResponse result \<times> db" where
  "validateResetPassword E M encryptedEmail token s =
     (case makeAESIv token of
        Inl e \<Rightarrow> (Inl e, s)
      | Inr iv \<Rightarrow>
     (case decryptEmail E encryptedEmail (makeAESKeySalt token) iv of
        None \<Rightarrow> (Inl (CoreError CLIENT_MALFORMED_INPUT ''Token is not valid.''), s)
      | Some mail \<Rightarrow>
     (let (now, s1) = Date_now E s in
      case findOne (users_dr M) (users_collection s1)
             (\<lambda>u. email u = mail \<and> list_ex (usable token now) (resetPasswordRequests u) \<and> alive u) of
        None \<Rightarrow> (Inl (CoreError CLIENT_ACTION_ON_NON_EXISTENT_ENTRY ''User does not exist.''), s1)
      | Some user \<Rightarrow> (Inr (makeGenericResponse (Some (doc_id user)) (Some True) None None), s1))))"

text \<open>All requests of the user are used up before the new one is pushed.\<close>

definition use_all :: "IUser \<Rightarrow> IUser" where
  "use_all u = u\<lparr>resetPasswordRequests := map (\<lambda>r. r\<lparr>used := True\<rparr>) (resetPasswordRequests u)\<rparr>"

definition addResetPasswordRequest ::
    "mongo \<Rightarrow> string \<Rightarrow> IResetPasswordRequest \<Rightarrow> db \<Rightarrow> IGenericResponse result \<times> db" where
  "addResetPasswordRequest M userId req s =
     (case updateOne (users_dr M) (users_collection s) (\<lambda>u. doc_id u = userId) use_all of
        None \<Rightarrow> (Inl MongoServerError, s)
      | Some (None, c) \<Rightarrow> (Inl (core_error DATABASE_ERROR), s\<lparr>users_collection := c\<rparr>)
      | Some (Some _, c) \<Rightarrow>
          (case updateOne (users_dr M) c (\<lambda>u. doc_id u = userId)
                  (\<lambda>u. u\<lparr>resetPasswordRequests := resetPasswordRequests u @ [req]\<rparr>) of
             None \<Rightarrow> (Inl MongoServerError, s\<lparr>users_collection := c\<rparr>)
           | Some (None, c') \<Rightarrow> (Inl (core_error DATABASE_ERROR), s\<lparr>users_collection := c'\<rparr>)
           | Some (Some _, c') \<Rightarrow>
               (Inr (makeGenericResponse (Some (request_id req)) (Some True) None None),
                s\<lparr>users_collection := c'\<rparr>)))"

text \<open>\<open>$set: {'resetPasswordRequests.$.used': true}\<close>: the first element that matched.\<close>

fun use_first :: "(IResetPasswordRequest \<Rightarrow> bool) \<Rightarrow> IResetPasswordRequest list \<Rightarrow> IResetPasswordRequest list" where
  "use_first q [] = []"
| "use_first q (r # rs) = (if q r then r\<lparr>used := True\<rparr> # rs else r # use_first q rs)"

text \<open>The driver returns the document as it was before the update.\<close>

definition processResetPasswordRequest ::
    "env \<Rightarrow> mongo \<Rightarrow> string \<Rightarrow> string \<Rightarrow> string \<Rightarrow> db \<Rightarrow> IUser result \<times> db" where
  "processResetPasswordRequest E M token mail pw s =
     (let (now, s1) = Date_now E s;
          ok = (\<lambda>u. list_ex (usable token now) (resetPasswordRequests u))
      in case findOne (users_dr M) (users_collection s1) (\<lambda>u. email u = mail \<and> ok u \<and> alive u) of
        None \<Rightarrow> (Inl (CoreError CLIENT_ACTION_ON_NON_EXISTENT_ENTRY ''User does not exist.''), s1)
      | Some user \<Rightarrow>
     (let (secret, s2) = generateSecret E 20 s1;
          (n, s3) = random_draw s2;
          hashedPw = bcrypt_hash (crypto E) n pw
      in case updateOne (users_dr M) (users_collection s3) (\<lambda>u. doc_id u = doc_id user \<and> ok u)
                (\<lambda>u. u\<lparr>password := hashedPw, otpSecret := secret,
                       resetPasswordRequests := use_first (usable token now) (resetPasswordRequests u)\<rparr>) of
        None \<Rightarrow> (Inl MongoServerError, s3)
      | Some (None, c) \<Rightarrow> (Inl (core_error DATABASE_ERROR), s3\<lparr>users_collection := c\<rparr>)
      | Some (Some before, c) \<Rightarrow> (Inr before, s3\<lparr>users_collection := c\<rparr>)))"

definition resetPassword ::
    "env \<Rightarrow> mongo \<Rightarrow> string \<Rightarrow> string \<Rightarrow> string \<Rightarrow> db \<Rightarrow> IGenericResponse result \<times> db" where
  "resetPassword E M encryptedEmail token newPassword s =
     (if \<not> passwordIsGoodEnough newPassword
      then (Inl (CoreError CLIENT_MALFORMED_INPUT ''Password has to be at least 8 character long.''), s)
      else if CHR '' '' \<in> set newPassword
      then (Inl (CoreError CLIENT_MALFORMED_INPUT ''Password cannot have spaces.''), s)
      else if length token < 16
      then (Inl (CoreError CLIENT_MALFORMED_INPUT ''Token is invalid.''), s)
      else
     (case makeAESIv token of
        Inl e \<Rightarrow> (Inl e, s)
      | Inr iv \<Rightarrow>
     (case decryptEmail E encryptedEmail (makeAESKeySalt token) iv of
        None \<Rightarrow> (Inl (CoreError CLIENT_MALFORMED_INPUT ''Token is invalid.''), s)
      | Some mail \<Rightarrow>
     (case processResetPasswordRequest E M token mail newPassword s of
        (Inl e, s1) \<Rightarrow> (Inl e, s1)
      | (Inr user, s1) \<Rightarrow>
     (case send_mail E (Mail_Reset_Done mail (firstname user) (toLowerCase (otpSecret user))) s1 of
        (Inl e, s2) \<Rightarrow> (Inl e, s2)
      | (Inr _, s2) \<Rightarrow> (Inr (makeGenericResponse None None None None), s2))))))"

definition requestExpiryDate ::
    "env \<Rightarrow> mongo \<Rightarrow> string option \<Rightarrow> string option \<Rightarrow> db \<Rightarrow> IGenericResponse result \<times> db" where
  "requestExpiryDate E M uname mail s =
     (if \<not> truthy uname \<and> \<not> truthy mail \<or> truthy uname \<and> truthy mail
      then (Inl (CoreError CLIENT_MALFORMED_INPUT ''Either username or email should be provided.''), s)
      else
     (case findOne (users_dr M) (users_collection s)
             (\<lambda>u. if truthy uname then Some (username u) = uname else Some (email u) = mail) of
        None \<Rightarrow> (Inr (makeGenericResponse mail (Some False) None (Some ''User information is not correct.'')), s)
      | Some user \<Rightarrow>
     if email user = [] \<or> username user = []
     then (Inr (makeGenericResponse mail (Some False) None (Some ''User information is not correct.'')), s)
     else
     (case send_mail E (Mail_Expiry_Admin (username user) (email user)) s of
        (Inl e, s1) \<Rightarrow> (Inl e, s1)
      | (Inr _, s1) \<Rightarrow>
     (case send_mail E (Mail_Expiry_Client (email user) (username user)) s1 of
        (Inl e, s2) \<Rightarrow> (Inl e, s2)
      | (Inr _, s2) \<Rightarrow>
          (Inr (makeGenericResponse mail (Some True) None (Some ''Request successfully sent.'')), s2)))))"

text \<open>A filter on an \<open>undefined\<close> name or mail matches no user.\<close>

definition requestUsernameOrResetPassword ::
    "env \<Rightarrow> mongo \<Rightarrow> bool \<Rightarrow> bool \<Rightarrow> string \<Rightarrow> string option \<Rightarrow> string option \<Rightarrow> db
     \<Rightarrow> IGenericResponse result \<times> db" where
  "requestUsernameOrResetPassword E M forgotUsername forgotPassword origin mail uname s =
     (if forgotUsername \<and> \<not> truthy mail \<or> forgotUsername \<and> truthy uname \<or> \<not> truthy mail \<and> \<not> truthy uname
      then (Inl (CoreError CLIENT_MALFORMED_INPUT ''Inputs are invalid.''), s)
      else if truthy mail \<and> truthy uname
      then (Inl (CoreError CLIENT_MALFORMED_INPUT ''Inputs are invalid.''), s)
      else
     (case findOne (users_dr M) (users_collection s)
             (\<lambda>u. (Some (email u) = mail \<or> Some (username u) = uname) \<and> alive u) of
        None \<Rightarrow> (Inr (makeGenericResponse None (Some True) None (Some (error_string UNQUALIFIED_ERROR))), s)
      | Some user \<Rightarrow>
     (let done = makeGenericResponse (Some (doc_id user)) (Some True) None
                   (Some ''Request of resetting password successfully sent.'') in
      if forgotPassword then
       (let (token, s1) = uuid E s; (now, s2) = Date_now E s1 in
        case addResetPasswordRequest M (doc_id user) \<lparr>request_id = token, timeOfRequest = now, used = False\<rparr> s2 of
          (Inl e, s3) \<Rightarrow> (Inl e, s3)
        | (Inr _, s3) \<Rightarrow>
       (case makeAESIv token of
          Inl e \<Rightarrow> (Inl e, s3)
        | Inr iv \<Rightarrow>
       (case send_mail E (Mail_Reset_Link (email user) (firstname user) (username user)
                 (origin @ ''/reset/'' @ encryptEmail E (email user) (makeAESKeySalt token) iv @ ''/'' @ token)) s3 of
          (Inl e, s4) \<Rightarrow> (Inl e, s4)
        | (Inr _, s4) \<Rightarrow> (Inr done, s4))))
      else
       (case send_mail E (Mail_Username (email user) (username user)) s of
          (Inl e, s1) \<Rightarrow> (Inl e, s1)
        | (Inr _, s1) \<Rightarrow> (Inr done, s1)))))"

subsection \<open>Logging in\<close>

text \<open>
  \<open>development\<close> is the check of \<open>NODE_ENV\<close>, \<open>req_login\<close> the session library: whether it
  accepts the user. (Where it does not, the code throws from a callback and never answers; the
  model answers the error.)
\<close>

definition login ::
    "env \<Rightarrow> mongo \<Rightarrow> bool \<Rightarrow> (IUserWithoutToken \<Rightarrow> bool) \<Rightarrow> string \<Rightarrow> string \<Rightarrow> string \<Rightarrow> bool \<Rightarrow> db
     \<Rightarrow> IUserWithoutToken result \<times> db" where
  "login E M development req_login uname pw totp expiryRequested s =
     (case findOne (users_dr M) (users_collection s) (\<lambda>u. username u = uname) of
        None \<Rightarrow> (Inl (CoreError CLIENT_ACTION_ON_NON_EXISTENT_ENTRY ''User does not exist.''), s)
      | Some user \<Rightarrow>
     if password user = [] \<or> otpSecret user = [] \<or> email user = [] \<or> username user = []
     then (Inl (CoreError CLIENT_ACTION_ON_NON_EXISTENT_ENTRY ''User does not exist.''), s)
     else if \<not> bcrypt_compare (crypto E) pw (password user) \<and> \<not> development
     then (Inl (CoreError AUTHENTICATION_ERROR ''Incorrect password.''), s)
     else
     (case verifyTOTP E totp (otpSecret user) 1 s of
        (Inl e, s1) \<Rightarrow> (Inl e, s1)
      | (Inr totpValidated, s1) \<Rightarrow>
     if \<not> totpValidated \<and> \<not> development
     then (Inl (CoreError AUTHENTICATION_ERROR ''Incorrect One-Time password.''), s1)
     else
     (let (late, s2) = (if expiredAt user \<noteq> 0
             then (let (now, s2) = Date_now E s1 in (expiredAt user < now, s2)) else (False, s1))
      in if late \<and> user_type user = STANDARD then
           (if expiryRequested then
             (case send_mail E (Mail_Expiry_Admin (username user) (email user)) s2 of
                (Inl e, s3) \<Rightarrow> (Inl e, s3)
              | (Inr _, s3) \<Rightarrow>
             (case send_mail E (Mail_Expiry_Client (email user) (username user)) s3 of
                (Inl e, s4) \<Rightarrow> (Inl e, s4)
              | (Inr _, s4) \<Rightarrow>
                  (Inl (CoreError UNQUALIFIED_ERROR
                     ''New expiry date has been requested! Wait for ADMIN to approve.''), s4)))
            else (Inl (CoreError AUTHENTICATION_ERROR
                    ''Account Expired. Please request a new expiry date!''), s2))
         else if req_login (without_token user) then (Inr (without_token user), s2)
         else (Inl (CoreError AUTHENTICATION_ERROR ''Cannot log in. Please try again later.''), s2))))"

definition logout :: "(IUserWithoutToken \<Rightarrow> bool) \<Rightarrow> requester \<Rightarrow> IGenericResponse result" where
  "logout req_logout requester =
     (case requester of
        None \<Rightarrow> Inr (makeGenericResponse None (Some False) None (Some ''Requester not known.''))
      | Some req \<Rightarrow>
          if req_logout req then Inr (makeGenericResponse (Some (doc_id req)) None None None)
          else Inl (CoreError AUTHENTICATION_ERROR ''Cannot log out. Please try again later.''))"

end
