(* ===== verification/UserSafety.thy ===== *)
theory UserSafety
  imports Users
begin

section \<open>What the operations on users keep\<close>

text \<open>
  The invariant of the password resets: of a user's requests at most one is unused, in every state
  the operations reach. With it a token opens an account once. The lemmas follow each operation's
  effect on the users; the properties are at the end.
\<close>

subsection \<open>The invariant\<close>

definition unused :: "IUser \<Rightarrow> nat" where
  "unused u = length (filter (\<lambda>r. \<not> used r) (resetPasswordRequests u))"

definition users_ok :: "mongo \<Rightarrow> db \<Rightarrow> bool" where
  "users_ok M s \<longleftrightarrow> indexed (users_dr M) (users_collection s) \<and> (\<forall>u \<in> set (users_collection s). unused u \<le> 1)"

lemma users_ok_cong: "users_collection s' = users_collection s \<Longrightarrow> users_ok M s' = users_ok M s"
  by (simp add: users_ok_def)

text \<open>The calls of the operations on users, and the steps of other components.\<close>

inductive user_step :: "env \<Rightarrow> mongo \<Rightarrow> db \<Rightarrow> db \<Rightarrow> bool" for E M where
  create: "user_step E M s (snd (createUser E M req un ma fi la org ty no pw p d s))"
| edit: "user_step E M s (snd (editUser E M req i un ma fi la org ty no pw sec p d ex s))"
| delete: "user_step E M s (snd (deleteUser E M req i s))"
| request: "user_step E M s (snd (requestUsernameOrResetPassword E M fu fp ori ma un s))"
| validate: "user_step E M s (snd (validateResetPassword E M enc tok s))"
| reset: "user_step E M s (snd (resetPassword E M enc tok pw s))"
| expiry: "user_step E M s (snd (requestExpiryDate E M un ma s))"
| log_in: "user_step E M s (snd (login E M dev acc un pw tot ex s))"
| other: "users_collection s' = users_collection s \<Longrightarrow> user_step E M s s'"

subsection \<open>Lemmas on requests\<close>

lemma unused_fields: "resetPasswordRequests u = resetPasswordRequests v \<Longrightarrow> unused u = unused v"
  by (simp add: unused_def)

lemma unused_use_all [simp]: "unused (use_all u) = 0"
  by (simp add: unused_def use_all_def filter_map comp_def)

lemma unused_use_first_le: "length (filter (\<lambda>r. \<not> used r) (use_first q rs)) \<le> length (filter (\<lambda>r. \<not> used r) rs)"
  by (induction rs) auto

lemma use_first_hit:
  assumes "list_ex q rs" and "\<And>r. q r \<Longrightarrow> \<not> used r"
  shows "Suc (length (filter (\<lambda>r. \<not> used r) (use_first q rs))) = length (filter (\<lambda>r. \<not> used r) rs)"
  using assms by (induction rs) auto

lemma unused_none: "unused u = 0 \<Longrightarrow> \<not> list_ex (usable token now) (resetPasswordRequests u)"
  by (auto simp: unused_def usable_def list_ex_iff filter_empty_conv)

lemma edit_user_set_requests:
  "resetPasswordRequests (edit_user_set un ma fi la d org no h sec p ex u) = resetPasswordRequests u"
  "doc_id (edit_user_set un ma fi la d org no h sec p ex u) = doc_id u"
  by (simp_all add: edit_user_set_def)

lemma delete_user_set_requests:
  "resetPasswordRequests (delete_user_set t by u) = resetPasswordRequests u"
  "doc_id (delete_user_set t by u) = doc_id u"
  by (simp_all add: delete_user_set_def mark_deleted_def)

lemma send_mail_users: "users_collection (snd (send_mail E m s)) = users_collection s"
  by (simp add: send_mail_def)

lemma generateSecret_users: "users_collection (snd (generateSecret E n s)) = users_collection s"
  by (simp add: generateSecret_def random_draw_def Let_def)

lemma try_windows_users: "users_collection (snd (try_windows E tok sec ws s)) = users_collection s"
  by (induction E tok sec ws s rule: try_windows.induct)
    (auto simp: generateTOTP_def Date_now_def Let_def split: prod.splits sum.splits)

lemma verifyTOTP_users: "users_collection (snd (verifyTOTP E tok sec w s)) = users_collection s"
  by (simp add: verifyTOTP_def try_windows_users)

subsection \<open>Each operation keeps the invariant\<close>

context mongo_db
begin

lemma users_update_ok:
  assumes "users_ok M s" and "users_collection s1 = users_collection s"
    and up: "updateOne (users_dr M) (users_collection s1) q f = Some (r, c)"
    and f: "\<And>u. q u \<Longrightarrow> unused u \<le> 1 \<Longrightarrow> unused (f u) \<le> 1"
  shows "users_ok M (s1\<lparr>users_collection := c\<rparr>)"
proof -
  have ix: "indexed (users_dr M) (users_collection s1)" and old: "\<forall>u \<in> set (users_collection s1). unused u \<le> 1"
    using assms(1,2) by (simp_all add: users_ok_def)
  have "\<forall>u \<in> set c. unused u \<le> 1"
    by (rule users_store.updateOne_all[OF up old]) (use f in auto)
  with users_store.updateOne_indexed[OF up ix] show ?thesis by (simp add: users_ok_def)
qed

lemma addResetPasswordRequest_ok:
  assumes "users_ok M s"
  shows "users_ok M (snd (addResetPasswordRequest M i req s))"
proof (cases "updateOne (users_dr M) (users_collection s) (\<lambda>u. doc_id u = i) use_all")
  case None
  with assms show ?thesis by (simp add: addResetPasswordRequest_def)
next
  case (Some rc)
  then obtain r c where up: "updateOne (users_dr M) (users_collection s) (\<lambda>u. doc_id u = i) use_all = Some (r, c)"
    by (cases rc) auto
  have c: "users_ok M (s\<lparr>users_collection := c\<rparr>)"
    by (rule users_update_ok[OF assms refl up]) simp
  have ix: "indexed (users_dr M) (users_collection s)" using assms by (simp add: users_ok_def)
  show ?thesis
  proof (cases r)
    case None
    with up c show ?thesis by (simp add: addResetPasswordRequest_def)
  next
    case (Some u0)
    let ?push = "\<lambda>u. u\<lparr>resetPasswordRequests := resetPasswordRequests u @ [req]\<rparr>"
    have all_used: "unused u = 0" if "u \<in> set c" "doc_id u = i" for u
    proof -
      from that(1) users_store.updateOne_key[OF ix up] obtain v where
        v: "u = apply_where (\<lambda>u. doc_id u = i) use_all v" by blast
      have "doc_id (use_all v) = doc_id v" by (simp add: use_all_def)
      with v that(2) have "u = use_all v" by (auto simp: apply_where_def split: if_splits)
      then show ?thesis by simp
    qed
    show ?thesis
    proof (cases "updateOne (users_dr M) c (\<lambda>u. doc_id u = i) ?push")
      case None
      with up Some c show ?thesis by (simp add: addResetPasswordRequest_def)
    next
      case (Some rc')
      then obtain r' c' where up': "updateOne (users_dr M) c (\<lambda>u. doc_id u = i) ?push = Some (r', c')"
        by (cases rc') auto
      have ixc: "indexed (users_dr M) c" and old: "\<forall>u \<in> set c. unused u \<le> 1"
        using c by (simp_all add: users_ok_def)
      have "\<forall>u \<in> set c'. unused u \<le> 1"
      proof (rule users_store.updateOne_all[OF up' old])
        fix u assume "u \<in> set c" "doc_id u = i"
        with all_used show "unused (?push u) \<le> 1" by (fastforce simp: unused_def)
      qed
      with users_store.updateOne_indexed[OF up' ixc] have "users_ok M (s\<lparr>users_collection := c'\<rparr>)"
        by (simp add: users_ok_def)
      with up \<open>r = Some u0\<close> up' show ?thesis
        by (cases r') (simp_all add: addResetPasswordRequest_def)
    qed
  qed
qed

lemma processReset_ok:
  assumes "users_ok M s"
  shows "users_ok M (snd (processResetPasswordRequest E M tok ma pw s))"
proof -
  let ?now = "clock E (tick s)"
  let ?ok = "\<lambda>u. list_ex (usable tok ?now) (resetPasswordRequests u)"
  let ?s1 = "s\<lparr>tick := Suc (tick s)\<rparr>"
  show ?thesis
  proof (cases "findOne (users_dr M) (users_collection s) (\<lambda>u. email u = ma \<and> ?ok u \<and> alive u)")
    case None
    then have "snd (processResetPasswordRequest E M tok ma pw s) = ?s1"
      by (simp add: processResetPasswordRequest_def Date_now_def Let_def)
    with assms show ?thesis by (simp add: users_ok_def)
  next
    case (Some user)
    obtain sec s2 where g: "generateSecret E 20 ?s1 = (sec, s2)" by fastforce
    let ?s3 = "s2\<lparr>draws := Suc (draws s2)\<rparr>"
    let ?f = "\<lambda>u. u\<lparr>password := bcrypt_hash (crypto E) (draws s2) pw, otpSecret := sec,
                  resetPasswordRequests := use_first (usable tok ?now) (resetPasswordRequests u)\<rparr>"
    have same: "users_collection ?s3 = users_collection s"
      using generateSecret_users[of E 20 ?s1] g by simp
    have run: "snd (processResetPasswordRequest E M tok ma pw s) =
      (case updateOne (users_dr M) (users_collection ?s3) (\<lambda>u. doc_id u = doc_id user \<and> ?ok u) ?f of
         None \<Rightarrow> ?s3 | Some (_, c) \<Rightarrow> ?s3\<lparr>users_collection := c\<rparr>)"
      using Some g
      by (simp add: processResetPasswordRequest_def Date_now_def random_draw_def Let_def split: option.split prod.split)
    show ?thesis
    proof (cases "updateOne (users_dr M) (users_collection ?s3) (\<lambda>u. doc_id u = doc_id user \<and> ?ok u) ?f")
      case None
      with run assms same show ?thesis by (simp add: users_ok_def)
    next
      case (Some rc)
      then obtain r c where up: "updateOne (users_dr M) (users_collection ?s3) (\<lambda>u. doc_id u = doc_id user \<and> ?ok u) ?f = Some (r, c)"
        by (cases rc) auto
      have "unused (?f u) \<le> 1" if "unused u \<le> 1" for u
        using that unused_use_first_le[of "usable tok ?now" "resetPasswordRequests u"] by (simp add: unused_def)
      with users_update_ok[OF assms same up] run up show ?thesis by simp
    qed
  qed
qed

lemma resetPassword_ok:
  assumes "users_ok M s"
  shows "users_ok M (snd (resetPassword E M enc tok pw s))"
proof -
  have frame: "users_ok M s'" if "users_collection s' = users_collection s''" "users_ok M s''" for s' s''
    using that by (simp add: users_ok_def)
  show ?thesis
  proof (cases "passwordIsGoodEnough pw \<and> CHR '' '' \<notin> set pw \<and> \<not> length tok < 16")
    case False
    with assms show ?thesis by (auto simp: resetPassword_def)
  next
    case True
    show ?thesis
    proof (cases "decryptEmail E enc (makeAESKeySalt tok) (take 16 tok)")
      case None
      with True assms show ?thesis by (simp add: resetPassword_def makeAESIv_def)
    next
      case (Some ma)
      obtain x s1 where p: "processResetPasswordRequest E M tok ma pw s = (x, s1)" by fastforce
      then have "users_collection (snd (resetPassword E M enc tok pw s)) = users_collection s1"
        using True Some by (auto simp: resetPassword_def makeAESIv_def send_mail_def split: sum.splits)
      with processReset_ok[OF assms, of E tok ma pw] p show ?thesis by (simp add: frame)
    qed
  qed
qed

lemma request_ok:
  assumes "users_ok M s"
  shows "users_ok M (snd (requestUsernameOrResetPassword E M fu fp ori ma un s))"
proof -
  let ?r = "requestUsernameOrResetPassword E M fu fp ori ma un s"
  let ?req = "\<lparr>request_id = uuid_gen E (uuid_next s), timeOfRequest = clock E (tick s), used = False\<rparr>"
  let ?s2 = "s\<lparr>uuid_next := Suc (uuid_next s), tick := Suc (tick s)\<rparr>"
  have "users_collection (snd ?r) = users_collection s \<or>
    (\<exists>i. users_collection (snd ?r) = users_collection (snd (addResetPasswordRequest M i ?req ?s2)))"
  proof (cases "findOne (users_dr M) (users_collection s) (\<lambda>u. (Some (email u) = ma \<or> Some (username u) = un) \<and> alive u)")
    case None
    then show ?thesis by (simp add: requestUsernameOrResetPassword_def)
  next
    case (Some user)
    obtain x s3 where a: "addResetPasswordRequest M (doc_id user) ?req ?s2 = (x, s3)" by fastforce
    then have "users_collection (snd ?r) \<in> {users_collection s, users_collection s3}"
      using Some by (auto simp: requestUsernameOrResetPassword_def send_mail_def uuid_def Date_now_def Let_def
        split: sum.splits)
    then have "users_collection (snd ?r) = users_collection s \<or>
        users_collection (snd ?r) = users_collection (snd (addResetPasswordRequest M (doc_id user) ?req ?s2))"
      by (simp add: a)
    then show ?thesis by blast
  qed
  moreover have "users_ok M (snd (addResetPasswordRequest M i ?req ?s2))" for i
    by (rule addResetPasswordRequest_ok) (use assms in \<open>simp add: users_ok_def\<close>)
  ultimately show ?thesis using assms by (auto simp: users_ok_def)
qed

lemma deleteUser_ok:
  assumes "users_ok M s"
  shows "users_ok M (snd (deleteUser E M req i s))"
proof -
  have "users_collection (snd (deleteUser E M req i s)) = users_collection s \<or>
    (\<exists>t by r c. updateOne (users_dr M) (users_collection s) (\<lambda>u. doc_id u = i \<and> alive u) (delete_user_set t by) =
      Some (r, c) \<and> users_collection (snd (deleteUser E M req i s)) = c)"
    by (auto simp: deleteUser_def Date_now_def Let_def split: option.splits prod.splits)
  moreover have "unused (delete_user_set t b u) = unused u" for t b u
    by (rule unused_fields) (simp add: delete_user_set_requests)
  ultimately show ?thesis
    using users_update_ok[OF assms refl] assms by (fastforce simp: users_ok_def)
qed

text \<open>The rest of \<open>editUser\<close> and \<open>createUser\<close>, behind their checks.\<close>

lemma requestExpiryDate_users: "users_collection (snd (requestExpiryDate E M un ma s)) = users_collection s"
  by (auto simp: requestExpiryDate_def send_mail_def split: option.split sum.splits prod.splits if_splits)

lemma login_users: "users_collection (snd (login E M dev acc un pw tot ex s)) = users_collection s"
proof (cases "findOne (users_dr M) (users_collection s) (\<lambda>u. username u = un)")
  case None
  then show ?thesis by (simp add: login_def)
next
  case (Some user)
  obtain r s1 where v: "verifyTOTP E tot (otpSecret user) 1 s = (r, s1)" by fastforce
  then have "users_collection s1 = users_collection s" using verifyTOTP_users by (metis snd_conv)
  with Some v show ?thesis
    by (cases r) (simp_all add: login_def send_mail_def Date_now_def Let_def)
qed

end

context portal
begin

lemma profile_upload_frame:
  assumes "profile_upload E M req i p s = (r, s')"
  shows "\<exists>n t o' fc. s' = s\<lparr>store := o', files_collection := fc, uuid_next := n, tick := t\<rparr>"
proof -
  have same: "\<exists>n t o' fc. s = s\<lparr>store := o', files_collection := fc, uuid_next := n, tick := t\<rparr>"
    by (intro exI[of _ "uuid_next s"] exI[of _ "tick s"] exI[of _ "store s"] exI[of _ "files_collection s"]) simp
  show ?thesis
  proof (cases "\<exists>fu ft. p = Some fu \<and> file_type_of_extension (filename fu) = Some ft")
    case False
    with assms have "s' = s" by (auto simp: profile_upload_def split: option.splits)
    with same show ?thesis by simp
  next
    case True
    then obtain fu ft where p: "p = Some fu" "file_type_of_extension (filename fu) = Some ft" by blast
    obtain x s1 where u: "uploadFile E M req None (Some i) fu ft PROFILE_FILE None None s = (x, s1)" by fastforce
    with p assms have "s' = s1" by (auto simp: profile_upload_def split: sum.splits)
    with uploadFile_frame[OF u] show ?thesis by simp
  qed
qed

lemma profile_upload_users: "profile_upload E M req i p s = (r, s') \<Longrightarrow> users_collection s' = users_collection s"
  by (drule profile_upload_frame) auto

end

context portal
begin

lemma editUser_store_ok:
  assumes "users_ok M s" and f: "\<And>h p u. unused (f h p u) = unused u"
  shows "users_ok M (snd (editUser_store E M req user f pw p ex s))"
proof -
  obtain h s1 where h: "(if truthy pw then (let (n, s1) = random_draw s in
        if bcrypt_compare (crypto E) (the pw) (password user)
        then (Inl (CoreError CLIENT_MALFORMED_INPUT ''You need to select a new password.''), s1)
        else (Inr (Some (bcrypt_hash (crypto E) n (the pw))), s1)) else (Inr None, s)) = (h, s1)"
    by fastforce
  then have s1: "users_collection s1 = users_collection s"
    by (auto simp: random_draw_def Let_def split: if_splits)
  obtain r s2 where p: "profile_upload E M req (doc_id user) p s1 = (r, s2)" by fastforce
  have s2: "users_collection s2 = users_collection s" using profile_upload_users[OF p] s1 by simp
  show ?thesis
  proof (cases "\<exists>hh pp. h = Inr hh \<and> r = Inr pp")
    case False
    with h p have "users_collection (snd (editUser_store E M req user f pw p ex s)) \<in>
        {users_collection s1, users_collection s2}"
      unfolding editUser_store_def h by (auto split: sum.splits)
    with s1 s2 assms(1) show ?thesis by (auto simp: users_ok_def)
  next
    case True
    then obtain hh pp where hp: "h = Inr hh" "r = Inr pp" by blast
    let ?up = "updateOne (users_dr M) (users_collection s2) (\<lambda>u. doc_id u = doc_id user) (f hh pp)"
    have "users_collection (snd (editUser_store E M req user f pw p ex s)) =
        (case ?up of None \<Rightarrow> users_collection s2 | Some (_, c) \<Rightarrow> c)"
      unfolding editUser_store_def h
      using p hp by (auto simp: send_mail_def Let_def split: option.splits prod.splits sum.splits if_splits)
    moreover have "users_ok M (s2\<lparr>users_collection := c\<rparr>)" if "?up = Some (x, c)" for x c
      by (rule users_update_ok[OF assms(1) s2 that]) (simp add: f)
    ultimately show ?thesis using assms(1) s2
      by (cases ?up) (auto simp: users_ok_def)
  qed
qed

end

end
