(* ===== verification/UserProps.thy ===== *)
theory UserProps
  imports UserSafety
begin

section \<open>Properties of users\<close>

context portal
begin

lemma editUser_ok:
  assumes "users_ok M s"
  shows "users_ok M (snd (editUser E M req i un ma fi la org ty no pw sec p d ex s))"
proof -
  let ?r = "editUser E M req i un ma fi la org ty no pw sec p d ex s"
  have "users_collection (snd ?r) = users_collection s \<or>
    (\<exists>rq user f ex' s1. users_collection s1 = users_collection s \<and> (\<forall>h p u. unused (f h p u) = unused u) \<and>
       snd ?r = snd (editUser_store E M rq user f pw p ex' s1))"
  proof (cases req)
    case None
    then show ?thesis by (simp add: editUser_def)
  next
    case (Some rq)
    define xx where "xx = (if ex = Some 0 then None else ex)"
    obtain past s1 where past: "(case xx of None \<Rightarrow> (False, s)
        | Some t \<Rightarrow> (let (now, s1) = Date_now E s in (t < now, s1))) = (past, s1)" by fastforce
    then have s1: "users_collection s1 = users_collection s"
      by (auto simp: Date_now_def Let_def split: option.splits)
    define f where "f user = (\<lambda>hashed p. edit_user_set (if truthy un \<and> the un \<noteq> username user then un else None)
        (if truthy ma \<and> the ma \<noteq> email user then ma else None) fi la d org no hashed sec p xx)" for user :: IUser
    have f: "\<forall>h p u. unused (f user h p u) = unused u" for user
      by (simp add: f_def unused_def edit_user_set_requests)
    let ?u = "findOne (users_dr M) (users_collection s1) (\<lambda>u. doc_id u = i \<and> alive u)"
    have run: "?r = (case edit_user_refused rq i un ma ty pw sec xx of Some e \<Rightarrow> (Inl e, s) | None \<Rightarrow>
      if past then (Inl (CoreError CLIENT_MALFORMED_INPUT ''Cannot set to a previous time.''), s1)
      else case ?u of
        None \<Rightarrow> (Inl (CoreError CLIENT_ACTION_ON_NON_EXISTENT_ENTRY ''User does not exist.''), s1)
      | Some user \<Rightarrow> (case edit_user_conflict M s1 user un ma org of Some e \<Rightarrow> (Inl e, s1)
          | None \<Rightarrow> editUser_store E M rq user (f user) pw p xx s1))"
      unfolding editUser_def Some option.case xx_def[symmetric] f_def by (simp only: Let_def past[unfolded Let_def] prod.case)
    have "snd ?r = s \<or> snd ?r = s1 \<or> (\<exists>user. snd ?r = snd (editUser_store E M rq user (f user) pw p xx s1))"
      unfolding run
      by (cases "edit_user_refused rq i un ma ty pw sec xx"; cases ?u; cases "edit_user_conflict M s1 (the ?u) un ma org")
        auto
    with s1 f show ?thesis by metis
  qed
  then show ?thesis
  proof (elim disjE exE conjE)
    assume "users_collection (snd ?r) = users_collection s"
    with assms show ?thesis by (simp add: users_ok_def)
  next
    fix rq user f ex' s1
    assume s1: "users_collection s1 = users_collection s" and f: "\<forall>h p u. unused (f h p u) = unused u"
      and r: "snd ?r = snd (editUser_store E M rq user f pw p ex' s1)"
    have "users_ok M s1" using assms s1 by (simp add: users_ok_def)
    with editUser_store_ok[of s1 f] f r show ?thesis by simp
  qed
qed

text \<open>What \<open>createUser\<close> writes when it gets through its checks.\<close>

lemma createUser_store_users:
  "users_collection (snd (createUser_store E M entry s)) = users_collection s \<or>
   insertOne (users_dr M) (users_collection s) entry = Some (users_collection (snd (createUser_store E M entry s)))"
  by (cases "insertOne (users_dr M) (users_collection s) entry")
    (auto simp: createUser_store_def send_mail_def uuid_def Date_now_def Let_def split: option.split sum.splits prod.splits)

lemma createUser_users:
  "users_collection (snd (createUser E M req un ma fi la org ty no pw p d s)) = users_collection s \<or>
   (\<exists>u. resetPasswordRequests u = [] \<and> insertOne (users_dr M) (users_collection s) u =
      Some (users_collection (snd (createUser E M req un ma fi la org ty no pw p d s))))"
proof -
  obtain sec s1 where g: "generateSecret E 20 s = (sec, s1)" by fastforce
  then have s1: "users_collection s1 = users_collection s" using generateSecret_users by (metis snd_conv)
  let ?s5 = "s1\<lparr>uuid_next := Suc (uuid_next s1), draws := Suc (draws s1), tick := Suc (Suc (tick s1))\<rparr>"
  define entry where "entry = \<lparr>doc_id = uuid_gen E (uuid_next s1),
    life = new_life (clock E (Suc (tick s1))) (case req of None \<Rightarrow> uuid_gen E (uuid_next s1) | Some rq \<Rightarrow> doc_id rq),
    metadata = [], username = un, email = ma, firstname = fi, lastname = la,
    organisation = org, user_type = ty, emailNotificationsActivated = no,
    expiringNotification = False, resetPasswordRequests = [], user_profile = None,
    expiredAt = clock E (tick s1) + 86400 * 1000 * defaultUserExpiredDays default_userConfig,
    user_description = Some (nullish d ''''),
    password = bcrypt_hash (crypto E) (draws s1) pw, otpSecret = sec\<rparr>"
  obtain r s6 where p: "profile_upload E M (without_token entry) (uuid_gen E (uuid_next s1)) p ?s5 = (r, s6)" by fastforce
  have s6: "users_collection s6 = users_collection s" using profile_upload_users[OF p] s1 by simp
  have "snd (createUser E M req un ma fi la org ty no pw p d s) \<in> {s, s1, s6} \<or>
    (\<exists>pp. snd (createUser E M req un ma fi la org ty no pw p d s) =
       snd (createUser_store E M (entry\<lparr>user_profile := pp\<rparr>) s6))"
    using p by (auto simp: createUser_def g uuid_def random_draw_def Date_now_def Let_def entry_def split: sum.splits)
  then show ?thesis
  proof
    assume "snd (createUser E M req un ma fi la org ty no pw p d s) \<in> {s, s1, s6}"
    with s1 s6 show ?thesis by auto
  next
    assume "\<exists>pp. snd (createUser E M req un ma fi la org ty no pw p d s) =
       snd (createUser_store E M (entry\<lparr>user_profile := pp\<rparr>) s6)"
    then obtain pp where "snd (createUser E M req un ma fi la org ty no pw p d s) =
       snd (createUser_store E M (entry\<lparr>user_profile := pp\<rparr>) s6)" by blast
    moreover have "resetPasswordRequests (entry\<lparr>user_profile := pp\<rparr>) = []" by (simp add: entry_def)
    ultimately show ?thesis using createUser_store_users[of "entry\<lparr>user_profile := pp\<rparr>" s6] s6 by metis
  qed
qed

lemma createUser_ok:
  assumes "users_ok M s"
  shows "users_ok M (snd (createUser E M req un ma fi la org ty no pw p d s))"
  using createUser_users[of req un ma fi la org ty no pw p d s]
proof (elim disjE exE conjE)
  fix u assume "resetPasswordRequests u = []" and ins: "insertOne (users_dr M) (users_collection s) u =
      Some (users_collection (snd (createUser E M req un ma fi la org ty no pw p d s)))"
  then have "unused u \<le> 1" by (simp add: unused_def)
  with ins assms show ?thesis
    unfolding users_ok_def
    using users_store.insertOne_indexed[OF ins] users_store.insertOne_all[OF ins] by blast
qed (use assms in \<open>simp add: users_ok_def\<close>)

lemma user_step_ok:
  assumes "user_step E M s s'" and "users_ok M s"
  shows "users_ok M s'"
  using assms
proof cases
  case validate
  then show ?thesis using assms(2)
    by (auto simp: validateResetPassword_def Date_now_def Let_def users_ok_def split: sum.split option.split)
next
  case other
  with assms(2) show ?thesis by (simp add: users_ok_def)
qed (use assms(2) in \<open>simp_all add: createUser_ok editUser_ok deleteUser_ok request_ok resetPassword_ok
    users_ok_cong[OF requestExpiryDate_users] users_ok_cong[OF login_users]\<close>)

lemma user_steps_ok: "(user_step E M)\<^sup>*\<^sup>* s s' \<Longrightarrow> users_ok M s \<Longrightarrow> users_ok M s'"
  by (induction rule: rtranclp_induct) (auto intro: user_step_ok)

end

subsection \<open>Password resets\<close>

lemma email_alive_unique:
  assumes "users_ok M s" and "mongo_ok M" and "u \<in> set (users_collection s)" "v \<in> set (users_collection s)"
    and "email u = email v" "alive u" "alive v"
  shows "u = v"
proof -
  have "(\<lambda>d. JArr [JStr (email d), deleted_key d]) \<in> set (indexes (users_dr M))"
    using assms(2) by (simp add: mongo_ok_def users_indexes_def)
  from indexed_unique[OF _ this assms(3,4)] assms show ?thesis
    by (simp add: users_ok_def alive_def deleted_key_def)
qed

text \<open>What the stored user becomes.\<close>

definition reset_user :: "string \<Rightarrow> int \<Rightarrow> string \<Rightarrow> string \<Rightarrow> IUser \<Rightarrow> IUser" where
  "reset_user token now hashed secret u = u\<lparr>password := hashed, otpSecret := secret,
     resetPasswordRequests := use_first (usable token now) (resetPasswordRequests u)\<rparr>"

lemma reset_user_fields [simp]:
  "doc_id (reset_user tok t h sec u) = doc_id u" "username (reset_user tok t h sec u) = username u"
  "email (reset_user tok t h sec u) = email u" "life (reset_user tok t h sec u) = life u"
  "otpSecret (reset_user tok t h sec u) = sec" "password (reset_user tok t h sec u) = h"
  by (simp_all add: reset_user_def)

text \<open>The secret that \<open>generateSecret\<close> draws next.\<close>

definition next_secret :: "env \<Rightarrow> db \<Rightarrow> string" where
  "next_secret E s = fst (generateSecret E 20 s)"

context mongo_db
begin

lemma processReset_spec:
  assumes "users_ok M s" and p: "processResetPasswordRequest E M tok ma pw s = (Inr u, s')"
  shows "u \<in> set (users_collection s) \<and> email u = ma \<and> alive u \<and>
    list_ex (usable tok (clock E (tick s))) (resetPasswordRequests u) \<and>
    set (users_collection s') = insert (reset_user tok (clock E (tick s))
        (bcrypt_hash (crypto E) (Suc (draws s)) pw) (next_secret E s) u) (set (users_collection s) - {u}) \<and>
    outbox s' = outbox s"
proof -
  let ?now = "clock E (tick s)"
  let ?ok = "\<lambda>u. list_ex (usable tok ?now) (resetPasswordRequests u)"
  let ?f = "reset_user tok ?now (bcrypt_hash (crypto E) (Suc (draws s)) pw) (next_secret E s)"
  obtain user where f: "findOne (users_dr M) (users_collection s) (\<lambda>u. email u = ma \<and> ?ok u \<and> alive u) = Some user"
    using p by (fastforce simp: processResetPasswordRequest_def Date_now_def Let_def split: option.splits)
  from users_store.findOne_Some[OF this] have user: "user \<in> set (users_collection s)" "email user = ma" "?ok user" "alive user"
    by simp_all
  have "?f = (\<lambda>u. u\<lparr>password := bcrypt_hash (crypto E) (Suc (draws s)) pw,
      otpSecret := filter (\<lambda>c. c \<noteq> CHR ''='') (base32_encode (crypto E) (randomBytes (crypto E) (draws s) 20)),
      resetPasswordRequests := use_first (usable tok ?now) (resetPasswordRequests u)\<rparr>)"
    by (simp add: fun_eq_iff reset_user_def next_secret_def generateSecret_def random_draw_def Let_def)
  with p f obtain c where up: "updateOne (users_dr M) (users_collection s) (\<lambda>u. doc_id u = doc_id user \<and> ?ok u) ?f = Some (Some u, c)"
    and s': "users_collection s' = c" "outbox s' = outbox s"
    by (auto simp: processResetPasswordRequest_def generateSecret_def random_draw_def Date_now_def Let_def
        split: option.splits prod.splits)
  have ix: "indexed (users_dr M) (users_collection s)" using assms(1) by (simp add: users_ok_def)
  have only: "e = user" if "e \<in> set (users_collection s)" "doc_id e = doc_id user \<and> ?ok e" for e
    using users_store.key_inj[OF ix that(1) user(1)] that(2) by simp
  let ?q = "\<lambda>u. doc_id u = doc_id user \<and> ?ok u"
  have q: "?q user" using user(3) by simp
  have uq: "Some u = Some user \<and> set c = apply_where ?q ?f ` set (users_collection s)"
    by (rule users_store.updateOne_unique[OF up user(1) q only users_store.count_one[OF ix user(1)]])
  have "apply_where ?q ?f ` set (users_collection s) = insert (?f user) (set (users_collection s) - {user})"
    by (rule image_apply_single[where q = ?q and f = ?f, OF user(1) q only])
  with uq have "u = user" "set c = insert (?f user) (set (users_collection s) - {user})" by simp_all
  with user s' show ?thesis by simp
qed

lemma resetPassword_inr:
  assumes "resetPassword E M enc tok pw s = (Inr r, s')"
  shows "\<exists>ma u s1. decryptEmail E enc (makeAESKeySalt tok) (take 16 tok) = Some ma \<and>
    processResetPasswordRequest E M tok ma pw s = (Inr u, s1) \<and> users_collection s' = users_collection s1 \<and>
    outbox s' = outbox s1 @ [Mail_Reset_Done ma (firstname u) (toLowerCase (otpSecret u))]"
  using assms
  by (auto simp: resetPassword_def makeAESIv_def send_mail_def split: sum.splits prod.splits option.splits if_splits)

lemma user_found:
  "findOne (users_dr M) (users_collection s) q = Some u \<Longrightarrow> u \<in> set (users_collection s) \<and> q u"
  by (rule users_store.findOne_Some)

lemma processReset_none:
  assumes "\<And>u. u \<in> set (users_collection s) \<Longrightarrow> email u = ma \<Longrightarrow> alive u \<Longrightarrow> unused u = 0"
  shows "\<exists>s'. processResetPasswordRequest E M tok ma pw s =
    (Inl (CoreError CLIENT_ACTION_ON_NON_EXISTENT_ENTRY ''User does not exist.''), s')"
proof -
  have "findOne (users_dr M) (users_collection s)
      (\<lambda>u. email u = ma \<and> list_ex (usable tok (clock E (tick s))) (resetPasswordRequests u) \<and> alive u) = None"
    using assms unused_none by (subst users_store.findOne_None) blast
  then show ?thesis by (simp add: processResetPasswordRequest_def Date_now_def Let_def)
qed

lemma reset_locks:
  assumes ok: "users_ok M s" and r: "resetPassword E M enc tok pw s = (Inr r, s')"
    and u': "u' \<in> set (users_collection s')" "email u' = ma" "alive u'"
    and ma: "decryptEmail E enc (makeAESKeySalt tok) (take 16 tok) = Some ma"
  shows "unused u' = 0"
proof -
  from resetPassword_inr[OF r] ma obtain u s1 where
    p: "processResetPasswordRequest E M tok ma pw s = (Inr u, s1)" "users_collection s' = users_collection s1" by auto
  note sp = processReset_spec[OF ok p(1)]
  let ?f = "reset_user tok (clock E (tick s)) (bcrypt_hash (crypto E) (Suc (draws s)) pw) (next_secret E s)"
  have "u' = ?f u"
  proof (rule ccontr)
    assume "u' \<noteq> ?f u"
    with u'(1) p(2) sp have "u' \<in> set (users_collection s)" "u' \<noteq> u" by auto
    with email_alive_unique[OF ok _ this(1)] mongo_db.ok[OF mongo_db_axioms] sp u' show False by metis
  qed
  moreover have "unused u \<le> 1" using ok sp by (simp add: users_ok_def)
  moreover have "Suc (unused (?f u)) = unused u"
    using use_first_hit[of "usable tok (clock E (tick s))" "resetPasswordRequests u"] sp
    by (simp add: unused_def reset_user_def usable_def)
  ultimately show ?thesis by simp
qed

end

subsection \<open>Accounts\<close>

lemma login_inr:
  assumes "login E M False acc un pw tot ex s = (Inr r, s')"
  shows "\<exists>u s1. findOne (users_dr M) (users_collection s) (\<lambda>u. username u = un) = Some u \<and>
    bcrypt_compare (crypto E) pw (password u) \<and> verifyTOTP E tot (otpSecret u) 1 s = (Inr True, s1) \<and>
    (user_type u = STANDARD \<longrightarrow> expiredAt u = 0 \<or> clock E (tick s1) \<le> expiredAt u) \<and>
    acc (without_token u) \<and> r = without_token u"
proof -
  obtain u where u: "findOne (users_dr M) (users_collection s) (\<lambda>u. username u = un) = Some u"
    using assms by (fastforce simp: login_def split: option.splits)
  obtain v s1 where v: "verifyTOTP E tot (otpSecret u) 1 s = (v, s1)" by fastforce
  show ?thesis
    using assms u v
    by (cases v) (auto simp: login_def Date_now_def send_mail_def Let_def split: if_splits)
qed

lemma createUser_inr:
  assumes "createUser E M req un ma fi la org ty no pw p d s = (Inr u, s')"
  shows "email_format ma \<and> username u = un \<and> email u = ma \<and> user_type u = ty \<and>
    findOne (users_dr M) (users_collection s) (\<lambda>u. username u = un \<or> email u = ma) = None \<and>
    findOne (organisations_dr M) (organisations_collection s) (\<lambda>d. doc_id d = org \<and> alive d) \<noteq> None \<and>
    otpSecret u = next_secret E s \<and> password u = bcrypt_hash (crypto E) (Suc (draws s)) pw \<and>
    alive u \<and> resetPasswordRequests u = [] \<and>
    (\<exists>s6. createUser_store E M u s6 = (Inr u, s') \<and>
       (\<exists>i q s5. profile_upload E M q i p s5 = (Inr (user_profile u), s6) \<and>
          s5 = s\<lparr>uuid_next := uuid_next s5, tick := tick s5, draws := draws s5\<rparr>))"
proof -
  have store: "u = entry" if "createUser_store E M entry s6 = (Inr u, s')" for entry s6
    using that by (auto simp: createUser_store_def send_mail_def Let_def split: option.splits prod.splits sum.splits if_splits)
  let ?no_user = "findOne (users_dr M) (users_collection s) (\<lambda>u. username u = un \<or> email u = ma) = None"
  let ?org = "findOne (organisations_dr M) (organisations_collection s) (\<lambda>d. doc_id d = org \<and> alive d) \<noteq> None"
  have guards: "email_format ma" "\<not> (pw \<noteq> [] \<and> \<not> passwordIsGoodEnough pw)" "CHR '' '' \<notin> set un" "CHR '' '' \<notin> set pw"
      ?no_user ?org
    using assms by (auto simp: createUser_def generateSecret_def random_draw_def Let_def split: if_splits)
  obtain sec s1 where g: "generateSecret E 20 s = (sec, s1)" by fastforce
  obtain i s2 where i: "uuid E s1 = (i, s2)" by fastforce
  obtain n s3 where n: "random_draw s2 = (n, s3)" by fastforce
  obtain t s4 where t: "Date_now E s3 = (t, s4)" by fastforce
  obtain t' s5 where t': "Date_now E s4 = (t', s5)" by fastforce
  have eqs: "sec = next_secret E s" "s1 = s\<lparr>draws := Suc (draws s)\<rparr>" "n = Suc (draws s)"
      "s5 = s\<lparr>uuid_next := uuid_next s5, tick := tick s5, draws := draws s5\<rparr>"
    using g i n t t' by (auto simp: next_secret_def generateSecret_def random_draw_def uuid_def Date_now_def Let_def)
  have same: "users_collection s1 = users_collection s" "organisations_collection s1 = organisations_collection s"
    by (simp_all add: eqs(2))
  define entry where "entry = \<lparr>doc_id = i,
    life = new_life t' (case req of None \<Rightarrow> i | Some rq \<Rightarrow> doc_id rq),
    metadata = [], username = un, email = ma, firstname = fi, lastname = la,
    organisation = org, user_type = ty, emailNotificationsActivated = no,
    expiringNotification = False, resetPasswordRequests = [], user_profile = None,
    expiredAt = t + 86400 * 1000 * defaultUserExpiredDays default_userConfig,
    user_description = Some (nullish d ''''),
    password = bcrypt_hash (crypto E) n pw, otpSecret = sec\<rparr>"
  obtain r s6 where pu: "profile_upload E M (without_token entry) i p s5 = (r, s6)" by fastforce
  have run: "createUser E M req un ma fi la org ty no pw p d s =
    (case r of Inl e \<Rightarrow> (Inl e, s6) | Inr pp \<Rightarrow> createUser_store E M (entry\<lparr>user_profile := pp\<rparr>) s6)"
    by (simp only: createUser_def g i n t t' same guards pu[unfolded entry_def] entry_def Let_def prod.case
        if_True if_False not_True_eq_False not_False_eq_True simp_thms case_prod_conv)
  with assms obtain pp where pp: "r = Inr pp" "createUser_store E M (entry\<lparr>user_profile := pp\<rparr>) s6 = (Inr u, s')"
    by (cases r) auto
  from store[OF pp(2)] have u: "u = entry\<lparr>user_profile := pp\<rparr>" .
  have "profile_upload E M (without_token entry) i p s5 = (Inr (user_profile u), s6)"
    using pu pp(1) u by simp
  moreover have "createUser_store E M u s6 = (Inr u, s')" using pp(2) u by simp
  ultimately have "\<exists>s6. createUser_store E M u s6 = (Inr u, s') \<and>
       (\<exists>i q s5. profile_upload E M q i p s5 = (Inr (user_profile u), s6) \<and>
          s5 = s\<lparr>uuid_next := uuid_next s5, tick := tick s5, draws := draws s5\<rparr>)"
    using eqs(4) by blast
  moreover have "username u = un \<and> email u = ma \<and> user_type u = ty \<and> otpSecret u = next_secret E s \<and>
      password u = bcrypt_hash (crypto E) (Suc (draws s)) pw \<and> alive u \<and> resetPasswordRequests u = []"
    by (simp add: u entry_def eqs(1,3))
  ultimately show ?thesis using guards by blast
qed

context portal
begin

lemma profile_upload_frame:
  assumes "profile_upload E M rq i p s = (r, s')"
  shows "users_collection s' = users_collection s \<and> outbox s' = outbox s"
proof -
  have "s' = s \<or> (\<exists>fu ft r. uploadFile E M rq None (Some i) fu ft PROFILE_FILE None None s = (r, s'))"
    using assms by (auto simp: profile_upload_def split: option.splits prod.splits sum.splits)
  then show ?thesis
  proof (elim disjE exE)
    fix fu ft r assume "uploadFile E M rq None (Some i) fu ft PROFILE_FILE None None s = (r, s')"
    from uploadFile_frame[OF this] show ?thesis by auto
  qed simp
qed

end

context mongo_db
begin

lemma createUser_store_inr:
  assumes "createUser_store E M u s = (Inr r, s')"
  shows "set (users_collection s') = insert u (set (users_collection s)) \<and>
    (\<exists>dr \<in> set (drives_collection s'). managerId dr = Uid (doc_id u) \<and> parent dr = None \<and> path dr = [doc_id dr]) \<and>
    (\<exists>c \<in> set (configs_collection s'). config_type c = USERCONFIG \<and> config_key c = Some (doc_id u) \<and>
       properties c = UserProps default_userConfig) \<and>
    outbox s' = outbox s @ [Mail_Registered (email u) (firstname u) (username u) (toLowerCase (otpSecret u))]"
proof -
  obtain uc where uc: "insertOne (users_dr M) (users_collection s) u = Some uc"
    using assms by (auto simp: createUser_store_def split: option.splits)
  from assms uc obtain dc dr where dc: "insertOne (drives_dr M) (drives_collection s) dr = Some dc"
      "managerId dr = Uid (doc_id u)" "parent dr = None" "path dr = [doc_id dr]" "drives_collection s' = dc"
    and cc: "\<exists>c cc. insertOne (configs_dr M) (configs_collection s) c = Some cc \<and> config_type c = USERCONFIG \<and>
      config_key c = Some (doc_id u) \<and> properties c = UserProps default_userConfig \<and> configs_collection s' = cc"
    and rest: "users_collection s' = uc"
      "outbox s' = outbox s @ [Mail_Registered (email u) (firstname u) (username u) (toLowerCase (otpSecret u))]"
    by (force simp: createUser_store_def send_mail_def uuid_def Date_now_def Let_def
        split: option.splits sum.splits prod.splits if_splits)
  from users_store.insertOne_set[OF uc] drives_store.insertOne_set[OF dc(1)] dc(2-5) cc rest
    configs_store.insertOne_set show ?thesis by fastforce
qed

lemma deleteUser_spec:
  assumes ix: "indexed (users_dr M) (users_collection s)"
    and del: "deleteUser E M (Some rq) i s = (Inr resp, s')"
  shows "(user_type rq = ADMIN \<or> doc_id rq = i) \<and> (\<exists>u \<in> set (users_collection s). doc_id u = i \<and> alive u) \<and>
    set (users_collection s') = apply_where (\<lambda>u. doc_id u = i \<and> alive u) (delete_user_set (clock E (tick s)) (doc_id rq))
      ` set (users_collection s) \<and>
    set (roles_collection s') = apply_where (\<lambda>r. alive r \<and> i \<in> set (role_users r))
      (\<lambda>r. r\<lparr>role_users := removeAll i (role_users r)\<rparr>) ` set (roles_collection s)"
proof -
  let ?q = "\<lambda>u. doc_id u = i \<and> alive (u :: IUser)" and ?f = "delete_user_set (clock E (tick s)) (doc_id rq)"
  let ?p = "\<lambda>r. alive (r :: IRole) \<and> i \<in> set (role_users r)"
    and ?g = "\<lambda>r. r\<lparr>role_users := removeAll i (role_users r)\<rparr>"
  from del obtain u where u: "findOne (users_dr M) (users_collection s) ?q = Some u"
    by (auto simp: deleteUser_def split: if_splits option.splits)
  with del obtain r uc where uc: "updateOne (users_dr M) (users_collection s) ?q ?f = Some (r, uc)"
      "users_collection s' = uc"
    and rc: "updateMany (roles_dr M) (roles_collection s) ?p ?g = (True, roles_collection s')"
    by (auto simp: deleteUser_def Date_now_def Let_def split: if_splits option.splits prod.splits)
  have "set uc = apply_where ?q ?f ` set (users_collection s)"
    by (rule users_store.updateOne_keyed[OF ix uc(1)]) simp
  moreover have "user_type rq = ADMIN \<or> doc_id rq = i" using del by (auto simp: deleteUser_def split: if_splits)
  moreover have "u \<in> set (users_collection s) \<and> doc_id u = i \<and> alive u" using users_store.findOne_Some[OF u] .
  moreover note roles_store.updateMany_set[OF rc] uc(2)
  ultimately show ?thesis by blast
qed

lemma no_user_found:
  "findOne (users_dr M) (users_collection s) (\<lambda>u. username u = un \<or> email u = ma) = None \<Longrightarrow>
   \<forall>u \<in> set (users_collection s). username u \<noteq> un \<and> email u \<noteq> ma"
  using users_store.findOne_None[of "users_collection s" "\<lambda>u. username u = un \<or> email u = ma"] by blast

lemma org_found:
  "findOne (organisations_dr M) (organisations_collection s) (\<lambda>d. doc_id d = org \<and> alive d) \<noteq> None \<Longrightarrow>
   \<exists>d \<in> set (organisations_collection s). doc_id d = org \<and> alive d"
  using organisations_store.findOne_None[of "organisations_collection s" "\<lambda>d. doc_id d = org \<and> alive d"] by auto

end

subsection \<open>Sample users\<close>

definition token0 :: string where
  "token0 = replicate 16 (CHR ''t'')"

definition alice0 :: IUser where
  "alice0 = (with_token (user0 ''alice'' STANDARD))\<lparr>email := ''alice@x.org'', password := ''hsecret12'',
     otpSecret := ''OLD'', resetPasswordRequests := [\<lparr>request_id = token0, timeOfRequest = 1000, used = False\<rparr>]\<rparr>"

definition users0 :: db where
  "users0 = db0\<lparr>users_collection := [alice0], roles_collection := [role0 ''r'' ''st'' STUDY_MANAGER [''alice'', ''bob''] []],
     organisations_collection := [\<lparr>doc_id = ''org'', life = life0, metadata = [], org_name = ''org'', shortname = None,
       org_profile = None\<rparr>]\<rparr>"

lemmas user_eval = users0_def alice0_def token0_def sample_defs crypto0_def list_mongo_def list_driver_simps
  users_indexes_def

lemma users0_ok: "users_ok list_mongo users0"
  by (simp add: users_ok_def indexed_def unused_def user_eval)

lemma users0_reset:
  "\<exists>r s'. resetPassword env0 list_mongo (token0 @ ''alice@x.org'') token0 ''newsecret'' users0 = (Inr r, s')"
  by (simp add: resetPassword_def processResetPasswordRequest_def passwordIsGoodEnough_def makeAESIv_def
      makeAESKeySalt_def decryptEmail_def usable_def ONE_HOUR_IN_MILLISEC_def generateSecret_def random_draw_def
      send_mail_def Date_now_def Let_def user_eval alive_def)

lemma hotp_env0: "generateHOTP env0 x c = Inr 0"
proof -
  have "dynamicTruncationFn (replicate 20 0) = 0" by code_simp
  then show ?thesis by (simp add: generateHOTP_def env0_def crypto0_def js_rem_def)
qed

lemma login_alice:
  "\<exists>s'. login env0 list_mongo False (\<lambda>u. True) ''alice'' ''secret12'' ''000000'' False users0 =
     (Inr (without_token alice0), s')"
proof -
  have "parseInt ''000000'' = Fin 0"
    by (simp add: parseInt_def is_js_space_def digit_value_def nat_of_digits_def with_sign_def)
  then have v: "\<exists>s'. verifyTOTP env0 ''000000'' ''OLD'' 1 users0 = (Inr True, s') \<and> tick s' = 1"
    by (simp add: verifyTOTP_def generateTOTP_def Date_now_def hotp_env0 upto.simps Let_def users0_def db0_def)
  then show ?thesis
    by (auto simp: login_def Date_now_def Let_def user_eval)
qed

subsection \<open>Properties\<close>

text \<open>
  C13. A token resets a password once: after a successful reset no token whatsoever, at no time,
  resets the password of that address again, until the users change (by a new request). It holds in
  every state the user operations can reach, where the requests of every user but one are used.
\<close>

theorem reset_token_opens_once:
  assumes "mongo_ok M" and "object_store (minio E)" and "users_ok M s0"
    and "(user_step E M)\<^sup>*\<^sup>* s0 s" and "resetPassword E M enc tok pw s = (Inr r, s')"
    and "decryptEmail E enc (makeAESKeySalt tok) (take 16 tok) = Some ma"
    and "users_collection s2 = users_collection s'"
    and "decryptEmail E2 enc2 (makeAESKeySalt tok2) (take 16 tok2) = Some ma"
  shows "\<exists>e s3. resetPassword E2 M enc2 tok2 pw2 s2 = (Inl e, s3)"
proof -
  have p: "portal M E" using assms(1,2) by (simp add: portal_def mongo_db_def)
  have db: "mongo_db M" by (rule mongo_db.intro[OF assms(1)])
  have ok: "users_ok M s" by (rule portal.user_steps_ok[OF p assms(4,3)])
  have "\<exists>s3. processResetPasswordRequest E2 M tok2 ma pw2 s2 =
      (Inl (CoreError CLIENT_ACTION_ON_NON_EXISTENT_ENTRY ''User does not exist.''), s3)"
    by (rule mongo_db.processReset_none[OF db])
      (use mongo_db.reset_locks[OF db ok assms(5) _ _ _ assms(6)] assms(7) in simp)
  with assms(8) show ?thesis by (auto simp: resetPassword_def makeAESIv_def)
qed

theorem reset_token_opens_once_witness:
  "\<exists>r s' e s3. resetPassword env0 list_mongo (token0 @ ''alice@x.org'') token0 ''newsecret'' users0 = (Inr r, s') \<and>
     resetPassword env0 list_mongo (token0 @ ''alice@x.org'') token0 ''another1'' s' = (Inl e, s3)"
proof -
  obtain r s' where r: "resetPassword env0 list_mongo (token0 @ ''alice@x.org'') token0 ''newsecret'' users0 = (Inr r, s')"
    using users0_reset by blast
  have d: "decryptEmail env0 (token0 @ ''alice@x.org'') (makeAESKeySalt token0) (take 16 token0) = Some ''alice@x.org''"
    by (simp add: decryptEmail_def makeAESKeySalt_def user_eval)
  have "object_store (minio env0)" by (simp add: env0_def list_objects.object_store_axioms)
  from reset_token_opens_once[OF list_mongo_ok this users0_ok rtranclp.rtrancl_refl r d refl d] r
  show ?thesis by blast
qed

text \<open>
  A reset stores a newly drawn secret for the one-time passwords, but the mail it sends carries
  the secret the user had before: the update returns the document as it was.
\<close>

theorem reset_mails_old_secret:
  assumes "mongo_ok M" and "users_ok M s" and "resetPassword E M enc tok pw s = (Inr r, s')"
  shows "\<exists>u \<in> set (users_collection s). \<exists>u' \<in> set (users_collection s'). doc_id u' = doc_id u \<and>
    otpSecret u' = next_secret E s \<and> bcrypt_hash (crypto E) (Suc (draws s)) pw = password u' \<and>
    outbox s' = outbox s @ [Mail_Reset_Done (email u) (firstname u) (toLowerCase (otpSecret u))]"
proof -
  note db = mongo_db.intro[OF assms(1)]
  from mongo_db.resetPassword_inr[OF db assms(3)] obtain ma u s1 where
    p: "processResetPasswordRequest E M tok ma pw s = (Inr u, s1)" "users_collection s' = users_collection s1"
      "outbox s' = outbox s1 @ [Mail_Reset_Done ma (firstname u) (toLowerCase (otpSecret u))]" by blast
  let ?u = "reset_user tok (clock E (tick s)) (bcrypt_hash (crypto E) (Suc (draws s)) pw) (next_secret E s) u"
  note sp = mongo_db.processReset_spec[OF db assms(2) p(1)]
  then have "u \<in> set (users_collection s)" "?u \<in> set (users_collection s')" by (simp_all add: p(2))
  moreover have "outbox s' = outbox s @ [Mail_Reset_Done (email u) (firstname u) (toLowerCase (otpSecret u))]"
    using sp p(3) by simp
  ultimately show ?thesis by (intro bexI[of _ u] bexI[of _ ?u]) (simp_all add: reset_user_def)
qed

theorem reset_mails_old_secret_witness:
  "\<exists>r s'. resetPassword env0 list_mongo (token0 @ ''alice@x.org'') token0 ''newsecret'' users0 = (Inr r, s') \<and>
     mail_secret (last (outbox s')) = ''old'' \<and> (\<exists>u \<in> set (users_collection s'). otpSecret u = next_secret env0 users0)"
proof -
  obtain r s' where r: "resetPassword env0 list_mongo (token0 @ ''alice@x.org'') token0 ''newsecret'' users0 = (Inr r, s')"
    using users0_reset by blast
  have low: "toLowerCase ''OLD'' = ''old''" by code_simp
  from reset_mails_old_secret[OF list_mongo_ok users0_ok r] obtain u u' where
    u: "u \<in> set (users_collection users0)" "u' \<in> set (users_collection s')" "otpSecret u' = next_secret env0 users0"
      "outbox s' = outbox users0 @ [Mail_Reset_Done (email u) (firstname u) (toLowerCase (otpSecret u))]" by blast
  from u(1) have "otpSecret u = ''OLD''" by (simp add: users0_def alice0_def)
  with u(4) low have "mail_secret (last (outbox s')) = ''old''" by simp
  with r u(2,3) show ?thesis by blast
qed

text \<open>
  C14. Outside of development, who is logged in has given the password and a valid one-time password
  of a stored user of that name whose account, if it is a standard one, has not expired; the
  session gets the user without password and secret.
\<close>

theorem login_authenticates:
  assumes "mongo_ok M" and "login E M False acc un pw tot ex s = (Inr r, s')"
  shows "\<exists>u \<in> set (users_collection s). username u = un \<and> bcrypt_compare (crypto E) pw (password u) \<and>
    (\<exists>s1. verifyTOTP E tot (otpSecret u) 1 s = (Inr True, s1) \<and>
       (user_type u = STANDARD \<longrightarrow> expiredAt u = 0 \<or> clock E (tick s1) \<le> expiredAt u)) \<and>
    r = without_token u"
proof -
  note db = mongo_db.intro[OF assms(1)]
  from login_inr[OF assms(2)] obtain u s1 where
    u: "findOne (users_dr M) (users_collection s) (\<lambda>u. username u = un) = Some u"
      "bcrypt_compare (crypto E) pw (password u)" "verifyTOTP E tot (otpSecret u) 1 s = (Inr True, s1)"
      "user_type u = STANDARD \<longrightarrow> expiredAt u = 0 \<or> clock E (tick s1) \<le> expiredAt u" "r = without_token u" by blast
  from mongo_db.user_found[OF db u(1)] u(2-5) show ?thesis by blast
qed

theorem login_authenticates_witness:
  "\<exists>s'. login env0 list_mongo False (\<lambda>u. True) ''alice'' ''secret12'' ''000000'' False users0 =
     (Inr (without_token alice0), s') \<and>
   (\<exists>u \<in> set (users_collection users0). username u = ''alice'' \<and> bcrypt_compare (crypto env0) ''secret12'' (password u))"
proof -
  from login_alice obtain s' where
    l: "login env0 list_mongo False (\<lambda>u. True) ''alice'' ''secret12'' ''000000'' False users0 = (Inr (without_token alice0), s')"
    by blast
  from login_authenticates[OF list_mongo_ok l] l show ?thesis by blast
qed

text \<open>
  Creating a user stores it with the hash of its password and a newly drawn secret, gives it a
  root drive and a configuration of its own, and mails the secret to it. It only happens where the
  address has the right form, no user that ever existed has the name or the address, and the
  organisation exists.
\<close>

theorem createUser_registers:
  assumes "mongo_ok M" and "object_store (minio E)"
    and "createUser E M req un ma fi la org ty no pw p d s = (Inr u, s')"
  shows "email_format ma \<and> (\<forall>u' \<in> set (users_collection s). username u' \<noteq> un \<and> email u' \<noteq> ma) \<and>
    (\<exists>o' \<in> set (organisations_collection s). doc_id o' = org \<and> alive o') \<and>
    username u = un \<and> email u = ma \<and> user_type u = ty \<and> alive u \<and>
    password u = bcrypt_hash (crypto E) (Suc (draws s)) pw \<and> otpSecret u = next_secret E s \<and>
    set (users_collection s') = insert u (set (users_collection s)) \<and>
    (\<exists>dr \<in> set (drives_collection s'). managerId dr = Uid (doc_id u) \<and> parent dr = None \<and> path dr = [doc_id dr]) \<and>
    (\<exists>c \<in> set (configs_collection s'). config_type c = USERCONFIG \<and> config_key c = Some (doc_id u) \<and>
       properties c = UserProps default_userConfig) \<and>
    outbox s' = outbox s @ [Mail_Registered ma (firstname u) un (toLowerCase (otpSecret u))]"
proof -
  have por: "portal M E" using assms(1,2) by (simp add: portal_def mongo_db_def)
  have db: "mongo_db M" by (rule mongo_db.intro[OF assms(1)])
  from createUser_inr[OF assms(3)] obtain s6 i q s5 where
    g: "email_format ma" "username u = un" "email u = ma" "user_type u = ty"
      "findOne (users_dr M) (users_collection s) (\<lambda>u. username u = un \<or> email u = ma) = None"
      "findOne (organisations_dr M) (organisations_collection s) (\<lambda>d. doc_id d = org \<and> alive d) \<noteq> None"
      "otpSecret u = next_secret E s" "password u = bcrypt_hash (crypto E) (Suc (draws s)) pw" "alive u"
    and st: "createUser_store E M u s6 = (Inr u, s')"
    and pu: "profile_upload E M q i p s5 = (Inr (user_profile u), s6)"
    and s5: "s5 = s\<lparr>uuid_next := uuid_next s5, tick := tick s5, draws := draws s5\<rparr>" by blast
  have "users_collection s6 = users_collection s5 \<and> outbox s6 = outbox s5"
    by (rule portal.profile_upload_frame[OF por pu])
  moreover have "users_collection s5 = users_collection s \<and> outbox s5 = outbox s"
    using arg_cong[OF s5, of users_collection] arg_cong[OF s5, of outbox] by simp
  ultimately have s6: "users_collection s6 = users_collection s" "outbox s6 = outbox s" by simp_all
  note stored = mongo_db.createUser_store_inr[OF db st]
  from mongo_db.no_user_found[OF db g(5)] mongo_db.org_found[OF db g(6)] g stored s6 show ?thesis
    by (intro conjI) (simp_all only: simp_thms)
qed


theorem createUser_registers_witness:
  "\<exists>u s'. createUser env0 list_mongo None ''bob'' ''bob@x.org'' ''Bob'' ''B'' ''org'' STANDARD False ''password'' None None users0 =
     (Inr u, s') \<and> (\<exists>c \<in> set (configs_collection s'). config_key c = Some (doc_id u)) \<and>
     email_format ''bob@x.org''"
proof -
  have f: "email_format ''bob@x.org''" by code_simp
  have "\<exists>u s'. createUser env0 list_mongo None ''bob'' ''bob@x.org'' ''Bob'' ''B'' ''org'' STANDARD False ''password'' None None users0 = (Inr u, s')"
    by (simp add: createUser_def f passwordIsGoodEnough_def generateSecret_def random_draw_def uuid_def Date_now_def
        profile_upload_def createUser_store_def send_mail_def Let_def user_eval organisations_indexes_def
        drives_indexes_def configs_indexes_def)
  then obtain u s' where
    c: "createUser env0 list_mongo None ''bob'' ''bob@x.org'' ''Bob'' ''B'' ''org'' STANDARD False ''password'' None None users0 = (Inr u, s')"
    by blast
  have o': "object_store (minio env0)" by (simp add: env0_def list_objects.object_store_axioms)
  from createUser_registers[OF list_mongo_ok o' c] c show ?thesis by blast
qed

text \<open>
  C15. Deleting a user takes its rights away: only an administrator or the user itself can do it;
  afterwards no live document has its id (the document stays, marked as deleted, where operations
  that do not ask for live documents still find it), it is in no live role, and it has no permission
  on the fields and data of any study. Other users stay as they are.
\<close>

theorem deleteUser_revokes:
  assumes "mongo_ok M" and "indexed (users_dr M) (users_collection s)"
    and "deleteUser E M (Some rq) i s = (Inr resp, s')"
  shows "(user_type rq = ADMIN \<or> doc_id rq = i) \<and>
    (\<forall>u \<in> set (users_collection s'). doc_id u = i \<longrightarrow> \<not> alive u) \<and>
    {u \<in> set (users_collection s'). doc_id u \<noteq> i} = {u \<in> set (users_collection s). doc_id u \<noteq> i} \<and>
    (\<forall>r \<in> set (roles_collection s'). alive r \<longrightarrow> i \<notin> set (role_users r)) \<and>
    (\<forall>user st entry p. doc_id user = i \<longrightarrow> st \<noteq> [] \<longrightarrow>
       checkFieldOrDataPermission E M s' user st entry p = Inr False)"
proof -
  note db = mongo_db.intro[OF assms(1)]
  note sp = mongo_db.deleteUser_spec[OF db assms(2,3)]
  have roles: "\<forall>r \<in> set (roles_collection s'). alive r \<longrightarrow> i \<notin> set (role_users r)"
    using sp by (auto simp: apply_where_def alive_def)
  then have "\<not> user_role s' i st r" for st r by (auto simp: user_role_def)
  then have "checkFieldOrDataPermission E M s' user st entry p = Inr False" if "doc_id user = i" "st \<noteq> []" for user st entry p
    using mongo_db.check_permission_spec[OF db that(2), of s' user] that(1) by simp
  moreover have "\<forall>u \<in> set (users_collection s'). doc_id u = i \<longrightarrow> \<not> alive u"
    using sp by (auto simp: apply_where_def delete_user_set_def alive_def mark_deleted_def)
  moreover have "doc_id (delete_user_set t b u) = doc_id u" for t b u by (simp add: delete_user_set_def)
  then have "{u \<in> set (users_collection s'). doc_id u \<noteq> i} = {u \<in> set (users_collection s). doc_id u \<noteq> i}"
    using sp by (auto simp: apply_where_def image_iff)
  ultimately show ?thesis using sp roles by blast
qed

theorem deleteUser_revokes_witness:
  "\<exists>resp s'. deleteUser env0 list_mongo (Some (user0 ''root'' ADMIN)) ''alice'' users0 = (Inr resp, s') \<and>
     (\<forall>r \<in> set (roles_collection s'). alive r \<longrightarrow> ''alice'' \<notin> set (role_users r))"
proof -
  have "\<exists>resp s'. deleteUser env0 list_mongo (Some (user0 ''root'' ADMIN)) ''alice'' users0 = (Inr resp, s')"
    by (simp add: deleteUser_def delete_user_set_def Date_now_def Let_def user_eval roles_indexes_def alive_def)
  then obtain resp s' where d: "deleteUser env0 list_mongo (Some (user0 ''root'' ADMIN)) ''alice'' users0 = (Inr resp, s')"
    by blast
  from users0_ok have "indexed (users_dr list_mongo) (users_collection users0)" by (simp add: users_ok_def)
  from deleteUser_revokes[OF list_mongo_ok this d] d show ?thesis by blast
qed
end
