(* ===== verification/UserKeys.thy ===== *)
theory UserKeys
  imports Users
begin

section \<open>Public keys and access tokens (\<open>userCore.ts\<close>, \<open>pubkeycrypto.ts\<close>)\<close>

text \<open>
  The operations of \<open>UserCore\<close> on the public keys of a user, the challenge a client signs, and
  the tokens it gets for the signature; and the functions of \<open>pubkeycrypto.ts\<close> they use. The
  server checks these tokens in theory \<open>Tokens\<close>.
\<close>

subsection \<open>\<open>pubkeycrypto.ts\<close>\<close>

text \<open>\<open>rsasigner\<close> and \<open>reGenPkfromSk\<close> return the message of an exception as their result.\<close>

definition rsasigner :: "env \<Rightarrow> string \<Rightarrow> string \<Rightarrow> string" where
  "rsasigner E privateKey message =
     (case rsa_sign (crypto E) privateKey message of Inl err \<Rightarrow> err | Inr signature \<Rightarrow> signature)"

definition hashdigest :: "env \<Rightarrow> string \<Rightarrow> string" where
  "hashdigest E message = sha256_base64 (crypto E) message"

definition reGenPkfromSk :: "env \<Rightarrow> string \<Rightarrow> string" where
  "reGenPkfromSk E privateKey =
     (case publicKey_of (crypto E) privateKey of Inl err \<Rightarrow> err | Inr pk \<Rightarrow> pk)"

definition rsaverifier :: "env \<Rightarrow> string \<Rightarrow> string \<Rightarrow> string \<Rightarrow> bool result" where
  "rsaverifier E key signature message =
     (let messageToBeVerified = (if message = [] then sha256_base64 (crypto E) key else message)
      in case verify_rsa_sha256 (crypto E) key messageToBeVerified signature of
           None \<Rightarrow> Inl (JSError ''Invalid key'')
         | Some ok \<Rightarrow> Inr ok)"

definition rsakeygen :: "env \<Rightarrow> db \<Rightarrow> (string \<times> string) \<times> db" where
  "rsakeygen E s = (let (n, s1) = random_draw s in (rsa_keygen (crypto E) n, s1))"

definition tokengen :: "env \<Rightarrow> jobject \<Rightarrow> string \<Rightarrow> int option \<Rightarrow> string result" where
  "tokengen E payload secret tokenLife =
     (case jwt_sign (crypto E) payload secret tokenLife of
        None \<Rightarrow> Inl (JSError ''The token could not be signed'')
      | Some t \<Rightarrow> Inr t)"

subsection \<open>Keys of a user\<close>

text \<open>\<open>replace(/\\n/g, newline)\<close>: a backslash and the letter n become a line feed.\<close>

fun unescape_newlines :: "string \<Rightarrow> string" where
  "unescape_newlines (a # b # x) =
     (if a = CHR 0x5C \<and> b = CHR ''n'' then CHR 0x0A # unescape_newlines x
      else a # unescape_newlines (b # x))"
| "unescape_newlines x = x"

text \<open>
  \<open>loadKey\<close> of the key pair of the system, at start-up: the text of a key, or the path of a file
  that \<open>readFile\<close> reads. What cannot be read is an empty key.
\<close>

fun includes_str :: "string \<Rightarrow> string \<Rightarrow> bool" where
  "includes_str pat [] = (pat = [])"
| "includes_str pat (c # x) = (take (length pat) (c # x) = pat \<or> includes_str pat x)"

definition loadKey :: "(string \<Rightarrow> string option) \<Rightarrow> string \<Rightarrow> string" where
  "loadKey readFile keyPathOrContent =
     (if keyPathOrContent = [] then []
      else if includes_str ''-----BEGIN'' keyPathOrContent then keyPathOrContent
      else nullish (readFile keyPathOrContent) [])"

record system_secret =
  system_publickey :: string
  system_privatekey :: string

definition initialize :: "(string \<Rightarrow> string option) \<Rightarrow> string \<Rightarrow> string \<Rightarrow> system_secret" where
  "initialize readFile pk sk =
     \<lparr>system_publickey = loadKey readFile pk, system_privatekey = loadKey readFile sk\<rparr>"

definition getUserKeys :: "mongo \<Rightarrow> requester \<Rightarrow> string \<Rightarrow> db \<Rightarrow> IPubkey list result" where
  "getUserKeys M requester userId s =
     (case requester of
        None \<Rightarrow> Inl (core_error NOT_LOGGED_IN)
      | Some req \<Rightarrow>
          if user_type req \<noteq> ADMIN \<and> doc_id req \<noteq> userId
          then Inl (CoreError NO_PERMISSION_ERROR ''User can only get his/her own keys.'')
          else Inr (find_many (pubkeys_dr M) (pubkeys_collection s)
                 (\<lambda>k. associatedUserId k = Some userId \<and> alive k)))"

definition keyPairGenwSignature :: "env \<Rightarrow> db \<Rightarrow> (string \<times> string \<times> string) \<times> db" where
  "keyPairGenwSignature E s =
     (let ((pk, sk), s1) = rsakeygen E s; messageToBeSigned = hashdigest E pk
      in ((sk, pk, rsasigner E sk messageToBeSigned), s1))"

definition rsaSigner :: "env \<Rightarrow> string \<Rightarrow> string option \<Rightarrow> string" where
  "rsaSigner E privateKey message =
     (let sk = unescape_newlines privateKey;
          messageToBeSigned = (case message of
             None \<Rightarrow> hashdigest E (reGenPkfromSk E sk)
           | Some m \<Rightarrow> m)
      in rsasigner E sk messageToBeSigned)"

text \<open>It looks up the requester, not the user the key is for.\<close>

definition registerPubkey ::
    "env \<Rightarrow> mongo \<Rightarrow> requester \<Rightarrow> string \<Rightarrow> string option \<Rightarrow> string \<Rightarrow> db \<Rightarrow> IPubkey result \<times> db" where
  "registerPubkey E M requester key hashedSk forUser s =
     (case requester of
        None \<Rightarrow> (Inl (core_error NOT_LOGGED_IN), s)
      | Some req \<Rightarrow>
     if user_type req \<noteq> ADMIN \<and> doc_id req \<noteq> forUser
     then (Inl (CoreError NO_PERMISSION_ERROR ''User can only register his/her own public key.''), s)
     else
     (let pk = unescape_newlines key in
      if findOne (pubkeys_dr M) (pubkeys_collection s) (\<lambda>k. pubkey k = pk \<and> alive k) \<noteq> None
      then (Inl (CoreError CLIENT_MALFORMED_INPUT ''This public-key has already been registered.''), s)
      else if findOne (users_dr M) (users_collection s) (\<lambda>u. doc_id u = doc_id req \<and> alive u) = None
      then (Inl (CoreError CLIENT_MALFORMED_INPUT ''User does not exist.''), s)
      else
     (let ((jpk, jsk), s1) = rsakeygen E s;
          (newId, s2) = uuid E s1;
          (now, s3) = Date_now E s2;
          entry = \<lparr>doc_id = newId, life = new_life now (doc_id req), metadata = [],
            pubkey = pk, hashedPrivateKey = hashedSk, jwtPubkey = jpk, jwtSeckey = jsk,
            refreshCounter = 0, associatedUserId = Some forUser, challenge = None, lastUsedTime = None\<rparr>
      in case insertOne (pubkeys_dr M) (pubkeys_collection s3) entry of
           None \<Rightarrow> (Inl MongoServerError, s3)
         | Some c \<Rightarrow> (Inr entry, s3\<lparr>pubkeys_collection := c\<rparr>))))"

definition deletePubkey ::
    "env \<Rightarrow> mongo \<Rightarrow> requester \<Rightarrow> string \<Rightarrow> string \<Rightarrow> db \<Rightarrow> IGenericResponse result \<times> db" where
  "deletePubkey E M requester forUser keyId s =
     (case requester of
        None \<Rightarrow> (Inl (core_error NOT_LOGGED_IN), s)
      | Some req \<Rightarrow>
     if user_type req \<noteq> ADMIN \<and> doc_id req \<noteq> forUser
     then (Inl (CoreError NO_PERMISSION_ERROR ''User can only delete his/her own public key.''), s)
     else
     (case findOne (pubkeys_dr M) (pubkeys_collection s)
             (\<lambda>k. doc_id k = keyId \<and> associatedUserId k = Some forUser \<and> alive k) of
        None \<Rightarrow> (Inl (CoreError CLIENT_MALFORMED_INPUT ''Key does not exist.''), s)
      | Some key \<Rightarrow>
     if associatedUserId key \<noteq> Some forUser
     then (Inl (CoreError NO_PERMISSION_ERROR ''The key does not match the user.''), s)
     else
     (let (now, s1) = Date_now E s in
      case updateOne (pubkeys_dr M) (pubkeys_collection s1) (\<lambda>k. doc_id k = keyId)
             (mark_deleted now (Uid (doc_id req))) of
        None \<Rightarrow> (Inl MongoServerError, s1)
      | Some (_, c) \<Rightarrow>
          (Inr (makeGenericResponse (Some keyId) (Some True) None None), s1\<lparr>pubkeys_collection := c\<rparr>))))"

subsection \<open>Challenges\<close>

definition hex_digit :: "nat \<Rightarrow> char" where
  "hex_digit n = ''0123456789abcdef'' ! n"

definition to_hex :: "nat list \<Rightarrow> string" where
  "to_hex bytes = concat (map (\<lambda>b. [hex_digit (b div 16), hex_digit (b mod 16)]) bytes)"

text \<open>\<open>crypto.randomBytes\<close> refuses a number of bytes that is not whole.\<close>

definition generateChallenge :: "env \<Rightarrow> nat \<Rightarrow> db \<Rightarrow> string result \<times> db" where
  "generateChallenge E len s =
     (if odd len then (Inl (JSError ''RangeError''), s)
      else (let (n, s1) = random_draw s
            in (Inr (take len (to_hex (randomBytes (crypto E) n (len div 2)))), s1)))"

definition find_key :: "mongo \<Rightarrow> string \<Rightarrow> string \<Rightarrow> db \<Rightarrow> (IUser \<times> IPubkey) result" where
  "find_key M uname hashedSk s =
     (case findOne (users_dr M) (users_collection s) (\<lambda>u. username u = uname \<and> alive u) of
        None \<Rightarrow> Inl (CoreError CLIENT_MALFORMED_INPUT ''This public-key has not been registered yet.'')
      | Some user \<Rightarrow>
          (case findOne (pubkeys_dr M) (pubkeys_collection s)
                  (\<lambda>k. associatedUserId k = Some (doc_id user) \<and> hashedPrivateKey k = Some hashedSk \<and> alive k) of
             None \<Rightarrow> Inl (CoreError CLIENT_MALFORMED_INPUT ''This public-key has not been registered yet.'')
           | Some key \<Rightarrow> Inr (user, key)))"

definition requestAccessToken ::
    "env \<Rightarrow> mongo \<Rightarrow> string \<Rightarrow> string \<Rightarrow> db \<Rightarrow> string result \<times> db" where
  "requestAccessToken E M uname hashedSk s =
     (case find_key M uname hashedSk s of
        Inl e \<Rightarrow> (Inl e, s)
      | Inr (user, key) \<Rightarrow>
     (case generateChallenge E 128 s of
        (Inl e, s1) \<Rightarrow> (Inl e, s1)
      | (Inr text, s1) \<Rightarrow>
     (let hashedChallenge = sha256 E text in
      case updateOne (pubkeys_dr M) (pubkeys_collection s1) (\<lambda>k. doc_id k = doc_id key)
             (\<lambda>k. k\<lparr>challenge := Some hashedChallenge\<rparr>) of
        None \<Rightarrow> (Inl MongoServerError, s1)
      | Some (_, c) \<Rightarrow> (Inr hashedChallenge, s1\<lparr>pubkeys_collection := c\<rparr>))))"

subsection \<open>Tokens\<close>

text \<open>The challenge stays in the database: a signature can be used again.\<close>

definition getAccessToken ::
    "env \<Rightarrow> mongo \<Rightarrow> string \<Rightarrow> string \<Rightarrow> string \<Rightarrow> int option \<Rightarrow> db \<Rightarrow> string result \<times> db" where
  "getAccessToken E M uname hashedSk signature tokenLife s =
     (case find_key M uname hashedSk s of
        Inl e \<Rightarrow> (Inl e, s)
      | Inr (user, key) \<Rightarrow>
     if \<not> truthy (challenge key)
     then (Inl (CoreError CLIENT_MALFORMED_INPUT ''Please request a challenge first.''), s)
     else
     (case verify_challenge (crypto E) (pubkey key) (the (challenge key)) signature of
        None \<Rightarrow> (Inl (JSError ''Invalid key''), s)
      | Some isVerified \<Rightarrow>
     if \<not> isVerified
     then (Inl (CoreError CLIENT_MALFORMED_INPUT ''Signature is not correct.''), s)
     else
     (case tokengen E [(''username'', JStr (username user)), (''publicKey'', JStr (jwtPubkey key))]
             (jwtSeckey key) (Some (nullish tokenLife 120000)) of
        Inl e \<Rightarrow> (Inl e, s)
      | Inr token \<Rightarrow>
     (let (now, s1) = Date_now E s in
      case updateOne (pubkeys_dr M) (pubkeys_collection s1) (\<lambda>k. doc_id k = doc_id key)
             (\<lambda>k. k\<lparr>lastUsedTime := Some now\<rparr>) of
        None \<Rightarrow> (Inl MongoServerError, s1)
      | Some (_, c) \<Rightarrow> (Inr token, s1\<lparr>pubkeys_collection := c\<rparr>)))))"

text \<open>
  No document has a property \<open>deleted\<close>, so the condition \<open>deleted: null\<close> holds of every key,
  deleted ones included.
\<close>

definition issueAccessToken ::
    "env \<Rightarrow> mongo \<Rightarrow> string \<Rightarrow> string \<Rightarrow> int option \<Rightarrow> db \<Rightarrow> string result \<times> db" where
  "issueAccessToken E M key signature tokenLife s =
     (let pk = unescape_newlines key in
      case rsaverifier E pk signature [] of
        Inl e \<Rightarrow> (Inl e, s)
      | Inr verified \<Rightarrow>
     if \<not> verified
     then (Inl (CoreError CLIENT_MALFORMED_INPUT ''Signature vs Public key mismatched.''), s)
     else
     (case findOne (pubkeys_dr M) (pubkeys_collection s) (\<lambda>k. pubkey k = pk) of
        None \<Rightarrow> (Inl (CoreError CLIENT_MALFORMED_INPUT ''This public-key has not been registered yet.''), s)
      | Some rec \<Rightarrow>
     (let payload = [(''publicKey'', JStr (jwtPubkey rec)),
            (''associatedUserId'', case associatedUserId rec of None \<Rightarrow> JNull | Some u \<Rightarrow> JStr u),
            (''refreshCounter'', JNum (Fin (of_int (refreshCounter rec)))),
            (''Issuer'', JStr ''IDEA-FAST DMP'')]
      in case updateOne (pubkeys_dr M) (pubkeys_collection s) (\<lambda>k. pubkey k = pk)
                (\<lambda>k. k\<lparr>refreshCounter := refreshCounter rec + 1\<rparr>) of
        None \<Rightarrow> (Inl MongoServerError, s)
      | Some (None, c) \<Rightarrow> (Inl (core_error DATABASE_ERROR), s\<lparr>pubkeys_collection := c\<rparr>)
      | Some (Some _, c) \<Rightarrow>
          (tokengen E payload (jwtSeckey rec) (Some (nullish tokenLife 120000)), s\<lparr>pubkeys_collection := c\<rparr>))))"

definition issueSystemAccessToken ::
    "env \<Rightarrow> mongo \<Rightarrow> system_secret \<Rightarrow> string \<Rightarrow> int option \<Rightarrow> db \<Rightarrow> string result \<times> db" where
  "issueSystemAccessToken E M systemSecret userId tokenLife s =
     (case findOne (users_dr M) (users_collection s) (\<lambda>u. doc_id u = userId \<and> alive u) of
        None \<Rightarrow> (Inl (CoreError CLIENT_ACTION_ON_NON_EXISTENT_ENTRY ''User does not exist.''), s)
      | Some user \<Rightarrow>
     (let (now, s1) = Date_now E s;
          payload = [(''publicKey'', JStr (system_publickey systemSecret)),
            (''userId'', JStr (doc_id user)), (''isSystemToken'', JBool True),
            (''issuer'', JStr ''IDEA-FAST DMP SYSTEM''), (''timestamp'', JNum (Fin (of_int now)))];
          lifeTime = (if tokenLife = None \<or> tokenLife = Some 0 then 365 * 24 * 60 * 60 * 1000 else the tokenLife)
      in (tokengen E payload (system_privatekey systemSecret) (Some lifeTime), s1)))"

end
