(* ===== verification/Tokens.thy ===== *)
theory Tokens
  imports UserKeys
begin

section \<open>Checking tokens and downloading files\<close>

text \<open>
  What becomes of a token that a client sends: \<open>tokenAuthentication\<close> of the interface
  (\<open>commonMiddleware.ts\<close>), \<open>userRetrieval\<close> (\<open>pubkeyAuthentication.ts\<close>), and the controller of
  file downloads (\<open>fileDownload.ts\<close>), which logs each request.
\<close>

subsection \<open>\<open>pubkeyAuthentication.ts\<close>\<close>

text \<open>The values of the token's payload reach the filters of the queries as they are.\<close>

definition user_of_id :: "mongo \<Rightarrow> (string \<Rightarrow> bool) \<Rightarrow> string \<Rightarrow> db \<Rightarrow> IUserWithoutToken result" where
  "user_of_id M idFilter msg s =
     (case findOne (users_dr M) (users_collection s) (\<lambda>u. alive u \<and> idFilter (doc_id u)) of
        None \<Rightarrow> Inl (CoreError AUTHENTICATION_ERROR msg)
      | Some u \<Rightarrow> Inr (without_token u))"

definition userRetrieval :: "mongo \<Rightarrow> jsval \<Rightarrow> bool \<Rightarrow> jsval \<Rightarrow> db \<Rightarrow> IUserWithoutToken result" where
  "userRetrieval M key isSystemToken userId s =
     (if isSystemToken \<and> js_truthy userId
      then user_of_id M (filter_value M userId)
             ''The user associated with the system token does not exist or is deleted!'' s
      else
     (case findOne (pubkeys_dr M) (pubkeys_collection s) (\<lambda>k. filter_value M key (jwtPubkey k) \<and> alive k) of
        None \<Rightarrow> Inl (CoreError AUTHENTICATION_ERROR ''The public-key embedded in the JWT is not valid!'')
      | Some rec \<Rightarrow>
     if \<not> truthy (associatedUserId rec)
     then Inl (CoreError AUTHENTICATION_ERROR ''The public-key embedded in the JWT is not associated with any user!'')
     else user_of_id M (\<lambda>i. Some i = associatedUserId rec)
            ''The user associated with the public-key does not exist or is deleted!'' s))"

subsection \<open>\<open>tokenAuthentication\<close>\<close>

text \<open>Its results: \<open>null\<close> without a token, \<open>false\<close>, or the user.\<close>

datatype authentication = No_Token | Refused | Authenticated IUserWithoutToken

definition retrieved :: "IUserWithoutToken result \<Rightarrow> authentication" where
  "retrieved r = (case r of Inl e \<Rightarrow> Refused | Inr u \<Rightarrow> Authenticated u)"

text \<open>A payload that is no object has none of the properties.\<close>

definition tokenAuthentication :: "env \<Rightarrow> mongo \<Rightarrow> string \<Rightarrow> db \<Rightarrow> authentication" where
  "tokenAuthentication E M token s =
     (if token = [] then No_Token
      else case jwt_decode (crypto E) token of
        JObj payload \<Rightarrow>
          (let key = js_get payload ''publicKey'' in
           if js_get payload ''isSystemToken'' = JBool True
           then (if jwt_verify (crypto E) token key
                 then retrieved (userRetrieval M key True (js_get payload ''userId'') s)
                 else Refused)
           else if \<not> js_truthy key then Refused
           else if jwt_verify (crypto E) token key then retrieved (userRetrieval M key False JUndef s)
           else Refused)
      | _ \<Rightarrow> Refused)"

subsection \<open>\<open>fileDownload.ts\<close>\<close>

text \<open>
  An answer is a status with a message, a status with an exception, or the content of a file. The
  controller may also end without an answer (\<open>None\<close>): what it throws is swallowed.
\<close>

datatype http_response =
    Http_Json nat string
  | Http_Error nat error
  | Http_File string string

definition write_log :: "mongo \<Rightarrow> ILog \<Rightarrow> db \<Rightarrow> bool \<times> db" where
  "write_log M entry s =
     (case insertOne (log_dr M) (log_collection s) entry of
        None \<Rightarrow> (False, s)
      | Some c \<Rightarrow> (True, s\<lparr>log_collection := c\<rparr>))"


definition with_errors :: "ILog \<Rightarrow> string \<Rightarrow> ILog" where
  "with_errors entry msg = entry\<lparr>log_errors := Some msg\<rparr>"

text \<open>The \<open>catch\<close> block: it logs, then answers 500. The log entry keeps its id.\<close>

definition download_catch :: "mongo \<Rightarrow> ILog \<Rightarrow> error \<Rightarrow> db \<Rightarrow> http_response option \<times> db" where
  "download_catch M entry e s =
     (case write_log M (with_errors (entry\<lparr>log_status := FAIL_EVENT\<rparr>) (error_message e)) s of
        (False, s1) \<Rightarrow> (None, s1)
      | (True, s1) \<Rightarrow> (Some (Http_Error 500 e), s1))"

text \<open>An answer inside of the \<open>try\<close> block, after which the entry is logged.\<close>

definition download_refused :: "mongo \<Rightarrow> ILog \<Rightarrow> string \<Rightarrow> db \<Rightarrow> http_response option \<times> db" where
  "download_refused M entry msg s =
     (case write_log M (with_errors entry msg) s of
        (True, s1) \<Rightarrow> (Some (Http_Json 404 msg), s1)
      | (False, s1) \<Rightarrow> (Some (Http_Json 404 msg), snd (download_catch M entry MongoServerError s1)))"

definition download_bucket :: "IFile \<Rightarrow> string" where
  "download_bucket f =
     (case fileCategory f of
        STUDY_DATA_FILE \<Rightarrow> nullish (file_studyId f) []
      | USER_DRIVE_FILE \<Rightarrow> user_defaultFileBucketId default_userConfig
      | CACHE \<Rightarrow> defaultFileBucketId default_cacheConfig
      | DOMAIN_FILE \<Rightarrow> defaultFileBucketId default_domainConfig
      | PROFILE_FILE \<Rightarrow> defaultProfileBucketId default_systemConfig
      | DOC_FILE \<Rightarrow> [])"

definition download_send :: "env \<Rightarrow> mongo \<Rightarrow> ILog \<Rightarrow> IFile \<Rightarrow> db \<Rightarrow> http_response option \<times> db" where
  "download_send E M entry f s =
     (case write_log M (with_errors (entry\<lparr>log_status := SUCCESS_EVENT\<rparr>) '''') s of
        (False, s1) \<Rightarrow> download_catch M entry MongoServerError s1
      | (True, s1) \<Rightarrow>
          (case objStore_downloadFile E (download_bucket f) (uri f) s1 of
             Inl e \<Rightarrow> download_catch M entry e s1
           | Inr content \<Rightarrow> (Some (Http_File content (fileName f)), s1)))"

text \<open>The \<open>try\<close> block: the file, the roles of the user in the file's study, and the content.\<close>

definition download_try ::
    "env \<Rightarrow> mongo \<Rightarrow> ILog \<Rightarrow> IFile option \<Rightarrow> requester \<Rightarrow> db \<Rightarrow> http_response option \<times> db" where
  "download_try E M entry file associatedUser s =
     (case file of
        None \<Rightarrow> download_refused M entry ''File not found'' s
      | Some f \<Rightarrow>
     if truthy (file_studyId f)
     then (case associatedUser of
             None \<Rightarrow> download_catch M entry (JSError ''TypeError'') s
           | Some u \<Rightarrow>
               (case getRolesOfUser M s (Some u) (doc_id u) (file_studyId f) of
                  Inl e \<Rightarrow> download_catch M entry e s
                | Inr roles \<Rightarrow>
                    if roles = []
                    then download_refused M entry ''You do not have the necessary permission.'' s
                    else download_send E M entry f s))
     else download_send E M entry f s)"

text \<open>
  Who downloads: the requester, or the user of the token. A failure that throws leaves the client
  without an answer.
\<close>

definition fileDownloadController ::
    "env \<Rightarrow> mongo \<Rightarrow> requester \<Rightarrow> string \<Rightarrow> string \<Rightarrow> db \<Rightarrow> http_response option \<times> db" where
  "fileDownloadController E M requester requestedFile token s =
     (let (logId, s1) = uuid E s;
          (now, s2) = Date_now E s1;
          entry = \<lparr>doc_id = logId,
            life = new_life now (case requester of None \<Rightarrow> ''anonymous''
              | Some req \<Rightarrow> if doc_id req = [] then ''anonymous'' else doc_id req), metadata = [],
            log_requester = (case requester of None \<Rightarrow> ''NA'' | Some req \<Rightarrow> username req),
            log_type = API_LOG, apiResolver = Some FILE_RESOLVER, log_event = ''FileDownload'',
            log_parameters = Some [(''fileId'', JStr requestedFile)], log_status = FAIL_EVENT,
            log_errors = Some '''', timeConsumed = None\<rparr>
      in if requester = None \<and> token = []
         then (Some (Http_Json 403 ''Please entry in.''), snd (write_log M (with_errors entry ''Please entry in.'') s2))
         else
     (let file = findOne (files_dr M) (files_collection s2) (\<lambda>f. doc_id f = requestedFile \<and> alive f);
          open_file = (case file of None \<Rightarrow> False | Some f \<Rightarrow> fileCategory f = DOMAIN_FILE)
      in if \<not> open_file \<and> requester = None then
           (let decoded = jwt_decode (crypto E) token;
                key = (case decoded of JObj m \<Rightarrow> js_get m ''publicKey'' | _ \<Rightarrow> JUndef)
            in if (case decoded of JNull \<Rightarrow> True | JStr x \<Rightarrow> True | _ \<Rightarrow> False)
               then (None, snd (write_log M (with_errors entry ''JWT verification failed.'') s2))
               else if \<not> jwt_verify (crypto E) token key then (None, snd (write_log M entry s2))
               else (case userRetrieval M key False JUndef s2 of
                       Inl e \<Rightarrow> (None, s2)
                     | Inr u \<Rightarrow> download_try E M entry file (Some u) s2))
         else download_try E M entry file requester s2))"


subsection \<open>What a token proves\<close>

context mongo_db
begin

lemma filter_string [simp]: "filter_value M (JStr x) y \<longleftrightarrow> x = y"
  using ok by (simp add: mongo_ok_def)

lemma user_of_id_inr:
  assumes "user_of_id M q msg s = Inr u"
  shows "\<exists>v \<in> set (users_collection s). alive v \<and> q (doc_id v) \<and> u = without_token v"
proof -
  from assms obtain v where v: "findOne (users_dr M) (users_collection s) (\<lambda>u. alive u \<and> q (doc_id u)) = Some v"
      "u = without_token v"
    by (auto simp: user_of_id_def split: option.splits)
  from users_store.findOne_Some[OF v(1)] v(2) show ?thesis by blast
qed

lemma user_of_id_live:
  assumes "indexed (users_dr M) (users_collection s)" and "v \<in> set (users_collection s)" and "alive v"
    and "\<And>i. q i \<longleftrightarrow> i = doc_id v"
  shows "user_of_id M q msg s = Inr (without_token v)"
proof -
  have "findOne (users_dr M) (users_collection s) (\<lambda>u. alive u \<and> q (doc_id u)) = Some v"
    by (rule users_store.findOne_key[OF assms(1,2)]) (use assms(3,4) in auto)
  then show ?thesis by (simp add: user_of_id_def)
qed

lemma userRetrieval_key:
  assumes "userRetrieval M key False v s = Inr u"
  shows "\<exists>k \<in> set (pubkeys_collection s). alive k \<and> filter_value M key (jwtPubkey k) \<and>
    (\<exists>w \<in> set (users_collection s). alive w \<and> associatedUserId k = Some (doc_id w) \<and> u = without_token w)"
proof -
  from assms obtain k where k: "findOne (pubkeys_dr M) (pubkeys_collection s)
      (\<lambda>k. filter_value M key (jwtPubkey k) \<and> alive k) = Some k"
    and u: "user_of_id M (\<lambda>i. Some i = associatedUserId k)
      ''The user associated with the public-key does not exist or is deleted!'' s = Inr u"
    by (auto simp: userRetrieval_def split: option.splits if_splits)
  from pubkeys_store.findOne_Some[OF k] user_of_id_inr[OF u] show ?thesis by fastforce
qed

end

lemma retrieved_Authenticated [simp]: "retrieved r = Authenticated u \<longleftrightarrow> r = Inr u"
  by (cases r) (simp_all add: retrieved_def)

text \<open>
  C16. The tokens of the system prove nothing: the signature of a token that calls itself one is
  checked with the public key it carries, whatever key that is. So whoever signs a token with any
  key pair of its own is authenticated as any live user it names, without any key registered.
\<close>

theorem system_token_forgeable:
  assumes "mongo_ok M" and "indexed (users_dr M) (users_collection s)"
    and "v \<in> set (users_collection s)" and "alive v" and "doc_id v \<noteq> []"
    and "jwt_decode (crypto E) token = JObj payload" and "token \<noteq> []"
    and "js_get payload ''isSystemToken'' = JBool True" and "js_get payload ''userId'' = JStr (doc_id v)"
    and "jwt_verify (crypto E) token (js_get payload ''publicKey'')"
  shows "tokenAuthentication E M token s = Authenticated (without_token v)"
proof -
  note db = mongo_db.intro[OF assms(1)]
  have "userRetrieval M key True (JStr (doc_id v)) s = Inr (without_token v)" for key
    using mongo_db.user_of_id_live[OF db assms(2-4), of "filter_value M (JStr (doc_id v))"] assms(5)
    by (auto simp: userRetrieval_def mongo_db.filter_string[OF db])
  then show ?thesis using assms(6-10) by (simp add: tokenAuthentication_def Let_def)
qed

definition forger :: env where
  "forger = env0\<lparr>crypto := crypto0\<lparr>
     jwt_decode := (\<lambda>t. JObj [(''isSystemToken'', JBool True), (''publicKey'', JStr ''mine''), (''userId'', JStr ''alice'')]),
     jwt_verify := (\<lambda>t k. k = JStr ''mine'')\<rparr>\<rparr>"

theorem system_token_forgeable_witness:
  "tokenAuthentication forger list_mongo ''forged'' (db0\<lparr>users_collection := [with_token (user0 ''alice'' ADMIN)]\<rparr>) =
     Authenticated (user0 ''alice'' ADMIN)"
proof -
  let ?v = "with_token (user0 ''alice'' ADMIN)" and ?s = "db0\<lparr>users_collection := [with_token (user0 ''alice'' ADMIN)]\<rparr>"
  have ix: "indexed (users_dr list_mongo) (users_collection ?s)"
    by (simp add: indexed_def list_mongo_def list_driver_simps)
  have "without_token ?v = user0 ''alice'' ADMIN"
    by (simp add: sample_defs IUserWithoutToken.truncate_def)
  moreover have "tokenAuthentication forger list_mongo ''forged'' ?s = Authenticated (without_token ?v)"
    by (rule system_token_forgeable[OF list_mongo_ok ix, where payload = "[(''isSystemToken'', JBool True),
      (''publicKey'', JStr ''mine''), (''userId'', JStr ''alice'')]"]) (simp_all add: forger_def js_get_def sample_defs alive_def)
  ultimately show ?thesis by simp
qed

text \<open>
  Any other token stands for a key: its public key is that of a live registered key pair, the
  token is signed with it, and the user it stands for is the live user the key belongs to. So
  deleting the key or the user ends the validity of all its tokens.
\<close>

theorem token_needs_live_key:
  assumes "mongo_ok M" and "tokenAuthentication E M token s = Authenticated u"
    and "jwt_decode (crypto E) token = JObj payload" and "js_get payload ''isSystemToken'' \<noteq> JBool True"
    and "js_get payload ''publicKey'' = JStr pk"
  shows "jwt_verify (crypto E) token (JStr pk) \<and>
    (\<exists>k \<in> set (pubkeys_collection s). alive k \<and> jwtPubkey k = pk \<and>
       (\<exists>w \<in> set (users_collection s). alive w \<and> associatedUserId k = Some (doc_id w) \<and> u = without_token w))"
proof -
  note db = mongo_db.intro[OF assms(1)]
  from assms(2-5) have "jwt_verify (crypto E) token (JStr pk)" "userRetrieval M (JStr pk) False JUndef s = Inr u"
    by (auto simp: tokenAuthentication_def Let_def split: if_splits)
  with mongo_db.userRetrieval_key[OF db this(2)] show ?thesis
    by (auto simp: mongo_db.filter_string[OF db])
qed

definition key0 :: IPubkey where
  "key0 = \<lparr>doc_id = ''k'', life = life0, metadata = [], pubkey = ''pk'', hashedPrivateKey = Some ''h'',
     jwtPubkey = ''pk1'', jwtSeckey = ''sk1'', refreshCounter = 0, associatedUserId = Some ''alice'',
     challenge = None, lastUsedTime = None\<rparr>"

definition keys0 :: db where
  "keys0 = db0\<lparr>users_collection := [with_token (user0 ''alice'' STANDARD)], pubkeys_collection := [key0]\<rparr>"

lemmas token_eval = keys0_def key0_def crypto0_def list_mongo_def list_driver_simps sample_defs

theorem token_needs_live_key_witness:
  "tokenAuthentication env0 list_mongo ''tokensk1'' keys0 = Authenticated (user0 ''alice'' STANDARD) \<and>
   (\<exists>k \<in> set (pubkeys_collection keys0). alive k \<and> jwtPubkey k = ''pk1'')"
proof -
  have d: "jwt_decode (crypto env0) ''tokensk1'' = JObj [(''publicKey'', JStr ''pk1'')]"
    by (simp add: token_eval)
  have a: "tokenAuthentication env0 list_mongo ''tokensk1'' keys0 = Authenticated (user0 ''alice'' STANDARD)"
    by (simp add: tokenAuthentication_def userRetrieval_def user_of_id_def js_get_def retrieved_def Let_def token_eval
        IUserWithoutToken.truncate_def alive_def)
  from token_needs_live_key[OF list_mongo_ok a d] a show ?thesis by (simp add: js_get_def) blast
qed

subsection \<open>What a download checks\<close>

context portal
begin

lemma write_log_fresh:
  assumes "doc_id e \<notin> doc_id ` set (log_collection s)"
  shows "\<exists>c. write_log M e s = (True, s\<lparr>log_collection := c\<rparr>) \<and> set c = insert e (set (log_collection s))"
proof -
  have "\<exists>c. insertOne (log_dr M) (log_collection s) e = Some c"
    using assms log_store.insertOne_None[of "log_collection s" e] ok by (auto simp: mongo_ok_def log_indexes_def)
  then obtain c where "insertOne (log_dr M) (log_collection s) e = Some c" by blast
  with log_store.insertOne_set[OF this] show ?thesis by (auto simp: write_log_def)
qed

lemma write_log_again:
  assumes "e \<in> set (log_collection s)" and "doc_id e' = doc_id e"
  shows "write_log M e' s = (False, s)"
proof -
  have "insertOne (log_dr M) (log_collection s) e' = None"
    using assms log_store.insertOne_None[of "log_collection s" e'] ok by (auto simp: mongo_ok_def log_indexes_def image_iff)
  then show ?thesis by (simp add: write_log_def)
qed

text \<open>The entry of a successful download is written first, so a failure cannot be logged any more.\<close>

lemma download_send_fresh:
  assumes "doc_id e \<notin> doc_id ` set (log_collection s)"
  shows "\<exists>c. download_send E M e f s =
      (map_option (\<lambda>x. Http_File x (fileName f)) (obj (store s) (toLowerCase (download_bucket f), uri f)),
       s\<lparr>log_collection := c\<rparr>) \<and>
    set c = insert (with_errors (e\<lparr>log_status := SUCCESS_EVENT\<rparr>) '''') (set (log_collection s))"
proof -
  let ?e = "with_errors (e\<lparr>log_status := SUCCESS_EVENT\<rparr>) ''''"
  have id: "doc_id (with_errors (e\<lparr>log_status := st\<rparr>) m) = doc_id e" for st m by (simp add: with_errors_def)
  from write_log_fresh[of ?e s] assms obtain c where
    c: "write_log M ?e s = (True, s\<lparr>log_collection := c\<rparr>)" "set c = insert ?e (set (log_collection s))"
    by (auto simp: id)
  have "?e \<in> set (log_collection (s\<lparr>log_collection := c\<rparr>))" using c(2) by simp
  from write_log_again[OF this] have again:
    "write_log M (with_errors (e\<lparr>log_status := FAIL_EVENT\<rparr>) m) (s\<lparr>log_collection := c\<rparr>) = (False, s\<lparr>log_collection := c\<rparr>)" for m
    by (simp only: id)
  show ?thesis
    using c by (auto simp: download_send_def objStore_downloadFile_def getObject_obj download_catch_def again
        split: option.splits)
qed

lemma download_user_file:
  assumes "indexed (files_dr M) (files_collection s)" and "f \<in> set (files_collection s)" and "alive f"
    and "\<not> truthy (file_studyId f)" and "uuid_gen E (uuid_next s) \<notin> doc_id ` set (log_collection s)"
  shows "\<exists>s'. fileDownloadController E M (Some u) (doc_id f) token s =
      (map_option (\<lambda>x. Http_File x (fileName f)) (obj (store s) (toLowerCase (download_bucket f), uri f)), s') \<and>
    (\<exists>e \<in> set (log_collection s'). log_status e = SUCCESS_EVENT \<and> log_requester e = username u \<and>
       log_parameters e = Some [(''fileId'', JStr (doc_id f))] \<and> doc_id e \<notin> doc_id ` set (log_collection s))"
proof -
  have ff: "findOne (files_dr M) (files_collection s) (\<lambda>g. doc_id g = doc_id f \<and> alive g) = Some f"
    by (rule files_store.findOne_key[OF assms(1,2)]) (use assms(3) in auto)
  let ?s2 = "s\<lparr>uuid_next := Suc (uuid_next s), tick := Suc (tick s)\<rparr>"
  define e where "e = \<lparr>doc_id = uuid_gen E (uuid_next s),
    life = new_life (clock E (tick s)) (if doc_id u = [] then ''anonymous'' else doc_id u), metadata = [],
    log_requester = username u, log_type = API_LOG, apiResolver = Some FILE_RESOLVER, log_event = ''FileDownload'',
    log_parameters = Some [(''fileId'', JStr (doc_id f))], log_status = FAIL_EVENT,
    log_errors = Some '''', timeConsumed = None\<rparr>"
  have run: "fileDownloadController E M (Some u) (doc_id f) token s = download_send E M e f ?s2"
    using ff assms(4) by (simp add: fileDownloadController_def uuid_def Date_now_def Let_def download_try_def e_def)
  have "doc_id e \<notin> doc_id ` set (log_collection ?s2)" using assms(5) by (simp add: e_def)
  from download_send_fresh[OF this, of f] obtain c where
    c: "download_send E M e f ?s2 =
      (map_option (\<lambda>x. Http_File x (fileName f)) (obj (store s) (toLowerCase (download_bucket f), uri f)),
       ?s2\<lparr>log_collection := c\<rparr>)" "set c = insert (with_errors (e\<lparr>log_status := SUCCESS_EVENT\<rparr>) '''') (set (log_collection s))"
    by auto
  show ?thesis
    unfolding run c(1) using c(2) assms(5) by (auto simp: with_errors_def e_def)
qed

end

text \<open>
  A file that belongs to no study, such as the file of a user's drive, is served to every
  user who is logged in. And where the object store has lost its content, the client gets no answer
  at all, while the log records a success: the entry is written before the download, and the one of
  the failure has the same id.
\<close>

theorem download_drive_file_unchecked:
  assumes "mongo_ok M" and "object_store (minio E)" and "indexed (files_dr M) (files_collection s)"
    and "f \<in> set (files_collection s)" and "alive f" and "fileCategory f = USER_DRIVE_FILE" and "file_studyId f = None"
    and "uuid_gen E (uuid_next s) \<notin> doc_id ` set (log_collection s)"
  shows "\<exists>s'. fileDownloadController E M (Some u) (doc_id f) token s =
      (case obj (store s) (toLowerCase (user_defaultFileBucketId default_userConfig), uri f) of
         None \<Rightarrow> None
       | Some x \<Rightarrow> Some (Http_File x (fileName f)), s') \<and>
    (\<exists>e \<in> set (log_collection s') - set (log_collection s). log_status e = SUCCESS_EVENT \<and> log_requester e = username u)"
proof -
  have p: "portal M E" using assms(1,2) by (simp add: portal_def mongo_db_def)
  have "\<not> truthy (file_studyId f)" using assms(7) by simp
  from portal.download_user_file[OF p assms(3-5) this assms(8), of u token] assms(6) show ?thesis
    by (auto simp: download_bucket_def map_option_case)
qed

definition drive_file0 :: IFile where
  "drive_file0 = \<lparr>doc_id = ''f'', life = life0, metadata = [], file_studyId = None, file_userId = Some ''alice'',
     fileName = ''a.pdf'', fileSize = 3, file_description = None, file_properties = [], uri = ''u'', hash = ''h'',
     fileType = PDF, fileCategory = USER_DRIVE_FILE\<rparr>"

theorem download_drive_file_unchecked_witness:
  "\<exists>s'. fileDownloadController env0 list_mongo (Some (user0 ''mallory'' STANDARD)) ''f'' ''''
      (db0\<lparr>files_collection := [drive_file0]\<rparr>) = (None, s') \<and>
    (\<exists>e \<in> set (log_collection s'). log_status e = SUCCESS_EVENT)"
proof -
  let ?s = "db0\<lparr>files_collection := [drive_file0]\<rparr>"
  have o': "object_store (minio env0)" by (simp add: env0_def list_objects.object_store_axioms)
  have ix: "indexed (files_dr list_mongo) (files_collection ?s)"
    by (simp add: indexed_def list_mongo_def list_driver_simps)
  have "\<exists>s'. fileDownloadController env0 list_mongo (Some (user0 ''mallory'' STANDARD)) (doc_id drive_file0) '''' ?s =
      (case obj (store ?s) (toLowerCase (user_defaultFileBucketId default_userConfig), uri drive_file0) of
         None \<Rightarrow> None
       | Some x \<Rightarrow> Some (Http_File x (fileName drive_file0)), s') \<and>
    (\<exists>e \<in> set (log_collection s') - set (log_collection ?s). log_status e = SUCCESS_EVENT \<and>
       log_requester e = username (user0 ''mallory'' STANDARD))"
    by (rule download_drive_file_unchecked[OF list_mongo_ok o' ix]) (simp_all add: drive_file0_def alive_life0 db0_def)
  then show ?thesis by (fastforce simp: drive_file0_def obj_def db0_def)
qed
end
