(* ===== verification/JsOps.thy ===== *)
theory JsOps
  imports Permission JsNumber
begin

section \<open>Operators of the language on arbitrary values\<close>

text \<open>
  The formulas that users attach to fields and aggregations are evaluated with the operators of
  JavaScript, on values whose types nobody checks. This theory has those operators: conversions,
  arithmetic with \<open>NaN\<close> and the infinities (there is one zero), comparison, property access, and
  objects as association lists in the order of insertion.
\<close>

subsection \<open>Arithmetic\<close>

fun num_neg :: "jnum \<Rightarrow> jnum" where
  "num_neg NaN = NaN"
| "num_neg PosInf = NegInf"
| "num_neg NegInf = PosInf"
| "num_neg (Fin x) = Fin (- x)"

fun num_add :: "jnum \<Rightarrow> jnum \<Rightarrow> jnum" where
  "num_add NaN y = NaN"
| "num_add x NaN = NaN"
| "num_add (Fin x) (Fin y) = Fin (x + y)"
| "num_add (Fin x) y = y"
| "num_add x (Fin y) = x"
| "num_add x y = (if x = y then x else NaN)"

fun num_sgn :: "jnum \<Rightarrow> rat" where
  "num_sgn NaN = 0"
| "num_sgn PosInf = 1"
| "num_sgn NegInf = -1"
| "num_sgn (Fin x) = sgn x"

definition inf_of :: "rat \<Rightarrow> jnum" where
  "inf_of s = (if s = 0 then NaN else if s > 0 then PosInf else NegInf)"

fun num_mul :: "jnum \<Rightarrow> jnum \<Rightarrow> jnum" where
  "num_mul NaN y = NaN"
| "num_mul x NaN = NaN"
| "num_mul (Fin x) (Fin y) = Fin (x * y)"
| "num_mul x y = inf_of (num_sgn x * num_sgn y)"

fun num_div :: "jnum \<Rightarrow> jnum \<Rightarrow> jnum" where
  "num_div NaN y = NaN"
| "num_div x NaN = NaN"
| "num_div (Fin x) (Fin y) = (if y = 0 then inf_of x else Fin (x / y))"
| "num_div (Fin x) y = Fin 0"
| "num_div x (Fin y) = (if y = 0 then x else inf_of (num_sgn x * sgn y))"
| "num_div x y = NaN"

fun num_less :: "jnum \<Rightarrow> jnum \<Rightarrow> bool" where
  "num_less NaN y = False"
| "num_less x NaN = False"
| "num_less (Fin x) (Fin y) = (x < y)"
| "num_less x PosInf = (x \<noteq> PosInf)"
| "num_less NegInf y = (y \<noteq> NegInf)"
| "num_less x y = False"

definition num_le :: "jnum \<Rightarrow> jnum \<Rightarrow> bool" where
  "num_le x y \<longleftrightarrow> x \<noteq> NaN \<and> y \<noteq> NaN \<and> \<not> num_less y x"

fun num_floor :: "jnum \<Rightarrow> jnum" where
  "num_floor (Fin x) = Fin (of_int \<lfloor>x\<rfloor>)"
| "num_floor x = x"

text \<open>\<open>Math.max\<close> and \<open>Math.min\<close> of any number of arguments.\<close>

definition num_max2 :: "jnum \<Rightarrow> jnum \<Rightarrow> jnum" where
  "num_max2 x y = (if x = NaN \<or> y = NaN then NaN else if num_less x y then y else x)"

definition math_max :: "jnum list \<Rightarrow> jnum" where
  "math_max xs = foldl num_max2 NegInf xs"

definition num_min2 :: "jnum \<Rightarrow> jnum \<Rightarrow> jnum" where
  "num_min2 x y = (if x = NaN \<or> y = NaN then NaN else if num_less y x then y else x)"

definition math_min :: "jnum list \<Rightarrow> jnum" where
  "math_min xs = foldl num_min2 PosInf xs"

subsection \<open>Conversions\<close>

definition js_int :: "int \<Rightarrow> jsval" where
  "js_int n = JNum (Fin (of_int n))"

fun js_prim :: "env \<Rightarrow> jsval \<Rightarrow> jsval" where
  "js_prim E (JArr xs) = JStr (js_String E (JArr xs))"
| "js_prim E (JObj m) = JStr (js_String E (JObj m))"
| "js_prim E v = v"

fun js_Number :: "env \<Rightarrow> jsval \<Rightarrow> jnum" where
  "js_Number E JUndef = NaN"
| "js_Number E JNull = Fin 0"
| "js_Number E (JBool b) = Fin (if b then 1 else 0)"
| "js_Number E (JNum n) = n"
| "js_Number E (JStr x) = number_of_string x"
| "js_Number E v = number_of_string (js_String E v)"

text \<open>\<open>v.toString()\<close>, which \<open>null\<close> and \<open>undefined\<close> do not have.\<close>

definition js_toString :: "env \<Rightarrow> jsval \<Rightarrow> string result" where
  "js_toString E v = (if v = JUndef \<or> v = JNull then Inl (JSError ''TypeError'') else Inr (js_String E v))"

definition js_add :: "env \<Rightarrow> jsval \<Rightarrow> jsval \<Rightarrow> jsval" where
  "js_add E a b =
     (case (js_prim E a, js_prim E b) of
        (JStr x, y) \<Rightarrow> JStr (x @ js_String E y)
      | (x, JStr y) \<Rightarrow> JStr (js_String E x @ y)
      | (x, y) \<Rightarrow> JNum (num_add (js_Number E x) (js_Number E y)))"

definition js_arith :: "env \<Rightarrow> (jnum \<Rightarrow> jnum \<Rightarrow> jnum) \<Rightarrow> jsval \<Rightarrow> jsval \<Rightarrow> jsval" where
  "js_arith E f a b = JNum (f (js_Number E a) (js_Number E b))"

subsection \<open>Comparison\<close>

fun str_less :: "string \<Rightarrow> string \<Rightarrow> bool" where
  "str_less x [] = False"
| "str_less [] (d # y) = True"
| "str_less (c # x) (d # y) =
     ((of_char c :: nat) < of_char d \<or> c = d \<and> str_less x y)"

definition js_less :: "env \<Rightarrow> jsval \<Rightarrow> jsval \<Rightarrow> bool" where
  "js_less E a b =
     (case (js_prim E a, js_prim E b) of
        (JStr x, JStr y) \<Rightarrow> str_less x y
      | (x, y) \<Rightarrow> num_less (js_Number E x) (js_Number E y))"

definition js_le :: "env \<Rightarrow> jsval \<Rightarrow> jsval \<Rightarrow> bool" where
  "js_le E a b =
     (case (js_prim E a, js_prim E b) of
        (JStr x, JStr y) \<Rightarrow> \<not> str_less y x
      | (x, y) \<Rightarrow> num_le (js_Number E x) (js_Number E y))"

text \<open>
  \<open>===\<close> on values one of which is primitive: objects and arrays are never equal to it, and \<open>NaN\<close>
  is not equal to itself.
\<close>

fun js_strict_eq :: "jsval \<Rightarrow> jsval \<Rightarrow> bool" where
  "js_strict_eq (JNum x) (JNum y) = (x \<noteq> NaN \<and> x = y)"
| "js_strict_eq (JArr xs) y = False"
| "js_strict_eq (JObj m) y = False"
| "js_strict_eq x y = (x = y)"

subsection \<open>Strings\<close>

fun split_on :: "char \<Rightarrow> string \<Rightarrow> string list" where
  "split_on c [] = [[]]"
| "split_on c (d # x) =
     (if d = c then [] # split_on c x
      else (case split_on c x of [] \<Rightarrow> [[d]] | w # ws \<Rightarrow> (d # w) # ws))"

definition num_toInteger :: "jnum \<Rightarrow> jnum" where
  "num_toInteger n =
     (case n of NaN \<Rightarrow> Fin 0 | Fin x \<Rightarrow> Fin (if x < 0 then - of_int \<lfloor>- x\<rfloor> else of_int \<lfloor>x\<rfloor>) | _ \<Rightarrow> n)"

text \<open>\<open>x.substr(start, length)\<close>.\<close>

definition js_substr :: "env \<Rightarrow> string \<Rightarrow> jsval \<Rightarrow> jsval \<Rightarrow> string" where
  "js_substr E x start len =
     (let n = length x;
          from = (case num_toInteger (js_Number E start) of
              Fin k \<Rightarrow> if k < 0 then nat \<lfloor>max 0 (of_nat n + k)\<rfloor> else nat \<lfloor>k\<rfloor>
            | PosInf \<Rightarrow> n | _ \<Rightarrow> 0);
          count = (if len = JUndef then n else case num_toInteger (js_Number E len) of
              Fin k \<Rightarrow> nat \<lfloor>max 0 k\<rfloor> | PosInf \<Rightarrow> n | _ \<Rightarrow> 0)
      in take count (drop from x))"

subsection \<open>Properties\<close>

text \<open>Is the string the index of an array element?\<close>

definition is_index :: "string \<Rightarrow> bool" where
  "is_index k \<longleftrightarrow> k = ''0'' \<or> digits k \<and> hd k \<noteq> CHR ''0''"

definition index_of :: "string \<Rightarrow> nat" where
  "index_of k = nat_of_digits 10 (digits_prefix 10 k)"

text \<open>\<open>v[k]\<close>: objects, and the elements and the length of arrays and strings.\<close>

fun js_prop :: "jsval \<Rightarrow> string \<Rightarrow> jsval result" where
  "js_prop JUndef k = Inl (JSError ''TypeError'')"
| "js_prop JNull k = Inl (JSError ''TypeError'')"
| "js_prop (JObj m) k = Inr (js_get m k)"
| "js_prop (JArr xs) k = Inr (
     if k = ''length'' then JNum (Fin (of_nat (length xs)))
     else if is_index k \<and> index_of k < length xs then xs ! index_of k else JUndef)"
| "js_prop (JStr x) k = Inr (
     if k = ''length'' then JNum (Fin (of_nat (length x)))
     else if is_index k \<and> index_of k < length x then JStr [x ! index_of k] else JUndef)"
| "js_prop v k = Inr JUndef"

text \<open>Writing a property keeps its place, deleting one closes the gap.\<close>

fun js_set :: "jobject \<Rightarrow> string \<Rightarrow> jsval \<Rightarrow> jobject" where
  "js_set [] k v = [(k, v)]"
| "js_set ((k', w) # m) k v = (if k' = k then (k, v) # m else (k', w) # js_set m k v)"

definition js_delete :: "jobject \<Rightarrow> string \<Rightarrow> jobject" where
  "js_delete m k = filter (\<lambda>p. fst p \<noteq> k) m"

text \<open>\<open>Object.keys\<close>: the indices in ascending order first, then the other keys as inserted.\<close>

definition property_order :: "string list \<Rightarrow> string list" where
  "property_order ks = sort_key index_of (filter is_index ks) @ filter (\<lambda>k. \<not> is_index k) ks"

definition js_keys :: "jobject \<Rightarrow> string list" where
  "js_keys m = property_order (remdups (map fst m))"

text \<open>\<open>{...a, ...b}\<close>, and the conversion of an array index to a key.\<close>

definition js_spread :: "jobject \<Rightarrow> jobject \<Rightarrow> jobject" where
  "js_spread a b = foldl (\<lambda>m k. js_set m k (js_get b k)) a (js_keys b)"

fun string_of_nat :: "nat \<Rightarrow> string" where
  "string_of_nat n = (if n < 10 then [''0123456789'' ! n] else string_of_nat (n div 10) @ [''0123456789'' ! (n mod 10)])"

declare string_of_nat.simps [simp del]

fun js_own_keys :: "jsval \<Rightarrow> string list" where
  "js_own_keys (JObj m) = js_keys m"
| "js_own_keys (JArr xs) = map string_of_nat [0..<length xs]"
| "js_own_keys v = []"

subsection \<open>Lemmas\<close>

lemma js_get_set: "js_get (js_set m k v) k' = (if k' = k then v else js_get m k')"
  by (induction m) (auto simp: js_get_def)

lemma js_get_delete: "js_get (js_delete m k) k' = (if k' = k then JUndef else js_get m k')"
proof -
  have "map_of (js_delete m k) k' = (if k' = k then None else map_of m k')"
    unfolding js_delete_def by (induction m) auto
  then show ?thesis by (simp add: js_get_def)
qed

lemma set_property_order [simp]: "set (property_order ks) = set ks"
  by (auto simp: property_order_def)

lemma distinct_property_order: "distinct ks \<Longrightarrow> distinct (property_order ks)"
  by (auto simp: property_order_def)

lemma mset_property_order [simp]: "mset (property_order ks) = mset ks"
proof -
  have "mset (filter is_index ks) + mset (filter (\<lambda>k. \<not> is_index k) ks) = mset ks"
    by (simp add: mset_filter flip: multiset_partition)
  then show ?thesis by (simp add: property_order_def)
qed

lemma set_js_keys: "set (js_keys m) = fst ` set m"
  by (auto simp: js_keys_def)

lemma distinct_js_keys: "distinct (js_keys m)"
  by (simp add: js_keys_def distinct_property_order)

lemma js_set_keys: "fst ` set (js_set m k v) = insert k (fst ` set m)"
  by (induction m k v rule: js_set.induct) (simp_all add: insert_commute)

lemma js_delete_keys: "fst ` set (js_delete m k) = fst ` set m - {k}"
  by (auto simp: js_delete_def)

lemma num_less_irrefl [simp]: "\<not> num_less x x"
  by (cases x) auto

lemma num_less_trans: "num_less x y \<Longrightarrow> num_less y z \<Longrightarrow> num_less x z"
  by (cases x; cases y; cases z) auto

end
