(* ===== verification/Formula.thy ===== *)
theory Formula
  imports JsOps
begin

section \<open>Formulas and verifiers (\<open>utilsCore.ts\<close>)\<close>

text \<open>
  \<open>IASTHelper\<close> evaluates a formula on a value or on a data clip (an object), and
  \<open>validValueWithVerifier\<close> compares what it gives with the value of a verifier. An exception of
  the evaluation is the left side of the result.
\<close>

subsection \<open>Evaluation\<close>

definition parseInputToNumber :: "jsval \<Rightarrow> jsval result" where
  "parseInputToNumber input =
     (case input of
        JNum n \<Rightarrow> Inr (JNum n)
      | JStr x \<Rightarrow> Inr (JNum (if CHR ''.'' \<in> set x then parseFloat x else parseInt10 x))
      | _ \<Rightarrow> Inl (JSError ''Input must be a number or a string''))"

text \<open>The loop of a \<open>VARIABLE\<close> node over the keys of its path.\<close>

fun walk_path :: "jsval \<Rightarrow> string list \<Rightarrow> jsval result" where
  "walk_path current [] = Inr current"
| "walk_path current (k # ks) =
     (case js_prop current k of
        Inl e \<Rightarrow> Inl e
      | Inr v \<Rightarrow> if v \<noteq> JUndef then walk_path v ks else Inr JUndef)"

definition scalar :: "jsval \<Rightarrow> bool" where
  "scalar v \<longleftrightarrow> (case v of JNum n \<Rightarrow> True | JStr x \<Rightarrow> True | _ \<Rightarrow> False)"

definition lift2 :: "(jsval \<Rightarrow> jsval \<Rightarrow> jsval) \<Rightarrow> jsval result \<Rightarrow> jsval result \<Rightarrow> jsval result" where
  "lift2 f a b = (case a of Inl e \<Rightarrow> Inl e | Inr x \<Rightarrow> (case b of Inl e \<Rightarrow> Inl e | Inr y \<Rightarrow> Inr (f x y)))"

definition string_of :: "env \<Rightarrow> jsval result \<Rightarrow> string result" where
  "string_of E r = (case r of Inl e \<Rightarrow> Inl e | Inr v \<Rightarrow> js_toString E v)"

text \<open>\<open>Math.pow\<close> and the arithmetic operators of an operation with two operands.\<close>

fun arith_op :: "env \<Rightarrow> enumMathOps \<Rightarrow> (jsval \<Rightarrow> jsval \<Rightarrow> jsval) option" where
  "arith_op E NUMERICALADD = Some (js_add E)"
| "arith_op E NUMERICALMINUS = Some (js_arith E (\<lambda>x y. num_add x (num_neg y)))"
| "arith_op E NUMERICALMULTIPLY = Some (js_arith E num_mul)"
| "arith_op E NUMERICALDIVIDE = Some (js_arith E num_div)"
| "arith_op E NUMERICALPOW = Some (js_arith E (math_pow E))"
| "arith_op E _ = None"

text \<open>
  The type conversion reads the target type and the value from the same child, \<open>children[0]\<close>.
\<close>

definition type_conversion :: "env \<Rightarrow> jsval \<Rightarrow> jsval result" where
  "type_conversion E newType =
     (if newType = JStr ''INT'' then Inr (JNum (num_floor (js_Number E newType)))
      else if newType = JStr ''FLOAT''
      then (case js_toString E newType of Inl e \<Rightarrow> Inl e | Inr x \<Rightarrow> Inr (JNum (parseFloat x)))
      else if newType = JStr ''STRING''
      then (case js_toString E newType of Inl e \<Rightarrow> Inl e | Inr x \<Rightarrow> Inr (JStr x))
      else Inl (CoreError CLIENT_MALFORMED_INPUT ''Type converstion only supports INT, FLOAT and STRING.''))"

abbreviation no_match :: "jsval result" where
  "no_match \<equiv> Inl (CoreError CLIENT_MALFORMED_INPUT ''Operator and children does not match.'')"

abbreviation bad_node :: "jsval result" where
  "bad_node \<equiv> Inl (CoreError CLIENT_MALFORMED_INPUT ''Node type must be OPERATION,, SELF or VALUE'')"

fun IASTHelper :: "env \<Rightarrow> IAST \<Rightarrow> jsval \<Rightarrow> jsval result"
  and concat_children :: "env \<Rightarrow> IAST list \<Rightarrow> jsval \<Rightarrow> string \<Rightarrow> jsval result" where
  "IASTHelper E (IAST ty operator v params sub) data =
     (if ty = VALUE then Inr v
      else if ty = SELF then Inr data
      else if ty = MAP \<and> (case data of JStr x \<Rightarrow> True | _ \<Rightarrow> False) then
        (case data of
           JStr x \<Rightarrow> (let r = js_get params x in Inr (if r = JUndef \<or> r = JNull then data else r))
         | _ \<Rightarrow> Inr data)
      else if ty = VARIABLE \<and> js_truthy v then
        (case v of
           JStr x \<Rightarrow> walk_path data (split_on (CHR ''.'') x)
         | _ \<Rightarrow> Inl (JSError ''TypeError''))
      else if scalar data \<and> ty = OPERATION then
        (case operator of
           None \<Rightarrow> Inl (CoreError CLIENT_MALFORMED_INPUT ''OPEARTION node must have an operator'')
         | Some f \<Rightarrow>
             (case arith_op E f of
                Some g \<Rightarrow>
                  (case sub of
                     Some [a, b] \<Rightarrow>
                       (case parseInputToNumber data of
                          Inl e \<Rightarrow> Inl e
                        | Inr n \<Rightarrow> lift2 g (IASTHelper E a n) (IASTHelper E b n))
                   | _ \<Rightarrow> no_match)
              | None \<Rightarrow>
                  (if f = STRINGCONCAT then
                     (case sub of
                        Some (c # cs) \<Rightarrow> concat_children E (c # cs) data ''''
                      | _ \<Rightarrow> no_match)
                   else if f = STRINGSUBSTR then
                     (case sub of
                        Some [a, b, c] \<Rightarrow>
                          (case string_of E (IASTHelper E a data) of
                             Inl e \<Rightarrow> Inl e
                           | Inr x \<Rightarrow>
                               (case (IASTHelper E b data, IASTHelper E c (JStr (js_String E data))) of
                                  (Inl e, _) \<Rightarrow> Inl e
                                | (_, Inl e) \<Rightarrow> Inl e
                                | (Inr p, Inr q) \<Rightarrow> Inr (JStr (js_substr E x p q))))
                      | _ \<Rightarrow> no_match)
                   else
                     (case sub of
                        Some [a, b] \<Rightarrow>
                          (case IASTHelper E a data of
                             Inl e \<Rightarrow> Inl e
                           | Inr newType \<Rightarrow> type_conversion E newType)
                      | _ \<Rightarrow> no_match))))
      else bad_node)"
| "concat_children E [] data acc = Inr (JStr acc)"
| "concat_children E (c # cs) data acc =
     (case string_of E (IASTHelper E c data) of
        Inl e \<Rightarrow> Inl e
      | Inr x \<Rightarrow> concat_children E cs data (acc @ x))"

subsection \<open>Verifiers\<close>

definition validValueWithVerifier :: "env \<Rightarrow> jsval \<Rightarrow> IValueVerifier \<Rightarrow> bool result" where
  "validValueWithVerifier E value v =
     (case IASTHelper E (formula v) value of
        Inl e \<Rightarrow> Inl e
      | Inr calculated \<Rightarrow>
          (case condition v of
             NUMERICALEQUAL \<Rightarrow>
               (case parseInputToNumber (verifier_value v) of
                  Inl e \<Rightarrow> Inl e
                | Inr n \<Rightarrow> Inr (js_strict_eq calculated n))
           | NUMERICALNOTEQUAL \<Rightarrow> Inr (\<not> js_strict_eq calculated (verifier_value v))
           | NUMERICALLESSTHAN \<Rightarrow> Inr (js_less E calculated (verifier_value v))
           | NUMERICALGREATERTHAN \<Rightarrow> Inr (js_less E (verifier_value v) calculated)
           | NUMERICALNOTLESSTHAN \<Rightarrow> Inr (js_le E (verifier_value v) calculated)
           | NUMERICALNOTGREATERTHAN \<Rightarrow> Inr (js_le E calculated (verifier_value v))
           | STRINGREGEXMATCH \<Rightarrow>
               (case js_toString E (verifier_value v) of
                  Inl e \<Rightarrow> Inl e
                | Inr re \<Rightarrow>
               (case RegExp E re of
                  None \<Rightarrow> Inl (JSError ''SyntaxError'')
                | Some test \<Rightarrow>
               (case js_toString E calculated of
                  Inl e \<Rightarrow> Inl e
                | Inr x \<Rightarrow> Inr (test x))))
           | STRINGEQUAL \<Rightarrow> Inr (js_strict_eq calculated (verifier_value v))
           | GENERALISNOTNULL \<Rightarrow> Inr (calculated \<noteq> JNull)
           | GENERALISNULL \<Rightarrow> Inr (calculated = JNull)))"


subsection \<open>Arithmetic formulas\<close>

text \<open>
  What a formula of arithmetic nodes should compute: an expression over the input value, undefined
  where it divides by zero.
\<close>

datatype aexp = Const rat | Input | Add aexp aexp | Sub aexp aexp | Mul aexp aexp | Div aexp aexp

fun aval :: "aexp \<Rightarrow> rat \<Rightarrow> rat option" where
  "aval (Const c) x = Some c"
| "aval Input x = Some x"
| "aval (Add a b) x = (case (aval a x, aval b x) of (Some y, Some z) \<Rightarrow> Some (y + z) | _ \<Rightarrow> None)"
| "aval (Sub a b) x = (case (aval a x, aval b x) of (Some y, Some z) \<Rightarrow> Some (y - z) | _ \<Rightarrow> None)"
| "aval (Mul a b) x = (case (aval a x, aval b x) of (Some y, Some z) \<Rightarrow> Some (y * z) | _ \<Rightarrow> None)"
| "aval (Div a b) x = (case (aval a x, aval b x) of
      (Some y, Some z) \<Rightarrow> if z = 0 then None else Some (y / z) | _ \<Rightarrow> None)"

text \<open>
  JavaScript computes with doubles, which hold every whole number up to \<open>2^53\<close> exactly and give the
  exact result of an operation when it is such a number; elsewhere they round (\<open>0.1 + 0.2\<close> is not
  \<open>0.3\<close>), which the rationals of the model do not show. A formula is exact on an input when the
  value of each of its subexpressions is such a number.
\<close>

definition exact_number :: "rat \<Rightarrow> bool" where
  "exact_number y \<longleftrightarrow> of_int \<lfloor>y\<rfloor> = y \<and> \<bar>y\<bar> \<le> 2 ^ 53"

fun subexps :: "aexp \<Rightarrow> aexp list" where
  "subexps (Const c) = [Const c]"
| "subexps Input = [Input]"
| "subexps (Add a b) = Add a b # subexps a @ subexps b"
| "subexps (Sub a b) = Sub a b # subexps a @ subexps b"
| "subexps (Mul a b) = Mul a b # subexps a @ subexps b"
| "subexps (Div a b) = Div a b # subexps a @ subexps b"

definition exact_on :: "aexp \<Rightarrow> rat \<Rightarrow> bool" where
  "exact_on e x \<longleftrightarrow> list_all (\<lambda>e'. case aval e' x of None \<Rightarrow> False | Some y \<Rightarrow> exact_number y) (subexps e)"

lemma exact_on_defined: "exact_on e x \<Longrightarrow> \<exists>y. aval e x = Some y"
  by (cases e) (auto simp: exact_on_def split: option.splits)

abbreviation node2 :: "enumMathOps \<Rightarrow> IAST \<Rightarrow> IAST \<Rightarrow> IAST" where
  "node2 f a b \<equiv> IAST OPERATION (Some f) JNull [] (Some [a, b])"

fun as_formula :: "aexp \<Rightarrow> IAST" where
  "as_formula (Const c) = IAST VALUE None (JNum (Fin c)) [] None"
| "as_formula Input = IAST SELF None JNull [] None"
| "as_formula (Add a b) = node2 NUMERICALADD (as_formula a) (as_formula b)"
| "as_formula (Sub a b) = node2 NUMERICALMINUS (as_formula a) (as_formula b)"
| "as_formula (Mul a b) = node2 NUMERICALMULTIPLY (as_formula a) (as_formula b)"
| "as_formula (Div a b) = node2 NUMERICALDIVIDE (as_formula a) (as_formula b)"

fun holds :: "enumConditionOps \<Rightarrow> rat \<Rightarrow> rat \<Rightarrow> bool" where
  "holds NUMERICALEQUAL y b = (y = b)"
| "holds NUMERICALNOTEQUAL y b = (y \<noteq> b)"
| "holds NUMERICALLESSTHAN y b = (y < b)"
| "holds NUMERICALGREATERTHAN y b = (y > b)"
| "holds NUMERICALNOTLESSTHAN y b = (y \<ge> b)"
| "holds NUMERICALNOTGREATERTHAN y b = (y \<le> b)"
| "holds STRINGEQUAL y b = (y = b)"
| "holds GENERALISNULL y b = False"
| "holds GENERALISNOTNULL y b = True"
| "holds STRINGREGEXMATCH y b = False"

lemma IASTHelper_binary:
  assumes "arith_op E f = Some g"
    and "IASTHelper E a (JNum n) = Inr x" and "IASTHelper E b (JNum n) = Inr y"
  shows "IASTHelper E (node2 f a b) (JNum n) = Inr (g x y)"
  using assms by (simp add: scalar_def parseInputToNumber_def lift2_def)

lemma IASTHelper_aval:
  "aval e x = Some y \<Longrightarrow> IASTHelper E (as_formula e) (JNum (Fin x)) = Inr (JNum (Fin y))"
proof (induction e arbitrary: y)
  case (Add a b)
  then obtain u v where "aval a x = Some u" "aval b x = Some v" "y = u + v" by (auto split: option.splits)
  with Add.IH IASTHelper_binary[of E NUMERICALADD "js_add E"] show ?case by (simp add: js_add_def)
next
  case (Sub a b)
  then obtain u v where "aval a x = Some u" "aval b x = Some v" "y = u - v" by (auto split: option.splits)
  with Sub.IH IASTHelper_binary[of E NUMERICALMINUS "js_arith E (\<lambda>x y. num_add x (num_neg y))"]
  show ?case by (simp add: js_arith_def)
next
  case (Mul a b)
  then obtain u v where "aval a x = Some u" "aval b x = Some v" "y = u * v" by (auto split: option.splits)
  with Mul.IH IASTHelper_binary[of E NUMERICALMULTIPLY "js_arith E num_mul"] show ?case by (simp add: js_arith_def)
next
  case (Div a b)
  then obtain u v where "aval a x = Some u" "aval b x = Some v" "v \<noteq> 0" "y = u / v"
    by (auto split: option.splits if_splits)
  with Div.IH IASTHelper_binary[of E NUMERICALDIVIDE "js_arith E num_div"] show ?case by (simp add: js_arith_def)
qed simp_all

subsection \<open>Properties\<close>

text \<open>
  C17. Verifiers compute what they say, where doubles are exact: for a whole input and bound and an
  arithmetic formula whose subexpressions all have whole values of at most \<open>2^53\<close> on the input
  (quotients included, and none by zero), and a condition on numbers, the verifier returns and
  accepts the number exactly if the value of the expression stands in the relation to the bound.
\<close>

theorem verifier_on_numbers:
  assumes "exact_number x" and "exact_on e x" and "exact_number b"
    and "c \<notin> {STRINGREGEXMATCH, GENERALISNULL, GENERALISNOTNULL}"
    and "formula v = as_formula e" and "condition v = c" and "verifier_value v = JNum (Fin b)"
  shows "\<exists>y. aval e x = Some y \<and> validValueWithVerifier E (JNum (Fin x)) v = Inr (holds c y b)"
proof -
  from exact_on_defined[OF assms(2)] obtain y where y: "aval e x = Some y" by blast
  have "validValueWithVerifier E (JNum (Fin x)) v = Inr (holds c y b)"
    using assms(4-7) IASTHelper_aval[OF y, of E]
    by (cases c) (auto simp: validValueWithVerifier_def parseInputToNumber_def js_less_def js_le_def num_le_def)
  with y show ?thesis by blast
qed

theorem verifier_on_numbers_witness:
  "validValueWithVerifier env0 (JNum (Fin 5)) \<lparr>formula = as_formula (Div (Mul Input (Const 2)) (Const 5)),
     condition = NUMERICALNOTLESSTHAN, verifier_value = JNum (Fin 2), verifier_parameters = []\<rparr> = Inr True"
proof -
  have "exact_on (Div (Mul Input (Const 2)) (Const 5)) 5" by (simp add: exact_on_def exact_number_def)
  from verifier_on_numbers[OF _ this, of 2 NUMERICALNOTLESSTHAN] show ?thesis
    by (simp add: exact_number_def)
qed
end
