(* ===== verification/Transform.thy ===== *)
theory Transform
  imports Formula
begin

section \<open>Aggregations of data (\<open>transformationCore.ts\<close>)\<close>

text \<open>
  The transformations a client can chain to aggregate data clips, and \<open>transformationAggregate\<close>,
  which runs several chains over the same clips. A clip is an object, and \<open>AFFINE\<close> changes it in
  place, so clips live in a heap: a transformation maps addresses to addresses. An array of clips
  can hold \<open>undefined\<close> (\<open>None\<close>). Values inside of a clip are never changed in place. What a
  transformation computes from the values of the clips is written once, for any kind of item;
  theory \<open>TransformSpec\<close> reads it on the values themselves.
\<close>

type_synonym heap = "jobject list"
type_synonym item = "nat option"
type_synonym 'a step = "error + 'a \<times> heap"

text \<open>\<open>IDataTransformationType\<close>: an array of clips, or an array of such arrays.\<close>

datatype 'a tdata = Flat "'a list" | Groups "'a list list"

definition deref :: "heap \<Rightarrow> item \<Rightarrow> jsval" where
  "deref h x = (case x of None \<Rightarrow> JUndef | Some a \<Rightarrow> JObj (h ! a))"

abbreviation type_error :: error where
  "type_error \<equiv> JSError ''TypeError''"

text \<open>The input guards. The empty array passes both.\<close>

fun flat_input :: "'a tdata \<Rightarrow> 'a list result" where
  "flat_input (Flat xs) = Inr xs"
| "flat_input (Groups []) = Inr []"
| "flat_input (Groups (g # gs)) =
     Inl (JSError ''Input data must be of type IDataTransformationClipArray (A[]) and not A[][]'')"

fun grouped_input :: "'a tdata \<Rightarrow> 'a list list result" where
  "grouped_input (Groups gs) = Inr gs"
| "grouped_input (Flat []) = Inr []"
| "grouped_input (Flat (x # xs)) =
     Inl (JSError ''Input data must be of type A[][] (array of arrays) and not A[]'')"

subsection \<open>\<open>GROUP\<close>\<close>

fun findValue :: "jsval \<Rightarrow> string list \<Rightarrow> jsval" where
  "findValue obj [] = obj"
| "findValue (JObj m) (k # ks) = (if map_of m k = None then JUndef else findValue (js_get m k) ks)"
| "findValue (JArr xs) (k # ks) =
     (if k = ''length'' \<or> is_index k \<and> index_of k < length xs
      then (case js_prop (JArr xs) k of Inr v \<Rightarrow> findValue v ks | Inl e \<Rightarrow> JUndef)
      else JUndef)"
| "findValue JNull (k # ks) = JNull"
| "findValue v (k # ks) = JUndef"

definition getValueFromNestedKey :: "jsval \<Rightarrow> string \<Rightarrow> jsval" where
  "getValueFromNestedKey obj key = findValue obj (split_on (CHR ''.'') key)"

definition allKeysExist :: "string list \<Rightarrow> jsval \<Rightarrow> bool" where
  "allKeysExist keys obj = list_all (\<lambda>k. getValueFromNestedKey obj k \<noteq> JUndef) keys"

definition groupKey :: "env \<Rightarrow> string list \<Rightarrow> jsval \<Rightarrow> string" where
  "groupKey E keys obj = join_with ''|'' (map (\<lambda>k. js_String E (getValueFromNestedKey obj k)) keys)"

fun add_to_group :: "string \<Rightarrow> 'a \<Rightarrow> (string \<times> 'a list) list \<Rightarrow> (string \<times> 'a list) list" where
  "add_to_group k x [] = [(k, [x])]"
| "add_to_group k x ((k', g) # gs) = (if k' = k then (k, g @ [x]) # gs else (k', g) # add_to_group k x gs)"

fun group_loop ::
    "('a \<Rightarrow> bool) \<Rightarrow> ('a \<Rightarrow> string) \<Rightarrow> bool \<Rightarrow> 'a list \<Rightarrow> (string \<times> 'a list) list \<Rightarrow> 'a list list
     \<Rightarrow> (string \<times> 'a list) list \<times> 'a list list" where
  "group_loop matched key skipUnmatch [] groupsMap unmatched = (groupsMap, unmatched)"
| "group_loop matched key skipUnmatch (x # xs) groupsMap unmatched =
     (if \<not> matched x
      then group_loop matched key skipUnmatch xs groupsMap (if skipUnmatch then unmatched else unmatched @ [[x]])
      else group_loop matched key skipUnmatch xs (add_to_group (key x) x groupsMap) unmatched)"

definition grouping :: "('a \<Rightarrow> bool) \<Rightarrow> ('a \<Rightarrow> string) \<Rightarrow> bool \<Rightarrow> 'a list \<Rightarrow> 'a list list" where
  "grouping matched key skipUnmatch xs =
     (let (groupsMap, unmatched) = group_loop matched key skipUnmatch xs [] []
      in map (\<lambda>k. the (map_of groupsMap k)) (property_order (map fst groupsMap)) @ unmatched)"

definition tGrouping :: "env \<Rightarrow> string list \<Rightarrow> bool \<Rightarrow> heap \<Rightarrow> item tdata \<Rightarrow> item tdata step" where
  "tGrouping E keys skipUnmatch h data =
     (case flat_input data of
        Inl e \<Rightarrow> Inl e
      | Inr xs \<Rightarrow>
          Inr (Groups (grouping (\<lambda>x. allKeysExist keys (deref h x)) (\<lambda>x. groupKey E keys (deref h x)) skipUnmatch xs), h))"

subsection \<open>\<open>AFFINE\<close>\<close>

fun affine_add :: "env \<Rightarrow> (IAST \<times> IAST) list \<Rightarrow> jobject \<Rightarrow> jobject result" where
  "affine_add E [] m = Inr m"
| "affine_add E ((fk, fv) # rules) m =
     (case IASTHelper E fk (JObj m) of
        Inl e \<Rightarrow> Inl e
      | Inr newKey \<Rightarrow>
          (case IASTHelper E fv (JObj m) of
             Inl e \<Rightarrow> Inl e
           | Inr newValue \<Rightarrow> affine_add E rules (js_set m (js_String E newKey) newValue)))"

fun affine_rules :: "env \<Rightarrow> (string \<times> IAST) list \<Rightarrow> string list \<Rightarrow> jobject \<Rightarrow> jobject result" where
  "affine_rules E rules [] m = Inr m"
| "affine_rules E rules (k # ks) m =
     (case map_of rules k of
        None \<Rightarrow> affine_rules E rules ks m
      | Some f \<Rightarrow>
          (case IASTHelper E f (js_get m k) of
             Inl e \<Rightarrow> Inl e
           | Inr v \<Rightarrow> affine_rules E rules ks (js_set m k v)))"

definition affine_item ::
    "env \<Rightarrow> string list option \<Rightarrow> (IAST \<times> IAST) list option \<Rightarrow> (string \<times> IAST) list option
     \<Rightarrow> jobject \<Rightarrow> jobject result" where
  "affine_item E removedKeys addedKeyRules rules m =
     (case affine_add E (nullish addedKeyRules []) m of
        Inl e \<Rightarrow> Inl e
      | Inr m1 \<Rightarrow>
          (case (case rules of None \<Rightarrow> Inr m1 | Some rs \<Rightarrow> affine_rules E rs (js_keys m1) m1) of
             Inl e \<Rightarrow> Inl e
           | Inr m2 \<Rightarrow> Inr (foldl js_delete m2 (nullish removedKeys []))))"

text \<open>On an \<open>undefined\<close> item a rule is evaluated before the assignment throws.\<close>

definition affine_undefined :: "env \<Rightarrow> (IAST \<times> IAST) list option \<Rightarrow> error" where
  "affine_undefined E addedKeyRules =
     (case nullish addedKeyRules [] of
        [] \<Rightarrow> type_error
      | (fk, fv) # rs \<Rightarrow>
          (case IASTHelper E fk JUndef of Inl e \<Rightarrow> e
           | Inr v \<Rightarrow> (case IASTHelper E fv JUndef of Inl e \<Rightarrow> e | Inr w \<Rightarrow> type_error)))"

fun affine_loop ::
    "env \<Rightarrow> string list option \<Rightarrow> (IAST \<times> IAST) list option \<Rightarrow> (string \<times> IAST) list option
     \<Rightarrow> item list \<Rightarrow> heap \<Rightarrow> item list step" where
  "affine_loop E removedKeys addedKeyRules rules [] h = Inr ([], h)"
| "affine_loop E removedKeys addedKeyRules rules (None # xs) h = Inl (affine_undefined E addedKeyRules)"
| "affine_loop E removedKeys addedKeyRules rules (Some a # xs) h =
     (case affine_item E removedKeys addedKeyRules rules (h ! a) of
        Inl e \<Rightarrow> Inl e
      | Inr m \<Rightarrow>
          (case affine_loop E removedKeys addedKeyRules rules xs (h[a := m]) of
             Inl e \<Rightarrow> Inl e
           | Inr (ys, h') \<Rightarrow> Inr (if m = [] then ys else Some a # ys, h')))"

definition tAffine ::
    "env \<Rightarrow> string list option \<Rightarrow> (IAST \<times> IAST) list option \<Rightarrow> (string \<times> IAST) list option
     \<Rightarrow> heap \<Rightarrow> item tdata \<Rightarrow> item tdata step" where
  "tAffine E removedKeys addedKeyRules rules h data =
     (case flat_input data of
        Inl e \<Rightarrow> Inl e
      | Inr xs \<Rightarrow>
          (case affine_loop E removedKeys addedKeyRules rules xs h of
             Inl e \<Rightarrow> Inl e
           | Inr (ys, h') \<Rightarrow> Inr (Flat ys, h')))"

subsection \<open>\<open>LEAVEONE\<close>\<close>

fun map_result :: "('a \<Rightarrow> 'b result) \<Rightarrow> 'a list \<Rightarrow> 'b list result" where
  "map_result f [] = Inr []"
| "map_result f (x # xs) =
     (case f x of
        Inl e \<Rightarrow> Inl e
      | Inr y \<Rightarrow> (case map_result f xs of Inl e \<Rightarrow> Inl e | Inr ys \<Rightarrow> Inr (y # ys)))"

text \<open>\<open>items[scores.indexOf(best)]\<close>: \<open>undefined\<close> where no score is equal to the best.\<close>

fun item_at_best :: "jnum \<Rightarrow> jsval list \<Rightarrow> 'a list \<Rightarrow> 'a option" where
  "item_at_best best (sc # scs) (x # xs) =
     (if js_strict_eq sc (JNum best) then Some x else item_at_best best scs xs)"
| "item_at_best best _ _ = None"

definition leave_one :: "env \<Rightarrow> bool \<Rightarrow> ('a \<Rightarrow> jsval result) \<Rightarrow> 'a list \<Rightarrow> 'a option result" where
  "leave_one E isDescend score items =
     (case map_result score items of
        Inl e \<Rightarrow> Inl e
      | Inr scores \<Rightarrow>
          (let ns = map (js_Number E) scores; best = (if isDescend then math_max ns else math_min ns)
           in Inr (item_at_best best scores items)))"

definition tLeaveOne :: "env \<Rightarrow> IAST \<Rightarrow> bool \<Rightarrow> heap \<Rightarrow> item tdata \<Rightarrow> item tdata step" where
  "tLeaveOne E scoreFormula isDescend h data =
     (case grouped_input data of
        Inl e \<Rightarrow> Inl e
      | Inr gs \<Rightarrow>
          (case map_result (leave_one E isDescend (\<lambda>x. IASTHelper E scoreFormula (deref h x))) gs of
             Inl e \<Rightarrow> Inl e
           | Inr xs \<Rightarrow> Inr (Flat (map (\<lambda>x. nullish x None) xs), h)))"

subsection \<open>\<open>JOIN\<close>, \<open>CONCAT\<close>, \<open>COUNT\<close>: a new clip for each group\<close>

definition alloc :: "jobject list \<Rightarrow> heap \<Rightarrow> item tdata \<times> heap" where
  "alloc ms h = (Flat (map Some [length h..<length h + length ms]), h @ ms)"

definition join_group :: "jsval list \<Rightarrow> jobject" where
  "join_group items =
     foldl (\<lambda>obj v. case v of JObj m \<Rightarrow> js_spread obj m | _ \<Rightarrow> obj) [] items"

definition tJoin :: "heap \<Rightarrow> item tdata \<Rightarrow> item tdata step" where
  "tJoin h data =
     (case grouped_input data of
        Inl e \<Rightarrow> Inl e
      | Inr gs \<Rightarrow> Inr (alloc (map (\<lambda>g. join_group (map (deref h) g)) gs) h))"

definition concat_key :: "string list \<Rightarrow> jobject \<Rightarrow> jobject \<Rightarrow> string \<Rightarrow> jobject" where
  "concat_key concatKeys m result key =
     (if key \<in> set concatKeys
      then (case js_get result key of
              JArr vs \<Rightarrow> js_set result key (JArr (vs @ [js_get m key]))
            | _ \<Rightarrow> js_set result key (JArr [js_get m key]))
      else if \<not> js_truthy (js_get result key) then js_set result key (js_get m key)
      else result)"

fun concat_group :: "string list \<Rightarrow> jsval list \<Rightarrow> jobject \<Rightarrow> jobject result" where
  "concat_group concatKeys [] result = Inr result"
| "concat_group concatKeys (JObj m # vs) result =
     concat_group concatKeys vs (foldl (concat_key concatKeys m) result (js_keys m))"
| "concat_group concatKeys (v # vs) result = Inl type_error"

definition tConcat :: "string list \<Rightarrow> heap \<Rightarrow> item tdata \<Rightarrow> item tdata step" where
  "tConcat concatKeys h data =
     (case grouped_input data of
        Inl e \<Rightarrow> Inl e
      | Inr gs \<Rightarrow>
          (case map_result (\<lambda>g. concat_group concatKeys (map (deref h) g) []) gs of
             Inl e \<Rightarrow> Inl e
           | Inr ms \<Rightarrow> Inr (alloc ms h)))"

fun count_rules :: "env \<Rightarrow> (IAST \<times> IAST) list \<Rightarrow> jsval \<Rightarrow> jobject \<Rightarrow> jobject result" where
  "count_rules E [] first_item m = Inr m"
| "count_rules E ((fk, fv) # rules) first_item m =
     (case IASTHelper E fk first_item of
        Inl e \<Rightarrow> Inl e
      | Inr k \<Rightarrow>
          (case IASTHelper E fv first_item of
             Inl e \<Rightarrow> Inl e
           | Inr v \<Rightarrow> count_rules E rules first_item (js_set m (js_String E k) v)))"

definition count_group :: "env \<Rightarrow> (IAST \<times> IAST) list option \<Rightarrow> jsval list \<Rightarrow> jobject result" where
  "count_group E addedKeyRules g =
     count_rules E (nullish addedKeyRules []) (case g of [] \<Rightarrow> JUndef | v # vs \<Rightarrow> v)
       [(''count'', JNum (Fin (of_nat (length g))))]"

definition tCount :: "env \<Rightarrow> (IAST \<times> IAST) list option \<Rightarrow> heap \<Rightarrow> item tdata \<Rightarrow> item tdata step" where
  "tCount E addedKeyRules h data =
     (case grouped_input data of
        Inl e \<Rightarrow> Inl e
      | Inr gs \<Rightarrow>
          (case map_result (\<lambda>g. count_group E addedKeyRules (map (deref h) g)) gs of
             Inl e \<Rightarrow> Inl e
           | Inr ms \<Rightarrow> Inr (alloc ms h)))"


subsection \<open>\<open>DECONCAT\<close> and \<open>DEGROUP\<close>: new groups for each clip\<close>

datatype match_mode = Combinations | Sequential

definition cartesianProduct :: "'a list list \<Rightarrow> 'a list list" where
  "cartesianProduct arr = foldl (\<lambda>a b. concat (map (\<lambda>x. map (\<lambda>y. x @ [y]) b) a)) [[]] arr"

definition prop_or_undef :: "jsval \<Rightarrow> string \<Rightarrow> jsval" where
  "prop_or_undef v k = (case js_prop v k of Inl e \<Rightarrow> JUndef | Inr w \<Rightarrow> w)"

definition createDeconcatObject :: "string list \<Rightarrow> jsval \<Rightarrow> jsval list \<Rightarrow> jobject" where
  "createDeconcatObject deconcatKeys item values =
     (let newObj = foldl (\<lambda>m (k, v). js_set m k v) [] (zip deconcatKeys values)
      in foldl (\<lambda>m k. if k \<in> set deconcatKeys then m else js_set m k (prop_or_undef item k)) newObj
           (js_own_keys item))"

text \<open>\<open>item[key] || []\<close>, on which \<open>map\<close> is called: only arrays have it.\<close>

definition array_or_empty :: "jsval \<Rightarrow> jsval list result" where
  "array_or_empty v =
     (if \<not> js_truthy v then Inr [] else case v of JArr xs \<Rightarrow> Inr xs | _ \<Rightarrow> Inl type_error)"

text \<open>
  \<open>item[key]?.length || 0\<close>, and \<open>item[key]?.[i]\<close>. A loop bound that is not finite never ends; the
  model throws.
\<close>

definition length_or_zero :: "env \<Rightarrow> jsval \<Rightarrow> jnum" where
  "length_or_zero E v =
     (let n = prop_or_undef v ''length'' in if js_truthy n then js_Number E n else Fin 0)"

definition loop_bound :: "jnum \<Rightarrow> nat result" where
  "loop_bound n = (case n of Fin x \<Rightarrow> Inr (nat \<lceil>x\<rceil>) | PosInf \<Rightarrow> Inl (JSError ''RangeError'') | _ \<Rightarrow> Inr 0)"

definition element_at :: "jsval \<Rightarrow> nat \<Rightarrow> jsval" where
  "element_at v i = prop_or_undef v (string_of_nat i)"

text \<open>An \<open>undefined\<close> item throws, except that a sequential match without keys never looks at it.\<close>

definition deconcat_item :: "env \<Rightarrow> string list \<Rightarrow> match_mode \<Rightarrow> jsval \<Rightarrow> jobject list result" where
  "deconcat_item E deconcatKeys mode item =
     (if item = JUndef \<and> (mode = Combinations \<or> deconcatKeys \<noteq> []) then Inl type_error
      else
     (let vs = map (prop_or_undef item) deconcatKeys in
      case mode of
        Combinations \<Rightarrow>
          (case map_result array_or_empty vs of
             Inl e \<Rightarrow> Inl e
           | Inr arrays \<Rightarrow> Inr (map (createDeconcatObject deconcatKeys item) (cartesianProduct arrays)))
      | Sequential \<Rightarrow>
          (case loop_bound (math_max (map (length_or_zero E) vs)) of
             Inl e \<Rightarrow> Inl e
           | Inr n \<Rightarrow> Inr (map (\<lambda>i. createDeconcatObject deconcatKeys item (map (\<lambda>v. element_at v i) vs)) [0..<n]))))"

text \<open>Allocating the clips of each group.\<close>

fun alloc_groups :: "jobject list list \<Rightarrow> heap \<Rightarrow> item list list \<times> heap" where
  "alloc_groups [] h = ([], h)"
| "alloc_groups (ms # mss) h =
     (let (gs, h') = alloc_groups mss (h @ ms)
      in (map Some [length h..<length h + length ms] # gs, h'))"

text \<open>There is no input guard: a group is taken as an item, the array of its clips.\<close>

fun deconcat_input :: "jsval tdata \<Rightarrow> jsval list" where
  "deconcat_input (Flat vs) = vs"
| "deconcat_input (Groups gs) = map JArr gs"

definition tDeconcat :: "env \<Rightarrow> string list \<Rightarrow> match_mode \<Rightarrow> heap \<Rightarrow> item tdata \<Rightarrow> item tdata step" where
  "tDeconcat E deconcatKeys mode h data =
     (let items = deconcat_input (map_tdata (deref h) data)
      in case map_result (deconcat_item E deconcatKeys mode) items of
           Inl e \<Rightarrow> Inl e
         | Inr mss \<Rightarrow> (let (gs, h') = alloc_groups mss h in Inr (Groups gs, h')))"

definition pick_keys :: "jsval \<Rightarrow> string list \<Rightarrow> jobject result" where
  "pick_keys item keys =
     (if item = JUndef \<and> keys \<noteq> [] then Inl type_error
      else Inr (foldl (\<lambda>m k. js_set m k (prop_or_undef item k)) [] keys))"

definition tDegroup :: "string list \<Rightarrow> string list list \<Rightarrow> heap \<Rightarrow> item tdata \<Rightarrow> item tdata step" where
  "tDegroup sharedKeys targetKeyGroups h data =
     (case flat_input data of
        Inl e \<Rightarrow> Inl e
      | Inr xs \<Rightarrow>
          (case map_result (\<lambda>x. map_result (\<lambda>ks. pick_keys (deref h x) (sharedKeys @ ks)) targetKeyGroups) xs of
             Inl e \<Rightarrow> Inl e
           | Inr mss \<Rightarrow> (let (gs, h') = alloc_groups mss h in Inr (Groups gs, h'))))"

subsection \<open>\<open>FILTER\<close>\<close>

fun every_valid :: "env \<Rightarrow> jsval \<Rightarrow> IValueVerifier list \<Rightarrow> bool result" where
  "every_valid E item [] = Inr True"
| "every_valid E item (v # vs) =
     (case validValueWithVerifier E item v of
        Inl e \<Rightarrow> Inl e
      | Inr b \<Rightarrow> if b then every_valid E item vs else Inr False)"

fun some_filter :: "env \<Rightarrow> jsval \<Rightarrow> (string \<times> IValueVerifier list) list \<Rightarrow> string list \<Rightarrow> bool result" where
  "some_filter E item filters [] = Inr False"
| "some_filter E item filters (k # ks) =
     (case every_valid E item (the (map_of filters k)) of
        Inl e \<Rightarrow> Inl e
      | Inr b \<Rightarrow> if b then Inr True else some_filter E item filters ks)"

definition isValidItem :: "env \<Rightarrow> (string \<times> IValueVerifier list) list \<Rightarrow> jsval \<Rightarrow> bool result" where
  "isValidItem E filters item = some_filter E item filters (property_order (remdups (map fst filters)))"

fun filter_result :: "('a \<Rightarrow> bool result) \<Rightarrow> 'a list \<Rightarrow> 'a list result" where
  "filter_result p [] = Inr []"
| "filter_result p (x # xs) =
     (case p x of
        Inl e \<Rightarrow> Inl e
      | Inr b \<Rightarrow> (case filter_result p xs of Inl e \<Rightarrow> Inl e | Inr ys \<Rightarrow> Inr (if b then x # ys else ys)))"

definition tFilter :: "env \<Rightarrow> (string \<times> IValueVerifier list) list \<Rightarrow> heap \<Rightarrow> item tdata \<Rightarrow> item tdata step" where
  "tFilter E filters h data =
     (let p = (\<lambda>x. isValidItem E filters (deref h x)) in
      case data of
        Flat xs \<Rightarrow> (case filter_result p xs of Inl e \<Rightarrow> Inl e | Inr ys \<Rightarrow> Inr (Flat ys, h))
      | Groups gs \<Rightarrow> (case map_result (filter_result p) gs of Inl e \<Rightarrow> Inl e | Inr gs' \<Rightarrow> Inr (Groups gs', h)))"

subsection \<open>\<open>FLATTEN\<close>\<close>

text \<open>An item whose value is no object stays the same object, any other becomes a new one.\<close>

definition flatten_object :: "bool \<Rightarrow> string \<Rightarrow> bool \<Rightarrow> jobject \<Rightarrow> jobject option" where
  "flatten_object keepFlattened flattenedKey keepFlattenedKey m =
     (let obj = js_get m flattenedKey in
      case obj of
        JObj _ \<Rightarrow>
          Some (let m' = foldl (\<lambda>a k. if \<not> keepFlattened \<or> map_of m k = None then js_set a k (prop_or_undef obj k) else a)
                      (js_spread [] m) (js_own_keys obj)
                in if keepFlattenedKey then m' else js_delete m' flattenedKey)
      | JArr _ \<Rightarrow>
          Some (let m' = foldl (\<lambda>a k. if \<not> keepFlattened \<or> map_of m k = None then js_set a k (prop_or_undef obj k) else a)
                      (js_spread [] m) (js_own_keys obj)
                in if keepFlattenedKey then m' else js_delete m' flattenedKey)
      | _ \<Rightarrow> None)"

fun flatten_items :: "bool \<Rightarrow> string \<Rightarrow> bool \<Rightarrow> item list \<Rightarrow> heap \<Rightarrow> item list step" where
  "flatten_items kf k kk [] h = Inr ([], h)"
| "flatten_items kf k kk (None # xs) h = Inl type_error"
| "flatten_items kf k kk (Some a # xs) h =
     (let (b, h1) = (case flatten_object kf k kk (h ! a) of None \<Rightarrow> (a, h) | Some m \<Rightarrow> (length h, h @ [m]))
      in case flatten_items kf k kk xs h1 of
           Inl e \<Rightarrow> Inl e
         | Inr (ys, h2) \<Rightarrow> Inr (Some b # ys, h2))"

fun flatten_groups :: "bool \<Rightarrow> string \<Rightarrow> bool \<Rightarrow> item list list \<Rightarrow> heap \<Rightarrow> item list list step" where
  "flatten_groups kf k kk [] h = Inr ([], h)"
| "flatten_groups kf k kk (g # gs) h =
     (case flatten_items kf k kk g h of
        Inl e \<Rightarrow> Inl e
      | Inr (g', h1) \<Rightarrow>
          (case flatten_groups kf k kk gs h1 of
             Inl e \<Rightarrow> Inl e
           | Inr (gs', h2) \<Rightarrow> Inr (g' # gs', h2)))"

definition tFlatten :: "bool \<Rightarrow> string \<Rightarrow> bool \<Rightarrow> heap \<Rightarrow> item tdata \<Rightarrow> item tdata step" where
  "tFlatten keepFlattened flattenedKey keepFlattenedKey h data =
     (case data of
        Groups gs \<Rightarrow>
          (case flatten_groups keepFlattened flattenedKey keepFlattenedKey gs h of
             Inl e \<Rightarrow> Inl e | Inr (gs', h') \<Rightarrow> Inr (Groups gs', h'))
      | Flat xs \<Rightarrow>
          (case flatten_items keepFlattened flattenedKey keepFlattenedKey xs h of
             Inl e \<Rightarrow> Inl e | Inr (xs', h') \<Rightarrow> Inr (Flat xs', h')))"

subsection \<open>Chains and aggregations\<close>

datatype transformation =
    GROUP "string list" bool
  | AFFINE "string list option" "(IAST \<times> IAST) list option" "(string \<times> IAST) list option"
  | LEAVEONE IAST bool
  | CONCAT "string list"
  | DECONCAT "string list" match_mode
  | JOIN "string list"
  | DEGROUP "string list" "string list list"
  | FILTER "(string \<times> IValueVerifier list) list"
  | FLATTEN bool string bool
  | COUNT "(IAST \<times> IAST) list option"
  | UNREGISTERED string

text \<open>\<open>JOIN\<close> never uses its reserved keys.\<close>

fun transform :: "env \<Rightarrow> transformation \<Rightarrow> heap \<Rightarrow> item tdata \<Rightarrow> item tdata step" where
  "transform E (GROUP keys skip) h data = tGrouping E keys skip h data"
| "transform E (AFFINE removed added rules) h data = tAffine E removed added rules h data"
| "transform E (LEAVEONE f desc) h data = tLeaveOne E f desc h data"
| "transform E (CONCAT keys) h data = tConcat keys h data"
| "transform E (DECONCAT keys mode) h data = tDeconcat E keys mode h data"
| "transform E (JOIN keys) h data = tJoin h data"
| "transform E (DEGROUP shared targets) h data = tDegroup shared targets h data"
| "transform E (FILTER filters) h data = tFilter E filters h data"
| "transform E (FLATTEN kf k kk) h data = tFlatten kf k kk h data"
| "transform E (COUNT added) h data = tCount E added h data"
| "transform E (UNREGISTERED n) h data =
     Inl (JSError (''Transformation '' @ n @ '' is not registered.''))"

fun transformationCompose :: "env \<Rightarrow> transformation list \<Rightarrow> heap \<Rightarrow> item tdata \<Rightarrow> item tdata step" where
  "transformationCompose E [] h data = Inr (data, h)"
| "transformationCompose E (t # ts) h data =
     (case transform E t h data of
        Inl e \<Rightarrow> Inl e
      | Inr (data', h') \<Rightarrow> transformationCompose E ts h' data')"

fun aggregate_loop ::
    "env \<Rightarrow> (string \<times> transformation list) list \<Rightarrow> heap \<Rightarrow> item tdata \<Rightarrow> string list \<Rightarrow> (string \<times> item tdata) list step" where
  "aggregate_loop E agg h data [] = Inr ([], h)"
| "aggregate_loop E agg h data (k # ks) =
     (case transformationCompose E (the (map_of agg k)) h data of
        Inl e \<Rightarrow> Inl e
      | Inr (r, h1) \<Rightarrow>
          (case aggregate_loop E agg h1 data ks of
             Inl e \<Rightarrow> Inl e
           | Inr (rs, h2) \<Rightarrow> Inr ((k, r) # rs, h2)))"

text \<open>Every chain starts from the same clips, with the changes of the chains before it.\<close>

definition transformationAggregate ::
    "env \<Rightarrow> (string \<times> transformation list) list \<Rightarrow> heap \<Rightarrow> item tdata \<Rightarrow> (string \<times> item tdata) list step" where
  "transformationAggregate E agg h data =
     (if agg = [] then Inr ([(''raw'', data)], h)
      else aggregate_loop E agg h data (property_order (remdups (map fst agg))))"

end
