(* ===== verification/TransformSpec.thy ===== *)
theory TransformSpec
  imports Transform
begin

section \<open>What aggregations compute\<close>

text \<open>
  The transformations on plain values, without a heap: the specification that theory \<open>Transform\<close>
  refines where no clip occurs twice in the data. What the grouping does is characterised by filters.
\<close>

subsection \<open>The specification\<close>

fun vaffine_loop ::
    "env \<Rightarrow> string list option \<Rightarrow> (IAST \<times> IAST) list option \<Rightarrow> (string \<times> IAST) list option
     \<Rightarrow> jsval list \<Rightarrow> jsval list result" where
  "vaffine_loop E removedKeys addedKeyRules rules [] = Inr []"
| "vaffine_loop E removedKeys addedKeyRules rules (JObj m # vs) =
     (case affine_item E removedKeys addedKeyRules rules m of
        Inl e \<Rightarrow> Inl e
      | Inr m' \<Rightarrow>
          (case vaffine_loop E removedKeys addedKeyRules rules vs of
             Inl e \<Rightarrow> Inl e
           | Inr ws \<Rightarrow> Inr (if m' = [] then ws else JObj m' # ws)))"
| "vaffine_loop E removedKeys addedKeyRules rules (v # vs) = Inl (affine_undefined E addedKeyRules)"

fun vflatten :: "bool \<Rightarrow> string \<Rightarrow> bool \<Rightarrow> jsval \<Rightarrow> jsval result" where
  "vflatten kf k kk (JObj m) = Inr (JObj (nullish (flatten_object kf k kk m) m))"
| "vflatten kf k kk v = Inl type_error"

text \<open>Sequencing of results.\<close>

definition bind_result :: "'a result \<Rightarrow> ('a \<Rightarrow> 'b) \<Rightarrow> 'b result" where
  "bind_result r f = (case r of Inl e \<Rightarrow> Inl e | Inr x \<Rightarrow> Inr (f x))"

lemma bind_result_simps [simp]: "bind_result (Inl e) f = Inl e" "bind_result (Inr x) f = Inr (f x)"
  by (simp_all add: bind_result_def)

fun vtransform :: "env \<Rightarrow> transformation \<Rightarrow> jsval tdata \<Rightarrow> jsval tdata result" where
  "vtransform E (GROUP keys skip) d =
     bind_result (flat_input d) (\<lambda>vs. Groups (grouping (allKeysExist keys) (groupKey E keys) skip vs))"
| "vtransform E (AFFINE removed added rules) d =
     (case flat_input d of Inl e \<Rightarrow> Inl e | Inr vs \<Rightarrow> bind_result (vaffine_loop E removed added rules vs) Flat)"
| "vtransform E (LEAVEONE f desc) d =
     (case grouped_input d of Inl e \<Rightarrow> Inl e
      | Inr gs \<Rightarrow> bind_result (map_result (leave_one E desc (IASTHelper E f)) gs)
          (\<lambda>xs. Flat (map (\<lambda>x. nullish x JUndef) xs)))"
| "vtransform E (CONCAT keys) d =
     (case grouped_input d of Inl e \<Rightarrow> Inl e
      | Inr gs \<Rightarrow> bind_result (map_result (\<lambda>g. concat_group keys g []) gs) (\<lambda>ms. Flat (map JObj ms)))"
| "vtransform E (DECONCAT keys mode) d =
     bind_result (map_result (deconcat_item E keys mode) (deconcat_input d)) (\<lambda>mss. Groups (map (map JObj) mss))"
| "vtransform E (JOIN keys) d =
     bind_result (grouped_input d) (\<lambda>gs. Flat (map (\<lambda>g. JObj (join_group g)) gs))"
| "vtransform E (DEGROUP shared targets) d =
     (case flat_input d of Inl e \<Rightarrow> Inl e
      | Inr vs \<Rightarrow> bind_result (map_result (\<lambda>v. map_result (\<lambda>ks. pick_keys v (shared @ ks)) targets) vs)
          (\<lambda>mss. Groups (map (map JObj) mss)))"
| "vtransform E (FILTER filters) d =
     (case d of
        Flat vs \<Rightarrow> bind_result (filter_result (isValidItem E filters) vs) Flat
      | Groups gs \<Rightarrow> bind_result (map_result (filter_result (isValidItem E filters)) gs) Groups)"
| "vtransform E (FLATTEN kf k kk) d =
     (case d of
        Flat vs \<Rightarrow> bind_result (map_result (vflatten kf k kk) vs) Flat
      | Groups gs \<Rightarrow> bind_result (map_result (map_result (vflatten kf k kk)) gs) Groups)"
| "vtransform E (COUNT added) d =
     (case grouped_input d of Inl e \<Rightarrow> Inl e
      | Inr gs \<Rightarrow> bind_result (map_result (count_group E added) gs) (\<lambda>ms. Flat (map JObj ms)))"
| "vtransform E (UNREGISTERED n) d = Inl (JSError (''Transformation '' @ n @ '' is not registered.''))"

fun vcompose :: "env \<Rightarrow> transformation list \<Rightarrow> jsval tdata \<Rightarrow> jsval tdata result" where
  "vcompose E [] d = Inr d"
| "vcompose E (t # ts) d = (case vtransform E t d of Inl e \<Rightarrow> Inl e | Inr d' \<Rightarrow> vcompose E ts d')"

subsection \<open>Grouping\<close>

text \<open>The distinct elements of a list, in the order of their first occurrence.\<close>

definition firsts :: "'a list \<Rightarrow> 'a list" where
  "firsts xs = rev (remdups (rev xs))"

lemma firsts_simps [simp]: "firsts [] = []" "set (firsts xs) = set xs" "distinct (firsts xs)"
  by (simp_all add: firsts_def)

lemma firsts_snoc: "firsts (xs @ [x]) = (if x \<in> set xs then firsts xs else firsts xs @ [x])"
  by (simp add: firsts_def)

lemma group_loop_snoc:
  "group_loop p key s (xs @ [x]) gm un =
     (let (g, u) = group_loop p key s xs gm un
      in if \<not> p x then (g, if s then u else u @ [[x]]) else (add_to_group (key x) x g, u))"
  by (induction xs arbitrary: gm un) simp_all

lemma add_to_group_map:
  "distinct ks \<Longrightarrow> add_to_group g x (map (\<lambda>k. (k, f k)) ks) =
     (if g \<in> set ks then map (\<lambda>k. (k, if k = g then f k @ [x] else f k)) ks
      else map (\<lambda>k. (k, f k)) ks @ [(g, [x])])"
  by (induction ks) auto

lemma group_loop_eq:
  "group_loop p key s xs [] [] =
     (map (\<lambda>g. (g, filter (\<lambda>x. p x \<and> key x = g) xs)) (firsts (map key (filter p xs))),
      if s then [] else map (\<lambda>x. [x]) (filter (\<lambda>x. \<not> p x) xs))"
proof (induction xs rule: rev_induct)
  case (snoc x xs)
  let ?ks = "firsts (map key (filter p xs))"
  show ?case
  proof (cases "p x")
    case True
    then have none: "filter (\<lambda>y. p y \<and> key y = key x) xs = []" if "key x \<notin> set ?ks"
      using that by (auto simp: filter_empty_conv image_iff)
    show ?thesis
      using True none by (auto simp: group_loop_snoc snoc.IH add_to_group_map firsts_snoc filter_empty_conv)
  qed (simp add: group_loop_snoc snoc.IH)
qed simp

lemma map_of_map_key: "k \<in> set ks \<Longrightarrow> map_of (map (\<lambda>k. (k, f k)) ks) k = Some (f k)"
  by (induction ks) auto

text \<open>
  The groups of a grouping: for every key, in the order of its properties, the matching items in
  their order; then the items that lack a key, each in a group of its own.
\<close>

lemma grouping_eq:
  "grouping p key s xs =
     map (\<lambda>g. filter (\<lambda>x. p x \<and> key x = g) xs) (property_order (firsts (map key (filter p xs)))) @
     (if s then [] else map (\<lambda>x. [x]) (filter (\<lambda>x. \<not> p x) xs))"
proof -
  let ?ks = "firsts (map key (filter p xs))" and ?f = "\<lambda>g. filter (\<lambda>x. p x \<and> key x = g) xs"
  have "map (\<lambda>k. the (map_of (map (\<lambda>g. (g, ?f g)) ?ks) k)) (property_order ?ks) = map ?f (property_order ?ks)"
    by (rule map_cong) (simp_all add: map_of_map_key)
  then show ?thesis by (simp add: grouping_def group_loop_eq o_def)
qed

lemma grouping_map: "grouping p key s (map f xs) = map (map f) (grouping (\<lambda>x. p (f x)) (\<lambda>x. key (f x)) s xs)"
  by (simp add: grouping_eq filter_map o_def)

lemma mset_groups:
  "distinct ks \<Longrightarrow> mset (concat (map (\<lambda>g. filter (\<lambda>x. p x \<and> key x = g) xs) ks)) =
     filter_mset (\<lambda>x. p x \<and> key x \<in> set ks) (mset xs)"
proof (induction ks)
  case (Cons g ks)
  then show ?case by (auto intro!: multiset_eqI simp: mset_filter)
qed simp

lemma mset_grouping:
  "mset (concat (grouping p key s xs)) = (if s then filter_mset p (mset xs) else mset xs)"
proof -
  let ?ks = "property_order (firsts (map key (filter p xs)))"
  have "mset (concat (map (\<lambda>g. filter (\<lambda>x. p x \<and> key x = g) xs) ?ks)) =
      filter_mset (\<lambda>x. p x \<and> key x \<in> set ?ks) (mset xs)"
    by (rule mset_groups) (simp add: distinct_property_order)
  also have "\<dots> = filter_mset p (mset xs)" by (rule filter_mset_cong) auto
  finally show ?thesis
    by (auto simp: grouping_eq concat_map_singleton mset_filter intro: multiset_partition[symmetric])
qed


subsection \<open>Addresses\<close>

fun items :: "'a tdata \<Rightarrow> 'a list" where
  "items (Flat xs) = xs"
| "items (Groups gs) = concat gs"

text \<open>Every address is below \<open>n\<close>, and no clip occurs twice.\<close>

definition data_ok :: "nat \<Rightarrow> item tdata \<Rightarrow> bool" where
  "data_ok n d \<longleftrightarrow> distinct (filter (\<lambda>x. x \<noteq> None) (items d)) \<and> list_all (\<lambda>x. x = None \<or> the x < n) (items d)"

abbreviation occurs :: "item list \<Rightarrow> nat \<Rightarrow> nat" where
  "occurs xs a \<equiv> count (mset xs) (Some a)"

lemma distinct_live_iff: "distinct (filter (\<lambda>x. x \<noteq> None) xs) \<longleftrightarrow> (\<forall>a. occurs xs a \<le> 1)"
proof -
  have "distinct (filter (\<lambda>x. x \<noteq> None) xs) \<longleftrightarrow> (\<forall>y. count (mset (filter (\<lambda>x. x \<noteq> None) xs)) y \<le> 1)"
    unfolding distinct_count_atmost_1
    by (metis One_nat_def count_eq_zero_iff le_0_eq le_Suc_eq order_refl set_mset_mset)
  also have "\<dots> \<longleftrightarrow> (\<forall>a. occurs xs a \<le> 1)"
  proof (intro iffI allI)
    fix a assume "\<forall>y. count (mset (filter (\<lambda>x. x \<noteq> None) xs)) y \<le> 1"
    from spec[OF this, of "Some a"] show "occurs xs a \<le> 1" by (simp add: mset_filter)
  next
    fix y assume "\<forall>a. occurs xs a \<le> 1"
    then show "count (mset (filter (\<lambda>x. x \<noteq> None) xs)) y \<le> 1" by (cases y) (simp_all add: mset_filter)
  qed
  finally show ?thesis .
qed

lemma bounded_iff: "list_all (\<lambda>x. x = None \<or> the x < n) xs \<longleftrightarrow> (\<forall>a. \<not> a < n \<longrightarrow> occurs xs a = 0)"
proof -
  have "list_all (\<lambda>x. x = None \<or> the x < n) xs \<longleftrightarrow> (\<forall>a. \<not> a < n \<longrightarrow> Some a \<notin> set xs)"
    unfolding list_all_iff by (metis not_None_eq option.sel)
  then show ?thesis by (simp add: count_eq_zero_iff)
qed

lemma data_ok_iff: "data_ok n d \<longleftrightarrow> (\<forall>a. occurs (items d) a \<le> (if a < n then 1 else 0))"
proof -
  have "k \<le> (if b then 1 else 0) \<longleftrightarrow> k \<le> 1 \<and> (\<not> b \<longrightarrow> k = 0)" for k :: nat and b by auto
  then show ?thesis by (simp only: data_ok_def distinct_live_iff bounded_iff all_conj_distrib)
qed

lemma data_ok_bound: "data_ok n d \<Longrightarrow> Some a \<in> set (items d) \<Longrightarrow> a < n"
  by (auto simp: data_ok_def list_all_iff)

lemma data_ok_sub:
  "data_ok n d \<Longrightarrow> (\<And>a. occurs (items d') a \<le> occurs (items d) a) \<Longrightarrow> data_ok n d'"
  unfolding data_ok_iff using order_trans by blast

abbreviation abs :: "heap \<Rightarrow> item tdata \<Rightarrow> jsval tdata" where
  "abs h \<equiv> map_tdata (deref h)"

lemma deref_append: "(\<And>a. x = Some a \<Longrightarrow> a < length h) \<Longrightarrow> deref (h @ ms) x = deref h x"
  by (cases x) (simp_all add: deref_def nth_append)

lemma map_deref_append:
  "(\<And>a. Some a \<in> set xs \<Longrightarrow> a < length h) \<Longrightarrow> map (deref (h @ ms)) xs = map (deref h) xs"
  by (auto intro!: map_cong deref_append)

lemma abs_append: "data_ok (length h) d \<Longrightarrow> abs (h @ ms) d = abs h d"
proof -
  assume "data_ok (length h) d"
  then have "deref (h @ ms) x = deref h x" if "x \<in> set (items d)" for x
    using that data_ok_bound by (intro deref_append) blast
  then show ?thesis by (cases d) auto
qed

lemma flat_input_abs: "flat_input (map_tdata f d) = bind_result (flat_input d) (map f)"
  by (cases d rule: flat_input.cases) auto

lemma grouped_input_abs: "grouped_input (map_tdata f d) = bind_result (grouped_input d) (map (map f))"
  by (cases d rule: grouped_input.cases) auto

lemma flat_input_items: "flat_input d = Inr xs \<Longrightarrow> items d = xs"
  by (cases d rule: flat_input.cases) auto

lemma grouped_input_items: "grouped_input d = Inr gs \<Longrightarrow> items d = concat gs"
  by (cases d rule: grouped_input.cases) auto

lemma map_result_map: "map_result f (map g xs) = map_result (\<lambda>x. f (g x)) xs"
  by (induction xs) (simp_all split: sum.split)

lemma map_result_bind:
  "(\<And>x. x \<in> set xs \<Longrightarrow> f x = bind_result (g x) h) \<Longrightarrow>
   map_result f xs = bind_result (map_result g xs) (map h)"
  by (induction xs) (auto split: sum.splits)

lemma map_result_length: "map_result f xs = Inr ys \<Longrightarrow> length ys = length xs"
  by (induction xs arbitrary: ys) (auto split: sum.splits)

text \<open>Newly allocated clips.\<close>

lemma fresh_addresses [simp]:
  "count (image_mset Some (mset_set {m..<n :: nat})) (Some a) = (if m \<le> a \<and> a < n then 1 else 0)"
proof -
  have "distinct (map Some [m..<n])" by (simp add: distinct_map)
  then have "count (mset (map Some [m..<n])) (Some a) = (if Some a \<in> set (map Some [m..<n]) then 1 else 0)"
    by (simp only: distinct_count_atmost_1)
  then show ?thesis by auto
qed

lemma deref_fresh: "map (deref (h @ ms @ ms')) (map Some [length h..<length h + length ms]) = map JObj ms"
  by (rule nth_equalityI) (simp_all add: deref_def nth_append)

lemma alloc_ok:
  assumes "alloc ms h = (d, h')"
  shows "h' = h @ ms \<and> abs h' d = Flat (map JObj ms) \<and> data_ok (length h') d"
  using assms deref_fresh[of h ms "[]"]
  by (auto simp: alloc_def data_ok_iff)

lemma alloc_groups_ok:
  "alloc_groups mss h = (gs, h') \<Longrightarrow> h' = h @ concat mss \<and>
     map (map (deref (h' @ ms'))) gs = map (map JObj) mss \<and>
     (\<forall>a. occurs (concat gs) a \<le> (if length h \<le> a \<and> a < length h' then 1 else 0))"
proof (induction mss arbitrary: h gs)
  case (Cons ms mss)
  obtain gs' where r: "alloc_groups mss (h @ ms) = (gs', h')" "gs = map Some [length h..<length h + length ms] # gs'"
    using Cons.prems by (auto split: prod.splits)
  note IH = Cons.IH[OF r(1)]
  then have h': "h' = h @ ms @ concat mss" by simp
  have "map (deref (h' @ ms')) (map Some [length h..<length h + length ms]) = map JObj ms"
    using deref_fresh[of h ms "concat mss @ ms'"] by (simp add: h')
  moreover have "occurs (concat gs) a \<le> (if length h \<le> a \<and> a < length h' then 1 else 0)" for a
    using IH by (auto simp: r(2) h' dest!: spec[of _ a] split: if_splits)
  ultimately show ?case using IH h' r(2) by simp
qed simp

subsection \<open>Each transformation refines its specification\<close>

fun is_affine :: "transformation \<Rightarrow> bool" where
  "is_affine (AFFINE removed added rules) = True"
| "is_affine t = False"

text \<open>
  The result agrees with the specification on what the addresses stand for, errors included; the
  addresses of the result are good; and only \<open>AFFINE\<close> changes clips that exist.
\<close>

definition refines :: "env \<Rightarrow> transformation \<Rightarrow> heap \<Rightarrow> item tdata \<Rightarrow> bool" where
  "refines E t h d =
     (case transform E t h d of
        Inl e \<Rightarrow> vtransform E t (abs h d) = Inl e
      | Inr (d', h') \<Rightarrow>
          vtransform E t (abs h d) = Inr (abs h' d') \<and> data_ok (length h') d' \<and> length h \<le> length h' \<and>
          (\<not> is_affine t \<longrightarrow> take (length h) h' = h))"

lemma refines_GROUP:
  assumes "data_ok (length h) d"
  shows "refines E (GROUP keys skip) h d"
proof (cases "flat_input d")
  case (Inr xs)
  let ?g = "grouping (\<lambda>x. allKeysExist keys (deref h x)) (\<lambda>x. groupKey E keys (deref h x)) skip xs"
  have "mset (concat ?g) \<subseteq># mset xs" unfolding mset_grouping by simp
  then have "occurs (items (Groups ?g)) a \<le> occurs (items d) a" for a
    using flat_input_items[OF Inr] by (simp add: mset_subset_eq_count)
  from data_ok_sub[OF assms this] show ?thesis
    using Inr by (simp add: refines_def tGrouping_def flat_input_abs grouping_map)
qed (simp add: refines_def tGrouping_def flat_input_abs)

lemma item_at_best_map: "item_at_best best scs (map f xs) = map_option f (item_at_best best scs xs)"
  by (induction best scs xs rule: item_at_best.induct) auto

lemma leave_one_map:
  "leave_one E desc score (map f xs) = bind_result (leave_one E desc (\<lambda>x. score (f x)) xs) (map_option f)"
  by (auto simp: leave_one_def map_result_map item_at_best_map Let_def split: sum.split)

lemma item_at_best_mem: "item_at_best best scs xs = Some x \<Longrightarrow> x \<in> set xs"
  by (induction best scs xs rule: item_at_best.induct) (auto split: if_splits)

lemma leave_one_mem: "leave_one E desc score xs = Inr (Some x) \<Longrightarrow> x \<in> set xs"
  by (auto simp: leave_one_def Let_def item_at_best_mem split: sum.splits)

lemma leave_one_occurs:
  "map_result (leave_one E desc score) gs = Inr xs \<Longrightarrow>
     occurs (map (\<lambda>x. nullish x None) xs) a \<le> occurs (concat gs) a"
proof (induction gs arbitrary: xs)
  case (Cons g gs)
  then obtain x ys where x: "leave_one E desc score g = Inr x" "map_result (leave_one E desc score) gs = Inr ys" "xs = x # ys"
    by (auto split: sum.splits)
  have one: "(if nullish x None = Some a then 1 else 0) \<le> occurs g a"
    using x(1) by (cases x) (auto dest!: leave_one_mem simp: Suc_le_eq)
  have "occurs (map (\<lambda>x. nullish x None) xs) a =
      (if nullish x None = Some a then 1 else 0) + occurs (map (\<lambda>x. nullish x None) ys) a" by (simp add: x(3))
  also have "\<dots> \<le> occurs g a + occurs (concat gs) a" by (rule add_mono[OF one Cons.IH[OF x(2)]])
  finally show ?case by simp
qed simp

lemma refines_LEAVEONE:
  assumes "data_ok (length h) d"
  shows "refines E (LEAVEONE f desc) h d"
proof (cases "grouped_input d")
  case (Inr gs)
  let ?l = "leave_one E desc (\<lambda>x. IASTHelper E f (deref h x))"
  have v: "map_result (leave_one E desc (IASTHelper E f)) (map (map (deref h)) gs) =
      bind_result (map_result ?l gs) (map (map_option (deref h)))"
    unfolding map_result_map by (rule map_result_bind) (rule leave_one_map)
  have nl: "nullish (map_option (deref h) x) JUndef = deref h (nullish x None)" for x
    by (cases x) (simp_all add: deref_def)
  show ?thesis
  proof (cases "map_result ?l gs")
    case (Inr xs)
    from leave_one_occurs[OF this] have "occurs (items (Flat (map (\<lambda>x. nullish x None) xs))) a \<le> occurs (items d) a" for a
      using grouped_input_items[OF \<open>grouped_input d = Inr gs\<close>] by simp
    from data_ok_sub[OF assms this] show ?thesis
      using Inr \<open>grouped_input d = Inr gs\<close> by (simp add: refines_def tLeaveOne_def grouped_input_abs v nl o_def)
  qed (simp add: refines_def tLeaveOne_def grouped_input_abs v \<open>grouped_input d = Inr gs\<close>)
qed (simp add: refines_def tLeaveOne_def grouped_input_abs)

text \<open>Transformations that make a new clip for every group, or new groups for every item.\<close>

lemma refines_alloc:
  assumes "transform E t h d = bind_result r (\<lambda>ms. alloc ms h)"
    and "vtransform E t (abs h d) = bind_result r (\<lambda>ms. Flat (map JObj ms))"
  shows "refines E t h d"
  using assms alloc_ok by (cases r) (fastforce simp: refines_def split: prod.splits)+

lemma refines_alloc_groups:
  assumes "transform E t h d = bind_result r (\<lambda>mss. case alloc_groups mss h of (gs, h') \<Rightarrow> (Groups gs, h'))"
    and "vtransform E t (abs h d) = bind_result r (\<lambda>mss. Groups (map (map JObj) mss))"
  shows "refines E t h d"
proof (cases r)
  case (Inr mss)
  obtain gs h' where a: "alloc_groups mss h = (gs, h')" by fastforce
  note ok = alloc_groups_ok[OF this, of "[]"]
  then have "h' = h @ concat mss" "map (map (deref h')) gs = map (map JObj) mss"
    unfolding append_Nil2 by blast+
  moreover have "data_ok (length h') (Groups gs)"
    unfolding data_ok_iff
  proof
    fix a
    from ok have "occurs (concat gs) a \<le> (if length h \<le> a \<and> a < length h' then 1 else 0)" by blast
    also have "\<dots> \<le> (if a < length h' then 1 else 0)" by simp
    finally show "occurs (items (Groups gs)) a \<le> (if a < length h' then 1 else 0)" by simp
  qed
  ultimately show ?thesis using assms a Inr by (simp add: refines_def)
qed (use assms in \<open>simp add: refines_def\<close>)

lemma case_bind_eqs:
  "(case r of Inl e \<Rightarrow> Inl e | Inr x \<Rightarrow> Inr (f x)) = bind_result r f"
  "(case bind_result r f of Inl e \<Rightarrow> Inl e | Inr x \<Rightarrow> g x) = (case r of Inl e \<Rightarrow> Inl e | Inr x \<Rightarrow> g (f x))"
  "bind_result (bind_result r f) g' = bind_result r (\<lambda>x. g' (f x))"
  by (simp_all add: bind_result_def split: sum.split)

lemma refines_JOIN: "refines E (JOIN keys) h d"
  by (rule refines_alloc[where r = "bind_result (grouped_input d) (map (\<lambda>g. join_group (map (deref h) g)))"])
    (simp_all add: tJoin_def grouped_input_abs case_bind_eqs o_def)

lemma refines_CONCAT: "refines E (CONCAT keys) h d"
  by (rule refines_alloc[where r = "case grouped_input d of Inl e \<Rightarrow> Inl e
      | Inr gs \<Rightarrow> map_result (\<lambda>g. concat_group keys (map (deref h) g) []) gs"])
    (auto simp: tConcat_def grouped_input_abs case_bind_eqs map_result_map split: sum.split)

lemma refines_COUNT: "refines E (COUNT added) h d"
  by (rule refines_alloc[where r = "case grouped_input d of Inl e \<Rightarrow> Inl e
      | Inr gs \<Rightarrow> map_result (\<lambda>g. count_group E added (map (deref h) g)) gs"])
    (auto simp: tCount_def grouped_input_abs case_bind_eqs map_result_map split: sum.split)

lemma refines_DECONCAT: "refines E (DECONCAT keys mode) h d"
  by (rule refines_alloc_groups[where r = "map_result (deconcat_item E keys mode) (deconcat_input (abs h d))"])
    (auto simp: tDeconcat_def case_bind_eqs Let_def split: sum.split prod.split)

lemma refines_DEGROUP: "refines E (DEGROUP shared targets) h d"
  by (rule refines_alloc_groups[where r = "case flat_input d of Inl e \<Rightarrow> Inl e
      | Inr xs \<Rightarrow> map_result (\<lambda>x. map_result (\<lambda>ks. pick_keys (deref h x) (shared @ ks)) targets) xs"])
    (auto simp: tDegroup_def flat_input_abs case_bind_eqs map_result_map Let_def split: sum.split prod.split)

subsection \<open>\<open>FILTER\<close>\<close>

lemma filter_result_map: "filter_result p (map f xs) = bind_result (filter_result (\<lambda>x. p (f x)) xs) (map f)"
  by (induction xs) (auto split: sum.split)

lemma filter_result_occurs: "filter_result p xs = Inr ys \<Longrightarrow> count (mset ys) a \<le> count (mset xs) a"
  by (induction xs arbitrary: ys) (fastforce split: sum.splits if_splits)+

lemma filter_groups_occurs:
  "map_result (filter_result p) gs = Inr gs' \<Longrightarrow> count (mset (concat gs')) a \<le> count (mset (concat gs)) a"
proof (induction gs arbitrary: gs')
  case (Cons g gs)
  then obtain g' gs1 where "filter_result p g = Inr g'" "map_result (filter_result p) gs = Inr gs1" "gs' = g' # gs1"
    by (auto split: sum.splits)
  with Cons.IH filter_result_occurs[of p g g' a] show ?case by (simp add: add_mono)
qed simp

lemma refines_FILTER:
  assumes "data_ok (length h) d"
  shows "refines E (FILTER filters) h d"
proof (cases d)
  case (Flat xs)
  let ?f = "filter_result (\<lambda>x. isValidItem E filters (deref h x)) xs"
  show ?thesis
  proof (cases ?f)
    case (Inr ys)
    then have "occurs (items (Flat ys)) a \<le> occurs (items d) a" for a
      using filter_result_occurs by (simp add: Flat)
    from data_ok_sub[OF assms this] Inr Flat show ?thesis
      by (simp add: refines_def tFilter_def filter_result_map case_bind_eqs)
  qed (use Flat in \<open>simp add: refines_def tFilter_def filter_result_map case_bind_eqs\<close>)
next
  case (Groups gs)
  let ?f = "map_result (filter_result (\<lambda>x. isValidItem E filters (deref h x))) gs"
  have v: "map_result (filter_result (isValidItem E filters)) (map (map (deref h)) gs) = bind_result ?f (map (map (deref h)))"
    unfolding map_result_map by (rule map_result_bind) (rule filter_result_map)
  show ?thesis
  proof (cases ?f)
    case (Inr gs')
    then have "occurs (items (Groups gs')) a \<le> occurs (items d) a" for a
      using filter_groups_occurs by (simp only: Groups items.simps)
    from data_ok_sub[OF assms this] Inr Groups v show ?thesis
      by (simp add: refines_def tFilter_def case_bind_eqs)
  qed (use Groups v in \<open>simp add: refines_def tFilter_def case_bind_eqs\<close>)
qed

subsection \<open>\<open>FLATTEN\<close>\<close>

lemma flatten_items_ok:
  "\<forall>a. Some a \<in> set xs \<longrightarrow> a < length h \<Longrightarrow>
   (case flatten_items kf k kk xs h of
      Inl e \<Rightarrow> map_result (vflatten kf k kk) (map (deref h) xs) = Inl e
    | Inr (ys, h') \<Rightarrow> (\<exists>ms. h' = h @ ms) \<and>
        map_result (vflatten kf k kk) (map (deref h) xs) = Inr (map (deref h') ys) \<and>
        (\<forall>a. occurs ys a \<le> (if a < length h then occurs xs a else if a < length h' then 1 else 0)))"
proof (induction xs arbitrary: h)
  case (Cons x xs)
  show ?case
  proof (cases x)
    case None
    then show ?thesis by (simp add: deref_def)
  next
    case (Some a)
    then have a: "a < length h" using Cons.prems by simp
    define h1 where "h1 = (case flatten_object kf k kk (h ! a) of None \<Rightarrow> h | Some m \<Rightarrow> h @ [m])"
    define b where "b = (case flatten_object kf k kk (h ! a) of None \<Rightarrow> a | Some m \<Rightarrow> length h)"
    have h1: "\<exists>ms. h1 = h @ ms" "length h1 \<le> Suc (length h)"
      and b: "b < length h1" "b = a \<or> b = length h"
      and vb: "vflatten kf k kk (deref h x) = Inr (deref h1 (Some b))"
      using a Some by (auto simp: h1_def b_def deref_def split: option.split)
    have run: "flatten_items kf k kk (x # xs) h =
        (case flatten_items kf k kk xs h1 of Inl e \<Rightarrow> Inl e | Inr (ys, h2) \<Rightarrow> Inr (Some b # ys, h2))"
      unfolding h1_def b_def by (cases "flatten_object kf k kk (h ! a)") (simp_all add: Some cong: sum.case_cong)
    have same: "map (deref h1) xs = map (deref h) xs"
      using h1(1) map_deref_append[of xs h] Cons.prems by auto
    have "\<forall>a. Some a \<in> set xs \<longrightarrow> a < length h1" using h1(1) Cons.prems by fastforce
    note IH = Cons.IH[OF this, unfolded same]
    show ?thesis
    proof (cases "flatten_items kf k kk xs h1")
      case (Inl e)
      then show ?thesis using IH run vb by simp
    next
      case (Inr p)
      then obtain ys h2 where p: "flatten_items kf k kk xs h1 = Inr (ys, h2)" by (cases p) simp
      with IH obtain ms where ys: "h2 = h1 @ ms" "map_result (vflatten kf k kk) (map (deref h) xs) = Inr (map (deref h2) ys)"
        "\<forall>a. occurs ys a \<le> (if a < length h1 then occurs xs a else if a < length h2 then 1 else 0)" by auto
      have "deref h2 (Some b) = deref h1 (Some b)" using b(1) unfolding ys(1) by (intro deref_append) simp
      moreover have "occurs (Some b # ys) c \<le> (if c < length h then occurs (x # xs) c else if c < length h2 then 1 else 0)" for c
      proof -
        have fresh: "occurs xs (length h) = 0" using Cons.prems by (auto simp: count_eq_zero_iff)
        have "length h \<le> length h1" using h1(1) by auto
        moreover have "occurs ys c \<le> (if c < length h1 then occurs xs c else if c < length h2 then 1 else 0)"
          using ys(3) by blast
        moreover have "c < length h1 \<Longrightarrow> \<not> c < length h \<Longrightarrow> c = length h" using h1(2) by linarith
        moreover have "c = length h \<Longrightarrow> c < length h1 \<or> b \<noteq> c" using b by auto
        ultimately show ?thesis
          using b a fresh Some ys(1) by (cases "c = b"; cases "c < length h"; cases "c < length h1") (simp_all del: count_mset_0_iff split: if_splits)
      qed
      moreover have R: "flatten_items kf k kk (x # xs) h = Inr (Some b # ys, h2)" using run p by simp
      moreover have "\<exists>ms. h2 = h @ ms" using h1(1) ys(1) by auto
      ultimately show ?thesis unfolding R sum.case prod.case using vb ys(2) by (intro conjI allI) simp_all
    qed
  qed
qed simp

lemma flatten_groups_ok:
  "\<forall>a. Some a \<in> set (concat gs) \<longrightarrow> a < length h \<Longrightarrow>
   (case flatten_groups kf k kk gs h of
      Inl e \<Rightarrow> map_result (map_result (vflatten kf k kk)) (map (map (deref h)) gs) = Inl e
    | Inr (gs', h') \<Rightarrow> (\<exists>ms. h' = h @ ms) \<and>
        map_result (map_result (vflatten kf k kk)) (map (map (deref h)) gs) = Inr (map (map (deref h')) gs') \<and>
        (\<forall>a. occurs (concat gs') a \<le> (if a < length h then occurs (concat gs) a else if a < length h' then 1 else 0)))"
proof (induction gs arbitrary: h)
  case (Cons g gs)
  from Cons.prems have "\<forall>a. Some a \<in> set g \<longrightarrow> a < length h" by simp
  note g = flatten_items_ok[OF this, of kf k kk]
  show ?case
  proof (cases "flatten_items kf k kk g h")
    case (Inl e)
    then show ?thesis using g by simp
  next
    case (Inr p)
    then obtain g' h1 where p: "flatten_items kf k kk g h = Inr (g', h1)" by (cases p) simp
    with g obtain ms where g': "h1 = h @ ms" "map_result (vflatten kf k kk) (map (deref h) g) = Inr (map (deref h1) g')"
      "\<And>a. occurs g' a \<le> (if a < length h then occurs g a else if a < length h1 then 1 else 0)" by auto
    have "map (map (deref h1)) gs = map (map (deref h)) gs"
      using Cons.prems by (auto simp: g'(1) intro!: deref_append)
    moreover have "\<forall>a. Some a \<in> set (concat gs) \<longrightarrow> a < length h1" using g'(1) Cons.prems by fastforce
    note IH = Cons.IH[OF this]
    ultimately show ?thesis
    proof (cases "flatten_groups kf k kk gs h1")
      case (Inl e)
      then show ?thesis using IH p g'(2) \<open>map (map (deref h1)) gs = _\<close> by simp
    next
      case (Inr q)
      then obtain gs' h2 where q: "flatten_groups kf k kk gs h1 = Inr (gs', h2)" by (cases q) simp
      with IH \<open>map (map (deref h1)) gs = _\<close> obtain ms' where gs': "h2 = h1 @ ms'"
        "map_result (map_result (vflatten kf k kk)) (map (map (deref h)) gs) = Inr (map (map (deref h2)) gs')"
        "\<And>a. occurs (concat gs') a \<le> (if a < length h1 then occurs (concat gs) a else if a < length h2 then 1 else 0)" by auto
      have "Some a \<in> set g' \<Longrightarrow> a < length h1" for a
        using g'(3)[of a] Cons.prems g'(1) by (auto simp: count_eq_zero_iff split: if_splits)
      then have "map (deref h2) g' = map (deref h1) g'" unfolding gs'(1) by (intro map_deref_append) blast
      moreover have "occurs (concat (g' # gs')) a \<le>
          (if a < length h then occurs (concat (g # gs)) a else if a < length h2 then 1 else 0)" for a
      proof -
        have "occurs (concat gs) a = 0" if "\<not> a < length h"
          using that Cons.prems by (auto simp: count_eq_zero_iff)
        moreover have "length h \<le> length h1" "length h1 \<le> length h2" using g'(1) gs'(1) by auto
        ultimately show ?thesis
          using g'(3)[of a] gs'(3)[of a] by (cases "a < length h"; cases "a < length h1") (simp_all del: count_mset_0_iff split: if_splits)
      qed
      moreover have R: "flatten_groups kf k kk (g # gs) h = Inr (g' # gs', h2)" using p q by simp
      moreover have "\<exists>ms. h2 = h @ ms" using g'(1) gs'(1) by auto
      ultimately show ?thesis unfolding R sum.case prod.case using g'(2) gs'(2) by (intro conjI allI) simp_all
    qed
  qed
qed simp

lemma data_ok_grown:
  assumes "data_ok n d" and "n \<le> n'"
    and "\<And>a. occurs (items d') a \<le> (if a < n then occurs (items d) a else if a < n' then 1 else 0)"
  shows "data_ok n' d'"
  unfolding data_ok_iff
proof
  fix a
  show "occurs (items d') a \<le> (if a < n' then 1 else 0)"
  proof (cases "a < n")
    case True
    then have "occurs (items d') a \<le> occurs (items d) a" using assms(3)[of a] by simp
    also have "\<dots> \<le> 1" using assms(1) True unfolding data_ok_iff by (metis (full_types))
    finally show ?thesis using True assms(2) by simp
  qed (use assms(3)[of a] in simp)
qed

lemma refines_FLATTEN:
  assumes "data_ok (length h) d"
  shows "refines E (FLATTEN kf k kk) h d"
proof (cases d)
  case (Flat xs)
  have "\<forall>a. Some a \<in> set xs \<longrightarrow> a < length h" using data_ok_bound[OF assms] Flat by simp
  note ok = flatten_items_ok[OF this, of kf k kk]
  show ?thesis
  proof (cases "flatten_items kf k kk xs h")
    case (Inr p)
    then obtain ys h' where p: "flatten_items kf k kk xs h = Inr (ys, h')" by (cases p) simp
    with ok obtain ms where ys: "h' = h @ ms" "map_result (vflatten kf k kk) (map (deref h) xs) = Inr (map (deref h') ys)"
      "\<And>a. occurs ys a \<le> (if a < length h then occurs xs a else if a < length h' then 1 else 0)" by auto
    have "data_ok (length h') (Flat ys)"
      by (rule data_ok_grown[OF assms]) (simp add: ys(1), simp only: Flat items.simps ys(3))
    then show ?thesis using p ys(1,2) Flat by (simp add: refines_def tFlatten_def case_bind_eqs)
  qed (use ok Flat in \<open>simp add: refines_def tFlatten_def\<close>)
next
  case (Groups gs)
  have "\<forall>a. Some a \<in> set (concat gs) \<longrightarrow> a < length h" using data_ok_bound[OF assms] Groups by simp
  note ok = flatten_groups_ok[OF this, of kf k kk]
  show ?thesis
  proof (cases "flatten_groups kf k kk gs h")
    case (Inr p)
    then obtain gs' h' where p: "flatten_groups kf k kk gs h = Inr (gs', h')" by (cases p) simp
    with ok obtain ms where gs': "h' = h @ ms"
      "map_result (map_result (vflatten kf k kk)) (map (map (deref h)) gs) = Inr (map (map (deref h')) gs')"
      "\<And>a. occurs (concat gs') a \<le> (if a < length h then occurs (concat gs) a else if a < length h' then 1 else 0)" by auto
    have "data_ok (length h') (Groups gs')"
      by (rule data_ok_grown[OF assms]) (simp add: gs'(1), simp only: Groups items.simps gs'(3))
    then show ?thesis using p gs'(1,2) Groups by (simp add: refines_def tFlatten_def case_bind_eqs)
  qed (use ok Groups in \<open>simp add: refines_def tFlatten_def\<close>)
qed

subsection \<open>\<open>AFFINE\<close>\<close>

lemma affine_loop_ok:
  "\<forall>a. occurs xs a \<le> (if a < length h then 1 else 0) \<Longrightarrow>
   (case affine_loop E rm ad ru xs h of
      Inl e \<Rightarrow> vaffine_loop E rm ad ru (map (deref h) xs) = Inl e
    | Inr (ys, h') \<Rightarrow>
        vaffine_loop E rm ad ru (map (deref h) xs) = Inr (map (deref h') ys) \<and> length h' = length h \<and>
        (\<forall>a. occurs ys a \<le> occurs xs a) \<and> (\<forall>a. Some a \<notin> set xs \<longrightarrow> h' ! a = h ! a))"
proof (induction xs arbitrary: h)
  case (Cons x xs)
  show ?case
  proof (cases x)
    case None
    then show ?thesis by (simp add: deref_def)
  next
    case (Some a)
    have "occurs (x # xs) a \<le> (if a < length h then 1 else 0)" using Cons.prems by blast
    then have a: "a < length h" "Some a \<notin> set xs"
      using Some by (auto simp: count_eq_zero_iff split: if_splits)
    show ?thesis
    proof (cases "affine_item E rm ad ru (h ! a)")
      case (Inl e)
      then show ?thesis using Some by (simp add: deref_def)
    next
      case (Inr m)
      let ?h = "h[a := m]"
      have same: "map (deref ?h) xs = map (deref h) xs"
      proof (intro map_cong refl)
        fix y assume y: "y \<in> set xs"
        show "deref ?h y = deref h y"
        proof (cases y)
          case B: (Some b)
          with y a(2) have "a \<noteq> b" by auto
          then show ?thesis by (simp add: deref_def B)
        qed (simp add: deref_def)
      qed
      have "occurs xs b \<le> occurs (x # xs) b" for b by simp
      then have "\<forall>b. occurs xs b \<le> (if b < length ?h then 1 else 0)"
        using Cons.prems order_trans by (simp only: length_list_update) blast
      note IH = Cons.IH[OF this, unfolded same]
      show ?thesis
      proof (cases "affine_loop E rm ad ru xs ?h")
        case (Inl e)
        then show ?thesis using IH Inr Some by (simp add: deref_def)
      next
        case R: (Inr p)
        then obtain ys h' where p: "affine_loop E rm ad ru xs ?h = Inr (ys, h')" by (cases p) simp
        with IH have ys: "vaffine_loop E rm ad ru (map (deref h) xs) = Inr (map (deref h') ys)" "length h' = length h"
          "\<And>a. occurs ys a \<le> occurs xs a" "\<And>a. Some a \<notin> set xs \<Longrightarrow> h' ! a = ?h ! a" by auto
        have "h' ! a = m" using ys(4)[OF a(2)] a(1) by simp
        then have "vaffine_loop E rm ad ru (map (deref h) (x # xs)) =
            Inr (map (deref h') (if m = [] then ys else Some a # ys))"
          using Inr Some ys(1) by (simp add: deref_def)
        moreover have "affine_loop E rm ad ru (x # xs) h = Inr (if m = [] then ys else Some a # ys, h')"
          using Inr Some p by simp
        moreover have "occurs (if m = [] then ys else Some a # ys) b \<le> occurs (x # xs) b" for b
          using ys(3)[of b] Some by (simp del: count_mset_0_iff)
        moreover have "h' ! b = h ! b" if "Some b \<notin> set (x # xs)" for b
          using ys(4)[of b] that Some by auto
        ultimately show ?thesis using ys(2) by (simp only: sum.case prod.case) blast
      qed
    qed
  qed
qed simp

lemma refines_AFFINE:
  assumes "data_ok (length h) d"
  shows "refines E (AFFINE rm ad ru) h d"
proof (cases "flat_input d")
  case (Inr xs)
  have "\<forall>a. occurs xs a \<le> (if a < length h then 1 else 0)"
    using assms unfolding data_ok_iff flat_input_items[OF Inr] .
  note ok = affine_loop_ok[OF this, of E rm ad ru]
  show ?thesis
  proof (cases "affine_loop E rm ad ru xs h")
    case R: (Inr p)
    then obtain ys h' where p: "affine_loop E rm ad ru xs h = Inr (ys, h')" by (cases p) simp
    with ok have ys: "vaffine_loop E rm ad ru (map (deref h) xs) = Inr (map (deref h') ys)" "length h' = length h"
      "\<And>a. occurs ys a \<le> occurs xs a" by auto
    have "data_ok (length h') (Flat ys)"
      unfolding ys(2) by (rule data_ok_sub[OF assms]) (use ys(3) flat_input_items[OF Inr] in simp)
    then show ?thesis using p ys(1,2) Inr by (simp add: refines_def tAffine_def flat_input_abs case_bind_eqs)
  qed (use ok Inr in \<open>simp add: refines_def tAffine_def flat_input_abs\<close>)
qed (simp add: refines_def tAffine_def flat_input_abs)

subsection \<open>Chains\<close>

lemma refines_all:
  assumes "data_ok (length h) d"
  shows "refines E t h d"
  using assms
  by (cases t) (simp_all add: refines_GROUP refines_AFFINE refines_LEAVEONE refines_CONCAT refines_DECONCAT
      refines_JOIN refines_DEGROUP refines_FILTER refines_FLATTEN refines_COUNT, simp add: refines_def)

lemma compose_refines:
  "data_ok (length h) d \<Longrightarrow>
   (case transformationCompose E ts h d of
      Inl e \<Rightarrow> vcompose E ts (abs h d) = Inl e
    | Inr (d', h') \<Rightarrow>
        vcompose E ts (abs h d) = Inr (abs h' d') \<and> data_ok (length h') d' \<and> length h \<le> length h' \<and>
        (list_all (\<lambda>t. \<not> is_affine t) ts \<longrightarrow> take (length h) h' = h))"
proof (induction ts arbitrary: h d)
  case (Cons t ts)
  note R = refines_all[OF Cons.prems, of E t, unfolded refines_def]
  show ?case
  proof (cases "transform E t h d")
    case (Inl e)
    then show ?thesis using R by simp
  next
    case (Inr p)
    then obtain d1 h1 where p: "transform E t h d = Inr (d1, h1)" by (cases p) simp
    with R have r: "vtransform E t (abs h d) = Inr (abs h1 d1)" "data_ok (length h1) d1" "length h \<le> length h1"
      "\<not> is_affine t \<Longrightarrow> take (length h) h1 = h" by simp_all
    note IH = Cons.IH[OF r(2)]
    show ?thesis
    proof (cases "transformationCompose E ts h1 d1")
      case (Inl e)
      then show ?thesis using IH p r(1) by simp
    next
      case (Inr q)
      then obtain d2 h2 where q: "transformationCompose E ts h1 d1 = Inr (d2, h2)" by (cases q) simp
      with IH have s: "vcompose E ts (abs h1 d1) = Inr (abs h2 d2)" "data_ok (length h2) d2" "length h1 \<le> length h2"
        "list_all (\<lambda>t. \<not> is_affine t) ts \<Longrightarrow> take (length h1) h2 = h1" by simp_all
      have "take (length h) h2 = h" if "list_all (\<lambda>t. \<not> is_affine t) (t # ts)"
      proof -
        have "take (length h) h2 = take (length h) (take (length h1) h2)" using r(3) by (simp add: min_absorb1)
        with that r(4) s(4) show ?thesis by simp
      qed
      then show ?thesis using p q r s by simp
    qed
  qed
qed simp

lemma abs_prefix:
  assumes "data_ok (length h) d" and "take (length h) h' = h"
  shows "abs h' d = abs h d"
proof -
  have "h' = h @ drop (length h) h'" using assms(2) by (metis append_take_drop_id)
  then show ?thesis using abs_append[OF assms(1)] by metis
qed

lemma data_ok_mono: "data_ok m d \<Longrightarrow> m \<le> n \<Longrightarrow> data_ok n d"
  unfolding data_ok_def list_all_iff by (meson order_less_le_trans)

lemma aggregate_loop_independent:
  assumes "\<And>k. k \<in> set ks \<Longrightarrow> list_all (\<lambda>t. \<not> is_affine t) (the (map_of agg k))"
    and "aggregate_loop E agg h d ks = Inr (rs, h')" and "data_ok (length h) d"
  shows "take (length h) h' = h \<and> length h \<le> length h' \<and> map fst rs = ks \<and>
    (\<forall>(k, r) \<in> set rs. vcompose E (the (map_of agg k)) (abs h d) = Inr (abs h' r))"
  using assms
proof (induction ks arbitrary: h rs)
  case (Cons k ks)
  from Cons.prems(2) obtain r h1 rs' where
    c: "transformationCompose E (the (map_of agg k)) h d = Inr (r, h1)" and
    l: "aggregate_loop E agg h1 d ks = Inr (rs', h')" and rs: "rs = (k, r) # rs'"
    by (auto split: sum.splits prod.splits)
  from compose_refines[OF Cons.prems(3), of E "the (map_of agg k)"] c Cons.prems(1)[of k]
  have r: "vcompose E (the (map_of agg k)) (abs h d) = Inr (abs h1 r)" "data_ok (length h1) r"
    "length h \<le> length h1" "take (length h) h1 = h" by auto
  from Cons.IH[OF _ l data_ok_mono[OF Cons.prems(3) r(3)]] Cons.prems(1)
  have IH: "take (length h1) h' = h1" "length h1 \<le> length h'" "map fst rs' = ks"
    "\<forall>(k, r) \<in> set rs'. vcompose E (the (map_of agg k)) (abs h1 d) = Inr (abs h' r)" by auto
  have "abs h1 d = abs h d" by (rule abs_prefix[OF Cons.prems(3) r(4)])
  moreover have "abs h' r = abs h1 r" by (rule abs_prefix[OF r(2) IH(1)])
  moreover have "take (length h) h' = take (length h) (take (length h1) h')" using r(3) by (simp add: min_absorb1)
  then have "take (length h) h' = h" using IH(1) r(4) by simp
  ultimately show ?case using IH r rs by simp
qed simp

subsection \<open>The latest of each group\<close>







subsection \<open>Reading the keys of a clip\<close>













subsection \<open>What \<open>AFFINE\<close> does to the other chains\<close>

lemma affine_remove_loop:
  "\<forall>a. occurs xs a \<le> (if a < length h then 1 else 0) \<Longrightarrow> None \<notin> set xs \<Longrightarrow>
   \<exists>ys h'. affine_loop E (Some rm) None None xs h = Inr (ys, h') \<and> length h' = length h \<and>
     (\<forall>a. h' ! a = (if Some a \<in> set xs then foldl js_delete (h ! a) rm else h ! a))"
proof (induction xs arbitrary: h)
  case (Cons x xs)
  then obtain a where x: "x = Some a" by (cases x) auto
  have "occurs (x # xs) a \<le> (if a < length h then 1 else 0)" using Cons.prems(1) by blast
  then have a: "a < length h" "Some a \<notin> set xs" using x by (auto simp: count_eq_zero_iff split: if_splits)
  let ?h = "h[a := foldl js_delete (h ! a) rm]"
  have "occurs xs b \<le> occurs (x # xs) b" for b by simp
  then have "\<forall>b. occurs xs b \<le> (if b < length ?h then 1 else 0)"
    using Cons.prems(1) order_trans by (simp only: length_list_update) blast
  from Cons.IH[OF this] Cons.prems(2) obtain ys h' where
    IH: "affine_loop E (Some rm) None None xs ?h = Inr (ys, h')" "length h' = length h"
      "\<forall>b. h' ! b = (if Some b \<in> set xs then foldl js_delete (?h ! b) rm else ?h ! b)" by auto
  have "h' ! b = (if Some b \<in> set (x # xs) then foldl js_delete (h ! b) rm else h ! b)" for b
    using IH(3) a x by (auto simp: nth_list_update)
  then show ?case using IH(1,2) x by (simp add: affine_item_def)
qed simp

subsection \<open>Properties\<close>

text \<open>
  A chain of transformations computes what its specification on values says, and fails exactly
  with the specification's error: for every kind of transformation, and every data in which no
  clip occurs twice, as it comes from the database. The addresses of the result are valid and
  distinct again.
\<close>

theorem chain_refines_values:
  assumes "data_ok (length h) d"
  shows "(case transformationCompose E ts h d of
      Inl e \<Rightarrow> vcompose E ts (abs h d) = Inl e
    | Inr (d', h') \<Rightarrow> vcompose E ts (abs h d) = Inr (abs h' d') \<and> data_ok (length h') d')"
  using compose_refines[OF assms, of E ts] by (auto split: sum.splits prod.splits)

definition clips0 :: heap where
  "clips0 = [[(''id'', JStr ''a''), (''t'', JNum (Fin 1))], [(''id'', JStr ''b''), (''t'', JNum (Fin 2))],
     [(''id'', JStr ''a''), (''t'', JNum (Fin 3))]]"


lemma clips0_ok: "data_ok (length clips0) (Flat [Some 0, Some 1, Some 2])"
  by (simp add: data_ok_def clips0_def)

theorem chain_refines_values_witness:
  "\<exists>d' h'. transformationCompose env0 [GROUP [''id''] True, JOIN []] clips0 (Flat [Some 0, Some 1, Some 2]) = Inr (d', h') \<and>
     vcompose env0 [GROUP [''id''] True, JOIN []] (abs clips0 (Flat [Some 0, Some 1, Some 2])) = Inr (abs h' d')"
proof -
  have "\<exists>p. transformationCompose env0 [GROUP [''id''] True, JOIN []] clips0 (Flat [Some 0, Some 1, Some 2]) = Inr p"
    by (simp add: tGrouping_def tJoin_def)
  with chain_refines_values[OF clips0_ok, of env0 "[GROUP [''id''] True, JOIN []]"] show ?thesis by auto
qed

text \<open>
  Without \<open>AFFINE\<close> the chains of an aggregation are independent: each key of the answer holds
  what its chain computes from the original data.
\<close>

theorem aggregation_independent:
  assumes "data_ok (length h) d" and "agg \<noteq> []"
    and "\<And>k ts. (k, ts) \<in> set agg \<Longrightarrow> list_all (\<lambda>t. \<not> is_affine t) ts"
    and "transformationAggregate E agg h d = Inr (rs, h')"
  shows "set (map fst rs) = set (map fst agg) \<and>
    (\<forall>(k, r) \<in> set rs. vcompose E (the (map_of agg k)) (abs h d) = Inr (abs h' r))"
proof -
  let ?ks = "property_order (remdups (map fst agg))"
  have "list_all (\<lambda>t. \<not> is_affine t) (the (map_of agg k))" if k: "k \<in> set ?ks" for k
  proof -
    from k obtain ts where "map_of agg k = Some ts" by (auto simp: map_of_eq_None_iff[symmetric] dest: weak_map_of_SomeI)
    with assms(3) map_of_SomeD[OF this] show ?thesis by simp
  qed
  moreover have "aggregate_loop E agg h d ?ks = Inr (rs, h')"
    using assms(2,4) by (simp add: transformationAggregate_def)
  ultimately have "map fst rs = ?ks"
    "\<forall>(k, r) \<in> set rs. vcompose E (the (map_of agg k)) (abs h d) = Inr (abs h' r)"
    using aggregate_loop_independent[of ?ks agg E h d rs h'] assms(1) by blast+
  then show ?thesis by (metis set_property_order set_remdups)
qed

theorem aggregation_independent_witness:
  "\<exists>rs h'. transformationAggregate env0 [(''x'', [GROUP [''id''] True]), (''y'', [])] clips0 (Flat [Some 0, Some 1, Some 2]) =
     Inr (rs, h') \<and> set (map fst rs) = {''x'', ''y''}"
proof -
  let ?agg = "[(''x'', [GROUP [''id''] True]), (''y'', [])]"
  have "\<exists>p. transformationAggregate env0 ?agg clips0 (Flat [Some 0, Some 1, Some 2]) = Inr p"
    by (simp add: transformationAggregate_def tGrouping_def property_order_def is_index_def digits_def is_digit_def)
  then obtain rs h' where r: "transformationAggregate env0 ?agg clips0 (Flat [Some 0, Some 1, Some 2]) = Inr (rs, h')" by auto
  have "set (map fst rs) = set (map fst ?agg)"
    using aggregation_independent[OF clips0_ok _ _ r] by fastforce
  with r show ?thesis by auto
qed

text \<open>
  \<open>AFFINE\<close> leaks: it changes the clips in place, so a key it removes in one chain is gone from
  the answer of every other chain too, even of one without any transformation, and wherever it
  stands in the request.
\<close>

theorem affine_leaks:
  assumes "data_ok (length h) (Flat xs)" and "None \<notin> set xs" and "k1 \<noteq> k2"
  shows "\<exists>rs h'. transformationAggregate E [(k1, [AFFINE (Some rm) None None]), (k2, [])] h (Flat xs) = Inr (rs, h') \<and>
    map_of rs k2 = Some (Flat xs) \<and>
    (\<forall>a. Some a \<in> set xs \<longrightarrow> h' ! a = foldl js_delete (h ! a) rm)"
proof -
  have "\<forall>a. occurs xs a \<le> (if a < length h then 1 else 0)" using assms(1) unfolding data_ok_iff items.simps .
  from affine_remove_loop[OF this assms(2), of E rm] obtain ys h' where
    l: "affine_loop E (Some rm) None None xs h = Inr (ys, h')"
      "\<forall>a. h' ! a = (if Some a \<in> set xs then foldl js_delete (h ! a) rm else h ! a)" by blast
  have "property_order [k1, k2] \<in> {[k1, k2], [k2, k1]}"
    by (auto simp: property_order_def)
  then show ?thesis using l assms(3) by (auto simp: transformationAggregate_def tAffine_def)
qed

theorem affine_leaks_witness:
  "\<exists>rs h'. transformationAggregate env0 [(''x'', [AFFINE (Some [''id'']) None None]), (''y'', [])] clips0
      (Flat [Some 0, Some 1, Some 2]) = Inr (rs, h') \<and>
    map_of rs ''y'' = Some (Flat [Some 0, Some 1, Some 2]) \<and> h' ! 1 = [(''t'', JNum (Fin 2))]"
proof -
  have "foldl js_delete (clips0 ! 1) [''id''] = [(''t'', JNum (Fin 2))]"
    by (simp add: clips0_def js_delete_def)
  with affine_leaks[OF clips0_ok, of "''x''" "''y''" env0 "[''id'']"] show ?thesis by fastforce
qed


end
