(* ===== verification/StudyFields.thy ===== *)
theory StudyFields
  imports Permission FileStore
begin

section \<open>Fields of a study (\<open>dataCore.ts\<close>)\<close>

text \<open>
  The dictionary of a study's fields. A field is never changed: creating, editing and deleting all
  add a document with the same field id, and the latest one counts. The version of a new document
  is \<open>null\<close> until the next data version stamps it (theory \<open>Study\<close>).
\<close>

subsection \<open>Inputs and permissions\<close>

record CreateFieldInput =
  in_studyId :: string
  in_fieldName :: string
  in_fieldId :: string
  in_description :: "string option"
  in_dataType :: enumDataTypes
  in_categoricalOptions :: "(string \<times> string) list option"
  in_unit :: "string option"
  in_comments :: "string option"
  in_verifier :: "IValueVerifier list list option"
  in_properties :: "IFieldProperty list option"
  in_metadata :: "jobject option"

text \<open>
  The loops over the regular expressions of the roles run to their end, so every one of them has to
  be a regular expression.
\<close>

fun patterns_match :: "env \<Rightarrow> string \<Rightarrow> string list \<Rightarrow> bool result" where
  "patterns_match E fid [] = Inr False"
| "patterns_match E fid (re # res) =
     (case RegExp E re of
        None \<Rightarrow> Inl (JSError ''SyntaxError'')
      | Some test \<Rightarrow>
          (case patterns_match E fid res of Inl e \<Rightarrow> Inl e | Inr b \<Rightarrow> Inr (test fid \<or> b)))"

fun permissions_allow :: "env \<Rightarrow> string \<Rightarrow> int \<Rightarrow> IDataPermission list \<Rightarrow> bool result" where
  "permissions_allow E fid pbit [] = Inr False"
| "permissions_allow E fid pbit (dp # dps) =
     (case patterns_match E fid (perm_fields dp) of
        Inl e \<Rightarrow> Inl e
      | Inr m \<Rightarrow>
          (case permissions_allow E fid pbit dps of
             Inl e \<Rightarrow> Inl e
           | Inr b \<Rightarrow> Inr (m \<and> and (permission dp) pbit = pbit \<or> b)))"

definition hasFieldPermission :: "env \<Rightarrow> string \<Rightarrow> int \<Rightarrow> IRole list \<Rightarrow> bool result" where
  "hasFieldPermission E fid pbit roles = permissions_allow E fid pbit (concat (map dataPermissions roles))"

definition readable_patterns :: "IRole list \<Rightarrow> string list" where
  "readable_patterns roles =
     concat (map (\<lambda>dp. if and (permission dp) 4 = 4 then perm_fields dp else [])
       (concat (map dataPermissions roles)))"

subsection \<open>\<open>getStudyFields\<close>\<close>

datatype version_arg = No_Version | Null_Version | One_Version string | Versions "string option list"

fun availableDataVersions :: "IStudy \<Rightarrow> version_arg \<Rightarrow> string option list" where
  "availableDataVersions study Null_Version = [None]"
| "availableDataVersions study (One_Version v) = [Some v]"
| "availableDataVersions study (Versions vs) = vs"
| "availableDataVersions study No_Version =
     map (\<lambda>v. Some (doc_id v)) (take (nat (currentDataVersion study + 1)) (dataVersions study))"

fun compile_all :: "env \<Rightarrow> string list \<Rightarrow> (string \<Rightarrow> bool) list result" where
  "compile_all E [] = Inr []"
| "compile_all E (re # res) =
     (case RegExp E re of
        None \<Rightarrow> Inl (JSError ''SyntaxError'')
      | Some test \<Rightarrow> (case compile_all E res of Inl e \<Rightarrow> Inl e | Inr ts \<Rightarrow> Inr (test # ts)))"

text \<open>
  The database matches the same regular expressions as the language, and the additional condition
  \<open>^.*$\<close> holds of every id that the format admits. The pipeline: \<open>$match\<close>, \<open>$sort\<close> by descending time of creation, and \<open>$group\<close> by field id with
  the \<open>$first\<close> document. Documents with the same time come in the order of the driver.
\<close>

definition newest_first :: "'a IBase_scheme list \<Rightarrow> 'a IBase_scheme list" where
  "newest_first ds = sort_key (\<lambda>d. - createdTime (life d)) ds"

fun group_first :: "('a \<Rightarrow> 'k) \<Rightarrow> 'a list \<Rightarrow> 'a list" where
  "group_first key [] = []"
| "group_first key (x # xs) = x # group_first key (filter (\<lambda>y. key y \<noteq> key x) xs)"

definition getStudyFields ::
    "env \<Rightarrow> mongo \<Rightarrow> requester \<Rightarrow> string \<Rightarrow> version_arg \<Rightarrow> string list option \<Rightarrow> db \<Rightarrow> IField list result" where
  "getStudyFields E M requester studyId dataVersion selectedFields s =
     (case requester of
        None \<Rightarrow> Inl (core_error NOT_LOGGED_IN)
      | Some req \<Rightarrow>
     (case getRolesOfUser M s (Some req) (doc_id req) (Some studyId) of
        Inl e \<Rightarrow> Inl e
      | Inr roles \<Rightarrow>
     if roles = [] then Inl (core_error NO_PERMISSION_ERROR)
     else
     (case findOne (studies_dr M) (studies_collection s) (\<lambda>d. doc_id d = studyId \<and> alive d) of
        None \<Rightarrow> Inl (CoreError CLIENT_ACTION_ON_NON_EXISTENT_ENTRY ''Study does not exist.'')
      | Some study \<Rightarrow>
     (let versions = availableDataVersions study dataVersion in
      case (case selectedFields of
              Some ids \<Rightarrow> Inr (\<lambda>fid. fid \<in> set ids)
            | None \<Rightarrow> (case compile_all E (readable_patterns roles) of
                Inl e \<Rightarrow> Inl e
              | Inr tests \<Rightarrow> Inr (\<lambda>fid. list_ex (\<lambda>test. test fid) tests))) of
        Inl e \<Rightarrow> Inl e
      | Inr selected \<Rightarrow>
          Inr (filter alive (group_first field_fieldId (newest_first
            (find_many (field_dictionary_dr M) (field_dictionary_collection s)
               (\<lambda>f. field_studyId f = studyId \<and> field_dataVersion f \<in> set versions \<and>
                    selected (field_fieldId f))))))))))"

subsection \<open>\<open>createField\<close>\<close>

definition fieldId_format :: "string \<Rightarrow> bool" where
  "fieldId_format x = list_all (\<lambda>c. is_letter c \<or> is_digit c \<or> c = CHR ''_'') x"

text \<open>
  It gives an id to each option of a categorical field, which draws ids. The check for missing
  inputs compares with \<open>undefined\<close> and \<open>null\<close> at once, so it never fails, and a data type is one of
  the enumeration by its type.
\<close>

fun draw_ids :: "env \<Rightarrow> nat \<Rightarrow> db \<Rightarrow> db" where
  "draw_ids E 0 s = s"
| "draw_ids E (Suc n) s = draw_ids E n (snd (uuid E s))"

definition validateFieldEntry :: "env \<Rightarrow> CreateFieldInput \<Rightarrow> db \<Rightarrow> string list \<times> db" where
  "validateFieldEntry E i s =
     (let empty_msg = in_fieldId i @ ''-'' @ in_fieldName i @
            '': possible values can't be empty if data type is categorical.'' in
      if \<not> fieldId_format (in_fieldId i)
      then ([''FieldId should contain letters, numbers and _ only.''], s)
      else if in_dataType i = CATEGORICAL then
        (case in_categoricalOptions i of
           None \<Rightarrow> ([empty_msg], s)
         | Some opts \<Rightarrow> if opts = [] then ([empty_msg], s) else ([], draw_ids E (length opts) s))
      else ([], s))"

fun options_with_id ::
    "env \<Rightarrow> string \<Rightarrow> (string \<times> string) list \<Rightarrow> db \<Rightarrow> ICategoricalOption list \<times> db" where
  "options_with_id E by_user [] s = ([], s)"
| "options_with_id E by_user ((c, d) # opts) s =
     (let (newId, s1) = uuid E s; (now, s2) = Date_now E s1;
          (rest, s3) = options_with_id E by_user opts s2
      in (\<lparr>doc_id = newId, life = new_life now by_user, metadata = [], code = c, option_description = d\<rparr> # rest, s3))"

definition categoricalOptionsWithId ::
    "env \<Rightarrow> string \<Rightarrow> (string \<times> string) list option \<Rightarrow> ICategoricalOption list option \<Rightarrow> db
     \<Rightarrow> ICategoricalOption list option \<times> db" where
  "categoricalOptionsWithId E by_user given otherwise s =
     (case given of
        None \<Rightarrow> (otherwise, s)
      | Some opts \<Rightarrow> (let (os, s1) = options_with_id E by_user opts s in (Some os, s1)))"

definition fileName_property :: IFieldProperty where
  "fileName_property = \<lparr>property_name = ''FileName'', property_verifier = None, property_description = None,
     required = True\<rparr>"

text \<open>What creating, editing and deleting have in common: the roles, and one permission bit.\<close>

definition field_access ::
    "env \<Rightarrow> mongo \<Rightarrow> requester \<Rightarrow> string \<Rightarrow> string \<Rightarrow> int \<Rightarrow> string \<Rightarrow> db \<Rightarrow> IUserWithoutToken result" where
  "field_access E M requester studyId fid pbit msg s =
     (case requester of
        None \<Rightarrow> Inl (core_error NOT_LOGGED_IN)
      | Some req \<Rightarrow>
     (case getRolesOfUser M s (Some req) (doc_id req) (Some studyId) of
        Inl e \<Rightarrow> Inl e
      | Inr roles \<Rightarrow>
     if roles = [] then Inl (core_error NO_PERMISSION_ERROR)
     else
     (case hasFieldPermission E fid pbit roles of
        Inl e \<Rightarrow> Inl e
      | Inr hasPermission \<Rightarrow> if \<not> hasPermission then Inl (CoreError NO_PERMISSION_ERROR msg) else Inr req)))"

definition insert_field :: "mongo \<Rightarrow> IField \<Rightarrow> 'r \<Rightarrow> db \<Rightarrow> 'r result \<times> db" where
  "insert_field M f answer s =
     (case insertOne (field_dictionary_dr M) (field_dictionary_collection s) f of
        None \<Rightarrow> (Inl MongoServerError, s)
      | Some c \<Rightarrow> (Inr answer, s\<lparr>field_dictionary_collection := c\<rparr>))"

definition createField ::
    "env \<Rightarrow> mongo \<Rightarrow> requester \<Rightarrow> CreateFieldInput \<Rightarrow> db \<Rightarrow> IField result \<times> db" where
  "createField E M requester i s =
     (case field_access E M requester (in_studyId i) (in_fieldId i) 2 ''No permission to create this field.'' s of
        Inl e \<Rightarrow> (Inl e, s)
      | Inr req \<Rightarrow>
     (let (errors, s1) = validateFieldEntry E i s in
      if errors \<noteq> [] then (Inl (CoreError CLIENT_MALFORMED_INPUT (hd errors)), s1)
      else
     (let (opts, s2) = categoricalOptionsWithId E (doc_id req) (in_categoricalOptions i) None s1;
          (newId, s3) = uuid E s2;
          (now, s4) = Date_now E s3;
          entry = \<lparr>doc_id = newId, life = new_life now (doc_id req), metadata = nullish (in_metadata i) [],
            field_studyId = in_studyId i, fieldName = in_fieldName i, field_fieldId = in_fieldId i,
            field_description = in_description i, dataType = in_dataType i, categoricalOptions = opts,
            unit_of = in_unit i, comments = in_comments i, field_dataVersion = None,
            verifier = Some (nullish (in_verifier i) []),
            field_properties = (if in_dataType i = FILE_TYPE
              then Some (nullish (in_properties i) [] @ [fileName_property]) else in_properties i)\<rparr>
      in insert_field M entry entry s4)))"

subsection \<open>\<open>editField\<close> and \<open>deleteField\<close>\<close>

text \<open>The documents that editing and deleting add.\<close>

definition edited_field ::
    "CreateFieldInput \<Rightarrow> IField \<Rightarrow> ICategoricalOption list option \<Rightarrow> string \<Rightarrow> ILifeCircle \<Rightarrow> IField" where
  "edited_field i field opts newId lf =
     \<lparr>doc_id = newId, life = lf, metadata = [],
      field_studyId = in_studyId i, fieldName = in_fieldName i, field_fieldId = in_fieldId i,
      field_description = (if in_description i = None then field_description field else in_description i),
      dataType = in_dataType i, categoricalOptions = opts,
      unit_of = (if in_unit i = None then unit_of field else in_unit i),
      comments = (if in_comments i = None then comments field else in_comments i),
      field_dataVersion = None,
      verifier = (if in_verifier i = None then verifier field else in_verifier i),
      field_properties = (if in_properties i = None then field_properties field else in_properties i)\<rparr>"

definition deleted_field :: "IField \<Rightarrow> string \<Rightarrow> ILifeCircle \<Rightarrow> string \<Rightarrow> string \<Rightarrow> IField" where
  "deleted_field field newId lf studyId fid =
     \<lparr>doc_id = newId, life = lf, metadata = [], field_studyId = studyId, fieldName = fieldName field,
      field_fieldId = fid, field_description = field_description field, dataType = dataType field,
      categoricalOptions = categoricalOptions field, unit_of = unit_of field, comments = comments field,
      field_dataVersion = None, verifier = verifier field, field_properties = field_properties field\<rparr>"

text \<open>The field that is edited is any live document with the id, not necessarily the latest.\<close>

definition editField ::
    "env \<Rightarrow> mongo \<Rightarrow> requester \<Rightarrow> CreateFieldInput \<Rightarrow> db \<Rightarrow> IGenericResponse result \<times> db" where
  "editField E M requester i s =
     (case field_access E M requester (in_studyId i) (in_fieldId i) 2 ''No permission to create this field.'' s of
        Inl e \<Rightarrow> (Inl e, s)
      | Inr req \<Rightarrow>
     (case findOne (field_dictionary_dr M) (field_dictionary_collection s)
             (\<lambda>f. field_studyId f = in_studyId i \<and> field_fieldId f = in_fieldId i \<and> alive f) of
        None \<Rightarrow> (Inl (CoreError CLIENT_ACTION_ON_NON_EXISTENT_ENTRY ''Field does not exist.''), s)
      | Some field \<Rightarrow>
     (let (errors, s1) = validateFieldEntry E i s in
      if errors \<noteq> [] then (Inl (CoreError CLIENT_MALFORMED_INPUT (hd errors)), s1)
      else
     (let (opts, s2) = categoricalOptionsWithId E (doc_id req) (in_categoricalOptions i) (categoricalOptions field) s1;
          (newId, s3) = uuid E s2;
          (now, s4) = Date_now E s3;
          entry = edited_field i field opts newId (new_life now (doc_id req))
      in insert_field M entry (makeGenericResponse (Some (in_fieldId i)) (Some True) None
           (Some (''Field '' @ in_fieldId i @ '' has been edited.''))) s4))))"

definition deleteField ::
    "env \<Rightarrow> mongo \<Rightarrow> requester \<Rightarrow> string \<Rightarrow> string \<Rightarrow> db \<Rightarrow> IGenericResponse result \<times> db" where
  "deleteField E M requester studyId fid s =
     (case field_access E M requester studyId fid 1 ''No permission to delete this field.'' s of
        Inl e \<Rightarrow> (Inl e, s)
      | Inr req \<Rightarrow>
     (case newest_first (find_many (field_dictionary_dr M) (field_dictionary_collection s)
             (\<lambda>f. field_studyId f = studyId \<and> field_fieldId f = fid)) of
        [] \<Rightarrow> (Inl (CoreError CLIENT_ACTION_ON_NON_EXISTENT_ENTRY ''Field does not exist.''), s)
      | field # older \<Rightarrow>
     if (case deletedTime (life field) of None \<Rightarrow> False | Some t \<Rightarrow> t \<noteq> 0)
     then (Inl (CoreError CLIENT_ACTION_ON_NON_EXISTENT_ENTRY ''Field does not exist.''), s)
     else
     (let (newId, s1) = uuid E s;
          (now, s2) = Date_now E s1;
          (now2, s3) = Date_now E s2;
          entry = deleted_field field newId
            ((new_life now (doc_id req))\<lparr>deletedTime := Some now2, deletedUser := Some (Uid (doc_id req))\<rparr>) studyId fid
      in insert_field M entry (makeGenericResponse (Some fid) (Some True) None
           (Some (''Field '' @ fid @ '' has been deleted.''))) s3)))"

end
