(* ===== verification/Json.thy ===== *)
theory Json
  imports JsOps
begin

section \<open>\<open>JSON.stringify\<close> and \<open>JSON.parse\<close>\<close>

text \<open>
  The two functions of the language on values, for strings of characters below 256 (an escape of a
  character above that is refused). A number is written as \<open>String\<close> writes it.
\<close>

subsection \<open>Printing\<close>

definition hex_digit :: "nat \<Rightarrow> char" where
  "hex_digit n = ''0123456789abcdef'' ! n"

definition backslash :: char where
  "backslash = char_of (92::nat)"

definition quote :: char where
  "quote = char_of (34::nat)"

text \<open>The one-letter escapes, as code and letter.\<close>

definition short_escapes :: "(nat \<times> char) list" where
  "short_escapes = [(8, CHR ''b''), (12, CHR ''f''), (10, CHR ''n''), (13, CHR ''r''), (9, CHR ''t'')]"

definition json_escape :: "char \<Rightarrow> string" where
  "json_escape c =
     (let n = (of_char c :: nat) in
      if c = quote \<or> c = backslash then [backslash, c]
      else case map_of short_escapes n of
        Some l \<Rightarrow> [backslash, l]
      | None \<Rightarrow> if n < 32 then [backslash] @ ''u00'' @ [hex_digit (n div 16), hex_digit (n mod 16)] else [c])"

definition json_quote :: "string \<Rightarrow> string" where
  "json_quote x = [quote] @ concat (map json_escape x) @ [quote]"

text \<open>
  \<open>undefined\<close> has no text: an array has \<open>null\<close> in its place, an object leaves the property out.
\<close>

fun stringify :: "env \<Rightarrow> jsval \<Rightarrow> string option" where
  "stringify E JUndef = None"
| "stringify E JNull = Some ''null''"
| "stringify E (JBool b) = Some (if b then ''true'' else ''false'')"
| "stringify E (JNum n) = Some (case n of Fin x \<Rightarrow> num_to_string E n | _ \<Rightarrow> ''null'')"
| "stringify E (JStr x) = Some (json_quote x)"
| "stringify E (JArr xs) =
     Some (''['' @ join_with '','' (map (\<lambda>x. nullish (stringify E x) ''null'') xs) @ '']'')"
| "stringify E (JObj m) =
     (let texts = map (\<lambda>(k, v). (k, stringify E v)) m;
          shown = filter (\<lambda>k. case map_of texts k of Some (Some t) \<Rightarrow> True | _ \<Rightarrow> False)
            (property_order (remdups (map fst m)))
      in Some (''{'' @ join_with '',''
            (map (\<lambda>k. json_quote k @ '':'' @ nullish (nullish (map_of texts k) None) '''') shown) @ ''}''))"

definition JSON_stringify :: "env \<Rightarrow> jsval \<Rightarrow> string" where
  "JSON_stringify E v = nullish (stringify E v) ''undefined''"

subsection \<open>Parsing\<close>

definition is_json_space :: "char \<Rightarrow> bool" where
  "is_json_space c \<longleftrightarrow> (of_char c :: nat) \<in> {32, 9, 10, 13}"

abbreviation skip_space :: "string \<Rightarrow> string" where
  "skip_space \<equiv> dropWhile is_json_space"

text \<open>The rest of a string literal: the text up to the closing quotation mark, and what follows it.\<close>

definition unescape :: "char \<Rightarrow> char option" where
  "unescape l =
     (if l = quote \<or> l = backslash \<or> l = CHR ''/'' then Some l
      else map_option char_of (map_of (map (\<lambda>(n, l). (l, n)) short_escapes) l))"

definition hex4 :: "string \<Rightarrow> char option" where
  "hex4 x =
     (let ds = digits_prefix 16 (take 4 x); n = nat_of_digits 16 ds
      in if length ds = 4 \<and> n < 256 then Some (char_of n) else None)"

fun json_string :: "string \<Rightarrow> (string \<times> string) option" where
  "json_string [] = None"
| "json_string (c # r) =
     (if c = quote then Some ([], r)
      else if c = backslash then
        (case r of
           [] \<Rightarrow> None
         | l # r1 \<Rightarrow>
             if l = CHR ''u'' then
               (case (hex4 r1, r1) of
                  (Some d, _ # _ # _ # _ # r2) \<Rightarrow>
                    (case json_string r2 of None \<Rightarrow> None | Some (x, r3) \<Rightarrow> Some (d # x, r3))
                | _ \<Rightarrow> None)
             else
               (case unescape l of
                  None \<Rightarrow> None
                | Some d \<Rightarrow> (case json_string r1 of None \<Rightarrow> None | Some (x, r3) \<Rightarrow> Some (d # x, r3))))
      else if (of_char c :: nat) < 32 then None
      else (case json_string r of None \<Rightarrow> None | Some (x, r3) \<Rightarrow> Some (c # x, r3)))"

text \<open>A number: no leading zeros, and digits on both sides of the point.\<close>

definition json_number :: "string \<Rightarrow> (jsval \<times> string) option" where
  "json_number s =
     (let neg = (s \<noteq> [] \<and> hd s = CHR ''-'');
          t = (if neg then tl s else s);
          ds = takeWhile is_digit t;
          r = drop (length ds) t
      in if ds = [] \<or> 1 < length ds \<and> hd ds = CHR ''0'' \<or>
            r \<noteq> [] \<and> hd r = CHR ''.'' \<and> (tl r = [] \<or> \<not> is_digit (hd (tl r)))
         then None
         else (case scan_decimal t of
                 None \<Rightarrow> None
               | Some (x, rest) \<Rightarrow> Some (JNum (Fin (with_sign neg x)), rest)))"

definition json_literal :: "string \<Rightarrow> (jsval \<times> string) option" where
  "json_literal s =
     (if take 4 s = ''true'' then Some (JBool True, drop 4 s)
      else if take 5 s = ''false'' then Some (JBool False, drop 5 s)
      else if take 4 s = ''null'' then Some (JNull, drop 4 s)
      else json_number s)"

definition starts :: "char \<Rightarrow> string \<Rightarrow> bool" where
  "starts c s \<longleftrightarrow> s \<noteq> [] \<and> hd s = c"

text \<open>
  Two levels of the recursion consume at least one character, so twice the length of the text is
  enough fuel.
\<close>

fun json_value :: "nat \<Rightarrow> string \<Rightarrow> (jsval \<times> string) option"
  and json_elements :: "nat \<Rightarrow> string \<Rightarrow> (jsval list \<times> string) option"
  and json_members :: "nat \<Rightarrow> string \<Rightarrow> jobject \<Rightarrow> (jobject \<times> string) option" where
  "json_value 0 s = None"
| "json_value (Suc n) s =
     (let t = skip_space s in
      if starts quote t then
        (case json_string (tl t) of None \<Rightarrow> None | Some (x, r) \<Rightarrow> Some (JStr x, r))
      else if starts (CHR ''['') t then
        (let u = skip_space (tl t) in
         if starts (CHR '']'') u then Some (JArr [], tl u)
         else (case json_elements n u of None \<Rightarrow> None | Some (xs, r) \<Rightarrow> Some (JArr xs, r)))
      else if starts (CHR ''{'') t then
        (let u = skip_space (tl t) in
         if starts (CHR ''}'') u then Some (JObj [], tl u)
         else (case json_members n u [] of None \<Rightarrow> None | Some (m, r) \<Rightarrow> Some (JObj m, r)))
      else json_literal t)"
| "json_elements 0 s = None"
| "json_elements (Suc n) s =
     (case json_value n s of
        None \<Rightarrow> None
      | Some (x, r) \<Rightarrow>
          (let t = skip_space r in
           if starts (CHR '']'') t then Some ([x], tl t)
           else if starts (CHR '','') t then
             (case json_elements n (tl t) of None \<Rightarrow> None | Some (xs, r1) \<Rightarrow> Some (x # xs, r1))
           else None))"
| "json_members 0 s m = None"
| "json_members (Suc n) s m =
     (let t = skip_space s in
      if \<not> starts quote t then None
      else (case json_string (tl t) of
              None \<Rightarrow> None
            | Some (k, r) \<Rightarrow>
                (let u = skip_space r in
                 if \<not> starts (CHR '':'') u then None
                 else (case json_value n (tl u) of
                         None \<Rightarrow> None
                       | Some (x, r1) \<Rightarrow>
                           (let w = skip_space r1 in
                            if starts (CHR ''}'') w then Some (js_set m k x, tl w)
                            else if starts (CHR '','') w then json_members n (tl w) (js_set m k x)
                            else None)))))"

text \<open>\<open>None\<close> for the \<open>SyntaxError\<close>.\<close>

definition JSON_parse :: "string \<Rightarrow> jsval option" where
  "JSON_parse s =
     (case json_value (2 * length s + 2) s of
        None \<Rightarrow> None
      | Some (v, r) \<Rightarrow> if skip_space r = [] then Some v else None)"

end
