(* ===== verification/DataClips.thy ===== *)
theory DataClips
  imports StudyFields Transform Json
begin

section \<open>Uploading data clips (\<open>dataCore.ts\<close>)\<close>

text \<open>
  A clip is one value of one field, with properties (of which subject, at which visit) that tell it
  from the other values of the field. Like fields, clips are never changed: a deletion is one more
  document, and the latest one counts. The values of the input are strings, which the router
  checks; \<open>uploadData\<close> reads them according to the type of the field, runs the verifiers of the
  field and of its properties, and answers one response for each clip.
\<close>

subsection \<open>Literal regular expressions\<close>

definition unsigned_part :: "string \<Rightarrow> string" where
  "unsigned_part v = (if v \<noteq> [] \<and> hd v = CHR ''-'' then tl v else v)"

text \<open>\<open>/^-?\d+(\.\d+)?$/\<close> and \<open>/^-?\d+$/\<close>.\<close>

definition matches_signed_decimal :: "string \<Rightarrow> bool" where
  "matches_signed_decimal v \<longleftrightarrow> matches_decimal (unsigned_part v)"

definition matches_integer :: "string \<Rightarrow> bool" where
  "matches_integer v \<longleftrightarrow> digits (unsigned_part v)"

text \<open>
  The format of a date, \<open>YYYY-MM-DDThh:mm:ss\<close> and anything after it: the expression is not anchored
  at the end. A year of more than four digits does not start with 0.
\<close>

fun between :: "char \<Rightarrow> char \<Rightarrow> char \<Rightarrow> bool" where
  "between a b c = ((of_char a :: nat) \<le> of_char c \<and> (of_char c :: nat) \<le> of_char b)"

fun month_then :: "string \<Rightarrow> bool" where
  "month_then (a # b # r) \<longleftrightarrow>
     a = CHR ''1'' \<and> between (CHR ''0'') (CHR ''2'') b \<or> a = CHR ''0'' \<and> between (CHR ''1'') (CHR ''9'') b"
| "month_then _ = False"

fun day_then :: "string \<Rightarrow> bool" where
  "day_then (a # b # r) \<longleftrightarrow>
     a = CHR ''3'' \<and> between (CHR ''0'') (CHR ''1'') b \<or> a = CHR ''0'' \<and> between (CHR ''1'') (CHR ''9'') b \<or>
     (a = CHR ''1'' \<or> a = CHR ''2'') \<and> is_digit b"
| "day_then _ = False"

fun hour_then :: "string \<Rightarrow> bool" where
  "hour_then (a # b # r) \<longleftrightarrow>
     a = CHR ''2'' \<and> between (CHR ''0'') (CHR ''3'') b \<or> (a = CHR ''0'' \<or> a = CHR ''1'') \<and> is_digit b"
| "hour_then _ = False"

fun sixty_then :: "string \<Rightarrow> bool" where
  "sixty_then (a # b # r) \<longleftrightarrow> between (CHR ''0'') (CHR ''5'') a \<and> is_digit b"
| "sixty_then _ = False"

definition char_at :: "char \<Rightarrow> nat \<Rightarrow> string \<Rightarrow> bool" where
  "char_at c n r \<longleftrightarrow> n < length r \<and> r ! n = c"

definition matches_datetime :: "string \<Rightarrow> bool" where
  "matches_datetime v =
     (let u = unsigned_part v; y = takeWhile is_digit u; r = drop (length y) u
      in 4 \<le> length y \<and> (4 < length y \<longrightarrow> hd y \<noteq> CHR ''0'') \<and>
         char_at (CHR ''-'') 0 r \<and> month_then (drop 1 r) \<and> char_at (CHR ''-'') 3 r \<and> day_then (drop 4 r) \<and>
         char_at (CHR ''T'') 6 r \<and> hour_then (drop 7 r) \<and> char_at (CHR '':'') 9 r \<and> sixty_then (drop 10 r) \<and>
         char_at (CHR '':'') 12 r \<and> sixty_then (drop 13 r))"

subsection \<open>Reading and checking one value\<close>

record IDataInput =
  input_fieldId :: string
  input_value :: string
  input_properties :: "jobject option"

abbreviation bad_input :: "string \<Rightarrow> string \<Rightarrow> string" where
  "bad_input fid m \<equiv> ''Field '' @ fid @ '': '' @ m"

text \<open>
  The switch over the type of the field: the message of the error, if there is one, and the parsed
  value, which is \<open>undefined\<close> with an error. \<open>JSON.parse\<close> throws.
\<close>

definition ok_value :: "jsval \<Rightarrow> (string option \<times> jsval) result" where
  "ok_value v = Inr (None, v)"

definition bad_value :: "string \<Rightarrow> string \<Rightarrow> (string option \<times> jsval) result" where
  "bad_value fid m = Inr (Some (bad_input fid m), JUndef)"

definition parse_value :: "env \<Rightarrow> IField \<Rightarrow> string \<Rightarrow> (string option \<times> jsval) result" where
  "parse_value E field v =
     (let fid = field_fieldId field in
      case dataType field of
        DECIMAL \<Rightarrow>
          if matches_signed_decimal v then ok_value (JNum (parseFloat v))
          else bad_value fid ''Cannot parse as decimal.''
      | INTEGER \<Rightarrow>
          if matches_integer v then ok_value (JNum (parseInt10 v))
          else bad_value fid ''Cannot parse as integer.''
      | BOOLEAN \<Rightarrow>
          if toLowerCase v \<in> {''true'', ''false''} then ok_value (JBool (toLowerCase v = ''true''))
          else bad_value fid ''Cannot parse as boolean.''
      | STRING \<Rightarrow> ok_value (JStr v)
      | DATETIME \<Rightarrow>
          if matches_datetime v then ok_value (JStr v)
          else bad_value fid ''Cannot parse as date. Value for date type must be in ISO format.''
      | JSON_TYPE \<Rightarrow>
          (case JSON_parse v of None \<Rightarrow> Inl (JSError ''SyntaxError'') | Some x \<Rightarrow> ok_value x)
      | FILE_TYPE \<Rightarrow> ok_value (JStr v)
      | CATEGORICAL \<Rightarrow>
          (case categoricalOptions field of
             None \<Rightarrow> bad_value fid ''Cannot parse as categorical, possible values not defined.''
           | Some opts \<Rightarrow>
               if v \<in> set (map code opts) then ok_value (JStr v)
               else bad_value fid ''Cannot parse as categorical, value not in value list.''))"

text \<open>
  A verifier is a disjunction of conjunctions. A conjunction stops at its first condition that fails;
  every conjunction is evaluated.
\<close>

fun conjunction_holds :: "env \<Rightarrow> jsval \<Rightarrow> IValueVerifier list \<Rightarrow> bool result" where
  "conjunction_holds E v [] = Inr True"
| "conjunction_holds E v (c # cs) =
     (if \<not> scalar v then Inr False
      else (case validValueWithVerifier E v c of
              Inl e \<Rightarrow> Inl e
            | Inr ok \<Rightarrow> if ok then conjunction_holds E v cs else Inr False))"

fun resEach :: "env \<Rightarrow> jsval \<Rightarrow> IValueVerifier list list \<Rightarrow> bool list result" where
  "resEach E v [] = Inr []"
| "resEach E v (c # cs) =
     (case conjunction_holds E v c of
        Inl e \<Rightarrow> Inl e
      | Inr b \<Rightarrow> (case resEach E v cs of Inl e \<Rightarrow> Inl e | Inr bs \<Rightarrow> Inr (b # bs)))"

definition verifier_fails :: "env \<Rightarrow> jsval \<Rightarrow> IValueVerifier list list \<Rightarrow> bool result" where
  "verifier_fails E v vss = (case resEach E v vss of Inl e \<Rightarrow> Inl e | Inr bs \<Rightarrow> Inr (list_all (\<lambda>b. \<not> b) bs))"

text \<open>
  The loop over the properties of the field. A missing required property ends it; an error of a
  verifier replaces an earlier error and the loop goes on. An empty verifier fails here, as the
  code does not test its length (it does for the verifier of the field).
\<close>

definition property_value :: "jobject option \<Rightarrow> string \<Rightarrow> jsval" where
  "property_value props k = (case props of None \<Rightarrow> JUndef | Some m \<Rightarrow> js_get m k)"

definition property_fails :: "env \<Rightarrow> jobject option \<Rightarrow> IFieldProperty \<Rightarrow> bool result" where
  "property_fails E props p =
     (if props = None then Inr False
      else (case property_verifier p of
              None \<Rightarrow> Inr False
            | Some vss \<Rightarrow> verifier_fails E (property_value props (property_name p)) vss))"

fun check_properties ::
    "env \<Rightarrow> string \<Rightarrow> jobject option \<Rightarrow> IFieldProperty list \<Rightarrow> string option \<Rightarrow> string option result" where
  "check_properties E fid props [] err = Inr err"
| "check_properties E fid props (p # ps) err =
     (if required p \<and> property_value props (property_name p) = JUndef
      then Inr (Some (bad_input fid (''Property '' @ property_name p @ '' is required.'')))
      else (case property_fails E props p of
              Inl e \<Rightarrow> Inl e
            | Inr fails \<Rightarrow> check_properties E fid props ps
                (if fails
                 then Some (''Field '' @ fid @ '' value '' @ js_String E (property_value props (property_name p)) @
                        '': Property '' @ property_name p @ '' failed to pass the verifier.'')
                 else err)))"

definition field_verifier_fails :: "env \<Rightarrow> IField \<Rightarrow> jsval \<Rightarrow> bool result" where
  "field_verifier_fails E field v =
     (case verifier field of
        None \<Rightarrow> Inr False
      | Some vss \<Rightarrow> if vss = [] then Inr False else verifier_fails E v vss)"

definition check_value :: "env \<Rightarrow> IField \<Rightarrow> IDataInput \<Rightarrow> (string option \<times> jsval) result" where
  "check_value E field clip =
     (case parse_value E field (input_value clip) of
        Inl e \<Rightarrow> Inl e
      | Inr (err, v) \<Rightarrow>
     (case field_verifier_fails E field v of
        Inl e \<Rightarrow> Inl e
      | Inr fails \<Rightarrow>
     (let err1 = (if fails then Some (''Field '' @ input_fieldId clip @ '' value '' @ js_String E v @
            '': Failed to pass the verifier.'') else err)
      in case check_properties E (input_fieldId clip) (input_properties clip)
                (nullish (field_properties field) []) err1 of
           Inl e \<Rightarrow> Inl e
         | Inr err2 \<Rightarrow> Inr (err2, v))))"


subsection \<open>\<open>uploadData\<close>\<close>

text \<open>
  The fields a clip can be for are an object with the field ids as keys (the last field of an id
  counts). The operator \<open>in\<close> also finds the members every object inherits; the value found is then a
  function, which has no data type, no verifier and no properties.
\<close>

definition find_field :: "IField list \<Rightarrow> string \<Rightarrow> IField option" where
  "find_field fs fid = map_of (rev (map (\<lambda>f. (field_fieldId f, f)) fs)) fid"

definition object_members :: "string list" where
  "object_members = [''constructor'', ''hasOwnProperty'', ''isPrototypeOf'', ''propertyIsEnumerable'',
     ''toString'', ''toLocaleString'', ''valueOf'', ''__proto__'', ''__defineGetter__'', ''__defineSetter__'',
     ''__lookupGetter__'', ''__lookupSetter__'']"

fun config_missingValue :: "config_properties \<Rightarrow> string option" where
  "config_missingValue (StudyProps p) = Some (defaultRepresentationForMissingValue p)"
| "config_missingValue _ = None"

definition reject :: "nat \<Rightarrow> enumCoreErrors \<Rightarrow> string \<Rightarrow> IGenericResponse" where
  "reject n ec msg = makeGenericResponse (Some (string_of_nat n)) (Some False) (Some (error_string ec)) (Some msg)"

definition accept :: "nat \<Rightarrow> IDataInput \<Rightarrow> IGenericResponse" where
  "accept n clip = makeGenericResponse (Some (string_of_nat n)) (Some True) None
     (Some (''Field '' @ input_fieldId clip @ '' value '' @ input_value clip @ '' successfully uploaded.''))"

definition clip_entry :: "IDataInput \<Rightarrow> perm_entry" where
  "clip_entry clip =
     \<lparr>entry_fieldId = Some (input_fieldId clip), entry_has_value = True, entry_properties = input_properties clip\<rparr>"

text \<open>One clip: its response, and the value to be stored if it is accepted.\<close>

definition upload_clip ::
    "env \<Rightarrow> mongo \<Rightarrow> IUserWithoutToken \<Rightarrow> string \<Rightarrow> IField list \<Rightarrow> string option \<Rightarrow> nat \<Rightarrow> IDataInput \<Rightarrow> db
     \<Rightarrow> (IGenericResponse \<times> jsval option) result" where
  "upload_clip E M req studyId avail missing n clip s =
     (case checkFieldOrDataPermission E M s req studyId (clip_entry clip) WRITE of
        Inl e \<Rightarrow> Inl e
      | Inr hasPermission \<Rightarrow>
          if \<not> hasPermission then Inr (reject n NO_PERMISSION_ERROR (error_string NO_PERMISSION_ERROR), None)
          else if find_field avail (input_fieldId clip) = None \<and> input_fieldId clip \<notin> set object_members
          then Inr (reject n CLIENT_ACTION_ON_NON_EXISTENT_ENTRY (bad_input (input_fieldId clip) ''Field not found''), None)
          else if missing = Some (input_value clip) then Inr (accept n clip, Some (JStr (input_value clip)))
          else (case find_field avail (input_fieldId clip) of
                  None \<Rightarrow> Inr (reject n CLIENT_MALFORMED_INPUT (bad_input (input_fieldId clip) ''Invalid data Type.''), None)
                | Some field \<Rightarrow>
                    (case check_value E field clip of
                       Inl e \<Rightarrow> Inl e
                     | Inr (Some msg, v) \<Rightarrow> Inr (reject n CLIENT_MALFORMED_INPUT msg, None)
                     | Inr (None, v) \<Rightarrow> Inr (accept n clip, Some v))))"

text \<open>The document of a clip. The driver stores \<open>undefined\<close> as \<open>null\<close>.\<close>

definition stored_properties :: "jobject option \<Rightarrow> jsval" where
  "stored_properties props = (case props of None \<Rightarrow> JNull | Some m \<Rightarrow> JObj m)"

definition clip_doc :: "string \<Rightarrow> int \<Rightarrow> string \<Rightarrow> string \<Rightarrow> IDataInput \<Rightarrow> jsval \<Rightarrow> IData" where
  "clip_doc newId now u studyId clip v =
     \<lparr>doc_id = newId, life = new_life now u, metadata = [], data_studyId = studyId,
      data_fieldId = input_fieldId clip, data_dataVersion = None, data_value = v,
      data_properties = stored_properties (input_properties clip)\<rparr>"

text \<open>
  The loop over the clips. The accepted ones are collected in one unordered bulk operation, which is
  executed at the end: its batches hold up to 100000 documents each, and the loop only executes it
  earlier from the thousandth batch on, which the model leaves out.
\<close>

fun upload_loop ::
    "env \<Rightarrow> mongo \<Rightarrow> IUserWithoutToken \<Rightarrow> string \<Rightarrow> IField list \<Rightarrow> string option \<Rightarrow> nat \<Rightarrow> IDataInput list \<Rightarrow> db
     \<Rightarrow> (IGenericResponse list \<times> IData list) result \<times> db" where
  "upload_loop E M req studyId avail missing n [] s = (Inr ([], []), s)"
| "upload_loop E M req studyId avail missing n (clip # clips) s =
     (case upload_clip E M req studyId avail missing n clip s of
        Inl e \<Rightarrow> (Inl e, s)
      | Inr (r, None) \<Rightarrow>
          (case upload_loop E M req studyId avail missing (Suc n) clips s of
             (Inl e, s1) \<Rightarrow> (Inl e, s1)
           | (Inr (rs, ds), s1) \<Rightarrow> (Inr (r # rs, ds), s1))
      | Inr (r, Some v) \<Rightarrow>
          (let (newId, s1) = uuid E s; (now, s2) = Date_now E s1
           in case upload_loop E M req studyId avail missing (Suc n) clips s2 of
                (Inl e, s3) \<Rightarrow> (Inl e, s3)
              | (Inr (rs, ds), s3) \<Rightarrow> (Inr (r # rs, clip_doc newId now (doc_id req) studyId clip v # ds), s3)))"

text \<open>An unordered bulk operation goes on after a document that is refused, and throws at its end.\<close>

fun bulk_insert :: "IData driver \<Rightarrow> IData list \<Rightarrow> IData list \<Rightarrow> bool \<times> IData list" where
  "bulk_insert dr [] c = (True, c)"
| "bulk_insert dr (d # ds) c =
     (case insertOne dr c d of
        None \<Rightarrow> (False, snd (bulk_insert dr ds c))
      | Some c1 \<Rightarrow> bulk_insert dr ds c1)"

definition uploadData ::
    "env \<Rightarrow> mongo \<Rightarrow> requester \<Rightarrow> string \<Rightarrow> IDataInput list \<Rightarrow> db \<Rightarrow> IGenericResponse list result \<times> db" where
  "uploadData E M requester studyId clips s =
     (case requester of
        None \<Rightarrow> (Inl (core_error NOT_LOGGED_IN), s)
      | Some req \<Rightarrow>
     (case findOne (studies_dr M) (studies_collection s) (\<lambda>d. doc_id d = studyId \<and> alive d) of
        None \<Rightarrow> (Inl (CoreError CLIENT_ACTION_ON_NON_EXISTENT_ENTRY ''Study does not exist.''), s)
      | Some study \<Rightarrow>
     (case getStudyFields E M (Some req) studyId
             (Versions (availableDataVersions study No_Version @ [None])) None s of
        Inl e \<Rightarrow> (Inl e, s)
      | Inr avail \<Rightarrow>
     (let missing = config_missingValue (config_or M s STUDYCONFIG (Some studyId) (StudyProps default_studyConfig)) in
      case upload_loop E M req studyId avail missing 0 clips s of
        (Inl e, s1) \<Rightarrow> (Inl e, s1)
      | (Inr (rs, ds), s1) \<Rightarrow>
          (let (ok, c) = bulk_insert (data_dr M) ds (data_collection s1)
           in (if ok then Inr rs else Inl MongoServerError, s1\<lparr>data_collection := c\<rparr>))))))"

subsection \<open>\<open>deleteData\<close> and \<open>deleteFile\<close>\<close>

text \<open>
  Only managers of the study delete clips; the result of the permission check is ignored (an
  exception of it is not). Deleting adds a document with the value \<open>null\<close> that is deleted from its
  start.
\<close>

definition deletion_doc :: "string \<Rightarrow> int \<Rightarrow> int \<Rightarrow> string \<Rightarrow> string \<Rightarrow> string \<Rightarrow> jsval \<Rightarrow> IData" where
  "deletion_doc newId now now2 u studyId fid props =
     \<lparr>doc_id = newId, life = (new_life now u)\<lparr>deletedTime := Some now2, deletedUser := Some (Uid u)\<rparr>,
      metadata = [], data_studyId = studyId, data_fieldId = fid, data_dataVersion = None, data_value = JNull,
      data_properties = props\<rparr>"

definition deleteData ::
    "env \<Rightarrow> mongo \<Rightarrow> requester \<Rightarrow> string \<Rightarrow> string \<Rightarrow> jsval \<Rightarrow> db \<Rightarrow> IGenericResponse result \<times> db" where
  "deleteData E M requester studyId fid props s =
     (case requester of
        None \<Rightarrow> (Inl (core_error NOT_LOGGED_IN), s)
      | Some req \<Rightarrow>
     (case getRolesOfUser M s (Some req) (doc_id req) (Some studyId) of
        Inl e \<Rightarrow> (Inl e, s)
      | Inr roles \<Rightarrow>
     if roles = [] \<or> list_all (\<lambda>r. studyRole r \<noteq> STUDY_MANAGER) roles then (Inl (core_error NO_PERMISSION_ERROR), s)
     else
     (case findOne (studies_dr M) (studies_collection s) (\<lambda>d. doc_id d = studyId \<and> alive d) of
        None \<Rightarrow> (Inl (CoreError CLIENT_ACTION_ON_NON_EXISTENT_ENTRY ''Study does not exist.''), s)
      | Some study \<Rightarrow>
     (case checkFieldOrDataPermission E M s req studyId
             \<lparr>entry_fieldId = Some fid, entry_has_value = False, entry_properties = None\<rparr> DELETE of
        Inl e \<Rightarrow> (Inl e, s)
      | Inr _ \<Rightarrow>
     (let (newId, s1) = uuid E s; (now, s2) = Date_now E s1; (now2, s3) = Date_now E s2
      in case insertOne (data_dr M) (data_collection s3) (deletion_doc newId now now2 (doc_id req) studyId fid props) of
           None \<Rightarrow> (Inl MongoServerError, s3)
         | Some c \<Rightarrow> (Inr (makeGenericResponse None None None (Some ''Data deleted.'')), s3\<lparr>data_collection := c\<rparr>))))))"

text \<open>The filter \<open>{value: x}\<close> finds the value itself and arrays that hold it.\<close>

definition value_matches :: "jsval \<Rightarrow> jsval \<Rightarrow> bool" where
  "value_matches x v \<longleftrightarrow> v = x \<or> (case v of JArr xs \<Rightarrow> x \<in> set xs | _ \<Rightarrow> False)"

definition deleteDataFile ::
    "env \<Rightarrow> mongo \<Rightarrow> requester \<Rightarrow> string \<Rightarrow> db \<Rightarrow> IGenericResponse result \<times> db" where
  "deleteDataFile E M requester fileRef s =
     (case findOne (data_dr M) (data_collection s) (\<lambda>d. value_matches (JStr fileRef) (data_value d)) of
        None \<Rightarrow> (Inl (CoreError CLIENT_ACTION_ON_NON_EXISTENT_ENTRY ''Data entry not found.''), s)
      | Some d \<Rightarrow> deleteData E M requester (data_studyId d) (data_fieldId d) (data_properties d) s)"

subsection \<open>Files as data\<close>

text \<open>
  \<open>uploadFileData\<close> stores the file, then uploads a clip with its id; both happen in a \<open>try\<close> whose
  handler turns every exception into malformed input with the same message. The properties are
  the JSON text of an object (another value counts as a syntax error in the model).
\<close>

definition parse_object :: "string option \<Rightarrow> jobject option result" where
  "parse_object text =
     (if \<not> truthy text then Inr None
      else (case JSON_parse (the text) of
              Some (JObj m) \<Rightarrow> Inr (Some m)
            | _ \<Rightarrow> Inl (JSError ''SyntaxError'')))"

fun malformed :: "'a result \<times> db \<Rightarrow> 'a result \<times> db" where
  "malformed (Inl e, s) = (Inl (CoreError CLIENT_MALFORMED_INPUT (error_message e)), s)"
| "malformed (Inr r, s) = (Inr r, s)"

definition outdate_files :: "mongo \<Rightarrow> string \<Rightarrow> db \<Rightarrow> unit result \<times> db" where
  "outdate_files M studyId s =
     (let (ok, c) = updateMany (cache_dr M) (cache_collection s)
            (\<lambda>d. js_get (cache_keys d) ''studyId'' = JStr studyId \<and> js_get (cache_keys d) ''query'' = JStr ''getStudyFiles'')
            (\<lambda>d. d\<lparr>cache_status := OUTDATED\<rparr>)
      in (if ok then Inr () else Inl MongoServerError, s\<lparr>cache_collection := c\<rparr>))"

definition upload_entry ::
    "env \<Rightarrow> mongo \<Rightarrow> IUserWithoutToken \<Rightarrow> string \<Rightarrow> string \<Rightarrow> IFile \<Rightarrow> jobject option \<Rightarrow> db \<Rightarrow> IFile result \<times> db" where
  "upload_entry E M req studyId fid fileEntry props s =
     (case uploadData E M (Some req) studyId
             [\<lparr>input_fieldId = fid, input_value = doc_id fileEntry, input_properties = props\<rparr>] s of
        (Inl e, s1) \<Rightarrow> (Inl e, s1)
      | (Inr res, s1) \<Rightarrow>
          if \<not> resp_successful (hd res)
          then (Inl (CoreError CLIENT_MALFORMED_INPUT (nullish (resp_description (hd res)) ''Failed to upload file.'')), s1)
          else (case outdate_files M studyId s1 of
                  (Inl e, s2) \<Rightarrow> (Inl e, s2)
                | (Inr _, s2) \<Rightarrow> (Inr fileEntry, s2)))"

text \<open>The guards of both operations: some role in the study, and a study that is alive.\<close>

definition member_guard :: "mongo \<Rightarrow> requester \<Rightarrow> string \<Rightarrow> db \<Rightarrow> (IUserWithoutToken \<times> IRole list \<times> IStudy) result" where
  "member_guard M requester studyId s =
     (case requester of
        None \<Rightarrow> Inl (core_error NOT_LOGGED_IN)
      | Some req \<Rightarrow>
     (case getRolesOfUser M s (Some req) (doc_id req) (Some studyId) of
        Inl e \<Rightarrow> Inl e
      | Inr roles \<Rightarrow>
     if roles = [] then Inl (core_error NO_PERMISSION_ERROR)
     else
     (case findOne (studies_dr M) (studies_collection s) (\<lambda>d. doc_id d = studyId \<and> alive d) of
        None \<Rightarrow> Inl (CoreError CLIENT_ACTION_ON_NON_EXISTENT_ENTRY ''Study does not exist.'')
      | Some study \<Rightarrow> Inr (req, roles, study))))"

definition uploadFileData ::
    "env \<Rightarrow> mongo \<Rightarrow> requester \<Rightarrow> string \<Rightarrow> FileUpload \<Rightarrow> string \<Rightarrow> string option \<Rightarrow> db \<Rightarrow> IFile result \<times> db" where
  "uploadFileData E M requester studyId file fid props s =
     (case member_guard M requester studyId s of
        Inl e \<Rightarrow> (Inl e, s)
      | Inr (req, roles, study) \<Rightarrow>
     (case file_type_of_extension (filename file) of
        None \<Rightarrow> (Inl (CoreError CLIENT_MALFORMED_INPUT
           (''File type '' @ map upper (file_extension (filename file)) @ '' not supported.'')), s)
      | Some ftype \<Rightarrow>
          malformed
            (case parse_object props of
               Inl e \<Rightarrow> (Inl e, s)
             | Inr parsed \<Rightarrow>
                 (case uploadFile E M req (Some studyId) None file ftype STUDY_DATA_FILE None parsed s of
                    (Inl e, s1) \<Rightarrow> (Inl e, s1)
                  | (Inr fileEntry, s1) \<Rightarrow>
                      upload_entry E M req studyId fid fileEntry
                        (map_option (\<lambda>m. js_set m ''FileName'' (JStr (fileName fileEntry))) parsed) s1))))"

definition uploadFileDataWithFileEntry ::
    "env \<Rightarrow> mongo \<Rightarrow> requester \<Rightarrow> string \<Rightarrow> string \<Rightarrow> IFile \<Rightarrow> string option \<Rightarrow> db \<Rightarrow> IFile result \<times> db" where
  "uploadFileDataWithFileEntry E M requester studyId fid fileEntry props s =
     (case member_guard M requester studyId s of
        Inl e \<Rightarrow> (Inl e, s)
      | Inr (req, roles, study) \<Rightarrow>
          malformed
            (case parse_object props of
               Inl e \<Rightarrow> (Inl e, s)
             | Inr parsed \<Rightarrow> upload_entry E M req studyId fid fileEntry (Some (nullish parsed [])) s))"

end
