(* ===== verification/DataQuery.thy ===== *)
theory DataQuery
  imports DataClips
begin

section \<open>Reading data clips (\<open>dataCore.ts\<close>)\<close>

text \<open>
  \<open>getDataByRoles\<close> turns the data permissions of the requester's roles into a filter of the database
  and asks, field by field, for the latest document of each group of property values. \<open>getStudyData\<close>
  and \<open>getStudyFiles\<close> are built on it, with a cache of answers as JSON files in the object store.
\<close>

subsection \<open>The filter of the roles\<close>

text \<open>
  A regular expression in a filter matches a string, or an array with a string that matches. The
  names of properties hold no dots (a dotted name would be a path).
\<close>

definition clip_property :: "IData \<Rightarrow> string \<Rightarrow> jsval" where
  "clip_property d k = (case data_properties d of JObj m \<Rightarrow> js_get m k | _ \<Rightarrow> JUndef)"

definition regex_in :: "(string \<Rightarrow> bool) list \<Rightarrow> jsval \<Rightarrow> bool" where
  "regex_in tests v =
     (let hit = (\<lambda>v. case v of JStr x \<Rightarrow> list_ex (\<lambda>t. t x) tests | _ \<Rightarrow> False)
      in hit v \<or> (case v of JArr xs \<Rightarrow> list_ex hit xs | _ \<Rightarrow> False))"

fun property_filter :: "env \<Rightarrow> (string \<times> string list) list \<Rightarrow> (IData \<Rightarrow> bool) result" where
  "property_filter E [] = Inr (\<lambda>d. True)"
| "property_filter E ((k, pats) # rest) =
     (case compile_all E pats of
        Inl e \<Rightarrow> Inl e
      | Inr tests \<Rightarrow>
          (case property_filter E rest of
             Inl e \<Rightarrow> Inl e
           | Inr f \<Rightarrow> Inr (\<lambda>d. regex_in tests (clip_property d k) \<and> f d)))"

definition permission_filter :: "env \<Rightarrow> IDataPermission \<Rightarrow> (IData \<Rightarrow> bool) result" where
  "permission_filter E dp =
     (case compile_all E (perm_fields dp) of
        Inl e \<Rightarrow> Inl e
      | Inr tests \<Rightarrow>
          (case property_filter E (dataProperties dp) of
             Inl e \<Rightarrow> Inl e
           | Inr f \<Rightarrow> Inr (\<lambda>d. list_ex (\<lambda>t. t (data_fieldId d)) tests \<and> f d \<and>
               (includeUnVersioned dp \<or> data_dataVersion d \<noteq> None))))"

text \<open>Data permissions without field patterns are passed over.\<close>

fun permissionArr :: "env \<Rightarrow> IDataPermission list \<Rightarrow> (IData \<Rightarrow> bool) list result" where
  "permissionArr E [] = Inr []"
| "permissionArr E (dp # dps) =
     (if perm_fields dp = [] then permissionArr E dps
      else (case permission_filter E dp of
              Inl e \<Rightarrow> Inl e
            | Inr f \<Rightarrow> (case permissionArr E dps of Inl e \<Rightarrow> Inl e | Inr fs \<Rightarrow> Inr (f # fs))))"

text \<open>\<open>None\<close> where a role leaves no permission at all: then there is nothing to read.\<close>

fun roleArr :: "env \<Rightarrow> IRole list \<Rightarrow> (IData \<Rightarrow> bool) list option result" where
  "roleArr E [] = Inr (Some [])"
| "roleArr E (r # rs) =
     (case permissionArr E (dataPermissions r) of
        Inl e \<Rightarrow> Inl e
      | Inr fs \<Rightarrow>
          if fs = [] then Inr None
          else (case roleArr E rs of
                  Inl e \<Rightarrow> Inl e
                | Inr None \<Rightarrow> Inr None
                | Inr (Some gs) \<Rightarrow> Inr (Some ((\<lambda>d. list_ex (\<lambda>f. f d) fs) # gs))))"

subsection \<open>\<open>getDataByRoles\<close>\<close>

text \<open>\<open>availableFieldIds.some(el => new RegExp(el).test(fieldId))\<close>.\<close>

fun some_matches :: "env \<Rightarrow> string list \<Rightarrow> string \<Rightarrow> bool result" where
  "some_matches E [] v = Inr False"
| "some_matches E (re # res) v =
     (case RegExp E re of
        None \<Rightarrow> Inl (JSError ''SyntaxError'')
      | Some test \<Rightarrow> if test v then Inr True else some_matches E res v)"

definition field_available :: "env \<Rightarrow> IField list \<Rightarrow> string \<Rightarrow> bool result" where
  "field_available E avail fid =
     (if fid \<in> set (map field_fieldId avail) then Inr True
      else some_matches E (js_keys (map (\<lambda>f. (field_fieldId f, JUndef)) avail)) fid)"

text \<open>
  The values that group the documents of a field: those of the properties the field declares. The
  member of an object that has no field (see \<open>object_members\<close>) declares none.
\<close>

definition group_key :: "IField option \<Rightarrow> IData \<Rightarrow> jsval list" where
  "group_key field d =
     (case field of
        None \<Rightarrow> []
      | Some f \<Rightarrow> map (\<lambda>p. clip_property d (property_name p)) (nullish (field_properties f) []))"

text \<open>
  One field: the documents of the field in the versions that a role lets the requester see or that
  the requester made, the latest of each group, if that one is alive. A database refuses the empty
  disjunction.
\<close>

definition latest_clips :: "IField option \<Rightarrow> IData list \<Rightarrow> IData list" where
  "latest_clips field ds = group_first (group_key field) (newest_first ds)"

definition queryField ::
    "env \<Rightarrow> IData driver \<Rightarrow> IData list \<Rightarrow> IUserWithoutToken \<Rightarrow> (IData \<Rightarrow> bool) list \<Rightarrow> string
     \<Rightarrow> string option list \<Rightarrow> IField list \<Rightarrow> string \<Rightarrow> IData list result" where
  "queryField E dr c req filters studyId versions avail fid =
     (case field_available E avail fid of
        Inl e \<Rightarrow> Inl e
      | Inr available \<Rightarrow>
          if \<not> available \<or> find_field avail fid = None \<and> fid \<notin> set object_members then Inr []
          else if filters = [] then Inl MongoServerError
          else Inr (filter alive (latest_clips (find_field avail fid)
                 (find_many dr c (\<lambda>d. data_studyId d = studyId \<and> data_dataVersion d \<in> set versions \<and>
                    data_fieldId d = fid \<and> (list_ex (\<lambda>f. f d) filters \<or> createdUser (life d) = doc_id req))))))"

fun query_all :: "(string \<Rightarrow> 'a list result) \<Rightarrow> string list \<Rightarrow> 'a list result" where
  "query_all q [] = Inr []"
| "query_all q (fid # fids) =
     (case q fid of
        Inl e \<Rightarrow> Inl e
      | Inr ds \<Rightarrow> (case query_all q fids of Inl e \<Rightarrow> Inl e | Inr es \<Rightarrow> Inr (ds @ es)))"

definition field_keys :: "IField list \<Rightarrow> string list" where
  "field_keys avail = property_order (remdups (map field_fieldId avail))"

definition getDataByRoles ::
    "env \<Rightarrow> mongo \<Rightarrow> IUserWithoutToken \<Rightarrow> IRole list \<Rightarrow> string \<Rightarrow> string option list \<Rightarrow> string list option \<Rightarrow> bool
     \<Rightarrow> db \<Rightarrow> IData list result" where
  "getDataByRoles E M req roles studyId versions fieldIds fromCold s =
     (case roleArr E roles of
        Inl e \<Rightarrow> Inl e
      | Inr None \<Rightarrow> Inr []
      | Inr (Some filters) \<Rightarrow>
          (case getStudyFields E M (Some req) studyId (Versions versions) None s of
             Inl e \<Rightarrow> Inl e
           | Inr avail \<Rightarrow>
               query_all
                 (queryField E (if fromCold then colddata_dr M else data_dr M)
                    (if fromCold then colddata_collection s else data_collection s) req filters studyId versions avail)
                 (nullish fieldIds (field_keys avail))))"

subsection \<open>\<open>getDataLatest\<close>\<close>

text \<open>
  The same on the cold collection and in all versions, but deletions are not left out, and a field
  id that only matches the id of an available field as a pattern throws.
\<close>

definition queryLatest ::
    "env \<Rightarrow> mongo \<Rightarrow> IUserWithoutToken \<Rightarrow> (IData \<Rightarrow> bool) list \<Rightarrow> string \<Rightarrow> IField list \<Rightarrow> db \<Rightarrow> string
     \<Rightarrow> IData list result" where
  "queryLatest E M req filters studyId avail s fid =
     (case field_available E avail fid of
        Inl e \<Rightarrow> Inl e
      | Inr available \<Rightarrow>
          if \<not> available then Inr []
          else if find_field avail fid = None \<and> fid \<notin> set object_members then Inl (JSError ''TypeError'')
          else if filters = [] then Inl MongoServerError
          else Inr (latest_clips (find_field avail fid)
                 (find_many (colddata_dr M) (colddata_collection s) (\<lambda>d. data_studyId d = studyId \<and>
                    data_fieldId d = fid \<and> (list_ex (\<lambda>f. f d) filters \<or> createdUser (life d) = doc_id req)))))"

definition study_config :: "mongo \<Rightarrow> string \<Rightarrow> db \<Rightarrow> IConfig option" where
  "study_config M studyId s =
     findOne (configs_dr M) (configs_collection s) (\<lambda>c. config_type c = STUDYCONFIG \<and> config_key c = Some studyId)"

definition getDataLatest ::
    "env \<Rightarrow> mongo \<Rightarrow> requester \<Rightarrow> string \<Rightarrow> string list option \<Rightarrow> db \<Rightarrow> IData list result" where
  "getDataLatest E M requester studyId selectedFieldIds s =
     (case member_guard M requester studyId s of
        Inl e \<Rightarrow> Inl e
      | Inr (req, roles, study) \<Rightarrow>
     (if study_config M studyId s = None
      then Inl (CoreError CLIENT_ACTION_ON_NON_EXISTENT_ENTRY ''Study config not found.'')
      else
     (case roleArr E roles of
        Inl e \<Rightarrow> Inl e
      | Inr None \<Rightarrow> Inr []
      | Inr (Some filters) \<Rightarrow>
     (case getStudyFields E M (Some req) studyId
             (Versions (map (\<lambda>v. Some (doc_id v)) (dataVersions study) @ [None])) None s of
        Inl e \<Rightarrow> Inl e
      | Inr avail \<Rightarrow>
          query_all (queryLatest E M req filters studyId avail s) (nullish selectedFieldIds (field_keys avail))))))"

subsection \<open>\<open>genVersioningAggregation\<close>\<close>

definition variable_verifier :: "string \<Rightarrow> enumConditionOps \<Rightarrow> IValueVerifier" where
  "variable_verifier v c =
     \<lparr>formula = IAST VARIABLE None (JStr v) [] None, condition = c, verifier_value = JStr '''', verifier_parameters = []\<rparr>"

definition genVersioningAggregation :: "string list \<Rightarrow> bool \<Rightarrow> transformation list" where
  "genVersioningAggregation keys hasVersioning =
     (if hasVersioning then [] else [FILTER [(''deleted'', [variable_verifier ''dataVersion'' GENERALISNOTNULL])]]) @
     (if keys = [] then []
      else [GROUP keys False, LEAVEONE (IAST VARIABLE None (JStr ''life.createdTime'') [] None) True,
            FILTER [(''deleted'', [variable_verifier ''life.deletedTime'' GENERALISNULL])]])"

subsection \<open>The cache\<close>

text \<open>
  \<open>normalize\<close> sorts the arrays (by their elements as strings, \<open>undefined\<close> last) and the keys of the
  objects of a value, at every level.
\<close>

fun insert_by :: "('a \<Rightarrow> 'a \<Rightarrow> bool) \<Rightarrow> 'a \<Rightarrow> 'a list \<Rightarrow> 'a list" where
  "insert_by before x [] = [x]"
| "insert_by before x (y # ys) = (if before y x then y # insert_by before x ys else x # y # ys)"

definition sort_by :: "('a \<Rightarrow> 'a \<Rightarrow> bool) \<Rightarrow> 'a list \<Rightarrow> 'a list" where
  "sort_by before xs = foldr (insert_by before) xs []"

definition string_before :: "env \<Rightarrow> jsval \<Rightarrow> jsval \<Rightarrow> bool" where
  "string_before E x y \<longleftrightarrow> x \<noteq> JUndef \<and> (y = JUndef \<or> str_less (js_String E x) (js_String E y))"

fun normalize :: "env \<Rightarrow> jsval \<Rightarrow> jsval" where
  "normalize E (JArr xs) = JArr (sort_by (string_before E) (map (normalize E) xs))"
| "normalize E (JObj m) =
     (let n = map (\<lambda>(k, v). (k, normalize E v)) m
      in JObj (map (\<lambda>k. (k, js_get n k)) (sort_by str_less (js_keys m))))"
| "normalize E v = v"

definition computeHash :: "env \<Rightarrow> jsval \<Rightarrow> string" where
  "computeHash E v = sha256 E (JSON_stringify E (normalize E v))"

definition convertToBufferAndUpload ::
    "env \<Rightarrow> mongo \<Rightarrow> IUserWithoutToken \<Rightarrow> jsval \<Rightarrow> db \<Rightarrow> IFile result \<times> db" where
  "convertToBufferAndUpload E M req v s =
     (let (fname, s1) = uuid E s
      in uploadFile E M req None None
           \<lparr>filename = fname, stream_chunks = [JSON_stringify E v], stream_error = None\<rparr>
           JSON CACHE None None s1)"

definition getJsonFileContents :: "env \<Rightarrow> string \<Rightarrow> string \<Rightarrow> db \<Rightarrow> jsval result" where
  "getJsonFileContents E bucket objUri s =
     (case objStore_downloadFile E bucket objUri s of
        Inl e \<Rightarrow> Inl (JSError ''Failed to fetch and parse JSON file.'')
      | Inr x \<Rightarrow>
          (case JSON_parse x of
             None \<Rightarrow> Inl (JSError ''Failed to fetch and parse JSON file.'')
           | Some v \<Rightarrow> Inr v))"

text \<open>The latest entry for a hash that is in use, and storing a new one.\<close>

definition cache_hit :: "mongo \<Rightarrow> string \<Rightarrow> db \<Rightarrow> ICache option" where
  "cache_hit M h s =
     (case newest_first (find_many (cache_dr M) (cache_collection s)
             (\<lambda>d. keyHash d = h \<and> alive d \<and> cache_status d = INUSE_CACHE)) of
        [] \<Rightarrow> None
      | d # ds \<Rightarrow> Some d)"

definition store_cache ::
    "env \<Rightarrow> mongo \<Rightarrow> IUserWithoutToken \<Rightarrow> string \<Rightarrow> jobject \<Rightarrow> jsval \<Rightarrow> db \<Rightarrow> unit result \<times> db" where
  "store_cache E M req h keys content s =
     (case convertToBufferAndUpload E M req content s of
        (Inl e, s1) \<Rightarrow> (Inl e, s1)
      | (Inr info, s1) \<Rightarrow>
          (let (newId, s2) = uuid E s1; (now, s3) = Date_now E s2;
               entry = \<lparr>doc_id = newId, life = new_life now (doc_id req), metadata = [], keyHash = h,
                 cache_keys = keys, cache_uri = uri info, cache_status = INUSE_CACHE\<rparr>
           in case insertOne (cache_dr M) (cache_collection s3) entry of
                None \<Rightarrow> (Inl MongoServerError, s3)
              | Some c \<Rightarrow> (Inr (), s3\<lparr>cache_collection := c\<rparr>)))"

subsection \<open>\<open>getStudyData\<close>\<close>

text \<open>
  A clip as it is answered, without id, life and metadata; and the result of an aggregation as a
  value. An aggregation comes as the object of the client and as the chains it stands for.
\<close>

definition null_or :: "string option \<Rightarrow> jsval" where
  "null_or v = (case v of None \<Rightarrow> JNull | Some x \<Rightarrow> JStr x)"

definition clip_object :: "IData \<Rightarrow> jobject" where
  "clip_object d = [(''studyId'', JStr (data_studyId d)), (''fieldId'', JStr (data_fieldId d)),
     (''dataVersion'', null_or (data_dataVersion d)), (''value'', data_value d), (''properties'', data_properties d)]"

fun render :: "heap \<Rightarrow> item tdata \<Rightarrow> jsval" where
  "render h (Flat xs) = JArr (map (deref h) xs)"
| "render h (Groups gs) = JArr (map (\<lambda>g. JArr (map (deref h) g)) gs)"

type_synonym aggregation = "jsval \<times> (string \<times> transformation list) list"

text \<open>The answer, and the clips as the aggregation leaves them.\<close>

definition aggregate_clips :: "env \<Rightarrow> aggregation option \<Rightarrow> IData list \<Rightarrow> (jsval \<times> jsval) result" where
  "aggregate_clips E agg ds =
     (let h = map clip_object ds; data = Flat (map Some [0..<length ds])
      in case agg of
           None \<Rightarrow> Inr (render h data, render h data)
         | Some (_, ops) \<Rightarrow>
             (case transformationAggregate E ops h data of
                Inl e \<Rightarrow> Inl e
              | Inr (rs, h1) \<Rightarrow> Inr (JObj (map (\<lambda>(k, r). (k, render h1 r)) rs), render h1 data)))"

fun version_json :: "version_arg \<Rightarrow> jsval" where
  "version_json No_Version = JUndef"
| "version_json Null_Version = JNull"
| "version_json (One_Version v) = JStr v"
| "version_json (Versions vs) = JArr (map null_or vs)"

definition requested_versions :: "IStudy \<Rightarrow> version_arg \<Rightarrow> string option list" where
  "requested_versions study v =
     (if v = No_Version then availableDataVersions study No_Version @ [None] else availableDataVersions study v)"

definition data_query_key ::
    "IUserWithoutToken \<Rightarrow> string \<Rightarrow> string list \<Rightarrow> version_arg \<Rightarrow> aggregation option \<Rightarrow> jsval" where
  "data_query_key req studyId fieldIds v agg =
     JObj [(''query'', JStr ''getStudyData''), (''requester'', JStr (doc_id req)), (''studyId'', JStr studyId),
       (''fieldIds'', JArr (map JStr fieldIds)), (''dataVersion'', version_json v),
       (''aggregation'', case agg of None \<Rightarrow> JUndef | Some (o1, _) \<Rightarrow> o1)]"

text \<open>
  With the cache, the raw clips are stored (as a property \<open>data\<close>), and what is stored is answered as it
  is; the stored keys also hold the whole requester, which nothing reads.
\<close>

definition fetch_data ::
    "env \<Rightarrow> mongo \<Rightarrow> IUserWithoutToken \<Rightarrow> IRole list \<Rightarrow> string \<Rightarrow> string option list \<Rightarrow> string list
     \<Rightarrow> aggregation option \<Rightarrow> bool \<Rightarrow> db \<Rightarrow> (jsval \<times> jsval) result" where
  "fetch_data E M req roles studyId versions fieldIds agg fromCold s =
     (case getDataByRoles E M req roles studyId versions (Some fieldIds) fromCold s of
        Inl e \<Rightarrow> Inl e
      | Inr ds \<Rightarrow> aggregate_clips E agg ds)"

definition data_cache_keys ::
    "string \<Rightarrow> string list \<Rightarrow> string option list \<Rightarrow> aggregation option \<Rightarrow> jobject" where
  "data_cache_keys studyId fieldIds versions agg =
     [(''query'', JStr ''getStudyData''), (''studyId'', JStr studyId), (''fieldIds'', JArr (map JStr fieldIds)),
      (''dataVersions'', JArr (map null_or versions)),
      (''aggregation'', case agg of None \<Rightarrow> JUndef | Some (o1, _) \<Rightarrow> o1)]"

definition getStudyData ::
    "env \<Rightarrow> mongo \<Rightarrow> requester \<Rightarrow> string \<Rightarrow> string list option \<Rightarrow> version_arg \<Rightarrow> aggregation option \<Rightarrow> bool \<Rightarrow> bool
     \<Rightarrow> bool \<Rightarrow> db \<Rightarrow> jsval result \<times> db" where
  "getStudyData E M requester studyId selectedFieldIds v agg useCache forceUpdate fromCold s =
     (case member_guard M requester studyId s of
        Inl e \<Rightarrow> (Inl e, s)
      | Inr (req, roles, study) \<Rightarrow>
     (if study_config M studyId s = None
      then (Inl (CoreError CLIENT_ACTION_ON_NON_EXISTENT_ENTRY ''Study config not found.''), s)
      else
     (let versions = requested_versions study v in
      case (case selectedFieldIds of
              Some ids \<Rightarrow> Inr ids
            | None \<Rightarrow> (case getStudyFields E M (Some req) studyId (Versions versions) None s of
                Inl e \<Rightarrow> Inl e
              | Inr avail \<Rightarrow> Inr (map field_fieldId avail))) of
        Inl e \<Rightarrow> (Inl e, s)
      | Inr fieldIds \<Rightarrow>
     (let h = computeHash E (data_query_key req studyId fieldIds v agg) in
      case (if useCache \<and> \<not> forceUpdate then cache_hit M h s else None) of
        Some d \<Rightarrow> (getJsonFileContents E ''cache'' (cache_uri d) s, s)
      | None \<Rightarrow>
     (case fetch_data E M req roles studyId versions fieldIds agg fromCold s of
        Inl e \<Rightarrow> (Inl e, s)
      | Inr (transformed, raw) \<Rightarrow>
          if \<not> useCache then (Inr transformed, s)
          else (case store_cache E M req h (data_cache_keys studyId fieldIds versions agg) (JObj [(''data'', raw)]) s of
                  (Inl e, s1) \<Rightarrow> (Inl e, s1)
                | (Inr _, s1) \<Rightarrow> (Inr transformed, s1)))))))"

end
