(* ===== verification/DataReports.thy ===== *)
theory DataReports
  imports DataQuery
begin

section \<open>Files, summaries and logs of a study (\<open>dataCore.ts\<close>, \<open>logCore.ts\<close>)\<close>

text \<open>
  Two more queries with a cache, and the log. What goes into the cache is written as JSON, so the
  documents that are part of a key or of an answer are encoded as values here (without the \<open>_id\<close>
  that the database adds, which the code never reads).
\<close>

subsection \<open>Encodings\<close>

abbreviation jint :: "int \<Rightarrow> jsval" where
  "jint n \<equiv> JNum (Fin (of_int n))"

abbreviation jnat :: "nat \<Rightarrow> jsval" where
  "jnat n \<equiv> JNum (Fin (of_nat n))"

definition life_json :: "ILifeCircle \<Rightarrow> jsval" where
  "life_json l = JObj [(''createdTime'', jint (createdTime l)), (''createdUser'', JStr (createdUser l)),
     (''deletedTime'', case deletedTime l of None \<Rightarrow> JNull | Some t \<Rightarrow> jint t),
     (''deletedUser'', case deletedUser l of None \<Rightarrow> JNull | Some (Uid u) \<Rightarrow> JStr u | Some (UserDoc u) \<Rightarrow> JObj [(''id'', JStr u)])]"

fun studyRole_string :: "enumStudyRoles \<Rightarrow> string" where
  "studyRole_string STUDY_MANAGER = ''STUDY_MANAGER''"
| "studyRole_string STUDY_ASSISTANT = ''STUDY_ASSISTANT''"
| "studyRole_string STUDY_USER = ''STUDY_USER''"

definition permission_json :: "IDataPermission \<Rightarrow> jsval" where
  "permission_json dp = JObj [(''fields'', JArr (map JStr (perm_fields dp))),
     (''dataProperties'', JObj (map (\<lambda>(k, ps). (k, JArr (map JStr ps))) (dataProperties dp))),
     (''includeUnVersioned'', JBool (includeUnVersioned dp)), (''permission'', jint (permission dp))]"

definition role_json :: "IRole \<Rightarrow> jsval" where
  "role_json r = JObj [(''id'', JStr (doc_id r)), (''studyId'', JStr (role_studyId r)), (''name'', JStr (role_name r)),
     (''description'', null_or (role_description r)),
     (''dataPermissions'', JArr (map permission_json (dataPermissions r))),
     (''studyRole'', JStr (studyRole_string (studyRole r))), (''users'', JArr (map JStr (role_users r))),
     (''life'', life_json (life r)), (''metadata'', JObj (metadata r))]"

text \<open>A file as \<open>getStudyFiles\<close> projects it: its type, category and deletion are left out.\<close>

definition file_json :: "IFile \<Rightarrow> jsval" where
  "file_json f = JObj [(''id'', JStr (doc_id f)), (''studyId'', null_or (file_studyId f)), (''userId'', null_or (file_userId f)),
     (''fileName'', JStr (fileName f)), (''fileSize'', jint (fileSize f)), (''description'', null_or (file_description f)),
     (''properties'', JObj (file_properties f)), (''uri'', JStr (uri f)), (''hash'', JStr (hash f)),
     (''life'', JObj [(''createdTime'', jint (createdTime (life f))), (''createdUser'', JStr (createdUser (life f)))]),
     (''metadata'', JObj (metadata f))]"

subsection \<open>\<open>getStudyFiles\<close>\<close>

text \<open>The ids are looked up in batches, and each batch is one query.\<close>

definition batchSize :: nat where
  "batchSize = 10000"

function batches :: "'a list \<Rightarrow> 'a list list" where
  "batches xs = (if xs = [] then [] else take batchSize xs # batches (drop batchSize xs))"
  by auto

termination by (relation "measure length") (auto simp: batchSize_def)

declare batches.simps [simp del]

fun value_strings :: "env \<Rightarrow> jsval \<Rightarrow> string list" where
  "value_strings E (JArr xs) =
     map (\<lambda>x. js_String E (case x of JObj m \<Rightarrow> js_get m ''value'' | _ \<Rightarrow> JUndef)) xs"
| "value_strings E v = []"

definition read_readable :: "mongo \<Rightarrow> bool \<Rightarrow> db \<Rightarrow> IFile list \<Rightarrow> IFile list" where
  "read_readable M readable s fs =
     (if readable
      then (let users = find_many (users_dr M) (users_collection s) (\<lambda>u. True)
            in map (\<lambda>f. f\<lparr>life := (life f)\<lparr>createdUser := readable_user users (createdUser (life f))\<rparr>\<rparr>) fs)
      else fs)"

definition readFiles ::
    "env \<Rightarrow> mongo \<Rightarrow> IUserWithoutToken \<Rightarrow> string \<Rightarrow> string list option \<Rightarrow> string option list \<Rightarrow> bool \<Rightarrow> db
     \<Rightarrow> IFile list result" where
  "readFiles E M req studyId selectedFieldIds versions readable s =
     (case getStudyFields E M (Some req) studyId (Versions versions) None s of
        Inl e \<Rightarrow> Inl e
      | Inr avail \<Rightarrow>
     (let files = map field_fieldId (filter (\<lambda>f. dataType f = FILE_TYPE) avail);
          fieldIds = (case selectedFieldIds of None \<Rightarrow> files | Some ids \<Rightarrow> filter (\<lambda>i. i \<in> set files) ids)
      in if fieldIds = [] then Inr []
         else (case fst (getStudyData E M (Some req) studyId (Some fieldIds) (Versions versions) None False False False s) of
                 Inl e \<Rightarrow> Inl e
               | Inr records \<Rightarrow>
                   Inr (read_readable M readable s
                     (concat (map (\<lambda>ids. find_many (files_dr M) (files_collection s) (\<lambda>f. doc_id f \<in> set ids))
                        (batches (value_strings E records))))))))"

text \<open>
  The key of the cache has the roles and the selection, but neither the versions nor whether the users
  are readable.
\<close>

definition files_query_key :: "string \<Rightarrow> IRole list \<Rightarrow> string list option \<Rightarrow> jobject" where
  "files_query_key studyId roles selectedFieldIds =
     [(''query'', JStr ''getStudyFiles''), (''studyId'', JStr studyId), (''roles'', JArr (map role_json roles)),
      (''fieldIds'', case selectedFieldIds of None \<Rightarrow> JUndef | Some ids \<Rightarrow> JArr (map JStr ids))]"

text \<open>An answer from the cache or a new one that is put there; \<open>part\<close> picks what is answered.\<close>

definition with_cache ::
    "env \<Rightarrow> mongo \<Rightarrow> IUserWithoutToken \<Rightarrow> jobject \<Rightarrow> jobject \<Rightarrow> bool \<Rightarrow> (jsval \<Rightarrow> jsval) \<Rightarrow> jsval result \<Rightarrow> db
     \<Rightarrow> jsval result \<times> db" where
  "with_cache E M req key keys forceUpdate part answer s =
     (let h = computeHash E (JObj key) in
      case (if forceUpdate then None else cache_hit M h s) of
        Some d \<Rightarrow>
          (case getJsonFileContents E ''cache'' (cache_uri d) s of
             Inl e \<Rightarrow> (Inl e, s)
           | Inr v \<Rightarrow> (Inr (part v), s))
      | None \<Rightarrow>
          (case answer of
             Inl e \<Rightarrow> (Inl e, s)
           | Inr v \<Rightarrow>
               (case store_cache E M req h keys v s of
                  (Inl e, s1) \<Rightarrow> (Inl e, s1)
                | (Inr _, s1) \<Rightarrow> (Inr (part v), s1))))"

definition property_or_undef :: "string \<Rightarrow> jsval \<Rightarrow> jsval" where
  "property_or_undef k v = (case v of JObj m \<Rightarrow> js_get m k | _ \<Rightarrow> JUndef)"

definition getStudyFiles ::
    "env \<Rightarrow> mongo \<Rightarrow> requester \<Rightarrow> string \<Rightarrow> string list option \<Rightarrow> version_arg \<Rightarrow> bool \<Rightarrow> bool \<Rightarrow> bool \<Rightarrow> db
     \<Rightarrow> jsval result \<times> db" where
  "getStudyFiles E M requester studyId selectedFieldIds v readable useCache forceUpdate s =
     (case member_guard M requester studyId s of
        Inl e \<Rightarrow> (Inl e, s)
      | Inr (req, roles, study) \<Rightarrow>
     (if study_config M studyId s = None
      then (Inl (CoreError CLIENT_ACTION_ON_NON_EXISTENT_ENTRY ''Study config not found.''), s)
      else
     (let answer = (case readFiles E M req studyId selectedFieldIds (requested_versions study v) readable s of
              Inl e \<Rightarrow> Inl e
            | Inr fs \<Rightarrow> Inr (JArr (map file_json fs)));
          key = files_query_key studyId roles selectedFieldIds
      in if useCache
         then with_cache E M req key key forceUpdate (property_or_undef ''files'')
                (case answer of Inl e \<Rightarrow> Inl e | Inr fs \<Rightarrow> Inr (JObj [(''files'', fs)])) s
         else (answer, s))))"

subsection \<open>\<open>getStudySummary\<close>\<close>

text \<open>
  \<open>countDocuments\<close>, and the number of documents of each user as the database groups them. A
  filter on \<open>null\<close> also finds missing values and arrays that hold \<open>null\<close>.
\<close>

definition is_null :: "jsval \<Rightarrow> bool" where
  "is_null v \<longleftrightarrow> v = JUndef \<or> value_matches JNull v"

definition count_data :: "mongo \<Rightarrow> db \<Rightarrow> (IData \<Rightarrow> bool) \<Rightarrow> nat" where
  "count_data M s q = length (find_many (data_dr M) (data_collection s) q)"

definition count_by :: "('a \<Rightarrow> string) \<Rightarrow> 'a list \<Rightarrow> jsval" where
  "count_by user ds = JArr (map (\<lambda>u. JObj [(''userId'', JStr u), (''count'', jnat (length (filter (\<lambda>d. user d = u) ds)))])
     (remdups (map user ds)))"

definition distinct_fields :: "mongo \<Rightarrow> db \<Rightarrow> (IField \<Rightarrow> bool) \<Rightarrow> nat" where
  "distinct_fields M s q =
     length (remdups (map field_fieldId (find_many (field_dictionary_dr M) (field_dictionary_collection s) q)))"

definition data_events :: "string list" where
  "data_events = [''GET_DATA_RECORDS'', ''GET_STUDY_FIELDS'', ''GET_STUDY'', ''data.getStudyFields'', ''data.getStudyData'',
     ''data.getStudyDataLatest'', ''data.getStudyFiles'']"

definition generatedSummary :: "mongo \<Rightarrow> string \<Rightarrow> db \<Rightarrow> jobject" where
  "generatedSummary M studyId s =
     (let records = int (count_data M s (\<lambda>d. data_studyId d = studyId));
          deletes = int (count_data M s (\<lambda>d. data_studyId d = studyId \<and> is_null (data_value d)));
          versionedDeletes = int (count_data M s
            (\<lambda>d. data_studyId d = studyId \<and> data_dataVersion d \<noteq> None \<and> is_null (data_value d)));
          unversioned = int (count_data M s (\<lambda>d. data_studyId d = studyId \<and> data_dataVersion d = None));
          unversionedDeletes = int (count_data M s
            (\<lambda>d. data_studyId d = studyId \<and> data_dataVersion d = None \<and> is_null (data_value d)));
          fields_all = int (distinct_fields M s (\<lambda>f. field_studyId f = studyId));
          fields_unversioned = int (distinct_fields M s (\<lambda>f. field_studyId f = studyId \<and> field_dataVersion f = None));
          uploads = find_many (data_dr M) (data_collection s) (\<lambda>d. data_studyId d = studyId);
          reads = find_many (log_dr M) (log_collection s)
            (\<lambda>l. property_value (log_parameters l) ''studyId'' = JStr studyId \<and> log_event l \<in> set data_events)
      in [(''numberOfDataRecords'', jint records), (''numberOfDataAdds'', jint (records - deletes)),
          (''numberOfDataDeletes'', jint deletes), (''numberOfVersionedRecords'', jint (records - unversioned)),
          (''numberOfVersionedAdds'', jint (records - unversioned - versionedDeletes)),
          (''numberOfVersionedDeletes'', jint versionedDeletes), (''numberOfUnversionedRecords'', jint unversioned),
          (''numberOfUnversionedAdds'', jint (unversioned - unversionedDeletes)),
          (''numberOfUnversionedDeletes'', jint unversionedDeletes), (''numberOfFields'', jint fields_all),
          (''numberOfVersionedFields'', jint (fields_all - fields_unversioned)),
          (''numberOfUnversionedFields'', jint fields_unversioned),
          (''dataByUploaders'', count_by (\<lambda>d. createdUser (life d)) uploads), (''dataByUsers'', count_by log_requester reads)])"

definition getStudySummary ::
    "env \<Rightarrow> mongo \<Rightarrow> requester \<Rightarrow> string \<Rightarrow> bool \<Rightarrow> bool \<Rightarrow> db \<Rightarrow> jsval result \<times> db" where
  "getStudySummary E M requester studyId useCache forceUpdate s =
     (case requester of
        None \<Rightarrow> (Inl (core_error NOT_LOGGED_IN), s)
      | Some req \<Rightarrow>
     (case getRolesOfUser M s (Some req) (doc_id req) (Some studyId) of
        Inl e \<Rightarrow> (Inl e, s)
      | Inr roles \<Rightarrow>
     if not_manager req roles then (Inl (core_error NO_PERMISSION_ERROR), s)
     else
     (case findOne (studies_dr M) (studies_collection s) (\<lambda>d. doc_id d = studyId \<and> alive d) of
        None \<Rightarrow> (Inl (CoreError CLIENT_ACTION_ON_NON_EXISTENT_ENTRY ''Study does not exist.''), s)
      | Some study \<Rightarrow>
          (let answer = Inr (JObj (generatedSummary M studyId s)) in
           if useCache
           then with_cache E M req
                  [(''query'', JStr ''getStudySummary''), (''dataVersion'', jint (currentDataVersion study)),
                   (''studyId'', JStr studyId)]
                  [(''query'', JStr ''getStudySummary''), (''studyId'', JStr studyId)] forceUpdate (\<lambda>v. v) answer s
           else (answer, s)))))"

subsection \<open>\<open>getLogs\<close>\<close>

text \<open>
  Every filter that is not given is left out, and so is the empty caller. An index range sorts by
  descending time and takes the entries from the first index up to the second (a \<open>limit\<close> of 0 means
  no limit to the database, and a negative skip is an error; a negative limit is taken as its size).
\<close>

definition in_opt :: "'a list option \<Rightarrow> 'a \<Rightarrow> bool" where
  "in_opt xs x \<longleftrightarrow> (case xs of None \<Rightarrow> True | Some ys \<Rightarrow> x \<in> set ys)"

definition log_filter ::
    "string option \<Rightarrow> enumEventType list option \<Rightarrow> enumAPIResolver list option \<Rightarrow> string list option
     \<Rightarrow> enumEventStatus list option \<Rightarrow> (int \<times> int) option \<Rightarrow> ILog \<Rightarrow> bool" where
  "log_filter caller types resolvers events statuses timeRange l \<longleftrightarrow>
     (truthy caller \<longrightarrow> Some (log_requester l) = caller) \<and> in_opt types (log_type l) \<and>
     (case resolvers of None \<Rightarrow> True | Some rs \<Rightarrow> (\<exists>r \<in> set rs. apiResolver l = Some r)) \<and>
     in_opt events (log_event l) \<and> in_opt statuses (log_status l) \<and>
     (case timeRange of None \<Rightarrow> True | Some (a, b) \<Rightarrow> a \<le> createdTime (life l) \<and> createdTime (life l) \<le> b)"

definition page :: "int \<Rightarrow> int \<Rightarrow> 'a list \<Rightarrow> 'a list result" where
  "page from to xs =
     (if from < 0 then Inl MongoServerError
      else if to = from then Inr (drop (nat from) xs)
      else Inr (take (nat \<bar>to - from\<bar>) (drop (nat from) xs)))"

definition getLogs ::
    "mongo \<Rightarrow> requester \<Rightarrow> string option \<Rightarrow> enumEventType list option \<Rightarrow> enumAPIResolver list option
     \<Rightarrow> string list option \<Rightarrow> enumEventStatus list option \<Rightarrow> (int \<times> int) option \<Rightarrow> (int \<times> int) option \<Rightarrow> db
     \<Rightarrow> ILog list result" where
  "getLogs M requester caller types resolvers events statuses indexRange timeRange s =
     (case requester of
        None \<Rightarrow> Inl (core_error NOT_LOGGED_IN)
      | Some req \<Rightarrow>
     (if user_type req \<noteq> ADMIN then Inl (core_error NO_PERMISSION_ERROR)
      else
     (let found = find_many (log_dr M) (log_collection s) (log_filter caller types resolvers events statuses timeRange)
      in case indexRange of
           None \<Rightarrow> Inr found
         | Some (from, to) \<Rightarrow> page from to (newest_first found))))"

end
