(* ===== verification/FieldProps.thy ===== *)
theory FieldProps
  imports StudyFields
begin

section \<open>The dictionary as clients see it\<close>

text \<open>
  The abstract view of a study's dictionary: the latest document of each field id, where it is alive.
  \<open>getStudyFields\<close> returns that view, and each operation changes it at one field id.
\<close>

subsection \<open>The view\<close>

definition field_docs :: "db \<Rightarrow> string \<Rightarrow> string option list \<Rightarrow> IField set" where
  "field_docs s studyId versions =
     {f \<in> set (field_dictionary_collection s). field_studyId f = studyId \<and> field_dataVersion f \<in> set versions}"

abbreviation created :: "'a IBase_scheme \<Rightarrow> int" where
  "created d \<equiv> createdTime (life d)"

definition shows_field :: "db \<Rightarrow> string \<Rightarrow> string option list \<Rightarrow> IField \<Rightarrow> bool" where
  "shows_field s studyId versions f \<longleftrightarrow>
     f \<in> field_docs s studyId versions \<and> alive f \<and>
     (\<forall>g \<in> field_docs s studyId versions. field_fieldId g = field_fieldId f \<longrightarrow> created g \<le> created f)"

lemma not_isl_Inr: "\<not> isl (fst p) \<Longrightarrow> \<exists>r. p = (Inr r, snd p)"
  by (cases p; cases "fst p") auto

text \<open>No two documents of a field were created in the same millisecond.\<close>

definition field_times_distinct :: "db \<Rightarrow> bool" where
  "field_times_distinct s \<longleftrightarrow>
     (\<forall>f \<in> set (field_dictionary_collection s). \<forall>g \<in> set (field_dictionary_collection s).
        field_studyId f = field_studyId g \<and> field_fieldId f = field_fieldId g \<and> created f = created g \<longrightarrow> f = g)"

subsection \<open>The pipeline\<close>

lemma set_newest_first [simp]: "set (newest_first ds) = set ds"
  by (simp add: newest_first_def)

lemma sorted_newest_first: "sorted_wrt (\<lambda>a b. created b \<le> created a) (newest_first ds)"
proof -
  have "sorted (map (\<lambda>d. - created d) (newest_first ds))" by (simp add: newest_first_def)
  then show ?thesis by (simp add: sorted_wrt_map)
qed

lemma group_first_sound:
  "sorted_wrt (\<lambda>a b. created b \<le> created a) xs \<Longrightarrow> x \<in> set (group_first key xs) \<Longrightarrow>
   x \<in> set xs \<and> (\<forall>y \<in> set xs. key y = key x \<longrightarrow> created y \<le> created x)"
proof (induction key xs rule: group_first.induct)
  case (2 key z zs)
  show ?case
  proof (cases "x = z")
    case True
    with 2(2) show ?thesis by auto
  next
    case False
    with 2(3) have "x \<in> set (group_first key (filter (\<lambda>y. key y \<noteq> key z) zs))" by simp
    with 2(1)[OF sorted_wrt_filter] 2(2) show ?thesis by auto
  qed
qed simp

lemma group_first_complete: "x \<in> set xs \<Longrightarrow> \<exists>y \<in> set (group_first key xs). key y = key x"
proof (induction key xs rule: group_first.induct)
  case (2 key z zs)
  then show ?case by (cases "key x = key z") auto
qed simp

lemma group_first_subset: "set (group_first key xs) \<subseteq> set xs"
  by (induction key xs rule: group_first.induct) auto

lemma group_first_distinct: "distinct (map key (group_first key xs))"
proof (induction key xs rule: group_first.induct)
  case (2 key x xs)
  then show ?case using group_first_subset[of key "filter (\<lambda>y. key y \<noteq> key x) xs"] by auto
qed simp

lemma distinct_map_filter_alive: "distinct (map f xs) \<Longrightarrow> distinct (map f (filter p xs))"
  by (induction xs) auto

lemma latest_documents:
  assumes "\<And>f g. f \<in> set ds \<Longrightarrow> g \<in> set ds \<Longrightarrow> key f = key g \<Longrightarrow> created f = created g \<Longrightarrow> f = g"
  shows "set (group_first key (newest_first ds)) =
    {f \<in> set ds. \<forall>g \<in> set ds. key g = key f \<longrightarrow> created g \<le> created f}" (is "?L = ?R")
proof
  show "?L \<subseteq> ?R" using group_first_sound[OF sorted_newest_first] by fastforce
  show "?R \<subseteq> ?L"
  proof
    fix f assume f: "f \<in> ?R"
    then obtain g where g: "g \<in> ?L" "key g = key f" using group_first_complete[of f "newest_first ds" key] by auto
    with group_first_sound[OF sorted_newest_first g(1)] f have "g \<in> set ds" "created f \<le> created g" by auto
    with f g(2) have "g = f" using assms[of g f] by force
    with g(1) show "f \<in> ?L" by simp
  qed
qed

lemma compile_all_iff:
  "compile_all E res = Inr tests \<Longrightarrow> list_ex (\<lambda>test. test x) tests \<longleftrightarrow> (\<exists>re \<in> set res. re_matches E re x)"
  by (induction res arbitrary: tests) (auto simp: re_matches_def split: option.splits sum.splits)

definition may_read_field :: "env \<Rightarrow> db \<Rightarrow> string \<Rightarrow> string \<Rightarrow> string \<Rightarrow> bool" where
  "may_read_field E s userId studyId fid \<longleftrightarrow>
     (\<exists>r. user_role s userId studyId r \<and> (\<exists>dp \<in> set (dataPermissions r). and (permission dp) 4 = 4 \<and>
        (\<exists>re \<in> set (perm_fields dp). re_matches E re fid)))"

context mongo_db
begin

lemma getStudyFields_docs:
  assumes "studyId \<noteq> []" and "getStudyFields E M (Some req) studyId dv None s = Inr fs"
  shows "\<exists>study ds. findOne (studies_dr M) (studies_collection s) (\<lambda>d. doc_id d = studyId \<and> alive d) = Some study \<and>
    fs = filter alive (group_first field_fieldId (newest_first ds)) \<and>
    set ds = {f \<in> field_docs s studyId (availableDataVersions study dv).
      may_read_field E s (doc_id req) studyId (field_fieldId f)}"
proof -
  from assms(2) obtain roles study tests where
    r: "getRolesOfUser M s (Some req) (doc_id req) (Some studyId) = Inr roles" and
    st: "findOne (studies_dr M) (studies_collection s) (\<lambda>d. doc_id d = studyId \<and> alive d) = Some study" and
    ts: "compile_all E (readable_patterns roles) = Inr tests" and
    fs: "fs = filter alive (group_first field_fieldId (newest_first
      (find_many (field_dictionary_dr M) (field_dictionary_collection s)
         (\<lambda>f. field_studyId f = studyId \<and> field_dataVersion f \<in> set (availableDataVersions study dv) \<and>
              list_ex (\<lambda>test. test (field_fieldId f)) tests))))"
    by (auto simp: getStudyFields_def Let_def split: sum.splits option.splits if_splits)
  have may: "list_ex (\<lambda>test. test fid) tests \<longleftrightarrow> may_read_field E s (doc_id req) studyId fid" for fid
    unfolding compile_all_iff[OF ts] may_read_field_def
    using getRolesOfUser_studyD[OF assms(1) r] by (auto simp: readable_patterns_def)
  show ?thesis
    by (rule exI[of _ study], rule exI, intro conjI, rule st, rule fs)
      (auto simp: field_dictionary_store.find_many_set field_docs_def may)
qed

text \<open>Every field it answers is shown; all of them are, where the order of the documents is settled.\<close>

lemma getStudyFields_sound:
  assumes "studyId \<noteq> []" and "getStudyFields E M (Some req) studyId dv None s = Inr fs" and "f \<in> set fs"
    and "findOne (studies_dr M) (studies_collection s) (\<lambda>d. doc_id d = studyId \<and> alive d) = Some study"
  shows "shows_field s studyId (availableDataVersions study dv) f \<and>
    may_read_field E s (doc_id req) studyId (field_fieldId f)"
proof -
  from getStudyFields_docs[OF assms(1,2)] assms(4) obtain ds where
    fs: "fs = filter alive (group_first field_fieldId (newest_first ds))" and
    ds: "set ds = {f \<in> field_docs s studyId (availableDataVersions study dv).
      may_read_field E s (doc_id req) studyId (field_fieldId f)}" by auto
  from assms(3) have f: "f \<in> set (group_first field_fieldId (newest_first ds))" "alive f" by (auto simp: fs)
  from group_first_sound[OF sorted_newest_first f(1)] f(2) show ?thesis
    unfolding set_newest_first ds by (auto simp: shows_field_def)
qed

lemma getStudyFields_spec:
  assumes "studyId \<noteq> []" and "field_times_distinct s"
    and "getStudyFields E M (Some req) studyId dv None s = Inr fs"
  shows "\<exists>study \<in> set (studies_collection s). doc_id study = studyId \<and> alive study \<and>
    distinct (map field_fieldId fs) \<and>
    set fs = {f. shows_field s studyId (availableDataVersions study dv) f \<and>
      may_read_field E s (doc_id req) studyId (field_fieldId f)}"
proof -
  from getStudyFields_docs[OF assms(1,3)] obtain study ds where
    st: "findOne (studies_dr M) (studies_collection s) (\<lambda>d. doc_id d = studyId \<and> alive d) = Some study" and
    fs: "fs = filter alive (group_first field_fieldId (newest_first ds))" and
    ds: "set ds = {f \<in> field_docs s studyId (availableDataVersions study dv).
      may_read_field E s (doc_id req) studyId (field_fieldId f)}" by blast
  have "set (group_first field_fieldId (newest_first ds)) =
      {f \<in> set ds. \<forall>g \<in> set ds. field_fieldId g = field_fieldId f \<longrightarrow> created g \<le> created f}"
    by (rule latest_documents) (use assms(2) in \<open>auto simp: field_times_distinct_def ds field_docs_def\<close>)
  then have "set fs = {f. shows_field s studyId (availableDataVersions study dv) f \<and>
      may_read_field E s (doc_id req) studyId (field_fieldId f)}"
    unfolding fs ds by (auto simp: shows_field_def)
  moreover have "distinct (map field_fieldId fs)"
    unfolding fs by (rule distinct_map_filter_alive) (rule group_first_distinct)
  ultimately show ?thesis using studies_store.findOne_Some[OF st] by blast
qed

end

subsection \<open>Adding a document\<close>

lemma shows_field_insert:
  assumes "set (field_dictionary_collection s') = insert e (set (field_dictionary_collection s))"
    and "field_dataVersion e = None" and "None \<in> set versions"
    and "\<And>f. f \<in> set (field_dictionary_collection s) \<Longrightarrow> field_studyId f = field_studyId e \<Longrightarrow>
      field_fieldId f = field_fieldId e \<Longrightarrow> created f < created e"
  shows "shows_field s' studyId versions f \<longleftrightarrow>
    (if studyId = field_studyId e \<and> field_fieldId f = field_fieldId e then f = e \<and> alive e
     else shows_field s studyId versions f)"
proof (cases "studyId = field_studyId e")
  case True
  have docs: "field_docs s' studyId versions = insert e (field_docs s studyId versions)"
    using assms(1-3) True by (auto simp: field_docs_def)
  have later: "created g < created e" if "g \<in> field_docs s studyId versions" "field_fieldId g = field_fieldId e" for g
    using assms(4) that True by (auto simp: field_docs_def)
  show ?thesis
  proof (cases "field_fieldId f = field_fieldId e")
    case same: True
    show ?thesis
    proof (cases "f = e")
      case other: False
      then have "\<not> shows_field s' studyId versions f"
        using later[of f] same by (auto simp: shows_field_def docs)
      with other True same show ?thesis by simp
    qed (use True later docs[unfolded True] in \<open>auto simp: shows_field_def intro: less_imp_le\<close>)
  next
    case False
    with docs[unfolded True] True show ?thesis by (auto simp: shows_field_def)
  qed
next
  case False
  then have "field_docs s' studyId versions = field_docs s studyId versions"
    using assms(1) by (auto simp: field_docs_def)
  with False show ?thesis by (simp add: shows_field_def)
qed

text \<open>A view of released versions only does not see a document without a version.\<close>

lemma shows_field_released:
  "set (field_dictionary_collection s') = insert e (set (field_dictionary_collection s)) \<Longrightarrow>
     field_dataVersion e = None \<Longrightarrow> None \<notin> set versions \<Longrightarrow>
     shows_field s' studyId versions f = shows_field s studyId versions f"
  by (auto simp: shows_field_def field_docs_def)

context mongo_db
begin

lemma insert_fieldD:
  assumes "insert_field M f answer s = (Inr r, s')"
  shows "r = answer \<and> set (field_dictionary_collection s') = insert f (set (field_dictionary_collection s)) \<and>
    (\<exists>c. s' = s\<lparr>field_dictionary_collection := c\<rparr>)"
  using assms by (auto simp: insert_field_def dest: field_dictionary_store.insertOne_set split: option.splits)

end

text \<open>Drawing ids and reading the clock changes no collection.\<close>

lemma draw_ids_fields [simp]:
  "field_dictionary_collection (draw_ids E n s) = field_dictionary_collection s"
  "tick (draw_ids E n s) = tick s"
  by (induction n arbitrary: s) (simp_all add: uuid_def)

lemma options_with_id_fields:
  "options_with_id E u opts s = (os, s') \<Longrightarrow>
   field_dictionary_collection s' = field_dictionary_collection s \<and> tick s \<le> tick s'"
proof (induction opts arbitrary: s os s')
  case (Cons p opts)
  obtain c d where p: "p = (c, d)" by (cases p)
  obtain rest s3 where rec: "options_with_id E u opts (snd (Date_now E (snd (uuid E s)))) = (rest, s3)" by fastforce
  from Cons.prems have "s' = s3"
    by (simp add: p Let_def split_beta rec[simplified])
  with Cons.IH[OF rec] show ?case by (simp add: uuid_def Date_now_def)
qed simp

lemma categoricalOptionsWithId_fields:
  "categoricalOptionsWithId E u given otherwise s = (os, s') \<Longrightarrow>
   field_dictionary_collection s' = field_dictionary_collection s \<and> tick s \<le> tick s'"
  by (auto simp: categoricalOptionsWithId_def Let_def split: option.splits prod.splits dest: options_with_id_fields)

lemma validateFieldEntry_fields:
  "validateFieldEntry E i s = (errs, s') \<Longrightarrow>
   field_dictionary_collection s' = field_dictionary_collection s \<and> tick s' = tick s"
  by (auto simp: validateFieldEntry_def Let_def split: option.splits if_splits)


definition earlier_docs :: "db \<Rightarrow> string \<Rightarrow> string \<Rightarrow> int \<Rightarrow> bool" where
  "earlier_docs s studyId fid t \<longleftrightarrow>
     (\<forall>f \<in> set (field_dictionary_collection s). field_studyId f = studyId \<and> field_fieldId f = fid \<longrightarrow> created f < t)"

context mongo_db
begin

lemma deleteField_spec:
  assumes "deleteField E M (Some req) studyId fid s = (Inr r, s')"
  shows "\<exists>e. set (field_dictionary_collection s') = insert e (set (field_dictionary_collection s)) \<and>
    field_dataVersion e = None \<and> field_studyId e = studyId \<and> field_fieldId e = fid \<and> \<not> alive e \<and>
    created e = clock E (tick s)"
proof -
  let ?lf = "\<lambda>u. (new_life (clock E (tick s)) u)\<lparr>deletedTime := Some (clock E (Suc (tick s))), deletedUser := Some (Uid u)\<rparr>"
  from assms obtain field u answer where
    ins: "insert_field M (deleted_field field (uuid_gen E (uuid_next s)) (?lf u) studyId fid) answer
       (s\<lparr>uuid_next := Suc (uuid_next s), tick := Suc (Suc (tick s))\<rparr>) = (Inr r, s')"
    unfolding deleteField_def
    by (auto simp: Let_def uuid_def Date_now_def split: sum.splits list.splits if_splits)
  from insert_fieldD[OF ins] show ?thesis by (auto simp: deleted_field_def alive_def new_life_def)
qed

lemma editField_spec:
  assumes "editField E M (Some req) i s = (Inr r, s')"
  shows "\<exists>e n. set (field_dictionary_collection s') = insert e (set (field_dictionary_collection s)) \<and>
    field_dataVersion e = None \<and> field_studyId e = in_studyId i \<and> field_fieldId e = in_fieldId i \<and> alive e \<and>
    fieldName e = in_fieldName i \<and> dataType e = in_dataType i \<and> tick s \<le> n \<and> created e = clock E n"
proof -
  let ?d = "\<lambda>f. field_studyId f = in_studyId i \<and> field_fieldId f = in_fieldId i \<and> alive f"
  obtain u where u: "field_access E M (Some req) (in_studyId i) (in_fieldId i) 2 ''No permission to create this field.'' s = Inr u"
  proof (cases "field_access E M (Some req) (in_studyId i) (in_fieldId i) 2 ''No permission to create this field.'' s")
    case (Inl e)
    with assms show ?thesis by (simp only: editField_def sum.case prod.inject sum.distinct simp_thms)
  qed (rule that)
  obtain field where f: "findOne (field_dictionary_dr M) (field_dictionary_collection s) ?d = Some field"
  proof (cases "findOne (field_dictionary_dr M) (field_dictionary_collection s) ?d")
    case None
    with assms u show ?thesis by (simp only: editField_def sum.case option.case prod.inject sum.distinct simp_thms)
  qed (rule that)
  obtain errs s1 where st1: "validateFieldEntry E i s = (errs, s1)" by fastforce
  obtain opts s2 where st2: "categoricalOptionsWithId E (doc_id u) (in_categoricalOptions i) (categoricalOptions field) s1 = (opts, s2)"
    by fastforce
  obtain newId s3 where st3: "uuid E s2 = (newId, s3)" by fastforce
  obtain now s4 where st4: "Date_now E s3 = (now, s4)" by fastforce
  obtain answer where ins: "insert_field M (edited_field i field opts newId (new_life now (doc_id u))) answer s4 = (Inr r, s')"
    using assms u f st1 st2 st3 st4
    by (simp only: editField_def sum.case option.case Let_def prod.case prod.inject sum.distinct simp_thms split: if_splits)
  have s4: "field_dictionary_collection s4 = field_dictionary_collection s2" "now = clock E (tick s2)"
    using st3 st4 by (auto simp: uuid_def Date_now_def)
  have s2: "field_dictionary_collection s2 = field_dictionary_collection s" "tick s \<le> tick s2"
    using validateFieldEntry_fields[OF st1] categoricalOptionsWithId_fields[OF st2] by simp_all
  show ?thesis
    using insert_fieldD[OF ins] s2(2)
    by (intro exI[of _ "edited_field i field opts newId (new_life now (doc_id u))"] exI[of _ "tick s2"])
      (simp add: edited_field_def alive_def new_life_def s4 s2)
qed

lemma deleteField_view:
  assumes "deleteField E M (Some req) studyId fid s = (Inr r, s')"
    and "earlier_docs s studyId fid (clock E (tick s))" and "None \<in> set versions"
  shows "shows_field s' st versions f \<longleftrightarrow>
    shows_field s st versions f \<and> \<not> (st = studyId \<and> field_fieldId f = fid)"
proof -
  from deleteField_spec[OF assms(1)] obtain e where
    ins: "set (field_dictionary_collection s') = insert e (set (field_dictionary_collection s))" and
    e: "field_dataVersion e = None" "field_studyId e = studyId" "field_fieldId e = fid" "\<not> alive e"
      "created e = clock E (tick s)" by blast
  have "created g < created e" if "g \<in> set (field_dictionary_collection s)"
    "field_studyId g = field_studyId e" "field_fieldId g = field_fieldId e" for g
    using assms(2) that e unfolding earlier_docs_def by auto
  from shows_field_insert[OF ins e(1) assms(3) this, of st f] e show ?thesis by auto
qed

lemma editField_view:
  assumes "editField E M (Some req) i s = (Inr r, s')"
    and "earlier_docs s (in_studyId i) (in_fieldId i) (clock E (tick s))" and "mono (clock E)"
  shows "\<exists>e. alive e \<and> field_fieldId e = in_fieldId i \<and> fieldName e = in_fieldName i \<and> dataType e = in_dataType i \<and>
    field_dataVersion e = None \<and>
    set (field_dictionary_collection s') = insert e (set (field_dictionary_collection s)) \<and>
    (\<forall>versions st f. shows_field s' st versions f \<longleftrightarrow>
       (if None \<in> set versions \<and> st = in_studyId i \<and> field_fieldId f = in_fieldId i then f = e
        else shows_field s st versions f))"
proof -
  from editField_spec[OF assms(1)] obtain e n where
    ins: "set (field_dictionary_collection s') = insert e (set (field_dictionary_collection s))" and
    e: "field_dataVersion e = None" "field_studyId e = in_studyId i" "field_fieldId e = in_fieldId i" "alive e"
      "fieldName e = in_fieldName i" "dataType e = in_dataType i" "tick s \<le> n" "created e = clock E n" by blast
  have later: "created g < created e" if "g \<in> set (field_dictionary_collection s)"
    "field_studyId g = field_studyId e" "field_fieldId g = field_fieldId e" for g
    using assms(2) that e monoD[OF assms(3) e(7)] unfolding earlier_docs_def by fastforce
  have "shows_field s' st versions f \<longleftrightarrow>
      (if None \<in> set versions \<and> st = in_studyId i \<and> field_fieldId f = in_fieldId i then f = e
       else shows_field s st versions f)" for versions st f
  proof (cases "None \<in> set versions")
    case True
    from shows_field_insert[OF ins e(1) True later, of st f] e(2-4) True show ?thesis by simp
  next
    case False
    with shows_field_released[OF ins e(1) False] show ?thesis by simp
  qed
  with e ins show ?thesis by blast
qed

end

subsection \<open>Properties\<close>

definition field0 :: "string \<Rightarrow> string \<Rightarrow> string \<Rightarrow> int \<Rightarrow> IField" where
  "field0 i st fid t = \<lparr>doc_id = i, life = new_life t ''admin'', metadata = [], field_studyId = st,
     fieldName = fid, field_fieldId = fid, field_description = None, dataType = STRING,
     categoricalOptions = None, unit_of = None, comments = None, field_dataVersion = None,
     verifier = Some [], field_properties = None\<rparr>"

definition input0 :: "string \<Rightarrow> string \<Rightarrow> CreateFieldInput" where
  "input0 st fid = \<lparr>in_studyId = st, in_fieldName = ''Age'', in_fieldId = fid, in_description = None,
     in_dataType = INTEGER, in_categoricalOptions = None, in_unit = None, in_comments = None,
     in_verifier = None, in_properties = None, in_metadata = None\<rparr>"

definition sample_fields :: db where
  "sample_fields = sample_roles\<lparr>field_dictionary_collection :=
     [field0 ''f1'' ''st'' ''age'' 1, field0 ''f2'' ''st'' ''age'' 2]\<rparr>"

lemmas field_eval = sample_fields_def sample_roles_def sample_defs sample_dp_def field0_def input0_def alive_def
  list_mongo_def list_driver_simps field_dictionary_indexes_def studies_indexes_def roles_indexes_def
  field_access_def getRolesOfUser_def hasFieldPermission_def

text \<open>
  C19. \<open>getStudyFields\<close> without a selection answers exactly the abstract view of the dictionary: for each
  field id in the study and the versions asked for, the latest document, where that one is alive
  and some role of the requester may read the id; each field id once. (No two documents of a field
  may have been created in the same millisecond, as MongoDB does not say which of them comes first.)
\<close>

theorem getStudyFields_latest:
  assumes "mongo_ok M" and "studyId \<noteq> []" and "field_times_distinct s"
    and "getStudyFields E M (Some req) studyId dv None s = Inr fs"
  shows "\<exists>study \<in> set (studies_collection s). doc_id study = studyId \<and> alive study \<and>
    distinct (map field_fieldId fs) \<and>
    set fs = {f. shows_field s studyId (availableDataVersions study dv) f \<and>
      may_read_field E s (doc_id req) studyId (field_fieldId f)}"
  by (rule mongo_db.getStudyFields_spec[OF mongo_db.intro[OF assms(1)] assms(2-4)])

theorem getStudyFields_latest_witness:
  "{f. shows_field sample_fields ''st'' [None] f \<and> may_read_field env0 sample_fields ''ann'' ''st'' (field_fieldId f)} =
   {field0 ''f2'' ''st'' ''age'' 2}"
proof -
  have run: "getStudyFields env0 list_mongo (Some (user0 ''ann'' STANDARD)) ''st'' Null_Version None sample_fields =
      Inr [field0 ''f2'' ''st'' ''age'' 2]"
    by (simp add: field_eval getStudyFields_def newest_first_def readable_patterns_def)
  have "field_times_distinct sample_fields"
    by (simp add: field_times_distinct_def sample_fields_def field0_def new_life_def)
  from getStudyFields_latest[OF list_mongo_ok _ this run]
  have "set [field0 ''f2'' ''st'' ''age'' 2] = {f. shows_field sample_fields ''st'' [None] f \<and>
      may_read_field env0 sample_fields ''ann'' ''st'' (field_fieldId f)}" by (force simp: user0_def)
  then show ?thesis by simp
qed

text \<open>
  Deleting a field takes exactly that field out of the view of its study (for every list of
  versions that includes the unversioned documents) and leaves all other fields, in this and in
  all other studies, as they were; provided the clock is past the field's documents.
\<close>

theorem deleteField_removes:
  assumes "mongo_ok M" and "deleteField E M (Some req) studyId fid s = (Inr r, s')"
    and "earlier_docs s studyId fid (clock E (tick s))" and "None \<in> set versions"
  shows "shows_field s' st versions f \<longleftrightarrow>
    shows_field s st versions f \<and> \<not> (st = studyId \<and> field_fieldId f = fid)"
  by (rule mongo_db.deleteField_view[OF mongo_db.intro[OF assms(1)] assms(2-4)])

theorem deleteField_removes_witness:
  "{f. shows_field (snd (deleteField env0 list_mongo (Some (user0 ''ann'' STANDARD)) ''st'' ''age'' sample_fields))
     ''st'' [None] f \<and> field_fieldId f = ''age''} = {}"
proof -
  have "\<not> isl (fst (deleteField env0 list_mongo (Some (user0 ''ann'' STANDARD)) ''st'' ''age'' sample_fields))"
    by code_simp
  then obtain r where run: "deleteField env0 list_mongo (Some (user0 ''ann'' STANDARD)) ''st'' ''age'' sample_fields =
      (Inr r, snd (deleteField env0 list_mongo (Some (user0 ''ann'' STANDARD)) ''st'' ''age'' sample_fields))"
    by (metis not_isl_Inr)
  have "earlier_docs sample_fields ''st'' ''age'' (clock env0 (tick sample_fields))"
    by (simp add: earlier_docs_def field_eval)
  from deleteField_removes[OF list_mongo_ok run this, of "[None]" "''st''"] show ?thesis by simp
qed

text \<open>
  C20. Where the clock does not run backwards and is past every document of the field, a successful
  edit adds one document without a version, with the name and the type of the input. Every view
  that includes unversioned documents shows it as the field from then on and shows all other
  fields, of any study, as before; a view of released versions shows no difference until a new
  version is made. All this holds also when the field has been deleted before: the lookup accepts
  any live document with the id, so editing brings a deleted field back.
\<close>

theorem editField_replaces:
  assumes "mongo_ok M" and "editField E M (Some req) i s = (Inr r, s')"
    and "earlier_docs s (in_studyId i) (in_fieldId i) (clock E (tick s))" and "mono (clock E)"
  shows "\<exists>e. alive e \<and> field_fieldId e = in_fieldId i \<and> fieldName e = in_fieldName i \<and> dataType e = in_dataType i \<and>
    field_dataVersion e = None \<and>
    set (field_dictionary_collection s') = insert e (set (field_dictionary_collection s)) \<and>
    (\<forall>versions st f. shows_field s' st versions f \<longleftrightarrow>
       (if None \<in> set versions \<and> st = in_studyId i \<and> field_fieldId f = in_fieldId i then f = e
        else shows_field s st versions f))"
  by (rule mongo_db.editField_view[OF mongo_db.intro[OF assms(1)] assms(2-4)])

definition deleted_sample :: db where
  "deleted_sample = sample_fields\<lparr>field_dictionary_collection :=
     mark_deleted 5 (Uid ''ann'') (field0 ''f3'' ''st'' ''age'' 5) # field_dictionary_collection sample_fields\<rparr>"

theorem editField_replaces_witness:
  "{f. shows_field deleted_sample ''st'' [None] f \<and> field_fieldId f = ''age''} = {} \<and>
   (\<exists>e. fieldName e = ''Age'' \<and> dataType e = INTEGER \<and>
      {f. shows_field (snd (editField env0 list_mongo (Some (user0 ''ann'' STANDARD)) (input0 ''st'' ''age'') deleted_sample))
           ''st'' [None] f \<and> field_fieldId f = ''age''} = {e})"
proof
  show "{f. shows_field deleted_sample ''st'' [None] f \<and> field_fieldId f = ''age''} = {}"
  proof (intro equals0I, elim CollectE conjE)
    let ?g = "mark_deleted 5 (Uid ''ann'') (field0 ''f3'' ''st'' ''age'' 5)"
    have times: "created ?g = 5" "created (field0 i st fid t) = t" for i st fid t
      by (simp_all add: mark_deleted_def field0_def new_life_def)
    have g: "?g \<in> field_docs deleted_sample ''st'' [None]" "field_fieldId ?g = ''age''" "\<not> alive ?g"
      by (simp_all add: field_docs_def deleted_sample_def)
        (simp_all add: mark_deleted_def field0_def)
    fix f assume f: "shows_field deleted_sample ''st'' [None] f" "field_fieldId f = ''age''"
    with g have "created ?g \<le> created f" "f \<in> set (field_dictionary_collection deleted_sample)" "alive f"
      unfolding shows_field_def by (auto simp: field_docs_def)
    with times g(3) show False by (auto simp: deleted_sample_def sample_fields_def)
  qed
  have "\<not> isl (fst (editField env0 list_mongo (Some (user0 ''ann'' STANDARD)) (input0 ''st'' ''age'') deleted_sample))"
    by code_simp
  then obtain r where run: "editField env0 list_mongo (Some (user0 ''ann'' STANDARD)) (input0 ''st'' ''age'') deleted_sample =
      (Inr r, snd (editField env0 list_mongo (Some (user0 ''ann'' STANDARD)) (input0 ''st'' ''age'') deleted_sample))"
    by (metis not_isl_Inr)
  have i: "in_studyId (input0 ''st'' ''age'') = ''st''" "in_fieldId (input0 ''st'' ''age'') = ''age''"
    "in_fieldName (input0 ''st'' ''age'') = ''Age''" "in_dataType (input0 ''st'' ''age'') = INTEGER"
    by (simp_all add: input0_def)
  have "earlier_docs deleted_sample ''st'' ''age'' (clock env0 (tick deleted_sample))"
    by (simp add: earlier_docs_def field_eval deleted_sample_def mark_deleted_def)
  moreover have "mono (clock env0)" by (simp add: env0_def mono_def)
  ultimately obtain e where e: "field_fieldId e = ''age''" "fieldName e = ''Age''" "dataType e = INTEGER" and
    view: "\<forall>versions st f.
       (shows_field (snd (editField env0 list_mongo (Some (user0 ''ann'' STANDARD)) (input0 ''st'' ''age'') deleted_sample))
           st versions f \<longleftrightarrow>
          (if None \<in> set versions \<and> st = ''st'' \<and> field_fieldId f = ''age'' then f = e
           else shows_field deleted_sample st versions f))"
    using editField_replaces[OF list_mongo_ok run, unfolded i] by blast
  from spec[OF view, of "[None]", THEN spec, of "''st''"] e
  show "\<exists>e. fieldName e = ''Age'' \<and> dataType e = INTEGER \<and>
      {f. shows_field (snd (editField env0 list_mongo (Some (user0 ''ann'' STANDARD)) (input0 ''st'' ''age'') deleted_sample))
           ''st'' [None] f \<and> field_fieldId f = ''age''} = {e}"
    by (intro exI[of _ e]) auto
qed

end
