(* ===== verification/DataProps.thy ===== *)
theory DataProps
  imports DataReports FieldProps
begin

section \<open>What is stored and what is shown of data clips\<close>

subsection \<open>Values have the type of their field\<close>

definition value_ok :: "IField \<Rightarrow> jsval \<Rightarrow> bool" where
  "value_ok f v \<longleftrightarrow>
     (case dataType f of
        DECIMAL \<Rightarrow> (\<exists>x. v = JNum (Fin x))
      | INTEGER \<Rightarrow> (\<exists>i :: int. v = JNum (Fin (of_int i)))
      | BOOLEAN \<Rightarrow> (\<exists>b. v = JBool b)
      | STRING \<Rightarrow> (\<exists>x. v = JStr x)
      | DATETIME \<Rightarrow> (\<exists>x. v = JStr x \<and> matches_datetime x)
      | JSON_TYPE \<Rightarrow> (\<exists>x. JSON_parse x = Some v)
      | FILE_TYPE \<Rightarrow> (\<exists>x. v = JStr x)
      | CATEGORICAL \<Rightarrow> (\<exists>opts x. categoricalOptions f = Some opts \<and> x \<in> code ` set opts \<and> v = JStr x))"

lemma is_digit_value: "is_digit c \<Longrightarrow> \<exists>d < 10. digit_value c = Some d"
  by (auto simp: is_digit_def digit_value_def Let_def)

lemma is_digit_neq: "is_digit c \<Longrightarrow> c \<noteq> CHR ''-'' \<and> c \<noteq> CHR ''+'' \<and> c \<noteq> CHR ''I'' \<and> \<not> is_js_space c"
  by (auto simp: is_digit_def is_js_space_def)

lemma digits_prefix_digit: "is_digit c \<Longrightarrow> digits_prefix 10 (c # cs) \<noteq> []"
  using is_digit_value by fastforce

text \<open>A numeral starts with a digit, after its sign.\<close>

lemma read_sign_numeral:
  assumes "unsigned_part v = c # cs" and "is_digit c"
  shows "\<exists>neg. read_sign (dropWhile is_js_space v) = (neg, c # cs)"
proof (cases "v \<noteq> [] \<and> hd v = CHR ''-''")
  case True
  then have "v = CHR ''-'' # c # cs" using assms(1) by (cases v) (auto simp: unsigned_part_def)
  then have "read_sign (dropWhile is_js_space v) = (True, c # cs)" by (simp add: is_js_space_def)
  then show ?thesis by blast
next
  case False
  then have "v = c # cs" using assms(1) by (auto simp: unsigned_part_def split: if_splits)
  then have "read_sign (dropWhile is_js_space v) = (False, c # cs)" using is_digit_neq[OF assms(2)] by simp
  then show ?thesis by blast
qed

lemma scan_decimal_digit: "is_digit c \<Longrightarrow> scan_decimal (c # cs) \<noteq> None"
  using digits_prefix_digit[of c cs] by (simp add: scan_decimal_def Let_def split_beta)

lemma parseFloat_numeral:
  assumes "unsigned_part v = c # cs" and "is_digit c"
  shows "\<exists>x. parseFloat v = Fin x"
proof -
  obtain neg where "read_sign (dropWhile is_js_space v) = (neg, c # cs)" using read_sign_numeral[OF assms] by blast
  moreover obtain x r where "scan_decimal (c # cs) = Some (x, r)" using scan_decimal_digit[OF assms(2), of cs] by force
  ultimately show ?thesis using is_digit_neq[OF assms(2)] by (simp add: parseFloat_def)
qed

lemma parseInt10_numeral:
  assumes "unsigned_part v = c # cs" and "is_digit c"
  shows "\<exists>i :: int. parseInt10 v = Fin (of_int i)"
proof -
  obtain neg where r: "read_sign (dropWhile is_js_space v) = (neg, c # cs)" using read_sign_numeral[OF assms] by blast
  let ?n = "int (nat_of_digits 10 (digits_prefix 10 (c # cs)))"
  have "parseInt10 v = Fin (with_sign neg (of_int ?n))"
    using digits_prefix_digit[OF assms(2), of cs] by (simp add: parseInt10_def r del: digits_prefix.simps)
  then show ?thesis
    by (cases neg) (auto simp: with_sign_def intro: exI[of _ "- ?n"] exI[of _ ?n])
qed

lemma matches_decimal_digit: "matches_decimal u \<Longrightarrow> \<exists>c cs. u = c # cs \<and> is_digit c"
  by (cases u) (auto simp: matches_decimal_def Let_def split: if_splits)

lemma digits_digit: "digits u \<Longrightarrow> \<exists>c cs. u = c # cs \<and> is_digit c"
  by (cases u) (auto simp: digits_def)

lemma value_results [simp]:
  "bad_value fid m = Inr (None, v) \<longleftrightarrow> False" "ok_value x = Inr (None, v) \<longleftrightarrow> v = x"
  by (auto simp: bad_value_def ok_value_def)

lemma responses [simp]:
  "\<not> resp_successful (reject n ec msg)" "resp_successful (accept n clip)"
  by (simp_all add: reject_def accept_def makeGenericResponse_def)

lemma parse_value_ok:
  assumes "parse_value E f x = Inr (None, v)"
  shows "value_ok f v"
proof (cases "dataType f")
  case DECIMAL
  with assms show ?thesis
    using matches_decimal_digit[of "unsigned_part x"] parseFloat_numeral[of x]
    by (auto simp: parse_value_def value_ok_def Let_def matches_signed_decimal_def split: if_splits)
next
  case INTEGER
  with assms show ?thesis
    using digits_digit[of "unsigned_part x"] parseInt10_numeral[of x]
    by (auto simp: parse_value_def value_ok_def Let_def matches_integer_def split: if_splits)
qed (use assms in \<open>auto simp: parse_value_def value_ok_def Let_def
    split: if_splits option.splits\<close>)

lemma check_properties_ok:
  "check_properties E fid props ps err = Inr None \<Longrightarrow>
   err = None \<and> (\<forall>p \<in> set ps. (required p \<longrightarrow> property_value props (property_name p) \<noteq> JUndef) \<and>
     property_fails E props p = Inr False)"
proof (induction ps arbitrary: err)
  case (Cons p ps)
  from Cons.prems have present: "\<not> (required p \<and> property_value props (property_name p) = JUndef)"
    by (simp split: if_splits)
  with Cons.prems obtain b where b: "property_fails E props p = Inr b"
    by (cases "property_fails E props p") simp_all
  with present Cons.prems have rec: "check_properties E fid props ps
      (if b then Some (''Field '' @ fid @ '' value '' @ js_String E (property_value props (property_name p)) @
          '': Property '' @ property_name p @ '' failed to pass the verifier.'') else err) = Inr None"
    by (simp only: check_properties.simps if_False sum.case)
  show ?case using Cons.IH[OF rec] present b by (cases b) simp_all
qed simp

text \<open>What an accepted clip satisfies with respect to its field.\<close>

definition clip_ok :: "env \<Rightarrow> IField \<Rightarrow> jsval \<Rightarrow> jobject option \<Rightarrow> bool" where
  "clip_ok E f v props \<longleftrightarrow> value_ok f v \<and> field_verifier_fails E f v = Inr False \<and>
     (\<forall>p \<in> set (nullish (field_properties f) []).
        (required p \<longrightarrow> property_value props (property_name p) \<noteq> JUndef) \<and> property_fails E props p = Inr False)"

lemma check_value_ok:
  assumes "check_value E f clip = Inr (None, v)"
  shows "clip_ok E f v (input_properties clip)"
proof -
  from assms obtain err fails where p: "parse_value E f (input_value clip) = Inr (err, v)"
    "field_verifier_fails E f v = Inr fails" and
    c: "check_properties E (input_fieldId clip) (input_properties clip) (nullish (field_properties f) [])
      (if fails then Some (''Field '' @ input_fieldId clip @ '' value '' @ js_String E v @
         '': Failed to pass the verifier.'') else err) = Inr None"
    unfolding check_value_def by (auto simp: Let_def split: sum.splits prod.splits)
  from check_properties_ok[OF c] p show ?thesis
    by (auto simp: clip_ok_def parse_value_ok split: if_splits)
qed

lemma find_field_Some: "find_field avail fid = Some f \<Longrightarrow> f \<in> set avail \<and> field_fieldId f = fid"
  unfolding find_field_def by (auto dest!: map_of_SomeD)

subsection \<open>The loop of \<open>uploadData\<close>\<close>

text \<open>An accepted clip with its stored value: permission and type.\<close>

definition accepted_ok ::
    "env \<Rightarrow> mongo \<Rightarrow> db \<Rightarrow> IUserWithoutToken \<Rightarrow> string \<Rightarrow> IField list \<Rightarrow> string option \<Rightarrow> IDataInput \<Rightarrow> jsval \<Rightarrow> bool" where
  "accepted_ok E M s req studyId avail missing clip v \<longleftrightarrow>
     checkFieldOrDataPermission E M s req studyId (clip_entry clip) WRITE = Inr True \<and>
     (missing = Some (input_value clip) \<and> v = JStr (input_value clip) \<or>
      (\<exists>f \<in> set avail. field_fieldId f = input_fieldId clip \<and> clip_ok E f v (input_properties clip)))"

lemma upload_clip_ok:
  assumes "upload_clip E M req studyId avail missing n clip s = Inr (r, w)"
  shows "resp_successful r = (w \<noteq> None) \<and> (\<forall>v. w = Some v \<longrightarrow> accepted_ok E M s req studyId avail missing clip v)"
proof -
  obtain b where b: "checkFieldOrDataPermission E M s req studyId (clip_entry clip) WRITE = Inr b"
    using assms by (cases "checkFieldOrDataPermission E M s req studyId (clip_entry clip) WRITE") (auto simp: upload_clip_def)
  show ?thesis
  proof (cases b)
    case True
    note ok = b[unfolded True]
    show ?thesis
    proof (cases "find_field avail (input_fieldId clip)")
      case None
      with assms ok show ?thesis
        by (auto simp: upload_clip_def accepted_ok_def split: if_splits)
    next
      case (Some f)
      with assms ok find_field_Some[OF Some] show ?thesis
        by (auto simp: upload_clip_def accepted_ok_def
            split: if_splits sum.splits option.splits dest!: check_value_ok)
    qed
  qed (use assms b in \<open>auto simp: upload_clip_def\<close>)
qed

text \<open>The permission check reads the roles only.\<close>

lemma check_permission_cong:
  "roles_collection s' = roles_collection s \<Longrightarrow>
   checkFieldOrDataPermission E M s' req studyId entry p = checkFieldOrDataPermission E M s req studyId entry p"
  by (simp add: checkFieldOrDataPermission_def getRolesOfUser_def cong: sum.case_cong)

lemma accepted_ok_cong:
  "roles_collection s' = roles_collection s \<Longrightarrow>
   accepted_ok E M s' req studyId avail missing clip v = accepted_ok E M s req studyId avail missing clip v"
  by (simp only: accepted_ok_def check_permission_cong[of s' s])

text \<open>
  The documents of the accepted clips, in order: \<open>accepted rs clips ds\<close> relates the responses, the
  clips and the documents.
\<close>

definition doc_for :: "IUserWithoutToken \<Rightarrow> string \<Rightarrow> IDataInput \<Rightarrow> IData \<Rightarrow> bool" where
  "doc_for req studyId clip d \<longleftrightarrow> data_studyId d = studyId \<and> data_fieldId d = input_fieldId clip \<and>
     data_dataVersion d = None \<and> data_properties d = stored_properties (input_properties clip) \<and>
     alive d \<and> createdUser (life d) = doc_id req"

definition accepted_clips :: "IGenericResponse list \<Rightarrow> IDataInput list \<Rightarrow> IDataInput list" where
  "accepted_clips rs clips = map snd (filter (\<lambda>(r, clip). resp_successful r) (zip rs clips))"

lemma clip_doc_for: "doc_for req studyId clip (clip_doc i t (doc_id req) studyId clip v)"
  by (simp add: doc_for_def clip_doc_def alive_def new_life_def)

lemma clip_doc_value [simp]: "data_value (clip_doc i t u studyId clip v) = v"
  by (simp add: clip_doc_def)

lemma upload_loop_spec:
  "upload_loop E M req studyId avail missing n clips s = (Inr (rs, ds), s') \<Longrightarrow>
   length rs = length clips \<and>
   list_all2 (\<lambda>clip d. doc_for req studyId clip d \<and>
     accepted_ok E M s req studyId avail missing clip (data_value d)) (accepted_clips rs clips) ds \<and>
   (\<exists>a b. s' = s\<lparr>uuid_next := a, tick := b\<rparr>)"
proof (induction clips arbitrary: n s rs ds)
  case Nil
  then have "rs = []" "ds = []" "s' = s" by simp_all
  moreover have "\<exists>a b. s = s\<lparr>uuid_next := a, tick := b\<rparr>"
    by (rule exI[of _ "uuid_next s"], rule exI[of _ "tick s"]) simp
  ultimately show ?case by (simp add: accepted_clips_def)
next
  case (Cons clip clips)
  obtain r w where u: "upload_clip E M req studyId avail missing n clip s = Inr (r, w)"
    using Cons.prems by (cases "upload_clip E M req studyId avail missing n clip s") auto
  show ?case
  proof (cases w)
    case None
    with Cons.prems u obtain rs1 where rs: "rs = r # rs1" and
      rec: "upload_loop E M req studyId avail missing (Suc n) clips s = (Inr (rs1, ds), s')"
      by (auto split: prod.splits sum.splits)
    from Cons.IH[OF rec] upload_clip_ok[OF u] None rs show ?thesis
      by (simp add: accepted_clips_def)
  next
    case (Some v)
    let ?s = "s\<lparr>uuid_next := Suc (uuid_next s), tick := Suc (tick s)\<rparr>"
    from Cons.prems u Some obtain rs1 ds1 where rs: "rs = r # rs1" and
      ds: "ds = clip_doc (uuid_gen E (uuid_next s)) (clock E (tick s)) (doc_id req) studyId clip v # ds1" and
      rec: "upload_loop E M req studyId avail missing (Suc n) clips ?s = (Inr (rs1, ds1), s')"
      by (auto simp: uuid_def Date_now_def Let_def split: prod.splits sum.splits)
    from Cons.IH[OF rec] upload_clip_ok[OF u] Some rs ds show ?thesis
      by (auto simp: accepted_clips_def clip_doc_for accepted_ok_cong[of ?s s])
  qed
qed

lemma bulk_insert_mset:
  assumes "document_store dr"
  shows "bulk_insert dr ds c = (True, c') \<Longrightarrow> mset c' = mset c + mset ds"
proof (induction ds arbitrary: c)
  case (Cons d ds)
  then obtain c1 where "insertOne dr c d = Some c1" "bulk_insert dr ds c1 = (True, c')"
    by (auto split: option.splits)
  with Cons.IH document_store.insertOne_mset[OF assms] show ?case by fastforce
qed simp


context mongo_db
begin

lemma uploadData_spec:
  assumes "uploadData E M (Some req) studyId clips s = (Inr rs, s')"
  shows "\<exists>study avail ds.
    findOne (studies_dr M) (studies_collection s) (\<lambda>d. doc_id d = studyId \<and> alive d) = Some study \<and>
    getStudyFields E M (Some req) studyId (Versions (availableDataVersions study No_Version @ [None])) None s = Inr avail \<and>
    length rs = length clips \<and> mset (data_collection s') = mset (data_collection s) + mset ds \<and>
    list_all2 (\<lambda>clip d. doc_for req studyId clip d \<and> accepted_ok E M s req studyId avail
       (config_missingValue (config_or M s STUDYCONFIG (Some studyId) (StudyProps default_studyConfig))) clip (data_value d))
      (accepted_clips rs clips) ds \<and>
    s' = s\<lparr>data_collection := data_collection s', uuid_next := uuid_next s', tick := tick s'\<rparr>"
proof -
  let ?missing = "config_missingValue (config_or M s STUDYCONFIG (Some studyId) (StudyProps default_studyConfig))"
  from assms obtain study avail ds s1 c where
    st: "findOne (studies_dr M) (studies_collection s) (\<lambda>d. doc_id d = studyId \<and> alive d) = Some study"
      "getStudyFields E M (Some req) studyId (Versions (availableDataVersions study No_Version @ [None])) None s = Inr avail" and
    up: "upload_loop E M req studyId avail ?missing 0 clips s = (Inr (rs, ds), s1)" and
    bulk: "bulk_insert (data_dr M) ds (data_collection s1) = (True, c)" and s': "s' = s1\<lparr>data_collection := c\<rparr>"
    unfolding uploadData_def
    by (auto simp: Let_def split: option.splits sum.splits prod.splits if_splits)
  from upload_loop_spec[OF up] obtain a b where
    spec: "length rs = length clips" "list_all2 (\<lambda>clip d. doc_for req studyId clip d \<and>
       accepted_ok E M s req studyId avail ?missing clip (data_value d)) (accepted_clips rs clips) ds" and
    s1: "s1 = s\<lparr>uuid_next := a, tick := b\<rparr>" by blast
  have "mset c = mset (data_collection s) + mset ds"
    using bulk_insert_mset[OF data_store.document_store_axioms bulk] by (simp add: s1)
  with st spec show ?thesis by (intro exI[of _ study] exI[of _ avail] exI[of _ ds]) (simp add: s' s1)
qed

end

text \<open>
  What the store holds of one clip: it was stored for the requester and the study, not yet in any
  version, and either it says that the value is missing, or its field is shown to the requester, its
  value has the type of the field and passes its verifier, and the required properties are there.
\<close>

definition clip_typed :: "env \<Rightarrow> mongo \<Rightarrow> db \<Rightarrow> IUserWithoutToken \<Rightarrow> string \<Rightarrow> IStudy \<Rightarrow> IData \<Rightarrow> bool" where
  "clip_typed E M s req studyId study d \<longleftrightarrow>
     data_studyId d = studyId \<and> data_dataVersion d = None \<and> alive d \<and> createdUser (life d) = doc_id req \<and>
     ((\<exists>x. config_missingValue (config_or M s STUDYCONFIG (Some studyId) (StudyProps default_studyConfig)) = Some x \<and>
         data_value d = JStr x) \<or>
      (\<exists>f. shows_field s studyId (availableDataVersions study No_Version @ [None]) f \<and>
         may_read_field E s (doc_id req) studyId (field_fieldId f) \<and> field_fieldId f = data_fieldId d \<and>
         value_ok f (data_value d) \<and> field_verifier_fails E f (data_value d) = Inr False \<and>
         (\<forall>p \<in> set (nullish (field_properties f) []). required p \<longrightarrow> clip_property d (property_name p) \<noteq> JUndef)))"

lemma clip_property_stored:
  "data_properties d = stored_properties props \<Longrightarrow> clip_property d k = property_value props k"
  by (cases props) (simp_all add: clip_property_def stored_properties_def property_value_def)

lemma list_all2_mem: "list_all2 P xs ys \<Longrightarrow> y \<in> set ys \<Longrightarrow> \<exists>x \<in> set xs. P x y"
  by (metis in_set_conv_nth list_all2_conv_all_nth)

context mongo_db
begin

lemma uploaded_typed:
  assumes "studyId \<noteq> []" and up: "uploadData E M (Some req) studyId clips s = (Inr rs, s')"
  shows "\<exists>study \<in> set (studies_collection s). doc_id study = studyId \<and> alive study \<and>
    (\<forall>d \<in># mset (data_collection s') - mset (data_collection s). clip_typed E M s req studyId study d)"
proof -
  let ?missing = "config_missingValue (config_or M s STUDYCONFIG (Some studyId) (StudyProps default_studyConfig))"
  from uploadData_spec[OF up] obtain study avail ds where
    st: "findOne (studies_dr M) (studies_collection s) (\<lambda>d. doc_id d = studyId \<and> alive d) = Some study" and
    fs: "getStudyFields E M (Some req) studyId (Versions (availableDataVersions study No_Version @ [None])) None s = Inr avail" and
    m: "mset (data_collection s') = mset (data_collection s) + mset ds" and
    ds: "list_all2 (\<lambda>clip d. doc_for req studyId clip d \<and> accepted_ok E M s req studyId avail ?missing clip (data_value d))
       (accepted_clips rs clips) ds" by blast
  have "clip_typed E M s req studyId study d" if "d \<in> set ds" for d
  proof -
    from list_all2_mem[OF ds that] obtain clip where d: "doc_for req studyId clip d"
      "accepted_ok E M s req studyId avail ?missing clip (data_value d)" by blast
    show ?thesis
    proof (cases "?missing = Some (input_value clip) \<and> data_value d = JStr (input_value clip)")
      case True
      with d(1) show ?thesis by (auto simp: clip_typed_def doc_for_def)
    next
      case False
      with d(2) obtain f where f: "f \<in> set avail" "field_fieldId f = input_fieldId clip"
        "clip_ok E f (data_value d) (input_properties clip)" by (auto simp: accepted_ok_def)
      from getStudyFields_sound[OF assms(1) fs f(1) st] f(2,3) d(1) show ?thesis
        unfolding clip_typed_def clip_ok_def doc_for_def
        by (intro conjI disjI2 exI[of _ f]) (auto simp: clip_property_stored)
    qed
  qed
  then show ?thesis using studies_store.findOne_Some[OF st] by (auto simp: m)
qed

end
end
