(* ===== verification/DataView.thy ===== *)
theory DataView
  imports DataProps
begin

section \<open>Data clips as a requester sees them\<close>

text \<open>
  The abstract view of the clips of a study: for each field the requester can read, the latest
  document in every group of property values among those he may see, where it is alive.
  \<open>getDataByRoles\<close> computes that view.
\<close>

subsection \<open>The view\<close>

definition property_matches :: "env \<Rightarrow> string list \<Rightarrow> jsval \<Rightarrow> bool" where
  "property_matches E pats v \<longleftrightarrow>
     (\<exists>re \<in> set pats. \<exists>x. re_matches E re x \<and> (v = JStr x \<or> (\<exists>xs. v = JArr xs \<and> JStr x \<in> set xs)))"

definition dp_shows :: "env \<Rightarrow> IDataPermission \<Rightarrow> IData \<Rightarrow> bool" where
  "dp_shows E dp d \<longleftrightarrow>
     (\<exists>re \<in> set (perm_fields dp). re_matches E re (data_fieldId d)) \<and>
     (\<forall>(k, pats) \<in> set (dataProperties dp). property_matches E pats (clip_property d k)) \<and>
     (includeUnVersioned dp \<or> data_dataVersion d \<noteq> None)"

definition may_see :: "env \<Rightarrow> db \<Rightarrow> string \<Rightarrow> string \<Rightarrow> IData \<Rightarrow> bool" where
  "may_see E s userId studyId d \<longleftrightarrow> createdUser (life d) = userId \<or>
     (\<exists>r. user_role s userId studyId r \<and> (\<exists>dp \<in> set (dataPermissions r). dp_shows E dp d))"

definition seen_clips ::
    "env \<Rightarrow> db \<Rightarrow> string \<Rightarrow> string \<Rightarrow> string option list \<Rightarrow> string \<Rightarrow> IData set" where
  "seen_clips E s userId studyId versions fid =
     {d \<in> set (data_collection s). data_studyId d = studyId \<and> data_dataVersion d \<in> set versions \<and>
        data_fieldId d = fid \<and> may_see E s userId studyId d}"

definition shows_clip ::
    "env \<Rightarrow> db \<Rightarrow> string \<Rightarrow> string \<Rightarrow> string option list \<Rightarrow> IField \<Rightarrow> IData \<Rightarrow> bool" where
  "shows_clip E s userId studyId versions f d \<longleftrightarrow>
     d \<in> seen_clips E s userId studyId versions (field_fieldId f) \<and> alive d \<and>
     (\<forall>e \<in> seen_clips E s userId studyId versions (field_fieldId f).
        group_key (Some f) e = group_key (Some f) d \<longrightarrow> created e \<le> created d)"

definition clip_times_distinct :: "db \<Rightarrow> bool" where
  "clip_times_distinct s \<longleftrightarrow>
     (\<forall>d \<in> set (data_collection s). \<forall>e \<in> set (data_collection s).
        data_studyId d = data_studyId e \<and> data_fieldId d = data_fieldId e \<and> created d = created e \<longrightarrow> d = e)"

text \<open>A role none of whose data permissions names a field.\<close>

definition blank_role :: "IRole \<Rightarrow> bool" where
  "blank_role r \<longleftrightarrow> (\<forall>dp \<in> set (dataPermissions r). perm_fields dp = [])"

subsection \<open>The filter of the roles\<close>

lemma regex_in_iff:
  assumes "compile_all E pats = Inr tests"
  shows "regex_in tests v \<longleftrightarrow> property_matches E pats v"
proof -
  have hit: "(case w of JStr x \<Rightarrow> list_ex (\<lambda>t. t x) tests | _ \<Rightarrow> False) \<longleftrightarrow>
      (\<exists>x. w = JStr x \<and> (\<exists>re \<in> set pats. re_matches E re x))" for w
    by (cases w) (simp_all add: compile_all_iff[OF assms])
  have arr: "(case v of JArr xs \<Rightarrow> list_ex g xs | _ \<Rightarrow> False) \<longleftrightarrow> (\<exists>xs. v = JArr xs \<and> (\<exists>w \<in> set xs. g w))" for g
    by (cases v) (simp_all add: list_ex_iff)
  show ?thesis unfolding regex_in_def Let_def hit arr property_matches_def by blast
qed

lemma property_filter_iff:
  "property_filter E ps = Inr f \<Longrightarrow> f d \<longleftrightarrow> (\<forall>(k, pats) \<in> set ps. property_matches E pats (clip_property d k))"
  by (induction ps arbitrary: f) (auto simp: regex_in_iff split: sum.splits)

lemma permission_filter_iff: "permission_filter E dp = Inr f \<Longrightarrow> f d \<longleftrightarrow> dp_shows E dp d"
  by (auto simp: permission_filter_def dp_shows_def compile_all_iff property_filter_iff split: sum.splits)

lemma permissionArr_iff:
  "permissionArr E dps = Inr fs \<Longrightarrow> list_ex (\<lambda>f. f d) fs \<longleftrightarrow> (\<exists>dp \<in> set dps. dp_shows E dp d)"
proof (induction dps arbitrary: fs)
  case (Cons dp dps)
  show ?case
  proof (cases "perm_fields dp = []")
    case True
    then have "\<not> dp_shows E dp d" by (simp add: dp_shows_def)
    with Cons True show ?thesis by simp
  next
    case False
    with Cons.prems obtain f gs where "permission_filter E dp = Inr f" "permissionArr E dps = Inr gs" "fs = f # gs"
      by (auto split: sum.splits)
    with Cons.IH permission_filter_iff[of E dp f d] show ?thesis by simp
  qed
qed simp

lemma permissionArr_Nil: "permissionArr E dps = Inr fs \<Longrightarrow> fs = [] \<longleftrightarrow> (\<forall>dp \<in> set dps. perm_fields dp = [])"
  by (induction dps arbitrary: fs) (auto split: sum.splits if_splits)

lemma roleArr_Some:
  "roleArr E rs = Inr (Some fs) \<Longrightarrow>
   length fs = length rs \<and> (list_ex (\<lambda>f. f d) fs \<longleftrightarrow> (\<exists>r \<in> set rs. \<exists>dp \<in> set (dataPermissions r). dp_shows E dp d))"
  by (induction rs arbitrary: fs) (auto simp: permissionArr_iff split: sum.splits if_splits option.splits)

lemma roleArr_None: "roleArr E rs = Inr None \<Longrightarrow> \<exists>r \<in> set rs. blank_role r"
  by (induction rs) (auto simp: blank_role_def permissionArr_Nil split: sum.splits if_splits option.splits)

lemma roleArr_blank:
  "r \<in> set rs \<Longrightarrow> blank_role r \<Longrightarrow> roleArr E rs \<noteq> Inr (Some fs)"
proof (induction rs arbitrary: fs)
  case (Cons q rs)
  then show ?case
    using permissionArr_Nil[of E "dataPermissions q"]
    by (auto simp: blank_role_def split: sum.splits if_splits option.splits)
qed simp

subsection \<open>\<open>getDataByRoles\<close>\<close>

lemma query_all_set:
  "query_all q fids = Inr ds \<Longrightarrow> set ds = (\<Union>fid \<in> set fids. {d. \<exists>es. q fid = Inr es \<and> d \<in> set es})"
  by (induction fids arbitrary: ds) (auto split: sum.splits)

lemma query_all_ok: "query_all q fids = Inr ds \<Longrightarrow> fid \<in> set fids \<Longrightarrow> \<exists>es. q fid = Inr es"
  by (induction fids arbitrary: ds) (auto split: sum.splits)

lemma find_field_distinct:
  "distinct (map field_fieldId avail) \<Longrightarrow> f \<in> set avail \<Longrightarrow> find_field avail (field_fieldId f) = Some f"
  unfolding find_field_def by (rule map_of_is_SomeI) (auto simp: rev_map[symmetric] comp_def)

lemma set_field_keys [simp]: "set (field_keys avail) = field_fieldId ` set avail"
  by (simp add: field_keys_def)

lemma alive_latest_clips:
  assumes "\<And>d e. d \<in> set ds \<Longrightarrow> e \<in> set ds \<Longrightarrow> created d = created e \<Longrightarrow> d = e"
  shows "set (filter alive (latest_clips k ds)) =
    {d \<in> set ds. alive d \<and> (\<forall>e \<in> set ds. group_key k e = group_key k d \<longrightarrow> created e \<le> created d)}"
  using latest_documents[of ds "group_key k"] assms by (auto simp: latest_clips_def)

context mongo_db
begin

lemma queryField_spec:
  assumes "queryField E (data_dr M) (data_collection s) req filters studyId versions avail fid = Inr ds"
    and "find_field avail fid = Some f" and "f \<in> set avail" and "clip_times_distinct s"
    and "\<And>d. list_ex (\<lambda>g. g d) filters \<or> createdUser (life d) = doc_id req \<longleftrightarrow> may_see E s (doc_id req) studyId d"
  shows "set ds = {d. shows_clip E s (doc_id req) studyId versions f d}"
proof -
  let ?c = "find_many (data_dr M) (data_collection s) (\<lambda>d. data_studyId d = studyId \<and> data_dataVersion d \<in> set versions \<and>
     data_fieldId d = fid \<and> (list_ex (\<lambda>g. g d) filters \<or> createdUser (life d) = doc_id req))"
  have fid: "field_fieldId f = fid" using find_field_Some[OF assms(2)] by simp
  have ds: "ds = filter alive (latest_clips (Some f) ?c)"
    using assms(1-3) fid by (auto simp: queryField_def field_available_def split: if_splits)
  have c: "set ?c = seen_clips E s (doc_id req) studyId versions (field_fieldId f)"
    unfolding data_store.find_many_set seen_clips_def fid assms(5) by auto
  have "set ds = {d \<in> set ?c. alive d \<and> (\<forall>e \<in> set ?c. group_key (Some f) e = group_key (Some f) d \<longrightarrow> created e \<le> created d)}"
    unfolding ds
    by (rule alive_latest_clips) (use assms(4) in \<open>auto simp: clip_times_distinct_def data_store.find_many_set\<close>)
  then show ?thesis unfolding c shows_clip_def by blast
qed

lemma getDataByRoles_spec:
  assumes "studyId \<noteq> []" and "field_times_distinct s" and "clip_times_distinct s"
    and roles: "getRolesOfUser M s (Some req) (doc_id req) (Some studyId) = Inr roles"
    and "\<And>r. user_role s (doc_id req) studyId r \<Longrightarrow> \<not> blank_role r"
    and run: "getDataByRoles E M req roles studyId versions None False s = Inr ds"
  shows "set ds = {d. \<exists>f. shows_field s studyId versions f \<and>
    may_read_field E s (doc_id req) studyId (field_fieldId f) \<and> shows_clip E s (doc_id req) studyId versions f d}"
proof -
  have "roleArr E roles \<noteq> Inr None"
    using roleArr_None[of E roles] getRolesOfUser_studyD[OF assms(1) roles] assms(5) by blast
  with run obtain filters avail where
    fl: "roleArr E roles = Inr (Some filters)" and
    av: "getStudyFields E M (Some req) studyId (Versions versions) None s = Inr avail" and
    q: "query_all (queryField E (data_dr M) (data_collection s) req filters studyId versions avail) (field_keys avail) = Inr ds"
    by (auto simp: getDataByRoles_def split: sum.splits option.splits)
  from getStudyFields_spec[OF assms(1,2) av] have
    dist: "distinct (map field_fieldId avail)" and
    av_set: "set avail = {f. shows_field s studyId versions f \<and> may_read_field E s (doc_id req) studyId (field_fieldId f)}"
    by auto
  have see: "list_ex (\<lambda>g. g d) filters \<or> createdUser (life d) = doc_id req \<longleftrightarrow> may_see E s (doc_id req) studyId d" for d
    unfolding may_see_def using roleArr_Some[OF fl, of d] getRolesOfUser_studyD[OF assms(1) roles] by blast
  have one: "set es = {d. shows_clip E s (doc_id req) studyId versions f d}"
    if "f \<in> set avail" "queryField E (data_dr M) (data_collection s) req filters studyId versions avail (field_fieldId f) = Inr es" for f es
    by (rule queryField_spec[OF that(2) find_field_distinct[OF dist that(1)] that(1) assms(3) see])
  have "set ds = (\<Union>f \<in> set avail. {d. shows_clip E s (doc_id req) studyId versions f d})"
    using query_all_set[OF q] query_all_ok[OF q] one by fastforce
  then show ?thesis unfolding av_set by blast
qed

end


subsection \<open>Deleting\<close>

text \<open>The values of the properties a field groups its clips by, of an object of properties.\<close>

definition group_of :: "IField \<Rightarrow> jsval \<Rightarrow> jsval list" where
  "group_of f props = map (\<lambda>p. case props of JObj m \<Rightarrow> js_get m (property_name p) | _ \<Rightarrow> JUndef)
     (nullish (field_properties f) [])"

lemma group_key_group_of: "group_key (Some f) d = group_of f (data_properties d)"
  by (simp add: group_key_def group_of_def clip_property_def)

definition earlier_clips :: "db \<Rightarrow> string \<Rightarrow> string \<Rightarrow> int \<Rightarrow> bool" where
  "earlier_clips s studyId fid t \<longleftrightarrow>
     (\<forall>d \<in> set (data_collection s). data_studyId d = studyId \<and> data_fieldId d = fid \<longrightarrow> created d < t)"

lemma deletion_doc_simps [simp]:
  "data_studyId (deletion_doc i t t2 u st fid props) = st" "data_fieldId (deletion_doc i t t2 u st fid props) = fid"
  "data_dataVersion (deletion_doc i t t2 u st fid props) = None" "data_properties (deletion_doc i t t2 u st fid props) = props"
  "\<not> alive (deletion_doc i t t2 u st fid props)" "created (deletion_doc i t t2 u st fid props) = t"
  "createdUser (life (deletion_doc i t t2 u st fid props)) = u"
  by (simp_all add: deletion_doc_def alive_def new_life_def)

context mongo_db
begin

lemma deleteData_spec:
  assumes "deleteData E M (Some req) studyId fid props s = (Inr r, s')"
  shows "\<exists>i t2. set (data_collection s') =
      insert (deletion_doc i (clock E (tick s)) t2 (doc_id req) studyId fid props) (set (data_collection s)) \<and>
    roles_collection s' = roles_collection s"
proof -
  let ?e = "deletion_doc (uuid_gen E (uuid_next s)) (clock E (tick s)) (clock E (Suc (tick s))) (doc_id req) studyId fid props"
  from assms obtain c where ins: "insertOne (data_dr M) (data_collection s) ?e = Some c" and
    s': "s' = s\<lparr>uuid_next := Suc (uuid_next s), tick := Suc (Suc (tick s)), data_collection := c\<rparr>"
    unfolding deleteData_def
    by (auto simp: Let_def uuid_def Date_now_def split: option.splits sum.splits if_splits)
  from data_store.insertOne_set[OF ins] show ?thesis by (auto simp: s')
qed

lemma deleteData_view:
  assumes "deleteData E M (Some req) studyId fid props s = (Inr r, s')"
    and "earlier_clips s studyId fid (clock E (tick s))" and "None \<in> set versions"
  shows "shows_clip E s' (doc_id req) st versions f d \<longleftrightarrow>
    shows_clip E s (doc_id req) st versions f d \<and>
    \<not> (st = studyId \<and> field_fieldId f = fid \<and> group_key (Some f) d = group_of f props)"
proof -
  from deleteData_spec[OF assms(1)] obtain i t2 where
    data: "set (data_collection s') =
      insert (deletion_doc i (clock E (tick s)) t2 (doc_id req) studyId fid props) (set (data_collection s))" and
    roles: "roles_collection s' = roles_collection s" by blast
  let ?e = "deletion_doc i (clock E (tick s)) t2 (doc_id req) studyId fid props"
  have see: "may_see E s' u q e = may_see E s u q e" for u q e by (simp add: may_see_def user_role_def roles)
  show ?thesis
  proof (cases "st = studyId \<and> field_fieldId f = fid")
    case True
    have seen: "seen_clips E s' (doc_id req) st versions (field_fieldId f) =
        insert ?e (seen_clips E s (doc_id req) st versions (field_fieldId f))"
    proof -
      have "may_see E s (doc_id req) st ?e" by (simp add: may_see_def)
      then show ?thesis using True assms(3) by (auto simp: seen_clips_def data see)
    qed
    have later: "created g < created ?e" if "g \<in> seen_clips E s (doc_id req) st versions (field_fieldId f)" for g
      using assms(2) that True by (auto simp: earlier_clips_def seen_clips_def)
    show ?thesis
      unfolding shows_clip_def seen using True later[of d]
      by (auto simp: group_key_group_of dest: later)
  next
    case False
    then have "seen_clips E s' (doc_id req) st versions (field_fieldId f) =
        seen_clips E s (doc_id req) st versions (field_fieldId f)"
      by (auto simp: seen_clips_def data see)
    with False show ?thesis by (auto simp: shows_clip_def)
  qed
qed

lemma blank_role_no_data:
  assumes "studyId \<noteq> []" and "getRolesOfUser M s (Some req) (doc_id req) (Some studyId) = Inr roles"
    and "user_role s (doc_id req) studyId r" and "blank_role r"
    and "getDataByRoles E M req roles studyId versions fieldIds cold s = Inr ds"
  shows "ds = []"
proof -
  have "r \<in> set roles" using getRolesOfUser_studyD[OF assms(1,2)] assms(3) by blast
  then have "roleArr E roles \<noteq> Inr (Some fs)" for fs by (rule roleArr_blank) (rule assms(4))
  with assms(5) show ?thesis by (auto simp: getDataByRoles_def split: sum.splits option.splits)
qed

end

subsection \<open>The cache\<close>

lemma newest_first_Nil: "newest_first xs = [] \<longleftrightarrow> xs = []"
proof -
  have "length (newest_first xs) = length xs" by (simp add: newest_first_def)
  then show ?thesis by (cases xs) auto
qed

context mongo_db
begin

lemma cache_hit_iff:
  "cache_hit M h s = None \<longleftrightarrow> (\<forall>d \<in> set (cache_collection s). \<not> (keyHash d = h \<and> alive d \<and> cache_status d = INUSE_CACHE))"
proof -
  let ?xs = "find_many (cache_dr M) (cache_collection s) (\<lambda>d. keyHash d = h \<and> alive d \<and> cache_status d = INUSE_CACHE)"
  have "cache_hit M h s = None \<longleftrightarrow> newest_first ?xs = []"
    unfolding cache_hit_def by (cases "newest_first ?xs") simp_all
  also have "\<dots> \<longleftrightarrow> ?xs = []" by (rule newest_first_Nil)
  also have "\<dots> \<longleftrightarrow> (\<forall>d \<in> set (cache_collection s). \<not> (keyHash d = h \<and> alive d \<and> cache_status d = INUSE_CACHE))"
    by (rule cache_store.find_many_Nil)
  finally show ?thesis .
qed

lemma store_cache_hit:
  assumes "store_cache E M req h keys v s = (Inr u, s')"
  shows "cache_hit M h s' \<noteq> None"
proof -
  from assms obtain s3 i t k c where
    "insertOne (cache_dr M) (cache_collection s3) \<lparr>doc_id = i, life = new_life t (doc_id req), metadata = [], keyHash = h,
       cache_keys = keys, cache_uri = k, cache_status = INUSE_CACHE\<rparr> = Some c" and s': "s' = s3\<lparr>cache_collection := c\<rparr>"
    by (auto simp: store_cache_def Let_def split: prod.splits sum.splits option.splits)
  from cache_store.insertOne_set[OF this(1)] show ?thesis
    unfolding cache_hit_iff s' by (auto simp: alive_def new_life_def)
qed

end

text \<open>A query that has gone through with the cache finds its entry from then on.\<close>

context mongo_db
begin

lemma guard_frame:
  "roles_collection s' = roles_collection s \<Longrightarrow> studies_collection s' = studies_collection s \<Longrightarrow>
   member_guard M r studyId s' = member_guard M r studyId s"
  by (simp add: member_guard_def getRolesOfUser_def split: option.splits cong: option.case_cong)

lemma config_frame: "configs_collection s' = configs_collection s \<Longrightarrow> study_config M studyId s' = study_config M studyId s"
  by (simp add: study_config_def)

lemma cache_frame: "cache_collection s' = cache_collection s \<Longrightarrow> cache_hit M h s' = cache_hit M h s"
  by (simp add: cache_hit_def)

lemma contents_frame: "store s' = store s \<Longrightarrow> getJsonFileContents E b u s' = getJsonFileContents E b u s"
  by (simp add: getJsonFileContents_def objStore_downloadFile_def cong: option.case_cong)

lemma getStudyData_hit:
  assumes "member_guard M (Some req) studyId s = Inr (req, roles, study)" and "study_config M studyId s = Some cfg"
    and "cache_hit M (computeHash E (data_query_key req studyId ids v agg)) s = Some d"
  shows "getStudyData E M (Some req) studyId (Some ids) v agg True False cold s =
    (getJsonFileContents E ''cache'' (cache_uri d) s, s)"
  using assms by (simp add: getStudyData_def Let_def)

lemma member_guard_req: "member_guard M (Some req) studyId s = Inr (req', roles, study) \<Longrightarrow> req' = req"
  by (auto simp: member_guard_def split: sum.splits option.splits if_splits)

end

context portal
begin

lemma store_cache_frame:
  assumes "store_cache E M req h keys v s = (Inr u, s')"
  shows "roles_collection s' = roles_collection s \<and> studies_collection s' = studies_collection s \<and>
    configs_collection s' = configs_collection s \<and> data_collection s' = data_collection s"
proof -
  from assms obtain info s1 where up: "convertToBufferAndUpload E M req v s = (Inr info, s1)"
    by (cases "convertToBufferAndUpload E M req v s"; cases "fst (convertToBufferAndUpload E M req v s)")
      (auto simp: store_cache_def)
  then obtain fu where up1: "uploadFile E M req None None fu JSON CACHE None None (s\<lparr>uuid_next := Suc (uuid_next s)\<rparr>) = (Inr info, s1)"
    by (auto simp: convertToBufferAndUpload_def uuid_def)
  from uploadFile_ok[OF up1] have "s1 = s\<lparr>store := store s1, files_collection := files_collection s1,
      uuid_next := Suc (Suc (Suc (uuid_next s))), tick := Suc (tick s)\<rparr>" by (elim exE conjE) simp
  from arg_cong[OF this, of roles_collection] arg_cong[OF this, of studies_collection]
    arg_cong[OF this, of configs_collection] arg_cong[OF this, of data_collection]
  have s1: "roles_collection s1 = roles_collection s" "studies_collection s1 = studies_collection s"
    "configs_collection s1 = configs_collection s" "data_collection s1 = data_collection s" by simp_all
  from assms up obtain c where "s' = s1\<lparr>uuid_next := Suc (uuid_next s1), tick := Suc (tick s1), cache_collection := c\<rparr>"
    by (auto simp: store_cache_def uuid_def Date_now_def Let_def split: option.splits)
  then show ?thesis by (simp add: s1)
qed

lemma getStudyData_cached:
  assumes "getStudyData E M (Some req) studyId (Some ids) v agg True False cold s = (Inr x, s')"
  shows "\<exists>roles study cfg d. member_guard M (Some req) studyId s' = Inr (req, roles, study) \<and>
    study_config M studyId s' = Some cfg \<and>
    cache_hit M (computeHash E (data_query_key req studyId ids v agg)) s' = Some d"
proof -
  let ?h = "computeHash E (data_query_key req studyId ids v agg)"
  obtain roles study where g: "member_guard M (Some req) studyId s = Inr (req, roles, study)"
    using assms member_guard_req[of req studyId s]
    by (cases "member_guard M (Some req) studyId s") (auto simp: getStudyData_def)
  obtain cfg where c: "study_config M studyId s = Some cfg"
  proof (cases "study_config M studyId s")
    case None
    with assms g have False by (simp add: getStudyData_def)
    then show ?thesis ..
  qed (rule that)
  show ?thesis
  proof (cases "cache_hit M ?h s")
    case None
    with assms g c obtain r raw keys u where "store_cache E M req ?h keys raw s = (Inr u, s')"
      by (auto simp: getStudyData_def Let_def split: sum.splits prod.splits)
    with store_cache_frame[OF this] store_cache_hit[OF this] g c show ?thesis
      using guard_frame[of s' s "Some req" studyId] config_frame[of s' s studyId] by auto
  next
    case (Some d)
    with assms g c have "s' = s" by (simp add: getStudyData_hit)
    with g c Some show ?thesis by blast
  qed
qed

text \<open>Uploads only write clips.\<close>

lemma uploads_frame:
  assumes "(\<lambda>a b. \<exists>u st clips rs. uploadData E M (Some u) st clips a = (Inr rs, b))\<^sup>*\<^sup>* s s'"
  shows "store s' = store s \<and> cache_collection s' = cache_collection s \<and> configs_collection s' = configs_collection s \<and>
    roles_collection s' = roles_collection s \<and> studies_collection s' = studies_collection s"
  using assms
proof (induction rule: rtranclp_induct)
  case (step s1 s2)
  then obtain u st clips rs where "uploadData E M (Some u) st clips s1 = (Inr rs, s2)" by blast
  from uploadData_spec[OF this] obtain c a b where "s2 = s1\<lparr>data_collection := c, uuid_next := a, tick := b\<rparr>"
    by blast
  with step.IH show ?case by simp
qed simp

lemma cached_data_stale:
  assumes "getStudyData E M (Some req) studyId (Some ids) v agg True False cold s = (Inr x, s1)"
    and "(\<lambda>a b. \<exists>u st clips rs. uploadData E M (Some u) st clips a = (Inr rs, b))\<^sup>*\<^sup>* s1 s2"
  shows "fst (getStudyData E M (Some req) studyId (Some ids) v agg True False cold s2) =
    fst (getStudyData E M (Some req) studyId (Some ids) v agg True False cold s1)"
proof -
  from getStudyData_cached[OF assms(1)] obtain roles study cfg d where
    hit: "member_guard M (Some req) studyId s1 = Inr (req, roles, study)" "study_config M studyId s1 = Some cfg"
      "cache_hit M (computeHash E (data_query_key req studyId ids v agg)) s1 = Some d" by blast
  have eq: "store s2 = store s1" "cache_collection s2 = cache_collection s1" "configs_collection s2 = configs_collection s1"
    "roles_collection s2 = roles_collection s1" "studies_collection s2 = studies_collection s1"
    using uploads_frame[OF assms(2)] by blast+
  have same: "getJsonFileContents E b x s2 = getJsonFileContents E b x s1" "cache_hit M h s2 = cache_hit M h s1"
    "study_config M studyId s2 = study_config M studyId s1"
    "member_guard M r studyId s2 = member_guard M r studyId s1" for b x h r
    by (fact contents_frame[OF eq(1)] cache_frame[OF eq(2)] config_frame[OF eq(3)] guard_frame[OF eq(4,5)])+
  have hit2: "member_guard M (Some req) studyId s2 = Inr (req, roles, study)" "study_config M studyId s2 = Some cfg"
      "cache_hit M (computeHash E (data_query_key req studyId ids v agg)) s2 = Some d"
    by (simp_all only: same hit)
  show ?thesis unfolding getStudyData_hit[OF hit] getStudyData_hit[OF hit2] fst_conv by (rule same(1))
qed

end

subsection \<open>Properties\<close>

definition clip0 :: "string \<Rightarrow> int \<Rightarrow> string \<Rightarrow> IData" where
  "clip0 i t v = \<lparr>doc_id = i, life = new_life t ''ann'', metadata = [], data_studyId = ''st'',
     data_fieldId = ''age'', data_dataVersion = None, data_value = JStr v, data_properties = JNull\<rparr>"

definition study_config0 :: IConfig where
  "study_config0 = \<lparr>doc_id = ''c1'', life = life0, metadata = [], config_type = STUDYCONFIG, config_key = Some ''st'',
     properties = StudyProps default_studyConfig\<rparr>"

definition sample_clips :: db where
  "sample_clips = sample_fields\<lparr>data_collection := [clip0 ''d1'' 1 ''a'', clip0 ''d2'' 2 ''b''],
     configs_collection := [study_config0]\<rparr>"

abbreviation ann :: IUserWithoutToken where
  "ann \<equiv> user0 ''ann'' STANDARD"

abbreviation ann_role :: IRole where
  "ann_role \<equiv> role0 ''r3'' ''st'' STUDY_MANAGER [''ann''] [sample_dp ''age'' 7]"

definition inputs0 :: "IDataInput list" where
  "inputs0 = [\<lparr>input_fieldId = ''age'', input_value = ''x'', input_properties = None\<rparr>,
     \<lparr>input_fieldId = ''height'', input_value = ''y'', input_properties = None\<rparr>]"

text \<open>
  C21. Type soundness of uploads: every clip that \<open>uploadData\<close> adds belongs to the study and the
  requester, is in no version, and either holds the study's representation of a missing value or
  has a field that is shown to the requester, a value of the type of that field which its verifier
  accepts, and all the properties the field requires.
\<close>

theorem uploaded_clips_typed:
  assumes "mongo_ok M" and "studyId \<noteq> []" and "uploadData E M (Some req) studyId clips s = (Inr rs, s')"
  shows "\<exists>study \<in> set (studies_collection s). doc_id study = studyId \<and> alive study \<and>
    (\<forall>d \<in># mset (data_collection s') - mset (data_collection s). clip_typed E M s req studyId study d)"
  by (rule mongo_db.uploaded_typed[OF mongo_db.intro[OF assms(1)] assms(2,3)])

theorem uploaded_clips_typed_witness:
  "\<exists>d. data_collection (snd (uploadData env0 list_mongo (Some ann) ''st'' inputs0 sample_fields)) = [d] \<and>
     data_value d = JStr ''x'' \<and> clip_typed env0 list_mongo sample_fields ann ''st'' (study0 ''st'') d"
proof -
  let ?s = "snd (uploadData env0 list_mongo (Some ann) ''st'' inputs0 sample_fields)"
  have "\<not> isl (fst (uploadData env0 list_mongo (Some ann) ''st'' inputs0 sample_fields))" by code_simp
  then obtain rs where run: "uploadData env0 list_mongo (Some ann) ''st'' inputs0 sample_fields = (Inr rs, ?s)"
    by (metis not_isl_Inr)
  have "map data_value (data_collection ?s) = [JStr ''x'']" by code_simp
  then obtain d where d: "data_collection ?s = [d]" "data_value d = JStr ''x''" by auto
  have "data_collection sample_fields = []" "studies_collection sample_fields = [study0 ''st'']"
    by (simp_all add: sample_fields_def sample_roles_def db0_def)
  with uploaded_clips_typed[OF list_mongo_ok _ run] d show ?thesis by simp
qed

text \<open>
  \<open>uploadData\<close> answers one response for each clip, and the documents it adds are exactly those of
  the clips it reports as successful, in their order, each of which passed the permission check; it
  changes nothing but the data collection (and the supplies of ids and times).
\<close>

theorem upload_adds_the_accepted:
  assumes "mongo_ok M" and "uploadData E M (Some req) studyId clips s = (Inr rs, s')"
  shows "length rs = length clips \<and>
    (\<exists>ds. mset (data_collection s') = mset (data_collection s) + mset ds \<and>
       list_all2 (\<lambda>clip d. doc_for req studyId clip d \<and>
           checkFieldOrDataPermission E M s req studyId (clip_entry clip) WRITE = Inr True) (accepted_clips rs clips) ds) \<and>
    s' = s\<lparr>data_collection := data_collection s', uuid_next := uuid_next s', tick := tick s'\<rparr>"
proof -
  from mongo_db.uploadData_spec[OF mongo_db.intro[OF assms(1)] assms(2)] obtain study avail ds where
    *: "length rs = length clips" "mset (data_collection s') = mset (data_collection s) + mset ds"
      "s' = s\<lparr>data_collection := data_collection s', uuid_next := uuid_next s', tick := tick s'\<rparr>" and
    ds: "list_all2 (\<lambda>clip d. doc_for req studyId clip d \<and> accepted_ok E M s req studyId avail
       (config_missingValue (config_or M s STUDYCONFIG (Some studyId) (StudyProps default_studyConfig))) clip (data_value d))
      (accepted_clips rs clips) ds" by blast
  from ds have "list_all2 (\<lambda>clip d. doc_for req studyId clip d \<and>
      checkFieldOrDataPermission E M s req studyId (clip_entry clip) WRITE = Inr True) (accepted_clips rs clips) ds"
    by (rule list_all2_mono) (simp add: accepted_ok_def)
  with * show ?thesis by blast
qed

theorem upload_adds_the_accepted_witness:
  "\<exists>rs. fst (uploadData env0 list_mongo (Some ann) ''st'' inputs0 sample_fields) = Inr rs \<and> length rs = 2 \<and>
     size (mset (data_collection (snd (uploadData env0 list_mongo (Some ann) ''st'' inputs0 sample_fields)))) =
     length (accepted_clips rs inputs0)"
proof -
  let ?s = "snd (uploadData env0 list_mongo (Some ann) ''st'' inputs0 sample_fields)"
  have "\<not> isl (fst (uploadData env0 list_mongo (Some ann) ''st'' inputs0 sample_fields))" by code_simp
  then obtain rs where run: "uploadData env0 list_mongo (Some ann) ''st'' inputs0 sample_fields = (Inr rs, ?s)"
    by (metis not_isl_Inr)
  from upload_adds_the_accepted[OF list_mongo_ok run] obtain ds where
    "length rs = length inputs0" "mset (data_collection ?s) = mset (data_collection sample_fields) + mset ds"
    "length (accepted_clips rs inputs0) = length ds" by (auto dest: list_all2_lengthD)
  moreover have "data_collection sample_fields = []" by (simp add: sample_fields_def sample_roles_def db0_def)
  ultimately have "size (mset (data_collection ?s)) = length (accepted_clips rs inputs0)" "length rs = 2"
    by (simp_all add: inputs0_def del: size_mset) simp
  then show ?thesis using run by (metis fst_conv)
qed

text \<open>
  C22. \<open>getDataByRoles\<close> computes the abstract view of the study: for each field that the requester can
  read, and each group of its clips with the same property values, the latest document among those
  he made or some data permission of his roles shows, where it is alive. (None of his roles may be
  blank, and no two documents of a field may have been created in the same millisecond.)
\<close>

theorem getDataByRoles_view:
  assumes "mongo_ok M" and "studyId \<noteq> []" and "field_times_distinct s" and "clip_times_distinct s"
    and "getRolesOfUser M s (Some req) (doc_id req) (Some studyId) = Inr roles"
    and "\<And>r. user_role s (doc_id req) studyId r \<Longrightarrow> \<not> blank_role r"
    and "getDataByRoles E M req roles studyId versions None False s = Inr ds"
  shows "set ds = {d. \<exists>f. shows_field s studyId versions f \<and>
    may_read_field E s (doc_id req) studyId (field_fieldId f) \<and> shows_clip E s (doc_id req) studyId versions f d}"
  by (rule mongo_db.getDataByRoles_spec[OF mongo_db.intro[OF assms(1)] assms(2-7)])

lemma sample_clips_simps:
  "roles_collection sample_clips = roles_collection sample_roles" "data_collection sample_clips = [clip0 ''d1'' 1 ''a'', clip0 ''d2'' 2 ''b'']"
  "field_dictionary_collection sample_clips = [field0 ''f1'' ''st'' ''age'' 1, field0 ''f2'' ''st'' ''age'' 2]"
  by (simp_all add: sample_clips_def sample_fields_def)

lemma ann_roles: "getRolesOfUser list_mongo sample_clips (Some ann) (doc_id ann) (Some ''st'') = Inr [ann_role]"
  by (simp add: field_eval sample_clips_def)

lemma not_blank_ann: "user_role sample_clips (doc_id ann) ''st'' r \<Longrightarrow> \<not> blank_role r"
  by (auto simp: user_role_def sample_clips_simps sample_roles_simps role0_def sample_dp_def blank_role_def user0_def)

theorem getDataByRoles_view_witness:
  "{d. \<exists>f. shows_field sample_clips ''st'' [None] f \<and> may_read_field env0 sample_clips ''ann'' ''st'' (field_fieldId f) \<and>
      shows_clip env0 sample_clips ''ann'' ''st'' [None] f d} = {clip0 ''d2'' 2 ''b''}"
proof -
  have run: "getDataByRoles env0 list_mongo ann [ann_role] ''st'' [None] None False sample_clips = Inr [clip0 ''d2'' 2 ''b'']"
    by code_simp
  have "field_times_distinct sample_clips" "clip_times_distinct sample_clips"
    by (simp_all add: field_times_distinct_def clip_times_distinct_def sample_clips_simps field0_def clip0_def new_life_def)
  from getDataByRoles_view[OF list_mongo_ok _ this ann_roles not_blank_ann run] show ?thesis
    by (simp add: user0_def)
qed

text \<open>
  One role without any field pattern (as \<open>createStudyRole\<close> makes it by default) hides all data of
  the study from its users, whatever their other roles allow, and even the clips they made.
\<close>

theorem blank_role_hides_data:
  assumes "mongo_ok M" and "studyId \<noteq> []"
    and "getRolesOfUser M s (Some req) (doc_id req) (Some studyId) = Inr roles"
    and "user_role s (doc_id req) studyId r" and "blank_role r"
    and "getDataByRoles E M req roles studyId versions fieldIds cold s = Inr ds"
  shows "ds = []"
  by (rule mongo_db.blank_role_no_data[OF mongo_db.intro[OF assms(1)] assms(2-6)])

definition blank_sample :: db where
  "blank_sample = sample_clips\<lparr>roles_collection := roles_collection sample_clips @
     [role0 ''r4'' ''st'' STUDY_USER [''ann''] default_dataPermissions]\<rparr>"

theorem blank_role_hides_data_witness:
  "\<exists>roles ds. getRolesOfUser list_mongo blank_sample (Some ann) (doc_id ann) (Some ''st'') = Inr roles \<and> ann_role \<in> set roles \<and>
     getDataByRoles env0 list_mongo ann roles ''st'' [None] None False blank_sample = Inr ds \<and> ds = []"
proof -
  let ?blank = "role0 ''r4'' ''st'' STUDY_USER [''ann''] default_dataPermissions"
  have roles: "getRolesOfUser list_mongo blank_sample (Some ann) (doc_id ann) (Some ''st'') = Inr [ann_role, ?blank]"
    by (simp add: field_eval blank_sample_def sample_clips_def)
  have r: "user_role blank_sample (doc_id ann) ''st'' ?blank" "blank_role ?blank"
    by (simp_all add: user_role_def blank_sample_def role0_def user0_def blank_role_def default_dataPermissions_def)
  have "\<not> isl (getDataByRoles env0 list_mongo ann [ann_role, ?blank] ''st'' [None] None False blank_sample)" by code_simp
  then obtain ds where run: "getDataByRoles env0 list_mongo ann [ann_role, ?blank] ''st'' [None] None False blank_sample = Inr ds"
    by (metis isl_def obj_sumE)
  from blank_role_hides_data[OF list_mongo_ok _ roles r run] roles run show ?thesis by simp
qed

text \<open>
  C23. Deleting a clip hides it from the manager who deletes it: in every list of versions with the
  unversioned documents, his view loses exactly the clips of the field in the group of the given
  property values, and keeps all others, provided the clock is past the clips of the field.
\<close>

theorem deleteData_hides:
  assumes "mongo_ok M" and "deleteData E M (Some req) studyId fid props s = (Inr r, s')"
    and "earlier_clips s studyId fid (clock E (tick s))" and "None \<in> set versions"
  shows "shows_clip E s' (doc_id req) st versions f d \<longleftrightarrow>
    shows_clip E s (doc_id req) st versions f d \<and>
    \<not> (st = studyId \<and> field_fieldId f = fid \<and> group_key (Some f) d = group_of f props)"
  by (rule mongo_db.deleteData_view[OF mongo_db.intro[OF assms(1)] assms(2-4)])

theorem deleteData_hides_witness:
  "{d. shows_clip env0 (snd (deleteData env0 list_mongo (Some ann) ''st'' ''age'' JNull sample_clips)) ''ann'' ''st'' [None]
        (field0 ''f2'' ''st'' ''age'' 2) d} = {}"
proof -
  have "\<not> isl (fst (deleteData env0 list_mongo (Some ann) ''st'' ''age'' JNull sample_clips))" by code_simp
  then obtain r where run: "deleteData env0 list_mongo (Some ann) ''st'' ''age'' JNull sample_clips =
      (Inr r, snd (deleteData env0 list_mongo (Some ann) ''st'' ''age'' JNull sample_clips))"
    by (metis not_isl_Inr)
  have "earlier_clips sample_clips ''st'' ''age'' (clock env0 (tick sample_clips))"
    by (simp add: earlier_clips_def sample_clips_simps clip0_def new_life_def env0_def)
  from deleteData_hides[OF list_mongo_ok run this, of "[None]" "''st''" "field0 ''f2'' ''st'' ''age'' 2"]
  show ?thesis by (simp add: field0_def group_key_def group_of_def user0_def)
qed

text \<open>
  C24. The cache of data is never refreshed by an upload. Once a query for explicit field ids has gone
  through with the cache, what the cache answers to the same query (same requester, study, fields,
  version and aggregation, no forced update) stays the same over any number of successful uploads
  by anybody, to the same study or another. The two answers compared are the next ones before and
  after the uploads; the answer of the first query, when it missed the cache, has another form
  (the cache holds the clips under the key \<open>data\<close>, without the aggregation) and is not claimed equal.
\<close>

theorem cached_data_ignores_uploads:
  assumes "mongo_ok M" and "object_store (minio E)"
    and "getStudyData E M (Some req) studyId (Some ids) v agg True False cold s = (Inr x, s1)"
    and "(\<lambda>a b. \<exists>u st clips rs. uploadData E M (Some u) st clips a = (Inr rs, b))\<^sup>*\<^sup>* s1 s2"
  shows "fst (getStudyData E M (Some req) studyId (Some ids) v agg True False cold s2) =
    fst (getStudyData E M (Some req) studyId (Some ids) v agg True False cold s1)"
proof -
  have p: "portal M E" using assms(1,2) by (simp add: portal_def mongo_db_def)
  show ?thesis by (rule portal.cached_data_stale[OF p assms(3,4)])
qed

definition cached_sample :: db where
  "cached_sample = sample_clips\<lparr>cache_collection := [\<lparr>doc_id = ''k1'', life = life0, metadata = [],
       keyHash = computeHash env0 (data_query_key ann ''st'' [''age''] Null_Version None), cache_keys = [],
       cache_uri = ''u'', cache_status = INUSE_CACHE\<rparr>],
     store := \<lparr>buckets = [''cache''], objects = [((''cache'', ''u''), ''[]'')]\<rparr>\<rparr>"

theorem cached_data_ignores_uploads_witness:
  "\<exists>rs s2. uploadData env0 list_mongo (Some ann) ''st'' inputs0 cached_sample = (Inr rs, s2) \<and> length (data_collection s2) = 3 \<and>
     fst (getStudyData env0 list_mongo (Some ann) ''st'' (Some [''age'']) Null_Version None True False False s2) = Inr (JArr [])"
proof -
  let ?q = "getStudyData env0 list_mongo (Some ann) ''st'' (Some [''age'']) Null_Version None True False False"
  let ?u = "uploadData env0 list_mongo (Some ann) ''st'' inputs0 cached_sample"
  let ?k = "\<lparr>doc_id = ''k1'', life = life0, metadata = [],
       keyHash = computeHash env0 (data_query_key ann ''st'' [''age''] Null_Version None), cache_keys = [],
       cache_uri = ''u'', cache_status = INUSE_CACHE\<rparr>"
  have "cache_hit list_mongo (computeHash env0 (data_query_key ann ''st'' [''age''] Null_Version None)) cached_sample = Some ?k"
    by (simp add: cache_hit_def cached_sample_def list_mongo_def list_driver_simps newest_first_def)
  moreover have "member_guard list_mongo (Some ann) ''st'' cached_sample = Inr (ann, [ann_role], study0 ''st'')"
    by (simp add: member_guard_def cached_sample_def sample_clips_def field_eval)
  moreover have "study_config list_mongo ''st'' cached_sample = Some study_config0"
    by (simp add: study_config_def cached_sample_def sample_clips_def list_mongo_def list_driver_simps study_config0_def)
  ultimately have q: "?q cached_sample = (getJsonFileContents env0 ''cache'' (cache_uri ?k) cached_sample, cached_sample)"
    by (intro mongo_db.getStudyData_hit[OF mongo_db.intro[OF list_mongo_ok]])
  have "getJsonFileContents env0 ''cache'' ''u'' cached_sample = Inr (JArr [])" by code_simp
  with q have q: "?q cached_sample = (Inr (JArr []), cached_sample)" by simp
  have "\<not> isl (fst ?u)" by code_simp
  then obtain rs where u: "?u = (Inr rs, snd ?u)" by (metis not_isl_Inr)
  have "length (data_collection (snd ?u)) = 3" by code_simp
  moreover have "object_store (minio env0)" using list_objects.object_store_axioms by (simp add: env0_def)
  moreover have "(\<lambda>a b. \<exists>u st clips rs. uploadData env0 list_mongo (Some u) st clips a = (Inr rs, b))\<^sup>*\<^sup>*
      cached_sample (snd ?u)" by (rule r_into_rtranclp) (use u in blast)
  note same = cached_data_ignores_uploads[OF list_mongo_ok _ q this]
  ultimately show ?thesis using q u same by (metis fst_conv)
qed

end
