(* ===== verification/Standardisation.thy ===== *)
theory Standardisation
  imports StudyFields Study
begin

section \<open>Standardisation rules (\<open>standardizationCore.ts\<close>)\<close>

text \<open>
  The operations of the class \<open>StandarizationCore\<close>. Their arguments are untyped in the source; the
  model takes a record of what \<open>createStandardization\<close> reads. All three ask for the roles of the
  requester with \<open>getRolesOfUser(requester, studyId)\<close>, whose second argument is the id of a user.
\<close>

record StandardizationInput =
  in_type :: string
  in_field :: "string list"
  in_path :: "string list option"
  in_stdRules :: "IStandardizationRule list"
  in_joinByKeys :: "string list option"
  in_metadata :: jsval

text \<open>\<open>/^.*$/\<close>: no line feed, except at the very end.\<close>

definition one_line :: "string \<Rightarrow> bool" where
  "one_line x \<longleftrightarrow> list_all (\<lambda>c. c \<noteq> CHR 0x0A) (butlast x)"

text \<open>\<open>$sort: { uploadedAt: -1 }\<close>: a missing property is \<open>null\<close>, which is less than any number.\<close>

definition latest_upload :: "IStandardization list \<Rightarrow> IStandardization list" where
  "latest_upload ds =
     sort_key (\<lambda>d. - the (std_uploadedAt d)) (filter (\<lambda>d. std_uploadedAt d \<noteq> None) ds) @
     filter (\<lambda>d. std_uploadedAt d = None) ds"

definition std_versions :: "IStudy \<Rightarrow> string option \<Rightarrow> string option list" where
  "std_versions study versionId =
     (if currentDataVersion study = -1 then []
      else map (\<lambda>v. Some (doc_id v)) (take (nat (currentDataVersion study + 1)) (dataVersions study))) @
     (if versionId = None then [None] else [])"

definition getStandardization ::
    "mongo \<Rightarrow> requester \<Rightarrow> string option \<Rightarrow> string \<Rightarrow> string option \<Rightarrow> string option \<Rightarrow> db
     \<Rightarrow> IStandardization list result" where
  "getStandardization M requester versionId studyId projectId type s =
     (case requester of
        None \<Rightarrow> Inl (core_error NOT_LOGGED_IN)
      | Some req \<Rightarrow>
     if studyId = [] \<and> \<not> truthy projectId
     then Inl (CoreError CLIENT_ACTION_ON_NON_EXISTENT_ENTRY ''Either studyId or projectId should be provided.'')
     else
     (case getRolesOfUser M s (Some req) studyId None of
        Inl e \<Rightarrow> Inl e
      | Inr roles \<Rightarrow>
     if roles = [] then Inl (core_error NO_PERMISSION_ERROR)
     else
     (case getStudies M (Some req) (Some studyId) s of
        Inl e \<Rightarrow> Inl e
      | Inr [] \<Rightarrow> Inl (JSError ''TypeError'')
      | Inr (study # _) \<Rightarrow>
          Inr (filter (\<lambda>d. std_deleted d = None)
            (group_first (\<lambda>d. (std_type d, std_field d))
              (filter (\<lambda>d. std_studyId d = studyId \<and>
                  (case type of Some t \<Rightarrow> std_type d = t | None \<Rightarrow> one_line (std_type d)))
                (latest_upload (find_many (standardizations_dr M) (standardizations_collection s)
                  (\<lambda>d. std_dataVersion d \<in> set (std_versions study versionId))))))))))"

text \<open>\<open>findOneAndUpdate\<close> with \<open>upsert\<close>: the document as it was, or nothing where one is inserted.\<close>

definition upsert_std ::
    "mongo \<Rightarrow> (IStandardization \<Rightarrow> bool) \<Rightarrow> (IStandardization \<Rightarrow> IStandardization) \<Rightarrow> IStandardization \<Rightarrow> db
     \<Rightarrow> IStandardization option result \<times> db" where
  "upsert_std M q f new s =
     (case updateOne (standardizations_dr M) (standardizations_collection s) q f of
        None \<Rightarrow> (Inl MongoServerError, s)
      | Some (Some d, c) \<Rightarrow> (Inr (Some d), s\<lparr>standardizations_collection := c\<rparr>)
      | Some (None, c) \<Rightarrow>
          (case insertOne (standardizations_dr M) c new of
             None \<Rightarrow> (Inl MongoServerError, s\<lparr>standardizations_collection := c\<rparr>)
           | Some c' \<Rightarrow> (Inr None, s\<lparr>standardizations_collection := c'\<rparr>)))"

fun rules_with_ids :: "env \<Rightarrow> IStandardizationRule list \<Rightarrow> db \<Rightarrow> IStandardizationRule list \<times> db" where
  "rules_with_ids E [] s = ([], s)"
| "rules_with_ids E (r # rs) s =
     (let (i, s1) = uuid E s; (rs', s2) = rules_with_ids E rs s1 in (r\<lparr>rule_id := i\<rparr> # rs', s2))"

definition same_rule :: "string \<Rightarrow> string \<Rightarrow> string list \<Rightarrow> IStandardization \<Rightarrow> bool" where
  "same_rule studyId type field d \<longleftrightarrow>
     std_studyId d = studyId \<and> std_type d = type \<and> std_field d = field \<and> std_dataVersion d = None"

definition std_entry ::
    "string \<Rightarrow> int \<Rightarrow> string \<Rightarrow> string \<Rightarrow> StandardizationInput \<Rightarrow> IStandardizationRule list \<Rightarrow> IStandardization" where
  "std_entry i now user studyId inp rules = \<lparr>std_id = i, std_life = Some (new_life now user),
     std_metadata = in_metadata inp, std_studyId = studyId, std_type = in_type inp, std_field = in_field inp,
     std_path = in_path inp, stdRules = Some rules, joinByKeys = Some (nullish (in_joinByKeys inp) []),
     std_dataVersion = None, std_uploadedAt = None, std_deleted = None\<rparr>"

text \<open>\<open>$set\<close> writes the properties of the entry, and leaves \<open>uploadedAt\<close> and \<open>deleted\<close> as they are.\<close>

definition set_entry :: "IStandardization \<Rightarrow> IStandardization \<Rightarrow> IStandardization" where
  "set_entry e d = e\<lparr>std_uploadedAt := std_uploadedAt d, std_deleted := std_deleted d\<rparr>"

definition createStandardization ::
    "env \<Rightarrow> mongo \<Rightarrow> requester \<Rightarrow> string \<Rightarrow> StandardizationInput \<Rightarrow> db \<Rightarrow> IStandardization result \<times> db" where
  "createStandardization E M requester studyId inp s =
     (case requester of
        None \<Rightarrow> (Inl (core_error NOT_LOGGED_IN), s)
      | Some req \<Rightarrow>
     (case getRolesOfUser M s (Some req) studyId None of
        Inl e \<Rightarrow> (Inl e, s)
      | Inr roles \<Rightarrow>
     if list_all (\<lambda>r. studyRole r \<noteq> STUDY_MANAGER) roles then (Inl (core_error NO_PERMISSION_ERROR), s)
     else
     (case findOne (studies_dr M) (studies_collection s) (\<lambda>d. doc_id d = studyId) of
        None \<Rightarrow> (Inl (CoreError CLIENT_ACTION_ON_NON_EXISTENT_ENTRY ''Study does not exist.''), s)
      | Some _ \<Rightarrow>
     (let (rules, s1) = rules_with_ids E (in_stdRules inp) s;
          (i, s2) = uuid E s1;
          (now, s3) = Date_now E s2;
          entry = std_entry i now (doc_id req) studyId inp rules
      in case upsert_std M (same_rule studyId (in_type inp) (in_field inp)) (set_entry entry) entry s3 of
           (Inl e, s4) \<Rightarrow> (Inl e, s4)
         | (Inr _, s4) \<Rightarrow> (Inr entry, s4)))))"

definition std_deletion :: "string \<Rightarrow> int \<Rightarrow> int \<Rightarrow> string \<Rightarrow> string \<Rightarrow> string list \<Rightarrow> IStandardization \<Rightarrow> IStandardization" where
  "std_deletion i t1 t2 studyId type field d = d\<lparr>std_id := i, std_studyId := studyId, std_field := field,
     std_type := type, std_dataVersion := None, std_uploadedAt := Some t1, std_deleted := Some t2\<rparr>"

text \<open>What an upsert inserts: the fields of the filter and those of \<open>$set\<close>, and nothing else.\<close>

definition bare_std :: IStandardization where
  "bare_std = \<lparr>std_id = [], std_life = None, std_metadata = JUndef, std_studyId = [], std_type = [], std_field = [],
     std_path = None, stdRules = None, joinByKeys = None, std_dataVersion = None, std_uploadedAt = None,
     std_deleted = None\<rparr>"

definition deleteStandardization ::
    "env \<Rightarrow> mongo \<Rightarrow> requester \<Rightarrow> string \<Rightarrow> string \<Rightarrow> string list \<Rightarrow> db \<Rightarrow> IGenericResponse result \<times> db" where
  "deleteStandardization E M requester studyId type field s =
     (case requester of
        None \<Rightarrow> (Inl (core_error CLIENT_ACTION_ON_NON_EXISTENT_ENTRY), s)
      | Some req \<Rightarrow>
     (case getRolesOfUser M s (Some req) studyId None of
        Inl e \<Rightarrow> (Inl e, s)
      | Inr roles \<Rightarrow>
     if roles = [] then (Inl (core_error NO_PERMISSION_ERROR), s)
     else
     (case findOne (studies_dr M) (studies_collection s) (\<lambda>d. doc_id d = studyId) of
        None \<Rightarrow> (Inl (CoreError CLIENT_ACTION_ON_NON_EXISTENT_ENTRY ''Study does not exist.''), s)
      | Some _ \<Rightarrow>
     if type \<notin> std_type ` set (find_many (standardizations_dr M) (standardizations_collection s)
          (\<lambda>d. std_studyId d = studyId \<and> std_deleted d = None))
     then (Inl (CoreError CLIENT_ACTION_ON_NON_EXISTENT_ENTRY ''Type does not exist.''), s)
     else
     (let (i, s1) = uuid E s;
          (t1, s2) = Date_now E s1;
          (t2, s3) = Date_now E s2;
          del = std_deletion i t1 t2 studyId type field
      in case upsert_std M (same_rule studyId type field) del (del bare_std) s3 of
           (Inl e, s4) \<Rightarrow> (Inl e, s4)
         | (Inr old, s4) \<Rightarrow>
             (Inr (makeGenericResponse (Some (case old of None \<Rightarrow> [] | Some d \<Rightarrow> std_id d)) None None None), s4)))))"

subsection \<open>Nobody is allowed in\<close>

context mongo_db
begin

text \<open>The guard looks for roles of a user with the id of the study.\<close>

lemma roles_of_study_id:
  assumes "\<forall>r \<in> set (roles_collection s). alive r \<longrightarrow> studyId \<notin> set (role_users r)"
  shows "getRolesOfUser M s (Some req) studyId None \<in> {Inl (core_error NO_PERMISSION_ERROR), Inr []}"
  using assms by (auto simp: getRolesOfUser_def roles_store.find_many_Nil)

text \<open>A deleted rule cannot be restored: creating it again leaves it deleted.\<close>

lemma recreated_rule_stays_deleted:
  "std_deleted d = Some t \<Longrightarrow> std_deleted (set_entry e d) = Some t"
  by (simp add: set_entry_def)

end

text \<open>
  The operations on standardisation rules refuse everybody. They look up the roles of a user whose id is
  that of the study; unless a role lists such a user, every requester who is logged in gets the
  error for missing permissions from all three, administrators and study managers too, and nothing is
  stored.
\<close>

theorem standardisation_always_refused:
  assumes "mongo_ok M" and "studyId \<noteq> []"
    and "\<forall>r \<in> set (roles_collection s). alive r \<longrightarrow> studyId \<notin> set (role_users r)"
  shows "getStandardization M (Some req) v studyId pr ty s = Inl (core_error NO_PERMISSION_ERROR) \<and>
    createStandardization E M (Some req) studyId inp s = (Inl (core_error NO_PERMISSION_ERROR), s) \<and>
    deleteStandardization E M (Some req) studyId t f s = (Inl (core_error NO_PERMISSION_ERROR), s)"
proof -
  have "getRolesOfUser M s (Some req) studyId None \<in> {Inl (core_error NO_PERMISSION_ERROR), Inr []}"
    by (rule mongo_db.roles_of_study_id[OF mongo_db.intro[OF assms(1)] assms(3)])
  then show ?thesis
    using assms(2) by (auto simp: getStandardization_def createStandardization_def deleteStandardization_def)
qed

definition managed0 :: db where
  "managed0 = db0\<lparr>studies_collection := [study0 ''st''],
     roles_collection := [role0 ''r'' ''st'' STUDY_MANAGER [''ann''] []]\<rparr>"

theorem standardisation_always_refused_witness:
  "getStandardization list_mongo (Some (user0 ''ann'' STANDARD)) None ''st'' None None managed0 =
     Inl (core_error NO_PERMISSION_ERROR) \<and>
   getStandardization list_mongo (Some (user0 ''root'' ADMIN)) None ''st'' None None managed0 =
     Inl (core_error NO_PERMISSION_ERROR)"
proof -
  have "\<forall>r \<in> set (roles_collection managed0). alive r \<longrightarrow> ''st'' \<notin> set (role_users r)"
    by (simp add: managed0_def role0_def)
  from standardisation_always_refused[OF list_mongo_ok _ this] show ?thesis by simp
qed

end
