(* ===== verification/WebAuthn.thy ===== *)
theory WebAuthn
  imports Mfa Formula Users
begin

section \<open>Authenticators (\<open>webauthnCore.ts\<close>)\<close>

text \<open>
  The operations of the class \<open>WebauthnCore\<close>: the devices a user registers, the two ceremonies, and
  the log-in that follows. The ceremonies themselves are those of the package
  \<open>@simplewebauthn/server\<close>, which the environment supplies; a throw of it is \<open>None\<close>. An update
  is acknowledged whenever it does not throw, so the branches for \<open>!acknowledged\<close> do not occur.
  \<open>getCurrentOriginAndRpID\<close> reads the origin from the headers of the request; origin and host are
  arguments here.
\<close>

definition bytes :: "nat list \<Rightarrow> jsval" where
  "bytes bs = JArr (map (\<lambda>b. JNum (Fin (of_nat b))) bs)"

definition of_user :: "string \<Rightarrow> IWebAuthn \<Rightarrow> bool" where
  "of_user uid w \<longleftrightarrow> webauthn_userId w = uid"

definition find_webauthn :: "mongo \<Rightarrow> string \<Rightarrow> db \<Rightarrow> IWebAuthn option" where
  "find_webauthn M uid s = findOne (webauthn_dr M) (webauthn_collection s) (of_user uid)"

text \<open>An update of the collection, with a result for the case that it goes through.\<close>

definition set_webauthn ::
    "mongo \<Rightarrow> (IWebAuthn \<Rightarrow> bool) \<Rightarrow> (IWebAuthn \<Rightarrow> IWebAuthn) \<Rightarrow> db \<Rightarrow> IWebAuthn option result \<times> db" where
  "set_webauthn M q f s =
     (case updateOne (webauthn_dr M) (webauthn_collection s) q f of
        None \<Rightarrow> (Inl MongoServerError, s)
      | Some (r, c) \<Rightarrow> (Inr (map_option f r), s\<lparr>webauthn_collection := c\<rparr>))"

subsection \<open>The devices of a user\<close>

text \<open>The text is ASCII, so its encoding is the list of its character codes.\<close>

definition generate_challenge :: "env \<Rightarrow> db \<Rightarrow> nat list \<times> db" where
  "generate_challenge E s =
     (let (randomString, s1) = generateSecret E 20 s in (map of_char randomString, s1))"

definition getWebauthn :: "mongo \<Rightarrow> string list \<Rightarrow> db \<Rightarrow> IWebAuthn list" where
  "getWebauthn M ids s =
     (if ids = [] then []
      else find_many (webauthn_dr M) (webauthn_collection s) (\<lambda>w. doc_id w \<in> set ids))"

definition getWebauthnDevices :: "mongo \<Rightarrow> IUserWithoutToken \<Rightarrow> db \<Rightarrow> AuthenticatorDevice list" where
  "getWebauthnDevices M user s =
     (case find_webauthn M (doc_id user) s of None \<Rightarrow> [] | Some w \<Rightarrow> devices w)"

definition getUserWebAuthnID :: "mongo \<Rightarrow> IUserWithoutToken \<Rightarrow> db \<Rightarrow> IWebAuthn option" where
  "getUserWebAuthnID M user s = find_webauthn M (doc_id user) s"

definition findIndex :: "('a \<Rightarrow> bool) \<Rightarrow> 'a list \<Rightarrow> nat option" where
  "findIndex p xs = (let i = length (takeWhile (\<lambda>x. \<not> p x) xs) in if i < length xs then Some i else None)"

definition splice_out :: "nat \<Rightarrow> 'a list \<Rightarrow> 'a list" where
  "splice_out i xs = take i xs @ drop (Suc i) xs"

definition deleteWebauthnDevices ::
    "mongo \<Rightarrow> IUserWithoutToken \<Rightarrow> string \<Rightarrow> db \<Rightarrow> AuthenticatorDevice list result \<times> db" where
  "deleteWebauthnDevices M user deviceId s =
     (case find_webauthn M (doc_id user) s of
        None \<Rightarrow> (Inr [], s)
      | Some w \<Rightarrow>
     (case findIndex (\<lambda>d. device_id d = deviceId) (devices w) of
        None \<Rightarrow> (Inl (CoreError CLIENT_ACTION_ON_NON_EXISTENT_ENTRY ''Device does not exist.''), s)
      | Some i \<Rightarrow>
     (case set_webauthn M (of_user (doc_id user)) (\<lambda>d. d\<lparr>devices := splice_out i (devices w)\<rparr>) s of
        (Inl e, s1) \<Rightarrow> (Inl e, s1)
      | (Inr _, s1) \<Rightarrow> (Inr (splice_out i (devices w)), s1))))"

definition rename_device :: "string \<Rightarrow> string \<Rightarrow> IWebAuthn \<Rightarrow> IWebAuthn" where
  "rename_device deviceId name w =
     (case findIndex (\<lambda>d. device_id d = deviceId) (devices w) of
        None \<Rightarrow> w
      | Some i \<Rightarrow> w\<lparr>devices := (devices w)[i := (devices w ! i)\<lparr>device_name := Some name\<rparr>]\<rparr>)"

definition updateWebauthnDeviceName ::
    "mongo \<Rightarrow> IUserWithoutToken \<Rightarrow> string \<Rightarrow> string \<Rightarrow> db \<Rightarrow> AuthenticatorDevice list result \<times> db" where
  "updateWebauthnDeviceName M user deviceId name s =
     (case set_webauthn M (\<lambda>w. of_user (doc_id user) w \<and> list_ex (\<lambda>d. device_id d = deviceId) (devices w))
             (rename_device deviceId name) s of
        (Inl e, s1) \<Rightarrow> (Inl e, s1)
      | (Inr None, s1) \<Rightarrow> (Inl (CoreError OBJ_STORE_ERROR ''Device not found or user mismatch.''), s1)
      | (Inr (Some w), s1) \<Rightarrow> (Inr (devices w), s1))"

subsection \<open>Registration\<close>

definition credential_entry :: "AuthenticatorDevice \<Rightarrow> jsval" where
  "credential_entry d = JObj [(''id'', JStr (credentialID d)), (''type'', JStr ''public-key''),
     (''transports'', transports d)]"

definition registration_request ::
    "string \<Rightarrow> string \<Rightarrow> IUserWithoutToken \<Rightarrow> AuthenticatorDevice list \<Rightarrow> nat list \<Rightarrow> jobject" where
  "registration_request rpName rpID user ds ch = [
     (''rpName'', JStr rpName), (''rpID'', JStr rpID),
     (''userID'', bytes (map of_char (doc_id user))), (''userName'', JStr (username user)),
     (''timeout'', js_int 60000), (''attestationType'', JStr ''none''),
     (''excludeCredentials'', JArr (map credential_entry ds)),
     (''challenge'', bytes ch),
     (''authenticatorSelection'', JObj [(''residentKey'', JStr ''discouraged'')]),
     (''supportedAlgorithmIDs'', JArr [js_int (-7), js_int (-257)])]"

definition new_webauthn :: "string \<Rightarrow> IUserWithoutToken \<Rightarrow> nat list \<Rightarrow> int \<Rightarrow> int \<Rightarrow> IWebAuthn" where
  "new_webauthn i user ch t1 t2 = \<lparr>doc_id = i, life = new_life t2 (doc_id user), metadata = [],
     webauthn_userId = doc_id user, webauthn_username = username user, devices = [],
     webauthn_challenge = ch, challengeTimestamp = t1\<rparr>"

text \<open>The challenge is stored in the document of the user, which is created when there is none.\<close>

definition store_challenge ::
    "env \<Rightarrow> mongo \<Rightarrow> IUserWithoutToken \<Rightarrow> nat list \<Rightarrow> db \<Rightarrow> (string \<times> AuthenticatorDevice list) result \<times> db" where
  "store_challenge E M user ch s =
     (case find_webauthn M (doc_id user) s of
        Some w \<Rightarrow>
          (let (now, s1) = Date_now E s
           in case set_webauthn M (of_user (doc_id user))
                     (\<lambda>d. d\<lparr>webauthn_challenge := ch, challengeTimestamp := now\<rparr>) s1 of
                (Inl e, s2) \<Rightarrow> (Inl e, s2)
              | (Inr _, s2) \<Rightarrow> (Inr (doc_id w, devices w), s2))
      | None \<Rightarrow>
          (let (i, s1) = uuid E s; (t1, s2) = Date_now E s1; (t2, s3) = Date_now E s2
           in case insertOne (webauthn_dr M) (webauthn_collection s3) (new_webauthn i user ch t1 t2) of
                None \<Rightarrow> (Inl MongoServerError, s3)
              | Some c \<Rightarrow> (Inr (i, []), s3\<lparr>webauthn_collection := c\<rparr>)))"

definition getWebauthnRegistrationOptions ::
    "env \<Rightarrow> mongo \<Rightarrow> string \<Rightarrow> IUserWithoutToken \<Rightarrow> string \<Rightarrow> db \<Rightarrow> (string \<times> jsval) result \<times> db" where
  "getWebauthnRegistrationOptions E M rpName user rpID s =
     (let (ch, s1) = generate_challenge E s
      in case store_challenge E M user ch s1 of
           (Inl e, s2) \<Rightarrow> (Inl e, s2)
         | (Inr (i, ds), s2) \<Rightarrow>
             (case generateRegistrationOptions (webauthn E) (registration_request rpName rpID user ds ch) of
                None \<Rightarrow> (Inl (CoreError AUTHENTICATION_ERROR ''Failed to generate registration options''), s2)
              | Some opts \<Rightarrow> (Inr (i, opts), s2)))"

definition verification_request :: "env \<Rightarrow> jsval \<Rightarrow> IWebAuthn \<Rightarrow> string \<Rightarrow> string \<Rightarrow> jobject" where
  "verification_request E response w origin rpID = [
     (''response'', response),
     (''expectedChallenge'', JStr (isoBase64URL_fromBuffer (webauthn E) (webauthn_challenge w))),
     (''expectedOrigin'', JStr origin), (''expectedRPID'', JStr rpID)]"

definition refused :: IGenericResponse where
  "refused = makeGenericResponse None (Some False) None None"

text \<open>Everything after the first query is inside \<open>try\<close>: what throws is answered with \<open>refused\<close>.\<close>

definition handleRegistrationVerify ::
    "env \<Rightarrow> mongo \<Rightarrow> IUserWithoutToken \<Rightarrow> jsval \<Rightarrow> string \<Rightarrow> string \<Rightarrow> db \<Rightarrow> IGenericResponse result \<times> db" where
  "handleRegistrationVerify E M user attestationResponse origin rpID s =
     (case find_webauthn M (doc_id user) s of
        None \<Rightarrow> (Inl (CoreError CLIENT_ACTION_ON_NON_EXISTENT_ENTRY ''Webauthn does not exist.''), s)
      | Some w \<Rightarrow>
     (case verifyRegistrationResponse (webauthn E)
             (verification_request E attestationResponse w origin rpID @ [(''requireUserVerification'', JBool True)]) of
        Some (True, Some (key, credential, cnt)) \<Rightarrow>
          (let (i, s1) = uuid E s
           in case (case js_prop attestationResponse ''response'' of
                      Inl e \<Rightarrow> Inl e | Inr r \<Rightarrow> js_prop r ''transports'') of
                Inl e \<Rightarrow> (Inr refused, s1)
              | Inr sent \<Rightarrow>
                  (case set_webauthn M (\<lambda>d. doc_id d = doc_id w)
                          (\<lambda>d. d\<lparr>devices := devices w @ [
                             \<lparr>credentialPublicKey = Some key, credentialID = credential, device_counter = cnt,
                              transports = sent, device_id = i, device_name = None,
                              device_origin = Some origin\<rparr>]\<rparr>) s1 of
                     (Inl e, s2) \<Rightarrow> (Inr refused, s2)
                   | (Inr _, s2) \<Rightarrow> (Inr (makeGenericResponse (Some i) (Some True) None None), s2)))
      | _ \<Rightarrow> (Inr refused, s)))"

subsection \<open>Authentication\<close>

definition getWebauthnAuthenticationOptions ::
    "env \<Rightarrow> mongo \<Rightarrow> string \<Rightarrow> string \<Rightarrow> db \<Rightarrow> jsval result" where
  "getWebauthnAuthenticationOptions E M userId rpID s =
     (case find_webauthn M userId s of
        None \<Rightarrow> Inl (CoreError CLIENT_ACTION_ON_NON_EXISTENT_ENTRY ''Webauthn not initialised.'')
      | Some w \<Rightarrow>
     (case generateAuthenticationOptions (webauthn E) [
             (''challenge'', bytes (webauthn_challenge w)), (''timeout'', js_int 60000),
             (''allowCredentials'', JArr (map credential_entry (devices w))),
             (''userVerification'', JStr ''required''), (''rpID'', JStr rpID)] of
        None \<Rightarrow> Inl (CoreError AUTHENTICATION_ERROR ''Failed to generate authentication options'')
      | Some opts \<Rightarrow> Inr opts))"

text \<open>What the response is checked against: the stored challenge, and the device it names.\<close>

definition assertion_request ::
    "env \<Rightarrow> jsval \<Rightarrow> IWebAuthn \<Rightarrow> AuthenticatorDevice \<Rightarrow> nat list \<Rightarrow> string \<Rightarrow> string \<Rightarrow> jobject" where
  "assertion_request E response w d key origin rpID =
     verification_request E response w origin rpID @ [
     (''authenticator'', JObj [(''credentialPublicKey'', bytes key),
        (''credentialID'', JStr (credentialID d)), (''counter'', js_int (device_counter d))]),
     (''requireUserVerification'', JBool True)]"

definition handleAuthenticationVerify ::
    "env \<Rightarrow> mongo \<Rightarrow> string \<Rightarrow> jsval \<Rightarrow> string \<Rightarrow> string \<Rightarrow> db \<Rightarrow> IGenericResponse result \<times> db" where
  "handleAuthenticationVerify E M userId assertionResponse origin rpID s =
     (case find_webauthn M userId s of
        None \<Rightarrow> (Inl (CoreError CLIENT_ACTION_ON_NON_EXISTENT_ENTRY ''Webauthn not initialised.''), s)
      | Some w \<Rightarrow>
     (case js_prop assertionResponse ''rawId'' of
        Inl e \<Rightarrow> (Inl e, s)
      | Inr rawId \<Rightarrow>
     (case findIndex (\<lambda>d. rawId = JStr (credentialID d)) (devices w) of
        None \<Rightarrow> (Inl (CoreError CLIENT_ACTION_ON_NON_EXISTENT_ENTRY
                   ''Authenticator is not registered with this site.''), s)
      | Some i \<Rightarrow>
     (case credentialPublicKey (devices w ! i) of
        None \<Rightarrow> (Inl (CoreError CLIENT_ACTION_ON_NON_EXISTENT_ENTRY ''Credential public key is missing.''), s)
      | Some key \<Rightarrow>
     (case verifyAuthenticationResponse (webauthn E)
             (assertion_request E assertionResponse w (devices w ! i) key origin rpID) of
        Some (True, newCounter) \<Rightarrow>
          (case set_webauthn M (\<lambda>d. doc_id d = doc_id w)
                  (\<lambda>d. d\<lparr>devices := (devices w)[i := (devices w ! i)\<lparr>device_counter := newCounter\<rparr>]\<rparr>) s of
             (Inl e, s1) \<Rightarrow> (Inr refused, s1)
           | (Inr _, s1) \<Rightarrow> (Inr (makeGenericResponse None (Some True) None None), s1))
      | _ \<Rightarrow> (Inr refused, s))))))"

text \<open>
  The log-in is a call of its own. Its filter is \<open>{ id, deleted: null }\<close>, and no user has a property
  \<open>deleted\<close>.
\<close>

definition webauthnLogin ::
    "env \<Rightarrow> mongo \<Rightarrow> (IUserWithoutToken \<Rightarrow> bool) \<Rightarrow> string \<Rightarrow> bool \<Rightarrow> db \<Rightarrow> IUserWithoutToken result \<times> db" where
  "webauthnLogin E M req_login userId expiryRequested s =
     (case findOne (users_dr M) (users_collection s) (\<lambda>u. doc_id u = userId) of
        None \<Rightarrow> (Inl (CoreError CLIENT_ACTION_ON_NON_EXISTENT_ENTRY ''User does not exist.''), s)
      | Some user \<Rightarrow>
     (let (late, s1) = (if expiredAt user \<noteq> 0
             then (let (now, s1) = Date_now E s in (expiredAt user < now, s1)) else (False, s))
      in if late \<and> user_type user = STANDARD then
           (if expiryRequested then
             (case send_mail E (Mail_Expiry_Admin (username user) (email user)) s1 of
                (Inl e, s2) \<Rightarrow> (Inl e, s2)
              | (Inr _, s2) \<Rightarrow>
             (case send_mail E (Mail_Expiry_Client (email user) (username user)) s2 of
                (Inl e, s3) \<Rightarrow> (Inl e, s3)
              | (Inr _, s3) \<Rightarrow>
                  (Inl (CoreError UNQUALIFIED_ERROR
                     ''New expiry date has been requested! Wait for ADMIN to approve.''), s3)))
            else (Inl (CoreError AUTHENTICATION_ERROR
                    ''Account Expired. Please request a new expiry date!''), s1))
         else if req_login (without_token user) then (Inr (without_token user), s1)
         else (Inl (CoreError AUTHENTICATION_ERROR ''Cannot log in. Please try again later.''), s1)))"

end
