(* ===== verification/WebAuthnProps.thy ===== *)
theory WebAuthnProps
  imports WebAuthn UserProps
begin

section \<open>What the ceremonies guarantee, and what the log-in does not\<close>

text \<open>
  The invariant of the collection of authenticators under all operations on it (one document for a
  user, and only keys that the library verified against a challenge the server drew); what a successful
  ceremony means in a state reached by them; and the log-in, which does not ask for one.
\<close>

subsection \<open>Lists and updates\<close>

lemma findIndex_SomeD: "findIndex p xs = Some i \<Longrightarrow> i < length xs \<and> p (xs ! i)"
  using nth_length_takeWhile[of "\<lambda>x. \<not> p x" xs] by (auto simp: findIndex_def Let_def split: if_splits)

lemma findIndex_None: "findIndex p xs = None \<longleftrightarrow> (\<forall>x \<in> set xs. \<not> p x)"
proof -
  have "findIndex p xs = None \<longleftrightarrow> \<not> length (takeWhile (\<lambda>x. \<not> p x) xs) < length xs"
    by (simp add: findIndex_def Let_def)
  also have "\<dots> \<longleftrightarrow> takeWhile (\<lambda>x. \<not> p x) xs = xs"
    by (metis length_takeWhile_le nat_less_le takeWhile_eq_take take_all_iff)
  finally show ?thesis by (simp add: takeWhile_eq_all_conv)
qed

lemma set_splice_out: "set (splice_out i xs) \<subseteq> set xs"
  unfolding splice_out_def using set_take_subset[of i xs] set_drop_subset[of "Suc i" xs] by auto

context mongo_db
begin

lemma set_webauthn_all:
  assumes "set_webauthn M q f s = (r, s')" and "\<forall>w \<in> set (webauthn_collection s). P w"
    and "\<And>w. w \<in> set (webauthn_collection s) \<Longrightarrow> q w \<Longrightarrow> P w \<Longrightarrow> P (f w)"
  shows "\<forall>w \<in> set (webauthn_collection s'). P w"
proof (cases "updateOne (webauthn_dr M) (webauthn_collection s) q f")
  case (Some p)
  obtain d c where p: "p = (d, c)" by (cases p)
  have "\<forall>w \<in> set c. P w"
    by (rule webauthn_store.updateOne_all[OF Some[unfolded p] assms(2)]) (use assms(3) in blast)
  with assms(1) Some p show ?thesis by (auto simp: set_webauthn_def)
qed (use assms in \<open>auto simp: set_webauthn_def\<close>)

lemma set_webauthn_users:
  assumes "set_webauthn M q f s = (r, s')" and "\<And>w. webauthn_userId (f w) = webauthn_userId w"
  shows "mset (map webauthn_userId (webauthn_collection s')) = mset (map webauthn_userId (webauthn_collection s))"
proof (cases "updateOne (webauthn_dr M) (webauthn_collection s) q f")
  case None
  with assms(1) show ?thesis by (auto simp: set_webauthn_def)
next
  case (Some p)
  obtain d c where p: "p = (d, c)" by (cases p)
  with assms(1) Some have "webauthn_collection s' = c" by (auto simp: set_webauthn_def)
  moreover have "image_mset webauthn_userId (mset c) = image_mset webauthn_userId (mset (webauthn_collection s))"
    using webauthn_store.updateOne_cases[OF Some[unfolded p]] assms(2)
    by (auto simp: image_mset_Diff)
  ultimately show ?thesis by simp
qed

lemma find_webauthn_Some: "find_webauthn M u s = Some w \<Longrightarrow> w \<in> set (webauthn_collection s) \<and> webauthn_userId w = u"
  unfolding find_webauthn_def by (drule webauthn_store.findOne_Some) (simp add: of_user_def)

lemma find_webauthn_None: "find_webauthn M u s = None \<longleftrightarrow> u \<notin> webauthn_userId ` set (webauthn_collection s)"
  unfolding find_webauthn_def webauthn_store.findOne_None by (auto simp: of_user_def)

end

subsection \<open>The invariant\<close>

text \<open>
  A challenge the server drew, and a device whose key the library verified in the response to one.
\<close>

definition drawn :: "env \<Rightarrow> nat list \<Rightarrow> bool" where
  "drawn E ch \<longleftrightarrow> (\<exists>s. ch = fst (generate_challenge E s))"

definition registered :: "env \<Rightarrow> AuthenticatorDevice \<Rightarrow> bool" where
  "registered E d \<longleftrightarrow> (\<exists>response w origin rpID key cnt. drawn E (webauthn_challenge w) \<and>
     credentialPublicKey d = Some key \<and>
     verifyRegistrationResponse (webauthn E)
       (verification_request E response w origin rpID @ [(''requireUserVerification'', JBool True)]) =
       Some (True, Some (key, credentialID d, cnt)))"

definition webauthn_doc_ok :: "env \<Rightarrow> IWebAuthn \<Rightarrow> bool" where
  "webauthn_doc_ok E w \<longleftrightarrow> drawn E (webauthn_challenge w) \<and> list_all (registered E) (devices w)"

definition webauthn_ok :: "env \<Rightarrow> db \<Rightarrow> bool" where
  "webauthn_ok E s \<longleftrightarrow> distinct (map webauthn_userId (webauthn_collection s)) \<and>
     (\<forall>w \<in> set (webauthn_collection s). webauthn_doc_ok E w)"

inductive webauthn_step :: "env \<Rightarrow> mongo \<Rightarrow> string \<Rightarrow> db \<Rightarrow> db \<Rightarrow> bool" for E M rpName where
  options: "webauthn_step E M rpName s (snd (getWebauthnRegistrationOptions E M rpName user rpID s))"
| register: "webauthn_step E M rpName s (snd (handleRegistrationVerify E M user resp origin rpID s))"
| authenticate: "webauthn_step E M rpName s (snd (handleAuthenticationVerify E M uid resp origin rpID s))"
| remove: "webauthn_step E M rpName s (snd (deleteWebauthnDevices M user i s))"
| rename: "webauthn_step E M rpName s (snd (updateWebauthnDeviceName M user i n s))"
| log_in: "webauthn_step E M rpName s (snd (webauthnLogin E M f uid ex s))"
| other: "webauthn_collection s' = webauthn_collection s \<Longrightarrow> webauthn_step E M rpName s s'"

lemma webauthn_ok_cong: "webauthn_collection s' = webauthn_collection s \<Longrightarrow> webauthn_ok E s' = webauthn_ok E s"
  by (simp add: webauthn_ok_def)

lemma registered_cong:
  "credentialPublicKey d = credentialPublicKey e \<Longrightarrow> credentialID d = credentialID e \<Longrightarrow> registered E d = registered E e"
  by (simp add: registered_def)

lemma registered_update:
  assumes "list_all (registered E) ds" and "i < length ds"
    and "credentialPublicKey d = credentialPublicKey (ds ! i)" and "credentialID d = credentialID (ds ! i)"
  shows "list_all (registered E) (ds[i := d])"
  using assms set_update_subset_insert[of ds i d] nth_mem[OF assms(2)] registered_cong[OF assms(3,4), of E]
  by (auto simp: list_all_iff)

lemma rename_device_ok: "webauthn_doc_ok E w \<Longrightarrow> webauthn_doc_ok E (rename_device i n w)"
  by (auto simp: webauthn_doc_ok_def rename_device_def registered_update dest: findIndex_SomeD split: option.splits)

lemma rename_device_user [simp]: "webauthn_userId (rename_device i n w) = webauthn_userId w"
  by (simp add: rename_device_def split: option.splits)

lemma generate_challenge_frame [simp]:
  "webauthn_collection (snd (generate_challenge E s)) = webauthn_collection s"
  by (simp add: generate_challenge_def generateSecret_def random_draw_def Let_def)

lemma send_mail_webauthn [simp]: "webauthn_collection (snd (send_mail E m s)) = webauthn_collection s"
  by (simp add: send_mail_def)

context mongo_db
begin

lemma set_webauthn_ok:
  assumes ok: "webauthn_ok E s" and up: "set_webauthn M q f s = (r, s')"
    and keep: "\<And>w. webauthn_userId (f w) = webauthn_userId w"
    and fine: "\<And>w. w \<in> set (webauthn_collection s) \<Longrightarrow> q w \<Longrightarrow> webauthn_doc_ok E w \<Longrightarrow> webauthn_doc_ok E (f w)"
  shows "webauthn_ok E s'"
proof -
  have "distinct (map webauthn_userId (webauthn_collection s'))"
    using ok mset_eq_imp_distinct_iff[OF set_webauthn_users[OF up keep]] by (simp add: webauthn_ok_def)
  moreover have "\<forall>w \<in> set (webauthn_collection s'). webauthn_doc_ok E w"
    using set_webauthn_all[OF up, of "webauthn_doc_ok E"] ok fine by (simp add: webauthn_ok_def)
  ultimately show ?thesis by (simp add: webauthn_ok_def)
qed

lemma store_challenge_ok:
  assumes ok: "webauthn_ok E s" and ch: "drawn E ch" and st: "store_challenge E M user ch s = (r, s')"
  shows "webauthn_ok E s'"
proof (cases "find_webauthn M (doc_id user) s")
  case (Some w)
  let ?s = "s\<lparr>tick := Suc (tick s)\<rparr>"
    and ?f = "\<lambda>d. d\<lparr>webauthn_challenge := ch, challengeTimestamp := clock E (tick s)\<rparr>"
  obtain r1 s1 where up: "set_webauthn M (of_user (doc_id user)) ?f ?s = (r1, s1)" by fastforce
  have "webauthn_ok E ?s" using ok by (simp add: webauthn_ok_cong[of ?s s])
  from set_webauthn_ok[OF this up] ch have "webauthn_ok E s1" by (simp add: webauthn_doc_ok_def)
  with st Some up show ?thesis by (simp add: store_challenge_def Date_now_def Let_def split: sum.splits)
next
  case None
  let ?w = "new_webauthn (uuid_gen E (uuid_next s)) user ch (clock E (tick s)) (clock E (Suc (tick s)))"
  show ?thesis
  proof (cases "insertOne (webauthn_dr M) (webauthn_collection s) ?w")
    case None2: None
    with st None have "webauthn_collection s' = webauthn_collection s"
      by (auto simp: store_challenge_def uuid_def Date_now_def Let_def)
    with ok webauthn_ok_cong show ?thesis by blast
  next
    case (Some c)
    have m: "mset c = add_mset ?w (mset (webauthn_collection s))" by (rule webauthn_store.insertOne_mset[OF Some])
    have w: "webauthn_doc_ok E ?w" "webauthn_userId ?w = doc_id user"
      using ch by (simp_all add: webauthn_doc_ok_def new_webauthn_def)
    have "mset (map webauthn_userId c) = mset (map webauthn_userId (?w # webauthn_collection s))" using m by simp
    from mset_eq_imp_distinct_iff[OF this] have "distinct (map webauthn_userId c)"
      using ok None w(2) by (simp add: webauthn_ok_def find_webauthn_None)
    moreover have "\<forall>w \<in> set c. webauthn_doc_ok E w"
      using webauthn_store.insertOne_set[OF Some] w(1) ok by (simp add: webauthn_ok_def)
    moreover have "webauthn_collection s' = c"
      using st None Some by (auto simp: store_challenge_def uuid_def Date_now_def Let_def)
    ultimately show ?thesis by (simp add: webauthn_ok_def)
  qed
qed

lemma getWebauthnRegistrationOptions_ok:
  assumes "webauthn_ok E s"
  shows "webauthn_ok E (snd (getWebauthnRegistrationOptions E M rpName user rpID s))"
proof -
  obtain ch s1 where g: "generate_challenge E s = (ch, s1)" by fastforce
  obtain r s2 where st: "store_challenge E M user ch s1 = (r, s2)" by fastforce
  have "drawn E ch" unfolding drawn_def using g by (metis fst_conv)
  moreover have "webauthn_ok E s1"
    using assms generate_challenge_frame[of E s] g webauthn_ok_cong[of s1 s E] by simp
  ultimately have "webauthn_ok E s2" using store_challenge_ok st by blast
  then show ?thesis
    by (simp add: getWebauthnRegistrationOptions_def g st split: sum.splits prod.splits option.splits)
qed

lemma handleRegistrationVerify_ok:
  assumes ok: "webauthn_ok E s"
  shows "webauthn_ok E (snd (handleRegistrationVerify E M user resp origin rpID s))"
proof (cases "find_webauthn M (doc_id user) s")
  case None
  with ok show ?thesis by (simp add: handleRegistrationVerify_def)
next
  case (Some w)
  let ?a = "verification_request E resp w origin rpID @ [(''requireUserVerification'', JBool True)]"
  let ?s = "s\<lparr>uuid_next := Suc (uuid_next s)\<rparr>"
  have s: "webauthn_ok E ?s" using ok by (simp add: webauthn_ok_cong[of ?s s])
  have w: "webauthn_doc_ok E w" using ok find_webauthn_Some[OF Some] by (simp add: webauthn_ok_def)
  show ?thesis
  proof (cases "\<exists>key cred cnt. verifyRegistrationResponse (webauthn E) ?a = Some (True, Some (key, cred, cnt))")
    case True
    then obtain key cred cnt where v: "verifyRegistrationResponse (webauthn E) ?a = Some (True, Some (key, cred, cnt))"
      by blast
    have new: "registered E \<lparr>credentialPublicKey = Some key, credentialID = cred, device_counter = cnt,
        transports = sent, device_id = i, device_name = None, device_origin = Some origin\<rparr>" for sent i
      unfolding registered_def using v w by (simp add: webauthn_doc_ok_def) blast
    have up: "webauthn_ok E s2" if "set_webauthn M (\<lambda>d. doc_id d = doc_id w) (\<lambda>d. d\<lparr>devices := devices w @ [
        \<lparr>credentialPublicKey = Some key, credentialID = cred, device_counter = cnt, transports = sent,
         device_id = i, device_name = None, device_origin = Some origin\<rparr>]\<rparr>) ?s = (r2, s2)" for sent i r2 s2
      by (rule set_webauthn_ok[OF s that]) (use new w in \<open>simp_all add: webauthn_doc_ok_def\<close>)
    show ?thesis
      using s up by (simp add: handleRegistrationVerify_def Some v uuid_def Let_def split: sum.splits prod.splits)
  next
    case False
    with ok show ?thesis
      by (auto simp: handleRegistrationVerify_def Some split: option.splits prod.splits bool.splits)
  qed
qed

lemma handleAuthenticationVerify_ok:
  assumes ok: "webauthn_ok E s"
  shows "webauthn_ok E (snd (handleAuthenticationVerify E M uid resp origin rpID s))"
proof (cases "find_webauthn M uid s")
  case None
  with ok show ?thesis by (simp add: handleAuthenticationVerify_def)
next
  case (Some w)
  have w: "webauthn_doc_ok E w" using ok find_webauthn_Some[OF Some] by (simp add: webauthn_ok_def)
  have up: "webauthn_ok E s2" if "set_webauthn M (\<lambda>d. doc_id d = doc_id w)
      (\<lambda>d. d\<lparr>devices := (devices w)[i := (devices w ! i)\<lparr>device_counter := n\<rparr>]\<rparr>) s = (r, s2)"
    and "i < length (devices w)" for i n r s2
    by (rule set_webauthn_ok[OF ok that(1)])
      (use w that(2) in \<open>simp_all add: webauthn_doc_ok_def registered_update\<close>)
  show ?thesis
    using ok up by (auto simp: handleAuthenticationVerify_def Some dest!: findIndex_SomeD
      split: sum.splits option.splits prod.splits bool.splits)
qed

lemma deleteWebauthnDevices_ok:
  assumes ok: "webauthn_ok E s"
  shows "webauthn_ok E (snd (deleteWebauthnDevices M user i s))"
proof (cases "find_webauthn M (doc_id user) s")
  case None
  with ok show ?thesis by (simp add: deleteWebauthnDevices_def)
next
  case (Some w)
  have w: "webauthn_doc_ok E w" using ok find_webauthn_Some[OF Some] by (simp add: webauthn_ok_def)
  have up: "webauthn_ok E s2" if "set_webauthn M q (\<lambda>d. d\<lparr>devices := splice_out k (devices w)\<rparr>) s = (r, s2)"
    for q k r s2
    by (rule set_webauthn_ok[OF ok that]) (use w set_splice_out[of k "devices w"] in \<open>auto simp: webauthn_doc_ok_def list_all_iff\<close>)
  show ?thesis
    using ok up by (auto simp: deleteWebauthnDevices_def Some split: sum.splits option.splits prod.splits)
qed

lemma updateWebauthnDeviceName_ok:
  assumes ok: "webauthn_ok E s"
  shows "webauthn_ok E (snd (updateWebauthnDeviceName M user i n s))"
proof -
  let ?q = "\<lambda>w. of_user (doc_id user) w \<and> list_ex (\<lambda>d. device_id d = i) (devices w)"
  obtain r s2 where up: "set_webauthn M ?q (rename_device i n) s = (r, s2)" by fastforce
  have "webauthn_ok E s2" by (rule set_webauthn_ok[OF ok up]) (simp_all add: rename_device_ok)
  then show ?thesis by (simp add: updateWebauthnDeviceName_def up split: sum.splits option.splits)
qed

lemma webauthnLogin_frame: "webauthn_collection (snd (webauthnLogin E M f uid ex s)) = webauthn_collection s"
proof -
  have m: "send_mail E m t = (r, t') \<Longrightarrow> webauthn_collection t' = webauthn_collection t" for m t r t'
    using send_mail_webauthn[of E m t] by simp
  show ?thesis
    by (auto simp: webauthnLogin_def Date_now_def Let_def dest!: m split: option.splits prod.splits sum.splits)
qed

lemma webauthn_step_ok: "webauthn_step E M rpName s s' \<Longrightarrow> webauthn_ok E s \<Longrightarrow> webauthn_ok E s'"
proof (induction rule: webauthn_step.induct)
  case (log_in s f uid ex)
  then show ?case using webauthn_ok_cong[OF webauthnLogin_frame] by blast
next
  case (other s' s)
  then show ?case using webauthn_ok_cong by blast
qed (simp_all add: getWebauthnRegistrationOptions_ok handleRegistrationVerify_ok handleAuthenticationVerify_ok
    deleteWebauthnDevices_ok updateWebauthnDeviceName_ok)

lemma webauthn_reach_ok: "(webauthn_step E M rpName)\<^sup>*\<^sup>* s s' \<Longrightarrow> webauthn_ok E s \<Longrightarrow> webauthn_ok E s'"
  by (induction rule: rtranclp_induct) (simp_all add: webauthn_step_ok)

end

subsection \<open>What a successful ceremony means\<close>

lemma handleAuthenticationVerify_success:
  assumes "handleAuthenticationVerify E M uid response origin rpID s = (Inr resp, s')" and "resp_successful resp"
  shows "\<exists>w d key cnt. find_webauthn M uid s = Some w \<and> d \<in> set (devices w) \<and>
    js_prop response ''rawId'' = Inr (JStr (credentialID d)) \<and> credentialPublicKey d = Some key \<and>
    verifyAuthenticationResponse (webauthn E) (assertion_request E response w d key origin rpID) = Some (True, cnt)"
proof -
  from assms(1) obtain w raw i key where w: "find_webauthn M uid s = Some w"
    and raw: "js_prop response ''rawId'' = Inr raw"
    and i: "findIndex (\<lambda>d. raw = JStr (credentialID d)) (devices w) = Some i"
    and key: "credentialPublicKey (devices w ! i) = Some key"
    by (auto simp: handleAuthenticationVerify_def split: option.splits sum.splits)
  have "\<exists>cnt. verifyAuthenticationResponse (webauthn E)
      (assertion_request E response w (devices w ! i) key origin rpID) = Some (True, cnt)"
    using assms by (auto simp: handleAuthenticationVerify_def w raw i key refused_def makeGenericResponse_def
        split: option.splits prod.splits bool.splits)
  with w raw key findIndex_SomeD[OF i] show ?thesis by (metis nth_mem)
qed

text \<open>
  C38. Whatever operations ran since the collection was empty, a ceremony of authentication for a user
  succeeds only when the library accepts the response under the challenge stored for that user, one
  the server drew, and under the public key of a device of that user, which the library had accepted in a
  registration against a challenge the server drew. The user has no second document.
\<close>

theorem webauthn_ceremony_sound:
  assumes "mongo_ok M" and "webauthn_collection s0 = []"
    and "(webauthn_step E M rpName)\<^sup>*\<^sup>* s0 s"
    and "handleAuthenticationVerify E M uid response origin rpID s = (Inr resp, s')" and "resp_successful resp"
  shows "\<exists>w d key cnt. {v \<in> set (webauthn_collection s). webauthn_userId v = uid} = {w} \<and>
    drawn E (webauthn_challenge w) \<and> d \<in> set (devices w) \<and> registered E d \<and> credentialPublicKey d = Some key \<and>
    verifyAuthenticationResponse (webauthn E) (assertion_request E response w d key origin rpID) = Some (True, cnt)"
proof -
  note db = mongo_db.intro[OF assms(1)]
  have "webauthn_ok E s0" using assms(2) by (simp add: webauthn_ok_def)
  with mongo_db.webauthn_reach_ok[OF db assms(3)] have ok: "webauthn_ok E s" by blast
  obtain w d key cnt where w: "find_webauthn M uid s = Some w" and d: "d \<in> set (devices w)"
      "credentialPublicKey d = Some key"
      "verifyAuthenticationResponse (webauthn E) (assertion_request E response w d key origin rpID) = Some (True, cnt)"
    using handleAuthenticationVerify_success[OF assms(4,5)] by blast
  have wm: "w \<in> set (webauthn_collection s)" "webauthn_userId w = uid"
    using mongo_db.find_webauthn_Some[OF db w] by simp_all
  then have "{v \<in> set (webauthn_collection s). webauthn_userId v = uid} = {w}"
    using ok distinct_mapD[of webauthn_userId "webauthn_collection s"] by (auto simp: webauthn_ok_def)
  moreover have "webauthn_doc_ok E w" using ok wm by (simp add: webauthn_ok_def)
  ultimately show ?thesis using d by (auto simp: webauthn_doc_ok_def list_all_iff)
qed

subsection \<open>The log-in\<close>

lemma webauthnLogin_answers:
  assumes "findOne (users_dr M) (users_collection s) (\<lambda>u. doc_id u = uid) = Some u"
    and "\<not> (user_type u = STANDARD \<and> expiredAt u \<noteq> 0 \<and> expiredAt u < clock E (tick s))"
  shows "fst (webauthnLogin E M (\<lambda>_. True) uid ex s) = Inr (without_token u)"
  using assms by (cases "expiredAt u = 0"; cases "user_type u = STANDARD") (simp_all add: webauthnLogin_def Date_now_def Let_def)

context mongo_db
begin

lemma deleted_user_found:
  assumes ix: "indexed (users_dr M) (users_collection s)"
    and del: "deleteUser E M (Some rq) i s = (Inr resp, s')"
  shows "\<exists>u \<in> set (users_collection s). doc_id u = i \<and> findOne (users_dr M) (users_collection s') (\<lambda>u. doc_id u = i) =
    Some (delete_user_set (clock E (tick s)) (doc_id rq) u)"
proof -
  let ?f = "delete_user_set (clock E (tick s)) (doc_id rq)"
  note sp = deleteUser_spec[OF ix del]
  then obtain u where u: "u \<in> set (users_collection s)" "doc_id u = i" "alive u" by blast
  have one: "e = u" if "e \<in> set (users_collection s)" "doc_id e = i" for e
    using users_store.key_inj[OF ix that(1) u(1)] that(2) u(2) by simp
  from sp have eq: "set (users_collection s') = apply_where (\<lambda>u. doc_id u = i \<and> alive u) ?f ` set (users_collection s)" by blast
  have idf: "doc_id (?f e) = doc_id e" for e by (simp add: delete_user_set_def)
  have all: "v = ?f u" if v: "v \<in> set (users_collection s')" "doc_id v = i" for v
  proof -
    from v(1) eq obtain e where e: "e \<in> set (users_collection s)" "v = apply_where (\<lambda>u. doc_id u = i \<and> alive u) ?f e" by blast
    with v(2) idf have "doc_id e = i" by (simp add: apply_where_def split: if_splits)
    with one e u show ?thesis by simp
  qed
  have "?f u \<in> set (users_collection s')" unfolding eq using u by (force simp: apply_where_def)
  moreover have "doc_id (?f u) = i" using u by (simp add: delete_user_set_def)
  ultimately have "findOne (users_dr M) (users_collection s') (\<lambda>u. doc_id u = i) = Some (?f u)"
    by (rule users_store.findOne_unique) (use all in blast)
  with u show ?thesis by blast
qed

end

text \<open>
  The log-in by authenticator asks for no ceremony: a call with nothing but an id answers the user of
  that id, and the session is the caller's. Deleting the user does not help: the log-in still answers the
  deleted account (unless it is one of the standard type that has expired).
\<close>

theorem webauthnLogin_open_to_all:
  assumes "mongo_ok M" and "indexed (users_dr M) (users_collection s)"
    and "deleteUser E M (Some rq) i s = (Inr resp, s')"
    and "\<forall>u \<in> set (users_collection s). doc_id u = i \<longrightarrow>
      user_type u \<noteq> STANDARD \<or> expiredAt u = 0 \<or> clock E (tick s') \<le> expiredAt u"
  shows "\<exists>v. fst (webauthnLogin E M (\<lambda>_. True) i ex s') = Inr v \<and> doc_id v = i \<and> \<not> alive v"
proof -
  note db = mongo_db.intro[OF assms(1)]
  obtain u v where u: "u \<in> set (users_collection s)" "doc_id u = i"
    and v: "findOne (users_dr M) (users_collection s') (\<lambda>u. doc_id u = i) = Some v"
      "v = delete_user_set (clock E (tick s)) (doc_id rq) u"
    using mongo_db.deleted_user_found[OF db assms(2,3)] by blast
  have "user_type v = user_type u" "expiredAt v = expiredAt u"
    by (simp_all add: v(2) delete_user_set_def mark_deleted_def)
  with assms(4) u have "\<not> (user_type v = STANDARD \<and> expiredAt v \<noteq> 0 \<and> expiredAt v < clock E (tick s'))" by auto
  from webauthnLogin_answers[OF v(1) this] u(2) show ?thesis
    by (simp add: v(2) IUserWithoutToken.truncate_def delete_user_set_def alive_def mark_deleted_def)
qed

theorem webauthnLogin_open_to_all_witness:
  "\<exists>resp s' v. deleteUser env0 list_mongo (Some (user0 ''root'' ADMIN)) ''alice'' users0 = (Inr resp, s') \<and>
     fst (webauthnLogin env0 list_mongo (\<lambda>_. True) ''alice'' False s') = Inr v \<and> \<not> alive v"
proof -
  have "\<exists>resp s'. deleteUser env0 list_mongo (Some (user0 ''root'' ADMIN)) ''alice'' users0 = (Inr resp, s') \<and>
      clock env0 (tick s') \<le> 5000"
    by (simp add: deleteUser_def delete_user_set_def Date_now_def Let_def user_eval roles_indexes_def alive_def)
  then obtain resp s' where d: "deleteUser env0 list_mongo (Some (user0 ''root'' ADMIN)) ''alice'' users0 = (Inr resp, s')"
    and t: "clock env0 (tick s') \<le> 5000"
    by blast
  from users0_ok have ix: "indexed (users_dr list_mongo) (users_collection users0)" by (simp add: users_ok_def)
  have "\<forall>u \<in> set (users_collection users0). expiredAt u = 5000" by (simp add: user_eval)
  with t have "\<forall>u \<in> set (users_collection users0). doc_id u = ''alice'' \<longrightarrow>
      user_type u \<noteq> STANDARD \<or> expiredAt u = 0 \<or> clock env0 (tick s') \<le> expiredAt u" by simp
  from webauthnLogin_open_to_all[OF list_mongo_ok ix d this] d show ?thesis by blast
qed

text \<open>
  A run of both ceremonies: the stand-in for the library accepts a response that repeats the challenge. As
  the challenge is kept, the same response is accepted again.
\<close>

definition ann_response :: jsval where
  "ann_response = JObj [(''rawId'', JStr ''credential''), (''response'', JObj [(''transports'', JNull)]),
     (''signed'', JStr [])]"

definition registered0 :: db where
  "registered0 = snd (handleRegistrationVerify env0 list_mongo (user0 ''ann'' STANDARD) ann_response ''o'' ''h''
     (snd (getWebauthnRegistrationOptions env0 list_mongo ''dmp'' (user0 ''ann'' STANDARD) ''h'' db0)))"

definition assertion0 :: jsval where
  "assertion0 = JObj [(''rawId'', JStr ''credential''), (''signed'', JStr (replicate 20 (CHR 0x00)))]"

lemma registered0_reached: "(webauthn_step env0 list_mongo ''dmp'')\<^sup>*\<^sup>* db0 registered0"
proof -
  let ?s = "snd (getWebauthnRegistrationOptions env0 list_mongo ''dmp'' (user0 ''ann'' STANDARD) ''h'' db0)"
  have "webauthn_step env0 list_mongo ''dmp'' db0 ?s" by (rule webauthn_step.options)
  moreover have "webauthn_step env0 list_mongo ''dmp'' ?s registered0"
    unfolding registered0_def by (rule webauthn_step.register)
  ultimately show ?thesis by simp
qed

theorem webauthn_ceremony_sound_witness:
  "\<exists>resp s' w. handleAuthenticationVerify env0 list_mongo ''ann'' assertion0 ''o'' ''h'' registered0 = (Inr resp, s') \<and>
     resp_successful resp \<and> {v \<in> set (webauthn_collection registered0). webauthn_userId v = ''ann''} = {w}"
proof -
  have "fst (handleAuthenticationVerify env0 list_mongo ''ann'' assertion0 ''o'' ''h'' registered0) =
      Inr (makeGenericResponse None (Some True) None None)"
    by code_simp
  then obtain resp s' where a: "handleAuthenticationVerify env0 list_mongo ''ann'' assertion0 ''o'' ''h'' registered0 = (Inr resp, s')"
      "resp_successful resp"
    by (cases "handleAuthenticationVerify env0 list_mongo ''ann'' assertion0 ''o'' ''h'' registered0")
      (simp add: makeGenericResponse_def)
  have "webauthn_collection db0 = []" by (simp add: db0_def)
  from webauthn_ceremony_sound[OF list_mongo_ok this registered0_reached a] a show ?thesis by blast
qed

end
