(* ===== verification/Instances.thy ===== *)
theory Instances
  imports CloudInit UserKeys Jobs Config
begin

section \<open>Instances (\<open>instanceCore.ts\<close>, \<open>instanceProcedure.ts\<close>)\<close>

text \<open>
  The operations of the class \<open>InstanceCore\<close>: the documents of the containers users work in, and
  the jobs that make the executor follow them (theory \<open>Jobs\<close>). Nothing here talks to a container.
  The record \<open>IConfiguration\<close> has the entries of the configuration file that the class reads; the
  port range has its two bounds.
\<close>

record IConfiguration =
  lxdProject :: string
  lxdPortRange :: "(int \<times> int) option"
  lxdStoragePool :: jsval
  lxdSquidProxy :: string
  jupyterPort :: int
  dmp :: jobject
  conf_system :: system_secret

definition project_of :: "IConfiguration \<Rightarrow> string" where
  "project_of cfg = (if lxdProject cfg = [] then ''default'' else lxdProject cfg)"

subsection \<open>Sizes of memory\<close>

definition round_half_up :: "rat \<Rightarrow> int" where
  "round_half_up x = \<lfloor>x + 1/2\<rfloor>"

text \<open>The loop divides by 1024 while a larger unit is left.\<close>

fun format_loop :: "rat \<Rightarrow> string \<Rightarrow> string list \<Rightarrow> string" where
  "format_loop amount unit [] = int_string (round_half_up amount) @ unit"
| "format_loop amount unit (u # us) =
     (if 1024 \<le> amount then format_loop (amount / 1024) u us else int_string (round_half_up amount) @ unit)"

definition formatMemory :: "int \<Rightarrow> string" where
  "formatMemory mem = format_loop (of_int mem) ''B'' [''KB'', ''MB'', ''GB'', ''TB'']"

definition memory_units :: "(string \<times> rat) list" where
  "memory_units = [(''B'', 1), (''KB'', 1024), (''MB'', 1024 ^ 2), (''GB'', 1024 ^ 3), (''TB'', 1024 ^ 4)]"

text \<open>\<open>/^(\d+(?:\.\d+)?)([KMGT]?B)$/\<close>: the number, and the factor of the unit.\<close>

definition match_memory :: "string \<Rightarrow> (string \<times> rat) option" where
  "match_memory x =
     (let a = takeWhile is_digit x;
          b = dropWhile is_digit x;
          dot = (b \<noteq> [] \<and> hd b = CHR ''.'');
          c = (if dot then takeWhile is_digit (tl b) else []);
          rest = (if dot then dropWhile is_digit (tl b) else b)
      in if a = [] \<or> dot \<and> c = [] then None
         else map_option (\<lambda>k. (if dot then a @ CHR ''.'' # c else a, k)) (map_of memory_units rest))"

text \<open>The argument is cast to a string, and may be anything that a configuration holds.\<close>

definition parseMemory :: "jsval \<Rightarrow> jnum result" where
  "parseMemory v =
     (if \<not> js_truthy v then Inr (Fin 0)
      else (case v of
        JStr x \<Rightarrow>
          (case match_memory x of
             None \<Rightarrow> Inl (JSError (''Invalid memory string: '' @ x))
           | Some (n, k) \<Rightarrow> Inr (num_mul (parseFloat n) (Fin k)))
      | _ \<Rightarrow> Inl (JSError ''TypeError'')))"

subsection \<open>Reading\<close>

definition find_instance :: "mongo \<Rightarrow> string \<Rightarrow> db \<Rightarrow> IInstance option" where
  "find_instance M i s = findOne (instance_dr M) (instance_collection s) (\<lambda>d. doc_id d = i)"

definition set_instance ::
    "mongo \<Rightarrow> string \<Rightarrow> (IInstance \<Rightarrow> IInstance) \<Rightarrow> db \<Rightarrow> IInstance option result \<times> db" where
  "set_instance M i f s =
     (case updateOne (instance_dr M) (instance_collection s) (\<lambda>d. doc_id d = i) f of
        None \<Rightarrow> (Inl MongoServerError, s)
      | Some (r, c) \<Rightarrow> (Inr (map_option f r), s\<lparr>instance_collection := c\<rparr>))"

definition getInstanceById :: "mongo \<Rightarrow> string \<Rightarrow> db \<Rightarrow> IInstance result" where
  "getInstanceById M i s =
     (case find_instance M i s of
        None \<Rightarrow> Inl (CoreError CLIENT_ACTION_ON_NON_EXISTENT_ENTRY ''Instance not found.'')
      | Some d \<Rightarrow> Inr d)"

text \<open>The ports of all instances count, those of deleted ones too.\<close>

definition getValidHostPort :: "mongo \<Rightarrow> IConfiguration \<Rightarrow> db \<Rightarrow> int" where
  "getValidHostPort M cfg s =
     (let (lo, hi) = nullish (lxdPortRange cfg) (30000, 40000);
          minPort = (if lo = 0 then 30000 else lo);
          maxPort = (if hi = 0 then 40000 else hi);
          ports = List.map_filter hostMapPort (find_many (instance_dr M) (instance_collection s) (\<lambda>_. True))
      in if ports = [] then minPort
         else let latestPort = Max (set ports) in if latestPort < maxPort then latestPort + 1 else minPort)"

fun text_before :: "string \<Rightarrow> string \<Rightarrow> string" where
  "text_before pat [] = []"
| "text_before pat (c # cs) = (if take (length pat) (c # cs) = pat then [] else c # text_before pat cs)"

definition text_after :: "string \<Rightarrow> string \<Rightarrow> string" where
  "text_after pat x = drop (length (text_before pat x) + length pat) x"

definition formatProxyAddress :: "string \<Rightarrow> string" where
  "formatProxyAddress a =
     (if includes_str ''://'' a then text_before ''://'' (text_after ''://'' a) else a)"

subsection \<open>Jobs for the executor\<close>

definition lxd_executor :: "string \<Rightarrow> string \<Rightarrow> IExecutor option" where
  "lxd_executor i pth = Some \<lparr>executor_id = i, executor_path = pth, executor_type = Some ''lxd''\<rparr>"

definition lxd_job ::
    "env \<Rightarrow> mongo \<Rightarrow> string \<Rightarrow> string \<Rightarrow> string \<Rightarrow> string \<Rightarrow> int \<Rightarrow> jobject \<Rightarrow> db \<Rightarrow> IJob result \<times> db" where
  "lxd_job E M userId jobName i pth prio meta s =
     createJob E M userId jobName LXD None None (lxd_executor i pth) None None (Some prio) (Some meta) s"

definition instance_job_name :: "string \<Rightarrow> IInstance \<Rightarrow> string" where
  "instance_job_name what d = what @ '' '' @ app_string (appType d) @ '' Instance: '' @ instance_name d"

definition operation_metadata :: "enumOpeType \<Rightarrow> string \<Rightarrow> string \<Rightarrow> jobject" where
  "operation_metadata oper i userId =
     [(''operation'', JStr (ope_string oper)), (''instanceId'', JStr i), (''userId'', JStr userId)]"

subsection \<open>Creation\<close>

text \<open>The overrides that follow in the source write the same limits again.\<close>

definition new_instance_config ::
    "env \<Rightarrow> IConfiguration \<Rightarrow> enumAppType \<Rightarrow> string \<Rightarrow> string \<Rightarrow> string \<Rightarrow> jnum option \<Rightarrow> string option \<Rightarrow> string option
     \<Rightarrow> jobject" where
  "new_instance_config E cfg app token uname i cpu mem disk = [
     (''limits.cpu'', JStr (case cpu of
        Some n \<Rightarrow> if js_truthy (JNum n) then num_to_string E n else ''4'' | None \<Rightarrow> ''4'')),
     (''limits.memory'', JStr (if truthy mem then the mem else ''16GB'')),
     (''user.disk'', JStr (if truthy disk then the disk else ''20GB'')),
     (''user.username'', JStr uname),
     (''user.user-data'', JStr (if app = MATLAB then cloudInitUserDataMatlabContainer token uname i
        else cloudInitUserDataJupyterContainer token uname i (jupyterPort cfg)))]"

definition new_instance ::
    "IConfiguration \<Rightarrow> string \<Rightarrow> string \<Rightarrow> string \<Rightarrow> string \<Rightarrow> LXDInstanceTypeEnum \<Rightarrow> enumAppType \<Rightarrow> int \<Rightarrow> int \<Rightarrow> int
     \<Rightarrow> string \<Rightarrow> jobject \<Rightarrow> int \<Rightarrow> IInstance" where
  "new_instance cfg i userId uname name type app t1 t2 duration token config port = \<lparr>
     doc_id = i, life = new_life t2 userId, metadata = [],
     instance_name = name, instance_userId = userId, instance_username = uname,
     instance_status = PENDING_INSTANCE, instance_type = type, appType = app, createAt = t1, lifeSpan = duration,
     instanceToken = token, instance_project = Some (project_of cfg), webDavToken = Some token,
     instance_config = config, lxdState = None, hostMapPort = Some port\<rparr>"

definition proxy_device :: "string \<Rightarrow> string \<Rightarrow> bool \<Rightarrow> jsval" where
  "proxy_device connect listen bound = JObj ((if bound then [(''bind'', JStr ''instance'')] else []) @
     [(''connect'', JStr connect), (''listen'', JStr listen), (''type'', JStr ''proxy'')])"

definition instance_devices :: "env \<Rightarrow> IConfiguration \<Rightarrow> string option \<Rightarrow> int \<Rightarrow> jsval" where
  "instance_devices E cfg disk port = JObj [
     (''root'', JObj [(''path'', JStr ''/''), (''pool'', lxdStoragePool cfg),
        (''size'', JStr (if truthy disk then the disk else ''20GB'')), (''type'', JStr ''disk'')]),
     (''squid0'', proxy_device (''tcp:'' @ formatProxyAddress (lxdSquidProxy cfg)) ''tcp:0.0.0.0:3128'' True),
     (''jupyter0'', proxy_device
        (''tcp:127.0.0.1:'' @ int_string (if jupyterPort cfg = 0 then 8888 else jupyterPort cfg))
        (''tcp:0.0.0.0:'' @ int_string port) False),
     (''dmp0'', proxy_device
        (''tcp:'' @ js_String E (js_get (dmp cfg) ''host'') @ '':'' @ js_String E (js_get (dmp cfg) ''port''))
        ''tcp:127.0.0.1:3080'' True)]"

definition instance_payload ::
    "env \<Rightarrow> IConfiguration \<Rightarrow> IInstance \<Rightarrow> string option \<Rightarrow> jobject" where
  "instance_payload E cfg d disk = [
     (''name'', JStr (instance_name d)), (''architecture'', JStr ''x86_64''),
     (''config'', JObj (instance_config d)),
     (''devices'', instance_devices E cfg disk (the (hostMapPort d))),
     (''source'', JObj [(''type'', JStr ''image''), (''alias'', JStr (if appType d = MATLAB
        then ''ubuntu-matlab-container-image'' else ''ubuntu-jupyter-container-image''))]),
     (''profiles'', JArr [JStr (if appType d = MATLAB then ''matlab-profile'' else ''jupyter-profile'')]),
     (''type'', JStr (lxd_type_string (instance_type d))),
     (''project'', JStr (project_of cfg))]"

definition createInstance ::
    "env \<Rightarrow> mongo \<Rightarrow> IConfiguration \<Rightarrow> string \<Rightarrow> string \<Rightarrow> string \<Rightarrow> LXDInstanceTypeEnum \<Rightarrow> enumAppType \<Rightarrow> int
     \<Rightarrow> jnum option \<Rightarrow> string option \<Rightarrow> string option \<Rightarrow> db \<Rightarrow> IInstance result \<times> db" where
  "createInstance E M cfg userId uname name type app duration cpu mem disk s =
     (let (i, s1) = uuid E s in
      case issueSystemAccessToken E M (conf_system cfg) userId None s1 of
        (Inl _, s2) \<Rightarrow> (Inl (JSError ''Error generating instance token.''), s2)
      | (Inr token, s2) \<Rightarrow>
     (let port = getValidHostPort M cfg s2;
          (t1, s3) = Date_now E s2;
          (t2, s4) = Date_now E s3;
          entry = new_instance cfg i userId uname name type app t1 t2 duration token
            (new_instance_config E cfg app token uname i cpu mem disk) port
      in case insertOne (instance_dr M) (instance_collection s4) entry of
        None \<Rightarrow> (Inl MongoServerError, s4)
      | Some c \<Rightarrow>
     (case lxd_job E M userId (instance_job_name ''Create'' entry) i ''/lxd'' 8
             [(''operation'', JStr (ope_string OPE_CREATE)), (''instanceId'', JStr i), (''userId'', JStr userId),
              (''payload'', JObj (instance_payload E cfg entry disk))] (s4\<lparr>instance_collection := c\<rparr>) of
        (Inl e, s5) \<Rightarrow> (Inl e, s5)
      | (Inr _, s5) \<Rightarrow> (Inr entry, s5))))"

subsection \<open>Starting, stopping, deleting\<close>

definition startStopInstance ::
    "env \<Rightarrow> mongo \<Rightarrow> string \<Rightarrow> string \<Rightarrow> bool \<Rightarrow> db \<Rightarrow> IInstance result \<times> db" where
  "startStopInstance E M userId i start s =
     (case find_instance M i s of
        None \<Rightarrow> (Inl (JSError ''Instance not found.''), s)
      | Some d \<Rightarrow>
     (let oper = (if start then OPE_START else OPE_STOP) in
      case set_instance M i (\<lambda>d. d\<lparr>instance_status := if start then STARTING else STOPPING\<rparr>) s of
        (Inl e, s1) \<Rightarrow> (Inl e, s1)
      | (Inr _, s1) \<Rightarrow>
     (case lxd_job E M userId
             (instance_job_name (if start then ''START'' else ''STOP'') d)
             i (''/lxd/'' @ ope_string oper) 5 (operation_metadata oper (doc_id d) userId) s1 of
        (Inl e, s2) \<Rightarrow> (Inl e, s2)
      | (Inr _, s2) \<Rightarrow> (Inr d, s2))))"

definition restartInstance ::
    "env \<Rightarrow> mongo \<Rightarrow> string \<Rightarrow> string \<Rightarrow> int \<Rightarrow> db \<Rightarrow> IInstance result \<times> db" where
  "restartInstance E M userId i duration s =
     (let (now, s1) = Date_now E s in
      case set_instance M i (\<lambda>d. d\<lparr>createAt := now, lifeSpan := duration, instance_status := STARTING\<rparr>) s1 of
        (Inl e, s2) \<Rightarrow> (Inl e, s2)
      | (Inr None, s2) \<Rightarrow>
          (Inl (CoreError CLIENT_ACTION_ON_NON_EXISTENT_ENTRY ''Instance does not exist or update failed.''), s2)
      | (Inr (Some d), s2) \<Rightarrow>
     (case lxd_job E M userId
             (instance_job_name ''Restart'' d @ '' for user '' @ userId)
             i ''/lxd/start'' 5 (operation_metadata OPE_START (doc_id d) userId) s2 of
        (Inl e, s3) \<Rightarrow> (Inl e, s3)
      | (Inr _, s3) \<Rightarrow> (Inr d, s3)))"

text \<open>The jobs of an instance that are waiting, by their metadata or their executor.\<close>

definition pending_for :: "string \<Rightarrow> IJob \<Rightarrow> bool" where
  "pending_for i j \<longleftrightarrow> job_status j = PENDING \<and>
     (js_get (metadata j) ''instanceId'' = JStr i \<or>
      (case executor j of None \<Rightarrow> False | Some x \<Rightarrow> executor_id x = i))"

definition cancel_job :: "int \<Rightarrow> string \<Rightarrow> IJob \<Rightarrow> IJob" where
  "cancel_job now u j = (mark_deleted now (Uid u) j)\<lparr>job_status := CANCELLED\<rparr>"

definition deleteInstance ::
    "env \<Rightarrow> mongo \<Rightarrow> string \<Rightarrow> string \<Rightarrow> db \<Rightarrow> bool result \<times> db" where
  "deleteInstance E M userId i s =
     (let (now, s1) = Date_now E s in
      case set_instance M i (\<lambda>d. (mark_deleted now (Uid userId) d)\<lparr>instance_status := DELETED\<rparr>) s1 of
        (Inl e, s2) \<Rightarrow> (Inl e, s2)
      | (Inr None, s2) \<Rightarrow>
          (Inl (CoreError CLIENT_ACTION_ON_NON_EXISTENT_ENTRY ''Instance does not exist or delete failed.''), s2)
      | (Inr (Some d), s2) \<Rightarrow>
     (case lxd_job E M (instance_userId d) (instance_job_name ''DELETE'' d)
             i ''/lxd/delete'' 10 (operation_metadata OPE_DELETE (doc_id d) userId) s2 of
        (Inl e, s3) \<Rightarrow> (Inl e, s3)
      | (Inr job, s3) \<Rightarrow>
     (let (now2, s4) = Date_now E s3;
          (ok, c) = updateMany (jobs_dr M) (jobs_collection s4)
            (\<lambda>j. pending_for i j \<and> doc_id j \<noteq> doc_id job) (cancel_job now2 userId)
      in if ok then (Inr True, s4\<lparr>jobs_collection := c\<rparr>) else (Inl MongoServerError, s4\<lparr>jobs_collection := c\<rparr>))))"

subsection \<open>Listing\<close>

text \<open>The class remembers the last reading of each instance.\<close>

record cpu_memory =
  previousCpuUsage :: "string \<rightharpoonup> int"
  previousCpuTimestamp :: "string \<rightharpoonup> int"

definition monitor_job ::
    "env \<Rightarrow> mongo \<Rightarrow> string \<Rightarrow> string \<Rightarrow> int \<Rightarrow> string \<Rightarrow> enumMonitorType \<Rightarrow> jsval \<Rightarrow> db \<Rightarrow> unit result \<times> db" where
  "monitor_job E M owner jobName per i oper user s =
     (if getJobs M (\<lambda>j. job_name j = jobName \<and> job_type j = LXD_MONITOR \<and> job_status j = PENDING) s \<noteq> []
      then (Inr (), s)
      else
     (case createJob E M owner jobName LXD_MONITOR None (Some per) (lxd_executor i ''/lxd/monitor'') None None (Some 1)
             (Some [(''operation'', JStr (monitor_string oper)), (''userId'', user)]) s of
        (Inl e, s1) \<Rightarrow> (Inl e, s1)
      | (Inr _, s1) \<Rightarrow> (Inr (), s1)))"

text \<open>An instance whose life is over is stopped.\<close>

definition expire ::
    "env \<Rightarrow> mongo \<Rightarrow> string \<Rightarrow> int \<Rightarrow> IInstance \<Rightarrow> db \<Rightarrow> unit result \<times> db" where
  "expire E M userId now d s =
     (if 0 < lifeSpan d - (now - createAt d) then (Inr (), s)
      else
     (case (if instance_status d \<notin> {STOPPED, STOPPING, FAILED_INSTANCE}
            then startStopInstance E M userId (doc_id d) False s else (Inr d, s)) of
        (Inl e, s1) \<Rightarrow> (Inl e, s1)
      | (Inr _, s1) \<Rightarrow>
     (case set_instance M (doc_id d) (\<lambda>d. d\<lparr>lifeSpan := 0\<rparr>) s1 of
        (Inl e, s2) \<Rightarrow> (Inl e, s2)
      | (Inr _, s2) \<Rightarrow> (Inr (), s2))))"

definition clamp_percent :: "jnum \<Rightarrow> jsval" where
  "clamp_percent u = JNum (if num_less (Fin 100) u then Fin 100 else if num_less u (Fin 0) then Fin 0
     else num_floor (num_add u (Fin (1 / 2))))"

definition has_key :: "jobject \<Rightarrow> string \<Rightarrow> bool" where
  "has_key m k \<longleftrightarrow> k \<in> set (map fst m)"

definition cpu_percent :: "cpu_memory \<Rightarrow> int \<Rightarrow> jnum \<Rightarrow> string \<Rightarrow> int \<Rightarrow> jnum" where
  "cpu_percent h now limit i raw =
     (let since = (case previousCpuTimestamp h i of Some t \<Rightarrow> if t = 0 then now else t | None \<Rightarrow> now);
          interval = of_int (now - since) / 1000 :: rat;
          delta = of_int (raw - nullish (previousCpuUsage h i) 0) / 10 ^ 9 :: rat
      in if 0 < interval then num_mul (num_div (Fin delta) (num_mul limit (Fin interval))) (Fin 100) else Fin 0)"

text \<open>The usage of a running instance, in the metadata of the answer.\<close>

definition with_usage :: "env \<Rightarrow> int \<Rightarrow> IInstance \<Rightarrow> cpu_memory \<Rightarrow> IInstance result \<times> cpu_memory" where
  "with_usage E now d h =
     (let config = instance_config d;
          cpuLim = (if has_key config ''limits.cpu'' then parseInt (js_String E (js_get config ''limits.cpu'')) else Fin 1)
      in case (if has_key config ''limits.memory'' then parseMemory (js_get config ''limits.memory'')
               else Inr (Fin (16 * 1024 ^ 3))) of
        Inl e \<Rightarrow> (Inl e, h)
      | Inr memLim \<Rightarrow>
     (let (cpu, mem, h1) =
            (case lxdState d of
               Some st \<Rightarrow>
                 if instance_status d = RUNNING
                 then (cpu_percent h now cpuLim (doc_id d) (cpu_usage st),
                       num_mul (num_div (Fin (of_int (memory_usage st))) memLim) (Fin 100),
                       h\<lparr>previousCpuUsage := (previousCpuUsage h)(doc_id d \<mapsto> cpu_usage st),
                         previousCpuTimestamp := (previousCpuTimestamp h)(doc_id d \<mapsto> now)\<rparr>)
                 else (Fin 0, Fin 0, h)
             | None \<Rightarrow> (Fin 0, Fin 0, h))
      in (Inr (d\<lparr>metadata := js_set (js_set (metadata d) ''cpuUsage'' (clamp_percent cpu))
                 ''memoryUsage'' (clamp_percent mem)\<rparr>), h1)))"

definition remaining_life :: "int \<Rightarrow> IInstance \<Rightarrow> int" where
  "remaining_life now d = max 0 (lifeSpan d - (now - createAt d))"

text \<open>
  \<open>Promise.all\<close> over the instances: each is updated whether or not another one fails, and the first
  failure is the result.
\<close>

fun update_all ::
    "env \<Rightarrow> mongo \<Rightarrow> string \<Rightarrow> int \<Rightarrow> IInstance list \<Rightarrow> cpu_memory \<Rightarrow> db \<Rightarrow> IInstance list result \<times> cpu_memory \<times> db" where
  "update_all E M userId now [] h s = (Inr [], h, s)"
| "update_all E M userId now (d # ds) h s =
     (case expire E M userId now d s of
        (Inl e, s1) \<Rightarrow> (let (r, h2, s2) = update_all E M userId now ds h s1 in (Inl e, h2, s2))
      | (Inr _, s1) \<Rightarrow>
     (case with_usage E now d h of
        (Inl e, h1) \<Rightarrow> (let (r, h2, s2) = update_all E M userId now ds h1 s1 in (Inl e, h2, s2))
      | (Inr d', h1) \<Rightarrow>
          (let (r, h2, s2) = update_all E M userId now ds h1 s1
           in (case r of Inl e \<Rightarrow> Inl e | Inr ds' \<Rightarrow> Inr (d'\<lparr>lifeSpan := remaining_life now d\<rparr> # ds'), h2, s2))))"

fun join_ids :: "string list \<Rightarrow> string" where
  "join_ids [] = []"
| "join_ids [i] = i"
| "join_ids (i # is) = i @ CHR ''|'' # join_ids is"

definition getInstances ::
    "env \<Rightarrow> mongo \<Rightarrow> string \<Rightarrow> cpu_memory \<Rightarrow> db \<Rightarrow> IInstance list result \<times> cpu_memory \<times> db" where
  "getInstances E M userId h s =
     (let ds = find_many (instance_dr M) (instance_collection s)
            (\<lambda>d. instance_status d \<noteq> DELETED \<and> instance_userId d = userId)
      in case monitor_job E M userId (''Update Instance Status of User: '' @ userId) (1 * 60 * 1000)
             (join_ids (map doc_id ds)) STATE (JStr userId) s of
        (Inl e, s1) \<Rightarrow> (Inl e, h, s1)
      | (Inr _, s1) \<Rightarrow>
     (case monitor_job E M userId (''Synchronize Deleted Instances for User: '' @ userId) (5 * 60 * 1000)
             ''sync-deletion'' SYNC_DELETION (JStr userId) s1 of
        (Inl e, s2) \<Rightarrow> (Inl e, h, s2)
      | (Inr _, s2) \<Rightarrow>
     (let (now, s3) = Date_now E s2 in update_all E M userId now ds h s3)))"

subsection \<open>Editing\<close>

text \<open>
  \<open>$set\<close> with an object the client sent. The schema of the router names some properties and lets all
  others through; a property with a value of its declared type is written, and what the documents of the
  model have no place for is dropped.
\<close>

definition instance_status_of :: "string \<Rightarrow> enumInstanceStatus option" where
  "instance_status_of x = map_of [(''PENDING'', PENDING_INSTANCE), (''FAILED'', FAILED_INSTANCE),
     (''STARTING'', STARTING), (''STOPPING'', STOPPING), (''RUNNING'', RUNNING), (''STOPPED'', STOPPED),
     (''DELETED'', DELETED)] x"

definition set_string :: "string \<Rightarrow> string \<Rightarrow> IInstance \<Rightarrow> IInstance" where
  "set_string k v d =
     (if k = ''id'' then d\<lparr>doc_id := v\<rparr>
      else if k = ''name'' then d\<lparr>instance_name := v\<rparr>
      else if k = ''userId'' then d\<lparr>instance_userId := v\<rparr>
      else if k = ''username'' then d\<lparr>instance_username := v\<rparr>
      else if k = ''status'' then d\<lparr>instance_status := nullish (instance_status_of v) (instance_status d)\<rparr>
      else if k = ''type'' then d\<lparr>instance_type := nullish (map_of [(''container'', CONTAINER),
        (''virtual-machine'', VIRTUAL_MACHINE)] v) (instance_type d)\<rparr>
      else if k = ''appType'' then d\<lparr>appType := nullish (map_of [(''Jupyter'', JUPYTER), (''Matlab'', MATLAB),
        (''Desktop'', DESKTOP)] v) (appType d)\<rparr>
      else if k = ''instanceToken'' then d\<lparr>instanceToken := v\<rparr>
      else if k = ''project'' then d\<lparr>instance_project := Some v\<rparr>
      else if k = ''webDavToken'' then d\<lparr>webDavToken := Some v\<rparr>
      else d)"

definition set_number :: "string \<Rightarrow> int \<Rightarrow> IInstance \<Rightarrow> IInstance" where
  "set_number k v d =
     (if k = ''createAt'' then d\<lparr>createAt := v\<rparr>
      else if k = ''lifeSpan'' then d\<lparr>lifeSpan := v\<rparr>
      else if k = ''hostMapPort'' then d\<lparr>hostMapPort := Some v\<rparr>
      else d)"

fun set_property :: "string \<times> jsval \<Rightarrow> IInstance \<Rightarrow> IInstance" where
  "set_property (k, JStr v) d = set_string k v d"
| "set_property (k, JNum (Fin v)) d = set_number k \<lfloor>v\<rfloor> d"
| "set_property (k, JObj m) d =
     (if k = ''config'' then d\<lparr>instance_config := m\<rparr> else if k = ''metadata'' then d\<lparr>metadata := m\<rparr> else d)"
| "set_property p d = d"

definition set_updates :: "jobject \<Rightarrow> IInstance \<Rightarrow> IInstance" where
  "set_updates m d = fold set_property m d"

definition or_else :: "jsval \<Rightarrow> jsval \<Rightarrow> jsval" where
  "or_else a b = (if js_truthy a then a else b)"

text \<open>The limits move into the configuration.\<close>

definition with_limits :: "env \<Rightarrow> jobject \<Rightarrow> jobject \<Rightarrow> jobject" where
  "with_limits E config upd =
     (let cpu = js_get upd ''cpuLimit''; mem = js_get upd ''memoryLimit'' in
      if \<not> js_truthy cpu \<and> \<not> js_truthy mem then upd
      else js_delete (js_delete (js_set upd ''config'' (JObj
        (js_set (js_set config
          ''limits.cpu'' (or_else (if cpu = JUndef \<or> cpu = JNull then JUndef else JStr (js_String E cpu))
             (js_get config ''limits.cpu'')))
          ''limits.memory'' (or_else mem (js_get config ''limits.memory''))))) ''cpuLimit'') ''memoryLimit'')"

definition editInstance ::
    "env \<Rightarrow> mongo \<Rightarrow> IUserWithoutToken \<Rightarrow> string option \<Rightarrow> string option \<Rightarrow> jobject \<Rightarrow> db
     \<Rightarrow> IInstance result \<times> db" where
  "editInstance E M req i name upd s =
     (if \<not> truthy i \<and> \<not> truthy name
      then (Inl (CoreError CLIENT_ACTION_ON_NON_EXISTENT_ENTRY ''Instance ID or name must be provided.''), s)
      else
     (case findOne (instance_dr M) (instance_collection s) (\<lambda>d.
             (truthy i \<longrightarrow> Some (doc_id d) = i) \<and> (truthy name \<longrightarrow> Some (instance_name d) = name)) of
        None \<Rightarrow> (Inl (CoreError CLIENT_ACTION_ON_NON_EXISTENT_ENTRY ''Instance does not exist.''), s)
      | Some d \<Rightarrow>
     if username req \<noteq> instance_username d \<and> user_type req \<noteq> ADMIN
     then (Inl (CoreError NO_PERMISSION_ERROR ''User does not have permission to edit this instance.''), s)
     else
     (let upd' = with_limits E (instance_config d) upd in
      case set_instance M (doc_id d) (set_updates upd') s of
        (Inl e, s1) \<Rightarrow> (Inl e, s1)
      | (Inr None, s1) \<Rightarrow>
          (Inl (CoreError CLIENT_ACTION_ON_NON_EXISTENT_ENTRY ''Failed to update the instance.''), s1)
      | (Inr (Some r), s1) \<Rightarrow>
     (case lxd_job E M (doc_id req) (instance_job_name ''Update Config for'' r)
             (if truthy i then the i else if truthy name then the name else []) ''/lxd/update'' 2
             [(''operation'', JStr (ope_string OPE_UPDATE)), (''instanceToken'', JStr (instanceToken d)),
              (''instanceId'', JStr (doc_id r)), (''updates'', JObj upd')] s1 of
        (Inl e, s2) \<Rightarrow> (Inl e, s2)
      | (Inr _, s2) \<Rightarrow> (Inr r, s2)))))"

definition extendInstanceLifespan ::
    "env \<Rightarrow> mongo \<Rightarrow> string \<Rightarrow> string \<Rightarrow> int \<Rightarrow> db \<Rightarrow> IInstance result \<times> db" where
  "extendInstanceLifespan E M userId i additional s =
     (case find_instance M i s of
        None \<Rightarrow> (Inl (CoreError CLIENT_ACTION_ON_NON_EXISTENT_ENTRY ''Instance not found.''), s)
      | Some d \<Rightarrow>
     (let (now, s1) = Date_now E s in
      if instance_userId d \<noteq> userId
      then (Inl (CoreError NO_PERMISSION_ERROR ''User does not have permission to extend this instance.''), s1)
      else if lifeSpan d - (now - createAt d) > 7 * 24 * 60 * 60 * 1000
      then (Inl (CoreError NO_PERMISSION_ERROR
        ''Instance already has sufficient lifespan (more than 7 days). No need to extend now.''), s1)
      else
     (case set_instance M i (\<lambda>x. x\<lparr>lifeSpan := lifeSpan d + additional\<rparr>) s1 of
        (Inl e, s2) \<Rightarrow> (Inl e, s2)
      | (Inr None, s2) \<Rightarrow>
          (Inl (CoreError CLIENT_ACTION_ON_NON_EXISTENT_ENTRY ''Failed to update the instance lifespan.''), s2)
      | (Inr (Some r), s2) \<Rightarrow> (Inr r, s2))))"

subsection \<open>Address, quota, flavours\<close>

definition ipv4_of :: "IInstance \<Rightarrow> string option" where
  "ipv4_of d =
     (case lxdState d of None \<Rightarrow> None | Some st \<Rightarrow>
     (case network st of None \<Rightarrow> None | Some m \<Rightarrow>
     (case map_of m ''eth0'' of None \<Rightarrow> None | Some as \<Rightarrow>
     (case filter (\<lambda>a. family a = ''inet'') as of
        [] \<Rightarrow> None
      | a # _ \<Rightarrow> if address a = [] then None else Some (address a)))))"

definition getContainerIP ::
    "env \<Rightarrow> mongo \<Rightarrow> IConfiguration \<Rightarrow> string \<Rightarrow> string option \<Rightarrow> db \<Rightarrow> (string \<times> int) option result \<times> db" where
  "getContainerIP E M cfg i userId s =
     (case getInstanceById M i s of
        Inl e \<Rightarrow> (Inl e, s)
      | Inr d \<Rightarrow>
     if truthy userId \<and> Some (instance_userId d) \<noteq> userId
     then (Inl (JSError ''User not authorized to access the instance''), s)
     else if instance_status d \<noteq> RUNNING then (Inr None, s)
     else
     (case ipv4_of d of
        Some ip \<Rightarrow> (Inr (Some (ip, jupyterPort cfg)), s)
      | None \<Rightarrow>
     (case monitor_job E M (instance_userId d) (''Update Instance Status of User: '' @ instance_userId d)
             (5 * 60 * 1000) (doc_id d) STATE (case userId of None \<Rightarrow> JUndef | Some u \<Rightarrow> JStr u) s of
        (Inl e, s1) \<Rightarrow> (Inl e, s1)
      | (Inr _, s1) \<Rightarrow> (Inr None, s1))))"

fun sum_usage :: "env \<Rightarrow> IInstance list \<Rightarrow> jnum \<times> jnum \<times> jnum \<Rightarrow> (jnum \<times> jnum \<times> jnum) result" where
  "sum_usage E [] acc = Inr acc"
| "sum_usage E (d # ds) (cpu, mem, disk) =
     (case parseMemory (js_get (instance_config d) ''limits.memory'') of
        Inl e \<Rightarrow> Inl e
      | Inr m \<Rightarrow>
     (case parseMemory (js_get (instance_config d) ''user.disk'') of
        Inl e \<Rightarrow> Inl e
      | Inr k \<Rightarrow> sum_usage E ds
          (num_add cpu (parseInt (js_String E (js_get (instance_config d) ''limits.cpu''))), num_add mem m, num_add disk k)))"

definition exceeds :: "string \<Rightarrow> error" where
  "exceeds what = CoreError NO_PERMISSION_ERROR (''Requested '' @ what @
     '' exceeds available quota. Please delete some instances or contact an administrator.'')"

definition over_quota ::
    "IUserConfig \<Rightarrow> jnum \<times> jnum \<times> jnum \<Rightarrow> nat \<Rightarrow> jnum \<Rightarrow> string \<Rightarrow> string \<Rightarrow> int \<Rightarrow> unit result" where
  "over_quota quota taken running cpu mem disk instances =
     (case taken of (usedCpu, usedMem, usedDisk) \<Rightarrow>
      if num_less (Fin (of_int (defaultLXDMaximumInstanceCPUCores quota))) (num_add usedCpu cpu)
      then Inl (exceeds ''CPU'')
      else
     (case parseMemory (JStr mem) of
        Inl e \<Rightarrow> Inl e
      | Inr m \<Rightarrow>
      if num_less (Fin (of_int (defaultLXDMaximumInstanceMemory quota))) (num_add m usedMem)
      then Inl (exceeds ''memory'')
      else
     (case parseMemory (JStr disk) of
        Inl e \<Rightarrow> Inl e
      | Inr k \<Rightarrow>
      if num_less (Fin (of_int (defaultLXDMaximumInstanceDiskSize quota))) (num_add k usedDisk)
      then Inl (exceeds ''disk space'')
      else if defaultLXDMaximumInstances quota < int running + instances
      then Inl (exceeds ''instance count'')
      else Inr ())))"

text \<open>
  The quota of the user; a configuration of another kind (which \<open>createConfig\<close> accepts) has no limits, and
  a comparison with \<open>undefined\<close> never holds.
\<close>

definition checkQuotaBeforeCreation ::
    "env \<Rightarrow> mongo \<Rightarrow> string \<Rightarrow> jnum \<Rightarrow> string \<Rightarrow> string \<Rightarrow> int \<Rightarrow> cpu_memory \<Rightarrow> db
     \<Rightarrow> unit result \<times> cpu_memory \<times> db" where
  "checkQuotaBeforeCreation E M userId cpu mem disk instances h s =
     (case getConfig E M USERCONFIG (Some userId) True s of
        (Inl e, s1) \<Rightarrow> (Inl e, h, s1)
      | (Inr config, s1) \<Rightarrow>
     (case getInstances E M userId h s1 of
        (Inl e, h2, s2) \<Rightarrow> (Inl e, h2, s2)
      | (Inr ds, h2, s2) \<Rightarrow>
     (case sum_usage E ds (Fin 0, Fin 0, Fin 0) of
        Inl e \<Rightarrow> (Inl e, h2, s2)
      | Inr taken \<Rightarrow>
     (case properties config of
        UserProps quota \<Rightarrow> (over_quota quota taken (length ds) cpu mem disk instances, h2, s2)
      | _ \<Rightarrow>
         (case parseMemory (JStr mem) of
            Inl e \<Rightarrow> (Inl e, h2, s2)
          | Inr _ \<Rightarrow>
         (case parseMemory (JStr disk) of
            Inl e \<Rightarrow> (Inl e, h2, s2)
          | Inr _ \<Rightarrow> (Inr (), h2, s2)))))))"

text \<open>A flavour with its sizes as text; the keys of the record of flavours are the three kinds.\<close>

definition show_flavor :: "LXDFlavor \<Rightarrow> int \<times> string \<times> string" where
  "show_flavor f = (cpuLimit f, formatMemory (memoryLimit f), formatMemory (diskLimit f))"

definition getQuotaAndFlavors ::
    "env \<Rightarrow> mongo \<Rightarrow> IUserWithoutToken \<Rightarrow> db
     \<Rightarrow> (config_properties \<times> (enumInstanceType \<times> int \<times> string \<times> string) list) result \<times> db" where
  "getQuotaAndFlavors E M req s =
     (case getConfig E M USERCONFIG (Some (doc_id req)) True s of
        (Inl e, s1) \<Rightarrow> (Inl e, s1)
      | (Inr userConfig, s1) \<Rightarrow>
     (case getConfig E M SYSTEMCONFIG None True s1 of
        (Inl e, s2) \<Rightarrow> (Inl e, s2)
      | (Inr systemConfig, s2) \<Rightarrow>
     (let flavors = (if user_type req = ADMIN then
              (case properties systemConfig of SystemProps _ \<Rightarrow> Inr [SMALL, MEDIUM, LARGE] | _ \<Rightarrow> Inl (JSError ''TypeError''))
            else
              (case properties userConfig of UserProps quota \<Rightarrow> Inr (defaultLXDflavor quota) | _ \<Rightarrow> Inl (JSError ''TypeError'')))
      in case flavors of
        Inl e \<Rightarrow> (Inl e, s2)
      | Inr fs \<Rightarrow>
     (case properties systemConfig of
        SystemProps sys \<Rightarrow> (Inr (properties userConfig,
          map (\<lambda>f. (f, show_flavor (defaultLXDFlavor sys f))) (rev (remdups (rev fs)))), s2)
      | _ \<Rightarrow> (if fs = [] then Inr (properties userConfig, []) else Inl (JSError ''TypeError''), s2)))))"

subsection \<open>The router\<close>

definition logged_in :: "requester \<Rightarrow> IUserWithoutToken result" where
  "logged_in user =
     (case user of
        Some u \<Rightarrow> if doc_id u = [] then Inl (CoreError NOT_LOGGED_IN ''User must be authenticated.'') else Inr u
      | None \<Rightarrow> Inl (CoreError NOT_LOGGED_IN ''User must be authenticated.''))"

definition route_createInstance ::
    "env \<Rightarrow> mongo \<Rightarrow> IConfiguration \<Rightarrow> requester \<Rightarrow> string \<Rightarrow> LXDInstanceTypeEnum \<Rightarrow> enumAppType \<Rightarrow> int
     \<Rightarrow> jnum option \<Rightarrow> string option \<Rightarrow> string option \<Rightarrow> cpu_memory \<Rightarrow> db \<Rightarrow> IInstance result \<times> cpu_memory \<times> db" where
  "route_createInstance E M cfg user name type app duration cpu mem disk h s =
     (case logged_in user of
        Inl e \<Rightarrow> (Inl e, h, s)
      | Inr u \<Rightarrow>
     (case checkQuotaBeforeCreation E M (doc_id u) (nullish cpu (Fin 0)) (nullish mem ''0'') (nullish disk ''0'') 1 h s of
        (Inl e, h1, s1) \<Rightarrow> (Inl e, h1, s1)
      | (Inr _, h1, s1) \<Rightarrow>
          (let (r, s2) = createInstance E M cfg (doc_id u) (username u) name type app duration cpu mem disk s1
           in (r, h1, s2))))"

definition route_startStopInstance ::
    "env \<Rightarrow> mongo \<Rightarrow> requester \<Rightarrow> string \<Rightarrow> bool \<Rightarrow> db \<Rightarrow> IInstance result \<times> db" where
  "route_startStopInstance E M user i start s =
     (case logged_in user of
        Inl e \<Rightarrow> (Inl e, s)
      | Inr u \<Rightarrow> startStopInstance E M (doc_id u) i start s)"

definition route_restartInstance ::
    "env \<Rightarrow> mongo \<Rightarrow> requester \<Rightarrow> string \<Rightarrow> int \<Rightarrow> db \<Rightarrow> IInstance result \<times> db" where
  "route_restartInstance E M user i duration s =
     (case logged_in user of
        Inl e \<Rightarrow> (Inl e, s)
      | Inr u \<Rightarrow> restartInstance E M (doc_id u) i duration s)"

definition route_getInstances ::
    "env \<Rightarrow> mongo \<Rightarrow> requester \<Rightarrow> cpu_memory \<Rightarrow> db \<Rightarrow> IInstance list result \<times> cpu_memory \<times> db" where
  "route_getInstances E M user h s =
     (case user of
        None \<Rightarrow> (Inl (CoreError NO_PERMISSION_ERROR ''Insufficient permissions.''), h, s)
      | Some u \<Rightarrow> getInstances E M (doc_id u) h s)"

definition route_editInstance ::
    "env \<Rightarrow> mongo \<Rightarrow> requester \<Rightarrow> string option \<Rightarrow> string option \<Rightarrow> jobject \<Rightarrow> db \<Rightarrow> IInstance result \<times> db" where
  "route_editInstance E M user i name upd s =
     (case logged_in user of
        Inl e \<Rightarrow> (Inl e, s)
      | Inr u \<Rightarrow> editInstance E M u i name upd s)"

text \<open>The instance is looked up before the user is read.\<close>

definition route_deleteInstance ::
    "env \<Rightarrow> mongo \<Rightarrow> requester \<Rightarrow> string \<Rightarrow> db \<Rightarrow> bool result \<times> db" where
  "route_deleteInstance E M user i s =
     (case getInstanceById M i s of
        Inl e \<Rightarrow> (Inl e, s)
      | Inr d \<Rightarrow>
     (case user of
        None \<Rightarrow> (Inl (JSError ''TypeError''), s)
      | Some u \<Rightarrow>
          if user_type u \<noteq> ADMIN \<and> doc_id u \<noteq> instance_userId d
          then (Inl (CoreError NO_PERMISSION_ERROR ''Insufficient permissions.''), s)
          else deleteInstance E M (doc_id u) i s))"

definition route_extendInstanceLifespan ::
    "env \<Rightarrow> mongo \<Rightarrow> requester \<Rightarrow> string \<Rightarrow> int \<Rightarrow> db \<Rightarrow> IInstance result \<times> db" where
  "route_extendInstanceLifespan E M user i additional s =
     (case logged_in user of
        Inl e \<Rightarrow> (Inl e, s)
      | Inr u \<Rightarrow> extendInstanceLifespan E M (doc_id u) i additional s)"

definition route_getQuotaAndFlavors ::
    "env \<Rightarrow> mongo \<Rightarrow> requester \<Rightarrow> db
     \<Rightarrow> (config_properties \<times> (enumInstanceType \<times> int \<times> string \<times> string) list) result \<times> db" where
  "route_getQuotaAndFlavors E M user s =
     (case logged_in user of
        Inl e \<Rightarrow> (Inl e, s)
      | Inr u \<Rightarrow> getQuotaAndFlavors E M u s)"

end
