(* ===== verification/InstanceProps.thy ===== *)
theory InstanceProps
  imports Instances
begin

section \<open>Ports and jobs of instances\<close>

text \<open>
  What the operations on instances leave of the two collections they write: the ports that
  instances get, and the jobs that are waiting for one.
\<close>

subsection \<open>Sizes of memory\<close>

lemma format_loop_small: "amount < 1024 \<Longrightarrow> format_loop amount u us = int_string (round_half_up amount) @ u"
  by (cases us) simp_all

lemma format_loop_units:
  "1 \<le> n \<Longrightarrow> n < 1024 \<Longrightarrow> k \<le> length us \<Longrightarrow>
   format_loop (of_nat n * 1024 ^ k) u us = int_string (int n) @ (u # us) ! k"
proof (induction k arbitrary: u us)
  case 0
  then have "(of_nat n :: rat) < 1024" by simp
  moreover have "round_half_up (of_nat n) = int n" by (simp add: round_half_up_def) linarith
  ultimately show ?case by (simp add: format_loop_small)
next
  case (Suc k)
  then obtain v vs where us: "us = v # vs" by (cases us) auto
  have "(1 :: rat) \<le> of_nat n" "(1 :: rat) \<le> 1024 ^ k" using Suc.prems(1) by (simp_all add: one_le_power)
  then have "(1 :: rat) * 1 \<le> of_nat n * 1024 ^ k" by (intro mult_mono) simp_all
  then have "(1024 :: rat) \<le> of_nat n * 1024 ^ Suc k" by simp
  then show ?case using Suc us by simp
qed

subsection \<open>Jobs\<close>

definition ports :: "db \<Rightarrow> int set" where
  "ports s = {p. \<exists>d \<in> set (instance_collection s). hostMapPort d = Some p}"

definition port_bounds :: "IConfiguration \<Rightarrow> int \<times> int" where
  "port_bounds cfg =
     (let (lo, hi) = nullish (lxdPortRange cfg) (30000, 40000)
      in (if lo = 0 then 30000 else lo, if hi = 0 then 40000 else hi))"

lemma set_map_filter: "set (List.map_filter f xs) = {y. \<exists>x \<in> set xs. f x = Some y}"
  by (induction xs) (auto simp: List.map_filter_simps split: option.splits)

lemma createJob_frame: "createJob E M u n t nx p x dt pm pr mt s = (r, s') \<Longrightarrow>
    instance_collection s' = instance_collection s"
  by (auto simp: createJob_def uuid_def Date_now_def Let_def split: option.splits prod.splits)

lemma lxd_job_frame: "lxd_job E M u n i p pr mt s = (r, s') \<Longrightarrow> instance_collection s' = instance_collection s"
  unfolding lxd_job_def by (rule createJob_frame)

lemma issueSystemAccessToken_frame:
  "issueSystemAccessToken E M sec u l s = (r, s') \<Longrightarrow> instance_collection s' = instance_collection s"
  by (auto simp: issueSystemAccessToken_def Date_now_def Let_def split: option.splits)

text \<open>The job that an instance gets is new, and waiting.\<close>

lemma createJob_result:
  assumes "createJob E M u n t nx p x dt pm pr mt s = (Inr job, s')"
  shows "insertOne (jobs_dr M) (jobs_collection s) job = Some (jobs_collection s') \<and> job_status job = PENDING \<and>
    executor job = x \<and> metadata job = nullish mt []"
  using assms by (auto simp: createJob_def uuid_def Date_now_def Let_def split: option.splits prod.splits)

context mongo_db
begin

lemma set_ports: "set (List.map_filter hostMapPort (find_many (instance_dr M) (instance_collection s) (\<lambda>_. True))) = ports s"
  by (simp add: set_map_filter instance_store.find_many_set ports_def)

lemma finite_ports: "finite (ports s)"
  using set_ports[of s] by (metis List.finite_set)

lemma getValidHostPort_eq:
  "getValidHostPort M cfg s = (case port_bounds cfg of (lo, hi) \<Rightarrow>
     if ports s = {} then lo else if Max (ports s) < hi then Max (ports s) + 1 else lo)"
proof -
  have "ports s = {} \<longleftrightarrow> List.map_filter hostMapPort (find_many (instance_dr M) (instance_collection s) (\<lambda>_. True)) = []"
    using set_ports[of s] by (metis set_empty)
  then show ?thesis
    by (simp add: getValidHostPort_def port_bounds_def set_ports Let_def split: prod.splits)
qed

text \<open>Where all ports are in the range, so is the next one; and when it is new.\<close>

lemma next_port:
  assumes b: "port_bounds cfg = (lo, hi)" "lo \<le> hi" and all: "ports s \<subseteq> {lo..hi}"
  shows "getValidHostPort M cfg s \<in> {lo..hi} \<and>
    (getValidHostPort M cfg s \<notin> ports s \<longleftrightarrow> lo \<notin> ports s \<or> hi \<notin> ports s)"
proof (cases "ports s = {}")
  case True
  then show ?thesis using b by (simp add: getValidHostPort_eq)
next
  case False
  let ?m = "Max (ports s)"
  have m: "?m \<in> ports s" by (rule Max_in[OF finite_ports False])
  have le: "p \<le> ?m" if "p \<in> ports s" for p by (rule Max_ge[OF finite_ports that])
  show ?thesis
  proof (cases "?m < hi")
    case True
    have "?m + 1 \<notin> ports s" using le[of "?m + 1"] by auto
    moreover have "hi \<notin> ports s" using le[of hi] True by auto
    ultimately show ?thesis using m all True False b by (auto simp: getValidHostPort_eq)
  next
    case h: False
    with m all have "?m = hi" by auto
    then show ?thesis using h m False b by (auto simp: getValidHostPort_eq)
  qed
qed

lemma createInstance_ports:
  assumes "createInstance E M cfg userId uname name type app duration cpu mem disk s = (Inr d, s')"
  shows "hostMapPort d = Some (getValidHostPort M cfg s) \<and> ports s' = insert (getValidHostPort M cfg s) (ports s)"
proof -
  obtain i s1 where u: "uuid E s = (i, s1)" by fastforce
  then have s1: "instance_collection s1 = instance_collection s" by (auto simp: uuid_def)
  from assms u obtain token s2 where tok: "issueSystemAccessToken E M (conf_system cfg) userId None s1 = (Inr token, s2)"
    by (auto simp: createInstance_def split: prod.splits sum.splits)
  note s2 = issueSystemAccessToken_frame[OF tok, unfolded s1]
  have p2: "getValidHostPort M cfg s2 = getValidHostPort M cfg s" by (simp add: getValidHostPort_def s2)
  from assms u tok obtain c job s4 where
    ins: "insertOne (instance_dr M) (instance_collection s) d = Some c"
    and d: "hostMapPort d = Some (getValidHostPort M cfg s)"
    and job: "instance_collection s' = c"
    by (auto simp: createInstance_def Date_now_def Let_def s2 p2 new_instance_def dest!: lxd_job_frame
        split: option.splits prod.splits sum.splits)
  from instance_store.insertOne_set[OF ins] d job show ?thesis by (auto simp: ports_def)
qed

end

text \<open>
  The port of a new instance stays in the range of the configuration. It is new if and only if the highest
  or the lowest port of the range is free: once both have been given (to instances that may be long
  deleted), every further instance gets the lowest port, whichever others are free.
\<close>

theorem instance_port:
  assumes "mongo_ok M" and "port_bounds cfg = (lo, hi)" and "lo \<le> hi" and "ports s \<subseteq> {lo..hi}"
    and "createInstance E M cfg userId uname name type app duration cpu mem disk s = (Inr d, s')"
  shows "\<exists>p. hostMapPort d = Some p \<and> p \<in> {lo..hi} \<and> ports s' = insert p (ports s) \<and>
    (p \<notin> ports s \<longleftrightarrow> lo \<notin> ports s \<or> hi \<notin> ports s) \<and> (hi \<in> ports s \<longrightarrow> p = lo)"
proof -
  note db = mongo_db.intro[OF assms(1)]
  note cr = mongo_db.createInstance_ports[OF db assms(5)]
  note np = mongo_db.next_port[OF db assms(2-4)]
  have "getValidHostPort M cfg s = lo" if hi: "hi \<in> ports s"
  proof -
    have "hi \<le> Max (ports s)" by (rule Max_ge[OF mongo_db.finite_ports[OF db] hi])
    with hi assms(2) show ?thesis by (auto simp: mongo_db.getValidHostPort_eq[OF db])
  qed
  with cr np show ?thesis by blast
qed

subsection \<open>Deletion\<close>

definition deleted_instance :: "int \<Rightarrow> string \<Rightarrow> IInstance \<Rightarrow> IInstance" where
  "deleted_instance now u d = (mark_deleted now (Uid u) d)\<lparr>instance_status := DELETED\<rparr>"

lemma cancel_job_fields [simp]:
  "doc_id (cancel_job now u j) = doc_id j" "job_status (cancel_job now u j) = CANCELLED"
  by (simp_all add: cancel_job_def)

lemma image_apply_others:
  assumes "\<And>d. k (f d) = k d"
  shows "{d \<in> apply_where (\<lambda>d. k d = i) f ` A. k d \<noteq> i} = {d \<in> A. k d \<noteq> i}"
proof -
  have "k (apply_where (\<lambda>d. k d = i) f d) = k d" for d using assms by (simp add: apply_where_def)
  moreover have "apply_where (\<lambda>d. k d = i) f d = d" if "k d \<noteq> i" for d using that by simp
  ultimately show ?thesis by force
qed

text \<open>The jobs after the cancellation: those that still wait for the instance, and the others.\<close>

lemma cancelled_jobs:
  assumes c: "C = apply_where (\<lambda>j. pending_for i j \<and> doc_id j \<noteq> doc_id job) (cancel_job now u) ` insert job B"
    and new: "pending_for i job" "doc_id job \<notin> doc_id ` B"
  shows "{j \<in> C. pending_for i j} = {job} \<and> {j \<in> B. \<not> pending_for i j} \<subseteq> C \<and>
    (\<forall>j \<in> B. pending_for i j \<longrightarrow> cancel_job now u j \<in> C)"
proof -
  let ?q = "\<lambda>j. pending_for i j \<and> doc_id j \<noteq> doc_id job"
  have job: "apply_where ?q (cancel_job now u) job = job" by simp
  have B: "apply_where ?q (cancel_job now u) j = (if pending_for i j then cancel_job now u j else j)" if "j \<in> B" for j
  proof -
    have "doc_id j \<noteq> doc_id job" using that new(2) by (metis imageI)
    then show ?thesis by (simp add: apply_where_def)
  qed
  have "\<not> pending_for i (cancel_job now u j)" for j by (simp add: pending_for_def)
  then show ?thesis unfolding c using job B new(1) by (auto simp: image_iff split: if_splits)
qed

context mongo_db
begin

lemma set_instance_set:
  assumes "indexed (instance_dr M) (instance_collection s)" and "set_instance M i f s = (Inr r, s')"
  shows "set (instance_collection s') = apply_where (\<lambda>d. doc_id d = i) f ` set (instance_collection s)"
  using assms instance_store.updateOne_key[OF assms(1)]
  by (auto simp: set_instance_def split: option.splits prod.splits)

lemma set_instance_frame: "set_instance M i f s = (r, s') \<Longrightarrow> jobs_collection s' = jobs_collection s"
  by (auto simp: set_instance_def split: option.splits prod.splits)

lemma deleteInstance_spec:
  assumes ix: "indexed (instance_dr M) (instance_collection s)"
    and del: "deleteInstance E M u i s = (Inr b, s')"
  shows "\<exists>job now now2. pending_for i job \<and> doc_id job \<notin> doc_id ` set (jobs_collection s) \<and>
    (case executor job of Some x \<Rightarrow> executor_path x = ''/lxd/delete'' | None \<Rightarrow> False) \<and>
    set (jobs_collection s') = apply_where (\<lambda>j. pending_for i j \<and> doc_id j \<noteq> doc_id job) (cancel_job now2 u) `
      insert job (set (jobs_collection s)) \<and>
    set (instance_collection s') = apply_where (\<lambda>d. doc_id d = i) (deleted_instance now u) ` set (instance_collection s)"
proof -
  let ?s1 = "s\<lparr>tick := Suc (tick s)\<rparr>" and ?f = "deleted_instance (clock E (tick s)) u"
  have f: "(\<lambda>d. (mark_deleted (clock E (tick s)) (Uid u) d)\<lparr>instance_status := DELETED\<rparr>) = ?f"
    by (simp add: deleted_instance_def fun_eq_iff)
  let ?n = "instance_job_name ''DELETE''"
    and ?mt = "\<lambda>d. operation_metadata OPE_DELETE (doc_id d) u"
  obtain r s2 where up1: "set_instance M i ?f ?s1 = (r, s2)" by fastforce
  have "\<exists>d. r = Inr (Some d)"
    using del by (cases r; cases "projr r") (simp_all add: deleteInstance_def Date_now_def f up1)
  then obtain d where up: "set_instance M i ?f ?s1 = (Inr (Some d), s2)" using up1 by blast
  obtain r2 s3 where cj1: "lxd_job E M (instance_userId d) (?n d) i ''/lxd/delete'' 10 (?mt d) s2 = (r2, s3)" by fastforce
  obtain job where r2: "r2 = Inr job"
    using del by (cases r2) (simp_all add: deleteInstance_def Date_now_def f up cj1)
  note cj = cj1[unfolded r2]
  obtain g c where many1: "updateMany (jobs_dr M) (jobs_collection s3) (\<lambda>j. pending_for i j \<and> doc_id j \<noteq> doc_id job)
      (cancel_job (clock E (tick s3)) u) = (g, c)" by fastforce
  have s': "g \<and> s' = s3\<lparr>tick := Suc (tick s3), jobs_collection := c\<rparr>"
    using del by (cases g) (simp_all add: deleteInstance_def Date_now_def f up cj many1)
  then have many: "updateMany (jobs_dr M) (jobs_collection s3) (\<lambda>j. pending_for i j \<and> doc_id j \<noteq> doc_id job)
        (cancel_job (clock E (tick s3)) u) = (True, c)" "jobs_collection s' = c"
      "instance_collection s' = instance_collection s3"
    using many1 by simp_all
  note jb = createJob_result[OF cj[unfolded lxd_job_def]]
  then have ins: "insertOne (jobs_dr M) (jobs_collection s) job = Some (jobs_collection s3)"
    using set_instance_frame[OF up] by simp
  have "set (jobs_collection s') = apply_where (\<lambda>j. pending_for i j \<and> doc_id j \<noteq> doc_id job)
      (cancel_job (clock E (tick s3)) u) ` insert job (set (jobs_collection s))"
    using jobs_store.updateMany_set[OF many(1)] jobs_store.insertOne_set[OF ins] many(2) by simp
  moreover have "set (instance_collection s') = apply_where (\<lambda>d. doc_id d = i) ?f ` set (instance_collection s)"
    using set_instance_set[OF _ up] ix lxd_job_frame[OF cj] many(3) by simp
  moreover have "pending_for i job" "case executor job of Some x \<Rightarrow> executor_path x = ''/lxd/delete'' | None \<Rightarrow> False"
    using jb by (simp_all add: pending_for_def lxd_executor_def)
  ultimately show ?thesis using jobs_store.insertOne_fresh[OF ins] by blast
qed

end

text \<open>A job that waits for an instance, spelt out: by its metadata or by its executor.\<close>

definition waits_for :: "string \<Rightarrow> IJob \<Rightarrow> bool" where
  "waits_for i j \<longleftrightarrow> job_status j = PENDING \<and>
     (map_of (metadata j) ''instanceId'' = Some (JStr i) \<or> (\<exists>x. executor j = Some x \<and> executor_id x = i))"

lemma pending_for_iff: "pending_for i j \<longleftrightarrow> waits_for i j"
  by (auto simp: pending_for_def waits_for_def js_get_def split: option.split)

text \<open>
  C39. Deleting an instance leaves exactly one job waiting for it, the one that deletes the container; the others that
  waited for it (pending, with the instance in their metadata or as their executor) are cancelled, and the remaining
  jobs stay as they are. Of the instances exactly this one is marked as deleted.
\<close>

theorem deleteInstance_cancels:
  assumes "mongo_ok M" and "indexed (instance_dr M) (instance_collection s)"
    and "deleteInstance E M u i s = (Inr b, s')"
  shows "\<exists>job. {j \<in> set (jobs_collection s'). waits_for i j} = {job} \<and>
    (case executor job of Some x \<Rightarrow> executor_path x = ''/lxd/delete'' | None \<Rightarrow> False) \<and>
    {j \<in> set (jobs_collection s). \<not> waits_for i j} \<subseteq> set (jobs_collection s') \<and>
    (\<exists>now. \<forall>j \<in> set (jobs_collection s). waits_for i j \<longrightarrow>
       cancel_job now u j \<in> set (jobs_collection s') \<and> job_status (cancel_job now u j) = CANCELLED) \<and>
    (\<forall>d \<in> set (instance_collection s'). doc_id d = i \<longrightarrow> instance_status d = DELETED \<and> \<not> alive d) \<and>
    {d \<in> set (instance_collection s'). doc_id d \<noteq> i} = {d \<in> set (instance_collection s). doc_id d \<noteq> i}"
proof -
  from mongo_db.deleteInstance_spec[OF mongo_db.intro[OF assms(1)] assms(2,3)] obtain job now now2 where
    job: "pending_for i job" "doc_id job \<notin> doc_id ` set (jobs_collection s)"
      "case executor job of Some x \<Rightarrow> executor_path x = ''/lxd/delete'' | None \<Rightarrow> False"
    and c: "set (jobs_collection s') = apply_where (\<lambda>j. pending_for i j \<and> doc_id j \<noteq> doc_id job) (cancel_job now2 u) `
      insert job (set (jobs_collection s))"
    and d: "set (instance_collection s') = apply_where (\<lambda>d. doc_id d = i) (deleted_instance now u) ` set (instance_collection s)"
    by blast
  have idf: "doc_id (deleted_instance now u d) = doc_id d" for d by (simp add: deleted_instance_def)
  have "instance_status e = DELETED \<and> \<not> alive e" if e: "e \<in> set (instance_collection s')" "doc_id e = i" for e
  proof -
    from e(1) d obtain x where x: "e = apply_where (\<lambda>d. doc_id d = i) (deleted_instance now u) x" by blast
    with e(2) idf have "doc_id x = i" by (simp add: apply_where_def split: if_splits)
    with x show ?thesis by (simp add: deleted_instance_def alive_def mark_deleted_def)
  qed
  moreover have "{d \<in> set (instance_collection s'). doc_id d \<noteq> i} = {d \<in> set (instance_collection s). doc_id d \<noteq> i}"
    unfolding d by (rule image_apply_others) (rule idf)
  moreover have "job_status (cancel_job now2 u j) = CANCELLED" for j by (simp add: cancel_job_def)
  ultimately show ?thesis
    using cancelled_jobs[OF c job(1,2), unfolded pending_for_iff] job(3) by (intro exI[of _ job] conjI exI[of _ now2]) simp_all
qed

subsection \<open>Concrete runs\<close>

definition instance0 :: "string \<Rightarrow> int \<Rightarrow> IInstance" where
  "instance0 i p = \<lparr>doc_id = i, life = life0, metadata = [], instance_name = i, instance_userId = ''ann'',
     instance_username = ''ann'', instance_status = STOPPED, instance_type = CONTAINER, appType = JUPYTER,
     createAt = 1, lifeSpan = 1, instanceToken = [], instance_project = None, webDavToken = None,
     instance_config = [], lxdState = None, hostMapPort = Some p\<rparr>"

definition job0 :: "string \<Rightarrow> string \<Rightarrow> IJob" where
  "job0 i target = \<lparr>doc_id = i, life = life0, metadata = [(''instanceId'', JStr target)], job_name = i,
     nextExecutionTime = 1, period = None, job_type = LXD, executor = None, job_data = JNull, job_parameters = JNull,
     priority = 5, history = [], counter = 0, job_status = PENDING\<rparr>"

definition full0 :: db where
  "full0 = db0\<lparr>users_collection := [with_token (user0 ''ann'' STANDARD)],
     instance_collection := [instance0 ''a'' 30000, instance0 ''b'' 40000],
     jobs_collection := [job0 ''stop'' ''a'', job0 ''other'' ''b'']\<rparr>"

definition cfg0 :: IConfiguration where
  "cfg0 = \<lparr>lxdProject = [], lxdPortRange = None, lxdStoragePool = JStr ''default'', lxdSquidProxy = ''http://proxy'',
     jupyterPort = 8888, dmp = [], conf_system = \<lparr>system_publickey = ''pk'', system_privatekey = ''sk''\<rparr>\<rparr>"

lemmas instance_eval = full0_def instance0_def job0_def cfg0_def sample_defs crypto0_def list_mongo_def list_driver_simps
  users_indexes_def jobs_indexes_def instance_indexes_def

lemma full0_ports: "ports full0 = {30000, 40000}"
  by (auto simp: ports_def full0_def instance0_def)

lemma full0_create:
  "\<exists>d s'. createInstance env0 list_mongo cfg0 ''ann'' ''ann'' ''new'' CONTAINER JUPYTER 1000 None None None full0 = (Inr d, s')"
  by (simp add: createInstance_def uuid_def issueSystemAccessToken_def tokengen_def Date_now_def lxd_job_def createJob_def
      new_instance_def instance_eval alive_def)

theorem instance_port_witness:
  "\<exists>d s'. createInstance env0 list_mongo cfg0 ''ann'' ''ann'' ''new'' CONTAINER JUPYTER 1000 None None None full0 =
     (Inr d, s') \<and> hostMapPort d = Some 30000 \<and> (30000 :: int) \<in> ports full0"
proof -
  obtain d s' where c: "createInstance env0 list_mongo cfg0 ''ann'' ''ann'' ''new'' CONTAINER JUPYTER 1000 None None None full0 =
      (Inr d, s')"
    using full0_create by blast
  have b: "port_bounds cfg0 = (30000, 40000)" by (simp add: port_bounds_def cfg0_def)
  from instance_port[OF list_mongo_ok b _ _ c] show ?thesis using c by (simp add: full0_ports)
qed

theorem deleteInstance_cancels_witness:
  "\<exists>job s'. deleteInstance env0 list_mongo ''ann'' ''a'' full0 = (Inr True, s') \<and>
     {j \<in> set (jobs_collection s'). waits_for ''a'' j} = {job} \<and> job0 ''other'' ''b'' \<in> set (jobs_collection s')"
proof -
  have "\<exists>s'. deleteInstance env0 list_mongo ''ann'' ''a'' full0 = (Inr True, s')"
    by (simp add: deleteInstance_def set_instance_def uuid_def Date_now_def lxd_job_def createJob_def pending_for_def
        operation_metadata_def js_get_def lxd_executor_def instance_eval)
  then obtain s' where d: "deleteInstance env0 list_mongo ''ann'' ''a'' full0 = (Inr True, s')" by blast
  have ix: "indexed (instance_dr list_mongo) (instance_collection full0)"
    by (simp add: indexed_def instance_eval)
  have "job0 ''other'' ''b'' \<in> {j \<in> set (jobs_collection full0). \<not> waits_for ''a'' j}"
    by (simp add: full0_def job0_def waits_for_def)
  with deleteInstance_cancels[OF list_mongo_ok ix d] d show ?thesis by blast
qed

end
