(* ===== verification/LxdManager.thy ===== *)
theory LxdManager
  imports Instances Json
begin

section \<open>The client of the container server (\<open>lxdManager.ts\<close>, \<open>lxd.util.ts\<close>)\<close>

text \<open>
  The methods of \<open>LxdManager\<close> over the answers of the server, a parameter (\<open>lxd_server\<close> in theory
  \<open>Database\<close>). The client is taken as initialised (with its certificate); the messages of its
  exceptions come with their class, as \<open>String(error)\<close> puts them. Headers and time limits of requests are left
  out, and so is the web socket of a console.
\<close>

subsection \<open>Requests\<close>

definition lxd_call :: "env \<Rightarrow> string \<Rightarrow> string \<Rightarrow> jsval \<Rightarrow> db \<Rightarrow> axios_answer \<times> db" where
  "lxd_call E verb url body s =
     (let rs = lxd_requests s @ [(verb, url, body)] in (lxd_server E rs, s\<lparr>lxd_requests := rs\<rparr>))"

text \<open>\<open>await lxdInstance.get(url)\<close> and its kin, which throw or answer the data of the response.\<close>

definition lxd_data :: "env \<Rightarrow> string \<Rightarrow> string \<Rightarrow> jsval \<Rightarrow> db \<Rightarrow> jsval result \<times> db" where
  "lxd_data E verb url body s =
     (case lxd_call E verb url body s of
        (Answer st d, s1) \<Rightarrow> (Inr d, s1)
      | (AxiosError _ m, s1) \<Rightarrow> (Inl (JSError m), s1))"

text \<open>\<open>encodeURIComponent\<close>: letters, digits and nine marks stay, other bytes become two hexadecimal digits.\<close>

definition encodeURIComponent :: "string \<Rightarrow> string" where
  "encodeURIComponent x = concat (map (\<lambda>c.
     if is_letter c \<or> is_digit c \<or> c \<in> set ''-_.!~*()'' \<or> c = CHR 0x27 then [c]
     else [CHR ''%'', ''0123456789ABCDEF'' ! (of_char c div 16), ''0123456789ABCDEF'' ! (of_char c mod 16)]) x)"

text \<open>\<open>v?.k\<close>, and \<open>new URL(v).hostname\<close>.\<close>

fun opt_prop :: "jsval \<Rightarrow> string \<Rightarrow> jsval" where
  "opt_prop JUndef k = JUndef"
| "opt_prop JNull k = JUndef"
| "opt_prop v k = (case js_prop v k of Inl _ \<Rightarrow> JUndef | Inr w \<Rightarrow> w)"

definition hostname_of :: "env \<Rightarrow> jsval \<Rightarrow> string result" where
  "hostname_of E v =
     (case url_hostname E (js_String E v) of None \<Rightarrow> Inl (JSError ''Invalid URL'') | Some h \<Rightarrow> Inr h)"

text \<open>\<open>error: true\<close> and the data, as most methods answer instead of throwing.\<close>

definition error_object :: "string \<Rightarrow> jsval" where
  "error_object m = JObj [(''error'', JBool True), (''data'', JStr m)]"

definition data_object :: "jsval \<Rightarrow> jsval" where
  "data_object v = JObj [(''data'', v)]"

definition instance_url :: "string \<Rightarrow> string \<Rightarrow> string \<Rightarrow> string" where
  "instance_url name suffix project =
     ''/1.0/instances/'' @ name @ suffix @ ''?project='' @ project"

subsection \<open>Reading\<close>

definition resources_of :: "jsval \<Rightarrow> jsval result" where
  "resources_of body =
     (case js_prop body ''metadata'' of
        Inl e \<Rightarrow> Inl e
      | Inr m \<Rightarrow>
     (case (js_prop m ''cpu'', js_prop m ''memory'', js_prop m ''storage'', js_prop m ''gpu'') of
        (Inr c, Inr r, Inr st, Inr g) \<Rightarrow>
          Inr (data_object (JObj [(''cpu'', c), (''memory'', r), (''storage'', st), (''gpu'', g)]))
      | _ \<Rightarrow> Inl (JSError ''TypeError'')))"

definition getResources :: "env \<Rightarrow> IConfiguration \<Rightarrow> db \<Rightarrow> jsval \<times> db" where
  "getResources E cfg s =
     (case lxd_data E ''GET'' (''/1.0/resources?project='' @ project_of cfg) JUndef s of
        (Inl e, s1) \<Rightarrow> (error_object (error_message e), s1)
      | (Inr body, s1) \<Rightarrow>
          (case resources_of body of Inl e \<Rightarrow> (error_object (error_message e), s1) | Inr r \<Rightarrow> (r, s1)))"

definition getProfile :: "env \<Rightarrow> string \<Rightarrow> string \<Rightarrow> db \<Rightarrow> jsval \<times> db" where
  "getProfile E name project s =
     (case lxd_call E ''GET'' (''/1.0/profiles/'' @ encodeURIComponent name @ ''?project='' @ project) JUndef s of
        (AxiosError r _, s1) \<Rightarrow> (error_object (''Failed to fetch profile data. '' @
           (case r of None \<Rightarrow> ''undefined'' | Some _ \<Rightarrow> ''[object Object]'')), s1)
      | (Answer st body, s1) \<Rightarrow>
          if st \<noteq> 200 then (error_object (''Failed to fetch profile data. '' @ js_String E body), s1)
          else (case js_prop body ''metadata'' of
                  Inl e \<Rightarrow> (error_object (error_message e), s1)
                | Inr m \<Rightarrow> (data_object m, s1)))"

definition getInstanceInfo :: "env \<Rightarrow> string \<Rightarrow> string \<Rightarrow> db \<Rightarrow> jsval result \<times> db" where
  "getInstanceInfo E name project s =
     lxd_data E ''GET'' (instance_url (encodeURIComponent name) [] project) JUndef s"

text \<open>It never throws: an exception becomes an object with the text of the exception as its data.\<close>

definition getInstanceState :: "env \<Rightarrow> string \<Rightarrow> string \<Rightarrow> db \<Rightarrow> (bool \<times> jsval) \<times> db" where
  "getInstanceState E name project s =
     (case lxd_call E ''GET'' (instance_url (encodeURIComponent name) ''/state'' project) JUndef s of
        (AxiosError _ m, s1) \<Rightarrow> ((True, JStr (''AxiosError: '' @ m)), s1)
      | (Answer st body, s1) \<Rightarrow>
          (case js_prop body ''metadata'' of
             Inl e \<Rightarrow> ((True, JStr (error_message e)), s1)
           | Inr m \<Rightarrow> ((False, m), s1)))"

definition getOperationStatus :: "env \<Rightarrow> string \<Rightarrow> db \<Rightarrow> jsval result \<times> db" where
  "getOperationStatus E url s = lxd_data E ''GET'' url JUndef s"

definition getOperations :: "env \<Rightarrow> IConfiguration \<Rightarrow> db \<Rightarrow> jsval \<times> db" where
  "getOperations E cfg s =
     (case lxd_data E ''GET'' (''/1.0/operations?project='' @ project_of cfg) JUndef s of
        (Inl e, s1) \<Rightarrow> (error_object (error_message e), s1)
      | (Inr body, s1) \<Rightarrow>
          (case js_prop body ''metadata'' of
             Inl e \<Rightarrow> (error_object (error_message e), s1)
           | Inr m \<Rightarrow> (data_object m, s1)))"

text \<open>One entry of the listing; \<open>||\<close> replaces what is missing.\<close>

definition listed_instance :: "jsval \<Rightarrow> jsval result" where
  "listed_instance body =
     (case js_prop body ''metadata'' of
        Inl e \<Rightarrow> Inl e
      | Inr m \<Rightarrow>
     (case (js_prop m ''name'', js_prop m ''config'') of
        (Inr name, Inr config) \<Rightarrow>
          (case js_prop config ''user.username'' of
             Inl e \<Rightarrow> Inl e
           | Inr _ \<Rightarrow> Inr (JObj [(''name'', name), (''description'', opt_prop m ''description''),
               (''status'', opt_prop m ''status''), (''statusCode'', opt_prop m ''status_code''),
               (''profiles'', opt_prop m ''profiles''), (''type'', opt_prop m ''type''),
               (''architecture'', opt_prop m ''architecture''), (''creationDate'', opt_prop m ''created_at''),
               (''lastUsedDate'', opt_prop m ''last_used_at''),
               (''username'', or_else (opt_prop config ''user.username'') (JStr ''N/A'')),
               (''cpuLimit'', or_else (opt_prop config ''limits.cpu'') (JStr ''N/A'')),
               (''memoryLimit'', or_else (opt_prop config ''limits.memory'') (JStr ''N/A''))]))
      | _ \<Rightarrow> Inl (JSError ''TypeError'')))"

text \<open>\<open>Promise.allSettled\<close>: a request that fails is left out, a malformed answer fails the whole listing.\<close>

fun fetch_all :: "env \<Rightarrow> jsval list \<Rightarrow> db \<Rightarrow> jsval list \<times> db" where
  "fetch_all E [] s = ([], s)"
| "fetch_all E (u # us) s =
     (let (r, s1) = lxd_data E ''GET'' (js_String E u) JUndef s;
          (rs, s2) = fetch_all E us s1
      in (case r of Inl _ \<Rightarrow> (rs, s2) | Inr body \<Rightarrow> (body # rs, s2)))"

fun list_all_instances :: "jsval list \<Rightarrow> jsval list result" where
  "list_all_instances [] = Inr []"
| "list_all_instances (b # bs) =
     (case listed_instance b of
        Inl e \<Rightarrow> Inl e
      | Inr v \<Rightarrow> (case list_all_instances bs of Inl e \<Rightarrow> Inl e | Inr vs \<Rightarrow> Inr (v # vs)))"

definition lxd_getInstances :: "env \<Rightarrow> IConfiguration \<Rightarrow> db \<Rightarrow> jsval \<times> db" where
  "lxd_getInstances E cfg s =
     (case lxd_data E ''GET'' (''/1.0/instances?project='' @ project_of cfg) JUndef s of
        (Inl e, s1) \<Rightarrow> (error_object (error_message e), s1)
      | (Inr body, s1) \<Rightarrow>
     (case js_prop body ''metadata'' of
        Inr (JArr urls) \<Rightarrow>
          (let (bodies, s2) = fetch_all E urls s1
           in (case list_all_instances bodies of
                 Inl e \<Rightarrow> error_object (error_message e)
               | Inr vs \<Rightarrow> data_object (JArr vs), s2))
      | _ \<Rightarrow> (error_object ''TypeError'', s1)))"

subsection \<open>Where an instance runs\<close>

definition environment_of :: "jsval \<Rightarrow> jsval" where
  "environment_of body = opt_prop (opt_prop body ''metadata'') ''environment''"

fun strip_scheme :: "string \<Rightarrow> string" where
  "strip_scheme x = (if take 7 x = ''http://'' then drop 7 x else if take 8 x = ''https://'' then drop 8 x else x)"

definition before_colon :: "string \<Rightarrow> string" where
  "before_colon x = takeWhile (\<lambda>c. c \<noteq> CHR '':'') x"

text \<open>
  The address of a member of a cluster: a configured one, else the host of its URL; \<open>None\<close> when the answer
  has neither. A text method on a value that is no string is a \<open>TypeError\<close>.
\<close>

definition member_address :: "env \<Rightarrow> axios_answer \<Rightarrow> string option result" where
  "member_address E answer =
     (case answer of
        AxiosError _ m \<Rightarrow> Inl (JSError m)
      | Answer st body \<Rightarrow>
          if st \<noteq> 200 then Inr None
          else (case js_prop body ''metadata'' of
            Inl e \<Rightarrow> Inl e
          | Inr meta \<Rightarrow>
         (let public = opt_prop (opt_prop meta ''config'') ''user.public_address'' in
          if js_truthy public then
            (case public of JStr x \<Rightarrow> Inr (Some (before_colon (strip_scheme x))) | _ \<Rightarrow> Inl (JSError ''TypeError''))
          else if js_truthy (opt_prop meta ''url'')
          then map_sum id Some (hostname_of E (opt_prop meta ''url''))
          else Inr None)))"

definition server_address :: "env \<Rightarrow> string \<Rightarrow> jsval \<Rightarrow> string result" where
  "server_address E endpoint info =
     (case opt_prop (environment_of info) ''addresses'' of
        JArr (JStr a # _) \<Rightarrow> Inr (before_colon a)
      | JArr (_ # _) \<Rightarrow> Inl (JSError ''TypeError'')
      | _ \<Rightarrow> hostname_of E (JStr endpoint))"

definition getInstanceHostIp :: "env \<Rightarrow> string \<Rightarrow> string \<Rightarrow> db \<Rightarrow> string result \<times> db" where
  "getInstanceHostIp E endpoint node s =
     (case lxd_data E ''GET'' ''/1.0'' JUndef s of
        (Inl e, s1) \<Rightarrow> (Inl e, s1)
      | (Inr info, s1) \<Rightarrow>
     (case js_prop info ''metadata'' of
        Inl e \<Rightarrow> (Inl e, s1)
      | Inr _ \<Rightarrow>
     if js_truthy (opt_prop (environment_of info) ''server_clustered'')
     then (let (answer, s2) = lxd_call E ''GET'' (''/1.0/cluster/members/'' @ encodeURIComponent node) JUndef s1
           in (case member_address E answer of
                 Inl e \<Rightarrow> Inl e
               | Inr (Some a) \<Rightarrow> Inr a
               | Inr None \<Rightarrow> server_address E endpoint info, s2))
     else (server_address E endpoint info, s1)))"

definition getInstanceLocation :: "env \<Rightarrow> string \<Rightarrow> string \<Rightarrow> string \<Rightarrow> db \<Rightarrow> string result \<times> db" where
  "getInstanceLocation E endpoint name project s =
     (case lxd_call E ''GET'' (instance_url (encodeURIComponent name) [] (encodeURIComponent project)) JUndef s of
        (AxiosError _ m, s1) \<Rightarrow> (Inl (JSError m), s1)
      | (Answer st body, s1) \<Rightarrow>
     if st \<noteq> 200
     then (Inl (JSError (''Failed to get instance info: '' @ int_string st @ '' '' @ JSON_stringify E body)), s1)
     else
     (case js_prop body ''metadata'' of
        Inl e \<Rightarrow> (Inl e, s1)
      | Inr meta \<Rightarrow>
     if js_truthy (opt_prop meta ''location'') then (Inr (js_String E (opt_prop meta ''location'')), s1)
     else
     (case lxd_data E ''GET'' ''/1.0'' JUndef s1 of
        (Inl e, s2) \<Rightarrow> (Inl e, s2)
      | (Inr info, s2) \<Rightarrow>
     (case js_prop info ''metadata'' of
        Inl e \<Rightarrow> (Inl e, s2)
      | Inr _ \<Rightarrow>
          if js_truthy (opt_prop (environment_of info) ''server_name'')
          then (Inr (js_String E (opt_prop (environment_of info) ''server_name'')), s2)
          else (hostname_of E (JStr endpoint), s2)))))"

subsection \<open>Consoles\<close>

definition getInstanceConsole :: "env \<Rightarrow> IConfiguration \<Rightarrow> string \<Rightarrow> jsval \<Rightarrow> db \<Rightarrow> jsval \<times> db" where
  "getInstanceConsole E cfg name options s =
     (case lxd_data E ''POST'' (''/1.0/instances/'' @ encodeURIComponent name @ ''/console?project='' @ project_of cfg @
             ''&wait=10'') options s of
        (Inl e, s1) \<Rightarrow> (error_object (error_message e), s1)
      | (Inr body, s1) \<Rightarrow>
     (case js_prop body ''metadata'' of
        Inl e \<Rightarrow> (error_object (error_message e), s1)
      | Inr m \<Rightarrow>
     (case (js_prop m ''id'', js_prop m ''metadata'') of
        (Inr i, Inr mm) \<Rightarrow>
          (case js_prop mm ''fds'' of
             Inl e \<Rightarrow> (error_object (error_message e), s1)
           | Inr fds \<Rightarrow> (JObj [(''operationId'', i), (''operationSecrets'', fds)], s1))
      | _ \<Rightarrow> (error_object ''TypeError'', s1))))"

definition getInstanceConsoleLog :: "env \<Rightarrow> IConfiguration \<Rightarrow> string \<Rightarrow> db \<Rightarrow> jsval \<times> db" where
  "getInstanceConsoleLog E cfg name s =
     (case lxd_call E ''GET'' (instance_url (encodeURIComponent name) ''/console'' (project_of cfg)) JUndef s of
        (Answer st body, s1) \<Rightarrow>
          (if st = 200 then body
           else error_object (''Failed to fetch Logger log data. Status: '' @ int_string st @ '', Data: '' @
             JSON_stringify E body), s1)
      | (AxiosError None m, s1) \<Rightarrow> (error_object (''Axios error without response: '' @ m), s1)
      | (AxiosError (Some (st, body)) m, s1) \<Rightarrow>
          (if st = 404 then JObj [(''error'', JBool False), (''data'', JStr [])]
           else error_object (''Failed to fetch Logger log data. Status: '' @ int_string st @ '', Data: '' @
             JSON_stringify E body), s1))"

subsection \<open>Changing\<close>

text \<open>The limits of an update are strings, with defaults where they are not, or empty.\<close>

definition sanitize_limit :: "jsval \<Rightarrow> string \<Rightarrow> jsval" where
  "sanitize_limit v dflt = (case v of JStr x \<Rightarrow> JStr (if x = [] then dflt else x) | _ \<Rightarrow> JStr dflt)"

definition sanitizeUpdatePayload :: "jobject \<Rightarrow> jobject" where
  "sanitizeUpdatePayload payload =
     (case js_get payload ''config'' of
        JObj c \<Rightarrow> js_set payload ''config'' (JObj (js_set (js_set c
           ''limits.cpu'' (sanitize_limit (js_get c ''limits.cpu'') ''2''))
           ''limits.memory'' (sanitize_limit (js_get c ''limits.memory'') ''16GB'')))
      | _ \<Rightarrow> payload)"

definition lxd_createInstance :: "env \<Rightarrow> jobject \<Rightarrow> string \<Rightarrow> db \<Rightarrow> jsval result \<times> db" where
  "lxd_createInstance E payload project s =
     (case lxd_data E ''POST'' (''/1.0/instances?project='' @ encodeURIComponent project) (JObj payload) s of
        (Inl _, s1) \<Rightarrow>
          (Inl (JSError (''Error creating instance  '' @ js_String E (js_get payload ''name'') @ ''  on LXD'')), s1)
      | (Inr body, s1) \<Rightarrow> (Inr body, s1))"

definition lxd_updateInstance :: "env \<Rightarrow> string \<Rightarrow> jobject \<Rightarrow> string \<Rightarrow> db \<Rightarrow> jsval result \<times> db" where
  "lxd_updateInstance E name payload project s =
     lxd_data E ''PATCH'' (instance_url (encodeURIComponent name) [] project) (JObj (sanitizeUpdatePayload payload)) s"

definition lxd_startStopInstance :: "env \<Rightarrow> string \<Rightarrow> string \<Rightarrow> string \<Rightarrow> db \<Rightarrow> jsval result \<times> db" where
  "lxd_startStopInstance E name action project s =
     lxd_data E ''PUT'' (instance_url name ''/state'' project)
       (JObj [(''action'', JStr action), (''timeout'', js_int 300), (''force'', JBool True)]) s"

text \<open>
  The check for the instance does not throw, so it changes nothing; it encodes the name again. The
  method itself does not throw either: it answers the failure as an object.
\<close>

definition lxd_deleteInstance :: "env \<Rightarrow> string \<Rightarrow> string \<Rightarrow> db \<Rightarrow> jsval \<times> db" where
  "lxd_deleteInstance E name project s =
     (let n = encodeURIComponent name;
          (_, s1) = getInstanceState E n project s
      in case lxd_call E ''DELETE'' (instance_url n [] project) JUndef s1 of
           (Answer st body, s2) \<Rightarrow> (body, s2)
         | (AxiosError r m, s2) \<Rightarrow>
             (JObj [(''error'', JBool True), (''status'', case r of None \<Rightarrow> JUndef | Some (st, _) \<Rightarrow> js_int st),
                (''message'', JStr (''Error deleting instance: '' @ m)),
                (''details'', case r of None \<Rightarrow> JUndef | Some (_, body) \<Rightarrow> body)], s2))"

subsection \<open>The router (\<open>lxdProcedure.ts\<close>)\<close>

text \<open>Every method is open to every user who is logged in, whatever the instance; a guard in front of each.\<close>

definition lxd_guard :: "requester \<Rightarrow> (db \<Rightarrow> 'a result \<times> db) \<Rightarrow> db \<Rightarrow> 'a result \<times> db" where
  "lxd_guard user f s =
     (case user of
        None \<Rightarrow> (Inl (CoreError AUTHENTICATION_ERROR ''User must be authenticated.''), s)
      | Some _ \<Rightarrow> f s)"

definition always :: "(db \<Rightarrow> 'a \<times> db) \<Rightarrow> db \<Rightarrow> 'a result \<times> db" where
  "always f s = (case f s of (r, s1) \<Rightarrow> (Inr r, s1))"

datatype lxd_route =
    Get_Resources
  | Get_Instances
  | Get_InstanceState string string
  | Get_Operations
  | Get_OperationStatus string
  | Get_Console string jsval
  | Get_ConsoleLog string
  | Create_Instance jobject string
  | Update_Instance string jobject string
  | StartStop_Instance string bool string
  | Delete_Instance string string

fun state_object :: "bool \<times> jsval \<Rightarrow> jsval" where
  "state_object (err, d) = JObj ((if err then [(''error'', JBool True)] else []) @ [(''data'', d)])"

fun lxd_route_call :: "env \<Rightarrow> IConfiguration \<Rightarrow> lxd_route \<Rightarrow> db \<Rightarrow> jsval result \<times> db" where
  "lxd_route_call E cfg Get_Resources s = always (getResources E cfg) s"
| "lxd_route_call E cfg Get_Instances s = always (lxd_getInstances E cfg) s"
| "lxd_route_call E cfg (Get_InstanceState c p) s =
     always (\<lambda>s. case getInstanceState E c p s of (r, s1) \<Rightarrow> (state_object r, s1)) s"
| "lxd_route_call E cfg Get_Operations s = always (getOperations E cfg) s"
| "lxd_route_call E cfg (Get_OperationStatus i) s = getOperationStatus E (''/1.0/operations/'' @ i) s"
| "lxd_route_call E cfg (Get_Console c opts) s = always (getInstanceConsole E cfg c opts) s"
| "lxd_route_call E cfg (Get_ConsoleLog c) s = always (getInstanceConsoleLog E cfg c) s"
| "lxd_route_call E cfg (Create_Instance payload p) s = lxd_createInstance E payload p s"
| "lxd_route_call E cfg (Update_Instance n payload p) s = lxd_updateInstance E n payload p s"
| "lxd_route_call E cfg (StartStop_Instance n start p) s =
     lxd_startStopInstance E n (if start then ''start'' else ''stop'') p s"
| "lxd_route_call E cfg (Delete_Instance n p) s = always (lxd_deleteInstance E n p) s"

definition lxd_router :: "env \<Rightarrow> IConfiguration \<Rightarrow> requester \<Rightarrow> lxd_route \<Rightarrow> db \<Rightarrow> jsval result \<times> db" where
  "lxd_router E cfg user route s = lxd_guard user (lxd_route_call E cfg route) s"

end
