(* ===== verification/LxdHandlers.thy ===== *)
theory LxdHandlers
  imports LxdManager
begin

section \<open>The job executor (\<open>itmat-job-executor\<close>)\<close>

text \<open>
  The handlers that run the jobs of the poller (theory \<open>Jobs\<close>): the dispatcher, the handler that calls
  a method by name, the one that changes containers, and the monitor that reads their state. The
  timer of a poll and the pauses between two looks at a container are left out: one look follows the
  other. What is only logged is left out, and so are the counters of the throttled log.
\<close>

definition ok_return :: "IJobActionReturn" where
  "ok_return = \<lparr>successful = True, action_error = []\<rparr>"

definition failed_return :: "string \<Rightarrow> IJobActionReturn" where
  "failed_return m = \<lparr>successful = False, action_error = m\<rparr>"

subsection \<open>Polling an operation (\<open>lxdPollOperation.ts\<close>)\<close>

definition operations_path :: string where
  "operations_path = ''/1.0/operations/''"

text \<open>\<open>match(/\/1\.0\/operations\/([^/]+)/)\<close>: the group of the first match.\<close>

fun match_operation :: "string \<Rightarrow> string option" where
  "match_operation [] = None"
| "match_operation (c # cs) =
     (let i = takeWhile (\<lambda>x. x \<noteq> CHR ''/'') (drop (length operations_path) (c # cs)) in
      if take (length operations_path) (c # cs) = operations_path \<and> i \<noteq> [] then Some i else match_operation cs)"

datatype poll_result = Done | Stop error | Again

text \<open>The \<open>catch\<close> block of a look gives up at every tenth one.\<close>

definition poll_catch :: "nat \<Rightarrow> error \<Rightarrow> poll_result" where
  "poll_catch tryCount e =
     (if tryCount mod 10 = 0
      then Stop (CoreError POLLING_ERROR (''Fatal error polling operation: '' @ error_message e)) else Again)"

definition busy :: string where
  "busy = ''Instance is busy running''"

definition poll_failure :: "nat \<Rightarrow> jsval \<Rightarrow> poll_result" where
  "poll_failure tryCount err =
     (case err of
        JStr x \<Rightarrow> if includes_str busy x then Again
          else Stop (CoreError POLLING_ERROR (''Operation failed for '' @ x))
      | _ \<Rightarrow> poll_catch tryCount (JSError ''TypeError''))"

definition poll_status :: "env \<Rightarrow> nat \<Rightarrow> jsval \<Rightarrow> poll_result" where
  "poll_status E tryCount op =
     (case js_prop op ''metadata'' of
        Inl e \<Rightarrow> poll_catch tryCount e
      | Inr m \<Rightarrow>
     (case js_prop m ''status'' of
        Inl e \<Rightarrow> poll_catch tryCount e
      | Inr st \<Rightarrow>
          if st = JStr ''Success'' then Done
          else if st = JStr ''Failure'' then poll_failure tryCount (opt_prop m ''err'')
          else if st = JStr ''Running'' then Again
          else Stop (CoreError POLLING_ERROR (''Unknown operation status: '' @ js_String E st))))"

definition poll_once :: "env \<Rightarrow> string \<Rightarrow> string \<Rightarrow> nat \<Rightarrow> db \<Rightarrow> poll_result \<times> db" where
  "poll_once E i project tryCount s =
     (case getOperationStatus E (operations_path @ i @ ''?project='' @ project) s of
        (Inl e, s1) \<Rightarrow> (poll_catch tryCount e, s1)
      | (Inr op, s1) \<Rightarrow> (poll_status E tryCount op, s1))"

text \<open>\<open>left\<close> looks remain, \<open>tryCount\<close> is the number of the next one.\<close>

fun poll_loop :: "env \<Rightarrow> string \<Rightarrow> string \<Rightarrow> string \<Rightarrow> nat \<Rightarrow> nat \<Rightarrow> db \<Rightarrow> unit result \<times> db" where
  "poll_loop E url i project 0 tryCount s =
     (Inl (JSError (''Operation polling timed out: '' @ url @ '' -> '' @ i)), s)"
| "poll_loop E url i project (Suc left) tryCount s =
     (case poll_once E i project tryCount s of
        (Done, s1) \<Rightarrow> (Inr (), s1)
      | (Stop e, s1) \<Rightarrow> (Inl e, s1)
      | (Again, s1) \<Rightarrow> poll_loop E url i project left (Suc tryCount) s1)"

definition pollOperation :: "env \<Rightarrow> jsval \<Rightarrow> string \<Rightarrow> nat \<Rightarrow> db \<Rightarrow> unit result \<times> db" where
  "pollOperation E operationUrl project maxTry s =
     (case operationUrl of
        JStr url \<Rightarrow>
          (case match_operation url of
             None \<Rightarrow> (Inl (JSError ''Invalid operation URL''), s)
           | Some i \<Rightarrow> poll_loop E url i project maxTry 1 s)
      | _ \<Rightarrow> (Inl (JSError ''TypeError''), s))"

text \<open>\<open>if (data?.operation) await pollOperation(...)\<close>, with 50 looks.\<close>

definition await_operation :: "env \<Rightarrow> jsval \<Rightarrow> string \<Rightarrow> db \<Rightarrow> unit result \<times> db" where
  "await_operation E d project s =
     (if js_truthy (opt_prop d ''operation'') then pollOperation E (opt_prop d ''operation'') project 50 s
      else (Inr (), s))"

subsection \<open>Changing containers (\<open>lxdJobHandler.ts\<close>)\<close>

definition project_or_default :: "IInstance \<Rightarrow> string" where
  "project_or_default d = (if truthy (instance_project d) then the (instance_project d) else ''default'')"

definition metadata_error :: "string \<Rightarrow> string \<Rightarrow> error" where
  "metadata_error i m = JSError (''Failed to update instance metadata:  '' @ i @ '' '' @ m)"

definition updateInstanceMetadata ::
    "mongo \<Rightarrow> string \<Rightarrow> jobject option \<Rightarrow> enumInstanceStatus \<Rightarrow> db \<Rightarrow> unit result \<times> db" where
  "updateInstanceMetadata M i meta st s =
     (case set_instance M i (\<lambda>d. d\<lparr>instance_status := st, metadata := nullish meta (metadata d)\<rparr>) s of
        (Inl e, s1) \<Rightarrow> (Inl (metadata_error i (error_message e)), s1)
      | (Inr None, s1) \<Rightarrow> (Inl (metadata_error i (''Failed to update instance metadata: '' @ i)), s1)
      | (Inr (Some _), s1) \<Rightarrow> (Inr (), s1))"

definition object_of :: "jsval \<Rightarrow> jobject" where
  "object_of v = (case v of JObj m \<Rightarrow> m | _ \<Rightarrow> [])"

text \<open>A container is ready when no operation runs on it and its state is \<open>Stopped\<close>.\<close>

definition container_ready :: "jsval \<Rightarrow> jsval \<Rightarrow> bool result" where
  "container_ready info state =
     (case js_prop info ''metadata'' of
        Inl e \<Rightarrow> Inl e
      | Inr m \<Rightarrow>
          if js_truthy (opt_prop m ''running_operation'') then Inr False
          else map_sum id (\<lambda>st. st = JStr ''Stopped'') (js_prop state ''status''))"

fun wait_for_container ::
    "env \<Rightarrow> mongo \<Rightarrow> IInstance \<Rightarrow> string \<Rightarrow> jsval \<Rightarrow> nat \<Rightarrow> db \<Rightarrow> unit result \<times> db" where
  "wait_for_container E M d project info 0 s =
     (Inl (JSError ''Instance creation timeout - still busy after 5 minutes''), s)"
| "wait_for_container E M d project created (Suc left) s =
     (case getInstanceInfo E (instance_name d) project s of
        (Inl e, s1) \<Rightarrow> (Inl e, s1)
      | (Inr info, s1) \<Rightarrow>
     (case getInstanceState E (instance_name d) project s1 of
        ((_, state), s2) \<Rightarrow>
          (case container_ready info state of
             Inl e \<Rightarrow> (Inl e, s2)
           | Inr True \<Rightarrow> updateInstanceMetadata M (doc_id d) (Some (object_of created)) STOPPED s2
           | Inr False \<Rightarrow> wait_for_container E M d project created left s2)))"

definition exists_already :: "string \<Rightarrow> bool" where
  "exists_already m \<longleftrightarrow> includes_str ''Instance'' m \<and> includes_str ''already exists'' m"

definition storage_error :: "string \<Rightarrow> bool" where
  "storage_error m \<longleftrightarrow> includes_str ''read-only file system'' m \<or> includes_str ''Failed creating instance'' m \<or>
     includes_str ''Failed to create mount directory'' m"

definition failure_type :: "string \<Rightarrow> string" where
  "failure_type m =
     (if includes_str ''out of space'' m \<or> includes_str ''no space left'' m then ''storage_space_error''
      else if includes_str ''network'' m \<or> includes_str ''connection'' m then ''network_error''
      else if includes_str ''timeout'' m then ''timeout_error''
      else ''creation_failure'')"

text \<open>
  The inner \<open>catch\<close>: on the left what it throws, which the outer one catches. (The time stamp is a
  date, kept here as its number.)
\<close>

definition creation_failed ::
    "env \<Rightarrow> mongo \<Rightarrow> string \<Rightarrow> jsval \<Rightarrow> error \<Rightarrow> db \<Rightarrow> IJobActionReturn result \<times> db" where
  "creation_failed E M i created e s =
     (case e of
        CoreError POLLING_ERROR m \<Rightarrow>
          if exists_already m then
            (case updateInstanceMetadata M i (Some []) STOPPED s of
               (Inl e', s1) \<Rightarrow> (Inl e', s1) | (Inr _, s1) \<Rightarrow> (Inr ok_return, s1))
          else if storage_error m then
            (case updateInstanceMetadata M i (Some [(''error'', JStr m)]) FAILED_INSTANCE s of
               (Inl e', s1) \<Rightarrow> (Inl e', s1)
             | (Inr _, s1) \<Rightarrow> (Inr (failed_return (''Fatal storage error: '' @ m)), s1))
          else (Inr (failed_return m), s)
      | _ \<Rightarrow>
          (let (now, s1) = Date_now E s;
               details = JObj [(''message'', JStr (error_message e)), (''timestamp'', js_int now),
                 (''type'', JStr (failure_type (error_message e)))]
           in case updateInstanceMetadata M i (Some (js_set (object_of created) ''error'' details)) FAILED_INSTANCE s1 of
                (Inl e', s2) \<Rightarrow> (Inl e', s2)
              | (Inr _, s2) \<Rightarrow> (Inl e, s2)))"

definition create_container ::
    "env \<Rightarrow> mongo \<Rightarrow> IInstance \<Rightarrow> jobject \<Rightarrow> db \<Rightarrow> IJobActionReturn result \<times> db" where
  "create_container E M d payload s =
     (let project = project_or_default d in
      case lxd_createInstance E payload project s of
        (Inl e, s1) \<Rightarrow> (Inl e, s1)
      | (Inr created, s1) \<Rightarrow>
     if \<not> js_truthy (opt_prop created ''operation'') then (Inr ok_return, s1)
     else
     (case pollOperation E (opt_prop created ''operation'') project 50 s1 of
        (Inl e, s2) \<Rightarrow> creation_failed E M (doc_id d) created e s2
      | (Inr _, s2) \<Rightarrow>
     (case wait_for_container E M d project created 30 s2 of
        (Inl e, s3) \<Rightarrow> creation_failed E M (doc_id d) created e s3
      | (Inr _, s3) \<Rightarrow> (Inr ok_return, s3))))"

text \<open>The outer \<open>catch\<close> writes the status again, and no metadata.\<close>

definition create_job :: "env \<Rightarrow> mongo \<Rightarrow> string \<Rightarrow> jobject \<Rightarrow> db \<Rightarrow> IJobActionReturn result \<times> db" where
  "create_job E M i payload s =
     (case find_instance M i s of
        None \<Rightarrow> (Inl (JSError ''Instance not found.''), s)
      | Some d \<Rightarrow>
     if instance_status d \<noteq> PENDING_INSTANCE then (Inl (JSError ''Instance status is not PENDING.''), s)
     else
     (case create_container E M d payload s of
        (Inr r, s1) \<Rightarrow> (Inr r, s1)
      | (Inl e, s1) \<Rightarrow>
     (case updateInstanceMetadata M i (Some []) FAILED_INSTANCE s1 of
        (Inl e', s2) \<Rightarrow> (Inl e', s2)
      | (Inr _, s2) \<Rightarrow> (Inr (failed_return (error_message e)), s2))))"

definition update_job :: "env \<Rightarrow> mongo \<Rightarrow> string \<Rightarrow> jobject \<Rightarrow> db \<Rightarrow> IJobActionReturn \<times> db" where
  "update_job E M i upd s =
     (case find_instance M i s of
        None \<Rightarrow> (failed_return ''LXD update: Instance not found'', s)
      | Some d \<Rightarrow>
     (case lxd_updateInstance E (instance_name d) upd (project_or_default d) s of
        (Inl e, s1) \<Rightarrow> (failed_return (error_message e), s1)
      | (Inr _, s1) \<Rightarrow> (ok_return, s1)))"

text \<open>An instance that is where it should be counts as a success.\<close>

definition already_there :: "bool \<Rightarrow> error \<Rightarrow> bool" where
  "already_there start e \<longleftrightarrow> includes_str (if start then ''already running'' else ''already stopped'') (error_message e)"

definition start_stop_job :: "env \<Rightarrow> mongo \<Rightarrow> string \<Rightarrow> bool \<Rightarrow> db \<Rightarrow> IJobActionReturn \<times> db" where
  "start_stop_job E M i start s =
     (case find_instance M i s of
        None \<Rightarrow> (failed_return ''Instance not found.'', s)
      | Some d \<Rightarrow>
     (let project = project_or_default d;
          (r, s2) = (case lxd_startStopInstance E (instance_name d) (if start then ''start'' else ''stop'') project s of
             (Inl e, s1) \<Rightarrow> (Inl e, s1)
           | (Inr body, s1) \<Rightarrow> await_operation E body project s1)
      in case r of
           Inr _ \<Rightarrow> (ok_return, s2)
         | Inl e \<Rightarrow> (if already_there start e then ok_return else failed_return (error_message e), s2)))"

definition delete_job :: "env \<Rightarrow> mongo \<Rightarrow> string \<Rightarrow> db \<Rightarrow> IJobActionReturn \<times> db" where
  "delete_job E M i s =
     (case find_instance M i s of
        None \<Rightarrow> (failed_return ''Instance not found.'', s)
      | Some d \<Rightarrow>
     if instance_status d \<noteq> DELETED then (failed_return ''Instance status is not DELETED.'', s)
     else
     (let project = project_or_default d;
          (answer, s1) = lxd_deleteInstance E (instance_name d) project s
      in case await_operation E answer project s1 of
           (Inl e, s2) \<Rightarrow> (failed_return (error_message e), s2)
         | (Inr _, s2) \<Rightarrow>
             (ok_return, s2\<lparr>instance_collection := deleteOne (instance_dr M) (instance_collection s2) (\<lambda>d. doc_id d = i)\<rparr>)))"

text \<open>Ids are strings; the driver finds nothing for another value, as it finds nothing for an empty id.\<close>

definition lxd_execute :: "env \<Rightarrow> mongo \<Rightarrow> IJob \<Rightarrow> db \<Rightarrow> IJobActionReturn result \<times> db" where
  "lxd_execute E M job s =
     (let oper = js_get (metadata job) ''operation''; target = js_get (metadata job) ''instanceId''
      in if \<not> js_truthy oper \<or> \<not> js_truthy target
         then (Inl (JSError ''Missing required metadata: operation or instanceId.''), s)
         else
        (let i = (case target of JStr x \<Rightarrow> x | _ \<Rightarrow> []);
             plain = (\<lambda>(r, s1). (Inr r, s1))
         in if oper = JStr (ope_string OPE_CREATE) then create_job E M i (object_of (js_get (metadata job) ''payload'')) s
            else if oper = JStr (ope_string OPE_UPDATE)
            then plain (update_job E M i (object_of (js_get (metadata job) ''updates'')) s)
            else if oper = JStr (ope_string OPE_START) then plain (start_stop_job E M i True s)
            else if oper = JStr (ope_string OPE_STOP) then plain (start_stop_job E M i False s)
            else if oper = JStr (ope_string OPE_DELETE) then plain (delete_job E M i s)
            else (Inl (JSError ''Unsupported operation.''), s)))"

subsection \<open>Watching containers (\<open>lxdMonitorHandler.ts\<close>)\<close>

text \<open>The part of a state that the model keeps; a number that is missing counts as 0.\<close>

definition int_at :: "jsval \<Rightarrow> string \<Rightarrow> int" where
  "int_at v k = (case opt_prop v k of JNum (Fin x) \<Rightarrow> \<lfloor>x\<rfloor> | _ \<Rightarrow> 0)"

definition address_of :: "env \<Rightarrow> jsval \<Rightarrow> LxdInstanceNetworkAddress" where
  "address_of E v = \<lparr>address = js_String E (opt_prop v ''address''), family = js_String E (opt_prop v ''family'')\<rparr>"

definition network_of :: "env \<Rightarrow> jsval \<Rightarrow> (string \<times> LxdInstanceNetworkAddress list) list option" where
  "network_of E v =
     (case v of
        JObj m \<Rightarrow> Some (map (\<lambda>(k, n).
          (k, case opt_prop n ''addresses'' of JArr as \<Rightarrow> map (address_of E) as | _ \<Rightarrow> [])) m)
      | _ \<Rightarrow> None)"

definition state_of :: "env \<Rightarrow> jsval \<Rightarrow> string \<Rightarrow> LXDInstanceState" where
  "state_of E v host = \<lparr>cpu_usage = int_at (opt_prop v ''cpu'') ''usage'',
     memory_usage = int_at (opt_prop v ''memory'') ''usage'', network = network_of E (opt_prop v ''network''),
     hostIp = Some host\<rparr>"

definition determineInstanceStatus :: "jsval \<Rightarrow> enumInstanceStatus" where
  "determineInstanceStatus st =
     (if st = JStr ''Running'' then RUNNING else if st = JStr ''Stopped'' then STOPPED else FAILED_INSTANCE)"

text \<open>
  One instance: what throws is only logged. A state that is an object is stored; writing \<open>hostIp\<close> into a text
  (an error message of \<open>getInstanceState\<close>) is a \<open>TypeError\<close>.
\<close>

definition watch_instance :: "env \<Rightarrow> mongo \<Rightarrow> string \<Rightarrow> IInstance \<Rightarrow> db \<Rightarrow> db" where
  "watch_instance E M endpoint d s =
     (case getInstanceLocation E endpoint (instance_name d) (project_or_default d) s of
        (Inl _, s1) \<Rightarrow> s1
      | (Inr location, s1) \<Rightarrow>
     (case getInstanceHostIp E endpoint location s1 of
        (Inl _, s2) \<Rightarrow> s2
      | (Inr host, s2) \<Rightarrow>
     (case getInstanceState E (instance_name d) (project_or_default d) s2 of
        ((_, JObj m), s3) \<Rightarrow>
          snd (set_instance M (doc_id d) (\<lambda>x. x\<lparr>lxdState := Some (state_of E (JObj m) host),
             instance_status := determineInstanceStatus (js_get m ''status'')\<rparr>) s3)
      | (_, s3) \<Rightarrow> s3)))"

definition updateInstanceState ::
    "env \<Rightarrow> mongo \<Rightarrow> string \<Rightarrow> string \<Rightarrow> db \<Rightarrow> IJobActionReturn \<times> db" where
  "updateInstanceState E M endpoint userId s =
     (ok_return, fold (watch_instance E M endpoint)
        (find_many (instance_dr M) (instance_collection s) (\<lambda>d. instance_userId d = userId \<and> instance_status d \<noteq> DELETED)) s)"

text \<open>
  The synchronisation asks for the state of each container. The request for a state does not throw, so
  the \<open>catch\<close> block that would find a container missing is never entered, and every container exists.
\<close>

definition container_exists :: "bool \<times> jsval \<Rightarrow> bool" where
  "container_exists answer = True"

definition sync_instance :: "env \<Rightarrow> mongo \<Rightarrow> IInstance \<Rightarrow> db \<Rightarrow> db" where
  "sync_instance E M d s =
     (let (answer, s1) = getInstanceState E (instance_name d) (project_or_default d) s in
      if instance_status d = DELETED \<and> container_exists answer
      then snd (lxd_deleteInstance E (instance_name d) (project_or_default d) s1)
      else if \<not> container_exists answer \<and> instance_status d \<noteq> DELETED
      then snd (set_instance M (doc_id d) (\<lambda>x. x\<lparr>instance_status := DELETED\<rparr>) s1)
      else s1)"

definition synchronizeDeletedInstances :: "env \<Rightarrow> mongo \<Rightarrow> string \<Rightarrow> db \<Rightarrow> IJobActionReturn \<times> db" where
  "synchronizeDeletedInstances E M userId s =
     (ok_return, fold (sync_instance E M)
        (find_many (instance_dr M) (instance_collection s) (\<lambda>d. instance_userId d = userId)) s)"

definition monitor_execute :: "env \<Rightarrow> mongo \<Rightarrow> string \<Rightarrow> IJob \<Rightarrow> db \<Rightarrow> IJobActionReturn result \<times> db" where
  "monitor_execute E M endpoint job s =
     (let oper = js_get (metadata job) ''operation''; user = js_get (metadata job) ''userId''
      in if \<not> js_truthy oper \<or> \<not> js_truthy user
         then (Inr (failed_return ''Missing required metadata: operation or userId.''), s)
         else
        (let u = (case user of JStr x \<Rightarrow> x | _ \<Rightarrow> [])
         in if oper = JStr (monitor_string STATE)
            then (case updateInstanceState E M endpoint u s of (r, s1) \<Rightarrow> (Inr r, s1))
            else if oper = JStr (monitor_string SYNC_DELETION)
            then (case synchronizeDeletedInstances E M u s of (r, s1) \<Rightarrow> (Inr r, s1))
            else (Inr (failed_return ''Unsupported operation.''), s)))"

subsection \<open>Calling a method by name (\<open>apiJobHandler.ts\<close>)\<close>

text \<open>
  \<open>lookup c m\<close> is the method \<open>m\<close> of the property \<open>c\<close> of the handler, taken off its object: it is called
  without \<open>this\<close>.
\<close>

definition job_arguments :: "jsval \<Rightarrow> jsval list" where
  "job_arguments v = (case v of JArr xs \<Rightarrow> xs | JObj m \<Rightarrow> [JObj m] | _ \<Rightarrow> [])"

definition api_execute ::
    "(string \<Rightarrow> string \<Rightarrow> (jsval list \<Rightarrow> db \<Rightarrow> unit result \<times> db) option) \<Rightarrow> IJob \<Rightarrow> db
     \<Rightarrow> IJobActionReturn result \<times> db" where
  "api_execute lookup job s =
     (case executor job of
        None \<Rightarrow> (Inr (failed_return ''No path found.''), s)
      | Some x \<Rightarrow>
     (let parts = split_on CHR ''.'' (executor_path x);
          c = hd parts;
          m = (if length parts < 2 then ''undefined'' else parts ! 1)
      in case lookup c m of
           None \<Rightarrow> (Inr (failed_return (''Method '' @ m @ '' not found on class '' @ c)), s)
         | Some f \<Rightarrow>
             (case f (job_arguments (job_parameters job)) s of
                (Inl e, s1) \<Rightarrow> (Inr (failed_return (error_message e)), s1)
              | (Inr _, s1) \<Rightarrow> (Inr ok_return, s1))))"

subsection \<open>The dispatcher (\<open>dispatcher.ts\<close>)\<close>

type_synonym job_handler = "IJob \<Rightarrow> db \<Rightarrow> IJobActionReturn result \<times> db"

fun job_type_string :: "enumJobType \<Rightarrow> string" where
  "job_type_string DMPAPI = ''DMPAPI''"
| "job_type_string AE = ''AE''"
| "job_type_string SYSTEMPROCESS = ''SYSTEMPROCESS''"
| "job_type_string LXD = ''LXD''"
| "job_type_string LXD_MONITOR = ''LXD_MONITOR''"

definition registerJobType ::
    "enumJobType \<Rightarrow> job_handler \<Rightarrow> (enumJobType \<rightharpoonup> job_handler) \<Rightarrow> (enumJobType \<rightharpoonup> job_handler)" where
  "registerJobType t h hs = hs(t \<mapsto> h)"

definition removeHandler :: "enumJobType \<Rightarrow> (enumJobType \<rightharpoonup> job_handler) \<Rightarrow> (enumJobType \<rightharpoonup> job_handler)" where
  "removeHandler t hs = hs(t := None)"

text \<open>The handler is made when its type first occurs, and kept; what it throws is the error it returns.\<close>

definition dispatch :: "(enumJobType \<rightharpoonup> job_handler) \<Rightarrow> IJob \<Rightarrow> db \<Rightarrow> action_outcome \<times> db" where
  "dispatch hs job s =
     (case hs (job_type job) of
        None \<Rightarrow> (Throws (''No JobHandler for job '' @ job_type_string (job_type job)), s)
      | Some h \<Rightarrow>
          (case h job s of
             (Inr r, s1) \<Rightarrow> (Returns (Some r), s1)
           | (Inl e, s1) \<Rightarrow> (Returns (Some (failed_return (error_message e))), s1)))"

text \<open>The executor registers three handlers, and its poller calls the dispatcher.\<close>

definition executor_handlers ::
    "env \<Rightarrow> mongo \<Rightarrow> string \<Rightarrow> (string \<Rightarrow> string \<Rightarrow> (jsval list \<Rightarrow> db \<Rightarrow> unit result \<times> db) option)
     \<Rightarrow> (enumJobType \<rightharpoonup> job_handler)" where
  "executor_handlers E M endpoint lookup =
     registerJobType LXD_MONITOR (monitor_execute E M endpoint)
       (registerJobType LXD (lxd_execute E M)
         (registerJobType DMPAPI (api_execute lookup) Map.empty))"

definition executor_tick ::
    "env \<Rightarrow> mongo \<Rightarrow> string \<Rightarrow> (string \<Rightarrow> string \<Rightarrow> (jsval list \<Rightarrow> db \<Rightarrow> unit result \<times> db) option) \<Rightarrow> db
     \<Rightarrow> unit result \<times> db" where
  "executor_tick E M endpoint lookup s =
     checkForJobs E M (jobSchedulerConfig default_systemConfig) (dispatch (executor_handlers E M endpoint lookup)) s"

end
