(* ===== verification/LxdProps.thy ===== *)
theory LxdProps
  imports LxdHandlers InstanceProps
begin

section \<open>What the executor does to instances\<close>

text \<open>
  How often a poll asks the server, what the handlers leave of the collection of instances, and the
  cases in which a job reports a success that the server did not grant.
\<close>

subsection \<open>Requests\<close>

text \<open>A step on the state that sends at most so many requests and leaves everything else alone.\<close>

definition only_requests :: "nat \<Rightarrow> db \<Rightarrow> db \<Rightarrow> bool" where
  "only_requests n s s' \<longleftrightarrow> (\<exists>rs. length rs \<le> n \<and> s' = s\<lparr>lxd_requests := lxd_requests s @ rs\<rparr>)"

lemma only_requests_refl [simp]: "only_requests n s s"
  unfolding only_requests_def by (rule exI[of _ "[]"]) simp

lemma only_requests_trans: "only_requests n s t \<Longrightarrow> only_requests k t u \<Longrightarrow> only_requests (n + k) s u"
  unfolding only_requests_def
proof (elim exE conjE)
  fix rs rt assume "length rs \<le> n" "t = s\<lparr>lxd_requests := lxd_requests s @ rs\<rparr>" "length rt \<le> k"
    "u = t\<lparr>lxd_requests := lxd_requests t @ rt\<rparr>"
  then show "\<exists>rs. length rs \<le> n + k \<and> u = s\<lparr>lxd_requests := lxd_requests s @ rs\<rparr>"
    by (intro exI[of _ "rs @ rt"]) simp
qed

lemma only_requests_mono: "only_requests n s t \<Longrightarrow> n \<le> k \<Longrightarrow> only_requests k s t"
  unfolding only_requests_def by (elim exE conjE) (rule exI, rule conjI, rule le_trans)

lemma only_requests_frame:
  "only_requests n s t \<Longrightarrow> instance_collection t = instance_collection s \<and> jobs_collection t = jobs_collection s \<and> tick t = tick s"
  by (auto simp: only_requests_def)

lemma lxd_call_requests: "only_requests 1 s (snd (lxd_call E v u b s))"
  unfolding only_requests_def lxd_call_def by (simp add: Let_def) (rule exI[of _ "[(v, u, b)]"], simp)

lemma lxd_data_requests: "only_requests 1 s (snd (lxd_data E v u b s))"
  using lxd_call_requests[of s E v u b] by (auto simp: lxd_data_def split: prod.splits axios_answer.splits)

lemma getInstanceState_requests: "only_requests 1 s (snd (getInstanceState E n p s))"
  using lxd_call_requests[of s E "''GET''" "instance_url (encodeURIComponent n) ''/state'' p" JUndef]
  by (auto simp: getInstanceState_def split: prod.splits axios_answer.splits sum.splits)

lemma poll_once_requests: "only_requests 1 s (snd (poll_once E i p k s))"
  using lxd_data_requests[of s E "''GET''" "operations_path @ i @ ''?project='' @ p" JUndef]
  by (auto simp: poll_once_def getOperationStatus_def split: prod.splits sum.splits)

lemma poll_loop_requests: "only_requests left s (snd (poll_loop E url i p left k s))"
proof (induction left arbitrary: k s)
  case (Suc left)
  obtain r s1 where r: "poll_once E i p k s = (r, s1)" by fastforce
  with poll_once_requests[of s E i p k] have 1: "only_requests 1 s s1" by simp
  show ?case
  proof (cases r)
    case Again
    with r only_requests_trans[OF 1 Suc.IH[of s1 "Suc k"]] show ?thesis by simp
  qed (use r only_requests_mono[OF 1] in simp_all)
qed simp

lemma pollOperation_requests: "only_requests n s (snd (pollOperation E u p n s))"
  by (cases u) (auto simp: pollOperation_def poll_loop_requests split: option.splits)

lemma await_operation_requests: "only_requests 50 s (snd (await_operation E d p s))"
  using pollOperation_requests by (simp add: await_operation_def)

lemma lxd_deleteInstance_requests: "only_requests 2 s (snd (lxd_deleteInstance E n p s))"
proof -
  let ?n = "encodeURIComponent n"
  obtain a s1 where 1: "getInstanceState E ?n p s = (a, s1)" by fastforce
  obtain b s2 where 2: "lxd_call E ''DELETE'' (instance_url ?n [] p) JUndef s1 = (b, s2)" by fastforce
  have "only_requests (1 + 1) s s2"
    using only_requests_trans[of 1 s s1 1 s2] getInstanceState_requests[of s E ?n p]
      lxd_call_requests[of s1 E "''DELETE''" "instance_url ?n [] p" JUndef] 1 2 by simp
  then have "only_requests 2 s s2" by (simp add: numeral_2_eq_2)
  with 1 2 show ?thesis by (auto simp: lxd_deleteInstance_def Let_def split: axios_answer.splits)
qed

subsection \<open>Synchronisation\<close>

lemma sync_instance_requests: "only_requests 3 s (sync_instance E M d s)"
proof -
  obtain a s1 where 1: "getInstanceState E (instance_name d) (project_or_default d) s = (a, s1)" by fastforce
  with getInstanceState_requests[of s E "instance_name d" "project_or_default d"] have o: "only_requests 1 s s1" by simp
  have "only_requests (1 + 2) s (snd (lxd_deleteInstance E (instance_name d) (project_or_default d) s1))"
    by (rule only_requests_trans[OF o lxd_deleteInstance_requests])
  then show ?thesis
    using 1 only_requests_mono[OF o, of 3] by (simp add: sync_instance_def container_exists_def numeral_3_eq_3)
qed

text \<open>
  The synchronisation never marks an instance whose container is gone: it changes no document. It only
  asks the server to delete, once more, the containers of deleted instances.
\<close>

lemma synchronizeDeletedInstances_frame:
  "instance_collection (snd (synchronizeDeletedInstances E M u s)) = instance_collection s"
proof -
  have "instance_collection (fold (sync_instance E M) ds s) = instance_collection s" for ds
    using only_requests_frame[OF sync_instance_requests] by (induction ds arbitrary: s) simp_all
  then show ?thesis by (simp add: synchronizeDeletedInstances_def)
qed

subsection \<open>Creation\<close>

text \<open>
  A creation that the server answers without an operation (a status below 500 with an error in its body) counts
  as a success, and the instance stays pending.
\<close>

lemma rejected_creation_succeeds:
  assumes "find_instance M i s = Some d" and "instance_status d = PENDING_INSTANCE"
    and "lxd_createInstance E payload (project_or_default d) s = (Inr body, s')"
    and "\<not> js_truthy (opt_prop body ''operation'')"
  shows "create_job E M i payload s = (Inr ok_return, s')"
  using assms by (simp add: create_job_def create_container_def)

subsection \<open>Deletion\<close>

definition refuses_deletion :: "env \<Rightarrow> bool" where
  "refuses_deletion E \<longleftrightarrow> (\<forall>rs url. case lxd_server E (rs @ [(''DELETE'', url, JUndef)]) of
     AxiosError _ _ \<Rightarrow> True | Answer _ _ \<Rightarrow> False)"

lemma refused_deletion:
  assumes "refuses_deletion E"
  shows "\<exists>m s'. lxd_deleteInstance E n p s = (JObj m, s') \<and> opt_prop (JObj m) ''operation'' = JUndef \<and>
    only_requests 2 s s'"
proof -
  let ?n = "encodeURIComponent n"
  obtain a s1 where 1: "getInstanceState E ?n p s = (a, s1)" by fastforce
  let ?rs = "lxd_requests s1 @ [(''DELETE'', instance_url ?n [] p, JUndef)]"
  from assms obtain r m where "lxd_server E ?rs = AxiosError r m"
    unfolding refuses_deletion_def by (auto split: axios_answer.splits) (metis axios_answer.exhaust)
  then have "lxd_call E ''DELETE'' (instance_url ?n [] p) JUndef s1 = (AxiosError r m, s1\<lparr>lxd_requests := ?rs\<rparr>)"
    by (simp add: lxd_call_def)
  with 1 lxd_deleteInstance_requests[of s E n p] show ?thesis
    by (simp add: lxd_deleteInstance_def js_get_def)
qed

context mongo_db
begin

lemma delete_job_forgets:
  assumes r: "refuses_deletion E" and ix: "indexed (instance_dr M) (instance_collection s)"
    and d: "d \<in> set (instance_collection s)" "doc_id d = i" "instance_status d = DELETED"
  shows "\<exists>s'. delete_job E M i s = (ok_return, s') \<and> jobs_collection s' = jobs_collection s \<and> tick s' = tick s \<and>
    set (instance_collection s') = {x \<in> set (instance_collection s). doc_id x \<noteq> i}"
proof -
  have f: "find_instance M i s = Some d"
    unfolding find_instance_def by (rule instance_store.findOne_key[OF ix d(1)]) (simp_all add: d(2))
  obtain m s1 where del: "lxd_deleteInstance E (instance_name d) (project_or_default d) s = (JObj m, s1)"
      "opt_prop (JObj m) ''operation'' = JUndef" "only_requests 2 s s1"
    using refused_deletion[OF r] by blast
  note fr = only_requests_frame[OF del(3)]
  have "await_operation E (JObj m) (project_or_default d) s1 = (Inr (), s1)"
    using del(2) by (simp add: await_operation_def)
  with f del(1) d(3) have "delete_job E M i s = (ok_return, s1\<lparr>instance_collection :=
      deleteOne (instance_dr M) (instance_collection s1) (\<lambda>d. doc_id d = i)\<rparr>)"
    by (simp add: delete_job_def)
  moreover have "set (deleteOne (instance_dr M) (instance_collection s1) (\<lambda>d. doc_id d = i)) =
      {x \<in> set (instance_collection s). doc_id x \<noteq> i}"
    using instance_store.deleteOne_key[OF ix] fr by simp
  ultimately show ?thesis using fr by simp
qed

end

lemma lxd_execute_delete:
  assumes "metadata job = operation_metadata OPE_DELETE i u" and "i \<noteq> []"
  shows "lxd_execute E M job s = (case delete_job E M i s of (r, s1) \<Rightarrow> (Inr r, s1))"
  using assms by (simp add: lxd_execute_def operation_metadata_def js_get_def split: prod.splits)

text \<open>
  C40. A deletion that the server refuses is reported as done. The job that deletes an instance has its
  container deleted through a method that does not throw; when the server fails or cannot be reached, the
  dispatcher returns a success nevertheless, and the document of the instance is removed, so that no
  instance of the portal stands for the container any more (a listing of the server still shows it). A run
  of this job by the poller, as the one-off job it was created as, ends with the status \<open>FINISHED\<close>, and
  whatever is done to the jobs then, no scheduler picks it again, unless \<open>editJob\<close> gives it a new time.
\<close>

theorem refused_deletion_forgotten:
  assumes "mongo_ok M" and "refuses_deletion E"
    and "indexed (instance_dr M) (instance_collection s)" and "indexed (jobs_dr M) (jobs_collection s)"
    and "d \<in> set (instance_collection s)" and "instance_status d = DELETED" and "doc_id d \<noteq> []"
    and "job \<in> set (jobs_collection s)" and "period job = None"
    and "job_type job = LXD" and "metadata job = operation_metadata OPE_DELETE (doc_id d) u"
  shows "\<exists>s1 s'. dispatch (executor_handlers E M endpoint lookup) job s = (Returns (Some ok_return), s1) \<and>
    run_job E M cfg (dispatch (executor_handlers E M endpoint lookup)) job s = (Inr (), s') \<and>
    set (instance_collection s') = {x \<in> set (instance_collection s). doc_id x \<noteq> doc_id d} \<and>
    (\<forall>j \<in> set (jobs_collection s'). doc_id j = doc_id job \<longrightarrow> job_status j = FINISHED) \<and>
    (\<forall>s2 E' cfg' j s3. (jobs_step M (doc_id job))\<^sup>*\<^sup>* s' s2 \<longrightarrow>
       findNextJob E' M cfg' s2 = (Inr (Some j), s3) \<longrightarrow> doc_id j \<noteq> doc_id job)"
proof -
  note db = mongo_db.intro[OF assms(1)]
  let ?act = "dispatch (executor_handlers E M endpoint lookup)"
  obtain s1 where s1: "delete_job E M (doc_id d) s = (ok_return, s1)" "jobs_collection s1 = jobs_collection s"
      "set (instance_collection s1) = {x \<in> set (instance_collection s). doc_id x \<noteq> doc_id d}"
    using mongo_db.delete_job_forgets[OF db assms(2,3,5) refl assms(6)] by blast
  have "executor_handlers E M endpoint lookup (job_type job) = Some (lxd_execute E M)"
    by (simp add: executor_handlers_def registerJobType_def assms(10))
  with s1(1) lxd_execute_delete[OF assms(11,7)] have act: "?act job s = (Returns (Some ok_return), s1)"
    by (simp add: dispatch_def)
  from mongo_db.reported_run[where action = ?act and E = E and cfg = cfg, OF db assms(4,8,9) act s1(2)] obtain s' t c where s':
    "run_job E M cfg ?act job s = (Inr (), s')" "s' = s1\<lparr>tick := t, jobs_collection := c\<rparr>"
    "resting M (doc_id job) s'" "\<forall>j \<in> set (jobs_collection s'). doc_id j = doc_id job \<longrightarrow> job_status j = FINISHED"
    by (auto simp: ok_return_def)
  have "instance_collection s' = instance_collection s1" using s'(2) by simp
  with act s' s1(3) mongo_db.never_picked[OF db s'(3)] show ?thesis by (intro exI[of _ s1] exI[of _ s']) auto
qed

definition down :: env where
  "down = env0\<lparr>lxd_server := (\<lambda>rs. AxiosError None ''connect ECONNREFUSED'')\<rparr>"

definition delete_job0 :: IJob where
  "delete_job0 = (job0 ''del'' ''a'')\<lparr>metadata := operation_metadata OPE_DELETE ''a'' ''ann''\<rparr>"

definition gone0 :: db where
  "gone0 = full0\<lparr>instance_collection := [(instance0 ''a'' 30000)\<lparr>instance_status := DELETED\<rparr>, instance0 ''b'' 40000],
     jobs_collection := [delete_job0]\<rparr>"

theorem refused_deletion_forgotten_witness:
  "\<exists>s'. run_job down list_mongo (jobSchedulerConfig default_systemConfig)
       (dispatch (executor_handlers down list_mongo ''https://lxd'' (\<lambda>_ _. None))) delete_job0 gone0 = (Inr (), s') \<and>
     set (instance_collection s') = {instance0 ''b'' 40000}"
proof -
  let ?d = "(instance0 ''a'' 30000)\<lparr>instance_status := DELETED\<rparr>"
  have r: "refuses_deletion down" by (simp add: refuses_deletion_def down_def)
  have ix: "indexed (instance_dr list_mongo) (instance_collection gone0)"
    "indexed (jobs_dr list_mongo) (jobs_collection gone0)"
    by (simp_all add: indexed_def gone0_def instance_eval)
  have d: "?d \<in> set (instance_collection gone0)" "instance_status ?d = DELETED" "doc_id ?d \<noteq> []"
    by (simp_all add: gone0_def instance0_def)
  have j: "delete_job0 \<in> set (jobs_collection gone0)" "period delete_job0 = None" "job_type delete_job0 = LXD"
    "metadata delete_job0 = operation_metadata OPE_DELETE (doc_id ?d) ''ann''"
    by (simp_all add: gone0_def delete_job0_def job0_def instance0_def)
  from refused_deletion_forgotten[OF list_mongo_ok r ix d j] obtain s' where
    "run_job down list_mongo (jobSchedulerConfig default_systemConfig)
       (dispatch (executor_handlers down list_mongo ''https://lxd'' (\<lambda>_ _. None))) delete_job0 gone0 = (Inr (), s')"
    "set (instance_collection s') = {x \<in> set (instance_collection gone0). doc_id x \<noteq> doc_id ?d}" by blast
  moreover have "{x \<in> set (instance_collection gone0). doc_id x \<noteq> doc_id ?d} = {instance0 ''b'' 40000}"
    by (auto simp: gone0_def instance0_def)
  ultimately show ?thesis by simp
qed

end
