(* ===== verification/Relay.thy ===== *)
theory Relay
  imports Prelude
begin

section \<open>The relays between browser and container (\<open>lxd/index.ts\<close>)\<close>

text \<open>
  A web socket of a browser is joined to one of a container. Three servers do so: the one for
  consoles (\<open>registerContainSocketServer\<close>), for Jupyter (\<open>registerJupyterSocketServer\<close>) and for VNC
  (\<open>registerVNCSocketServer\<close>). Each is a set of handlers for the events of the package \<open>ws\<close>, so a
  relay is a state machine: \<open>arrive\<close> is what an event says of the sockets, \<open>console_on\<close>, \<open>jupyter_on\<close>
  and \<open>vnc_on\<close> are the handlers, and a run is any sequence of events that the sockets can emit. A
  frame is a buffer and whether it is binary.

  \<open>send\<close> hands a frame to the socket and calls back once it is written or has failed; the fields
  \<open>container_waiting\<close> and \<open>client_waiting\<close> count the calls that are still to come. The remaining fields are
  the history: the frames each socket has emitted and has been given, and the codes of the closes.
\<close>

datatype ready_state = WS_CONNECTING | WS_OPEN | WS_CLOSING | WS_CLOSED

type_synonym frame = "nat list \<times> bool"

record relay =
  clientSocket :: ready_state
  containerSocket :: ready_state
  clientMessageBuffers :: "frame list"
  containerMessageBuffers :: "frame list"
  container_waiting :: nat
  client_waiting :: nat
  close_timer :: bool
  client_paused :: bool
  client_got :: "frame list"
  container_got :: "frame list"
  container_sent :: "frame list"
  client_sent :: "frame list"
  container_failed :: bool
  client_failed :: bool
  container_codes :: "nat list"
  client_codes :: "nat list"

datatype socket_event =
    ClientMessage frame | ClientClose | ClientError ready_state | ClientSent bool
  | ContainerOpen | ContainerMessage frame | ContainerClose | ContainerError ready_state | ContainerSent bool
  | Interval

subsection \<open>Events\<close>

text \<open>
  A socket that is closing may still emit the frames it has. After an error it is in the state it was
  in, or closing.
\<close>

fun enabled :: "relay \<Rightarrow> socket_event \<Rightarrow> bool" where
  "enabled r (ClientMessage m) = (clientSocket r \<in> {WS_OPEN, WS_CLOSING} \<and> \<not> client_paused r)"
| "enabled r ClientClose = (clientSocket r \<noteq> WS_CLOSED)"
| "enabled r (ClientError st) = (clientSocket r \<noteq> WS_CLOSED \<and> st \<in> {clientSocket r, WS_CLOSING})"
| "enabled r (ClientSent ok) = (client_waiting r > 0)"
| "enabled r ContainerOpen = (containerSocket r = WS_CONNECTING)"
| "enabled r (ContainerMessage m) = (containerSocket r \<in> {WS_OPEN, WS_CLOSING})"
| "enabled r ContainerClose = (containerSocket r \<noteq> WS_CLOSED)"
| "enabled r (ContainerError st) = (containerSocket r \<noteq> WS_CLOSED \<and> st \<in> {containerSocket r, WS_CLOSING})"
| "enabled r (ContainerSent ok) = (container_waiting r > 0)"
| "enabled r Interval = close_timer r"

fun arrive :: "socket_event \<Rightarrow> relay \<Rightarrow> relay" where
  "arrive (ClientMessage m) r = r\<lparr>client_got := client_got r @ [m]\<rparr>"
| "arrive ClientClose r = r\<lparr>clientSocket := WS_CLOSED\<rparr>"
| "arrive (ClientError st) r = r\<lparr>clientSocket := st\<rparr>"
| "arrive (ClientSent ok) r = r\<lparr>client_waiting := client_waiting r - 1, client_failed := client_failed r \<or> \<not> ok\<rparr>"
| "arrive ContainerOpen r = r\<lparr>containerSocket := WS_OPEN\<rparr>"
| "arrive (ContainerMessage m) r = r\<lparr>container_got := container_got r @ [m]\<rparr>"
| "arrive ContainerClose r = r\<lparr>containerSocket := WS_CLOSED\<rparr>"
| "arrive (ContainerError st) r = r\<lparr>containerSocket := st\<rparr>"
| "arrive (ContainerSent ok) r =
     r\<lparr>container_waiting := container_waiting r - 1, container_failed := container_failed r \<or> \<not> ok\<rparr>"
| "arrive Interval r = r"

text \<open>\<open>close(code, reason)\<close> starts the closing handshake; on a socket that is closing or closed it does nothing.\<close>

definition close_client :: "nat \<Rightarrow> relay \<Rightarrow> relay" where
  "close_client code r =
     (if clientSocket r \<in> {WS_CLOSING, WS_CLOSED} then r
      else r\<lparr>clientSocket := WS_CLOSING, client_codes := client_codes r @ [code]\<rparr>)"

definition close_container :: "nat \<Rightarrow> relay \<Rightarrow> relay" where
  "close_container code r =
     (if containerSocket r \<in> {WS_CLOSING, WS_CLOSED} then r
      else r\<lparr>containerSocket := WS_CLOSING, container_codes := container_codes r @ [code]\<rparr>)"

definition close_open_client :: "nat \<Rightarrow> relay \<Rightarrow> relay" where
  "close_open_client code r = (if clientSocket r = WS_OPEN then close_client code r else r)"

definition close_open_container :: "nat \<Rightarrow> relay \<Rightarrow> relay" where
  "close_open_container code r = (if containerSocket r = WS_OPEN then close_container code r else r)"

definition send_container :: "frame \<Rightarrow> relay \<Rightarrow> relay" where
  "send_container m r = r\<lparr>container_sent := container_sent r @ [m], container_waiting := container_waiting r + 1\<rparr>"

definition send_client :: "frame \<Rightarrow> relay \<Rightarrow> relay" where
  "send_client m r = r\<lparr>client_sent := client_sent r @ [m], client_waiting := client_waiting r + 1\<rparr>"

definition push_client :: "frame \<Rightarrow> relay \<Rightarrow> relay" where
  "push_client m r = r\<lparr>clientMessageBuffers := clientMessageBuffers r @ [m]\<rparr>"

definition push_container :: "frame \<Rightarrow> relay \<Rightarrow> relay" where
  "push_container m r = r\<lparr>containerMessageBuffers := containerMessageBuffers r @ [m]\<rparr>"

text \<open>The state when the handlers are in place: the browser is connected, the container is not yet.\<close>

definition relay_start :: "bool \<Rightarrow> relay" where
  "relay_start paused = \<lparr>clientSocket = WS_OPEN, containerSocket = WS_CONNECTING,
     clientMessageBuffers = [], containerMessageBuffers = [], container_waiting = 0, client_waiting = 0,
     close_timer = False, client_paused = paused, client_got = [], container_got = [], container_sent = [],
     client_sent = [], container_failed = False, client_failed = False, container_codes = [], client_codes = []\<rparr>"

subsection \<open>Consoles\<close>

text \<open>The frame stays in the buffer until the callback of its \<open>send\<close> takes the first one out.\<close>

definition console_flush_client :: "relay \<Rightarrow> relay" where
  "console_flush_client r =
     (if containerSocket r = WS_OPEN then
        (case clientMessageBuffers r of [] \<Rightarrow> r | m # _ \<Rightarrow> send_container m r)
      else r)"

definition console_flush_container :: "relay \<Rightarrow> relay" where
  "console_flush_container r =
     (if clientSocket r = WS_OPEN then
        (case containerMessageBuffers r of [] \<Rightarrow> r | m # _ \<Rightarrow> send_client m r)
      else r)"

definition console_container_sent :: "bool \<Rightarrow> relay \<Rightarrow> relay" where
  "console_container_sent ok r =
     (if \<not> ok then r
      else let r1 = r\<lparr>clientMessageBuffers := tl (clientMessageBuffers r)\<rparr>
           in if clientMessageBuffers r1 \<noteq> [] then console_flush_client r1 else r1)"

definition console_client_sent :: "bool \<Rightarrow> relay \<Rightarrow> relay" where
  "console_client_sent ok r =
     (if \<not> ok then r
      else let r1 = r\<lparr>containerMessageBuffers := tl (containerMessageBuffers r)\<rparr>
           in if containerMessageBuffers r1 \<noteq> [] then console_flush_container r1 else r1)"

fun console_on :: "socket_event \<Rightarrow> relay \<Rightarrow> relay" where
  "console_on (ClientMessage m) r = console_flush_client (push_client m r)"
| "console_on ClientClose r = close_open_container 4110 r"
| "console_on (ClientError st) r = close_open_container 4115 r"
| "console_on (ClientSent ok) r = console_client_sent ok r"
| "console_on ContainerOpen r = console_flush_client r"
| "console_on (ContainerMessage m) r = console_flush_container (push_container m r)"
| "console_on ContainerClose r = close_open_client 4010 (console_flush_container r)"
| "console_on (ContainerError st) r = close_open_client 4015 r"
| "console_on (ContainerSent ok) r = console_container_sent ok r"
| "console_on Interval r = r"

subsection \<open>Jupyter and VNC\<close>

text \<open>
  Here the frame is taken out before it is sent, and the function goes on until the buffer is empty. The VNC
  server has the same two functions. Their callbacks only print an error.
\<close>

function flushClientMessageBuffers :: "relay \<Rightarrow> relay" where
  "flushClientMessageBuffers r =
     (if containerSocket r = WS_OPEN then
        (case clientMessageBuffers r of
           [] \<Rightarrow> r
         | m # ms \<Rightarrow>
             (let r1 = send_container m (r\<lparr>clientMessageBuffers := ms\<rparr>)
              in if clientMessageBuffers r1 \<noteq> [] then flushClientMessageBuffers r1 else r1))
      else r)"
  by pat_completeness auto
termination
  by (relation "measure (\<lambda>r. length (clientMessageBuffers r))") (auto simp: send_container_def)

function flushContainerMessageBuffers :: "relay \<Rightarrow> relay" where
  "flushContainerMessageBuffers r =
     (if clientSocket r = WS_OPEN then
        (case containerMessageBuffers r of
           [] \<Rightarrow> r
         | m # ms \<Rightarrow>
             (let r1 = send_client m (r\<lparr>containerMessageBuffers := ms\<rparr>)
              in if containerMessageBuffers r1 \<noteq> [] then flushContainerMessageBuffers r1 else r1))
      else r)"
  by pat_completeness auto
termination
  by (relation "measure (\<lambda>r. length (containerMessageBuffers r))") (auto simp: send_client_def)

declare flushClientMessageBuffers.simps [simp del] flushContainerMessageBuffers.simps [simp del]

text \<open>
  A browser that leaves while the container is still connecting starts a timer, which closes the
  connection to the container at the first tick after it has opened.
\<close>

fun jupyter_on :: "socket_event \<Rightarrow> relay \<Rightarrow> relay" where
  "jupyter_on (ClientMessage m) r = flushClientMessageBuffers (push_client m r)"
| "jupyter_on ClientClose r =
     (if containerSocket r = WS_OPEN then close_container 4001 r
      else if containerSocket r = WS_CONNECTING then r\<lparr>close_timer := True\<rparr> else r)"
| "jupyter_on (ClientError st) r = close_open_container 4000 r"
| "jupyter_on (ClientSent ok) r = r"
| "jupyter_on ContainerOpen r = flushClientMessageBuffers r"
| "jupyter_on (ContainerMessage m) r = flushContainerMessageBuffers (push_container m r)"
| "jupyter_on ContainerClose r = close_open_client 4010 (flushContainerMessageBuffers r)"
| "jupyter_on (ContainerError st) r = close_open_client 4002 r"
| "jupyter_on (ContainerSent ok) r = r"
| "jupyter_on Interval r =
     (if containerSocket r = WS_OPEN then (close_container 4001 r)\<lparr>close_timer := False\<rparr> else r)"

text \<open>The VNC server only lets the browser speak once the container has opened.\<close>

fun vnc_on :: "socket_event \<Rightarrow> relay \<Rightarrow> relay" where
  "vnc_on (ClientMessage m) r = flushClientMessageBuffers (push_client m r)"
| "vnc_on ClientClose r = close_open_container 4001 r"
| "vnc_on (ClientError st) r = close_container 4012 r"
| "vnc_on (ClientSent ok) r = r"
| "vnc_on ContainerOpen r = (flushClientMessageBuffers r)\<lparr>client_paused := False\<rparr>"
| "vnc_on (ContainerMessage m) r = flushContainerMessageBuffers (push_container m r)"
| "vnc_on ContainerClose r = close_open_client 4010 (flushContainerMessageBuffers r)"
| "vnc_on (ContainerError st) r = close_client 4011 r"
| "vnc_on (ContainerSent ok) r = r"
| "vnc_on Interval r = r"

subsection \<open>Runs\<close>

definition relay_step :: "(socket_event \<Rightarrow> relay \<Rightarrow> relay) \<Rightarrow> socket_event \<Rightarrow> relay \<Rightarrow> relay" where
  "relay_step on e r = on e (arrive e r)"

inductive relay_run :: "(socket_event \<Rightarrow> relay \<Rightarrow> relay) \<Rightarrow> relay \<Rightarrow> socket_event list \<Rightarrow> relay \<Rightarrow> bool"
  for on :: "socket_event \<Rightarrow> relay \<Rightarrow> relay" and r0 :: relay where
  run_start: "relay_run on r0 [] r0"
| run_event: "relay_run on r0 es r \<Longrightarrow> enabled r e \<Longrightarrow> relay_run on r0 (es @ [e]) (relay_step on e r)"

text \<open>The same runs as a function, so that a given sequence of events can be evaluated.\<close>

fun run_events :: "(socket_event \<Rightarrow> relay \<Rightarrow> relay) \<Rightarrow> socket_event list \<Rightarrow> relay \<Rightarrow> relay option" where
  "run_events on [] r = Some r"
| "run_events on (e # es) r = (if enabled r e then run_events on es (relay_step on e r) else None)"

lemma run_events_snoc:
  "run_events on (es @ [e]) r =
     (case run_events on es r of None \<Rightarrow> None | Some r' \<Rightarrow> if enabled r' e then Some (relay_step on e r') else None)"
  by (induction es arbitrary: r) auto

lemma relay_run_iff: "relay_run on r0 es r \<longleftrightarrow> run_events on es r0 = Some r"
proof
  show "relay_run on r0 es r \<Longrightarrow> run_events on es r0 = Some r"
    by (induction rule: relay_run.induct) (simp_all add: run_events_snoc)
next
  show "run_events on es r0 = Some r \<Longrightarrow> relay_run on r0 es r"
  proof (induction es arbitrary: r rule: rev_induct)
    case Nil
    then show ?case by (simp add: run_start)
  next
    case (snoc e es)
    then show ?case by (auto simp: run_events_snoc intro: run_event split: option.splits if_splits)
  qed
qed

text \<open>An invariant of the handlers holds along every run.\<close>

locale relay_invariant =
  fixes on :: "socket_event \<Rightarrow> relay \<Rightarrow> relay" and inv :: "relay \<Rightarrow> bool"
  assumes step: "inv r \<Longrightarrow> enabled r e \<Longrightarrow> inv (relay_step on e r)"
begin

lemma run_keeps: "relay_run on r0 es r \<Longrightarrow> inv r0 \<Longrightarrow> inv r"
  by (induction rule: relay_run.induct) (simp_all add: step)

end

end
