(* ===== verification/RelayProps.thy ===== *)
theory RelayProps
  imports Relay
begin

section \<open>What a relay delivers\<close>

text \<open>
  The relays of Jupyter and VNC hand every frame on exactly once and in order; the one of the consoles
  hands every frame on at least once, and again when frames come in faster than they are written. The
  invariants of the three servers are instances of \<open>relay_invariant\<close>.
\<close>

named_theorems relay_defs \<open>the sockets and buffers of a relay\<close>

lemmas relay_base_defs [relay_defs] =
  close_client_def close_container_def close_open_client_def close_open_container_def
  send_container_def send_client_def push_client_def push_container_def

lemmas console_defs [relay_defs] =
  console_flush_client_def console_flush_container_def console_container_sent_def console_client_sent_def Let_def

subsection \<open>Draining a buffer\<close>

lemma flushClientMessageBuffers_eq:
  "flushClientMessageBuffers r =
     (if containerSocket r = WS_OPEN
      then r\<lparr>clientMessageBuffers := [], container_sent := container_sent r @ clientMessageBuffers r,
             container_waiting := container_waiting r + length (clientMessageBuffers r)\<rparr>
      else r)"
proof (induction "clientMessageBuffers r" arbitrary: r)
  case Nil
  then show ?case by (subst flushClientMessageBuffers.simps) simp
next
  case (Cons m ms)
  have "ms = clientMessageBuffers (send_container m (r\<lparr>clientMessageBuffers := ms\<rparr>))"
    by (simp add: send_container_def)
  from Cons(1)[OF this] Cons(2)[symmetric] show ?case
    by (subst flushClientMessageBuffers.simps) (auto simp: send_container_def Let_def)
qed

lemma flushContainerMessageBuffers_eq:
  "flushContainerMessageBuffers r =
     (if clientSocket r = WS_OPEN
      then r\<lparr>containerMessageBuffers := [], client_sent := client_sent r @ containerMessageBuffers r,
             client_waiting := client_waiting r + length (containerMessageBuffers r)\<rparr>
      else r)"
proof (induction "containerMessageBuffers r" arbitrary: r)
  case Nil
  then show ?case by (subst flushContainerMessageBuffers.simps) simp
next
  case (Cons m ms)
  have "ms = containerMessageBuffers (send_client m (r\<lparr>containerMessageBuffers := ms\<rparr>))"
    by (simp add: send_client_def)
  from Cons(1)[OF this] Cons(2)[symmetric] show ?case
    by (subst flushContainerMessageBuffers.simps) (auto simp: send_client_def Let_def)
qed

lemmas flush_eqs [relay_defs] = flushClientMessageBuffers_eq flushContainerMessageBuffers_eq

subsection \<open>First in, first out\<close>

definition fifo_ok :: "relay \<Rightarrow> bool" where
  "fifo_ok r \<longleftrightarrow>
     container_sent r @ clientMessageBuffers r = client_got r \<and>
     client_sent r @ containerMessageBuffers r = container_got r \<and>
     (containerSocket r = WS_OPEN \<longrightarrow> clientMessageBuffers r = []) \<and>
     (clientSocket r = WS_OPEN \<longrightarrow> containerMessageBuffers r = [])"

lemma fifo_start: "fifo_ok (relay_start p)"
  by (simp add: fifo_ok_def relay_start_def)

interpretation jupyter_fifo: relay_invariant jupyter_on fifo_ok
proof
  fix r e
  assume "fifo_ok r" "enabled r e"
  then show "fifo_ok (relay_step jupyter_on e r)"
    by (cases e) (auto simp: relay_step_def fifo_ok_def relay_defs)
qed

interpretation vnc_fifo: relay_invariant vnc_on fifo_ok
proof
  fix r e
  assume "fifo_ok r" "enabled r e"
  then show "fifo_ok (relay_step vnc_on e r)"
    by (cases e) (auto simp: relay_step_def fifo_ok_def relay_defs)
qed

text \<open>
  C29. The relays for Jupyter and VNC lose, repeat and reorder nothing: after any sequence of events, the frames given
  to the container are the frames the browser has sent, except for those still in the buffer, and the buffer is empty
  while the container is open; likewise in the other direction.
\<close>

theorem relay_exactly_once:
  assumes "relay_run on (relay_start p) es r" "on = jupyter_on \<or> on = vnc_on"
  shows "container_sent r @ clientMessageBuffers r = client_got r \<and>
    client_sent r @ containerMessageBuffers r = container_got r \<and>
    (containerSocket r = WS_OPEN \<longrightarrow> container_sent r = client_got r) \<and>
    (clientSocket r = WS_OPEN \<longrightarrow> client_sent r = container_got r)"
proof -
  have "fifo_ok r"
    using assms jupyter_fifo.run_keeps[OF _ fifo_start] vnc_fifo.run_keeps[OF _ fifo_start] by blast
  then show ?thesis by (auto simp: fifo_ok_def)
qed

subsection \<open>Consoles\<close>

text \<open>\<open>stutters xs ys\<close>: \<open>ys\<close> is \<open>xs\<close> with some elements repeated on the spot.\<close>

inductive stutters :: "'a list \<Rightarrow> 'a list \<Rightarrow> bool" where
  nothing: "stutters [] []"
| another: "stutters xs ys \<Longrightarrow> stutters (xs @ [x]) (ys @ [x])"
| again: "stutters (xs @ [x]) ys \<Longrightarrow> stutters (xs @ [x]) (ys @ [x])"

lemma stutters_last: "stutters xs ys \<Longrightarrow> (xs = [] \<longleftrightarrow> ys = []) \<and> (xs \<noteq> [] \<longrightarrow> last ys = last xs)"
  by (induction rule: stutters.induct) auto

lemma stutters_set: "stutters xs ys \<Longrightarrow> set ys = set xs"
  by (induction rule: stutters.induct) auto

lemma stutters_length: "stutters xs ys \<Longrightarrow> length xs \<le> length ys"
  by (induction rule: stutters.induct) auto

lemma remdups_adj_snoc:
  "remdups_adj (xs @ [x]) = (if xs \<noteq> [] \<and> last xs = x then remdups_adj xs else remdups_adj xs @ [x])"
  by (induction xs rule: remdups_adj.induct) auto

lemma stutters_remdups: "stutters xs ys \<Longrightarrow> remdups_adj ys = remdups_adj xs"
proof (induction rule: stutters.induct)
  case (another xs ys x)
  then show ?case using stutters_last[OF another(1)] by (auto simp: remdups_adj_snoc)
next
  case (again xs x ys)
  then show ?case using stutters_last[OF again(1)] by (auto simp: remdups_adj_snoc)
qed simp

text \<open>
  While the container is open and every \<open>send\<close> has succeeded, the frames given to it are those taken out of the
  buffer and its first one, some of them repeated.
\<close>

definition console_ok :: "relay \<Rightarrow> bool" where
  "console_ok r \<longleftrightarrow>
     (containerSocket r = WS_CONNECTING \<longrightarrow>
        client_got r = clientMessageBuffers r \<and> container_sent r = [] \<and> container_waiting r = 0) \<and>
     (containerSocket r = WS_OPEN \<and> \<not> container_failed r \<longrightarrow>
        (\<exists>pre. client_got r = pre @ clientMessageBuffers r \<and>
           (case clientMessageBuffers r of
              [] \<Rightarrow> stutters pre (container_sent r)
            | m # ms \<Rightarrow> container_waiting r > 0 \<and> stutters (pre @ [m]) (container_sent r))))"

lemma console_start: "console_ok (relay_start p)"
  by (simp add: console_ok_def relay_start_def)

text \<open>Events that touch neither the frames of the browser nor what was sent to the container.\<close>

lemma console_ok_frame:
  assumes "console_ok r" "containerSocket r' = containerSocket r \<or> containerSocket r' \<in> {WS_CLOSING, WS_CLOSED}"
    "client_got r' = client_got r" "clientMessageBuffers r' = clientMessageBuffers r"
    "container_sent r' = container_sent r" "container_waiting r' = container_waiting r"
    "container_failed r' = container_failed r"
  shows "console_ok r'"
proof (cases "containerSocket r' = containerSocket r")
  case True
  then show ?thesis using assms(1) unfolding console_ok_def assms(3-) by simp
next
  case False
  then show ?thesis using assms(2) by (auto simp: console_ok_def)
qed

lemma console_client_message:
  assumes "console_ok r"
  shows "console_ok (relay_step console_on (ClientMessage m) r)"
proof (cases "containerSocket r = WS_OPEN \<and> \<not> container_failed r")
  case True
  then obtain pre where d: "client_got r = pre @ clientMessageBuffers r"
    "case clientMessageBuffers r of [] \<Rightarrow> stutters pre (container_sent r)
      | m # ms \<Rightarrow> container_waiting r > 0 \<and> stutters (pre @ [m]) (container_sent r)"
    using assms unfolding console_ok_def by blast
  show ?thesis
  proof (cases "clientMessageBuffers r")
    case Nil
    then show ?thesis using True d stutters.another[of pre "container_sent r" m]
      by (auto simp: relay_step_def console_ok_def relay_defs)
  next
    case (Cons m' ms)
    then show ?thesis using True d stutters.again[of pre m' "container_sent r"]
      by (auto simp: relay_step_def console_ok_def relay_defs)
  qed
next
  case False
  then show ?thesis
    using assms by (auto simp: relay_step_def console_ok_def relay_defs split: list.splits)
qed

lemma console_container_open:
  assumes "console_ok r" "containerSocket r = WS_CONNECTING"
  shows "console_ok (relay_step console_on ContainerOpen r)"
  using assms stutters.another[OF stutters.nothing] stutters.nothing
  by (cases "clientMessageBuffers r") (auto simp: relay_step_def console_ok_def relay_defs)

lemma console_container_written:
  assumes "console_ok r" "container_waiting r > 0"
  shows "console_ok (relay_step console_on (ContainerSent ok) r)"
proof (cases "containerSocket r = WS_OPEN \<and> \<not> container_failed r \<and> ok")
  case True
  then obtain pre where d: "client_got r = pre @ clientMessageBuffers r"
    "case clientMessageBuffers r of [] \<Rightarrow> stutters pre (container_sent r)
      | m # ms \<Rightarrow> container_waiting r > 0 \<and> stutters (pre @ [m]) (container_sent r)"
    using assms unfolding console_ok_def by blast
  show ?thesis
  proof (cases "clientMessageBuffers r")
    case Nil
    then show ?thesis using True d by (simp add: relay_step_def console_ok_def relay_defs)
  next
    case (Cons m ms)
    then show ?thesis
      using True d stutters.another[of "pre @ [m]" "container_sent r"]
      by (cases ms) (auto simp: relay_step_def console_ok_def relay_defs intro!: exI[of _ "pre @ [m]"])
  qed
next
  case False
  then show ?thesis
    using assms by (auto simp: relay_step_def console_ok_def relay_defs split: list.splits)
qed

interpretation console_stutter: relay_invariant console_on console_ok
proof
  fix r e
  assume r: "console_ok r" and e: "enabled r e"
  show "console_ok (relay_step console_on e r)"
  proof (cases e)
    case (ClientMessage m)
    then show ?thesis using console_client_message[OF r] by simp
  next
    case ContainerOpen
    then show ?thesis using console_container_open[OF r] e by simp
  next
    case (ContainerSent ok)
    then show ?thesis using console_container_written[OF r] e by simp
  qed (use e in \<open>auto simp: relay_step_def relay_defs intro!: console_ok_frame[OF r] split: list.splits\<close>)
qed

text \<open>
  C30. The relay for consoles delivers at least once and in order: once the container is open, every \<open>send\<close> to it has
  succeeded and been called back, the buffer is empty, every frame of the browser has been given to the container, and
  the two sequences are the same up to the repetition of a frame on the spot.
\<close>

theorem console_at_least_once:
  assumes "relay_run console_on (relay_start p) es r"
    and "containerSocket r = WS_OPEN" "\<not> container_failed r" "container_waiting r = 0"
  shows "clientMessageBuffers r = [] \<and> remdups_adj (container_sent r) = remdups_adj (client_got r) \<and>
    set (container_sent r) = set (client_got r) \<and> length (client_got r) \<le> length (container_sent r)"
proof -
  have "console_ok r" using console_stutter.run_keeps[OF assms(1) console_start] .
  then have "clientMessageBuffers r = [] \<and> stutters (client_got r) (container_sent r)"
    using assms(2-) by (cases "clientMessageBuffers r") (auto simp: console_ok_def)
  then show ?thesis using stutters_remdups stutters_set stutters_length by blast
qed

text \<open>A run in which the second frame arrives before the first is written.\<close>

definition sample_events :: "socket_event list" where
  "sample_events = [ClientMessage ([1], True), ContainerOpen, ClientMessage ([2], True), ContainerMessage ([3], False),
     ContainerSent True, ContainerSent True, ContainerSent True]"

definition sample_run :: "(socket_event \<Rightarrow> relay \<Rightarrow> relay) \<Rightarrow> relay" where
  "sample_run on = the (run_events on sample_events (relay_start False))"

lemmas run_eval = sample_run_def sample_events_def relay_step_def relay_defs relay_start_def

lemma console_sample: "relay_run console_on (relay_start False) sample_events (sample_run console_on)"
  unfolding relay_run_iff by (simp add: run_eval)

theorem console_at_least_once_witness:
  "clientMessageBuffers (sample_run console_on) = [] \<and>
     remdups_adj (container_sent (sample_run console_on)) = [([1], True), ([2], True)]"
  using console_at_least_once[OF console_sample] by (simp add: run_eval)

text \<open>
  But not exactly once: when a second frame arrives before the first one is written, the console relay sends the
  first frame twice, whatever the two frames are.
\<close>

theorem console_repeats_frames:
  "\<exists>es r. relay_run console_on (relay_start False) es r \<and> client_got r = [m, m'] \<and>
     container_sent r = [m, m, m'] \<and> clientMessageBuffers r = [] \<and> container_waiting r = 0 \<and>
     containerSocket r = WS_OPEN \<and> \<not> container_failed r"
proof (intro exI conjI)
  let ?es = "[ContainerOpen, ClientMessage m, ClientMessage m', ContainerSent True, ContainerSent True, ContainerSent True]"
  show "relay_run console_on (relay_start False) ?es (the (run_events console_on ?es (relay_start False)))"
    unfolding relay_run_iff by (simp add: relay_step_def relay_defs relay_start_def)
qed (simp_all add: relay_step_def relay_defs relay_start_def)

lemma jupyter_sample: "relay_run jupyter_on (relay_start False) [ClientMessage ([1], True), ContainerOpen]
    (the (run_events jupyter_on [ClientMessage ([1], True), ContainerOpen] (relay_start False)))"
  unfolding relay_run_iff by (simp add: relay_step_def relay_defs relay_start_def)

theorem relay_exactly_once_witness:
  "container_sent (the (run_events jupyter_on [ClientMessage ([1], True), ContainerOpen] (relay_start False))) = [([1], True)]"
  using relay_exactly_once[OF jupyter_sample] by (simp add: relay_step_def relay_defs relay_start_def)

subsection \<open>Closing\<close>

text \<open>No connection to a container stays open behind a browser that has gone, unless the timer will close it.\<close>

definition no_orphan :: "relay \<Rightarrow> bool" where
  "no_orphan r \<longleftrightarrow> clientSocket r = WS_CLOSED \<and> containerSocket r \<in> {WS_CONNECTING, WS_OPEN} \<longrightarrow> close_timer r"

lemma no_orphan_start: "no_orphan (relay_start p)"
  by (simp add: no_orphan_def relay_start_def)

interpretation jupyter_orphan: relay_invariant jupyter_on no_orphan
proof
  fix r e
  assume "no_orphan r" "enabled r e"
  then show "no_orphan (relay_step jupyter_on e r)"
    by (cases e) (auto simp: relay_step_def no_orphan_def relay_defs)
qed

text \<open>
  The Jupyter relay never leaves a connection to a container behind: when the browser has gone and the container is
  open, the timer is running, and its next tick closes the connection.
\<close>

theorem jupyter_closes_behind:
  assumes "relay_run jupyter_on (relay_start False) es r"
    and "clientSocket r = WS_CLOSED" "containerSocket r = WS_OPEN"
  shows "enabled r Interval \<and> containerSocket (relay_step jupyter_on Interval r) = WS_CLOSING"
proof -
  have "no_orphan r" using jupyter_orphan.run_keeps[OF assms(1) no_orphan_start] .
  then show ?thesis using assms(2,3) by (auto simp: no_orphan_def relay_step_def relay_defs)
qed

text \<open>The relay for consoles does leave one behind, when the browser goes before the container has answered.\<close>

lemma console_leaves_orphan:
  "relay_run console_on (relay_start False) [ClientClose, ContainerOpen]
     ((relay_start False)\<lparr>clientSocket := WS_CLOSED, containerSocket := WS_OPEN\<rparr>)"
  unfolding relay_run_iff by (simp add: relay_step_def relay_defs relay_start_def)

end
