(* ===== verification/Gateway.thy ===== *)
theory Gateway
  imports LxdManager Json Tokens Relay
begin

section \<open>The way to the containers (\<open>lxd/index.ts\<close>, \<open>router.ts\<close>)\<close>

text \<open>
  What happens to a request before it reaches an operation or a container: the middlewares of the
  express server (\<open>server/router.ts\<close>), the HTTP proxies to the containers with their caches, and the set-up
  of the web sockets whose relays are those of theory \<open>Relay\<close>. A proxy is an object of the package
  \<open>http-proxy\<close>; of it the model keeps the target it was made for.
\<close>

definition starts_with :: "string \<Rightarrow> string \<Rightarrow> bool" where
  "starts_with p x \<longleftrightarrow> take (length p) x = p"

text \<open>\<open>url.split('/')[2]\<close>, with the empty string where there is no such part.\<close>

definition path_instance :: "string \<Rightarrow> string" where
  "path_instance url = (let ps = split_on (CHR ''/'') url in if 2 < length ps then ps ! 2 else [])"

subsection \<open>Middlewares of the server\<close>

text \<open>
  A first segment of the path that is the path of a domain is removed. (\<open>/^\/([^/]+)/\<close>)
\<close>

definition strip_domain :: "string list \<Rightarrow> string \<Rightarrow> string" where
  "strip_domain availablePaths url =
     (let seg = takeWhile (\<lambda>c. c \<noteq> CHR ''/'') (tl url)
      in if url \<noteq> [] \<and> hd url = CHR ''/'' \<and> seg \<noteq> [] \<and> seg \<in> set availablePaths
         then (let rest = drop (Suc (length seg)) url in if rest = [] then ''/'' else rest)
         else url)"

definition domain_middleware :: "mongo \<Rightarrow> string \<Rightarrow> db \<Rightarrow> string" where
  "domain_middleware M url s =
     strip_domain (map domainPath (find_many (domains_dr M) (domains_collection s) alive)) url"

fun config_QPS :: "config_properties \<Rightarrow> int option" where
  "config_QPS (UserProps p) = Some (defaultMaximumQPS p)"
| "config_QPS _ = None"

definition user_config :: "mongo \<Rightarrow> IUserWithoutToken \<Rightarrow> db \<Rightarrow> IConfig option" where
  "user_config M u s = findOne (configs_dr M) (configs_collection s)
     (\<lambda>c. config_type c = USERCONFIG \<and> config_key c = Some (doc_id u))"

definition request_limit :: "mongo \<Rightarrow> IUserWithoutToken option \<Rightarrow> db \<Rightarrow> int" where
  "request_limit M user s =
     (let qps = (case user of
            None \<Rightarrow> 5000
          | Some u \<Rightarrow> (case user_config M u s of None \<Rightarrow> 5000 | Some c \<Rightarrow> nullish (config_QPS (properties c)) 5000))
      in case user of Some u \<Rightarrow> if user_type u = ADMIN then max qps 2000 else qps | None \<Rightarrow> qps)"

definition proxy_limit :: "mongo \<Rightarrow> IUserWithoutToken option \<Rightarrow> db \<Rightarrow> int" where
  "proxy_limit M user s =
     (case user of
        None \<Rightarrow> 200
      | Some u \<Rightarrow>
          if user_type u = ADMIN then 500
          else (case user_config M u s of
                  None \<Rightarrow> 200
                | Some c \<Rightarrow> min (nullish (config_QPS (properties c)) 200 * 60) 1000))"

text \<open>The token of the header, and the user of the request: a token that is refused leaves the user of the session.\<close>

definition bearer_token :: "string option \<Rightarrow> string" where
  "bearer_token header =
     (let token = nullish header []
      in if starts_with ''Bearer '' token \<or> starts_with ''BEARER'' token then drop 7 token else token)"

definition authenticate_request ::
    "env \<Rightarrow> mongo \<Rightarrow> string option \<Rightarrow> IUserWithoutToken option \<Rightarrow> db \<Rightarrow> IUserWithoutToken option" where
  "authenticate_request E M header session_user s =
     (case tokenAuthentication E M (bearer_token header) s of
        Authenticated u \<Rightarrow> Some u
      | _ \<Rightarrow> session_user)"

text \<open>The uploaded files of a request, grouped by the name of their field.\<close>

record multer_file =
  fieldname :: string
  originalname :: string
  multer_mimetype :: string
  multer_buffer :: string

fun group_files :: "multer_file list \<Rightarrow> (string \<times> multer_file list) list \<Rightarrow> (string \<times> multer_file list) list" where
  "group_files [] acc = acc"
| "group_files (f # fs) acc =
     group_files fs (if map_of acc (fieldname f) = None then acc @ [(fieldname f, [f])]
                     else map (\<lambda>(k, v). if k = fieldname f then (k, v @ [f]) else (k, v)) acc)"

definition transformedFiles :: "multer_file list \<Rightarrow> (string \<times> multer_file list) list" where
  "transformedFiles fs = group_files fs []"

text \<open>Which web socket server gets an upgrade request. The upgrade event does not pass the middlewares.\<close>

datatype upgrade = Jupyter_Server | VNC_Server | Container_Server | End_Socket | Destroy_Socket

definition on_upgrade :: "string \<Rightarrow> string option \<Rightarrow> upgrade" where
  "on_upgrade url upgradeHeader =
     (if starts_with ''/jupyter'' url then
        (if path_instance url = [] then End_Socket else Jupyter_Server)
      else if starts_with ''/matlab'' url then
        (if map_option toLowerCase upgradeHeader = Some ''websocket'' then VNC_Server else Destroy_Socket)
      else if starts_with ''/rtc'' url then Container_Server
      else Destroy_Socket)"

subsection \<open>Owners and targets\<close>

definition verifyInstanceAccess :: "mongo \<Rightarrow> string \<Rightarrow> string option \<Rightarrow> db \<Rightarrow> bool" where
  "verifyInstanceAccess M i user_id s =
     (if \<not> truthy user_id then False
      else case getInstanceById M i s of
             Inl e \<Rightarrow> False
           | Inr d \<Rightarrow> Some (instance_userId d) = user_id)"

text \<open>The port of the container where there is one: neither missing nor 0.\<close>

definition mapped_target :: "IInstance \<Rightarrow> (string \<times> int) option" where
  "mapped_target d =
     (case lxdState d of
        None \<Rightarrow> None
      | Some st \<Rightarrow>
          (case (hostIp st, hostMapPort d) of
             (Some ip, Some port) \<Rightarrow> if ip \<noteq> [] \<and> port \<noteq> 0 then Some (ip, port) else None
           | _ \<Rightarrow> None))"

definition getInstanceTarget ::
    "env \<Rightarrow> mongo \<Rightarrow> IConfiguration \<Rightarrow> string \<Rightarrow> string option \<Rightarrow> db \<Rightarrow> (string \<times> int) result \<times> db" where
  "getInstanceTarget E M cfg i user_id s =
     (case getInstanceById M i s of
        Inl e \<Rightarrow> (Inl e, s)
      | Inr d \<Rightarrow>
     (case mapped_target d of
        Some t \<Rightarrow> (Inr t, s)
      | None \<Rightarrow>
     (case getContainerIP E M cfg i user_id s of
        (Inl e, s1) \<Rightarrow> (Inl e, s1)
      | (Inr (Some (ip, port)), s1) \<Rightarrow>
          if ip = [] then (Inl (JSError ''Failed to retrieve container IP''), s1)
          else (Inr (ip, if port = 0 then 8888 else port), s1)
      | (Inr None, s1) \<Rightarrow> (Inl (JSError ''Failed to retrieve container IP''), s1))))"

subsection \<open>Proxies and their caches\<close>

record ProxyEntry =
  proxy_target :: string
  proxy_ip :: string
  proxy_port :: int
  lastUsed :: int

type_synonym ProxyCache = "(string \<times> ProxyEntry) list"

text \<open>The caches, whether the timer that cleans them is set, and the targets of the proxies that were closed.\<close>

record gateway =
  proxyCache :: ProxyCache
  vncProxyCache :: ProxyCache
  cleanupInterval :: bool
  closed_proxies :: "string list"

definition PROXY_CACHE_TTL :: int where
  "PROXY_CACHE_TTL = 30 * 60 * 1000"

fun put_entry :: "(string \<times> 'a) list \<Rightarrow> string \<Rightarrow> 'a \<Rightarrow> (string \<times> 'a) list" where
  "put_entry [] k v = [(k, v)]"
| "put_entry ((k', w) # m) k v = (if k' = k then (k, v) # m else (k', w) # put_entry m k v)"

definition stale :: "int \<Rightarrow> ProxyEntry \<Rightarrow> bool" where
  "stale now p \<longleftrightarrow> now - lastUsed p > PROXY_CACHE_TTL"

definition targets_of :: "ProxyCache \<Rightarrow> string list" where
  "targets_of c = map (\<lambda>(k, p). proxy_target p) c"

definition cleanupProxyCaches :: "int \<Rightarrow> gateway \<Rightarrow> gateway" where
  "cleanupProxyCaches now g =
     g\<lparr>proxyCache := filter (\<lambda>(k, p). \<not> stale now p) (proxyCache g),
       vncProxyCache := filter (\<lambda>(k, p). \<not> stale now p) (vncProxyCache g),
       closed_proxies := closed_proxies g @ targets_of (filter (\<lambda>(k, p). stale now p) (proxyCache g)) @
         targets_of (filter (\<lambda>(k, p). stale now p) (vncProxyCache g))\<rparr>"

definition initializeProxyCacheCleanup :: "gateway \<Rightarrow> gateway" where
  "initializeProxyCacheCleanup g = g\<lparr>cleanupInterval := True\<rparr>"

text \<open>The proxies are closed and stay in the caches.\<close>

definition stopProxyCacheCleanup :: "gateway \<Rightarrow> gateway" where
  "stopProxyCacheCleanup g =
     (if cleanupInterval g
      then g\<lparr>cleanupInterval := False,
             closed_proxies := closed_proxies g @ targets_of (proxyCache g) @ targets_of (vncProxyCache g)\<rparr>
      else g)"

definition clearProxyCacheForInstance :: "string \<Rightarrow> gateway \<Rightarrow> gateway" where
  "clearProxyCacheForInstance i g =
     g\<lparr>proxyCache := filter (\<lambda>(k, p). k \<noteq> i) (proxyCache g),
       vncProxyCache := filter (\<lambda>(k, p). k \<noteq> i) (vncProxyCache g),
       closed_proxies := closed_proxies g @ targets_of (filter (\<lambda>(k, p). k = i) (proxyCache g)) @
         targets_of (filter (\<lambda>(k, p). k = i) (vncProxyCache g))\<rparr>"

definition host_port :: "string \<Rightarrow> int \<Rightarrow> string" where
  "host_port ip port = ip @ '':'' @ int_string port"

text \<open>
  An answer of a proxy middleware: a status and a text, the proxy that takes the request over, or the
  status 500 with the error handed to the next middleware.
\<close>

datatype proxy_answer = Proxy_Refused nat string | Proxied ProxyEntry | Proxy_Failed error

text \<open>
  The entry of the cache, made when there is none. The owner is looked at on every request, the target only
  when the entry is made.
\<close>

definition cached_proxy ::
    "env \<Rightarrow> mongo \<Rightarrow> IConfiguration \<Rightarrow> string \<Rightarrow> string option \<Rightarrow> ProxyCache \<Rightarrow> db \<Rightarrow> (ProxyEntry \<times> ProxyCache) result \<times> db" where
  "cached_proxy E M cfg i user_id cache s =
     (case map_of cache i of
        Some p \<Rightarrow>
          (let (now, s1) = Date_now E s; p' = p\<lparr>lastUsed := now\<rparr>
           in (Inr (p', put_entry cache i p'), s1))
      | None \<Rightarrow>
     (case getInstanceTarget E M cfg i user_id s of
        (Inl e, s1) \<Rightarrow> (Inl e, s1)
      | (Inr (ip, port), s1) \<Rightarrow>
          if ip = [] then (Inl (JSError (''Could not determine IP for instance '' @ i)), s1)
          else (let (now, s2) = Date_now E s1;
                    p = \<lparr>proxy_target = ''http://'' @ host_port ip port, proxy_ip = ip, proxy_port = port, lastUsed = now\<rparr>
                in (Inr (p, put_entry cache i p), s2))))"

definition jupyterProxyMiddleware ::
    "env \<Rightarrow> mongo \<Rightarrow> IConfiguration \<Rightarrow> string \<Rightarrow> string option \<Rightarrow> gateway \<Rightarrow> db \<Rightarrow> proxy_answer \<times> gateway \<times> db" where
  "jupyterProxyMiddleware E M cfg i user_id g s =
     (if i = [] then (Proxy_Refused 404 ''Instance not found'', g, s)
      else if \<not> verifyInstanceAccess M i user_id s then (Proxy_Refused 403 ''Access denied'', g, s)
      else case cached_proxy E M cfg i user_id (proxyCache g) s of
             (Inl e, s1) \<Rightarrow> (Proxy_Failed e, g, s1)
           | (Inr (p, cache), s1) \<Rightarrow>
               (Proxied p,
                (if map_of (proxyCache g) i = None then initializeProxyCacheCleanup (g\<lparr>proxyCache := cache\<rparr>)
                 else g\<lparr>proxyCache := cache\<rparr>), s1))"

definition vncProxyMiddleware ::
    "env \<Rightarrow> mongo \<Rightarrow> IConfiguration \<Rightarrow> string \<Rightarrow> string option \<Rightarrow> gateway \<Rightarrow> db \<Rightarrow> proxy_answer \<times> gateway \<times> db" where
  "vncProxyMiddleware E M cfg i user_id g s =
     (if i = [] then (Proxy_Refused 404 ''Instance not found'', g, s)
      else if \<not> verifyInstanceAccess M i user_id s
      then (Proxy_Refused 403 ''Access denied: You do not have permission to access this instance'', g, s)
      else case cached_proxy E M cfg i user_id (vncProxyCache g) s of
             (Inl e, s1) \<Rightarrow> (Proxy_Failed e, g, s1)
           | (Inr (p, cache), s1) \<Rightarrow>
               (Proxied p,
                (if map_of (vncProxyCache g) i = None then initializeProxyCacheCleanup (g\<lparr>vncProxyCache := cache\<rparr>)
                 else g\<lparr>vncProxyCache := cache\<rparr>), s1))"

text \<open>
  What the proxy sends on: the path with the prefix of the instance, and a body that the server has already
  parsed, printed again by its content type. The text of a form is made by the package \<open>qs\<close>.
\<close>

definition proxied_path :: "string \<Rightarrow> string \<Rightarrow> string \<Rightarrow> string" where
  "proxied_path base i url = (let p = base @ i in if starts_with p url then url else p @ url)"

definition proxied_body :: "env \<Rightarrow> (jobject \<Rightarrow> string) \<Rightarrow> string option \<Rightarrow> jobject \<Rightarrow> string option" where
  "proxied_body E qs_stringify contentType body =
     (if body = [] then None
      else if contentType = Some ''application/json'' then Some (JSON_stringify E (JObj body))
      else if contentType = Some ''application/x-www-form-urlencoded'' then Some (qs_stringify body)
      else None)"

subsection \<open>Setting a web socket up\<close>

text \<open>
  The container a web socket is joined to, or the code and reason of the close. The request has no user here:
  neither session nor token is looked at.
\<close>

definition connect_socket ::
    "env \<Rightarrow> mongo \<Rightarrow> IConfiguration \<Rightarrow> string \<Rightarrow> string \<Rightarrow> string option \<Rightarrow> db \<Rightarrow> ((nat \<times> string) + string) \<times> db" where
  "connect_socket E M cfg base invalid url s =
     (case url of
        None \<Rightarrow> (Inl (4004, invalid), s)
      | Some x \<Rightarrow>
          if \<not> starts_with base x then (Inl (4004, invalid), s)
          else if path_instance x = [] then (Inl (4004, ''Missing instance ID''), s)
          else (case getInstanceTarget E M cfg (path_instance x) None s of
                  (Inl e, s1) \<Rightarrow> (Inl (4013, ''Failed to get container IP''), s1)
                | (Inr (ip, port), s1) \<Rightarrow> (Inr (''ws://'' @ host_port ip port @ x), s1)))"

definition jupyter_connect ::
    "env \<Rightarrow> mongo \<Rightarrow> IConfiguration \<Rightarrow> string option \<Rightarrow> db \<Rightarrow> ((nat \<times> string) + string) \<times> db" where
  "jupyter_connect E M cfg url s =
     (case url of
        None \<Rightarrow> (Inl (4004, ''Invalid Jupyter path''), s)
      | Some x \<Rightarrow>
          if x = [] then (Inl (4004, ''Invalid Jupyter path''), s)
          else connect_socket E M cfg ''/jupyter'' ''Invalid Jupyter path'' (Some x) s)"

definition vnc_connect ::
    "env \<Rightarrow> mongo \<Rightarrow> IConfiguration \<Rightarrow> string option \<Rightarrow> db \<Rightarrow> ((nat \<times> string) + string) \<times> db" where
  "vnc_connect E M cfg url s = connect_socket E M cfg ''/matlab'' ''Invalid VNC path'' url s"

text \<open>The headers of the connection to the container: those of the browser, with host and origin replaced.\<close>

definition socket_headers :: "(string \<Rightarrow> string option) \<Rightarrow> string \<Rightarrow> int \<Rightarrow> (string \<times> string option) list" where
  "socket_headers hdr ip port =
     [(''Sec-WebSocket-Protocol'', Some (case hdr ''sec-websocket-protocol'' of None \<Rightarrow> [] | Some x \<Rightarrow> x)),
      (''Sec-WebSocket-Key'', hdr ''sec-websocket-key''),
      (''Sec-WebSocket-Version'', hdr ''sec-websocket-version''),
      (''Sec-WebSocket-Extensions'', hdr ''sec-websocket-extensions''),
      (''pragma'', hdr ''pragma''),
      (''cache-control'', hdr ''cache-control''),
      (''upgrade'', hdr ''upgrade''),
      (''connection'', hdr ''connection''),
      (''Accept-Encoding'', hdr ''accept-encoding''),
      (''Accept-Language'', hdr ''accept-language''),
      (''User-Agent'', hdr ''user-agent''),
      (''Host'', Some (host_port ip port)),
      (''Origin'', Some ((if hdr ''x-forwarded-proto'' = Some ''https'' then ''wss'' else ''ws'') @ ''://'' @ host_port ip port))]"

text \<open>
  A console is joined to the socket of an operation of the container server. The query of the address names
  the operation and its secret; \<open>qs_parse\<close> is the package \<open>qs\<close>, \<open>encode\<close> is \<open>encodeURIComponent\<close>.
\<close>

definition console_operation :: "env \<Rightarrow> (string \<Rightarrow> jobject) \<Rightarrow> string option \<Rightarrow> string \<times> string" where
  "console_operation E qs_parse url =
     (let q = qs_parse (case url of
                 None \<Rightarrow> []
               | Some x \<Rightarrow> (case split_on (CHR ''?'') x of _ # y # _ \<Rightarrow> y | _ \<Rightarrow> []));
          part = (\<lambda>k. case js_get q k of JUndef \<Rightarrow> [] | v \<Rightarrow> js_String E v)
      in (part ''o'', part ''s''))"

text \<open>\<open>x.replace(p, '')\<close> for a string \<open>p\<close>: the first occurrence goes.\<close>

fun drop_first :: "string \<Rightarrow> string \<Rightarrow> string" where
  "drop_first p [] = []"
| "drop_first p (c # x) = (if starts_with p (c # x) then drop (length p) (c # x) else c # drop_first p x)"

definition getOperationSocket :: "(string \<Rightarrow> string) \<Rightarrow> string \<Rightarrow> string \<Rightarrow> string \<Rightarrow> string" where
  "getOperationSocket encode endpoint operationId operationSecret =
     ''wss://'' @ drop_first ''https://'' endpoint @ ''/1.0/operations/'' @ encode operationId @ ''/websocket?secret='' @ encode operationSecret"

end
