(* ===== verification/GatewayProps.thy ===== *)
theory GatewayProps
  imports Gateway Samples InstanceProps
begin

section \<open>Who reaches a container\<close>

text \<open>
  The HTTP proxies are for the owner of an instance only; the web sockets beside them are open to everybody. The
  caches of the proxies keep one entry for each instance, and a clean-up removes those that nobody has used for half
  an hour.
\<close>

subsection \<open>Paths\<close>

lemma split_on_no: "c \<notin> set x \<Longrightarrow> split_on c x = [x]"
  by (induction x) auto

lemma split_on_cons: "c \<notin> set x \<Longrightarrow> split_on c (x @ c # y) = x # split_on c y"
  by (induction x) auto

lemma path_instance_of:
  assumes "CHR ''/'' \<notin> set a" "CHR ''/'' \<notin> set i"
  shows "path_instance (CHR ''/'' # a @ CHR ''/'' # i) = i"
  using split_on_cons[OF assms(1), of i] assms(2) by (simp add: path_instance_def split_on_no)

lemma jupyter_path_instance: "CHR ''/'' \<notin> set i \<Longrightarrow> path_instance (''/jupyter/'' @ i) = i"
  using path_instance_of[of "''jupyter''" i] by simp

subsection \<open>Access\<close>

lemma verifyInstanceAccess_iff:
  "verifyInstanceAccess M i user_id s \<longleftrightarrow>
     (\<exists>d. getInstanceById M i s = Inr d \<and> user_id = Some (instance_userId d) \<and> instance_userId d \<noteq> [])"
  by (auto simp: verifyInstanceAccess_def truthy_iff split: sum.splits)

lemma proxy_refuses_others:
  assumes "getInstanceById M i s = Inr d" "user_id \<noteq> Some (instance_userId d)" "i \<noteq> []"
  shows "\<exists>x. jupyterProxyMiddleware E M cfg i user_id g s = (Proxy_Refused 403 x, g, s)"
    and "\<exists>x. vncProxyMiddleware E M cfg i user_id g s = (Proxy_Refused 403 x, g, s)"
  using assms by (simp_all add: jupyterProxyMiddleware_def vncProxyMiddleware_def verifyInstanceAccess_iff)

lemma connect_socket_mapped:
  assumes "getInstanceById M (path_instance x) s = Inr d" "mapped_target d = Some (ip, port)"
    and "starts_with base x" "path_instance x \<noteq> []"
  shows "connect_socket E M cfg base m (Some x) s = (Inr (''ws://'' @ host_port ip port @ x), s)"
  using assms by (simp add: connect_socket_def getInstanceTarget_def)

text \<open>
  C31. The owner check of the proxies does not protect a container whose address and port are in the document of its
  instance: a request that is not the owner's, one without any user among them, gets the status 403 from both proxies; but the request to upgrade to a web socket
  passes neither a middleware nor a check, and joins everybody who knows the id of the instance to its container.
\<close>

theorem socket_open_to_all:
  assumes "getInstanceById M i s = Inr d" "mapped_target d = Some (ip, port)"
    and "i \<noteq> []" "CHR ''/'' \<notin> set i" "user_id \<noteq> Some (instance_userId d)"
  shows "(\<exists>x. jupyterProxyMiddleware E M cfg i user_id g s = (Proxy_Refused 403 x, g, s)) \<and>
    (\<exists>x. vncProxyMiddleware E M cfg i user_id g s = (Proxy_Refused 403 x, g, s)) \<and>
    on_upgrade (''/jupyter/'' @ i) h = Jupyter_Server \<and>
    jupyter_connect E M cfg (Some (''/jupyter/'' @ i)) s = (Inr (''ws://'' @ host_port ip port @ ''/jupyter/'' @ i), s) \<and>
    vnc_connect E M cfg (Some (''/matlab/'' @ i)) s = (Inr (''ws://'' @ host_port ip port @ ''/matlab/'' @ i), s)"
proof -
  have "path_instance (''/jupyter/'' @ i) = i" "path_instance (''/matlab/'' @ i) = i"
    using path_instance_of[of "''jupyter''" i] path_instance_of[of "''matlab''" i] assms(4) by simp_all
  then show ?thesis
    using proxy_refuses_others[OF assms(1,5,3)] assms(1-3)
      connect_socket_mapped[of M "''/jupyter/'' @ i" s d ip port "''/jupyter''"]
      connect_socket_mapped[of M "''/matlab/'' @ i" s d ip port "''/matlab''"]
    by (simp add: jupyter_connect_def vnc_connect_def on_upgrade_def starts_with_def)
qed

subsection \<open>Caches\<close>

text \<open>One entry for each instance, made for the address it shows.\<close>

definition cache_ok :: "ProxyCache \<Rightarrow> bool" where
  "cache_ok c \<longleftrightarrow> distinct (map fst c) \<and>
     list_all (\<lambda>(k, p). proxy_target p = ''http://'' @ host_port (proxy_ip p) (proxy_port p)) c"

definition gateway_ok :: "gateway \<Rightarrow> bool" where
  "gateway_ok g \<longleftrightarrow> cache_ok (proxyCache g) \<and> cache_ok (vncProxyCache g)"

lemma set_entry_keys: "fst ` set (put_entry m k v) = insert k (fst ` set m)"
  by (induction m k v rule: put_entry.induct) auto

lemma map_of_set_entry: "map_of (put_entry m k v) k' = (if k' = k then Some v else map_of m k')"
  by (induction m k v rule: put_entry.induct) auto

lemma distinct_set_entry: "distinct (map fst m) \<Longrightarrow> distinct (map fst (put_entry m k v))"
  by (induction m k v rule: put_entry.induct) (auto simp: set_entry_keys)

lemma set_set_entry: "set (put_entry m k v) \<subseteq> insert (k, v) (set m)"
  by (induction m k v rule: put_entry.induct) auto

lemma cache_ok_set_entry:
  "cache_ok c \<Longrightarrow> proxy_target p = ''http://'' @ host_port (proxy_ip p) (proxy_port p) \<Longrightarrow> cache_ok (put_entry c k p)"
  using set_set_entry[of c k p] by (auto simp: cache_ok_def distinct_set_entry list_all_iff)

lemma cache_ok_filter: "cache_ok c \<Longrightarrow> cache_ok (filter q c)"
  by (auto simp: cache_ok_def distinct_map_filter list_all_iff)

lemma cache_ok_lookup:
  "cache_ok c \<Longrightarrow> map_of c i = Some p \<Longrightarrow> proxy_target p = ''http://'' @ host_port (proxy_ip p) (proxy_port p)"
  by (auto simp: cache_ok_def list_all_iff dest!: map_of_SomeD)

lemma cached_proxy_ok:
  assumes "cached_proxy E M cfg i u c s = (Inr (p, c'), s')" "cache_ok c"
  shows "cache_ok c'"
  using assms cache_ok_lookup[OF assms(2), of i]
  by (auto simp: cached_proxy_def Let_def Date_now_def split: option.splits prod.splits sum.splits if_splits
      intro!: cache_ok_set_entry)

text \<open>The middlewares and the upkeep of the caches.\<close>

inductive gateway_step :: "env \<Rightarrow> mongo \<Rightarrow> IConfiguration \<Rightarrow> gateway \<Rightarrow> gateway \<Rightarrow> bool" for E M cfg where
  jupyter: "jupyterProxyMiddleware E M cfg i u g s = (a, g', s') \<Longrightarrow> gateway_step E M cfg g g'"
| vnc: "vncProxyMiddleware E M cfg i u g s = (a, g', s') \<Longrightarrow> gateway_step E M cfg g g'"
| cleanup: "gateway_step E M cfg g (cleanupProxyCaches now g)"
| stop: "gateway_step E M cfg g (stopProxyCacheCleanup g)"
| clear: "gateway_step E M cfg g (clearProxyCacheForInstance i g)"

lemma gateway_step_ok: "gateway_step E M cfg g g' \<Longrightarrow> gateway_ok g \<Longrightarrow> gateway_ok g'"
proof (induction rule: gateway_step.induct)
  case (jupyter i u g s a g' s')
  then show ?case
    by (auto simp: jupyterProxyMiddleware_def gateway_ok_def initializeProxyCacheCleanup_def
        dest: cached_proxy_ok split: if_splits prod.splits sum.splits)
next
  case (vnc i u g s a g' s')
  then show ?case
    by (auto simp: vncProxyMiddleware_def gateway_ok_def initializeProxyCacheCleanup_def
        dest: cached_proxy_ok split: if_splits prod.splits sum.splits)
qed (auto simp: gateway_ok_def cleanupProxyCaches_def stopProxyCacheCleanup_def clearProxyCacheForInstance_def cache_ok_filter)

text \<open>An entry is used as it is: where the container has moved to does not matter while its entry is there.\<close>

lemma cached_proxy_ignores_address:
  assumes "map_of (proxyCache g) i = Some p" "verifyInstanceAccess M i u s" "i \<noteq> []"
  shows "\<exists>g' s' now. jupyterProxyMiddleware E M cfg i u g s = (Proxied (p\<lparr>lastUsed := now\<rparr>), g', s')"
  using assms by (simp add: jupyterProxyMiddleware_def cached_proxy_def Date_now_def Let_def)
    blast

lemma map_of_filter_snd:
  assumes "distinct (map fst c)"
  shows "map_of (filter (\<lambda>(k, p). q p) c) i = (case map_of c i of None \<Rightarrow> None | Some p \<Rightarrow> if q p then Some p else None)"
  using assms
proof (induction c)
  case (Cons x c)
  obtain k p where x: "x = (k, p)" by fastforce
  have "map_of c k = None" using Cons(2) x by (simp add: map_of_eq_None_iff)
  then show ?case using Cons x by (auto split: option.splits)
qed simp

text \<open>
  A clean-up of the caches removes exactly the proxies that nobody has used for more than half an hour, and closes
  exactly those it removes.
\<close>

theorem cleanup_exact:
  assumes "gateway_ok g"
  shows "map_of (proxyCache (cleanupProxyCaches now g)) i =
      (case map_of (proxyCache g) i of None \<Rightarrow> None
       | Some p \<Rightarrow> if now - lastUsed p \<le> 1800000 then Some p else None) \<and>
    map_of (vncProxyCache (cleanupProxyCaches now g)) i =
      (case map_of (vncProxyCache g) i of None \<Rightarrow> None
       | Some p \<Rightarrow> if now - lastUsed p \<le> 1800000 then Some p else None) \<and>
    mset (closed_proxies (cleanupProxyCaches now g)) +
      mset (targets_of (proxyCache (cleanupProxyCaches now g))) + mset (targets_of (vncProxyCache (cleanupProxyCaches now g))) =
    mset (closed_proxies g) + mset (targets_of (proxyCache g)) + mset (targets_of (vncProxyCache g))"
proof -
  have d: "distinct (map fst (proxyCache g))" "distinct (map fst (vncProxyCache g))"
    using assms by (auto simp: gateway_ok_def cache_ok_def)
  have part: "mset (targets_of (filter (\<lambda>(k, p). \<not> stale now p) c)) + mset (targets_of (filter (\<lambda>(k, p). stale now p) c)) =
      mset (targets_of c)" for c
    by (induction c) (auto simp: targets_of_def)
  have "mset (closed_proxies (cleanupProxyCaches now g)) +
      mset (targets_of (proxyCache (cleanupProxyCaches now g))) + mset (targets_of (vncProxyCache (cleanupProxyCaches now g))) =
    mset (closed_proxies g) + mset (targets_of (proxyCache g)) + mset (targets_of (vncProxyCache g))"
    unfolding part[of "proxyCache g", symmetric] part[of "vncProxyCache g", symmetric]
    by (simp add: cleanupProxyCaches_def)
  moreover have "map_of (proxyCache (cleanupProxyCaches now g)) i =
      (case map_of (proxyCache g) i of None \<Rightarrow> None | Some p \<Rightarrow> if now - lastUsed p \<le> 1800000 then Some p else None)"
    by (auto simp: cleanupProxyCaches_def map_of_filter_snd[OF d(1)] stale_def PROXY_CACHE_TTL_def split: option.splits)
  moreover have "map_of (vncProxyCache (cleanupProxyCaches now g)) i =
      (case map_of (vncProxyCache g) i of None \<Rightarrow> None | Some p \<Rightarrow> if now - lastUsed p \<le> 1800000 then Some p else None)"
    by (auto simp: cleanupProxyCaches_def map_of_filter_snd[OF d(2)] stale_def PROXY_CACHE_TTL_def split: option.splits)
  ultimately show ?thesis by blast
qed

subsection \<open>Concrete inputs\<close>

text \<open>A running instance of ann, reachable at a port of its host; and caches with an old and a recent proxy.\<close>

definition reachable0 :: db where
  "reachable0 = full0\<lparr>instance_collection := [(instance0 ''a'' 30001)\<lparr>lxdState :=
     Some \<lparr>cpu_usage = 0, memory_usage = 0, network = None, hostIp = Some ''10.0.0.1''\<rparr>\<rparr>]\<rparr>"

definition entry0 :: "int \<Rightarrow> ProxyEntry" where
  "entry0 t = \<lparr>proxy_target = ''http://10.0.0.1:30001'', proxy_ip = ''10.0.0.1'', proxy_port = 30001, lastUsed = t\<rparr>"

definition gateway0 :: gateway where
  "gateway0 = \<lparr>proxyCache = [(''a'', entry0 0), (''b'', entry0 2000000)], vncProxyCache = [], cleanupInterval = True,
     closed_proxies = []\<rparr>"

theorem socket_open_to_all_witness:
  "jupyter_connect env0 list_mongo cfg0 (Some ''/jupyter/a'') reachable0 = (Inr ''ws://10.0.0.1:30001/jupyter/a'', reachable0) \<and>
   (\<exists>x. jupyterProxyMiddleware env0 list_mongo cfg0 ''a'' None gateway0 reachable0 = (Proxy_Refused 403 x, gateway0, reachable0))"
proof -
  obtain d where d: "getInstanceById list_mongo ''a'' reachable0 = Inr d" "mapped_target d = Some (''10.0.0.1'', 30001)"
    by (simp add: getInstanceById_def find_instance_def reachable0_def mapped_target_def instance_eval)
  have p: "host_port ''10.0.0.1'' 30001 = ''10.0.0.1:30001''"
    by (simp add: host_port_def int_string_def string_of_nat.simps)
  show ?thesis
    using socket_open_to_all[OF d, of None env0 cfg0 gateway0 None] by (simp add: p)
qed

theorem cleanup_exact_witness:
  "map_of (proxyCache (cleanupProxyCaches 2000001 gateway0)) ''a'' = None \<and>
   map_of (proxyCache (cleanupProxyCaches 2000001 gateway0)) ''b'' = Some (entry0 2000000)"
proof -
  have "gateway_ok gateway0"
    by (simp add: gateway_ok_def cache_ok_def gateway0_def entry0_def host_port_def int_string_def string_of_nat.simps)
  from cleanup_exact[OF this, of 2000001 "''a''"] cleanup_exact[OF this, of 2000001 "''b''"] show ?thesis
    by (simp add: gateway0_def entry0_def)
qed

end
