(* ===== verification/DriveCopy.thy ===== *)
theory DriveCopy
  imports DriveTree
begin

section \<open>Copying a drive (\<open>copyDrive\<close> of \<open>driveCore.ts\<close>)\<close>

text \<open>
  A drive and everything below it is copied under another folder, with new ids. The map from the old ids to
  the new ones has no entry for a drive that was not found (a child that is deleted stays in the list of its
  folder), and the code then stores \<open>undefined\<close> in a path or a list of children. A document with such an
  entry is not a value of the model: the outcome \<open>Copy_Undefined_Id\<close> says that the code stores one.
  \<open>Copy_Diverges\<close> says that the walk of the drive does not return within the fuel.
\<close>

datatype copy_outcome = Copy_Diverges | Copy_Undefined_Id | Copied "IGenericResponse result" db

definition shared_read :: "string \<Rightarrow> IDrive \<Rightarrow> bool" where
  "shared_read u d = list_ex (\<lambda>el. iid el = u \<and> can_read el) (sharedUsers d)"

text \<open>The total size of the user's files; here the cursor is read to its end.\<close>

definition repo_size :: "mongo \<Rightarrow> string \<Rightarrow> db \<Rightarrow> int" where
  "repo_size M u s =
     sum_list (map fileSize (find_many (files_dr M) (files_collection s) (\<lambda>f. alive f \<and> file_userId f = Some u)))"

fun new_ids :: "env \<Rightarrow> IDrive list \<Rightarrow> db \<Rightarrow> (string \<times> string) list \<times> db" where
  "new_ids E [] s = ([], s)"
| "new_ids E (d # ds) s =
     (let (i, s1) = uuid E s; (m, s2) = new_ids E ds s1 in ((doc_id d, i) # m, s2))"

text \<open>\<open>xs.slice(xs.indexOf(x))\<close>: where \<open>x\<close> is missing, the index is -1 and the slice the last element.\<close>

definition slice_from :: "'a \<Rightarrow> 'a list \<Rightarrow> 'a list" where
  "slice_from x xs = (if x \<in> set xs then dropWhile (\<lambda>y. y \<noteq> x) xs else drop (length xs - 1) xs)"

fun all_defined :: "'a option list \<Rightarrow> 'a list option" where
  "all_defined [] = Some []"
| "all_defined (None # xs) = None"
| "all_defined (Some x # xs) = map_option ((#) x) (all_defined xs)"

text \<open>The new document: \<open>None\<close> when it has an undefined id.\<close>

definition copied_node ::
    "(string \<times> string) list \<Rightarrow> string \<Rightarrow> IDrive \<Rightarrow> IUserWithoutToken \<Rightarrow> IDrive \<Rightarrow> string option \<Rightarrow> int \<Rightarrow> IDrive option" where
  "copied_node idMap driveId target req drive newFileUri now =
     (case (map_of idMap (doc_id drive), all_defined (map (map_of idMap) (slice_from driveId (path drive))),
            all_defined (map (map_of idMap) (children drive))) of
        (Some i, Some p, Some cs) \<Rightarrow> Some \<lparr>doc_id = i, life = new_life now (doc_id req), metadata = metadata drive,
           managerId = Uid (doc_id req), path = path target @ p, restricted = False, drive_name = drive_name drive,
           drive_description = drive_description drive, fileId = newFileUri, drive_type = drive_type drive,
           parent = Some (case map_of idMap (the (parent drive)) of Some q \<Rightarrow> q | None \<Rightarrow> doc_id target),
           children = cs, sharedUsers = [], childeren = None\<rparr>
      | _ \<Rightarrow> None)"

text \<open>
  The object of a file is copied under a new name, and the new document gets this name as its \<open>fileId\<close>. A
  document whose file is missing is left out.
\<close>

definition copy_one ::
    "env \<Rightarrow> mongo \<Rightarrow> string option \<Rightarrow> (string \<times> string) list \<Rightarrow> string \<Rightarrow> IDrive \<Rightarrow> IUserWithoutToken \<Rightarrow>
     IDrive \<Rightarrow> db \<Rightarrow> IDrive option option result \<times> db" where
  "copy_one E M bucket idMap driveId target req drive s =
     (if \<not> truthy (parent drive) then (Inr None, s)
      else
        (case fileId drive of
           None \<Rightarrow>
             (let (now, s1) = Date_now E s
              in (Inr (Some (copied_node idMap driveId target req drive None now)), s1))
         | Some fid \<Rightarrow>
             (let (newFileUri, s1) = uuid E s
              in case findOne (files_dr M) (files_collection s1) (\<lambda>f. doc_id f = fid) of
                   None \<Rightarrow> (Inr None, s1)
                 | Some file \<Rightarrow>
                     (case objStore_copyObject E (nullish bucket []) (uri file) bucket newFileUri s1 of
                        (Inl e, s2) \<Rightarrow> (Inl e, s2)
                      | (Inr _, s2) \<Rightarrow>
                          (let (now, s3) = Date_now E s2
                           in (Inr (Some (copied_node idMap driveId target req drive (Some newFileUri) now)), s3))))))"

fun copy_nodes ::
    "env \<Rightarrow> mongo \<Rightarrow> string option \<Rightarrow> (string \<times> string) list \<Rightarrow> string \<Rightarrow> IDrive \<Rightarrow> IUserWithoutToken \<Rightarrow>
     IDrive list \<Rightarrow> db \<Rightarrow> IDrive option list result \<times> db" where
  "copy_nodes E M bucket idMap driveId target req [] s = (Inr [], s)"
| "copy_nodes E M bucket idMap driveId target req (drive # drives) s =
     (case copy_one E M bucket idMap driveId target req drive s of
        (Inl e, s1) \<Rightarrow> (Inl e, s1)
      | (Inr x, s1) \<Rightarrow>
     (case copy_nodes E M bucket idMap driveId target req drives s1 of
        (Inl e, s2) \<Rightarrow> (Inl e, s2)
      | (Inr ns, s2) \<Rightarrow> (Inr (case x of None \<Rightarrow> ns | Some n \<Rightarrow> n # ns), s2)))"

text \<open>An ordered \<open>insertMany\<close> stops at the first document that is refused; without documents it throws.\<close>

fun insert_all :: "IDrive driver \<Rightarrow> IDrive list \<Rightarrow> IDrive list \<Rightarrow> bool \<times> IDrive list" where
  "insert_all dr [] c = (True, c)"
| "insert_all dr (d # ds) c =
     (case insertOne dr c d of None \<Rightarrow> (False, c) | Some c1 \<Rightarrow> insert_all dr ds c1)"

definition insertMany :: "IDrive driver \<Rightarrow> IDrive list \<Rightarrow> IDrive list \<Rightarrow> bool \<times> IDrive list" where
  "insertMany dr ds c = (if ds = [] then (False, c) else insert_all dr ds c)"

definition copy_allowed :: "mongo \<Rightarrow> IUserWithoutToken \<Rightarrow> string \<Rightarrow> string \<Rightarrow> db \<Rightarrow> (IDrive \<times> IDrive) option" where
  "copy_allowed M req driveId targetParentId s =
     (case findOne (drives_dr M) (drives_collection s) (\<lambda>d. doc_id d = driveId \<and> alive d) of
        None \<Rightarrow> None
      | Some drive \<Rightarrow>
     if parent drive = None \<or> managerId drive \<noteq> Uid (doc_id req) \<and> \<not> shared_read (doc_id req) drive then None
     else
     (case findOne (drives_dr M) (drives_collection s) (\<lambda>d. doc_id d = targetParentId \<and> alive d) of
        None \<Rightarrow> None
      | Some target \<Rightarrow>
          if managerId target \<noteq> Uid (doc_id req) \<and> \<not> shared_write (doc_id req) target then None
          else Some (drive, target)))"

definition copyDrive ::
    "nat \<Rightarrow> env \<Rightarrow> mongo \<Rightarrow> requester \<Rightarrow> string \<Rightarrow> string \<Rightarrow> db \<Rightarrow> copy_outcome" where
  "copyDrive n E M requester driveId targetParentId s =
     (case requester of
        None \<Rightarrow> Copied (Inl (core_error NOT_LOGGED_IN)) s
      | Some req \<Rightarrow>
     (case copy_allowed M req driveId targetParentId s of
        None \<Rightarrow> Copied (Inl (core_error NO_PERMISSION_ERROR)) s
      | Some (drive, target) \<Rightarrow>
     (case recursiveFindDrives n M s drive ([], []) of
        None \<Rightarrow> Copy_Diverges
      | Some (_, driveIds) \<Rightarrow>
     (let userConfig = config_or M s USERCONFIG (Some (doc_id req)) (UserProps default_userConfig);
          drives = find_many (drives_dr M) (drives_collection s) (\<lambda>d. doc_id d \<in> set driveIds);
          remaining = map_option (\<lambda>m. m - repo_size M (doc_id req) s) (config_fileRepoSize userConfig);
          fileIds = List.map_filter fileId (filter (\<lambda>d. drive_type d = FILE) drives);
          files = find_many (files_dr M) (files_collection s) (\<lambda>f. doc_id f \<in> set fileIds)
      in if exceeds (sum_list (map fileSize files)) remaining
         then Copied (Inl (CoreError CLIENT_MALFORMED_INPUT ''User repo size exceeded.'')) s
         else
        (let (idMap, s1) = new_ids E drives s
         in case copy_nodes E M (config_fileBucketId userConfig) idMap driveId target req drives s1 of
              (Inl e, s2) \<Rightarrow> Copied (Inl e) s2
            | (Inr nodes, s2) \<Rightarrow>
                (case all_defined nodes of
                   None \<Rightarrow> Copy_Undefined_Id
                 | Some docs \<Rightarrow>
                     (let (ok, c) = insertMany (drives_dr M) docs (drives_collection s2);
                          s3 = s2\<lparr>drives_collection := c\<rparr>
                      in Copied (if ok then Inr (makeGenericResponse (Some driveId) (Some True) None
                                                   (Some ''Drive copied successfully.''))
                                 else Inl MongoServerError) s3)))))))"

subsection \<open>What a copy is\<close>

lemma all_defined_Some: "all_defined xs = Some ys \<longleftrightarrow> xs = map Some ys"
proof (induction xs arbitrary: ys rule: all_defined.induct)
  case (3 x xs)
  then show ?case by (cases ys) auto
qed auto

lemma objStore_copyObject_frame:
  "objStore_copyObject E b u t v s = (r, s') \<Longrightarrow> files_collection s' = files_collection s \<and>
     drives_collection s' = drives_collection s \<and> uuid_next s' = uuid_next s"
  by (auto simp: objStore_copyObject_def split: option.splits)

lemma new_ids_frame:
  "new_ids E ds s = (m, s') \<Longrightarrow> files_collection s' = files_collection s \<and>
     drives_collection s' = drives_collection s \<and> uuid_next s \<le> uuid_next s'"
  by (induction ds arbitrary: s m) (auto simp: uuid_def Let_def split: prod.splits, force)

text \<open>Nothing but new documents comes of the loop, and the files they name are the names of new objects.\<close>

definition copy_of :: "env \<Rightarrow> db \<Rightarrow> IUserWithoutToken \<Rightarrow> IDrive \<Rightarrow> bool" where
  "copy_of E s req d \<longleftrightarrow> managerId d = Uid (doc_id req) \<and> sharedUsers d = [] \<and> alive d \<and> parent d \<noteq> None \<and>
     (case fileId d of None \<Rightarrow> True | Some u \<Rightarrow> u \<in> uuid_gen E ` {uuid_next s..})"

lemma copied_node_copy:
  assumes "copied_node m i t req drive u now = Some d"
    and "case u of None \<Rightarrow> True | Some u \<Rightarrow> u \<in> uuid_gen E ` {uuid_next s..}"
  shows "copy_of E s req d"
  using assms by (auto simp: copied_node_def copy_of_def alive_def new_life_def split: option.splits)

lemma copy_of_later: "copy_of E s1 req d \<Longrightarrow> uuid_next s \<le> uuid_next s1 \<Longrightarrow> copy_of E s req d"
  by (force simp: copy_of_def split: option.splits)

lemma copy_one_copies:
  assumes "copy_one E M b m i t req drive s = (r, s')"
  shows "files_collection s' = files_collection s \<and> drives_collection s' = drives_collection s \<and>
    uuid_next s \<le> uuid_next s' \<and> (\<forall>d. r = Inr (Some (Some d)) \<longrightarrow> copy_of E s req d)"
  using assms copied_node_copy[of m i t req drive None] copied_node_copy[of m i t req drive "Some (uuid_gen E (uuid_next s))" _ _ E s]
  by (auto simp: copy_one_def Date_now_def uuid_def split: if_splits option.splits prod.splits sum.splits
      dest!: objStore_copyObject_frame)

lemma copy_nodes_copies:
  assumes "copy_nodes E M b m i t req ds s = (r, s')"
  shows "files_collection s' = files_collection s \<and> drives_collection s' = drives_collection s \<and>
    (\<forall>ns d. r = Inr ns \<longrightarrow> Some d \<in> set ns \<longrightarrow> copy_of E s req d)"
  using assms
proof (induction ds arbitrary: s r s')
  case (Cons drive ds)
  obtain r1 s1 where one: "copy_one E M b m i t req drive s = (r1, s1)" by fastforce
  obtain r2 s2 where rest: "copy_nodes E M b m i t req ds s1 = (r2, s2)" by fastforce
  show ?case
    using copy_one_copies[OF one] Cons.IH[OF rest] Cons.prems one rest copy_of_later[of E s1 req _ s]
    by (auto split: sum.splits option.splits)
qed simp

context mongo_db
begin

lemma insert_all_set:
  "insert_all (drives_dr M) ds c = (ok, c') \<Longrightarrow>
     set c \<subseteq> set c' \<and> set c' \<subseteq> set c \<union> set ds \<and> (ok \<longrightarrow> set c' = set c \<union> set ds)"
proof (induction ds arbitrary: c)
  case (Cons d ds)
  show ?case
  proof (cases "insertOne (drives_dr M) c d")
    case (Some c1)
    then show ?thesis using Cons.IH[of c1] Cons.prems drives_store.insertOne_set[OF Some] by auto
  qed (use Cons.prems in auto)
qed simp

lemma copyDrive_copies:
  assumes "copyDrive n E M (Some req) i t s = Copied (Inr r) s'"
  shows "files_collection s' = files_collection s \<and> set (drives_collection s) \<subseteq> set (drives_collection s') \<and>
    (\<forall>d \<in> set (drives_collection s') - set (drives_collection s). copy_of E s req d)"
proof -
  obtain m s1 b drive target ds nodes s2 docs ok c where
    ids: "new_ids E ds s = (m, s1)" and
    nodes: "copy_nodes E M b m i target req ds s1 = (Inr nodes, s2)" and docs: "all_defined nodes = Some docs"
    and ins: "insertMany (drives_dr M) docs (drives_collection s2) = (ok, c)" and ok: "ok"
    and s': "s' = s2\<lparr>drives_collection := c\<rparr>"
    using assms by (auto simp: copyDrive_def Let_def split: option.splits prod.splits sum.splits if_splits)
  have "insert_all (drives_dr M) docs (drives_collection s2) = (True, c)"
    using ins ok by (simp add: insertMany_def split: if_splits)
  from insert_all_set[OF this] have c: "set c = set (drives_collection s2) \<union> set docs" by simp
  have "copy_of E s req d" if "d \<in> set docs" for d
    using copy_nodes_copies[OF nodes] docs that new_ids_frame[OF ids] copy_of_later[of E s1 req d s]
    by (auto simp: all_defined_Some)
  then show ?thesis
    using copy_nodes_copies[OF nodes] new_ids_frame[OF ids] c by (auto simp: s')
qed

end

text \<open>
  C32. A copy of a drive is the requester's own and shared with nobody, and nothing that was there before changes;
  but a copied file cannot be opened: its document names the copied object where the id of a file belongs, so
  no file with that id exists (as long as no file has an id that is still to be drawn).
\<close>

theorem copied_files_dangle:
  assumes "mongo_ok M" "copyDrive n E M (Some req) i t s = Copied (Inr r) s'"
    and "\<And>k. uuid_next s \<le> k \<Longrightarrow> uuid_gen E k \<notin> doc_id ` set (files_collection s)"
  shows "set (drives_collection s) \<subseteq> set (drives_collection s') \<and> files_collection s' = files_collection s \<and>
    (\<forall>d \<in> set (drives_collection s') - set (drives_collection s).
       managerId d = Uid (doc_id req) \<and> sharedUsers d = [] \<and> alive d \<and>
       (\<forall>u. fileId d = Some u \<longrightarrow> u \<notin> doc_id ` set (files_collection s')))"
proof -
  note c = mongo_db.copyDrive_copies[OF mongo_db.intro[OF assms(1)] assms(2)]
  have u: "u \<notin> doc_id ` set (files_collection s)" if "copy_of E s req d" "fileId d = Some u" for d u
    using that assms(3) by (auto simp: copy_of_def)
  have "managerId d = Uid (doc_id req) \<and> sharedUsers d = [] \<and> alive d \<and>
      (\<forall>u. fileId d = Some u \<longrightarrow> u \<notin> doc_id ` set (files_collection s))" if "copy_of E s req d" for d
    using u[OF that] that by (simp add: copy_of_def)
  then show ?thesis using c by auto
qed

definition stored0 :: db where
  "stored0 = drives0\<lparr>store := \<lparr>buckets = [''user''], objects = [((''user'', ''f''), ''x'')]\<rparr>\<rparr>"

lemma stored0_copy: "(case copyDrive 4 env0 list_mongo (Some (user0 ''ann'' STANDARD)) ''F'' ''B'' stored0 of
      Copied (Inr r) s' \<Rightarrow> list_ex (\<lambda>d. fileId d = Some ''id-i'' \<and> parent d = Some ''B'') (drives_collection s')
    | _ \<Rightarrow> False)"
  by code_simp

theorem copied_files_dangle_witness:
  "\<exists>r s' d. copyDrive 4 env0 list_mongo (Some (user0 ''ann'' STANDARD)) ''F'' ''B'' stored0 = Copied (Inr r) s' \<and>
     d \<in> set (drives_collection s') \<and> fileId d = Some ''id-i'' \<and> ''id-i'' \<notin> doc_id ` set (files_collection s')"
proof -
  obtain r s' d where c: "copyDrive 4 env0 list_mongo (Some (user0 ''ann'' STANDARD)) ''F'' ''B'' stored0 = Copied (Inr r) s'"
    and d: "d \<in> set (drives_collection s')" "fileId d = Some ''id-i''" "parent d = Some ''B''"
    using stored0_copy by (auto simp: list_ex_iff split: copy_outcome.splits sum.splits)
  have n: "d \<notin> set (drives_collection stored0)" using d(2) by (auto simp: stored0_def drives0_simps)
  have u: "uuid_gen env0 k \<notin> doc_id ` set (files_collection stored0)" for k
    by (simp add: stored0_def drives0_simps env0_def file0_def)
  have "\<forall>d \<in> set (drives_collection s') - set (drives_collection stored0).
      \<forall>u. fileId d = Some u \<longrightarrow> u \<notin> doc_id ` set (files_collection s')"
    using copied_files_dangle[OF list_mongo_ok c u] by blast
  then have "''id-i'' \<notin> doc_id ` set (files_collection s')" using d(1,2) n by blast
  then show ?thesis using c d(1,2) by (intro exI conjI)
qed

end
