(* ===== verification/WebDav.thy ===== *)
theory WebDav
  imports DriveCopy Users Study DataReports
begin

section \<open>The WebDAV file system (\<open>dmpWebDAV.ts\<close>)\<close>

text \<open>
  The class \<open>DMPFileSystem\<close> shows drives and studies as a file system, over the operations of the core classes;
  \<open>DMPWebDAVAuthentication\<close> finds the user of a request. The package \<open>webdav-server\<close> calls a method with a
  path and a callback. A method may call back, call back with an error, end without ever calling
  back, or throw, in which case there is no call either.
\<close>

datatype 'a dav = Dav_Done 'a | Dav_Error string | Dav_Silent | Dav_Rejected

subsection \<open>Paths\<close>

definition pathToArray :: "string \<Rightarrow> string list" where
  "pathToArray p = filter (\<lambda>x. x \<noteq> []) (split_on (CHR ''/'') p)"

text \<open>\<open>given.every((part, index) => part === path[index])\<close>: a path that is too short has \<open>undefined\<close> there.\<close>

definition isPathIncluded :: "string list \<Rightarrow> string list list \<Rightarrow> bool" where
  "isPathIncluded given paths = list_ex (\<lambda>p. take (length given) p = given) paths"

definition getDirectChildren :: "string list list \<Rightarrow> string list \<Rightarrow> string list" where
  "getDirectChildren allPaths base =
     rev (remdups (rev (map (\<lambda>p. p ! length base)
       (filter (\<lambda>p. length base < length p \<and> take (length base) p = base) allPaths))))"

definition first_with_id :: "IDrive list \<Rightarrow> string \<Rightarrow> IDrive option" where
  "first_with_id ds i = find (\<lambda>d. doc_id d = i) ds"

text \<open>The names along the path of a drive; an id that is not among the drives is skipped.\<close>

definition names_of :: "IDrive list \<Rightarrow> IDrive \<Rightarrow> string list" where
  "names_of ds d = List.map_filter (\<lambda>i. map_option drive_name (first_with_id ds i)) (path d)"

definition convertToWebDAVPaths :: "IDrive list \<Rightarrow> string \<Rightarrow> string list option \<Rightarrow> string list" where
  "convertToWebDAVPaths ds pathStr prefix =
     (let allPaths = map (names_of ds) ds
      in getDirectChildren (case prefix of None \<Rightarrow> allPaths | Some p \<Rightarrow> map ((@) p) allPaths) (pathToArray pathStr))"

text \<open>The groups of \<open>getDrives\<close> as the object it is, by the text of the manager.\<close>

type_synonym drive_dir = "(uref \<times> IDrive list) list"

definition dir_get :: "drive_dir \<Rightarrow> string \<Rightarrow> IDrive list option" where
  "dir_get dir u = map_of (rev (map (\<lambda>(m, ds). (uref_String m, ds)) dir)) u"

definition dir_keys :: "drive_dir \<Rightarrow> string list" where
  "dir_keys dir = remdups (map (\<lambda>(m, ds). uref_String m) dir)"

text \<open>\<open>/\.[^/]+$/\<close>: the last part of the path has a dot that is not its last character.\<close>

definition has_extension :: "string \<Rightarrow> bool" where
  "has_extension p \<longleftrightarrow> CHR ''.'' \<in> set (butlast (rev (takeWhile (\<lambda>c. c \<noteq> CHR ''/'') (rev p))))"

datatype ResourceType = Dav_File | Dav_Directory

definition dav_type :: "string \<Rightarrow> ResourceType" where
  "dav_type p = (if has_extension p then Dav_File else Dav_Directory)"

subsection \<open>\<open>_fastExistCheck\<close>\<close>

text \<open>The drives that others share: their paths without the ids that the requester does not see.\<close>

definition shared_drives :: "IDrive list \<Rightarrow> IDrive list" where
  "shared_drives ds = map (\<lambda>d. d\<lparr>path := filter (\<lambda>i. i \<in> doc_id ` set ds) (path d)\<rparr>) ds"

definition owner_name :: "IUser list \<Rightarrow> string \<Rightarrow> string option" where
  "owner_name users u = map_option (\<lambda>w. firstname w @ '' '' @ lastname w) (find (\<lambda>w. doc_id w = u) users)"

definition shared_paths :: "IUser list \<Rightarrow> drive_dir \<Rightarrow> string \<Rightarrow> string list list" where
  "shared_paths users dir me =
     concat (map (\<lambda>u. let ds = shared_drives (the (dir_get dir u))
                      in map (\<lambda>d. ''Shared'' # nullish (owner_name users u) ''NA'' # names_of ds d) ds)
       (filter (\<lambda>u. u \<noteq> me) (dir_keys dir)))"

definition fastExistCheck ::
    "env \<Rightarrow> mongo \<Rightarrow> bool \<Rightarrow> IUserWithoutToken \<Rightarrow> string \<Rightarrow> db \<Rightarrow> bool dav \<times> db" where
  "fastExistCheck E M isCopying user p s =
     (let arr = pathToArray p in
      if p = ''/'' then (Dav_Done True, s)
      else case arr of
        [] \<Rightarrow> (case getStudies M (Some user) None s of
                 Inl e \<Rightarrow> (Dav_Rejected, s)
               | Inr studies \<Rightarrow> (Dav_Done False, s))
      | a # rest \<Rightarrow>
          if a = ''My Drive'' then
            (if isCopying then (Dav_Done True, s)
             else (case getDrives E M (Some user) None s of
                (Inl e, s1) \<Rightarrow> (Dav_Rejected, s1)
              | (Inr dir, s1) \<Rightarrow>
                  (case dir_get dir (doc_id user) of
                     None \<Rightarrow> (Dav_Done False, s1)
                   | Some ds \<Rightarrow> (Dav_Done (isPathIncluded arr (map (names_of ds) ds)), s1))))
          else if a = ''Shared'' then
            (if rest = [] then (Dav_Done True, s)
             else (case getDrives E M (Some user) None s of
                (Inl e, s1) \<Rightarrow> (Dav_Rejected, s1)
              | (Inr dir, s1) \<Rightarrow>
                  (Dav_Done (isPathIncluded arr
                     (shared_paths (find_many (users_dr M) (users_collection s1) alive) dir (doc_id user))), s1)))
          else if rest = [] \<and> a = ''Study'' then (Dav_Done True, s)
          else (case getStudies M (Some user) None s of
                  Inl e \<Rightarrow> (Dav_Rejected, s)
                | Inr studies \<Rightarrow> (Dav_Done (rest \<noteq> [] \<and> hd rest \<in> study_name ` set studies), s)))"

subsection \<open>Finding a node by its names\<close>

text \<open>
  \<open>path.every(...)\<close> with a name for each id: \<open>None\<close> when an id is not found, which throws. The filter
  looks at every drive, so one such drive throws whatever the result is.
\<close>

fun every_name :: "IDrive list \<Rightarrow> string list \<Rightarrow> string list \<Rightarrow> bool option" where
  "every_name ds [] names = Some True"
| "every_name ds (i # rest) names =
     (case first_with_id ds i of
        None \<Rightarrow> None
      | Some d \<Rightarrow>
          (case names of
             [] \<Rightarrow> Some False
           | n # ns \<Rightarrow> if drive_name d = n then every_name ds rest ns else Some False))"

fun filter_throw :: "('a \<Rightarrow> bool option) \<Rightarrow> 'a list \<Rightarrow> 'a list option" where
  "filter_throw f [] = Some []"
| "filter_throw f (x # xs) =
     (case f x of None \<Rightarrow> None | Some b \<Rightarrow> map_option (\<lambda>ys. if b then x # ys else ys) (filter_throw f xs))"

definition node_at :: "IDrive list \<Rightarrow> string list \<Rightarrow> IDrive option option" where
  "node_at ds names =
     map_option (\<lambda>xs. case xs of [] \<Rightarrow> None | x # _ \<Rightarrow> Some x)
       (filter_throw (\<lambda>d. if length (path d) = length names then every_name ds (path d) names else Some False) ds)"

text \<open>\<open>_create\<close> tests the names first and the length after them.\<close>

definition parent_at :: "IDrive list \<Rightarrow> string list \<Rightarrow> IDrive option option" where
  "parent_at ds names =
     map_option (\<lambda>xs. case xs of [] \<Rightarrow> None | x # _ \<Rightarrow> Some x)
       (filter_throw (\<lambda>d. map_option (\<lambda>b. b \<and> length (path d) = length names) (every_name ds (path d) names)) ds)"

text \<open>The drives of the user: no result where \<open>getDrives\<close> throws, or the user has none and \<open>.filter\<close> throws.\<close>

definition own_drives :: "env \<Rightarrow> mongo \<Rightarrow> IUserWithoutToken \<Rightarrow> db \<Rightarrow> IDrive list option \<times> db" where
  "own_drives E M user s =
     (case getDrives E M (Some user) None s of
        (Inl e, s1) \<Rightarrow> (None, s1)
      | (Inr dir, s1) \<Rightarrow> (dir_get dir (doc_id user), s1))"

definition root_error :: string where
  "root_error = ''You can not edit the root node''"

definition study_error :: string where
  "study_error = ''You can not edit study data''"

text \<open>The guards at the head of the methods that write. A study is looked for in the second part.\<close>

definition write_guard :: "string list \<Rightarrow> string option" where
  "write_guard arr =
     (if length arr \<le> 1 then Some root_error else if arr ! 1 = ''Study'' then Some study_error else None)"

subsection \<open>Deleting, creating, reading and writing\<close>

text \<open>The outcome and the new state: \<open>None\<close> when the operation below does not return.\<close>

definition dav_delete ::
    "nat \<Rightarrow> env \<Rightarrow> mongo \<Rightarrow> IUserWithoutToken \<Rightarrow> string \<Rightarrow> db \<Rightarrow> (unit dav \<times> db) option" where
  "dav_delete n E M user p s =
     (let arr = pathToArray p in
      case write_guard arr of
        Some e \<Rightarrow> Some (Dav_Error e, s)
      | None \<Rightarrow>
          (case own_drives E M user s of
             (None, s1) \<Rightarrow> Some (Dav_Rejected, s1)
           | (Some ds, s1) \<Rightarrow>
          (case node_at ds arr of
             None \<Rightarrow> Some (Dav_Rejected, s1)
           | Some None \<Rightarrow> Some (Dav_Error ''Failed to delete file'', s1)
           | Some (Some node) \<Rightarrow>
          (case deleteDrive n E M (Some user) (doc_id node) s1 of
             None \<Rightarrow> None
           | Some (Inl e, s2) \<Rightarrow> Some (Dav_Error ''Failed to delete file'', s2)
           | Some (Inr _, s2) \<Rightarrow> Some (Dav_Done (), s2)))))"

text \<open>The result has the new value of \<open>isCopying\<close> as well: a file is only announced here.\<close>

definition dav_create ::
    "env \<Rightarrow> mongo \<Rightarrow> bool \<Rightarrow> IUserWithoutToken \<Rightarrow> string \<Rightarrow> db \<Rightarrow> unit dav \<times> bool \<times> db" where
  "dav_create E M isCopying user p s =
     (let arr = pathToArray p in
      if has_extension p then (Dav_Done (), True, s)
      else case write_guard arr of
        Some e \<Rightarrow> (Dav_Error e, isCopying, s)
      | None \<Rightarrow>
          (case own_drives E M user s of
             (None, s1) \<Rightarrow> (Dav_Rejected, isCopying, s1)
           | (Some ds, s1) \<Rightarrow>
          (case parent_at ds (butlast arr) of
             None \<Rightarrow> (Dav_Rejected, isCopying, s1)
           | Some None \<Rightarrow> (Dav_Error ''You need to create the parent folder first'', isCopying, s1)
           | Some (Some node) \<Rightarrow>
          (case createDriveFolder E M (Some user) (last arr) (Some (doc_id node)) False None s1 of
             (Inl e, s2) \<Rightarrow> (Dav_Error ''Failed to create folder'', isCopying, s2)
           | (Inr _, s2) \<Rightarrow> (Dav_Done (), isCopying, s2)))))"

text \<open>
  \<open>fetch\<close> is the package \<open>node-fetch\<close>: the status is fine and there is a body, or not. A path that leads nowhere
  throws outside of the \<open>try\<close>; a path in no drive gets no answer.
\<close>

definition dav_openReadStream ::
    "env \<Rightarrow> mongo \<Rightarrow> (string \<Rightarrow> string option) \<Rightarrow> IUserWithoutToken \<Rightarrow> string \<Rightarrow> db \<Rightarrow> string dav \<times> db" where
  "dav_openReadStream E M fetch user p s =
     (let arr = pathToArray p in
      case write_guard arr of
        Some e \<Rightarrow> (Dav_Error e, s)
      | None \<Rightarrow>
          if arr ! 0 \<noteq> ''My Drive'' then (Dav_Silent, s)
          else
          (case own_drives E M user s of
             (None, s1) \<Rightarrow> (Dav_Rejected, s1)
           | (Some ds, s1) \<Rightarrow>
          (case node_at ds arr of
             None \<Rightarrow> (Dav_Rejected, s1)
           | Some None \<Rightarrow> (Dav_Rejected, s1)
           | Some (Some node) \<Rightarrow>
          (case fetch (''/file/'' @ (case fileId node of None \<Rightarrow> ''null'' | Some f \<Rightarrow> f)) of
             None \<Rightarrow> (Dav_Error ''Failed to fetch file.'', s1)
           | Some body \<Rightarrow> (Dav_Done body, s1)))))"

text \<open>
  The answers of \<open>_openWriteStream\<close> in order: it calls back a second time after the error for a missing
  folder. The second call hands out a stream, which creates the file when it is finished; the folder is
  \<open>None\<close> where there is none.
\<close>

datatype write_answer = Write_Error string | Write_Stream "IDrive option" string

definition fileName_of :: "string \<Rightarrow> string" where
  "fileName_of p = (let arr = pathToArray p in if arr = [] then [] else last arr)"

definition dav_openWriteStream ::
    "env \<Rightarrow> mongo \<Rightarrow> bool \<Rightarrow> IUserWithoutToken \<Rightarrow> string \<Rightarrow> db \<Rightarrow> write_answer list dav \<times> bool \<times> db" where
  "dav_openWriteStream E M isCopying user p s =
     (let arr = pathToArray p in
      case write_guard arr of
        Some e \<Rightarrow> (Dav_Done [Write_Error e], isCopying, s)
      | None \<Rightarrow>
          if arr ! 0 \<noteq> ''My Drive'' then (Dav_Done [Write_Error ''Path does not exist.''], isCopying, s)
          else
          (case own_drives E M user s of
             (None, s1) \<Rightarrow> (Dav_Rejected, isCopying, s1)
           | (Some ds, s1) \<Rightarrow>
          (case node_at ds (butlast arr) of
             None \<Rightarrow> (Dav_Rejected, isCopying, s1)
           | Some par \<Rightarrow>
               (Dav_Done ((if par = None then [Write_Error ''Path does not exist.''] else []) @
                  [Write_Stream par (fileName_of p)]), False, s1))))"

definition finish_stream ::
    "env \<Rightarrow> mongo \<Rightarrow> IUserWithoutToken \<Rightarrow> IDrive option \<Rightarrow> string \<Rightarrow> string list \<Rightarrow> db \<Rightarrow> unit result dav \<times> db" where
  "finish_stream E M user par name chunks s =
     (case par of
        None \<Rightarrow> (Dav_Rejected, s)
      | Some d \<Rightarrow>
          (case createDriveFile E M (Some user) (Some (doc_id d)) None UNKNOWN
                  \<lparr>filename = name, stream_chunks = [concat chunks], stream_error = None\<rparr> s of
             (Inl e, s1) \<Rightarrow> (Dav_Done (Inl e), s1)
           | (Inr _, s1) \<Rightarrow> (Dav_Done (Inr ()), s1)))"

subsection \<open>\<open>_readDir\<close>\<close>

definition shared_names :: "IUser list \<Rightarrow> drive_dir \<Rightarrow> string \<Rightarrow> string list" where
  "shared_names users dir me =
     map (\<lambda>u. nullish (owner_name users u) ''NA'') (filter (\<lambda>u. u \<noteq> me) (dir_keys dir))"

text \<open>Below \<open>Shared\<close> the paths are computed and dropped: there is no call back.\<close>

definition dav_readDir ::
    "env \<Rightarrow> mongo \<Rightarrow> IUserWithoutToken \<Rightarrow> string \<Rightarrow> db \<Rightarrow> string list dav \<times> db" where
  "dav_readDir E M user p s =
     (let arr = pathToArray p in
      if p = ''/'' then (Dav_Done [''My Drive'', ''Shared'', ''Study''], s)
      else case arr of
        [] \<Rightarrow> (Dav_Error ''Path not found.'', s)
      | a # rest \<Rightarrow>
          if a = ''My Drive'' then
            (case own_drives E M user s of
               (None, s1) \<Rightarrow> (Dav_Rejected, s1)
             | (Some ds, s1) \<Rightarrow> (Dav_Done (convertToWebDAVPaths ds p None), s1))
          else if a = ''Shared'' then
            (case getDrives E M (Some user) None s of
               (Inl e, s1) \<Rightarrow> (Dav_Rejected, s1)
             | (Inr dir, s1) \<Rightarrow>
                 (let users = find_many (users_dr M) (users_collection s1) alive in
                  if rest = [] then (Dav_Done (shared_names users dir (doc_id user)), s1)
                  else if list_ex (\<lambda>u. owner_name users u = None) (filter (\<lambda>u. u \<noteq> doc_id user) (dir_keys dir))
                  then (Dav_Rejected, s1)
                  else (Dav_Silent, s1)))
          else if a = ''Study'' then
            (case getStudies M (Some user) None s of
               Inl e \<Rightarrow> (Dav_Rejected, s)
             | Inr studies \<Rightarrow>
                 (case rest of
                    [] \<Rightarrow> (Dav_Done (map study_name studies), s)
                  | n # _ \<Rightarrow>
                      (case find (\<lambda>d. study_name d = n) studies of
                         None \<Rightarrow> (Dav_Error ''Path not found.'', s)
                       | Some d \<Rightarrow>
                           (case getStudyFiles E M (Some user) (doc_id d) None No_Version False False False s of
                              (Inr (JArr fs), s1) \<Rightarrow>
                                (Dav_Done (map (\<lambda>f. case property_or_undef ''fileName'' f of JStr x \<Rightarrow> x | _ \<Rightarrow> []) fs), s1)
                            | (_, s1) \<Rightarrow> (Dav_Error ''Failed to get study files.'', s1)))))
          else (Dav_Error ''Path not found.'', s))"

subsection \<open>\<open>_copy\<close> and \<open>_move\<close>\<close>

text \<open>
  Both turn the paths of the drives into paths of ids (an id that is not among the drives throws), and look for the one that fits the path of
  names: but they compare the first character of an id with a name, and of the last id of the path they
  take the second character. \<open>None\<close> is a throw, \<open>Some\<close> the text that is used as an id; it is \<open>undefined\<close>, and no id,
  for an id of one character.
\<close>

definition id_paths :: "IDrive list \<Rightarrow> string list list option" where
  "id_paths ds = (if list_all (\<lambda>d. list_all (\<lambda>i. first_with_id ds i \<noteq> None) (path d)) ds then Some (map path ds) else None)"

definition findNodeIdFromPath :: "string list \<Rightarrow> string list list \<Rightarrow> string option option" where
  "findNodeIdFromPath names paths =
     (case find (\<lambda>p. length p = length names \<and> list_all2 (\<lambda>n i. i \<noteq> [] \<and> n = [hd i]) names p) paths of
        None \<Rightarrow> None
      | Some p \<Rightarrow> if p = [] then None else Some (case last p of _ # c # _ \<Rightarrow> Some [c] | _ \<Rightarrow> None))"

definition transfer_ids :: "IDrive list \<Rightarrow> string \<Rightarrow> string \<Rightarrow> (string option \<times> string option) option" where
  "transfer_ids ds src dst =
     (case id_paths ds of
        None \<Rightarrow> None
      | Some paths \<Rightarrow>
          (case (findNodeIdFromPath (pathToArray src) paths, findNodeIdFromPath (butlast (pathToArray dst)) paths) of
             (Some a, Some b) \<Rightarrow> Some (a, b)
           | _ \<Rightarrow> None))"

text \<open>No document has an id that is \<open>undefined\<close>; the query then finds nothing.\<close>

definition dav_copy ::
    "nat \<Rightarrow> env \<Rightarrow> mongo \<Rightarrow> IUserWithoutToken \<Rightarrow> string \<Rightarrow> string \<Rightarrow> db \<Rightarrow> bool dav \<times> copy_outcome option \<times> db" where
  "dav_copy n E M user src dst s =
     (case own_drives E M user s of
        (None, s1) \<Rightarrow> (Dav_Rejected, None, s1)
      | (Some ds, s1) \<Rightarrow>
     (case transfer_ids ds src dst of
        None \<Rightarrow> (Dav_Rejected, None, s1)
      | Some (Some a, Some b) \<Rightarrow>
          (case copyDrive n E M (Some user) a b s1 of
             Copied (Inl e) s2 \<Rightarrow> (Dav_Error ''Failed to copy file.'', None, s2)
           | Copied (Inr _) s2 \<Rightarrow> (Dav_Done True, None, s2)
           | x \<Rightarrow> (Dav_Silent, Some x, s1))
      | _ \<Rightarrow> (Dav_Error ''Failed to copy file.'', None, s1)))"

definition dav_move ::
    "nat \<Rightarrow> env \<Rightarrow> mongo \<Rightarrow> IUserWithoutToken \<Rightarrow> string \<Rightarrow> string \<Rightarrow> db \<Rightarrow> (bool dav \<times> db) option" where
  "dav_move n E M user src dst s =
     (case own_drives E M user s of
        (None, s1) \<Rightarrow> Some (Dav_Rejected, s1)
      | (Some ds, s1) \<Rightarrow>
     (case transfer_ids ds src dst of
        None \<Rightarrow> Some (Dav_Rejected, s1)
      | Some (Some a, b) \<Rightarrow>
          (case editDrive n M (Some user) a None None None b None None s1 of
             None \<Rightarrow> None
           | Some (Inl e, s2) \<Rightarrow> Some (Dav_Error ''Failed to move file.'', s2)
           | Some (Inr _, s2) \<Rightarrow> Some (Dav_Done True, s2))
      | Some (None, _) \<Rightarrow> Some (Dav_Error ''Failed to move file.'', s1)))"

subsection \<open>\<open>DMPWebDAVAuthentication\<close>\<close>

text \<open>
  The header names a user: what stands before the colon of the credentials is an id, and what stands after it is not
  looked at. \<open>from_base64\<close> is \<open>Buffer.from(x, 'base64').toString('ascii')\<close>.
\<close>

definition dav_getUser ::
    "mongo \<Rightarrow> (string \<Rightarrow> string) \<Rightarrow> string option \<Rightarrow> db \<Rightarrow> string + IUserWithoutToken" where
  "dav_getUser M from_base64 authorization s =
     (case authorization of
        None \<Rightarrow> Inl ''No authentication provided''
      | Some h \<Rightarrow>
          if h = [] then Inl ''No authentication provided''
          else if take 6 h \<noteq> ''Basic '' then Inl ''Unsupported authentication method''
          else (let userId = hd (split_on (CHR '':'') (from_base64 (drop 6 h)))
                in case findOne (users_dr M) (users_collection s) (\<lambda>u. alive u \<and> doc_id u = userId) of
                     None \<Rightarrow> Inl ''Invalid credentials''
                   | Some u \<Rightarrow> Inr (without_token u)))"

end
