(* ===== verification/WebDavProps.thy ===== *)
theory WebDavProps
  imports WebDav Samples
begin

section \<open>What the file system gives away and what it refuses\<close>

subsection \<open>Authentication\<close>

lemma split_on_not_Nil [simp]: "split_on c x \<noteq> []"
  by (induction x) (auto split: list.splits)

lemma hd_split_on: "c \<notin> set x \<Longrightarrow> hd (split_on c (x @ c # y)) = x"
proof (induction x)
  case (Cons d x)
  then show ?case by (cases "split_on c (x @ c # y)") auto
qed simp

context mongo_db
begin

lemma dav_getUser_id:
  assumes "indexed (users_dr M) (users_collection s)" "u \<in> set (users_collection s)" "alive u"
    and "hd (split_on (CHR '':'') (dec e)) = doc_id u"
  shows "dav_getUser M dec (Some (''Basic '' @ e)) s = Inr (without_token u)"
proof -
  have "findOne (users_dr M) (users_collection s) (\<lambda>w. alive w \<and> doc_id w = doc_id u) = Some u"
    by (rule users_store.findOne_key[OF assms(1,2)]) (use assms(3) in auto)
  then show ?thesis by (simp add: dav_getUser_def assms(4))
qed

end

text \<open>
  WebDAV asks for no password: whatever stands after the colon of the credentials, the request runs as the live
  user whose id stands before it.
\<close>

theorem webdav_without_password:
  assumes "mongo_ok M" "indexed (users_dr M) (users_collection s)"
    and "u \<in> set (users_collection s)" "alive u" "CHR '':'' \<notin> set (doc_id u)"
    and "from_base64 credentials = doc_id u @ CHR '':'' # pw"
  shows "dav_getUser M from_base64 (Some (''Basic '' @ credentials)) s = Inr (without_token u)"
  using mongo_db.dav_getUser_id[OF mongo_db.intro[OF assms(1)] assms(2-4), of from_base64 credentials]
  by (simp add: assms(6) hd_split_on[OF assms(5)])

theorem webdav_without_password_witness:
  "dav_getUser list_mongo id (Some ''Basic ann:anything'') (db0\<lparr>users_collection := [with_token (user0 ''ann'' ADMIN)]\<rparr>) =
     Inr (user0 ''ann'' ADMIN)"
proof -
  let ?u = "with_token (user0 ''ann'' ADMIN)" and ?s = "db0\<lparr>users_collection := [with_token (user0 ''ann'' ADMIN)]\<rparr>"
  have ix: "indexed (users_dr list_mongo) (users_collection ?s)"
    by (simp add: indexed_def list_mongo_def list_driver_simps)
  have u: "?u \<in> set (users_collection ?s)" "alive ?u" "CHR '':'' \<notin> set (doc_id ?u)" "doc_id ?u = ''ann''"
    "without_token ?u = user0 ''ann'' ADMIN"
    by (simp_all add: sample_defs alive_def IUserWithoutToken.truncate_def)
  show ?thesis
    using webdav_without_password[OF list_mongo_ok ix u(1-3), of id "''ann:anything''" "''anything''"] u(4,5) by simp
qed

subsection \<open>Reading directories\<close>

lemma group_all_frame: "group_all E req ds ms s = (gs, s') \<Longrightarrow> \<exists>t. s' = s\<lparr>tick := t\<rparr>"
proof (induction ms arbitrary: s gs)
  case Nil
  then have "s' = s\<lparr>tick := tick s\<rparr>" by simp
  then show ?case ..
next
  case (Cons m ms)
  obtain g s1 where g: "group_drives E req m (filter (\<lambda>d. managerId d = m) ds) s = (g, s1)" by fastforce
  have "\<exists>t. s1 = s\<lparr>tick := t\<rparr>"
    using g by (auto simp: group_drives_def Let_def Date_now_def split: if_splits intro: exI[of _ "tick s"])
  then show ?case using Cons g by (fastforce split: prod.splits)
qed

lemma getDrives_frame: "getDrives E M r i s = (x, s') \<Longrightarrow> \<exists>t. s' = s\<lparr>tick := t\<rparr>"
  by (auto simp: getDrives_def Let_def split: option.splits if_splits prod.splits intro: exI[of _ "tick s"]
      dest!: group_all_frame)

lemma own_drives_frame: "own_drives E M u s = (x, s') \<Longrightarrow> \<exists>t. s' = s\<lparr>tick := t\<rparr>"
  by (auto simp: own_drives_def split: prod.splits sum.splits dest: getDrives_frame)

text \<open>A folder below \<open>Shared\<close> is never listed: the method ends without a call back, or throws.\<close>

lemma shared_never_listed:
  assumes "pathToArray p = ''Shared'' # n # rest" "p \<noteq> ''/''"
  shows "fst (dav_readDir E M user p s) \<in> {Dav_Silent, Dav_Rejected}"
  using assms by (auto simp: dav_readDir_def Let_def split: prod.splits sum.splits)

text \<open>
  The guard for studies looks at the second part of the path, where the name of the study is; a path into a study
  passes it, and a folder of the own drive that is called \<open>Study\<close> does not.
\<close>

lemma study_guard_misplaced:
  "write_guard [''Study'', n] = (if n = ''Study'' then Some study_error else None)"
  "write_guard (''My Drive'' # ''Study'' # rest) = Some study_error"
  by (simp_all add: write_guard_def)

subsection \<open>Copying and moving\<close>

lemma findNodeIdFromPath_short:
  "findNodeIdFromPath names paths = Some (Some i) \<Longrightarrow> length i = 1"
  by (auto simp: findNodeIdFromPath_def split: option.splits if_splits list.splits)

lemma transfer_ids_short:
  "transfer_ids ds src dst = Some (Some a, b) \<Longrightarrow> length a = 1"
  by (auto simp: transfer_ids_def split: option.splits dest: findNodeIdFromPath_short)

context mongo_db
begin

lemma no_drive_of_length:
  assumes "\<And>d. d \<in> set (drives_collection s) \<Longrightarrow> length (doc_id d) \<noteq> 1" "length a = 1"
  shows "findOne (drives_dr M) (drives_collection s) (\<lambda>d. doc_id d = a \<and> alive d) = None"
  using assms drives_store.findOne_None by blast

lemma copyDrive_unknown:
  assumes "findOne (drives_dr M) (drives_collection s) (\<lambda>d. doc_id d = a \<and> alive d) = None"
  shows "copyDrive n E M (Some user) a b s = Copied (Inl (core_error NO_PERMISSION_ERROR)) s"
    and "editDrive n M (Some user) a None None None b' None None s = Some (Inl (core_error NO_PERMISSION_ERROR), s)"
  using assms by (simp_all add: copyDrive_def copy_allowed_def editDrive_def)

lemma dav_transfer_refused:
  assumes "\<And>d. d \<in> set (drives_collection s) \<Longrightarrow> length (doc_id d) \<noteq> 1"
  shows "\<exists>r t. dav_copy n E M user src dst s = (r, None, s\<lparr>tick := t\<rparr>) \<and> r \<in> {Dav_Rejected, Dav_Error ''Failed to copy file.''}"
    and "\<exists>r t. dav_move n E M user src dst s = Some (r, s\<lparr>tick := t\<rparr>) \<and> r \<in> {Dav_Rejected, Dav_Error ''Failed to move file.''}"
proof -
  obtain x t where o: "own_drives E M user s = (x, s\<lparr>tick := t\<rparr>)"
    using own_drives_frame[of E M user s] by (cases "own_drives E M user s") blast
  have none: "findOne (drives_dr M) (drives_collection (s\<lparr>tick := t\<rparr>)) (\<lambda>d. doc_id d = a \<and> alive d) = None"
    if "transfer_ids ds src dst = Some (Some a, b)" for ds a b
    using no_drive_of_length[OF assms transfer_ids_short[OF that]] by simp
  show "\<exists>r t. dav_copy n E M user src dst s = (r, None, s\<lparr>tick := t\<rparr>) \<and> r \<in> {Dav_Rejected, Dav_Error ''Failed to copy file.''}"
    by (auto simp: dav_copy_def o copyDrive_unknown(1)[OF none] split: option.split)
  show "\<exists>r t. dav_move n E M user src dst s = Some (r, s\<lparr>tick := t\<rparr>) \<and> r \<in> {Dav_Rejected, Dav_Error ''Failed to move file.''}"
    by (auto simp: dav_move_def o copyDrive_unknown(2)[OF none] split: option.split)
qed

end

text \<open>
  C33. Nothing can be copied or moved through WebDAV: as long as no drive has an id of a single character, both
  methods fail, with an error or without ever calling back, and leave the database as it is (but for the clock); the
  search for the node compares first characters of ids with names and takes a character for an id.
\<close>

theorem webdav_never_transfers:
  assumes "mongo_ok M" "\<And>d. d \<in> set (drives_collection s) \<Longrightarrow> length (doc_id d) \<noteq> 1"
  shows "(\<exists>r t. dav_copy n E M user src dst s = (r, None, s\<lparr>tick := t\<rparr>) \<and>
      r \<in> {Dav_Rejected, Dav_Error ''Failed to copy file.''}) \<and>
    (\<exists>r t. dav_move n E M user src dst s = Some (r, s\<lparr>tick := t\<rparr>) \<and>
      r \<in> {Dav_Rejected, Dav_Error ''Failed to move file.''})"
  using mongo_db.dav_transfer_refused[OF mongo_db.intro[OF assms(1)] assms(2)] by blast

definition dav0 :: db where
  "dav0 = db0\<lparr>drives_collection := [drive0 ''root'' [] FOLDER None [''file''] None,
     drive0 ''file'' [''root''] FILE (Some ''root'') [] (Some ''f'')]\<rparr>"

theorem webdav_never_transfers_witness:
  "\<exists>r t. dav_copy 4 env0 list_mongo (user0 ''ann'' STANDARD) ''/root/file'' ''/root/copy'' dav0 = (r, None, dav0\<lparr>tick := t\<rparr>) \<and>
     r \<noteq> Dav_Done True"
proof -
  have "length (doc_id d) \<noteq> 1" if "d \<in> set (drives_collection dav0)" for d
    using that by (auto simp: dav0_def drive0_def)
  from webdav_never_transfers[OF list_mongo_ok this, where n = 4 and E = env0 and user = "user0 ''ann'' STANDARD" and
      src = "''/root/file''" and dst = "''/root/copy''"]
  obtain r t where "dav_copy 4 env0 list_mongo (user0 ''ann'' STANDARD) ''/root/file'' ''/root/copy'' dav0 = (r, None, dav0\<lparr>tick := t\<rparr>)"
    "r \<in> {Dav_Rejected, Dav_Error ''Failed to copy file.''}" by blast
  then show ?thesis by (intro exI[of _ r] exI[of _ t]) auto
qed

end
