(* ===== verification/Bytes.thy ===== *)
theory Bytes
  imports Prelude "HOL-Library.Word"
begin

unbundle bit_operations_syntax

section \<open>Bytes in the browser (\<open>dmp.utils.ts\<close>)\<close>

text \<open>
  The helpers of the key management in the user interface. A \<open>Uint8Array\<close> is a list of numbers below 256;
  storing a number in one keeps its remainder modulo 256 (\<open>uint8\<close>). A JavaScript string is the list of its
  16-bit code units, so that the encoding of text can be followed through surrogate pairs. An error
  of the table \<open>ErrorMessage\<close> is its code.
\<close>

type_synonym bytes8 = "nat list"
type_synonym units = "nat list"

definition uint8 :: "nat \<Rightarrow> nat" where
  "uint8 n = n mod 256"

definition is_bytes :: "nat list \<Rightarrow> bool" where
  "is_bytes bs \<longleftrightarrow> list_all (\<lambda>b. b < 256) bs"

definition is_units :: "nat list \<Rightarrow> bool" where
  "is_units us \<longleftrightarrow> list_all (\<lambda>u. u < 65536) us"

datatype ErrorCodes =
    EKEYISENC | ESCPNOTRD | EINPASSWD | ETRANSFIL | ETIMOCHEL | ETIMOCPOW | ETINSRVID | ETINSRVIC |
    ETINUSRKY | ETIMOCPOI | ETINSRVPI | EUNABLCON | ENOTCONNT | EINVKFORM | EINVKNAME |
    EUNSPKMIS | EUNSPEXPS | EKEYLDFAI | EKEYNOTEC | EXORNOTSS | EKEYNOTSL

fun ErrorMessage :: "ErrorCodes \<Rightarrow> string" where
  "ErrorMessage EKEYISENC = ''Key is encrypted''"
| "ErrorMessage ESCPNOTRD = ''Can'' @ CHR 0x27 # ''t encrypt, SCP session is not ready''"
| "ErrorMessage EINPASSWD = ''Can'' @ CHR 0x27 # ''t decrypt, Invalid password''"
| "ErrorMessage ETRANSFIL = ''Transaction failed''"
| "ErrorMessage ETIMOCHEL = ''Timeout after client hello''"
| "ErrorMessage ETIMOCPOW = ''Timeout after client proof-of-work''"
| "ErrorMessage ETINSRVID = ''Invalid server identity''"
| "ErrorMessage ETINSRVIC = ''Invalid server identity chain at #''"
| "ErrorMessage ETINUSRKY = ''Invalid user key''"
| "ErrorMessage ETIMOCPOI = ''Timeout after client proof-of-identity''"
| "ErrorMessage ETINSRVPI = ''Invalid server proof-of-identity''"
| "ErrorMessage EUNABLCON = ''Unable to create the secure connection: ''"
| "ErrorMessage ENOTCONNT = ''Not connected''"
| "ErrorMessage EINVKFORM = ''Key format is incorrect''"
| "ErrorMessage EINVKNAME = ''Invalid key name''"
| "ErrorMessage EUNSPKMIS = ''Unsupported, missing key file''"
| "ErrorMessage EUNSPEXPS = ''Unsupported, expecting a single key file''"
| "ErrorMessage EKEYLDFAI = ''Failed to load the key file''"
| "ErrorMessage EKEYNOTEC = ''Can'' @ CHR 0x27 # ''t save, key must be encrypted''"
| "ErrorMessage EXORNOTSS = ''Array should have the same size''"
| "ErrorMessage EKEYNOTSL = ''Key as not been sealed''"

subsection \<open>Arrays\<close>

definition xor_bytes :: "bytes8 \<Rightarrow> bytes8 \<Rightarrow> ErrorCodes + bytes8" where
  "xor_bytes a b = (if length a \<noteq> length b then Inl EXORNOTSS else Inr (map (\<lambda>(x, y). x XOR y) (zip a b)))"

text \<open>
  The inner loop from index \<open>k - 1\<close> downwards, and the outer one over the bytes of the offset from the last
  to the first; \<open>szDiff\<close> may be negative.
\<close>

fun carry :: "bytes8 \<Rightarrow> nat \<Rightarrow> nat \<Rightarrow> bytes8" where
  "carry inc 0 c = inc"
| "carry inc (Suc i) c =
     (if inc ! i + c > 255 then carry (inc[i := inc ! i + c - 256]) i 1 else inc[i := inc ! i + c])"

fun add_offset :: "bytes8 \<Rightarrow> bytes8 \<Rightarrow> int \<Rightarrow> nat \<Rightarrow> bytes8" where
  "add_offset inc offset szDiff 0 = inc"
| "add_offset inc offset szDiff (Suc j) =
     add_offset (carry inc (nat (int j + szDiff + 1)) (offset ! j)) offset szDiff j"

definition incrementBy :: "bytes8 \<Rightarrow> bytes8 \<Rightarrow> bytes8" where
  "incrementBy src offset = add_offset src offset (int (length src) - int (length offset)) (length offset)"

fun equal_from :: "bytes8 \<Rightarrow> bytes8 \<Rightarrow> nat \<Rightarrow> nat \<Rightarrow> bool" where
  "equal_from a b i 0 = True"
| "equal_from a b i (Suc n) = (if a ! i \<noteq> b ! i then False else equal_from a b (Suc i) n)"

definition sequenceEqual :: "bytes8 \<Rightarrow> bytes8 \<Rightarrow> bool" where
  "sequenceEqual a b = (if length a \<noteq> length b then False else equal_from a b 0 (length a))"

definition set_at :: "bytes8 \<Rightarrow> bytes8 \<Rightarrow> nat \<Rightarrow> bytes8" where
  "set_at c bs i = take i c @ bs @ drop (i + length bs) c"

definition concatBytes :: "bytes8 \<Rightarrow> bytes8 \<Rightarrow> bytes8" where
  "concatBytes a b = set_at (set_at (replicate (length a + length b) 0) a 0) b (length a)"

fun set_all :: "bytes8 \<Rightarrow> bytes8 list \<Rightarrow> nat \<Rightarrow> bytes8" where
  "set_all c [] j = c"
| "set_all c (a # as) j = set_all (set_at c a j) as (j + length a)"

definition concatBytesArrays :: "bytes8 list \<Rightarrow> bytes8" where
  "concatBytesArrays arrays = set_all (replicate (sum_list (map length arrays)) 0) arrays 0"

text \<open>
  \<open>new Array(256)\<close> has no elements, and \<open>map\<close> skips the holes: the table \<open>byteToHex\<close> has none either, and its
  entries read as \<open>undefined\<close>. The \<open>map\<close> of a \<open>Uint8Array\<close> makes a \<open>Uint8Array\<close>, where \<open>undefined\<close> is
  stored as 0, and \<open>join\<close> prints its numbers.
\<close>

definition byteToHex :: "nat \<Rightarrow> string option" where
  "byteToHex n = None"

definition store_byte :: "string option \<Rightarrow> nat" where
  "store_byte x = (case x of None \<Rightarrow> 0 | Some d \<Rightarrow> uint8 (if d \<noteq> [] \<and> list_all is_digit d
     then foldl (\<lambda>n c. 10 * n + (of_char c - 48)) 0 d else 0))"

fun show_byte :: "nat \<Rightarrow> string" where
  "show_byte n = (if n < 10 then [char_of (48 + n)] else show_byte (n div 10) @ [char_of (48 + n mod 10)])"

declare show_byte.simps [simp del]

fun hex_join :: "string \<Rightarrow> string list \<Rightarrow> string" where
  "hex_join d [] = []"
| "hex_join d [x] = x"
| "hex_join d (x # y # zs) = x @ d @ hex_join d (y # zs)"

definition toHex :: "bytes8 \<Rightarrow> string \<Rightarrow> string" where
  "toHex src delimiter = hex_join delimiter (map (\<lambda>n. show_byte (store_byte (byteToHex n))) src)"

subsection \<open>Base 64\<close>

text \<open>
  \<open>btoa\<close> and \<open>atob\<close> of the browser. The first throws for a character above 255; the second drops white
  space, then up to two characters \<open>=\<close> where the length is a multiple of 4, and throws (\<open>None\<close>) for a remaining
  character outside of the alphabet and for a length of 1 modulo 4. Base 64 digits are numbers below 64.
\<close>

definition b64_alphabet :: string where
  "b64_alphabet = ''ABCDEFGHIJKLMNOPQRSTUVWXYZabcdefghijklmnopqrstuvwxyz0123456789+/''"

definition b64_char :: "nat \<Rightarrow> char" where
  "b64_char n = b64_alphabet ! n"

fun b64_groups :: "bytes8 \<Rightarrow> string" where
  "b64_groups [] = []"
| "b64_groups [a] = [b64_char (a div 4), b64_char (a mod 4 * 16), CHR ''='', CHR ''='']"
| "b64_groups [a, b] =
     [b64_char (a div 4), b64_char (a mod 4 * 16 + b div 16), b64_char (b mod 16 * 4), CHR ''='']"
| "b64_groups (a # b # c # rest) =
     [b64_char (a div 4), b64_char (a mod 4 * 16 + b div 16), b64_char (b mod 16 * 4 + c div 64),
      b64_char (c mod 64)] @ b64_groups rest"

definition btoa :: "units \<Rightarrow> string option" where
  "btoa us = (if list_all (\<lambda>u. u < 256) us then Some (b64_groups us) else None)"

definition b64_digit :: "char \<Rightarrow> nat option" where
  "b64_digit c = (let i = length (takeWhile (\<lambda>d. d \<noteq> c) b64_alphabet) in if i < 64 then Some i else None)"

fun b64_decode :: "nat list \<Rightarrow> bytes8 option" where
  "b64_decode [] = Some []"
| "b64_decode [a] = None"
| "b64_decode [a, b] = Some [a * 4 + b div 16]"
| "b64_decode [a, b, c] = Some [a * 4 + b div 16, b mod 16 * 16 + c div 4]"
| "b64_decode (a # b # c # d # rest) =
     map_option ((@) [a * 4 + b div 16, b mod 16 * 16 + c div 4, c mod 4 * 64 + d]) (b64_decode rest)"

definition is_space :: "char \<Rightarrow> bool" where
  "is_space c \<longleftrightarrow> (of_char c :: nat) \<in> {9, 10, 12, 13, 32}"

definition strip_padding :: "string \<Rightarrow> string" where
  "strip_padding x =
     (if length x mod 4 \<noteq> 0 \<or> x = [] \<or> last x \<noteq> CHR ''='' then x
      else let y = butlast x in if y \<noteq> [] \<and> last y = CHR ''='' then butlast y else y)"

fun digits64 :: "string \<Rightarrow> nat list option" where
  "digits64 [] = Some []"
| "digits64 (c # x) =
     (case (b64_digit c, digits64 x) of (Some d, Some ds) \<Rightarrow> Some (d # ds) | _ \<Rightarrow> None)"

definition atob :: "string \<Rightarrow> bytes8 option" where
  "atob x = (case digits64 (strip_padding (filter (\<lambda>c. \<not> is_space c) x)) of None \<Rightarrow> None | Some ds \<Rightarrow> b64_decode ds)"

definition replace_char :: "char \<Rightarrow> char \<Rightarrow> string \<Rightarrow> string" where
  "replace_char c d x = map (\<lambda>a. if a = c then d else a) x"

definition toBase64 :: "bytes8 \<Rightarrow> bool \<Rightarrow> string option" where
  "toBase64 src urlSafeMode =
     map_option (\<lambda>x. if urlSafeMode then replace_char (CHR ''/'') (CHR ''_'') (replace_char (CHR ''+'') (CHR ''-'') x) else x)
       (btoa src)"

definition fromBase64 :: "string \<Rightarrow> bool \<Rightarrow> bytes8 option" where
  "fromBase64 enc urlSafeMode =
     atob (if urlSafeMode then replace_char (CHR ''_'') (CHR ''/'') (replace_char (CHR ''-'') (CHR ''+'') enc) else enc)"

definition arrayBufferToBase64String :: "bytes8 \<Rightarrow> string option" where
  "arrayBufferToBase64String buffer = btoa buffer"

definition base64StringToArrayBuffer :: "string \<Rightarrow> bytes8 option" where
  "base64StringToArrayBuffer b64str = atob b64str"

subsection \<open>PEM\<close>

definition newline :: char where
  "newline = CHR 0x0A"

function pem_lines :: "string \<Rightarrow> nat \<Rightarrow> string" where
  "pem_lines x nextIndex =
     (if nextIndex < length x then
        (if nextIndex + 64 \<le> length x then take 64 (drop nextIndex x) else drop nextIndex x) @ [newline] @
        pem_lines x (nextIndex + 64)
      else [])"
  by pat_completeness auto
termination
  by (relation "measure (\<lambda>(x, i). length x - i)") auto

declare pem_lines.simps [simp del]

definition pem_begin :: "string \<Rightarrow> string" where
  "pem_begin label = ''-----BEGIN '' @ label @ ''-----''"

definition pem_end :: "string \<Rightarrow> string" where
  "pem_end label = ''-----END '' @ label @ ''-----''"

definition convertBinaryToPem :: "bytes8 \<Rightarrow> string \<Rightarrow> string option" where
  "convertBinaryToPem binaryData label =
     map_option (\<lambda>b. pem_begin label @ [newline] @ pem_lines b 0 @ pem_end label @ [newline])
       (arrayBufferToBase64String binaryData)"

text \<open>\<open>x.replace(p, '')\<close>, and \<open>replace(/\\n/g, '')\<close>, which takes out a backslash with the letter n after it.\<close>

fun replace_first :: "string \<Rightarrow> string \<Rightarrow> string" where
  "replace_first p [] = []"
| "replace_first p (c # x) = (if take (length p) (c # x) = p then drop (length p) (c # x) else c # replace_first p x)"

fun remove_escaped_newlines :: "string \<Rightarrow> string" where
  "remove_escaped_newlines (c # d # x) =
     (if c = CHR 0x5C \<and> d = CHR ''n'' then remove_escaped_newlines x else c # remove_escaped_newlines (d # x))"
| "remove_escaped_newlines x = x"

definition pem_body :: "string \<Rightarrow> string \<Rightarrow> bytes8 option" where
  "pem_body label pem =
     base64StringToArrayBuffer (replace_first (pem_end label) (replace_first (pem_begin label) (remove_escaped_newlines pem)))"

definition convertPemPrivateKeyToArrayBuffer :: "string \<Rightarrow> bytes8 option" where
  "convertPemPrivateKeyToArrayBuffer pem = pem_body ''PRIVATE KEY'' pem"

definition convertPemPublicKeyToArrayBuffer :: "string \<Rightarrow> bytes8 option" where
  "convertPemPublicKeyToArrayBuffer pem = pem_body ''PUBLIC KEY'' pem"

subsection \<open>Text\<close>

text \<open>\<open>s.codePointAt(i)\<close> of the rest of a string, and \<open>String.fromCodePoint\<close>, which throws above 0x10FFFF.\<close>

fun codePointAt :: "units \<Rightarrow> nat" where
  "codePointAt (u # v # us) =
     (if 0xD800 \<le> u \<and> u < 0xDC00 \<and> 0xDC00 \<le> v \<and> v < 0xE000
      then (u - 0xD800) * 1024 + (v - 0xDC00) + 0x10000 else u)"
| "codePointAt [u] = u"
| "codePointAt [] = 0"

definition fromCodePoint :: "nat \<Rightarrow> units option" where
  "fromCodePoint c =
     (if c < 0x10000 then Some [c]
      else if c < 0x110000 then Some [0xD800 + (c - 0x10000) div 1024, 0xDC00 + (c - 0x10000) mod 1024]
      else None)"

text \<open>The continuation bytes, from the shift \<open>6 * k\<close> down to 0.\<close>

fun continuation :: "nat \<Rightarrow> nat \<Rightarrow> bytes8" where
  "continuation codePoint 0 = []"
| "continuation codePoint (Suc k) = uint8 (0x80 OR (drop_bit (6 * k) codePoint AND 0x3F)) # continuation codePoint k"

definition encode_point :: "nat \<Rightarrow> bytes8" where
  "encode_point codePoint =
     (let (c, bits) = (if codePoint \<le> 0x7F then (0, 0) else if codePoint \<le> 0x7FF then (1, 0xC0)
                       else if codePoint \<le> 0xFFFF then (2, 0xE0)
                       else if codePoint \<le> 0x1FFFFF then (3, 0xF0) else (0, 0))
      in uint8 (bits OR drop_bit (6 * c) codePoint) # continuation codePoint c)"

text \<open>The encoding stops at the first code point 0.\<close>

function encode :: "units \<Rightarrow> bytes8" where
  "encode [] = []"
| "encode (u # us) =
     (let codePoint = codePointAt (u # us)
      in if codePoint = 0 then []
         else encode_point codePoint @ encode (if codePoint \<ge> 0x10000 then drop 1 us else us))"
  by pat_completeness auto
termination
  by (relation "measure length") auto

text \<open>
  The first octet says how many follow. Where fewer are left the result is the replacement character, and the rest
  is skipped. A first octet above 0xF4 counts as a code point 0 on its own.
\<close>

definition lead :: "nat \<Rightarrow> nat \<times> nat" where
  "lead octet =
     (if octet \<le> 0x7F then (0, octet AND 0xFF)
      else if octet \<le> 0xDF then (1, octet AND 0x1F)
      else if octet \<le> 0xEF then (2, octet AND 0x0F)
      else if octet \<le> 0xF4 then (3, octet AND 0x07)
      else (0, 0))"

definition append_octet :: "nat \<Rightarrow> nat \<Rightarrow> nat" where
  "append_octet codePoint octet = push_bit 6 codePoint OR (octet AND 0x3F)"

function decode :: "bytes8 \<Rightarrow> units option" where
  "decode [] = Some []"
| "decode (octet # octets) =
     (let (bytesNeeded, codePoint) = lead octet
      in if length octets + 1 > bytesNeeded
         then (case (fromCodePoint (foldl append_octet codePoint (take bytesNeeded octets)),
                     decode (drop bytesNeeded octets)) of
                 (Some x, Some y) \<Rightarrow> Some (x @ y)
               | _ \<Rightarrow> None)
         else Some [0xFFFD])"
  by pat_completeness auto
termination
  by (relation "measure length") auto

declare encode.simps(2) [simp del] decode.simps(2) [simp del]

text \<open>\<open>toSupportedArray\<close> of a string: its code units modulo 256.\<close>

definition toSupportedArray :: "units \<Rightarrow> bytes8" where
  "toSupportedArray us = map uint8 us"

end
