(* ===== verification/BytesProps.thy ===== *)
theory BytesProps
  imports Bytes
begin

section \<open>Round trips of the encodings\<close>

subsection \<open>Text\<close>

lemma bit_small: "(y::nat) < 2 ^ k \<Longrightarrow> bit y n \<Longrightarrow> n < k"
  by (metis bit_take_bit_iff take_bit_nat_eq_self_iff)

lemma or_add: "(y::nat) < 2 ^ k \<Longrightarrow> push_bit k x OR y = x * 2 ^ k + y"
proof -
  assume y: "y < 2 ^ k"
  have "push_bit k x AND y = 0"
    by (rule bit_eqI) (auto simp: bit_simps dest: bit_small[OF y])
  then show ?thesis by (simp add: push_bit_eq_mult disjunctive_add_eq_or)
qed

lemma and_masks:
  "(x::nat) AND 0x3F = x mod 64" "x AND 0xFF = x mod 256" "x AND 0x1F = x mod 32" "x AND 0x0F = x mod 16"
  "x AND 0x07 = x mod 8"
  using take_bit_eq_mask[of 6 x] take_bit_eq_mask[of 8 x] take_bit_eq_mask[of 5 x] take_bit_eq_mask[of 4 x]
    take_bit_eq_mask[of 3 x]
  by (simp_all add: take_bit_eq_mod mask_eq_exp_minus_1)

lemma or_leads:
  "y < 64 \<Longrightarrow> 0x80 OR y = 128 + (y::nat)" "y < 32 \<Longrightarrow> 0xC0 OR y = 192 + y" "y < 16 \<Longrightarrow> 0xE0 OR y = 224 + y"
  "y < 8 \<Longrightarrow> 0xF0 OR y = 240 + y"
  using or_add[of y 6 2] or_add[of y 5 6] or_add[of y 4 14] or_add[of y 3 30]
  by (simp_all add: push_bit_eq_mult)

lemma append_octet_eq:
  assumes "z < 64"
  shows "append_octet c (128 + z) = c * 64 + z"
proof -
  have "(128 + z) mod 64 = (z + 2 * 64) mod 64" by (simp add: add.commute)
  also have "\<dots> = z" unfolding mod_mult_self1 using assms by (rule mod_less)
  finally have m: "(128 + z) mod 64 = z" .
  have "append_octet c (128 + z) = push_bit 6 c OR z" unfolding append_octet_def and_masks(1) m ..
  also have "\<dots> = c * 2 ^ 6 + z" by (rule or_add) (simp add: assms)
  finally show ?thesis by simp
qed

lemma continuation_octet: "uint8 (0x80 OR (drop_bit k c AND 0x3F)) = 128 + c div 2 ^ k mod 64"
proof -
  have "0x80 OR (drop_bit k c AND 0x3F) = 128 + c div 2 ^ k mod 64"
    unfolding and_masks(1) drop_bit_eq_div by (rule or_leads(1)) simp
  moreover have "128 + c div 2 ^ k mod 64 < 256" by (rule less_trans[of _ 192]) simp_all
  ultimately show ?thesis by (simp add: uint8_def)
qed

lemma continuation_Suc: "continuation c (Suc k) = (128 + c div 2 ^ (6 * k) mod 64) # continuation c k"
  by (simp only: continuation.simps continuation_octet)

lemma continuation_eqs:
  "continuation c 0 = []"
  "continuation c (Suc 0) = [128 + c mod 64]"
  "continuation c 2 = [128 + c div 64 mod 64, 128 + c mod 64]"
  "continuation c 3 = [128 + c div 4096 mod 64, 128 + c div 64 mod 64, 128 + c mod 64]"
proof -
  show 0: "continuation c 0 = []" by (rule continuation.simps)
  show 1: "continuation c (Suc 0) = [128 + c mod 64]" by (simp add: continuation_Suc 0 del: continuation.simps)
  have "continuation c (Suc 1) = [128 + c div 64 mod 64, 128 + c mod 64]"
    unfolding continuation_Suc One_nat_def 1 by simp
  then show 2: "continuation c 2 = [128 + c div 64 mod 64, 128 + c mod 64]" by (simp only: Suc_1)
  have "continuation c (Suc 2) = [128 + c div 4096 mod 64, 128 + c div 64 mod 64, 128 + c mod 64]"
    unfolding continuation_Suc 2 by simp
  then show "continuation c 3 = [128 + c div 4096 mod 64, 128 + c div 64 mod 64, 128 + c mod 64]" by simp
qed

lemma lead_octet:
  "c < 0x800 \<Longrightarrow> uint8 (0xC0 OR drop_bit 6 c) = 192 + c div 64"
  "c < 0x10000 \<Longrightarrow> uint8 (0xE0 OR drop_bit 12 c) = 224 + c div 4096"
  "c < 0x110000 \<Longrightarrow> uint8 (0xF0 OR drop_bit 18 c) = 240 + c div 262144"
  unfolding drop_bit_eq_div
  using or_leads(2)[of "c div 64"] or_leads(3)[of "c div 4096"] or_leads(4)[of "c div 262144"]
  by (simp_all add: uint8_def)

lemma encode_point_eqs:
  "c < 0x80 \<Longrightarrow> encode_point c = [c]"
  "0x80 \<le> c \<Longrightarrow> c < 0x800 \<Longrightarrow> encode_point c = [192 + c div 64, 128 + c mod 64]"
  "0x800 \<le> c \<Longrightarrow> c < 0x10000 \<Longrightarrow> encode_point c = [224 + c div 4096, 128 + c div 64 mod 64, 128 + c mod 64]"
  "0x10000 \<le> c \<Longrightarrow> c < 0x110000 \<Longrightarrow>
     encode_point c = [240 + c div 262144, 128 + c div 4096 mod 64, 128 + c div 64 mod 64, 128 + c mod 64]"
  using lead_octet[of c] by (simp_all add: encode_point_def continuation_eqs uint8_def del: continuation.simps)

lemma mod_above: "(a::nat) < k \<Longrightarrow> (m * k + a) mod k = a"
  by simp

lemma lead_eqs:
  "c < 0x80 \<Longrightarrow> lead c = (0, c)"
  "a < 32 \<Longrightarrow> lead (192 + a) = (1, a)"
  "a < 16 \<Longrightarrow> lead (224 + a) = (2, a)"
  "a < 5 \<Longrightarrow> lead (240 + a) = (3, a)"
  unfolding lead_def and_masks using mod_above[of a 32 6] mod_above[of a 16 14] mod_above[of a 8 30] by simp_all

lemma divisions:
  "(c::nat) = c div 64 * 64 + c mod 64"
  "c div 64 = c div 4096 * 64 + c div 64 mod 64"
  "c div 4096 = c div 262144 * 64 + c div 4096 mod 64"
proof -
  show "(c::nat) = c div 64 * 64 + c mod 64" by simp
  have "c div 64 div 64 = c div 4096" "c div 4096 div 64 = c div 262144"
    by (simp_all add: div_mult2_eq[symmetric])
  then show "c div 64 = c div 4096 * 64 + c div 64 mod 64" "c div 4096 = c div 262144 * 64 + c div 4096 mod 64"
    by (metis div_mult_mod_eq)+
qed

lemma decode_encode_point:
  assumes "fromCodePoint c = Some x"
  shows "decode (encode_point c @ rest) = map_option ((@) x) (decode rest)"
proof -
  have c: "c < 0x110000" using assms by (auto simp: fromCodePoint_def split: if_splits)
  consider "c < 0x80" | "0x80 \<le> c" "c < 0x800" | "0x800 \<le> c" "c < 0x10000" | "0x10000 \<le> c" by linarith
  then show ?thesis
  proof cases
    case 1
    then show ?thesis using assms
      by (simp add: encode_point_eqs decode.simps(2) lead_eqs split: option.split)
  next
    case 2
    have "c div 64 < 32" using 2 by simp
    then show ?thesis using assms 2 divisions(1)[of c]
      by (simp add: encode_point_eqs decode.simps(2) lead_eqs append_octet_eq split: option.split)
  next
    case 3
    have "c div 4096 < 16" using 3 by simp
    moreover have "append_octet (append_octet (c div 4096) (128 + c div 64 mod 64)) (128 + c mod 64) = c"
      using divisions[of c] by (simp add: append_octet_eq)
    ultimately show ?thesis using assms 3
      by (simp add: encode_point_eqs decode.simps(2) lead_eqs numeral_2_eq_2 split: option.split)
  next
    case 4
    have "c div 262144 < 5" using c by simp
    moreover have "append_octet (append_octet (append_octet (c div 262144) (128 + c div 4096 mod 64))
        (128 + c div 64 mod 64)) (128 + c mod 64) = c"
      using divisions[of c] by (simp add: append_octet_eq)
    ultimately show ?thesis using assms 4 c
      by (simp add: encode_point_eqs decode.simps(2) lead_eqs numeral_3_eq_3 split: option.split)
  qed
qed

lemma codePointAt_0: "is_units (u # us) \<Longrightarrow> codePointAt (u # us) = 0 \<longleftrightarrow> u = 0"
  by (cases us) auto

lemma codePointAt_single: "is_units (u # us) \<Longrightarrow> codePointAt (u # us) < 0x10000 \<Longrightarrow> codePointAt (u # us) = u"
  by (cases us) (auto split: if_splits)

lemma codePointAt_pair:
  assumes "codePointAt (u # us) \<ge> 0x10000" "is_units (u # us)"
  shows "\<exists>v vs. us = v # vs \<and> v \<noteq> 0 \<and> u \<noteq> 0 \<and> fromCodePoint (codePointAt (u # us)) = Some [u, v]"
proof (cases us)
  case Nil
  then show ?thesis using assms by (simp add: is_units_def)
next
  case (Cons v vs)
  then have s: "0xD800 \<le> u" "u < 0xDC00" "0xDC00 \<le> v" "v < 0xE000"
    and c: "codePointAt (u # us) = (u - 0xD800) * 1024 + (v - 0xDC00) + 0x10000"
    using assms by (auto simp: is_units_def split: if_splits)
  have v: "v - 0xDC00 < 1024" using s by simp
  have "((u - 0xD800) * 1024 + (v - 0xDC00)) div 1024 = u - 0xD800"
    "((u - 0xD800) * 1024 + (v - 0xDC00)) mod 1024 = v - 0xDC00" using v by simp_all
  moreover have "codePointAt (u # us) - 0x10000 = (u - 0xD800) * 1024 + (v - 0xDC00)" using c by simp
  moreover have "codePointAt (u # us) < 0x110000" using c s v by simp
  ultimately show ?thesis using Cons s assms(1) by (simp add: fromCodePoint_def)
qed

lemma decode_encode:
  assumes "is_units us"
  shows "decode (encode us) = Some (takeWhile (\<lambda>u. u \<noteq> 0) us)"
  using assms
proof (induction us rule: encode.induct)
  case (2 u us)
  let ?c = "codePointAt (u # us)"
  show ?case
  proof (cases "?c = 0")
    case True
    then show ?thesis using codePointAt_0[OF 2(2)] by (simp add: encode.simps(2))
  next
    case c: False
    then have u: "u \<noteq> 0" using codePointAt_0[OF 2(2)] by simp
    show ?thesis
    proof (cases "?c \<ge> 0x10000")
      case True
      from codePointAt_pair[OF this 2(2)] obtain v vs where
        v: "us = v # vs" "v \<noteq> 0" "fromCodePoint ?c = Some [u, v]" by blast
      have "decode (encode vs) = Some (takeWhile (\<lambda>u. u \<noteq> 0) vs)"
        using 2(1)[OF refl c] True 2(2) v(1) by (simp add: is_units_def)
      then show ?thesis using c True v u decode_encode_point[OF v(3)] by (simp add: encode.simps(2) Let_def)
    next
      case False
      then have f: "?c = u" "fromCodePoint ?c = Some [u]"
        using codePointAt_single[OF 2(2)] by (auto simp: fromCodePoint_def)
      have "decode (encode us) = Some (takeWhile (\<lambda>u. u \<noteq> 0) us)"
        using 2(1)[OF refl c] False 2(2) by (simp add: is_units_def)
      then show ?thesis using c False u decode_encode_point[OF f(2)] f(1) by (simp add: encode.simps(2) Let_def)
    qed
  qed
qed simp

text \<open>
  C34. Decoding undoes encoding: of any string of code units, lone surrogates included, the text up to the first
  character 0 comes back, and the decoder does not throw. What follows a character 0 is lost.
\<close>

theorem utf8_roundtrip:
  assumes "is_units us"
  shows "decode (encode us) = Some (takeWhile (\<lambda>u. u \<noteq> 0) us)"
  by (rule decode_encode[OF assms])

subsection \<open>Addition\<close>

text \<open>The number that an array stands for, the first byte being the highest.\<close>

fun big_endian :: "bytes8 \<Rightarrow> nat" where
  "big_endian [] = 0"
| "big_endian (b # bs) = b * 256 ^ length bs + big_endian bs"

lemma big_endian_less: "is_bytes bs \<Longrightarrow> big_endian bs < 256 ^ length bs"
proof (induction bs)
  case (Cons b bs)
  then have "big_endian bs < 256 ^ length bs" "b \<le> 255" by (auto simp: is_bytes_def)
  then have "b * 256 ^ length bs + big_endian bs < (b + 1) * 256 ^ length bs" by simp
  also have "\<dots> \<le> 256 * 256 ^ length bs" using \<open>b \<le> 255\<close> by (intro mult_right_mono) auto
  finally show ?case by simp
qed simp

lemma big_endian_append: "big_endian (xs @ ys) = big_endian xs * 256 ^ length ys + big_endian ys"
  by (induction xs) (simp_all add: power_add algebra_simps)

lemma big_endian_update:
  assumes "i < length bs"
  shows "big_endian (bs[i := x]) + bs ! i * 256 ^ (length bs - Suc i) = big_endian bs + x * 256 ^ (length bs - Suc i)"
  using assms
proof (induction bs arbitrary: i)
  case (Cons b bs)
  then show ?case by (cases i) auto
qed simp

lemma is_bytes_update: "is_bytes bs \<Longrightarrow> x < 256 \<Longrightarrow> is_bytes (bs[i := x])"
  by (auto simp: is_bytes_def list_all_iff dest!: set_update_subset_insert[THEN subsetD])

lemma is_bytes_nth: "is_bytes bs \<Longrightarrow> i < length bs \<Longrightarrow> bs ! i < 256"
  by (simp add: is_bytes_def list_all_length)

lemma carry_adds:
  assumes "is_bytes inc" "k \<le> length inc" "c < 256"
  shows "is_bytes (carry inc k c) \<and> length (carry inc k c) = length inc \<and>
    big_endian (carry inc k c) = (big_endian inc + c * 256 ^ (length inc - k)) mod 256 ^ length inc"
  using assms
proof (induction inc k c rule: carry.induct)
  case (1 inc c)
  then show ?case using big_endian_less by simp
next
  case (2 inc i c)
  let ?n = "length inc" and ?w = "256 ^ (length inc - Suc i) :: nat"
  have i: "i < ?n" "inc ! i < 256" using 2(2,3) is_bytes_nth by auto
  have w: "256 ^ (?n - i) = 256 * ?w" using i by (metis Suc_diff_Suc power_Suc)
  show ?case
  proof (cases "inc ! i + c > 255")
    case True
    let ?x = "inc ! i + c - 256"
    have x: "?x + 256 = inc ! i + c" "?x < 256" using True i(2) 2(4) by auto
    have b: "is_bytes (inc[i := ?x])" using is_bytes_update 2(2) x(2) by blast
    have e: "big_endian (inc[i := ?x]) + 256 * ?w = big_endian inc + c * ?w"
    proof -
      have "?x * ?w + 256 * ?w = inc ! i * ?w + c * ?w" using x(1) by (metis add_mult_distrib)
      then show ?thesis using big_endian_update[OF i(1), of ?x] by linarith
    qed
    have "carry inc (Suc i) c = carry (inc[i := ?x]) i 1" using True by simp
    moreover have "big_endian (carry (inc[i := ?x]) i 1) = (big_endian (inc[i := ?x]) + 256 * ?w) mod 256 ^ ?n"
      using 2(1)[OF True b] i w by simp
    ultimately show ?thesis using 2(1)[OF True b] i e by simp
  next
    case False
    have b: "is_bytes (inc[i := inc ! i + c])" using is_bytes_update 2(2) False by simp
    have "big_endian (inc[i := inc ! i + c]) = big_endian inc + c * ?w"
      using big_endian_update[OF i(1), of "inc ! i + c"] by (simp add: algebra_simps)
    then show ?thesis using False b big_endian_less[OF b] by simp
  qed
qed

lemma big_endian_take:
  "j < length bs \<Longrightarrow> big_endian (take (Suc j) bs) = big_endian (take j bs) * 256 + bs ! j"
  by (simp add: take_Suc_conv_app_nth big_endian_append)

lemma add_offset_adds:
  assumes "is_bytes inc" "is_bytes offset" "j \<le> length offset"
  shows "length (add_offset inc offset (int (length inc) - int (length offset)) j) = length inc \<and>
    is_bytes (add_offset inc offset (int (length inc) - int (length offset)) j) \<and>
    big_endian (add_offset inc offset (int (length inc) - int (length offset)) j) =
      (big_endian inc + big_endian (take j offset) * 256 ^ (length offset - j)) mod 256 ^ length inc"
  using assms
proof (induction j arbitrary: inc)
  case 0
  then show ?case using big_endian_less by simp
next
  case (Suc j)
  let ?n = "length inc" and ?m = "length offset"
  let ?k = "nat (int j + (int ?n - int ?m) + 1)"
  have j: "j < ?m" "?k \<le> ?n" using Suc(4) by auto
  have o: "offset ! j < 256" using is_bytes_nth[OF Suc(3) j(1)] .
  let ?inc = "carry inc ?k (offset ! j)"
  note c = carry_adds[OF Suc(2) j(2) o]
  have "256 ^ ?n dvd (256 ^ (?m - Suc j) :: nat)" if "int j + (int ?n - int ?m) + 1 < 0"
    using that by (intro le_imp_power_dvd) linarith
  then have w: "(a + offset ! j * 256 ^ (?n - ?k)) mod 256 ^ ?n = (a + offset ! j * 256 ^ (?m - Suc j)) mod 256 ^ ?n" for a
  proof (cases "int j + (int ?n - int ?m) + 1 < 0")
    case True
    then have "256 ^ ?n dvd offset ! j * 256 ^ (?m - Suc j)" "?n - ?k = ?n"
      using \<open>int j + (int ?n - int ?m) + 1 < 0 \<Longrightarrow> 256 ^ ?n dvd (256 ^ (?m - Suc j) :: nat)\<close> by auto
    then show ?thesis by (simp add: mod_add_right_eq[symmetric, of a] dvd_imp_mod_0 del: mod_add_right_eq)
  next
    case False
    then have "?n - ?k = ?m - Suc j" using j by linarith
    then show ?thesis by simp
  qed
  have IH: "big_endian (add_offset ?inc offset (int ?n - int ?m) j) =
      (big_endian ?inc + big_endian (take j offset) * 256 ^ (?m - j)) mod 256 ^ ?n"
    "length (add_offset ?inc offset (int ?n - int ?m) j) = ?n" "is_bytes (add_offset ?inc offset (int ?n - int ?m) j)"
    using Suc.IH[of ?inc] c Suc(3,4) by simp_all
  have "256 ^ (?m - j) = 256 * (256 ^ (?m - Suc j) :: nat)" using j(1) by (metis Suc_diff_Suc power_Suc)
  then have t: "big_endian (take (Suc j) offset) * 256 ^ (?m - Suc j) =
      big_endian (take j offset) * 256 ^ (?m - j) + offset ! j * 256 ^ (?m - Suc j)"
    by (simp add: big_endian_take[OF j(1)] algebra_simps)
  have "big_endian ?inc mod 256 ^ ?n = (big_endian inc + offset ! j * 256 ^ (?m - Suc j)) mod 256 ^ ?n"
    using c w[of "big_endian inc"] by simp
  then have "(big_endian ?inc + big_endian (take j offset) * 256 ^ (?m - j)) mod 256 ^ ?n =
      (big_endian inc + big_endian (take (Suc j) offset) * 256 ^ (?m - Suc j)) mod 256 ^ ?n"
    unfolding t using mod_add_cong[OF _ refl, of "big_endian ?inc" "256 ^ ?n"
        "big_endian inc + offset ! j * 256 ^ (?m - Suc j)" "big_endian (take j offset) * 256 ^ (?m - j)"]
    by (simp only: ac_simps)
  then show ?case using IH by simp
qed

text \<open>
  \<open>incrementBy\<close> is the addition of numbers in base 256, the highest byte first, modulo the size of the first array;
  the offset may be shorter or longer than it.
\<close>

theorem incrementBy_adds:
  assumes "is_bytes src" "is_bytes offset"
  shows "is_bytes (incrementBy src offset) \<and> length (incrementBy src offset) = length src \<and>
    big_endian (incrementBy src offset) = (big_endian src + big_endian offset) mod 256 ^ length src"
  using add_offset_adds[OF assms, of "length offset"] by (simp add: incrementBy_def)

theorem incrementBy_adds_witness:
  "big_endian (incrementBy [0, 255, 255] [1, 1]) = 65535 + 257"
  using incrementBy_adds[of "[0, 255, 255]" "[1, 1]"] by (simp add: is_bytes_def)

theorem utf8_roundtrip_witness:
  "decode (encode [0x48, 0xE9, 0xD83D, 0xDE00]) = Some [0x48, 0xE9, 0xD83D, 0xDE00]"
  using utf8_roundtrip[of "[0x48, 0xE9, 0xD83D, 0xDE00]"] by (simp add: is_units_def)

subsection \<open>Arrays\<close>

lemma set_at_all: "length b \<le> length c \<Longrightarrow> i + length b \<le> length c \<Longrightarrow> length (set_at c b i) = length c"
  by (simp add: set_at_def)

lemma concatBytes_append: "concatBytes a b = a @ b"
  by (simp add: concatBytes_def set_at_def)

lemma set_all_append:
  "length pre = j \<Longrightarrow> set_all (pre @ replicate (sum_list (map length as)) 0) as j = pre @ concat as"
proof (induction as arbitrary: pre j)
  case (Cons a as)
  have "set_at (pre @ replicate (sum_list (map length (a # as))) 0) a j = (pre @ a) @ replicate (sum_list (map length as)) 0"
    using Cons(2) by (simp add: set_at_def)
  then show ?case using Cons(1)[of "pre @ a" "j + length a"] Cons(2) by simp
qed simp

lemma concatBytesArrays_concat: "concatBytesArrays as = concat as"
  using set_all_append[of "[]" 0 as] by (simp add: concatBytesArrays_def)

lemma equal_from_iff: "i + n \<le> length a \<Longrightarrow> i + n \<le> length b \<Longrightarrow>
    equal_from a b i n \<longleftrightarrow> take n (drop i a) = take n (drop i b)"
proof (induction n arbitrary: i)
  case (Suc n)
  have "take (Suc n) (drop i c) = c ! i # take n (drop (Suc i) c)" if "i < length c" for c :: bytes8
    using that by (simp add: Cons_nth_drop_Suc[symmetric])
  then show ?case using Suc by simp
qed simp

lemma sequenceEqual_iff: "sequenceEqual a b \<longleftrightarrow> a = b"
  using equal_from_iff[of 0 "length a" a b] by (auto simp: sequenceEqual_def)

lemma xor_bytes_self: "xor_bytes a b = Inr c \<Longrightarrow> xor_bytes c b = Inr a"
proof -
  assume "xor_bytes a b = Inr c"
  then have l: "length a = length b" and c: "c = map (\<lambda>(x, y). x XOR y) (zip a b)"
    by (auto simp: xor_bytes_def split: if_splits)
  have "map (\<lambda>(x, y). x XOR y) (zip c b) = a"
    unfolding c using l by (intro nth_equalityI) (auto simp: xor.assoc)
  then show ?thesis using l c by (simp add: xor_bytes_def)
qed

text \<open>
  \<open>toHex\<close> does not print its argument: the table it reads has no entries, so every byte is printed as the
  number 0, and arrays of the same length have the same text.
\<close>

theorem toHex_constant: "toHex bs d = hex_join d (replicate (length bs) ''0'')"
proof -
  have "show_byte 0 = ''0''" by (simp add: show_byte.simps) (code_simp)
  then have "show_byte (store_byte (byteToHex n)) = ''0''" for n by (simp add: byteToHex_def store_byte_def)
  then have "map (\<lambda>n. show_byte (store_byte (byteToHex n))) bs = replicate (length bs) ''0''"
    by (simp add: map_replicate_const)
  then show ?thesis by (simp add: toHex_def)
qed

subsection \<open>Base 64\<close>

lemma alphabet_check:
  "list_all (\<lambda>n. b64_digit (b64_char n) = Some n \<and> \<not> is_space (b64_char n) \<and> b64_char n \<noteq> CHR ''='' \<and>
     b64_char n \<noteq> CHR ''-'' \<and> b64_char n \<noteq> CHR ''_'' \<and> b64_char n \<noteq> CHR 0x5C) [0..<64]"
  by code_simp

lemma alphabet:
  assumes "n < 64"
  shows "b64_digit (b64_char n) = Some n" "\<not> is_space (b64_char n)" "b64_char n \<noteq> CHR ''=''"
    "b64_char n \<noteq> CHR ''-''" "b64_char n \<noteq> CHR ''_''" "b64_char n \<noteq> CHR 0x5C"
  using alphabet_check assms by (simp_all add: list_all_iff)

text \<open>The digits of the text without its padding.\<close>

fun b64_plain :: "bytes8 \<Rightarrow> nat list" where
  "b64_plain [] = []"
| "b64_plain [a] = [a div 4, a mod 4 * 16]"
| "b64_plain [a, b] = [a div 4, a mod 4 * 16 + b div 16, b mod 16 * 4]"
| "b64_plain (a # b # c # rest) =
     [a div 4, a mod 4 * 16 + b div 16, b mod 16 * 4 + c div 64, c mod 64] @ b64_plain rest"

lemma b64_plain_less: "is_bytes bs \<Longrightarrow> list_all (\<lambda>n. n < 64) (b64_plain bs)"
  by (induction bs rule: b64_plain.induct) (auto simp: is_bytes_def)

lemma b64_groups_length: "length (b64_groups bs) mod 4 = 0"
  by (induction bs rule: b64_groups.induct) auto

lemma strip_padding_append:
  assumes "length x mod 4 = 0" "y \<noteq> []" "length y mod 4 = 0"
  shows "strip_padding (x @ y) = x @ strip_padding y"
proof -
  have "length y \<noteq> 1" using assms(3) by auto
  then have "butlast y \<noteq> []" using assms(2) by (cases y) auto
  moreover have "length (x @ y) mod 4 = 0" using assms(1,3) by (simp add: mod_add_eq[symmetric])
  ultimately show ?thesis using assms(2,3) by (auto simp: strip_padding_def Let_def butlast_append)
qed

lemma strip_padding_groups: "is_bytes bs \<Longrightarrow> strip_padding (b64_groups bs) = map b64_char (b64_plain bs)"
proof (induction bs rule: b64_groups.induct)
  case (4 a b c rest)
  let ?x = "[b64_char (a div 4), b64_char (a mod 4 * 16 + b div 16), b64_char (b mod 16 * 4 + c div 64), b64_char (c mod 64)]"
  show ?case
  proof (cases "b64_groups rest = []")
    case True
    then have "rest = []" by (cases rest rule: b64_groups.cases) auto
    then show ?thesis using alphabet(3)[of "c mod 64"] by (simp add: strip_padding_def)
  next
    case False
    have "strip_padding (?x @ b64_groups rest) = ?x @ strip_padding (b64_groups rest)"
      using strip_padding_append[of ?x, OF _ False b64_groups_length] by simp
    then show ?thesis using 4 by (simp add: is_bytes_def)
  qed
qed (use alphabet(3) in \<open>auto simp: strip_padding_def is_bytes_def\<close>)

lemma digits64_chars: "list_all (\<lambda>n. n < 64) ns \<Longrightarrow> digits64 (map b64_char ns) = Some ns"
  by (induction ns) (auto simp: alphabet)

lemma b64_decode_plain: "is_bytes bs \<Longrightarrow> b64_decode (b64_plain bs) = Some bs"
proof (induction bs rule: b64_plain.induct)
  case (4 a b c rest)
  have "(a div 4) * 4 + (a mod 4 * 16 + b div 16) div 16 = a"
    "(a mod 4 * 16 + b div 16) mod 16 * 16 + (b mod 16 * 4 + c div 64) div 4 = b"
    "(b mod 16 * 4 + c div 64) mod 4 * 64 + c mod 64 = c"
    using 4(2) by (auto simp: is_bytes_def)
  then show ?case using 4 by (simp add: is_bytes_def)
qed (auto simp: is_bytes_def)

lemma b64_groups_chars:
  "is_bytes bs \<Longrightarrow> c \<in> set (b64_groups bs) \<Longrightarrow> c = CHR ''='' \<or> c \<in> b64_char ` {..<64}"
  by (induction bs rule: b64_groups.induct) (auto simp: is_bytes_def)

lemma b64_groups_plain_chars:
  assumes "is_bytes bs" "c \<in> set (b64_groups bs)"
  shows "\<not> is_space c" "c \<noteq> CHR ''-''" "c \<noteq> CHR ''_''" "c \<noteq> CHR 0x5C"
proof -
  consider "c = CHR ''=''" | n where "n < 64" "c = b64_char n" using b64_groups_chars[OF assms] by blast
  then have "\<not> is_space c \<and> c \<noteq> CHR ''-'' \<and> c \<noteq> CHR ''_'' \<and> c \<noteq> CHR 0x5C"
  proof cases
    case 1
    then show ?thesis by (simp add: is_space_def)
  next
    case 2
    then show ?thesis by (simp add: alphabet)
  qed
  then show "\<not> is_space c" "c \<noteq> CHR ''-''" "c \<noteq> CHR ''_''" "c \<noteq> CHR 0x5C" by blast+
qed

lemma filter_space: "is_bytes bs \<Longrightarrow> filter (\<lambda>c. \<not> is_space c) (b64_groups bs) = b64_groups bs"
  by (rule filter_True) (use b64_groups_plain_chars in blast)

lemma atob_groups: "is_bytes bs \<Longrightarrow> filter (\<lambda>c. \<not> is_space c) x = b64_groups bs \<Longrightarrow> atob x = Some bs"
  by (simp add: atob_def strip_padding_groups digits64_chars b64_plain_less b64_decode_plain)

text \<open>Both alphabets: what \<open>toBase64\<close> prints, \<open>fromBase64\<close> reads.\<close>

lemma base64_roundtrip:
  assumes "is_bytes bs"
  shows "\<exists>x. toBase64 bs u = Some x \<and> fromBase64 x u = Some bs"
proof -
  let ?x = "b64_groups bs"
  have b: "btoa bs = Some ?x" using assms by (simp add: btoa_def is_bytes_def)
  have "CHR ''-'' \<notin> set ?x" "CHR ''_'' \<notin> set ?x" using b64_groups_plain_chars[OF assms] by auto
  then have "replace_char (CHR ''_'') (CHR ''/'') (replace_char (CHR ''-'') (CHR ''+'')
      (replace_char (CHR ''/'') (CHR ''_'') (replace_char (CHR ''+'') (CHR ''-'') ?x))) = ?x"
    by (induction ?x arbitrary: ) (auto simp: replace_char_def intro!: map_idI)
  then show ?thesis using atob_groups[OF assms filter_space[OF assms]] b
    by (cases u) (simp_all add: toBase64_def fromBase64_def)
qed

subsection \<open>PEM\<close>

lemma filter_pem_lines:
  "list_all (\<lambda>c. \<not> is_space c) x \<Longrightarrow> filter (\<lambda>c. \<not> is_space c) (pem_lines x i) = drop i x"
proof (induction x i rule: pem_lines.induct)
  case (1 x i)
  have keep: "filter (\<lambda>c. \<not> is_space c) (take n (drop i x)) = take n (drop i x)" for n
    using 1(2) by (intro filter_True) (auto simp: list_all_iff dest: in_set_takeD in_set_dropD)
  have "is_space newline" by (simp add: is_space_def newline_def)
  moreover have "take 64 (drop i x) @ drop (i + 64) x = drop i x"
    by (metis add.commute append_take_drop_id drop_drop)
  moreover have "\<not> i + 64 \<le> length x \<Longrightarrow> drop (i + 64) x = []" by simp
  ultimately show ?case using 1 keep[of 64] keep[of "length x"]
    by (subst pem_lines.simps) (auto simp del: take_all_iff)
qed

lemma pem_lines_chars: "set (pem_lines x i) \<subseteq> insert newline (set x)"
proof (induction x i rule: pem_lines.induct)
  case (1 x i)
  then show ?case by (subst pem_lines.simps) (auto dest: in_set_takeD in_set_dropD)
qed

lemma remove_escaped_none: "CHR 0x5C \<notin> set x \<Longrightarrow> remove_escaped_newlines x = x"
  by (induction x rule: remove_escaped_newlines.induct) auto

lemma replace_first_here: "p \<noteq> [] \<Longrightarrow> replace_first p (p @ y) = y"
  by (cases p) simp_all

lemma replace_first_later: "p \<noteq> [] \<Longrightarrow> hd p \<notin> set x \<Longrightarrow> replace_first p (x @ p @ y) = x @ y"
proof (induction x)
  case Nil
  then show ?case by (simp add: replace_first_here)
next
  case (Cons c x)
  have "take (length p) ((c # x) @ p @ y) \<noteq> p" using Cons(2,3) by (cases p) auto
  then show ?case using Cons by simp
qed

lemma pem_body_back:
  assumes "is_bytes bs" "convertBinaryToPem bs label = Some pem" "CHR 0x5C \<notin> set label"
  shows "pem_body label pem = Some bs"
proof -
  let ?b = "b64_groups bs"
  let ?lines = "[newline] @ pem_lines ?b 0"
  have pem: "pem = pem_begin label @ ?lines @ pem_end label @ [newline]"
    using assms by (auto simp: convertBinaryToPem_def arrayBufferToBase64String_def btoa_def is_bytes_def)
  have chars: "c \<in> set ?lines \<Longrightarrow> c = newline \<or> c \<in> set ?b" for c
    using pem_lines_chars[of ?b 0] by auto
  have "CHR 0x5C \<notin> set pem"
    using chars b64_groups_plain_chars(4)[OF assms(1)] assms(3)
    unfolding pem by (auto simp: pem_begin_def pem_end_def newline_def)
  then have "remove_escaped_newlines pem = pem" by (rule remove_escaped_none)
  moreover have "replace_first (pem_begin label) pem = ?lines @ pem_end label @ [newline]"
    unfolding pem by (rule replace_first_here) (simp add: pem_begin_def)
  moreover have "hd (pem_end label) \<notin> set ?lines"
    using chars b64_groups_plain_chars(2)[OF assms(1)] by (auto simp: newline_def pem_end_def)
  then have "replace_first (pem_end label) (?lines @ pem_end label @ [newline]) = ?lines @ [newline]"
    by (intro replace_first_later) (simp add: pem_end_def)
  moreover have "filter (\<lambda>c. \<not> is_space c) (?lines @ [newline]) = ?b"
    using filter_pem_lines[of ?b 0] b64_groups_plain_chars(1)[OF assms(1)]
    by (simp add: list_all_iff is_space_def newline_def)
  ultimately show ?thesis using atob_groups[OF assms(1)]
    unfolding pem_body_def base64StringToArrayBuffer_def by metis
qed

text \<open>
  The PEM text of a key reads back as the key: the printer takes every array of bytes, and the reader for the
  kind of key undoes it, though it does not take out the line breaks that the printer has put in.
\<close>

theorem pem_roundtrip:
  assumes "is_bytes bs"
  shows "(\<exists>pem. convertBinaryToPem bs ''PUBLIC KEY'' = Some pem \<and> convertPemPublicKeyToArrayBuffer pem = Some bs) \<and>
    (\<exists>pem. convertBinaryToPem bs ''PRIVATE KEY'' = Some pem \<and> convertPemPrivateKeyToArrayBuffer pem = Some bs)"
proof -
  have "\<exists>pem. convertBinaryToPem bs label = Some pem \<and> pem_body label pem = Some bs" if "CHR 0x5C \<notin> set label" for label
    using pem_body_back[OF assms _ that] assms
    by (simp add: convertBinaryToPem_def arrayBufferToBase64String_def btoa_def is_bytes_def)
  from this[of "''PUBLIC KEY''"] this[of "''PRIVATE KEY''"] show ?thesis
    by (simp add: convertPemPublicKeyToArrayBuffer_def convertPemPrivateKeyToArrayBuffer_def)
qed

theorem pem_roundtrip_witness:
  "\<exists>pem. convertBinaryToPem [48, 89, 255] ''PUBLIC KEY'' = Some pem \<and>
     convertPemPublicKeyToArrayBuffer pem = Some [48, 89, 255]"
  using pem_roundtrip[of "[48, 89, 255]"] by (simp add: is_bytes_def)

end
