(* ===== verification/Routers.thy ===== *)
theory Routers
  imports Users UserKeys Config DriveCopy StudyFields DataClips DataReports Domain Organisation Study
    WebAuthn Instances LxdManager Tokens Json
begin

section \<open>The API (\<open>itmat-apis/trpc\<close>, \<open>itmat-interface/server/helper.ts\<close>)\<close>

text \<open>
  Every procedure of the API as a constructor with the input its schema accepts, the routers that
  run them, and the two middlewares in front: the protection against guests, and the log. A call is made
  with the user of the context (\<open>ctx.user\<close>, fixed when the request arrives) and that of the request
  (\<open>ctx.req.user\<close>, which logging in and out change).
\<close>

subsection \<open>Requests and answers\<close>

record trpc_request =
  ctx_user :: requester
  req_user :: requester
  req_url :: string
  req_origin :: "string option"
  req_hostname :: "string option"

text \<open>
  What belongs to the process: its mode, the name of the application, the configuration of the containers,
  whether the session store takes a log-in or log-out (\<open>passport\<close>), how deep the recursion over drives
  may go, and the two aggregations over the log, which the database evaluates.
\<close>

record process =
  development :: bool
  appName :: string
  configuration :: IConfiguration
  session_login :: "IUserWithoutToken \<Rightarrow> bool"
  session_logout :: "IUserWithoutToken \<Rightarrow> bool"
  drive_fuel :: nat
  logs_summary :: "ILog list \<Rightarrow> jsval"

datatype answer =
    A_Null | A_Bool bool | A_Text string | A_Host "string option" | A_Json jsval
  | A_Requester requester | A_Account IUserWithoutToken | A_User IUser | A_Users "IUser list"
  | A_Response IGenericResponse | A_Responses "IGenericResponse list"
  | A_Key IPubkey | A_Keys "IPubkey list" | A_Config IConfig
  | A_Drive IDrive | A_Drives "IDrive list" | A_Drive_Map "(uref \<times> IDrive list) list"
  | A_Edited_Drive "string list" IDrive | A_Ids "string list"
  | A_Field IField | A_Fields "IField list" | A_Clips "IData list" | A_File IFile
  | A_Domain IDomain | A_Domains "IDomain list" | A_Current_Domain "IDomain option"
  | A_Role IRole | A_Roles "IRole list" | A_Role_Option "IRole option"
  | A_Organisation IOrganisation | A_Organisations "IOrganisation list"
  | A_Study IStudy | A_Studies "IStudy list" | A_Study_Option "IStudy option" | A_Version IStudyDataVersion
  | A_Authenticators "IWebAuthn list" | A_Authenticator "IWebAuthn option" | A_Devices "AuthenticatorDevice list"
  | A_Registration string jsval | A_Logs "ILog list"
  | A_Instance IInstance | A_Instances "IInstance list"
  | A_Quota config_properties "(enumInstanceType \<times> int \<times> string \<times> string) list"

text \<open>The answer of an operation that writes, that may only read, and that cannot fail.\<close>

fun answers :: "('a \<Rightarrow> answer) \<Rightarrow> 'a result \<times> db \<Rightarrow> answer result \<times> db" where
  "answers f (Inl e, s) = (Inl e, s)"
| "answers f (Inr x, s) = (Inr (f x), s)"

definition reads :: "('a \<Rightarrow> answer) \<Rightarrow> 'a result \<Rightarrow> db \<Rightarrow> answer result \<times> db" where
  "reads f r s = answers f (r, s)"

definition with_user :: "requester \<Rightarrow> (IUserWithoutToken \<Rightarrow> db \<Rightarrow> answer result \<times> db) \<Rightarrow> db \<Rightarrow> answer result \<times> db" where
  "with_user r f s = (case r of None \<Rightarrow> (Inl (JSError ''TypeError''), s) | Some u \<Rightarrow> f u s)"

subsection \<open>Users (\<open>userProcedure.ts\<close>)\<close>

datatype user_call =
    user_whoAmI
  | user_getUser "string option" "string option" "string option"
  | user_getUsers bool
  | user_recoverSessionExpireTime
  | user_validateResetPassword string string
  | user_requestExpiryDate "string option" "string option"
  | user_requestUsernameOrResetPassword bool bool "string option" "string option"
  | user_login string string string bool
  | user_logout
  | user_createUser string string string string string "string option" string "FileUpload option"
  | user_deleteUser string
  | user_resetPassword string string string
  | user_editUser string "string option" "enumUserTypes option" "string option" "string option" "string option"
      "string option" "string option" "string option" bool "string option" "int option" "FileUpload option"
  | user_getUserKeys string
  | user_registerPubkey string string string
  | user_requestAccessToken string string
  | user_getAccessToken string string string "int option"
  | user_issueAccessToken string string "int option"
  | user_deletePubkey string string

text \<open>
  \<open>createUser\<close> makes guests only, and drops the description of its input. An absent header \<open>origin\<close> shows in
  the mail as the text \<open>undefined\<close>.
\<close>

fun user_router :: "env \<Rightarrow> mongo \<Rightarrow> process \<Rightarrow> trpc_request \<Rightarrow> user_call \<Rightarrow> db \<Rightarrow> answer result \<times> db" where
  "user_router E M P r user_whoAmI s = (Inr (A_Requester (req_user r)), s)"
| "user_router E M P r (user_getUser i n m) s = reads A_Account (getUser M (ctx_user r) i n m s) s"
| "user_router E M P r (user_getUsers del) s = reads A_Users (getUsers M (ctx_user r) del s) s"
| "user_router E M P r user_recoverSessionExpireTime s = (Inr A_Null, s)"
| "user_router E M P r (user_validateResetPassword enc tok) s = answers A_Response (validateResetPassword E M enc tok s)"
| "user_router E M P r (user_requestExpiryDate n m) s = answers A_Response (requestExpiryDate E M n m s)"
| "user_router E M P r (user_requestUsernameOrResetPassword fu fp m n) s =
     answers A_Response (requestUsernameOrResetPassword E M fu fp (nullish (req_origin r) ''undefined'') m n s)"
| "user_router E M P r (user_login n pw totp ask) s =
     answers A_Account (login E M (development P) (session_login P) n pw totp ask s)"
| "user_router E M P r user_logout s = reads A_Response (logout (session_logout P) (ctx_user r)) s"
| "user_router E M P r (user_createUser n f l m pw descr org profile) s =
     answers A_User (createUser E M (ctx_user r) n m f l org GUEST False pw profile None s)"
| "user_router E M P r (user_deleteUser i) s = answers A_Response (deleteUser E M (ctx_user r) i s)"
| "user_router E M P r (user_resetPassword enc tok pw) s = answers A_Response (resetPassword E M enc tok pw s)"
| "user_router E M P r (user_editUser i n ty f l m pw descr org active otp expires profile) s =
     answers A_User (editUser E M (ctx_user r) i n m f l org ty active pw otp profile descr expires s)"
| "user_router E M P r (user_getUserKeys i) s = reads A_Keys (getUserKeys M (ctx_user r) i s) s"
| "user_router E M P r (user_registerPubkey pk h i) s = answers A_Key (registerPubkey E M (ctx_user r) pk (Some h) i s)"
| "user_router E M P r (user_requestAccessToken n h) s = answers A_Text (requestAccessToken E M n h s)"
| "user_router E M P r (user_getAccessToken n h sig lifetime) s = answers A_Text (getAccessToken E M n h sig lifetime s)"
| "user_router E M P r (user_issueAccessToken pk sig lifetime) s = answers A_Text (issueAccessToken E M pk sig lifetime s)"
| "user_router E M P r (user_deletePubkey i k) s = answers A_Response (deletePubkey E M (ctx_user r) i k s)"

subsection \<open>Configurations (\<open>configProcedure.ts\<close>)\<close>

datatype config_call =
    config_getConfig enumConfigType "string option" bool
  | config_editConfig enumConfigType "string option" config_properties
  | config_createConfig enumConfigType "string option" config_properties

fun config_router :: "env \<Rightarrow> mongo \<Rightarrow> trpc_request \<Rightarrow> config_call \<Rightarrow> db \<Rightarrow> answer result \<times> db" where
  "config_router E M r (config_getConfig ty k def) s = answers A_Config (getConfig E M ty k def s)"
| "config_router E M r (config_editConfig ty k props) s = answers A_Response (editConfig M (ctx_user r) ty k props s)"
| "config_router E M r (config_createConfig ty k props) s = answers A_Config (createConfig E M (ctx_user r) ty k props s)"

subsection \<open>Drives (\<open>driveProcedure.ts\<close>)\<close>

datatype drive_call =
    drive_createDriveFolder string "string option" "string option"
  | drive_createDriveFile "string option" "string option" "FileUpload list"
  | drive_createRecursiveDrives string "FileUpload list" "string list list"
  | drive_getDrives "string option"
  | drive_editDrive string "string option" "string option" "string option" "string option" "string list option"
      "IDrivePermission list option"
  | drive_shareDriveToUserViaEmail "string list" string "bool \<times> bool \<times> bool"
  | drive_deleteDrive string
  | drive_copyDrive string string

text \<open>
  The router looks the type of a file up by the extension of its name. Without a type,
  \<open>createDriveFile\<close> refuses the file after the checks of the parent.
\<close>

definition createDriveFile_untyped :: "mongo \<Rightarrow> requester \<Rightarrow> string option \<Rightarrow> db \<Rightarrow> IDrive result" where
  "createDriveFile_untyped M requester parentId s =
     (case requester of
        None \<Rightarrow> Inl (core_error NOT_LOGGED_IN)
      | Some req \<Rightarrow>
          (case find_parent M req parentId s of
             None \<Rightarrow> Inl (core_error NO_PERMISSION_ERROR)
           | Some par \<Rightarrow>
               if \<not> shared_write_object req par \<and> managerId par \<noteq> Uid (doc_id req)
               then Inl (core_error NO_PERMISSION_ERROR)
               else if drive_type par \<noteq> FOLDER
               then Inl (CoreError CLIENT_MALFORMED_INPUT ''Parent is not a folder.'')
               else Inl (CoreError CLIENT_MALFORMED_INPUT ''File or filetype not valid.'')))"

definition route_createDriveFile ::
    "env \<Rightarrow> mongo \<Rightarrow> requester \<Rightarrow> string option \<Rightarrow> string option \<Rightarrow> FileUpload list \<Rightarrow> db \<Rightarrow> answer result \<times> db" where
  "route_createDriveFile E M requester parentId descr fs s =
     (case fs of
        [] \<Rightarrow> (Inl (JSError ''TypeError''), s)
      | file # _ \<Rightarrow>
          (case file_type_of_extension (filename file) of
             None \<Rightarrow> reads A_Drive (createDriveFile_untyped M requester parentId s) s
           | Some ftype \<Rightarrow> answers A_Drive (createDriveFile E M requester parentId descr ftype file s)))"

fun drive_router :: "env \<Rightarrow> mongo \<Rightarrow> process \<Rightarrow> trpc_request \<Rightarrow> drive_call \<Rightarrow> db \<Rightarrow> (answer result \<times> db) option" where
  "drive_router E M P r (drive_createDriveFolder n p descr) s =
     Some (answers A_Drive (createDriveFolder E M (ctx_user r) n p False descr s))"
| "drive_router E M P r (drive_createDriveFile p descr fs) s =
     Some (route_createDriveFile E M (ctx_user r) p descr fs s)"
| "drive_router E M P r (drive_createRecursiveDrives p fs ps) s =
     Some (answers A_Drives (createRecursiveDrives E M (ctx_user r) p fs ps s))"
| "drive_router E M P r (drive_getDrives i) s = Some (answers A_Drive_Map (getDrives E M (ctx_user r) i s))"
| "drive_router E M P r (drive_editDrive i mgr n descr p cs sh) s =
     map_option (answers (\<lambda>(ids, d). A_Edited_Drive ids d)) (editDrive (drive_fuel P) M (ctx_user r) i mgr n descr p cs sh s)"
| "drive_router E M P r (drive_shareDriveToUserViaEmail ms i perm) s =
     map_option (answers A_Ids) (shareDriveToUserViaEmail (drive_fuel P) M (req_user r) ms i perm s)"
| "drive_router E M P r (drive_deleteDrive i) s =
     map_option (answers A_Drive) (deleteDrive (drive_fuel P) E M (ctx_user r) i s)"
| "drive_router E M P r (drive_copyDrive i t) s =
     (case copyDrive (drive_fuel P) E M (ctx_user r) i t s of
        Copied x s1 \<Rightarrow> Some (answers A_Response (x, s1))
      | _ \<Rightarrow> None)"

subsection \<open>Studies and their data (\<open>studyProcedure.ts\<close>, \<open>dataProcedure.ts\<close>)\<close>

datatype study_call =
    study_getStudies "string option"
  | study_createStudy string "string option" "FileUpload option"
  | study_editStudy string "string option" "string option" "FileUpload option"
  | study_editStudyVisibility string bool
  | study_deleteStudy string
  | study_createDataVersion string string string
  | study_setDataversionAsCurrent string string

text \<open>\<open>opts.ctx.req?.user ?? opts.ctx.user\<close>\<close>

definition either_user :: "trpc_request \<Rightarrow> requester" where
  "either_user r = (case req_user r of None \<Rightarrow> ctx_user r | Some u \<Rightarrow> Some u)"

fun study_router :: "env \<Rightarrow> mongo \<Rightarrow> trpc_request \<Rightarrow> study_call \<Rightarrow> db \<Rightarrow> answer result \<times> db" where
  "study_router E M r (study_getStudies i) s = reads A_Studies (getStudies M (either_user r) i s) s"
| "study_router E M r (study_createStudy n descr profile) s =
     answers A_Study (createStudy E M (req_user r) n descr profile s)"
| "study_router E M r (study_editStudy i n descr profile) s =
     answers A_Study_Option (editStudy E M (req_user r) i n descr profile s)"
| "study_router E M r (study_editStudyVisibility i public) s =
     answers A_Study_Option (editStudyVisibility M (req_user r) i public s)"
| "study_router E M r (study_deleteStudy i) s = answers A_Response (deleteStudy E M (req_user r) i s)"
| "study_router E M r (study_createDataVersion i vers tg) s =
     answers A_Version (createDataVersion E M (req_user r) i tg vers None s)"
| "study_router E M r (study_setDataversionAsCurrent i v) s =
     answers A_Response (setDataversionAsCurrent M (req_user r) i v s)"

datatype data_call =
    data_getStudyFields string version_arg "string list option"
  | data_createStudyField CreateFieldInput
  | data_editStudyField CreateFieldInput
  | data_deleteStudyField string string
  | data_uploadStudyData string "IDataInput list"
  | data_getStudyData string version_arg "aggregation option" "string list option" bool bool bool
  | data_getStudyDataLatest string "string list option"
  | data_deleteStudyData string string jsval
  | data_uploadStudyFileData string FileUpload "string option" string
  | data_getStudyFiles string version_arg "string list option" bool bool bool
  | data_deleteFile string
  | data_getStudyDataSummary string bool bool

text \<open>The metadata of the input are not passed on when a field is edited.\<close>

fun data_router :: "env \<Rightarrow> mongo \<Rightarrow> trpc_request \<Rightarrow> data_call \<Rightarrow> db \<Rightarrow> answer result \<times> db" where
  "data_router E M r (data_getStudyFields i v fs) s = reads A_Fields (getStudyFields E M (ctx_user r) i v fs s) s"
| "data_router E M r (data_createStudyField x) s = answers A_Field (createField E M (ctx_user r) x s)"
| "data_router E M r (data_editStudyField x) s =
     answers A_Response (editField E M (ctx_user r) (x\<lparr>in_metadata := None\<rparr>) s)"
| "data_router E M r (data_deleteStudyField i f) s = answers A_Response (deleteField E M (ctx_user r) i f s)"
| "data_router E M r (data_uploadStudyData i xs) s = answers A_Responses (uploadData E M (req_user r) i xs s)"
| "data_router E M r (data_getStudyData i v agg fs useCache force cold) s =
     answers A_Json (getStudyData E M (req_user r) i fs v agg useCache force cold s)"
| "data_router E M r (data_getStudyDataLatest i fs) s = reads A_Clips (getDataLatest E M (req_user r) i fs s) s"
| "data_router E M r (data_deleteStudyData i f props) s = answers A_Response (deleteData E M (req_user r) i f props s)"
| "data_router E M r (data_uploadStudyFileData i file props f) s =
     answers A_File (uploadFileData E M (req_user r) i file f props s)"
| "data_router E M r (data_getStudyFiles i v fs readable useCache force) s =
     answers A_Json (getStudyFiles E M (req_user r) i fs v readable useCache force s)"
| "data_router E M r (data_deleteFile f) s = answers A_Response (deleteDataFile E M (req_user r) f s)"
| "data_router E M r (data_getStudyDataSummary i useCache force) s =
     answers A_Json (getStudySummary E M (req_user r) i useCache force s)"

subsection \<open>Roles, logs, domains, organisations\<close>

datatype role_call =
    role_getUserRoles string "string option"
  | role_getStudyRoles string
  | role_createStudyRole string string "string option" "IDataPermission list option" "enumStudyRoles option" "string list option"
  | role_editStudyRole string "string option" "string option" "IDataPermission list option" "enumStudyRoles option" "string list option"
  | role_addGuestUser string
  | role_deleteStudyRole string

text \<open>\<open>addGuestUser\<close> is not told who asks.\<close>

fun role_router :: "env \<Rightarrow> mongo \<Rightarrow> trpc_request \<Rightarrow> role_call \<Rightarrow> db \<Rightarrow> answer result \<times> db" where
  "role_router E M r (role_getUserRoles u i) s = reads A_Roles (getRolesOfUser M s (ctx_user r) u i) s"
| "role_router E M r (role_getStudyRoles i) s = reads A_Roles (getRolesOfStudy M s (ctx_user r) i) s"
| "role_router E M r (role_createStudyRole i n descr perms ty us) s =
     answers A_Role (createStudyRole E M (ctx_user r) i n descr perms ty us s)"
| "role_router E M r (role_editStudyRole i n descr perms ty us) s =
     answers A_Role_Option (editStudyRole M (ctx_user r) i n descr perms ty us s)"
| "role_router E M r (role_addGuestUser n) s = answers A_Response (addGuestUser E M n s)"
| "role_router E M r (role_deleteStudyRole i) s = answers A_Response (deleteStudyRole E M (ctx_user r) i s)"

datatype log_read_call =
    log_getLogs "string option" "enumEventType list option" "enumAPIResolver list option" "string list option"
      "enumEventStatus list option" "(int \<times> int) option" "(int \<times> int) option"
  | log_getLogsSummary

fun log_router :: "mongo \<Rightarrow> process \<Rightarrow> trpc_request \<Rightarrow> log_read_call \<Rightarrow> db \<Rightarrow> answer result \<times> db" where
  "log_router M P r (log_getLogs caller tys rs evs sts ixs interval) s =
     reads A_Logs (getLogs M (req_user r) caller tys rs evs sts ixs interval s) s"
| "log_router M P r log_getLogsSummary s = (Inr (A_Json (logs_summary P (log_collection s))), s)"

datatype domain_call =
    domain_getDomains "string option" "string option" "string option"
  | domain_createDomain string string "FileUpload option" "string option"
  | domain_editDomain string "string option" "string option" "FileUpload option" "string option"
  | domain_deleteDomain string
  | domain_getCurrentSubPath
  | domain_getCurrentDomain

fun domain_router :: "env \<Rightarrow> mongo \<Rightarrow> trpc_request \<Rightarrow> domain_call \<Rightarrow> db \<Rightarrow> answer result \<times> db" where
  "domain_router E M r (domain_getDomains i n p) s = reads A_Domains (getDomains M (either_user r) i n p s) s"
| "domain_router E M r (domain_createDomain n p icon col) s =
     answers A_Domain (createDomain E M (either_user r) n p icon col s)"
| "domain_router E M r (domain_editDomain i n p icon col) s =
     answers A_Response (editDomain E M (either_user r) i n p icon col s)"
| "domain_router E M r (domain_deleteDomain i) s = answers A_Response (deleteDomain E M (either_user r) i s)"
| "domain_router E M r domain_getCurrentSubPath s = (Inr (A_Host (req_hostname r)), s)"
| "domain_router E M r domain_getCurrentDomain s = reads A_Current_Domain (getCurrentDomain E M (req_hostname r) s) s"

datatype organisation_call =
    organisation_getOrganisations "string option"
  | organisation_createOrganisation string "string option" "FileUpload option"
  | organisation_editOrganisation string string string "FileUpload option"
  | organisation_deleteOrganisation string

fun organisation_router :: "env \<Rightarrow> mongo \<Rightarrow> trpc_request \<Rightarrow> organisation_call \<Rightarrow> db \<Rightarrow> answer result \<times> db" where
  "organisation_router E M r (organisation_getOrganisations i) s = (Inr (A_Organisations (getOrganisations M i s)), s)"
| "organisation_router E M r (organisation_createOrganisation n sn profile) s =
     answers A_Organisation (createOrganisation E M (ctx_user r) n sn profile s)"
| "organisation_router E M r (organisation_editOrganisation i n sn profile) s =
     answers A_Response (editOrganisation E M (ctx_user r) i (Some n) (Some sn) profile s)"
| "organisation_router E M r (organisation_deleteOrganisation i) s =
     answers A_Response (deleteOrganisation E M (ctx_user r) i s)"

subsection \<open>Authenticators (\<open>webauthnProcedure.ts\<close>)\<close>

datatype webauthn_call =
    webauthn_getWebauthn "string list"
  | webauthn_getWebauthnRegisteredDevices
  | webauthn_getWebauthnID
  | webauthn_webauthnRegister
  | webauthn_webauthnRegisterVerify jsval
  | webauthn_webauthnAuthenticate string
  | webauthn_webauthnAuthenticateVerify string jsval
  | webauthn_deleteWebauthnRegisteredDevices string
  | webauthn_updateWebauthnDeviceName string string
  | webauthn_webauthnLogin string bool

text \<open>\<open>new URL(req.headers.origin).hostname\<close>, which throws without the header or for no URL.\<close>

definition getCurrentOriginAndRpID :: "env \<Rightarrow> trpc_request \<Rightarrow> (string \<times> string) result" where
  "getCurrentOriginAndRpID E r =
     (case req_origin r of
        None \<Rightarrow> Inl (JSError ''TypeError'')
      | Some x \<Rightarrow> (case url_hostname E x of None \<Rightarrow> Inl (JSError ''TypeError'') | Some h \<Rightarrow> Inr (x, h)))"

definition with_origin ::
    "env \<Rightarrow> trpc_request \<Rightarrow> (string \<Rightarrow> string \<Rightarrow> db \<Rightarrow> answer result \<times> db) \<Rightarrow> db \<Rightarrow> answer result \<times> db" where
  "with_origin E r f s =
     (case getCurrentOriginAndRpID E r of Inl e \<Rightarrow> (Inl e, s) | Inr (origin, rpID) \<Rightarrow> f origin rpID s)"

text \<open>
  The operations read the id of the user they are given, and throw where there is none; the challenge for a
  registration is drawn before that.
\<close>

fun webauthn_router :: "env \<Rightarrow> mongo \<Rightarrow> process \<Rightarrow> trpc_request \<Rightarrow> webauthn_call \<Rightarrow> db \<Rightarrow> answer result \<times> db" where
  "webauthn_router E M P r (webauthn_getWebauthn ids) s = (Inr (A_Authenticators (getWebauthn M ids s)), s)"
| "webauthn_router E M P r webauthn_getWebauthnRegisteredDevices s =
     with_user (req_user r) (\<lambda>u s. (Inr (A_Devices (getWebauthnDevices M u s)), s)) s"
| "webauthn_router E M P r webauthn_getWebauthnID s =
     with_user (req_user r) (\<lambda>u s. (Inr (A_Authenticator (getUserWebAuthnID M u s)), s)) s"
| "webauthn_router E M P r webauthn_webauthnRegister s =
     with_origin E r (\<lambda>_ rpID s.
       case ctx_user r of
         None \<Rightarrow> (Inl (JSError ''TypeError''), snd (generate_challenge E s))
       | Some u \<Rightarrow> answers (\<lambda>(i, opts). A_Registration i opts)
                    (getWebauthnRegistrationOptions E M (appName P) u rpID s)) s"
| "webauthn_router E M P r (webauthn_webauthnRegisterVerify response) s =
     with_origin E r (\<lambda>origin rpID.
       with_user (req_user r) (\<lambda>u s. answers A_Response (handleRegistrationVerify E M u response origin rpID s))) s"
| "webauthn_router E M P r (webauthn_webauthnAuthenticate i) s =
     with_origin E r (\<lambda>_ rpID s. reads A_Json (getWebauthnAuthenticationOptions E M i rpID s) s) s"
| "webauthn_router E M P r (webauthn_webauthnAuthenticateVerify i response) s =
     with_origin E r (\<lambda>origin rpID s. answers A_Response (handleAuthenticationVerify E M i response origin rpID s)) s"
| "webauthn_router E M P r (webauthn_deleteWebauthnRegisteredDevices i) s =
     with_user (ctx_user r) (\<lambda>u s. answers A_Devices (deleteWebauthnDevices M u i s)) s"
| "webauthn_router E M P r (webauthn_updateWebauthnDeviceName i n) s =
     with_user (ctx_user r) (\<lambda>u s. answers A_Devices (updateWebauthnDeviceName M u i n s)) s"
| "webauthn_router E M P r (webauthn_webauthnLogin i ask) s =
     answers A_Account (webauthnLogin E M (session_login P) i ask s)"

subsection \<open>Instances and containers (\<open>instanceProcedure.ts\<close>, \<open>lxdProcedure.ts\<close>)\<close>

datatype instance_call =
    instance_createInstance string LXDInstanceTypeEnum enumAppType int "jnum option" "string option" "string option"
  | instance_startStopInstance string bool
  | instance_restartInstance string int
  | instance_getInstances
  | instance_editInstance "string option" "string option" jobject
  | instance_deleteInstance string
  | instance_extendInstanceLifespan string int
  | instance_getQuotaAndFlavors

text \<open>The operations that list instances keep the last readings of the processors in the memory of the process.\<close>

definition with_memory ::
    "('a \<Rightarrow> answer) \<Rightarrow> 'a result \<times> cpu_memory \<times> db \<Rightarrow> answer result \<times> cpu_memory \<times> db" where
  "with_memory f x = (case x of (r, mem, s) \<Rightarrow> (fst (answers f (r, s)), mem, s))"

definition same_memory :: "cpu_memory \<Rightarrow> answer result \<times> db \<Rightarrow> answer result \<times> cpu_memory \<times> db" where
  "same_memory mem x = (case x of (r, s) \<Rightarrow> (r, mem, s))"

fun instance_router ::
    "env \<Rightarrow> mongo \<Rightarrow> process \<Rightarrow> trpc_request \<Rightarrow> instance_call \<Rightarrow> cpu_memory \<Rightarrow> db \<Rightarrow> answer result \<times> cpu_memory \<times> db" where
  "instance_router E M P r (instance_createInstance n ty app lifespan cpu ram disk) mem s =
     with_memory A_Instance
       (route_createInstance E M (configuration P) (req_user r) n ty app lifespan cpu ram disk mem s)"
| "instance_router E M P r (instance_startStopInstance i start) mem s =
     same_memory mem (answers A_Instance (route_startStopInstance E M (req_user r) i start s))"
| "instance_router E M P r (instance_restartInstance i lifespan) mem s =
     same_memory mem (answers A_Instance (route_restartInstance E M (req_user r) i lifespan s))"
| "instance_router E M P r instance_getInstances mem s =
     with_memory A_Instances (route_getInstances E M (req_user r) mem s)"
| "instance_router E M P r (instance_editInstance i n upd) mem s =
     same_memory mem (answers A_Instance (route_editInstance E M (req_user r) i n upd s))"
| "instance_router E M P r (instance_deleteInstance i) mem s =
     same_memory mem (answers A_Bool (route_deleteInstance E M (req_user r) i s))"
| "instance_router E M P r (instance_extendInstanceLifespan i t) mem s =
     same_memory mem (answers A_Instance (route_extendInstanceLifespan E M (req_user r) i t s))"
| "instance_router E M P r instance_getQuotaAndFlavors mem s =
     same_memory mem (answers (\<lambda>(c, fl). A_Quota c fl) (route_getQuotaAndFlavors E M (req_user r) s))"

subsection \<open>All routers (\<open>tRPCRouter.ts\<close>)\<close>

text \<open>\<open>Refused_Input\<close> is a call of a procedure with an input its schema does not accept.\<close>

datatype trpc_call =
    User user_call
  | Drive drive_call
  | Study study_call
  | Data data_call
  | Role role_call
  | Config config_call
  | Log log_read_call
  | Domain domain_call
  | Organisation organisation_call
  | Webauthn webauthn_call
  | Instance instance_call
  | Lxd lxd_route
  | Refused_Input string string

fun call_router ::
    "env \<Rightarrow> mongo \<Rightarrow> process \<Rightarrow> trpc_request \<Rightarrow> trpc_call \<Rightarrow> cpu_memory \<Rightarrow> db \<Rightarrow> (answer result \<times> cpu_memory \<times> db) option" where
  "call_router E M P r (User c) mem s = Some (same_memory mem (user_router E M P r c s))"
| "call_router E M P r (Drive c) mem s = map_option (same_memory mem) (drive_router E M P r c s)"
| "call_router E M P r (Study c) mem s = Some (same_memory mem (study_router E M r c s))"
| "call_router E M P r (Data c) mem s = Some (same_memory mem (data_router E M r c s))"
| "call_router E M P r (Role c) mem s = Some (same_memory mem (role_router E M r c s))"
| "call_router E M P r (Config c) mem s = Some (same_memory mem (config_router E M r c s))"
| "call_router E M P r (Log c) mem s = Some (same_memory mem (log_router M P r c s))"
| "call_router E M P r (Domain c) mem s = Some (same_memory mem (domain_router E M r c s))"
| "call_router E M P r (Organisation c) mem s = Some (same_memory mem (organisation_router E M r c s))"
| "call_router E M P r (Webauthn c) mem s = Some (same_memory mem (webauthn_router E M P r c s))"
| "call_router E M P r (Instance c) mem s = Some (instance_router E M P r c mem s)"
| "call_router E M P r (Lxd c) mem s =
     Some (same_memory mem (answers A_Json (lxd_router E (configuration P) (req_user r) c s)))"
| "call_router E M P r (Refused_Input p m) mem s = Some (Inl (JSError m), mem, s)"

end
