(* ===== verification/Api.thy ===== *)
theory Api
  imports Routers
begin

section \<open>Calls of the API, with their middlewares\<close>

text \<open>
  The base procedure of \<open>itmat-interface/server/helper.ts\<close>: every call passes the protection against guests
  (\<open>utils/guestProtection.ts\<close>), then the log (\<open>itmat-apis/trpc/middleware.ts\<close>), then the check of its input.
\<close>

subsection \<open>The paths of the procedures\<close>

fun user_path :: "user_call \<Rightarrow> string" where
  "user_path user_whoAmI = ''user.whoAmI''"
| "user_path (user_getUser _ _ _) = ''user.getUser''"
| "user_path (user_getUsers _) = ''user.getUsers''"
| "user_path user_recoverSessionExpireTime = ''user.recoverSessionExpireTime''"
| "user_path (user_validateResetPassword _ _) = ''user.validateResetPassword''"
| "user_path (user_requestExpiryDate _ _) = ''user.requestExpiryDate''"
| "user_path (user_requestUsernameOrResetPassword _ _ _ _) = ''user.requestUsernameOrResetPassword''"
| "user_path (user_login _ _ _ _) = ''user.login''"
| "user_path user_logout = ''user.logout''"
| "user_path (user_createUser _ _ _ _ _ _ _ _) = ''user.createUser''"
| "user_path (user_deleteUser _) = ''user.deleteUser''"
| "user_path (user_resetPassword _ _ _) = ''user.resetPassword''"
| "user_path (user_editUser _ _ _ _ _ _ _ _ _ _ _ _ _) = ''user.editUser''"
| "user_path (user_getUserKeys _) = ''user.getUserKeys''"
| "user_path (user_registerPubkey _ _ _) = ''user.registerPubkey''"
| "user_path (user_requestAccessToken _ _) = ''user.requestAccessToken''"
| "user_path (user_getAccessToken _ _ _ _) = ''user.getAccessToken''"
| "user_path (user_issueAccessToken _ _ _) = ''user.issueAccessToken''"
| "user_path (user_deletePubkey _ _) = ''user.deletePubkey''"

fun config_path :: "config_call \<Rightarrow> string" where
  "config_path (config_getConfig _ _ _) = ''config.getConfig''"
| "config_path (config_editConfig _ _ _) = ''config.editConfig''"
| "config_path (config_createConfig _ _ _) = ''config.createConfig''"

fun drive_path :: "drive_call \<Rightarrow> string" where
  "drive_path (drive_createDriveFolder _ _ _) = ''drive.createDriveFolder''"
| "drive_path (drive_createDriveFile _ _ _) = ''drive.createDriveFile''"
| "drive_path (drive_createRecursiveDrives _ _ _) = ''drive.createRecursiveDrives''"
| "drive_path (drive_getDrives _) = ''drive.getDrives''"
| "drive_path (drive_editDrive _ _ _ _ _ _ _) = ''drive.editDrive''"
| "drive_path (drive_shareDriveToUserViaEmail _ _ _) = ''drive.shareDriveToUserViaEmail''"
| "drive_path (drive_deleteDrive _) = ''drive.deleteDrive''"
| "drive_path (drive_copyDrive _ _) = ''drive.copyDrive''"

fun study_path :: "study_call \<Rightarrow> string" where
  "study_path (study_getStudies _) = ''study.getStudies''"
| "study_path (study_createStudy _ _ _) = ''study.createStudy''"
| "study_path (study_editStudy _ _ _ _) = ''study.editStudy''"
| "study_path (study_editStudyVisibility _ _) = ''study.editStudyVisibility''"
| "study_path (study_deleteStudy _) = ''study.deleteStudy''"
| "study_path (study_createDataVersion _ _ _) = ''study.createDataVersion''"
| "study_path (study_setDataversionAsCurrent _ _) = ''study.setDataversionAsCurrent''"

fun data_path :: "data_call \<Rightarrow> string" where
  "data_path (data_getStudyFields _ _ _) = ''data.getStudyFields''"
| "data_path (data_createStudyField _) = ''data.createStudyField''"
| "data_path (data_editStudyField _) = ''data.editStudyField''"
| "data_path (data_deleteStudyField _ _) = ''data.deleteStudyField''"
| "data_path (data_uploadStudyData _ _) = ''data.uploadStudyData''"
| "data_path (data_getStudyData _ _ _ _ _ _ _) = ''data.getStudyData''"
| "data_path (data_getStudyDataLatest _ _) = ''data.getStudyDataLatest''"
| "data_path (data_deleteStudyData _ _ _) = ''data.deleteStudyData''"
| "data_path (data_uploadStudyFileData _ _ _ _) = ''data.uploadStudyFileData''"
| "data_path (data_getStudyFiles _ _ _ _ _ _) = ''data.getStudyFiles''"
| "data_path (data_deleteFile _) = ''data.deleteFile''"
| "data_path (data_getStudyDataSummary _ _ _) = ''data.getStudyDataSummary''"

fun role_path :: "role_call \<Rightarrow> string" where
  "role_path (role_getUserRoles _ _) = ''role.getUserRoles''"
| "role_path (role_getStudyRoles _) = ''role.getStudyRoles''"
| "role_path (role_createStudyRole _ _ _ _ _ _) = ''role.createStudyRole''"
| "role_path (role_editStudyRole _ _ _ _ _ _) = ''role.editStudyRole''"
| "role_path (role_addGuestUser _) = ''role.addGuestUser''"
| "role_path (role_deleteStudyRole _) = ''role.deleteStudyRole''"

fun log_path :: "log_read_call \<Rightarrow> string" where
  "log_path (log_getLogs _ _ _ _ _ _ _) = ''log.getLogs''"
| "log_path log_getLogsSummary = ''log.getLogsSummary''"

fun domain_path :: "domain_call \<Rightarrow> string" where
  "domain_path (domain_getDomains _ _ _) = ''domain.getDomains''"
| "domain_path (domain_createDomain _ _ _ _) = ''domain.createDomain''"
| "domain_path (domain_editDomain _ _ _ _ _) = ''domain.editDomain''"
| "domain_path (domain_deleteDomain _) = ''domain.deleteDomain''"
| "domain_path domain_getCurrentSubPath = ''domain.getCurrentSubPath''"
| "domain_path domain_getCurrentDomain = ''domain.getCurrentDomain''"

fun organisation_path :: "organisation_call \<Rightarrow> string" where
  "organisation_path (organisation_getOrganisations _) = ''organisation.getOrganisations''"
| "organisation_path (organisation_createOrganisation _ _ _) = ''organisation.createOrganisation''"
| "organisation_path (organisation_editOrganisation _ _ _ _) = ''organisation.editOrganisation''"
| "organisation_path (organisation_deleteOrganisation _) = ''organisation.deleteOrganisation''"

fun webauthn_path :: "webauthn_call \<Rightarrow> string" where
  "webauthn_path (webauthn_getWebauthn _) = ''webauthn.getWebauthn''"
| "webauthn_path webauthn_getWebauthnRegisteredDevices = ''webauthn.getWebauthnRegisteredDevices''"
| "webauthn_path webauthn_getWebauthnID = ''webauthn.getWebauthnID''"
| "webauthn_path webauthn_webauthnRegister = ''webauthn.webauthnRegister''"
| "webauthn_path (webauthn_webauthnRegisterVerify _) = ''webauthn.webauthnRegisterVerify''"
| "webauthn_path (webauthn_webauthnAuthenticate _) = ''webauthn.webauthnAuthenticate''"
| "webauthn_path (webauthn_webauthnAuthenticateVerify _ _) = ''webauthn.webauthnAuthenticateVerify''"
| "webauthn_path (webauthn_deleteWebauthnRegisteredDevices _) = ''webauthn.deleteWebauthnRegisteredDevices''"
| "webauthn_path (webauthn_updateWebauthnDeviceName _ _) = ''webauthn.updateWebauthnDeviceName''"
| "webauthn_path (webauthn_webauthnLogin _ _) = ''webauthn.webauthnLogin''"

fun instance_path :: "instance_call \<Rightarrow> string" where
  "instance_path (instance_createInstance _ _ _ _ _ _ _) = ''instance.createInstance''"
| "instance_path (instance_startStopInstance _ _) = ''instance.startStopInstance''"
| "instance_path (instance_restartInstance _ _) = ''instance.restartInstance''"
| "instance_path instance_getInstances = ''instance.getInstances''"
| "instance_path (instance_editInstance _ _ _) = ''instance.editInstance''"
| "instance_path (instance_deleteInstance _) = ''instance.deleteInstance''"
| "instance_path (instance_extendInstanceLifespan _ _) = ''instance.extendInstanceLifespan''"
| "instance_path instance_getQuotaAndFlavors = ''instance.getQuotaAndFlavors''"

fun lxd_path :: "lxd_route \<Rightarrow> string" where
  "lxd_path Get_Resources = ''lxd.getResources''"
| "lxd_path Get_Instances = ''lxd.getInstances''"
| "lxd_path (Get_InstanceState _ _) = ''lxd.getInstanceState''"
| "lxd_path Get_Operations = ''lxd.getOperations''"
| "lxd_path (Get_OperationStatus _) = ''lxd.getOperationStatus''"
| "lxd_path (Get_Console _ _) = ''lxd.getInstanceConsole''"
| "lxd_path (Get_ConsoleLog _) = ''lxd.getInstanceConsoleLog''"
| "lxd_path (Create_Instance _ _) = ''lxd.createInstance''"
| "lxd_path (Update_Instance _ _ _) = ''lxd.updateInstance''"
| "lxd_path (StartStop_Instance _ _ _) = ''lxd.startStopInstance''"
| "lxd_path (Delete_Instance _ _) = ''lxd.deleteInstance''"

fun call_path :: "trpc_call \<Rightarrow> string" where
  "call_path (User c) = user_path c"
| "call_path (Config c) = config_path c"
| "call_path (Drive c) = drive_path c"
| "call_path (Study c) = study_path c"
| "call_path (Data c) = data_path c"
| "call_path (Role c) = role_path c"
| "call_path (Log c) = log_path c"
| "call_path (Domain c) = domain_path c"
| "call_path (Organisation c) = organisation_path c"
| "call_path (Webauthn c) = webauthn_path c"
| "call_path (Instance c) = instance_path c"
| "call_path (Lxd c) = lxd_path c"
| "call_path (Refused_Input p _) = p"

subsection \<open>Protection against guests (\<open>guestProtection.ts\<close>)\<close>

definition GUEST_ALLOWED_ROUTERS :: "string list" where
  "GUEST_ALLOWED_ROUTERS = [''user'', ''webauthn'', ''role'']"

definition GUEST_ALLOWED_OPERATIONS :: "string list" where
  "GUEST_ALLOWED_OPERATIONS = [''study.getStudies'', ''data.getStudyData'', ''data.getStudyDataLatest'',
     ''data.getStudyFiles'', ''data.getStudyFields'', ''data.getStudyData'', ''data.getDataLatest'',
     ''data.getStudyFiles'', ''config.getConfig'', ''domain.getCurrentDomain'', ''domain.getCurrentSubPath'',
     ''organisation.getOrganisations'']"

definition isGuestUser :: "IUserWithoutToken \<Rightarrow> bool" where
  "isGuestUser u \<longleftrightarrow> user_type u = GUEST"

definition guest_allowed :: "string \<Rightarrow> bool" where
  "guest_allowed p \<longleftrightarrow>
     p \<in> set GUEST_ALLOWED_OPERATIONS \<or> hd (split_on (CHR ''.'') p) \<in> set GUEST_ALLOWED_ROUTERS"

definition guest_refused :: "trpc_request \<Rightarrow> string \<Rightarrow> bool" where
  "guest_refused r p \<longleftrightarrow> (case req_user r of None \<Rightarrow> False | Some u \<Rightarrow> isGuestUser u \<and> \<not> guest_allowed p)"

subsection \<open>The address of a request\<close>

text \<open>
  Texts are their UTF-8 bytes here. \<open>URLSearchParams\<close> decodes each name and value once, and leaves a percent sign
  that starts no escape sequence as it is; \<open>decodeURIComponent\<close> throws there.
\<close>

definition hex_octet :: "string \<Rightarrow> nat option" where
  "hex_octet x =
     (let ds = digits_prefix 16 (take 2 x) in if length ds = 2 then Some (nat_of_digits 16 ds) else None)"

function search_decode :: "string \<Rightarrow> string" where
  "search_decode [] = []"
| "search_decode (c # x) =
     (if c = CHR ''+'' then CHR '' '' # search_decode x
      else if c = CHR ''%'' then
        (case hex_octet x of
           None \<Rightarrow> c # search_decode x
         | Some n \<Rightarrow> char_of n # search_decode (drop 2 x))
      else c # search_decode x)"
  by pat_completeness auto
termination by (relation "measure length") auto

text \<open>\<open>(new URLSearchParams(queryString)).get(key)\<close>\<close>

definition search_get :: "string \<Rightarrow> string \<Rightarrow> string option" where
  "search_get key q =
     map_of (map (\<lambda>p. (search_decode (takeWhile (\<lambda>c. c \<noteq> CHR ''='') p),
                       search_decode (tl (dropWhile (\<lambda>c. c \<noteq> CHR ''='') p))))
              (filter (\<lambda>p. p \<noteq> []) (split_on (CHR ''&'') q))) key"

text \<open>The octets of consecutive escape sequences, and the UTF-8 sequences of more than one octet.\<close>

fun escaped_octets :: "nat \<Rightarrow> string \<Rightarrow> nat list option" where
  "escaped_octets 0 x = Some []"
| "escaped_octets (Suc n) x =
     (case x of
        c # y \<Rightarrow> (if c = CHR ''%'' then
                  (case hex_octet y of
                     None \<Rightarrow> None
                   | Some b \<Rightarrow> map_option ((#) b) (escaped_octets n (drop 2 y)))
                else None)
      | [] \<Rightarrow> None)"

definition utf8_length :: "nat \<Rightarrow> nat" where
  "utf8_length b = (if b < 0x80 then 1 else if b < 0xC2 then 0 else if b < 0xE0 then 2
     else if b < 0xF0 then 3 else if b < 0xF5 then 4 else 0)"

definition utf8_valid :: "nat list \<Rightarrow> bool" where
  "utf8_valid bs \<longleftrightarrow>
     bs \<noteq> [] \<and> list_all (\<lambda>b. 0x80 \<le> b \<and> b < 0xC0) (tl bs) \<and>
     (hd bs = 0xE0 \<longrightarrow> 0xA0 \<le> bs ! 1) \<and> (hd bs = 0xED \<longrightarrow> bs ! 1 < 0xA0) \<and>
     (hd bs = 0xF0 \<longrightarrow> 0x90 \<le> bs ! 1) \<and> (hd bs = 0xF4 \<longrightarrow> bs ! 1 < 0x90)"

function decodeURIComponent :: "string \<Rightarrow> string option" where
  "decodeURIComponent [] = Some []"
| "decodeURIComponent (c # x) =
     (if c = CHR ''%'' then
        (case hex_octet x of
           None \<Rightarrow> None
         | Some b \<Rightarrow>
             if utf8_length b = 0 then None
             else (case escaped_octets (utf8_length b) (c # x) of
                     None \<Rightarrow> None
                   | Some bs \<Rightarrow>
                       if utf8_valid bs
                       then map_option ((@) (map char_of bs)) (decodeURIComponent (drop (3 * length bs) (c # x)))
                       else None))
      else map_option ((#) c) (decodeURIComponent x))"
  by pat_completeness auto
termination
proof (relation "measure length", goal_cases)
  case (2 c x b bs)
  then have "bs \<noteq> []" by (auto simp: utf8_valid_def)
  then show ?case by (cases bs) auto
qed auto

text \<open>
  The name of the procedure and the input, both from the address; a batch of calls shares one address. \<open>None\<close>
  where decoding or parsing throws. An input that is no object is kept out of the entry (its declared type is an object).
\<close>

definition parseRequestinput :: "string \<Rightarrow> (string \<times> jobject option) option" where
  "parseRequestinput url =
     (let parts = split_on (CHR ''?'') (drop 1 url)
      in case tl parts of
           [] \<Rightarrow> Some (hd parts, Some [])
         | q # _ \<Rightarrow>
             if q = [] then Some (hd parts, Some [])
             else (case decodeURIComponent (nullish (search_get ''input'' q) []) of
                     None \<Rightarrow> None
                   | Some x \<Rightarrow>
                       (case JSON_parse x of
                          None \<Rightarrow> None
                        | Some (JObj m) \<Rightarrow> Some (hd parts, Some m)
                        | Some v \<Rightarrow> Some (hd parts, None))))"

subsection \<open>The log (\<open>middleware.ts\<close>)\<close>

text \<open>
  Logging in and out change the user of the request (\<open>passport\<close>), and with it who the entry names.
\<close>

definition user_after :: "trpc_request \<Rightarrow> trpc_call \<Rightarrow> answer result \<Rightarrow> requester" where
  "user_after r c result =
     (if call_path c = ''user.login'' \<or> call_path c = ''webauthn.webauthnLogin''
      then (case result of Inr (A_Account v) \<Rightarrow> Some v | _ \<Rightarrow> req_user r)
      else if call_path c = ''user.logout'' \<and> \<not> isl result \<and> ctx_user r \<noteq> None then None
      else req_user r)"

definition requester_id :: "requester \<Rightarrow> string" where
  "requester_id u = (case u of None \<Rightarrow> ''NA'' | Some v \<Rightarrow> doc_id v)"

definition log_entry ::
    "string \<Rightarrow> requester \<Rightarrow> string \<Rightarrow> jobject option \<Rightarrow> 'a result \<Rightarrow> int \<Rightarrow> int \<Rightarrow> int \<Rightarrow> ILog" where
  "log_entry i u apiCall apiParams result startTime executionTime now =
     (let errorMessage = (case result of Inl e \<Rightarrow> Some (error_message e) | Inr _ \<Rightarrow> None)
      in \<lparr>doc_id = i,
          life = \<lparr>createdTime = now, createdUser = requester_id u, deletedTime = None, deletedUser = None\<rparr>,
          metadata = [(''startTime'', JNum (Fin (of_int startTime))),
            (''endTime'', JNum (Fin (of_int (startTime + executionTime))))],
          log_requester = requester_id u, log_type = API_LOG, apiResolver = Some TRPC, log_event = apiCall,
          log_parameters = apiParams, log_status = (if truthy errorMessage then FAIL_EVENT else SUCCESS_EVENT),
          log_errors = errorMessage, timeConsumed = Some executionTime\<rparr>)"

text \<open>
  The entry is written after the operation has run. When its address cannot be read, or the entry cannot be
  inserted, the client gets that error instead of the answer.
\<close>

definition tRPCBaseProcedureMilldeware ::
    "env \<Rightarrow> mongo \<Rightarrow> trpc_request \<Rightarrow> trpc_call \<Rightarrow> int \<Rightarrow> answer result \<times> cpu_memory \<times> db \<Rightarrow> answer result \<times> cpu_memory \<times> db" where
  "tRPCBaseProcedureMilldeware E M r c startTime x =
     (case x of (result, mem, s1) \<Rightarrow>
       (let (end, s2) = Date_now E s1
        in case parseRequestinput (req_url r) of
             None \<Rightarrow> (Inl (JSError ''SyntaxError''), mem, s2)
           | Some (apiCall, apiParams) \<Rightarrow>
               (let (i, s3) = uuid E s2;
                    (now, s4) = Date_now E s3;
                    entry = log_entry i (user_after r c result) apiCall apiParams result startTime
                      (end - startTime) now
                in case write_log M entry s4 of
                     (False, s5) \<Rightarrow> (Inl MongoServerError, mem, s5)
                   | (True, s5) \<Rightarrow> (result, mem, s5))))"

text \<open>A call of a procedure; \<open>None\<close> where the operation does not answer.\<close>

definition trpc ::
    "env \<Rightarrow> mongo \<Rightarrow> process \<Rightarrow> trpc_request \<Rightarrow> trpc_call \<Rightarrow> cpu_memory \<Rightarrow> db \<Rightarrow> (answer result \<times> cpu_memory \<times> db) option" where
  "trpc E M P r c mem s =
     (if guest_refused r (call_path c)
      then Some (Inl (JSError ''Guest users cannot access this feature''), mem, s)
      else (let (startTime, s1) = Date_now E s
            in map_option (tRPCBaseProcedureMilldeware E M r c startTime) (call_router E M P r c mem s1)))"

end
