(* ===== verification/ApiFrame.thy ===== *)
theory ApiFrame
  imports Api
begin

section \<open>What the operations leave alone\<close>

text \<open>
  A view is a part of the state. \<open>keeps f v r\<close>: the view \<open>f\<close> of the state in the result \<open>r\<close> is still \<open>v\<close>. The
  rules follow the shape of the code (branches, bindings, matches), so the proof for an operation is
  one pass over its body, for all the views it respects: the locale \<open>account_view\<close> is what the operations open
  to guests need of the view, the locale \<open>whole_view\<close>, which extends it, what all operations need.
\<close>

named_theorems keeps \<open>rules that follow the code\<close>

text \<open>The state in a result, by the shape of the result.\<close>

definition pair_state :: "'x \<times> db \<Rightarrow> db option" where
  "pair_state r = Some (snd r)"

definition triple_state :: "'x \<times> 'm \<times> db \<Rightarrow> db option" where
  "triple_state r = Some (snd (snd r))"

definition option_state :: "('x \<times> db) option \<Rightarrow> db option" where
  "option_state r = map_option snd r"

fun copy_state :: "copy_outcome \<Rightarrow> db option" where
  "copy_state (Copied _ s) = Some s"
| "copy_state _ = None"

definition leaves :: "('r \<Rightarrow> db option) \<Rightarrow> (db \<Rightarrow> 'v) \<Rightarrow> 'v \<Rightarrow> 'r \<Rightarrow> bool" where
  "leaves g f v r \<longleftrightarrow> (\<forall>s. g r = Some s \<longrightarrow> f s = v)"

abbreviation keeps :: "(db \<Rightarrow> 'v) \<Rightarrow> 'v \<Rightarrow> 'x \<times> db \<Rightarrow> bool" where
  "keeps \<equiv> leaves pair_state"

lemma keeps_iff: "keeps f v r \<longleftrightarrow> f (snd r) = v"
  by (simp add: leaves_def pair_state_def)

lemma leaves_result [keeps]:
  "f s = v \<Longrightarrow> leaves pair_state f v (x, s)"
  "f s = v \<Longrightarrow> leaves triple_state f v (x, m, s)"
  "leaves pair_state f v r \<Longrightarrow> leaves option_state f v (Some r)"
  "leaves option_state f v None"
  "f s = v \<Longrightarrow> leaves copy_state f v (Copied y s)"
  "leaves copy_state f v Copy_Diverges"
  "leaves copy_state f v Copy_Undefined_Id"
  by (simp_all add: leaves_def pair_state_def triple_state_def option_state_def)

lemma leaves_branch [keeps]:
  "(b \<Longrightarrow> leaves g f v x) \<Longrightarrow> (\<not> b \<Longrightarrow> leaves g f v y) \<Longrightarrow> leaves g f v (if b then x else y)"
  "leaves g f v (h a) \<Longrightarrow> leaves g f v (Let a h)"
  "leaves g f v x \<Longrightarrow> leaves g f v y \<Longrightarrow> leaves g f v (case_bool x y b)"
  by (auto split: bool.splits)

lemma leaves_match [keeps]:
  "leaves g f v x \<Longrightarrow> (\<And>y. leaves g f v (h y)) \<Longrightarrow> leaves g f v (case_option x h r)"
  "(\<And>x. leaves g f v (h1 x)) \<Longrightarrow> (\<And>y. leaves g f v (h2 y)) \<Longrightarrow> leaves g f v (case_sum h1 h2 q)"
  "leaves g f v x \<Longrightarrow> (\<And>y ys. leaves g f v (h3 y ys)) \<Longrightarrow> leaves g f v (case_list x h3 l)"
  by (auto split: option.splits sum.splits list.splits)

text \<open>The result of an operation that the code goes on with.\<close>

lemma leaves_bind [keeps]:
  "keeps f v p \<Longrightarrow> (\<And>x s. f s = v \<Longrightarrow> leaves g f v (h x s)) \<Longrightarrow> leaves g f v (case_prod h p)"
  "leaves triple_state f v q \<Longrightarrow> (\<And>x m s. f s = v \<Longrightarrow> leaves g f v (h' x (m, s))) \<Longrightarrow> leaves g f v (case_prod h' q)"
  by (cases p, simp add: leaves_def pair_state_def) (cases q, simp add: leaves_def triple_state_def)

text \<open>A match whose branches take the state.\<close>

lemma leaves_apply [keeps]:
  "(\<And>x y. leaves g f v (h x y s)) \<Longrightarrow> leaves g f v (case_prod h p s)"
  "leaves g f v (x1 s) \<Longrightarrow> (\<And>y. leaves g f v (x2 y s)) \<Longrightarrow> leaves g f v (case_option x1 x2 r s)"
  "(\<And>x. leaves g f v (h1 x s)) \<Longrightarrow> (\<And>y. leaves g f v (h2 y s)) \<Longrightarrow> leaves g f v (case_sum h1 h2 q s)"
  by (cases p, simp) (cases r, simp, simp, cases q, simp, simp)

lemma leaves_option_bind:
  "leaves option_state f v p \<Longrightarrow> leaves g f v x \<Longrightarrow> (\<And>y. keeps f v y \<Longrightarrow> leaves g f v (h y)) \<Longrightarrow>
     leaves g f v (case_option x h p)"
  by (cases p) (auto simp: leaves_def option_state_def pair_state_def)

lemma leaves_config [keeps]:
  "(\<And>x. leaves g f v (h1 x)) \<Longrightarrow> (\<And>x. leaves g f v (h2 x)) \<Longrightarrow> (\<And>x. leaves g f v (h3 x)) \<Longrightarrow>
   (\<And>x. leaves g f v (h4 x)) \<Longrightarrow> (\<And>x. leaves g f v (h5 x)) \<Longrightarrow> (\<And>x. leaves g f v (h6 x)) \<Longrightarrow>
     leaves g f v (case_config_properties h1 h2 h3 h4 h5 h6 c)"
  by (cases c) auto

lemma leaves_axios [keeps]:
  "(\<And>x y. leaves g f v (h1 x y)) \<Longrightarrow> (\<And>x y. leaves g f v (h2 x y)) \<Longrightarrow> leaves g f v (case_axios_answer h1 h2 a)"
  by (cases a) auto

lemma leaves_json [keeps]:
  "leaves g f v x1 \<Longrightarrow> leaves g f v x2 \<Longrightarrow> (\<And>y. leaves g f v (h1 y)) \<Longrightarrow> (\<And>y. leaves g f v (h2 y)) \<Longrightarrow>
   (\<And>y. leaves g f v (h3 y)) \<Longrightarrow> (\<And>y. leaves g f v (h4 y)) \<Longrightarrow> (\<And>y. leaves g f v (h5 y)) \<Longrightarrow>
     leaves g f v (case_jsval x1 x2 h1 h2 h3 h4 h5 j)"
  by (cases j) auto

text \<open>A match on a pair without a state, to be tried after the others.\<close>

lemma keeps_split: "(\<And>x y. leaves g f v (h x y)) \<Longrightarrow> leaves g f v (case_prod h p)"
  by (cases p) simp

subsection \<open>Views that do not see accounts\<close>

locale account_view =
  fixes f :: "db \<Rightarrow> 'v"
  assumes upd:
    "f (s\<lparr>users_collection := c1\<rparr>) = f s"
    "f (s\<lparr>roles_collection := c2\<rparr>) = f s"
    "f (s\<lparr>drives_collection := c3\<rparr>) = f s"
    "f (s\<lparr>files_collection := c4\<rparr>) = f s"
    "f (s\<lparr>configs_collection := c5\<rparr>) = f s"
    "f (s\<lparr>cache_collection := c6\<rparr>) = f s"
    "f (s\<lparr>pubkeys_collection := c7\<rparr>) = f s"
    "f (s\<lparr>webauthn_collection := c8\<rparr>) = f s"
    "f (s\<lparr>store := st\<rparr>) = f s"
    "f (s\<lparr>outbox := ms\<rparr>) = f s"
    "f (s\<lparr>uuid_next := n1\<rparr>) = f s"
    "f (s\<lparr>tick := n2\<rparr>) = f s"
    "f (s\<lparr>draws := n3\<rparr>) = f s"
begin

lemma keeps_uuid [keeps]: "f s = v \<Longrightarrow> keeps f v (uuid x1 s)"
  unfolding uuid_def by (intro keeps | rule keeps_split | (simp add: upd; fail))+

lemma keeps_Date_now [keeps]: "f s = v \<Longrightarrow> keeps f v (Date_now x1 s)"
  unfolding Date_now_def by (intro keeps | rule keeps_split | (simp add: upd; fail))+

lemma keeps_random_draw [keeps]: "f s = v \<Longrightarrow> keeps f v (random_draw  s)"
  unfolding random_draw_def by (intro keeps | rule keeps_split | (simp add: upd; fail))+

lemma keeps_objStore_uploadFile [keeps]: "f s = v \<Longrightarrow> keeps f v (objStore_uploadFile x1 x2 x3 x4 s)"
  unfolding objStore_uploadFile_def by (intro keeps | rule keeps_split | (simp add: upd; fail))+

lemma keeps_objStore_copyObject [keeps]: "f s = v \<Longrightarrow> keeps f v (objStore_copyObject x1 x2 x3 x4 x5 s)"
  unfolding objStore_copyObject_def by (intro keeps | rule keeps_split | (simp add: upd; fail))+

lemma keeps_handleFileUpload [keeps]: "f s = v \<Longrightarrow> keeps f v (handleFileUpload x1 x2 x3 x4 x5 x6 x7 x8 x9 x10 x11 x12 x13 x14 x15 x16 s)"
  unfolding handleFileUpload_def by (intro keeps | rule keeps_split | (simp add: upd; fail))+

lemma keeps_uploadFile [keeps]: "f s = v \<Longrightarrow> keeps f v (uploadFile x1 x2 x3 x4 x5 x6 x7 x8 x9 x10 s)"
  unfolding uploadFile_def by (intro keeps | rule keeps_split | (simp add: upd; fail))+

lemma keeps_upload_by_extension [keeps]: "f s = v \<Longrightarrow> keeps f v (upload_by_extension x1 x2 x3 x4 x5 x6 s)"
  unfolding upload_by_extension_def by (intro keeps | rule keeps_split | (simp add: upd; fail))+

lemma keeps_upload_optional [keeps]: "f s = v \<Longrightarrow> keeps f v (upload_optional x1 x2 x3 x4 x5 x6 s)"
  unfolding upload_optional_def by (intro keeps | rule keeps_split | (simp add: upd; fail))+

lemma keeps_deleteFile [keeps]: "f s = v \<Longrightarrow> keeps f v (deleteFile x1 x2 x3 x4 s)"
  unfolding deleteFile_def by (intro keeps | rule keeps_split | (simp add: upd; fail))+

lemma keeps_generateSecret [keeps]: "f s = v \<Longrightarrow> keeps f v (generateSecret x1 x2 s)"
  unfolding generateSecret_def by (intro keeps | rule keeps_split | (simp add: upd; fail))+

lemma keeps_generateTOTP [keeps]: "f s = v \<Longrightarrow> keeps f v (generateTOTP x1 x2 x3 s)"
  unfolding generateTOTP_def by (intro keeps | rule keeps_split | (simp add: upd; fail))+

lemma keeps_try_windows [keeps]: "f s = v \<Longrightarrow> keeps f v (try_windows x1 x2 x3 x4 s)"
  by (induction x4 arbitrary: x1 x2 x3 s) (simp only: try_windows.simps, (intro keeps | rule keeps_split | (simp add: upd; fail))+)+

lemma keeps_verifyTOTP [keeps]: "f s = v \<Longrightarrow> keeps f v (verifyTOTP x1 x2 x3 x4 s)"
  unfolding verifyTOTP_def by (intro keeps | rule keeps_split | (simp add: upd; fail))+

lemma keeps_send_mail [keeps]: "f s = v \<Longrightarrow> keeps f v (send_mail x1 x2 s)"
  unfolding send_mail_def by (intro keeps | rule keeps_split | (simp add: upd; fail))+

lemma keeps_profile_upload [keeps]: "f s = v \<Longrightarrow> keeps f v (profile_upload x1 x2 x3 x4 x5 s)"
  unfolding profile_upload_def by (intro keeps | rule keeps_split | (simp add: upd; fail))+

lemma keeps_createUser_store [keeps]: "f s = v \<Longrightarrow> keeps f v (createUser_store x1 x2 x3 s)"
  unfolding createUser_store_def by (intro keeps | rule keeps_split | (simp add: upd; fail))+

lemma keeps_createUser [keeps]: "f s = v \<Longrightarrow> keeps f v (createUser x1 x2 x3 x4 x5 x6 x7 x8 x9 x10 x11 x12 x13 s)"
  unfolding createUser_def by (intro keeps | rule keeps_split | (simp add: upd; fail))+

lemma keeps_editUser_store [keeps]: "f s = v \<Longrightarrow> keeps f v (editUser_store x1 x2 x3 x4 x5 x6 x7 x8 s)"
  unfolding editUser_store_def by (intro keeps | rule keeps_split | (simp add: upd; fail))+

lemma keeps_editUser [keeps]: "f s = v \<Longrightarrow> keeps f v (editUser x1 x2 x3 x4 x5 x6 x7 x8 x9 x10 x11 x12 x13 x14 x15 x16 s)"
  unfolding editUser_def by (intro keeps | rule keeps_split | (simp add: upd; fail))+

lemma keeps_deleteUser [keeps]: "f s = v \<Longrightarrow> keeps f v (deleteUser x1 x2 x3 x4 s)"
  unfolding deleteUser_def by (intro keeps | rule keeps_split | (simp add: upd; fail))+

lemma keeps_validateResetPassword [keeps]: "f s = v \<Longrightarrow> keeps f v (validateResetPassword x1 x2 x3 x4 s)"
  unfolding validateResetPassword_def by (intro keeps | rule keeps_split | (simp add: upd; fail))+

lemma keeps_addResetPasswordRequest [keeps]: "f s = v \<Longrightarrow> keeps f v (addResetPasswordRequest x1 x2 x3 s)"
  unfolding addResetPasswordRequest_def by (intro keeps | rule keeps_split | (simp add: upd; fail))+

lemma keeps_processResetPasswordRequest [keeps]: "f s = v \<Longrightarrow> keeps f v (processResetPasswordRequest x1 x2 x3 x4 x5 s)"
  unfolding processResetPasswordRequest_def by (intro keeps | rule keeps_split | (simp add: upd; fail))+

lemma keeps_resetPassword [keeps]: "f s = v \<Longrightarrow> keeps f v (resetPassword x1 x2 x3 x4 x5 s)"
  unfolding resetPassword_def by (intro keeps | rule keeps_split | (simp add: upd; fail))+

lemma keeps_requestExpiryDate [keeps]: "f s = v \<Longrightarrow> keeps f v (requestExpiryDate x1 x2 x3 x4 s)"
  unfolding requestExpiryDate_def by (intro keeps | rule keeps_split | (simp add: upd; fail))+

lemma keeps_requestUsernameOrResetPassword [keeps]: "f s = v \<Longrightarrow> keeps f v (requestUsernameOrResetPassword x1 x2 x3 x4 x5 x6 x7 s)"
  unfolding requestUsernameOrResetPassword_def by (intro keeps | rule keeps_split | (simp add: upd; fail))+

lemma keeps_login [keeps]: "f s = v \<Longrightarrow> keeps f v (login x1 x2 x3 x4 x5 x6 x7 x8 s)"
  unfolding login_def by (intro keeps | rule keeps_split | (simp add: upd; fail))+

lemma keeps_rsakeygen [keeps]: "f s = v \<Longrightarrow> keeps f v (rsakeygen x1 s)"
  unfolding rsakeygen_def by (intro keeps | rule keeps_split | (simp add: upd; fail))+

lemma keeps_registerPubkey [keeps]: "f s = v \<Longrightarrow> keeps f v (registerPubkey x1 x2 x3 x4 x5 x6 s)"
  unfolding registerPubkey_def by (intro keeps | rule keeps_split | (simp add: upd; fail))+

lemma keeps_deletePubkey [keeps]: "f s = v \<Longrightarrow> keeps f v (deletePubkey x1 x2 x3 x4 x5 s)"
  unfolding deletePubkey_def by (intro keeps | rule keeps_split | (simp add: upd; fail))+

lemma keeps_generateChallenge [keeps]: "f s = v \<Longrightarrow> keeps f v (generateChallenge x1 x2 s)"
  unfolding generateChallenge_def by (intro keeps | rule keeps_split | (simp add: upd; fail))+

lemma keeps_requestAccessToken [keeps]: "f s = v \<Longrightarrow> keeps f v (requestAccessToken x1 x2 x3 x4 s)"
  unfolding requestAccessToken_def by (intro keeps | rule keeps_split | (simp add: upd; fail))+

lemma keeps_getAccessToken [keeps]: "f s = v \<Longrightarrow> keeps f v (getAccessToken x1 x2 x3 x4 x5 x6 s)"
  unfolding getAccessToken_def by (intro keeps | rule keeps_split | (simp add: upd; fail))+

lemma keeps_issueAccessToken [keeps]: "f s = v \<Longrightarrow> keeps f v (issueAccessToken x1 x2 x3 x4 x5 s)"
  unfolding issueAccessToken_def by (intro keeps | rule keeps_split | (simp add: upd; fail))+

lemma keeps_getConfig [keeps]: "f s = v \<Longrightarrow> keeps f v (getConfig x1 x2 x3 x4 x5 s)"
  unfolding getConfig_def by (intro keeps | rule keeps_split | (simp add: upd; fail))+

lemma keeps_set_webauthn [keeps]: "f s = v \<Longrightarrow> keeps f v (set_webauthn x1 x2 x3 s)"
  unfolding set_webauthn_def by (intro keeps | rule keeps_split | (simp add: upd; fail))+

lemma keeps_generate_challenge [keeps]: "f s = v \<Longrightarrow> keeps f v (generate_challenge x1 s)"
  unfolding generate_challenge_def by (intro keeps | rule keeps_split | (simp add: upd; fail))+

lemma keeps_deleteWebauthnDevices [keeps]: "f s = v \<Longrightarrow> keeps f v (deleteWebauthnDevices x1 x2 x3 s)"
  unfolding deleteWebauthnDevices_def by (intro keeps | rule keeps_split | (simp add: upd; fail))+

lemma keeps_updateWebauthnDeviceName [keeps]: "f s = v \<Longrightarrow> keeps f v (updateWebauthnDeviceName x1 x2 x3 x4 s)"
  unfolding updateWebauthnDeviceName_def by (intro keeps | rule keeps_split | (simp add: upd; fail))+

lemma keeps_store_challenge [keeps]: "f s = v \<Longrightarrow> keeps f v (store_challenge x1 x2 x3 x4 s)"
  unfolding store_challenge_def by (intro keeps | rule keeps_split | (simp add: upd; fail))+

lemma keeps_getWebauthnRegistrationOptions [keeps]: "f s = v \<Longrightarrow> keeps f v (getWebauthnRegistrationOptions x1 x2 x3 x4 x5 s)"
  unfolding getWebauthnRegistrationOptions_def by (intro keeps | rule keeps_split | (simp add: upd; fail))+

lemma keeps_handleRegistrationVerify [keeps]: "f s = v \<Longrightarrow> keeps f v (handleRegistrationVerify x1 x2 x3 x4 x5 x6 s)"
  unfolding handleRegistrationVerify_def by (intro keeps | rule keeps_split | (simp add: upd; fail))+

lemma keeps_handleAuthenticationVerify [keeps]: "f s = v \<Longrightarrow> keeps f v (handleAuthenticationVerify x1 x2 x3 x4 x5 x6 s)"
  unfolding handleAuthenticationVerify_def by (intro keeps | rule keeps_split | (simp add: upd; fail))+

lemma keeps_webauthnLogin [keeps]: "f s = v \<Longrightarrow> keeps f v (webauthnLogin x1 x2 x3 x4 x5 s)"
  unfolding webauthnLogin_def by (intro keeps | rule keeps_split | (simp add: upd; fail))+

lemma keeps_createStudyRole [keeps]: "f s = v \<Longrightarrow> keeps f v (createStudyRole x1 x2 x3 x4 x5 x6 x7 x8 x9 s)"
  unfolding createStudyRole_def by (intro keeps | rule keeps_split | (simp add: upd; fail))+

lemma keeps_editStudyRole [keeps]: "f s = v \<Longrightarrow> keeps f v (editStudyRole x1 x2 x3 x4 x5 x6 x7 x8 s)"
  unfolding editStudyRole_def by (intro keeps | rule keeps_split | (simp add: upd; fail))+

lemma keeps_add_user_to_roles [keeps]: "f s = v \<Longrightarrow> keeps f v (add_user_to_roles x1 x2 x3 s)"
  by (induction x3 arbitrary: x1 x2 s) (simp only: add_user_to_roles.simps, (intro keeps | rule keeps_split | (simp add: upd; fail))+)+

lemma keeps_addGuestUser [keeps]: "f s = v \<Longrightarrow> keeps f v (addGuestUser x1 x2 x3 s)"
  unfolding addGuestUser_def by (intro keeps | rule keeps_split | (simp add: upd; fail))+

lemma keeps_deleteStudyRole [keeps]: "f s = v \<Longrightarrow> keeps f v (deleteStudyRole x1 x2 x3 x4 s)"
  unfolding deleteStudyRole_def by (intro keeps | rule keeps_split | (simp add: upd; fail))+

lemma keeps_convertToBufferAndUpload [keeps]: "f s = v \<Longrightarrow> keeps f v (convertToBufferAndUpload x1 x2 x3 x4 s)"
  unfolding convertToBufferAndUpload_def by (intro keeps | rule keeps_split | (simp add: upd; fail))+

lemma keeps_store_cache [keeps]: "f s = v \<Longrightarrow> keeps f v (store_cache x1 x2 x3 x4 x5 x6 s)"
  unfolding store_cache_def by (intro keeps | rule keeps_split | (simp add: upd; fail))+

lemma keeps_getStudyData [keeps]: "f s = v \<Longrightarrow> keeps f v (getStudyData x1 x2 x3 x4 x5 x6 x7 x8 x9 x10 s)"
  unfolding getStudyData_def by (intro keeps | rule keeps_split | (simp add: upd; fail))+

lemma keeps_with_cache [keeps]: "f s = v \<Longrightarrow> keeps f v (with_cache x1 x2 x3 x4 x5 x6 x7 x8 s)"
  unfolding with_cache_def by (intro keeps | rule keeps_split | (simp add: upd; fail))+

lemma keeps_getStudyFiles [keeps]: "f s = v \<Longrightarrow> keeps f v (getStudyFiles x1 x2 x3 x4 x5 x6 x7 x8 x9 s)"
  unfolding getStudyFiles_def by (intro keeps | rule keeps_split | (simp add: upd; fail))+

subsubsection \<open>The routers open to guests\<close>

lemma keeps_answers [keeps]: "keeps f v r \<Longrightarrow> keeps f v (answers h r)"
  by (cases "(h, r)" rule: answers.cases) (simp_all add: keeps_iff)

lemma keeps_reads [keeps]: "f s = v \<Longrightarrow> keeps f v (reads h r s)"
  by (simp add: reads_def keeps)

lemma keeps_with_user [keeps]: "f s = v \<Longrightarrow> (\<And>u. keeps f v (h u s)) \<Longrightarrow> keeps f v (with_user r h s)"
  by (simp add: with_user_def keeps_iff split: option.splits)

lemma keeps_with_origin [keeps]: "f s = v \<Longrightarrow> (\<And>x y. keeps f v (h x y s)) \<Longrightarrow> keeps f v (with_origin E r h s)"
  by (auto simp: with_origin_def keeps_iff split: sum.splits prod.splits)

lemma keeps_user_router: "f s = v \<Longrightarrow> keeps f v (user_router E M P r c s)"
  by (cases c; simp only: user_router.simps) (intro keeps, simp)+

lemma keeps_role_router: "f s = v \<Longrightarrow> keeps f v (role_router E M r c s)"
  by (cases c; simp only: role_router.simps) (intro keeps, simp)+

lemma keeps_challenge: "f s = v \<Longrightarrow> f (snd (generate_challenge E s)) = v"
  using keeps_generate_challenge by (simp add: keeps_iff)

lemma keeps_webauthn_router: "f s = v \<Longrightarrow> keeps f v (webauthn_router E M P r c s)"
  by (cases c; simp only: webauthn_router.simps) (intro keeps; simp add: keeps_challenge)+

lemmas account_routers_keep = keeps_user_router[OF refl] keeps_role_router[OF refl] keeps_webauthn_router[OF refl]

lemma same_memory_state: "same_memory m r = (x, m', s') \<Longrightarrow> keeps f v r \<Longrightarrow> f s' = v"
  by (simp add: same_memory_def keeps_iff split: prod.splits)

text \<open>A guest gets no further than operations on accounts and roles, and reading.\<close>

lemmas guest_eval = guest_allowed_def GUEST_ALLOWED_ROUTERS_def GUEST_ALLOWED_OPERATIONS_def

lemma guest_study: "guest_allowed (study_path c) \<Longrightarrow> keeps f (f s) (study_router E M r c s)"
  by (cases c) (simp_all add: guest_eval keeps_reads)

lemma guest_data: "guest_allowed (data_path c) \<Longrightarrow> keeps f (f s) (data_router E M r c s)"
  by (cases c) (simp_all add: guest_eval keeps_reads keeps_answers keeps_getStudyData keeps_getStudyFiles)

lemma guest_config: "guest_allowed (config_path c) \<Longrightarrow> keeps f (f s) (config_router E M r c s)"
  by (cases c) (simp_all add: guest_eval keeps_answers keeps_getConfig)

lemma guest_domain: "guest_allowed (domain_path c) \<Longrightarrow> keeps f (f s) (domain_router E M r c s)"
  by (cases c) (simp_all add: guest_eval keeps_reads leaves_result)

lemma guest_organisation: "guest_allowed (organisation_path c) \<Longrightarrow> keeps f (f s) (organisation_router E M r c s)"
  by (cases c) (simp_all add: guest_eval leaves_result)

lemma guest_denied:
  "\<not> guest_allowed (drive_path d)" "\<not> guest_allowed (log_path l)" "\<not> guest_allowed (instance_path i)"
  "\<not> guest_allowed (lxd_path x)"
     apply (cases d; simp add: guest_eval)
    apply (cases l; simp add: guest_eval)
   apply (cases i; simp add: guest_eval)
  apply (cases x; simp add: guest_eval)
  done

lemma guest_router_keeps:
  assumes "guest_allowed (call_path c)" "call_router E M P r c m s = Some (x, m', s')"
  shows "f s' = f s"
  using assms
  by (cases c) (auto elim!: same_memory_state simp: guest_denied
    intro: account_routers_keep guest_study guest_data guest_config guest_domain guest_organisation)

end

subsection \<open>Views that see no document the operations write\<close>

locale whole_view = account_view +
  assumes upd':
    "f (s\<lparr>studies_collection := d1\<rparr>) = f s"
    "f (s\<lparr>organisations_collection := d2\<rparr>) = f s"
    "f (s\<lparr>domains_collection := d3\<rparr>) = f s"
    "f (s\<lparr>jobs_collection := d4\<rparr>) = f s"
    "f (s\<lparr>field_dictionary_collection := d5\<rparr>) = f s"
    "f (s\<lparr>data_collection := d6\<rparr>) = f s"
    "f (s\<lparr>colddata_collection := d7\<rparr>) = f s"
    "f (s\<lparr>instance_collection := d8\<rparr>) = f s"
    "f (s\<lparr>standardizations_collection := d9\<rparr>) = f s"
    "f (s\<lparr>lxd_requests := rs\<rparr>) = f s"
begin

lemmas upds = upd upd'

lemma keeps_editConfig [keeps]: "f s = v \<Longrightarrow> keeps f v (editConfig x1 x2 x3 x4 x5 s)"
  unfolding editConfig_def by (intro keeps | rule keeps_split | (simp add: upds; fail))+

lemma keeps_createConfig [keeps]: "f s = v \<Longrightarrow> keeps f v (createConfig x1 x2 x3 x4 x5 x6 s)"
  unfolding createConfig_def by (intro keeps | rule keeps_split | (simp add: upds; fail))+

lemma keeps_insert_node [keeps]: "f s = v \<Longrightarrow> keeps f v (insert_node x1 x2 x3 s)"
  unfolding insert_node_def by (intro keeps | rule keeps_split | (simp add: upds; fail))+

lemma keeps_createDriveFolder [keeps]: "f s = v \<Longrightarrow> keeps f v (createDriveFolder x1 x2 x3 x4 x5 x6 x7 s)"
  unfolding createDriveFolder_def by (intro keeps | rule keeps_split | (simp add: upds; fail))+

lemma keeps_createDriveFile [keeps]: "f s = v \<Longrightarrow> keeps f v (createDriveFile x1 x2 x3 x4 x5 x6 x7 s)"
  unfolding createDriveFile_def by (intro keeps | rule keeps_split | (simp add: upds; fail))+

lemma keeps_create_folders [keeps]: "f s = v \<Longrightarrow> keeps f v (create_folders x1 x2 x3 x4 x5 x6 s)"
  by (induction x4 arbitrary: x1 x2 x3 x5 x6 s) (simp only: create_folders.simps, (intro keeps | rule keeps_split | (simp add: upds; fail))+)+

lemma keeps_create_paths [keeps]: "f s = v \<Longrightarrow> keeps f v (create_paths E M r p fs ps ds s)"
proof (induction ps arbitrary: fs ds s)
  case (Cons q ps)
  then show ?case
    by (cases fs) (simp only: create_paths.simps, (intro keeps | rule keeps_split | (simp; fail))+)+
qed (simp add: keeps_iff)


lemma keeps_createRecursiveDrives [keeps]: "f s = v \<Longrightarrow> keeps f v (createRecursiveDrives x1 x2 x3 x4 x5 x6 s)"
  unfolding createRecursiveDrives_def by (intro keeps | rule keeps_split | (simp add: upds; fail))+

lemma keeps_update_paths [keeps]: "f s = v \<Longrightarrow> keeps f v (update_paths x1 x2 x3 x4 s)"
  by (induction x4 arbitrary: x1 x2 x3 s) (simp only: update_paths.simps, (intro keeps | rule keeps_split | (simp add: upds; fail))+)+

lemma keeps_move_drive [keeps]: "f s = v \<Longrightarrow> keeps f v (move_drive x1 x2 x3 x4 s)"
  unfolding move_drive_def by (intro keeps | rule keeps_split | (simp add: upds; fail))+

lemma keeps_editDrive [keeps]: "f s = v \<Longrightarrow> leaves option_state f v (editDrive x1 x2 x3 x4 x5 x6 x7 x8 x9 x10 s)"
  unfolding editDrive_def by (intro keeps | rule keeps_split | (simp add: upds; fail))+

lemma keeps_share_drives [keeps]: "f s = v \<Longrightarrow> leaves option_state f v (share_drives n M r ps is s)"
proof (induction "is" arbitrary: s)
  case (Cons i "is")
  show ?case
    unfolding share_drives.simps
    by (rule leaves_match(1), rule Cons, rule Cons, rule leaves_option_bind[OF keeps_editDrive[OF Cons.prems]])
      (intro keeps | rule keeps_split | (simp add: Cons; fail))+
qed (simp add: leaves_def option_state_def)

lemma keeps_shareDriveToUserViaEmail [keeps]:
  assumes "f s = v"
  shows "leaves option_state f v (shareDriveToUserViaEmail n M r ms i p s)"
proof -
  have "leaves option_state f v (case share_drives n M r us ds s of None \<Rightarrow> None
      | Some (Inl e, s1) \<Rightarrow> Some (Inl e, s1) | Some (Inr _, s1) \<Rightarrow> Some (Inr ds, s1))" for us ds
    by (rule leaves_option_bind[OF keeps_share_drives[OF assms]])
      (intro keeps | rule keeps_split | (simp; fail))+
  note shared = this
  show ?thesis
    unfolding shareDriveToUserViaEmail_def Let_def
    by (rule leaves_match(1), simp add: assms leaves_result, rule leaves_match(1), simp add: assms leaves_result,
      rule leaves_match(1), simp add: leaves_result, rule keeps_split, rule shared)
qed


lemma keeps_deleteDrive [keeps]: "f s = v \<Longrightarrow> leaves option_state f v (deleteDrive x1 x2 x3 x4 x5 s)"
  unfolding deleteDrive_def by (intro keeps | rule keeps_split | (simp add: upds; fail))+

lemma keeps_group_drives [keeps]: "f s = v \<Longrightarrow> keeps f v (group_drives x1 x2 x3 x4 s)"
  unfolding group_drives_def by (intro keeps | rule keeps_split | (simp add: upds; fail))+

lemma keeps_group_all [keeps]: "f s = v \<Longrightarrow> keeps f v (group_all x1 x2 x3 x4 s)"
  by (induction x4 arbitrary: x1 x2 x3 s) (simp only: group_all.simps, (intro keeps | rule keeps_split | (simp add: upds; fail))+)+

lemma keeps_getDrives [keeps]: "f s = v \<Longrightarrow> keeps f v (getDrives x1 x2 x3 x4 s)"
  unfolding getDrives_def by (intro keeps | rule keeps_split | (simp add: upds; fail))+

lemma keeps_new_ids [keeps]: "f s = v \<Longrightarrow> keeps f v (new_ids x1 x2 s)"
  by (induction x2 arbitrary: x1 s) (simp only: new_ids.simps, (intro keeps | rule keeps_split | (simp add: upds; fail))+)+

lemma keeps_copy_one [keeps]: "f s = v \<Longrightarrow> keeps f v (copy_one x1 x2 x3 x4 x5 x6 x7 x8 s)"
  unfolding copy_one_def by (intro keeps | rule keeps_split | (simp add: upds; fail))+

lemma keeps_copy_nodes [keeps]: "f s = v \<Longrightarrow> keeps f v (copy_nodes x1 x2 x3 x4 x5 x6 x7 x8 s)"
  by (induction x8 arbitrary: x1 x2 x3 x4 x5 x6 x7 s) (simp only: copy_nodes.simps, (intro keeps | rule keeps_split | (simp add: upds; fail))+)+

lemma keeps_copyDrive [keeps]: "f s = v \<Longrightarrow> leaves copy_state f v (copyDrive x1 x2 x3 x4 x5 x6 s)"
  unfolding copyDrive_def by (intro keeps | rule keeps_split | (simp add: upds; fail))+

lemma keeps_createStudy_profile [keeps]: "f s = v \<Longrightarrow> keeps f v (createStudy_profile x1 x2 x3 x4 x5 s)"
  unfolding createStudy_profile_def by (intro keeps | rule keeps_split | (simp add: upds; fail))+

lemma keeps_createStudy [keeps]: "f s = v \<Longrightarrow> keeps f v (createStudy x1 x2 x3 x4 x5 x6 s)"
  unfolding createStudy_def by (intro keeps | rule keeps_split | (simp add: upds; fail))+

lemma keeps_study_profile_upload [keeps]: "f s = v \<Longrightarrow> keeps f v (study_profile_upload x1 x2 x3 x4 x5 s)"
  unfolding study_profile_upload_def by (intro keeps | rule keeps_split | (simp add: upds; fail))+

lemma keeps_editStudy [keeps]: "f s = v \<Longrightarrow> keeps f v (editStudy x1 x2 x3 x4 x5 x6 x7 s)"
  unfolding editStudy_def by (intro keeps | rule keeps_split | (simp add: upds; fail))+

lemma keeps_editStudyVisibility [keeps]: "f s = v \<Longrightarrow> keeps f v (editStudyVisibility x1 x2 x3 x4 s)"
  unfolding editStudyVisibility_def by (intro keeps | rule keeps_split | (simp add: upds; fail))+

lemma keeps_deleteStudy [keeps]: "f s = v \<Longrightarrow> keeps f v (deleteStudy x1 x2 x3 x4 s)"
  unfolding deleteStudy_def by (intro keeps | rule keeps_split | (simp add: upds; fail))+

lemma keeps_upsert_cold [keeps]: "f s = v \<Longrightarrow> keeps f v (upsert_cold x1 x2 x3 x4 x5 x6 s)"
  unfolding upsert_cold_def by (intro keeps | rule keeps_split | (simp add: upds; fail))+

lemma keeps_cold_bulk [keeps]: "f s = v \<Longrightarrow> keeps f v (cold_bulk x1 x2 x3 x4 x5 x6 s)"
  by (induction x6 arbitrary: x1 x2 x3 x4 x5 s) (simp only: cold_bulk.simps, (intro keeps | rule keeps_split | (simp add: upds; fail))+)+

lemma keeps_sync_cold [keeps]: "f s = v \<Longrightarrow> keeps f v (sync_cold E M i j u ds s)"
proof (induction E M i j u ds s rule: sync_cold.induct)
  case (1 E M i j u ds s)
  have "f s1 = v" if "cold_bulk E M i j u (take 1000 ds) s = (b, s1)" for b s1
    using keeps_cold_bulk[OF 1(2), of E M i j u "take 1000 ds"] that by (simp add: keeps_iff)
  then show ?case using 1 by (subst sync_cold.simps) (auto simp: keeps_iff split: prod.splits bool.splits)
qed


lemma keeps_stamp_version [keeps]: "f s = v \<Longrightarrow> keeps f v (stamp_version x1 x2 x3 s)"
  unfolding stamp_version_def by (intro keeps | rule keeps_split | (simp add: upds; fail))+

lemma keeps_createDataVersion [keeps]: "f s = v \<Longrightarrow> keeps f v (createDataVersion x1 x2 x3 x4 x5 x6 x7 s)"
  unfolding createDataVersion_def by (intro keeps | rule keeps_split | (simp add: upds; fail))+

lemma keeps_setDataversionAsCurrent [keeps]: "f s = v \<Longrightarrow> keeps f v (setDataversionAsCurrent x1 x2 x3 x4 s)"
  unfolding setDataversionAsCurrent_def by (intro keeps | rule keeps_split | (simp add: upds; fail))+

lemma view_draw_ids [simp]: "f (draw_ids E n s) = f s"
  by (induction E n s rule: draw_ids.induct) (simp_all add: uuid_def upds)


lemma keeps_validateFieldEntry [keeps]: "f s = v \<Longrightarrow> keeps f v (validateFieldEntry x1 x2 s)"
  unfolding validateFieldEntry_def by (intro keeps | rule keeps_split | (simp add: upds; fail))+

lemma keeps_options_with_id [keeps]: "f s = v \<Longrightarrow> keeps f v (options_with_id E i os s)"
proof (induction os arbitrary: s)
  case (Cons a os)
  then show ?case
    by (cases a) (simp only: options_with_id.simps, (intro keeps | rule keeps_split | (simp; fail))+)
qed (simp add: keeps_iff)


lemma keeps_categoricalOptionsWithId [keeps]: "f s = v \<Longrightarrow> keeps f v (categoricalOptionsWithId x1 x2 x3 x4 s)"
  unfolding categoricalOptionsWithId_def by (intro keeps | rule keeps_split | (simp add: upds; fail))+

lemma keeps_insert_field [keeps]: "f s = v \<Longrightarrow> keeps f v (insert_field x1 x2 x3 s)"
  unfolding insert_field_def by (intro keeps | rule keeps_split | (simp add: upds; fail))+

lemma keeps_createField [keeps]: "f s = v \<Longrightarrow> keeps f v (createField x1 x2 x3 x4 s)"
  unfolding createField_def by (intro keeps | rule keeps_split | (simp add: upds; fail))+

lemma keeps_editField [keeps]: "f s = v \<Longrightarrow> keeps f v (editField x1 x2 x3 x4 s)"
  unfolding editField_def by (intro keeps | rule keeps_split | (simp add: upds; fail))+

lemma keeps_deleteField [keeps]: "f s = v \<Longrightarrow> keeps f v (deleteField x1 x2 x3 x4 x5 s)"
  unfolding deleteField_def by (intro keeps | rule keeps_split | (simp add: upds; fail))+

lemma keeps_upload_loop [keeps]: "f s = v \<Longrightarrow> keeps f v (upload_loop x1 x2 x3 x4 x5 x6 x7 x8 s)"
  by (induction x8 arbitrary: x1 x2 x3 x4 x5 x6 x7 s) (simp only: upload_loop.simps, (intro keeps | rule keeps_split | (simp add: upds; fail))+)+

lemma keeps_uploadData [keeps]: "f s = v \<Longrightarrow> keeps f v (uploadData x1 x2 x3 x4 x5 s)"
  unfolding uploadData_def by (intro keeps | rule keeps_split | (simp add: upds; fail))+

lemma keeps_deleteData [keeps]: "f s = v \<Longrightarrow> keeps f v (deleteData x1 x2 x3 x4 x5 x6 s)"
  unfolding deleteData_def by (intro keeps | rule keeps_split | (simp add: upds; fail))+

lemma keeps_deleteDataFile [keeps]: "f s = v \<Longrightarrow> keeps f v (deleteDataFile x1 x2 x3 x4 s)"
  unfolding deleteDataFile_def by (intro keeps | rule keeps_split | (simp add: upds; fail))+

lemma keeps_malformed [keeps]: "keeps f v r \<Longrightarrow> keeps f v (malformed r)"
  by (cases r rule: malformed.cases) (simp_all add: keeps_iff)


lemma keeps_outdate_files [keeps]: "f s = v \<Longrightarrow> keeps f v (outdate_files x1 x2 s)"
  unfolding outdate_files_def by (intro keeps | rule keeps_split | (simp add: upds; fail))+

lemma keeps_upload_entry [keeps]: "f s = v \<Longrightarrow> keeps f v (upload_entry x1 x2 x3 x4 x5 x6 x7 s)"
  unfolding upload_entry_def by (intro keeps | rule keeps_split | (simp add: upds; fail))+

lemma keeps_uploadFileData [keeps]: "f s = v \<Longrightarrow> keeps f v (uploadFileData x1 x2 x3 x4 x5 x6 x7 s)"
  unfolding uploadFileData_def by (intro keeps | rule keeps_split | (simp add: upds; fail))+

lemma keeps_getStudySummary [keeps]: "f s = v \<Longrightarrow> keeps f v (getStudySummary x1 x2 x3 x4 x5 x6 s)"
  unfolding getStudySummary_def by (intro keeps | rule keeps_split | (simp add: upds; fail))+

lemma keeps_createDomain [keeps]: "f s = v \<Longrightarrow> keeps f v (createDomain x1 x2 x3 x4 x5 x6 x7 s)"
  unfolding createDomain_def by (intro keeps | rule keeps_split | (simp add: upds; fail))+

lemma keeps_editDomain [keeps]: "f s = v \<Longrightarrow> keeps f v (editDomain x1 x2 x3 x4 x5 x6 x7 x8 s)"
  unfolding editDomain_def by (intro keeps | rule keeps_split | (simp add: upds; fail))+

lemma keeps_deleteDomain [keeps]: "f s = v \<Longrightarrow> keeps f v (deleteDomain x1 x2 x3 x4 s)"
  unfolding deleteDomain_def by (intro keeps | rule keeps_split | (simp add: upds; fail))+

lemma keeps_createOrganisation [keeps]: "f s = v \<Longrightarrow> keeps f v (createOrganisation x1 x2 x3 x4 x5 x6 s)"
  unfolding createOrganisation_def by (intro keeps | rule keeps_split | (simp add: upds; fail))+

lemma keeps_editOrganisation [keeps]: "f s = v \<Longrightarrow> keeps f v (editOrganisation x1 x2 x3 x4 x5 x6 x7 s)"
  unfolding editOrganisation_def by (intro keeps | rule keeps_split | (simp add: upds; fail))+

lemma keeps_deleteOrganisation [keeps]: "f s = v \<Longrightarrow> keeps f v (deleteOrganisation x1 x2 x3 x4 s)"
  unfolding deleteOrganisation_def by (intro keeps | rule keeps_split | (simp add: upds; fail))+

lemma keeps_createJob [keeps]: "f s = v \<Longrightarrow> keeps f v (createJob x1 x2 x3 x4 x5 x6 x7 x8 x9 x10 x11 x12 s)"
  unfolding createJob_def by (intro keeps | rule keeps_split | (simp add: upds; fail))+

lemma keeps_set_instance [keeps]: "f s = v \<Longrightarrow> keeps f v (set_instance x1 x2 x3 s)"
  unfolding set_instance_def by (intro keeps | rule keeps_split | (simp add: upds; fail))+

lemma keeps_lxd_job [keeps]: "f s = v \<Longrightarrow> keeps f v (lxd_job x1 x2 x3 x4 x5 x6 x7 x8 s)"
  unfolding lxd_job_def by (intro keeps | rule keeps_split | (simp add: upds; fail))+

lemma keeps_issueSystemAccessToken [keeps]: "f s = v \<Longrightarrow> keeps f v (issueSystemAccessToken x1 x2 x3 x4 x5 s)"
  unfolding issueSystemAccessToken_def by (intro keeps | rule keeps_split | (simp add: upds; fail))+

lemma keeps_createInstance [keeps]: "f s = v \<Longrightarrow> keeps f v (createInstance x1 x2 x3 x4 x5 x6 x7 x8 x9 x10 x11 x12 s)"
  unfolding createInstance_def by (intro keeps | rule keeps_split | (simp add: upds; fail))+

lemma keeps_startStopInstance [keeps]: "f s = v \<Longrightarrow> keeps f v (startStopInstance x1 x2 x3 x4 x5 s)"
  unfolding startStopInstance_def by (intro keeps | rule keeps_split | (simp add: upds; fail))+

lemma keeps_restartInstance [keeps]: "f s = v \<Longrightarrow> keeps f v (restartInstance x1 x2 x3 x4 x5 s)"
  unfolding restartInstance_def by (intro keeps | rule keeps_split | (simp add: upds; fail))+

lemma keeps_deleteInstance [keeps]: "f s = v \<Longrightarrow> keeps f v (deleteInstance x1 x2 x3 x4 s)"
  unfolding deleteInstance_def by (intro keeps | rule keeps_split | (simp add: upds; fail))+

lemma keeps_monitor_job [keeps]: "f s = v \<Longrightarrow> keeps f v (monitor_job x1 x2 x3 x4 x5 x6 x7 x8 s)"
  unfolding monitor_job_def by (intro keeps | rule keeps_split | (simp add: upds; fail))+

lemma keeps_expire [keeps]: "f s = v \<Longrightarrow> keeps f v (expire x1 x2 x3 x4 x5 s)"
  unfolding expire_def by (intro keeps | rule keeps_split | (simp add: upds; fail))+

lemma keeps_update_all [keeps]: "f s = v \<Longrightarrow> leaves triple_state f v (update_all x1 x2 x3 x4 x5 x6 s)"
  by (induction x5 arbitrary: x1 x2 x3 x4 x6 s) (simp only: update_all.simps, (intro keeps | rule keeps_split | (simp add: upds; fail))+)+

lemma keeps_getInstances [keeps]: "f s = v \<Longrightarrow> leaves triple_state f v (getInstances x1 x2 x3 x4 s)"
  unfolding getInstances_def by (intro keeps | rule keeps_split | (simp add: upds; fail))+

lemma keeps_editInstance [keeps]: "f s = v \<Longrightarrow> keeps f v (editInstance x1 x2 x3 x4 x5 x6 s)"
  unfolding editInstance_def by (intro keeps | rule keeps_split | (simp add: upds; fail))+

lemma keeps_extendInstanceLifespan [keeps]: "f s = v \<Longrightarrow> keeps f v (extendInstanceLifespan x1 x2 x3 x4 x5 s)"
  unfolding extendInstanceLifespan_def by (intro keeps | rule keeps_split | (simp add: upds; fail))+

lemma keeps_checkQuotaBeforeCreation [keeps]: "f s = v \<Longrightarrow> leaves triple_state f v (checkQuotaBeforeCreation x1 x2 x3 x4 x5 x6 x7 x8 s)"
  unfolding checkQuotaBeforeCreation_def by (intro keeps | rule keeps_split | (simp add: upds; fail))+

lemma keeps_getQuotaAndFlavors [keeps]: "f s = v \<Longrightarrow> keeps f v (getQuotaAndFlavors x1 x2 x3 s)"
  unfolding getQuotaAndFlavors_def by (intro keeps | rule keeps_split | (simp add: upds; fail))+

lemma keeps_route_createInstance [keeps]: "f s = v \<Longrightarrow> leaves triple_state f v (route_createInstance x1 x2 x3 x4 x5 x6 x7 x8 x9 x10 x11 x12 s)"
  unfolding route_createInstance_def by (intro keeps | rule keeps_split | (simp add: upds; fail))+

lemma keeps_route_startStopInstance [keeps]: "f s = v \<Longrightarrow> keeps f v (route_startStopInstance x1 x2 x3 x4 x5 s)"
  unfolding route_startStopInstance_def by (intro keeps | rule keeps_split | (simp add: upds; fail))+

lemma keeps_route_restartInstance [keeps]: "f s = v \<Longrightarrow> keeps f v (route_restartInstance x1 x2 x3 x4 x5 s)"
  unfolding route_restartInstance_def by (intro keeps | rule keeps_split | (simp add: upds; fail))+

lemma keeps_route_getInstances [keeps]: "f s = v \<Longrightarrow> leaves triple_state f v (route_getInstances x1 x2 x3 x4 s)"
  unfolding route_getInstances_def by (intro keeps | rule keeps_split | (simp add: upds; fail))+

lemma keeps_route_editInstance [keeps]: "f s = v \<Longrightarrow> keeps f v (route_editInstance x1 x2 x3 x4 x5 x6 s)"
  unfolding route_editInstance_def by (intro keeps | rule keeps_split | (simp add: upds; fail))+

lemma keeps_route_deleteInstance [keeps]: "f s = v \<Longrightarrow> keeps f v (route_deleteInstance x1 x2 x3 x4 s)"
  unfolding route_deleteInstance_def by (intro keeps | rule keeps_split | (simp add: upds; fail))+

lemma keeps_route_extendInstanceLifespan [keeps]: "f s = v \<Longrightarrow> keeps f v (route_extendInstanceLifespan x1 x2 x3 x4 x5 s)"
  unfolding route_extendInstanceLifespan_def by (intro keeps | rule keeps_split | (simp add: upds; fail))+

lemma keeps_route_getQuotaAndFlavors [keeps]: "f s = v \<Longrightarrow> keeps f v (route_getQuotaAndFlavors x1 x2 x3 s)"
  unfolding route_getQuotaAndFlavors_def by (intro keeps | rule keeps_split | (simp add: upds; fail))+

lemma keeps_lxd_call [keeps]: "f s = v \<Longrightarrow> keeps f v (lxd_call x1 x2 x3 x4 s)"
  unfolding lxd_call_def by (intro keeps | rule keeps_split | (simp add: upds; fail))+

lemma keeps_lxd_data [keeps]: "f s = v \<Longrightarrow> keeps f v (lxd_data x1 x2 x3 x4 s)"
  unfolding lxd_data_def by (intro keeps | rule keeps_split | (simp add: upds; fail))+

lemma keeps_getResources [keeps]: "f s = v \<Longrightarrow> keeps f v (getResources x1 x2 s)"
  unfolding getResources_def by (intro keeps | rule keeps_split | (simp add: upds; fail))+

lemma keeps_getProfile [keeps]: "f s = v \<Longrightarrow> keeps f v (getProfile x1 x2 x3 s)"
  unfolding getProfile_def by (intro keeps | rule keeps_split | (simp add: upds; fail))+

lemma keeps_getInstanceInfo [keeps]: "f s = v \<Longrightarrow> keeps f v (getInstanceInfo x1 x2 x3 s)"
  unfolding getInstanceInfo_def by (intro keeps | rule keeps_split | (simp add: upds; fail))+

lemma keeps_getInstanceState [keeps]: "f s = v \<Longrightarrow> keeps f v (getInstanceState x1 x2 x3 s)"
  unfolding getInstanceState_def by (intro keeps | rule keeps_split | (simp add: upds; fail))+

lemma keeps_getOperationStatus [keeps]: "f s = v \<Longrightarrow> keeps f v (getOperationStatus x1 x2 s)"
  unfolding getOperationStatus_def by (intro keeps | rule keeps_split | (simp add: upds; fail))+

lemma keeps_getOperations [keeps]: "f s = v \<Longrightarrow> keeps f v (getOperations x1 x2 s)"
  unfolding getOperations_def by (intro keeps | rule keeps_split | (simp add: upds; fail))+

lemma keeps_fetch_all [keeps]: "f s = v \<Longrightarrow> keeps f v (fetch_all x1 x2 s)"
  by (induction x2 arbitrary: x1 s) (simp only: fetch_all.simps, (intro keeps | rule keeps_split | (simp add: upds; fail))+)+

lemma keeps_lxd_getInstances [keeps]: "f s = v \<Longrightarrow> keeps f v (lxd_getInstances x1 x2 s)"
  unfolding lxd_getInstances_def by (intro keeps | rule keeps_split | (simp add: upds; fail))+

lemma keeps_getInstanceHostIp [keeps]: "f s = v \<Longrightarrow> keeps f v (getInstanceHostIp x1 x2 x3 s)"
  unfolding getInstanceHostIp_def by (intro keeps | rule keeps_split | (simp add: upds; fail))+

lemma keeps_getInstanceLocation [keeps]: "f s = v \<Longrightarrow> keeps f v (getInstanceLocation x1 x2 x3 x4 s)"
  unfolding getInstanceLocation_def by (intro keeps | rule keeps_split | (simp add: upds; fail))+

lemma keeps_getInstanceConsole [keeps]: "f s = v \<Longrightarrow> keeps f v (getInstanceConsole x1 x2 x3 x4 s)"
  unfolding getInstanceConsole_def by (intro keeps | rule keeps_split | (simp add: upds; fail))+

lemma keeps_getInstanceConsoleLog [keeps]: "f s = v \<Longrightarrow> keeps f v (getInstanceConsoleLog x1 x2 x3 s)"
  unfolding getInstanceConsoleLog_def by (intro keeps | rule keeps_split | (simp add: upds; fail))+

lemma keeps_lxd_createInstance [keeps]: "f s = v \<Longrightarrow> keeps f v (lxd_createInstance x1 x2 x3 s)"
  unfolding lxd_createInstance_def by (intro keeps | rule keeps_split | (simp add: upds; fail))+

lemma keeps_lxd_updateInstance [keeps]: "f s = v \<Longrightarrow> keeps f v (lxd_updateInstance x1 x2 x3 x4 s)"
  unfolding lxd_updateInstance_def by (intro keeps | rule keeps_split | (simp add: upds; fail))+

lemma keeps_lxd_startStopInstance [keeps]: "f s = v \<Longrightarrow> keeps f v (lxd_startStopInstance x1 x2 x3 x4 s)"
  unfolding lxd_startStopInstance_def by (intro keeps | rule keeps_split | (simp add: upds; fail))+

lemma keeps_lxd_deleteInstance [keeps]: "f s = v \<Longrightarrow> keeps f v (lxd_deleteInstance x1 x2 x3 s)"
  unfolding lxd_deleteInstance_def by (intro keeps | rule keeps_split | (simp add: upds; fail))+

lemma keeps_always [keeps]: "keeps f v (h s) \<Longrightarrow> keeps f v (always h s)"
  by (auto simp: always_def keeps_iff split: prod.splits)

lemma keeps_lxd_guard [keeps]: "f s = v \<Longrightarrow> keeps f v (h s) \<Longrightarrow> keeps f v (lxd_guard u h s)"
  by (auto simp: lxd_guard_def keeps_iff split: option.splits)


subsubsection \<open>The other routers\<close>

lemma keeps_study_router: "f s = v \<Longrightarrow> keeps f v (study_router E M r c s)"
  by (cases c; simp only: study_router.simps) (intro keeps, simp)+

lemma keeps_data_router: "f s = v \<Longrightarrow> keeps f v (data_router E M r c s)"
  by (cases c; simp only: data_router.simps) (intro keeps, simp)+

lemma keeps_config_router: "f s = v \<Longrightarrow> keeps f v (config_router E M r c s)"
  by (cases c; simp only: config_router.simps) (intro keeps, simp)+

lemma keeps_log_router: "f s = v \<Longrightarrow> keeps f v (log_router M P r c s)"
  by (cases c; simp only: log_router.simps) (intro keeps, simp)+

lemma keeps_domain_router: "f s = v \<Longrightarrow> keeps f v (domain_router E M r c s)"
  by (cases c; simp only: domain_router.simps) (intro keeps, simp)+

lemma keeps_organisation_router: "f s = v \<Longrightarrow> keeps f v (organisation_router E M r c s)"
  by (cases c; simp only: organisation_router.simps) (intro keeps, simp)+

lemma keeps_route_createDriveFile [keeps]: "f s = v \<Longrightarrow> keeps f v (route_createDriveFile E M r p d fs s)"
  unfolding route_createDriveFile_def by (intro keeps, simp_all)

lemma leaves_map_answers: "leaves option_state f v r \<Longrightarrow> leaves option_state f v (map_option (answers h) r)"
  using keeps_answers by (cases r) (auto simp: leaves_def option_state_def pair_state_def)

lemma keeps_drive_router: "f s = v \<Longrightarrow> leaves option_state f v (drive_router E M P r c s)"
proof (cases c)
  case (drive_copyDrive i t)
  assume "f s = v"
  from keeps_copyDrive[OF this, of "drive_fuel P" E M "ctx_user r" i t] show ?thesis
    unfolding drive_copyDrive drive_router.simps
    by (cases "copyDrive (drive_fuel P) E M (ctx_user r) i t s")
      (simp_all add: leaves_def, simp_all add: option_state_def, metis answers.simps snd_conv sum.exhaust)
qed (simp only: drive_router.simps, intro keeps leaves_map_answers, simp)+

lemma leaves_memory [keeps]:
  "keeps f v r \<Longrightarrow> leaves triple_state f v (same_memory m r)"
  "leaves triple_state f v q \<Longrightarrow> leaves triple_state f v (with_memory h q)"
  by (auto simp: same_memory_def with_memory_def leaves_def pair_state_def triple_state_def split: prod.splits)

lemma keeps_instance_router: "f s = v \<Longrightarrow> leaves triple_state f v (instance_router E M P r c m s)"
  by (cases c; simp only: instance_router.simps) (intro keeps, simp)+

lemma keeps_lxd_route_call: "f s = v \<Longrightarrow> keeps f v (lxd_route_call E cfg c s)"
  by (cases c; simp only: lxd_route_call.simps) (intro keeps | rule keeps_split | (simp; fail))+

lemma keeps_lxd_router [keeps]: "f s = v \<Longrightarrow> keeps f v (lxd_router E cfg u c s)"
  unfolding lxd_router_def by (intro keeps keeps_lxd_route_call; simp)

lemmas routers_keep = keeps_study_router[OF refl] keeps_data_router[OF refl] keeps_config_router[OF refl]
  keeps_log_router[OF refl] keeps_domain_router[OF refl] keeps_organisation_router[OF refl]
  account_routers_keep keeps_answers keeps_lxd_router[OF refl]

lemma call_router_keeps:
  assumes "call_router E M P r c m s = Some (x, m', s')"
  shows "f s' = f s"
proof (cases c)
  case (Drive d)
  with assms obtain q where "drive_router E M P r d s = Some q" "same_memory m q = (x, m', s')" by auto
  with keeps_drive_router[OF refl, of s E M P r d] show ?thesis
    by (auto elim!: same_memory_state simp: leaves_def option_state_def pair_state_def)
next
  case (Instance i)
  with assms keeps_instance_router[OF refl, of s E M P r i m] show ?thesis
    by (simp add: leaves_def triple_state_def)
qed (use assms in \<open>auto elim!: same_memory_state intro: routers_keep\<close>)

end

end
