(* ===== verification/ApiProps.thy ===== *)
theory ApiProps
  imports ApiFrame InstanceProps
begin

section \<open>What holds of every call of the API\<close>

subsection \<open>The log as a view\<close>

interpretation logs: whole_view log_collection
  by unfold_locales simp_all

lemma Date_now_log: "Date_now E s = (t, s1) \<Longrightarrow> log_collection s1 = log_collection s"
  by (auto simp: Date_now_def)

lemma uuid_log: "uuid E s = (i, s1) \<Longrightarrow> log_collection s1 = log_collection s"
  by (auto simp: uuid_def)

text \<open>A call that passes the guard is the call of its router, and then the middleware.\<close>

lemma trpc_passed:
  assumes "\<not> guest_refused r (call_path c)" "trpc E M P r c m s = Some z"
  obtains y m' s1 where "call_router E M P r c m (snd (Date_now E s)) = Some (y, m', s1)"
    and "z = tRPCBaseProcedureMilldeware E M r c (fst (Date_now E s)) (y, m', s1)"
    and "log_collection s1 = log_collection s"
proof -
  obtain t s0 where d: "Date_now E s = (t, s0)" by fastforce
  with assms obtain w where w: "call_router E M P r c m s0 = Some w" "z = tRPCBaseProcedureMilldeware E M r c t w"
    by (auto simp: trpc_def)
  obtain y m' s1 where "w = (y, m', s1)" by (metis prod_cases3)
  with w d logs.call_router_keeps[of E M P r c m s0 y m' s1] Date_now_log[OF d] that show thesis by auto
qed

context mongo_db
begin

lemma write_log_cases:
  "write_log M e s = (ok, s') \<Longrightarrow>
     (\<not> ok \<and> s' = s) \<or> (ok \<and> mset (log_collection s') = add_mset e (mset (log_collection s)))"
  by (auto simp: write_log_def dest: log_store.insertOne_mset split: option.splits)

lemma middleware_logs:
  assumes "parseRequestinput (req_url r) = Some (ev, ps)"
    and "tRPCBaseProcedureMilldeware E M r c t (y, m', s1) = (x, m'', s')"
  shows "x = Inl MongoServerError \<and> log_collection s' = log_collection s1 \<or>
    x = y \<and> (\<exists>i n d. mset (log_collection s') =
      add_mset (log_entry i (user_after r c y) ev ps y t d n) (mset (log_collection s1)))"
proof -
  obtain e s2 where 2: "Date_now E s1 = (e, s2)" by fastforce
  obtain i s3 where 3: "uuid E s2 = (i, s3)" by fastforce
  obtain n s4 where 4: "Date_now E s3 = (n, s4)" by fastforce
  obtain ok s5 where 5: "write_log M (log_entry i (user_after r c y) ev ps y t (e - t) n) s4 = (ok, s5)" by fastforce
  have "log_collection s4 = log_collection s1" using Date_now_log[OF 2] uuid_log[OF 3] Date_now_log[OF 4] by simp
  with assms 2 3 4 5 write_log_cases[OF 5] show ?thesis
    by (auto simp: tRPCBaseProcedureMilldeware_def Let_def split: bool.splits)
qed

lemma every_call_logged:
  assumes "\<not> guest_refused r (call_path c)" "parseRequestinput (req_url r) = Some (ev, ps)"
    and "trpc E M P r c m s = Some (x, m', s')"
  shows "x = Inl MongoServerError \<and> log_collection s' = log_collection s \<or>
    (\<exists>i n t d. mset (log_collection s') =
      add_mset (log_entry i (user_after r c x) ev ps x t d n) (mset (log_collection s)))"
proof -
  obtain y m1 s1 where 1: "(x, m', s') = tRPCBaseProcedureMilldeware E M r c (fst (Date_now E s)) (y, m1, s1)"
    "log_collection s1 = log_collection s"
    by (rule trpc_passed[OF assms(1,3)])
  from middleware_logs[OF assms(2) 1(1)[symmetric]] 1(2) show ?thesis by fastforce
qed

end

text \<open>What the log reads of an address: the path of the procedure, and the input where the query carries it.\<close>

lemma split_on_first: "c \<notin> set p \<Longrightarrow> split_on c (p @ c # q) = p # split_on c q"
  by (induction p) auto

lemma split_on_none: "c \<notin> set p \<Longrightarrow> split_on c p = [p]"
  by (induction p) auto

lemma search_get_input:
  "CHR ''&'' \<notin> set x \<Longrightarrow> search_get ''input'' (''input='' @ x) = Some (search_decode x)"
  by (simp add: search_get_def split_on_none)

lemma parse_address:
  assumes "CHR ''?'' \<notin> set p" and "q = [] \<or> hd q = CHR ''?''"
    and "parseRequestinput (CHR ''/'' # p @ q) = Some (ev, ps)"
  shows "ev = p" and "q = [] \<Longrightarrow> ps = Some []"
    and "q = ''?input='' @ x \<Longrightarrow> CHR ''?'' \<notin> set x \<Longrightarrow> CHR ''&'' \<notin> set x \<Longrightarrow>
      decodeURIComponent (search_decode x) = Some t \<Longrightarrow> JSON_parse t = Some (JObj i) \<Longrightarrow> ps = Some i"
proof -
  have "q = [] \<or> (\<exists>y. q = CHR ''?'' # y)" using assms(2) by (cases q) auto
  then show "ev = p"
    using assms(1,3)
    by (auto simp: parseRequestinput_def split_on_first split_on_none Let_def
        split: if_splits list.splits option.splits jsval.splits)
  show "ps = Some []" if "q = []"
    using assms(1,3) that by (simp add: parseRequestinput_def split_on_none)
  show "ps = Some i" if q: "q = ''?input='' @ x" "CHR ''?'' \<notin> set x" "CHR ''&'' \<notin> set x"
    "decodeURIComponent (search_decode x) = Some t" "JSON_parse t = Some (JObj i)"
  proof -
    have "split_on (CHR ''?'') (p @ q) = [p, ''input='' @ x]"
      using split_on_first[OF assms(1), of "''input='' @ x"] q(1,2) split_on_none[of "CHR ''?''" "''input='' @ x"]
      by simp
    then show ?thesis
      using assms(3) q(4,5) search_get_input[OF q(3)] by (simp add: parseRequestinput_def)
  qed
qed

text \<open>
  C25. The log of the API is append-only and complete for calls with a readable address: a call at the
  address of its procedure that passes the guard against guests leaves, whichever operation it runs
  and however that ends, exactly one new entry, and touches no older entry; or the entry could not be
  inserted, and the client is told so. The entry names the procedure, the user (after logging in or
  out) and the error. It holds the input of a call that carries it in the query of the address; the
  input of a call without a query, as of every mutation, which sends it in the body, is not logged.
\<close>

theorem every_call_is_logged:
  assumes "mongo_ok M" "\<not> guest_refused r (call_path c)" "CHR ''?'' \<notin> set (call_path c)"
    and "req_url r = CHR ''/'' # call_path c @ q" "q = [] \<or> hd q = CHR ''?''" "parseRequestinput (req_url r) \<noteq> None"
    and "trpc E M P r c m s = Some (x, m', s')"
  shows "(\<exists>e. mset (log_collection s') = add_mset e (mset (log_collection s)) \<and>
       log_type e = API_LOG \<and> log_event e = call_path c \<and>
       (q = [] \<longrightarrow> log_parameters e = Some []) \<and>
       (\<forall>y t i. q = ''?input='' @ y \<and> CHR ''?'' \<notin> set y \<and> CHR ''&'' \<notin> set y \<and>
          decodeURIComponent (search_decode y) = Some t \<and> JSON_parse t = Some (JObj i) \<longrightarrow>
          log_parameters e = Some i) \<and>
       log_requester e = requester_id (user_after r c x) \<and>
       log_errors e = (case x of Inl err \<Rightarrow> Some (error_message err) | Inr _ \<Rightarrow> None)) \<or>
    x = Inl MongoServerError \<and> log_collection s' = log_collection s"
proof -
  obtain ev ps where p: "parseRequestinput (req_url r) = Some (ev, ps)" using assms(6) by auto
  note address = parse_address[OF assms(3,5) p[unfolded assms(4)]]
  consider "x = Inl MongoServerError" "log_collection s' = log_collection s"
    | j n t d where "mset (log_collection s') =
        add_mset (log_entry j (user_after r c x) ev ps x t d n) (mset (log_collection s))"
    using mongo_db.every_call_logged[OF mongo_db.intro[OF assms(1)] assms(2) p assms(7)] by blast
  then show ?thesis
  proof cases
    case 2
    let ?e = "log_entry j (user_after r c x) ev ps x t d n"
    have "log_type ?e = API_LOG" "log_event ?e = call_path c" "log_parameters ?e = ps"
      "log_requester ?e = requester_id (user_after r c x)"
      "log_errors ?e = (case x of Inl err \<Rightarrow> Some (error_message err) | Inr _ \<Rightarrow> None)"
      by (simp_all add: log_entry_def Let_def address(1))
    with 2 address(2,3) show ?thesis by blast
  qed simp
qed

text \<open>
  C26. But the caller decides whether there is an entry: the address is read after the operation has run, and a
  query without an input stops that. Any procedure called as \<open>/path?x\<close>, unless the guard refuses it to a guest,
  takes its full effect, leaves no entry, and the client is told of a syntax error.
\<close>

theorem call_hidden_from_log:
  assumes "CHR ''?'' \<notin> set p" "req_url r = CHR ''/'' # p @ ''?x''" "\<not> guest_refused r (call_path c)"
    and "call_router E M P r c m (snd (Date_now E s)) = Some (y, m', s1)"
  shows "trpc E M P r c m s = Some (Inl (JSError ''SyntaxError''), m', snd (Date_now E s1)) \<and>
    log_collection (snd (Date_now E s1)) = log_collection s"
proof -
  have "split_on (CHR ''?'') (p @ ''?x'') = [p, ''x'']"
    using assms(1) by (induction p) auto
  then have "parseRequestinput (req_url r) = None"
    using assms(2) by (simp add: parseRequestinput_def search_get_def JSON_parse_def json_literal_def json_number_def
        scan_decimal_def starts_def)
  then show ?thesis
    using assms(3,4) logs.call_router_keeps[OF assms(4)]
    by (simp add: trpc_def tRPCBaseProcedureMilldeware_def Let_def Date_now_def)
qed

subsection \<open>The platform as a view\<close>

definition platform ::
    "db \<Rightarrow> IStudy list \<times> IField list \<times> IData list \<times> IData list \<times> IStandardization list \<times> IOrganisation list \<times>
      IDomain list \<times> IJob list \<times> IInstance list \<times> lxd_request list" where
  "platform s = (studies_collection s, field_dictionary_collection s, data_collection s, colddata_collection s,
     standardizations_collection s, organisations_collection s, domains_collection s, jobs_collection s,
     instance_collection s, lxd_requests s)"

interpretation guests: account_view platform
  by unfold_locales (simp_all add: platform_def)

lemma middleware_platform:
  assumes "tRPCBaseProcedureMilldeware E M r c t (y, m', s1) = (x, m'', s')"
  shows "platform s' = platform s1"
  using assms
  by (auto simp: tRPCBaseProcedureMilldeware_def Let_def Date_now_def uuid_def write_log_def platform_def
      split: option.splits bool.splits prod.splits)

text \<open>
  C27. Guests are confined: whatever procedure a guest calls, with whatever input, studies with their fields and
  data, standardisation rules, organisations, domains, jobs and instances stay as they are, and nothing is asked of
  the container server.
\<close>

theorem guests_are_confined:
  assumes "req_user r = Some u" "user_type u = GUEST" "trpc E M P r c m s = Some (x, m', s')"
  shows "studies_collection s' = studies_collection s \<and> field_dictionary_collection s' = field_dictionary_collection s \<and>
    data_collection s' = data_collection s \<and> colddata_collection s' = colddata_collection s \<and>
    standardizations_collection s' = standardizations_collection s \<and>
    organisations_collection s' = organisations_collection s \<and> domains_collection s' = domains_collection s \<and>
    jobs_collection s' = jobs_collection s \<and> instance_collection s' = instance_collection s \<and>
    lxd_requests s' = lxd_requests s"
proof -
  have "platform s' = platform s"
  proof (cases "guest_refused r (call_path c)")
    case True
    with assms(3) show ?thesis by (simp add: trpc_def)
  next
    case False
    then have g: "guest_allowed (call_path c)" using assms(1,2) by (simp add: guest_refused_def isGuestUser_def)
    obtain y m1 s1 where "call_router E M P r c m (snd (Date_now E s)) = Some (y, m1, s1)"
      "(x, m', s') = tRPCBaseProcedureMilldeware E M r c (fst (Date_now E s)) (y, m1, s1)"
      by (rule trpc_passed[OF False assms(3)])
    with guests.guest_router_keeps[OF g] middleware_platform[of E M r c _ y m1 s1 x m' s']
    show ?thesis by (metis guests.keeps_Date_now keeps_iff)
  qed
  then show ?thesis by (simp add: platform_def)
qed

subsection \<open>Samples\<close>

definition process0 :: process where
  "process0 = \<lparr>development = False, appName = ''dmp'', configuration = InstanceProps.cfg0, session_login = (\<lambda>_. True),
     session_logout = (\<lambda>_. True), drive_fuel = 10, logs_summary = (\<lambda>_. JArr [])\<rparr>"

definition request0 :: "IUserWithoutToken \<Rightarrow> string \<Rightarrow> trpc_request" where
  "request0 u url = \<lparr>ctx_user = Some u, req_user = Some u, req_url = url, req_origin = None, req_hostname = None\<rparr>"

definition memory0 :: cpu_memory where
  "memory0 = \<lparr>previousCpuUsage = (\<lambda>_. None), previousCpuTimestamp = (\<lambda>_. None)\<rparr>"

definition hosted0 :: db where
  "hosted0 = db0\<lparr>organisations_collection := [org0 ''icl'']\<rparr>"

definition deleted0 :: db where
  "deleted0 = snd (deleteOrganisation env0 list_mongo (Some (user0 ''root'' ADMIN)) ''icl'' (snd (Date_now env0 hosted0)))"

abbreviation delete_icl :: trpc_call where
  "delete_icl \<equiv> Organisation (organisation_deleteOrganisation ''icl'')"

lemma deleted0_run: "call_router env0 list_mongo process0 (request0 (user0 ''root'' ADMIN) url) delete_icl memory0 (snd (Date_now env0 hosted0)) =
    Some (Inr (A_Response (makeGenericResponse (Some ''icl'') (Some True) None (Some ''Organisation deleted successfully.''))), memory0, deleted0)"
  "map alive (organisations_collection deleted0) = [False]"
  by (simp_all add: same_memory_def deleted0_def request0_def hosted0_def deleteOrganisation_def sample_defs list_mongo_def
      list_driver_simps organisations_indexes_def org0_def user0_def Date_now_def Let_def)

lemma request0_passes: "\<not> guest_refused (request0 (user0 i ADMIN) url) p"
  by (simp add: guest_refused_def request0_def isGuestUser_def user0_def)

lemma middleware_memory: "fst (snd (tRPCBaseProcedureMilldeware E M r c t (y, m, s))) = m"
  by (simp add: tRPCBaseProcedureMilldeware_def Let_def split: prod.split option.split bool.split)

lemma middleware_runs:
  assumes "\<not> guest_refused r (call_path c)" "call_router E M P r c m (snd (Date_now E s)) = Some (y, m', s1)"
  obtains x s' where "trpc E M P r c m s = Some (x, m', s')"
proof -
  let ?z = "tRPCBaseProcedureMilldeware E M r c (fst (Date_now E s)) (y, m', s1)"
  have "trpc E M P r c m s = Some (fst ?z, m', snd (snd ?z))"
    using assms middleware_memory[of E M r c "fst (Date_now E s)" y m' s1]
    by (simp add: trpc_def Let_def Date_now_def prod_eq_iff)
  then show thesis by (rule that)
qed

theorem call_hidden_from_log_witness:
  "\<exists>s'. trpc env0 list_mongo process0 (request0 (user0 ''root'' ADMIN) ''/organisation.deleteOrganisation?x'')
      delete_icl memory0 hosted0 = Some (Inl (JSError ''SyntaxError''), memory0, s') \<and>
    map alive (organisations_collection s') = [False] \<and> log_collection s' = []"
proof -
  have l: "log_collection hosted0 = []" by (simp add: hosted0_def db0_def)
  from call_hidden_from_log[OF _ _ request0_passes deleted0_run(1), of "''organisation.deleteOrganisation''"
      "''/organisation.deleteOrganisation?x''"] l deleted0_run(2)
  show ?thesis by (simp add: request0_def Date_now_def)
qed

theorem every_call_is_logged_witness:
  "\<exists>x s'. trpc env0 list_mongo process0 (request0 (user0 ''root'' ADMIN) ''/organisation.deleteOrganisation'')
      delete_icl memory0 hosted0 = Some (x, memory0, s') \<and>
    (x = Inl MongoServerError \<or> map log_event (log_collection s') = [''organisation.deleteOrganisation''])"
proof -
  let ?r = "request0 (user0 ''root'' ADMIN) ''/organisation.deleteOrganisation''"
  have u: "CHR ''?'' \<notin> set (call_path delete_icl)" "req_url ?r = CHR ''/'' # call_path delete_icl @ []"
    by (simp_all add: request0_def)
  have p: "parseRequestinput (req_url ?r) \<noteq> None"
    by (simp add: request0_def parseRequestinput_def)
  obtain x s' where t: "trpc env0 list_mongo process0 ?r delete_icl memory0 hosted0 = Some (x, memory0, s')"
    by (rule middleware_runs[OF request0_passes deleted0_run(1)])
  have "log_collection hosted0 = []" by (simp add: hosted0_def db0_def)
  with every_call_is_logged[OF list_mongo_ok request0_passes u _ p t]
  have "x = Inl MongoServerError \<or> map log_event (log_collection s') = [''organisation.deleteOrganisation'']" by auto
  with t show ?thesis by (intro exI conjI)
qed

theorem guests_are_confined_witness:
  "\<exists>x s'. trpc env0 list_mongo process0 (request0 (user0 ''eve'' GUEST) ''/user.whoAmI'') (User user_whoAmI) memory0 hosted0
      = Some (x, memory0, s') \<and> organisations_collection s' = [org0 ''icl'']"
proof -
  let ?r = "request0 (user0 ''eve'' GUEST) ''/user.whoAmI''"
  have g: "\<not> guest_refused ?r (call_path (User user_whoAmI))"
    by (simp add: guest_refused_def guests.guest_eval request0_def)
  have c: "call_router env0 list_mongo process0 ?r (User user_whoAmI) memory0 (snd (Date_now env0 hosted0)) =
      Some (Inr (A_Requester (req_user ?r)), memory0, snd (Date_now env0 hosted0))"
    by (simp add: same_memory_def)
  obtain x s' where t: "trpc env0 list_mongo process0 ?r (User user_whoAmI) memory0 hosted0 = Some (x, memory0, s')"
    by (rule middleware_runs[OF g c])
  have u: "req_user ?r = Some (user0 ''eve'' GUEST)" "user_type (user0 ''eve'' GUEST) = GUEST"
    by (simp_all add: request0_def user0_def)
  from guests_are_confined[OF u t] have "organisations_collection s' = [org0 ''icl'']"
    by (simp add: hosted0_def)
  with t show ?thesis by blast
qed

end
