(* ===== verification/UploadRoute.thy ===== *)
theory UploadRoute
  imports DataClips Json
begin

section \<open>The upload route (\<open>commonMiddleware.ts\<close>)\<close>

text \<open>
  Requests to \<open>/trpc/data.uploadStudyFileData\<close> do not reach the API: \<open>router.ts\<close> hands them to \<open>uploadFileData\<close>, which
  parses the form with \<open>busboy\<close>. The form is the list of its fields, which come before the file (the client sends
  them in this order), and one file, a stream of chunks. A field that is missing is \<open>undefined\<close>; as the id of a field it is
  written out.
\<close>

datatype upload_reply =
    Upload_Error nat string
  | Upload_Done IFile
  | Upload_Crash error

text \<open>\<open>variables[k]\<close>: the last field of the name.\<close>

definition variable :: "(string \<times> string) list \<Rightarrow> string \<Rightarrow> string option" where
  "variable form k = map_of (rev form) k"

text \<open>
  The listener for the chunks: the size, what the hash was fed, and what was passed on. A file over the limit is
  answered at once, and so is a stream that breaks.
\<close>

fun receive_chunks ::
    "int \<Rightarrow> string option \<Rightarrow> string list \<Rightarrow> int \<times> string \<times> string \<Rightarrow> upload_reply + (int \<times> string \<times> string)" where
  "receive_chunks limit err [] st =
     (case err of Some _ \<Rightarrow> Inl (Upload_Error 400 ''Failed to upload file.'') | None \<Rightarrow> Inr st)"
| "receive_chunks limit err (chunk # rest) (fileSz, hashed, passed) =
     (let sz = fileSz + int (length chunk)
      in if sz > limit then Inl (Upload_Error 400 ''File size exceeds the limit'')
         else receive_chunks limit err rest (sz, hashed @ chunk, passed @ chunk))"

text \<open>
  The configuration is looked up before any field has arrived, with \<open>undefined\<close> for the id of the study, which the
  driver takes as \<open>null\<close>.
\<close>

definition route_limit :: "mongo \<Rightarrow> db \<Rightarrow> int" where
  "route_limit M s = config_maximumFileSize (config_or M s STUDYCONFIG None (StudyProps default_studyConfig))"

text \<open>
  The document of the file. It is built outside of any \<open>try\<close>: malformed properties, or a request without a user,
  end in an unhandled rejection.
\<close>

definition route_entry ::
    "env \<Rightarrow> requester \<Rightarrow> (string \<times> string) list \<Rightarrow> FileUpload \<Rightarrow> enumFileTypes \<Rightarrow> string \<Rightarrow> int \<Rightarrow> string \<Rightarrow> db \<Rightarrow> IFile result \<times> db" where
  "route_entry E requester form file ftype fileUri sz hashString s =
     (let (newId, s1) = uuid E s
      in case parse_object (variable form ''properties'') of
           Inl e \<Rightarrow> (Inl e, s1)
         | Inr props \<Rightarrow>
             (let (now, s2) = Date_now E s1
              in case requester of
                   None \<Rightarrow> (Inl (JSError ''TypeError''), s2)
                 | Some req \<Rightarrow>
                     (Inr \<lparr>doc_id = newId, life = new_life now (doc_id req), metadata = [],
                        file_studyId = variable form ''studyId'', file_userId = None,
                        fileName = filename file, fileSize = sz, file_description = variable form ''description'',
                        file_properties = nullish props [], uri = fileUri, hash = hashString,
                        fileType = ftype, fileCategory = STUDY_DATA_FILE\<rparr>, s2)))"

text \<open>The clip of the file is uploaded first, the document of the file inserted after it.\<close>

definition route_store ::
    "env \<Rightarrow> mongo \<Rightarrow> requester \<Rightarrow> (string \<times> string) list \<Rightarrow> IFile \<Rightarrow> db \<Rightarrow> IFile result \<times> db" where
  "route_store E M requester form entry s =
     (case (case variable form ''properties'' of None \<Rightarrow> Inr (Some []) | Some [] \<Rightarrow> Inl (JSError ''SyntaxError'')
              | Some x \<Rightarrow> parse_object (Some x)) of
        Inl e \<Rightarrow> (Inl e, s)
      | Inr props \<Rightarrow>
          (case uploadFileDataWithFileEntry E M requester (nullish (variable form ''studyId'') ''undefined'')
                  (nullish (variable form ''fieldId'') ''undefined'') entry
                  (Some (JSON_stringify E (JObj (js_set (nullish props []) ''FileName'' (JStr (fileName entry)))))) s of
             (Inl e, s1) \<Rightarrow> (Inl e, s1)
           | (Inr f, s1) \<Rightarrow>
               (case insertOne (files_dr M) (files_collection s1) entry of
                  None \<Rightarrow> (Inl MongoServerError, s1)
                | Some c \<Rightarrow> (Inr f, s1\<lparr>files_collection := c\<rparr>))))"

definition upload_route ::
    "env \<Rightarrow> mongo \<Rightarrow> requester \<Rightarrow> (string \<times> string) list \<Rightarrow> FileUpload \<Rightarrow> db \<Rightarrow> upload_reply \<times> db" where
  "upload_route E M requester form file s =
     (let (fileUri, s1) = uuid E s
      in case receive_chunks (route_limit M s) (stream_error file) (stream_chunks file) (0, [], []) of
           Inl reply \<Rightarrow> (reply, s1)
         | Inr (sz, hashed, content) \<Rightarrow>
             (case objStore_uploadFile E content (variable form ''studyId'') fileUri s1 of
                (Inl e, s2) \<Rightarrow> (Upload_Error 500 ''Error uploading file to MinIO'', s2)
              | (Inr _, s2) \<Rightarrow>
                  (case file_type_of_extension (filename file) of
                     None \<Rightarrow> (Upload_Error 400 (''File type '' @ map upper (file_extension (filename file)) @ '' not supported.''), s2)
                   | Some ftype \<Rightarrow>
                       (case route_entry E requester form file ftype fileUri sz (sha256 E hashed) s2 of
                          (Inl e, s3) \<Rightarrow> (Upload_Crash e, s3)
                        | (Inr entry, s3) \<Rightarrow>
                            (case route_store E M requester form entry s3 of
                               (Inl e, s4) \<Rightarrow> (Upload_Error 400 ''Failed to upload file.'', s4)
                             | (Inr f, s4) \<Rightarrow> (Upload_Done f, s4))))))"

subsection \<open>What the route checks, and what it does before\<close>

lemma receive_chunks_all:
  "h + int (length (concat cs)) \<le> limit \<Longrightarrow>
     receive_chunks limit None cs (h, x, y) = Inr (h + int (length (concat cs)), x @ concat cs, y @ concat cs)"
  by (induction cs arbitrary: h x y) (auto simp: Let_def algebra_simps)

lemma receive_chunks_limit:
  "receive_chunks limit err cs (h, x, y) = Inr (sz, p, q) \<Longrightarrow>
     sz = h + int (length (concat cs)) \<and> p = x @ concat cs \<and> q = y @ concat cs \<and> (cs \<noteq> [] \<longrightarrow> sz \<le> limit)"
proof (induction cs arbitrary: h x y)
  case (Cons c cs)
  then have "\<not> limit < h + int (length c)"
    "receive_chunks limit err cs (h + int (length c), x @ c, y @ c) = Inr (sz, p, q)"
    by (auto simp: Let_def split: if_splits)
  with Cons.IH[OF this(2)] show ?case by (cases cs) auto
qed (auto split: option.splits)

lemma objStore_uploadFile_stores:
  assumes "object_store (minio E)" "objStore_uploadFile E x (Some b) u s = (Inr (), s')"
  shows "obj (store s') (toLowerCase b, u) = Some x \<and> s' = s\<lparr>store := store s'\<rparr>"
  using assms(2) object_store.putObject_objects[OF assms(1)]
  by (fastforce simp: objStore_uploadFile_def Let_def split: option.splits if_splits)

lemma route_entry_anonymous:
  assumes "route_entry E None form file ftype u sz h s = (x, s')"
  shows "(\<exists>e. x = Inl e \<and> (e = JSError ''TypeError'' \<or> parse_object (variable form ''properties'') = Inl e)) \<and>
    store s' = store s \<and> files_collection s' = files_collection s \<and> data_collection s' = data_collection s"
  using assms by (auto simp: route_entry_def uuid_def Date_now_def Let_def split: sum.splits)

text \<open>
  C28. The upload route stores first and asks later: a request without any user puts its file into the
  bucket of any study it names, whatever the name of the file and the other fields of the form, as
  long as the stream is sound, the file fits the default limit and the object store takes it. No
  document of a file and no clip is made for the object. A file of a type that is not supported is
  answered with an error 400, the object kept; any other ends the handler in an unhandled rejection,
  by the missing user or before that by malformed properties.
\<close>

theorem upload_before_login:
  assumes "object_store (minio E)" "variable form ''studyId'' = Some b"
    and "stream_error file = None" "int (length (concat (stream_chunks file))) \<le> route_limit M s"
    and "objStore_uploadFile E (concat (stream_chunks file)) (Some b) (fst (uuid E s)) (snd (uuid E s)) = (Inr (), s2)"
    and "upload_route E M None form file s = (reply, s')"
  shows "(case file_type_of_extension (filename file) of
       None \<Rightarrow> \<exists>message. reply = Upload_Error 400 message
     | Some _ \<Rightarrow> \<exists>e. reply = Upload_Crash e \<and>
         (e = JSError ''TypeError'' \<or> parse_object (variable form ''properties'') = Inl e)) \<and>
    obj (store s') (toLowerCase b, fst (uuid E s)) = Some (concat (stream_chunks file)) \<and>
    files_collection s' = files_collection s \<and> data_collection s' = data_collection s"
proof -
  obtain u s1 where u: "uuid E s = (u, s1)" by fastforce
  have r: "receive_chunks (route_limit M s) None (stream_chunks file) (0, [], []) =
      Inr (int (length (concat (stream_chunks file))), concat (stream_chunks file), concat (stream_chunks file))"
    using receive_chunks_all[of 0 "stream_chunks file"] assms(4) by simp
  have o: "objStore_uploadFile E (concat (stream_chunks file)) (Some b) u s1 = (Inr (), s2)" using assms(5) u by simp
  note st = objStore_uploadFile_stores[OF assms(1) o]
  have "files_collection s2 = files_collection s1" "data_collection s2 = data_collection s1"
    using st by (metis db.ext_inject db.surjective db.update_convs(19), metis db.ext_inject db.surjective db.update_convs(19))
  moreover have "files_collection s1 = files_collection s" "data_collection s1 = data_collection s"
    using u by (auto simp: uuid_def)
  moreover note run = assms(6)[unfolded upload_route_def assms(2,3) u prod.case Let_def r sum.case o]
  ultimately show ?thesis
  proof (cases "file_type_of_extension (filename file)")
    case (Some ftype)
    obtain x s3 where x: "route_entry E None form file ftype u (int (length (concat (stream_chunks file))))
        (sha256 E (concat (stream_chunks file))) s2 = (x, s3)" by fastforce
    from route_entry_anonymous[OF x] obtain e where "x = Inl e"
      "e = JSError ''TypeError'' \<or> parse_object (variable form ''properties'') = Inl e" by blast
    then show ?thesis
      using run x Some st u route_entry_anonymous[OF x] \<open>files_collection s2 = _\<close> \<open>data_collection s2 = _\<close>
        \<open>files_collection s1 = _\<close> \<open>data_collection s1 = _\<close> by auto
  qed (use st u in auto)
qed

definition file_csv :: FileUpload where
  "file_csv = \<lparr>filename = ''a.csv'', stream_chunks = [''ab'', ''c''], stream_error = None\<rparr>"

theorem upload_before_login_witness:
  "\<exists>e s'. upload_route env0 list_mongo None [(''studyId'', ''st'')] file_csv db0 = (Upload_Crash e, s') \<and>
    obj (store s') (''st'', ''id-'') = Some ''abc''"
proof -
  have v: "variable [(''studyId'', ''st'')] ''studyId'' = Some ''st''"
    by (simp add: variable_def)
  have f: "stream_error file_csv = None" "int (length (concat (stream_chunks file_csv))) \<le> route_limit list_mongo db0"
    by (simp_all add: file_csv_def route_limit_def config_or_def default_studyConfig_def list_mongo_def list_driver_simps db0_def)
  have t: "file_type_of_extension (filename file_csv) = Some CSV" by code_simp
  obtain s2 where s2: "objStore_uploadFile env0 (concat (stream_chunks file_csv)) (Some ''st'') (fst (uuid env0 db0)) (snd (uuid env0 db0)) =
      (Inr (), s2)"
    by (simp add: file_csv_def objStore_uploadFile_def ensure_bucket_def sample_defs uuid_def Let_def toLowerCase_def lower_def of_char_def)
  obtain reply s' where r: "upload_route env0 list_mongo None [(''studyId'', ''st'')] file_csv db0 = (reply, s')" by fastforce
  have o: "object_store (minio env0)" using list_objects.object_store_axioms by (simp add: env0_def)
  note up = upload_before_login[OF o v f s2 r, unfolded t option.case]
  then have "obj (store s') (''st'', ''id-'') = Some ''abc''"
    by (simp add: file_csv_def uuid_def env0_def db0_def toLowerCase_def lower_def of_char_def)
  with up r show ?thesis by blast
qed

end
