(* ===== verification/JsonProps.thy ===== *)
theory JsonProps
  imports Json Samples
begin

section \<open>\<open>JSON.parse\<close> reads what \<open>JSON.stringify\<close> writes\<close>

text \<open>The parser and the printer of theory \<open>Json\<close>, by induction on the value; the text may be followed by more.\<close>

subsection \<open>Strings\<close>

lemma quote_code: "quote = CHR 0x22" "backslash = CHR 0x5C"
  unfolding quote_def backslash_def by code_simp+

lemma digit_value_check: "list_all (\<lambda>d. digit_value (hex_digit d) = Some d) [0..<16]"
  by code_simp

lemma digit_value_hex: "d < 16 \<Longrightarrow> digit_value (hex_digit d) = Some d"
  using digit_value_check by (simp add: list_all_iff)

lemma digit_value_0: "digit_value (CHR ''0'') = Some 0"
  by code_simp

lemma hex4_escape: "n < 32 \<Longrightarrow> hex4 (CHR ''0'' # CHR ''0'' # hex_digit (n div 16) # hex_digit (n mod 16) # r) = Some (char_of n)"
  by (simp add: hex4_def digit_value_hex digit_value_0 nat_of_digits_def)

lemma unescape_check: "list_all (\<lambda>(n, l). unescape l = Some (char_of n) \<and> l \<noteq> CHR ''u'') short_escapes"
  by code_simp

lemma unescape_escape: "map_of short_escapes n = Some l \<Longrightarrow> unescape l = Some (char_of n) \<and> l \<noteq> CHR ''u''"
  using unescape_check by (auto simp: list_all_iff dest!: map_of_SomeD)

lemma json_string_escape:
  "json_string (json_escape c @ s) = (case json_string s of None \<Rightarrow> None | Some (x, r) \<Rightarrow> Some (c # x, r))"
proof -
  let ?n = "of_char c :: nat"
  consider "c = quote \<or> c = backslash" | l where "c \<noteq> quote" "c \<noteq> backslash" "map_of short_escapes ?n = Some l"
    | "c \<noteq> quote" "c \<noteq> backslash" "map_of short_escapes ?n = None" "?n < 32"
    | "c \<noteq> quote" "c \<noteq> backslash" "map_of short_escapes ?n = None" "\<not> ?n < 32"
    by blast
  then show ?thesis
  proof cases
    case 1
    then show ?thesis by (auto simp: json_escape_def Let_def quote_code unescape_def)
  next
    case (2 l)
    then show ?thesis using unescape_escape[OF 2(3)] by (simp add: json_escape_def Let_def quote_code)
  next
    case 3
    then show ?thesis using hex4_escape[OF 3(4)] by (simp add: json_escape_def Let_def quote_code)
  next
    case 4
    then show ?thesis by (simp add: json_escape_def Let_def quote_code)
  qed
qed

lemma json_string_quoted: "json_string (concat (map json_escape x) @ quote # r) = Some (x, r)"
  by (induction x) (simp_all add: json_string_escape)

subsection \<open>Values\<close>

text \<open>
  The values JSON can carry: no \<open>undefined\<close>, finite numbers that the language prints in a way it reads, and
  objects with their properties in the order in which the language lists them.
\<close>

definition delimited :: "string \<Rightarrow> bool" where
  "delimited r \<longleftrightarrow> r = [] \<or> hd r \<in> set '',]}''"

definition number_ok :: "env \<Rightarrow> rat \<Rightarrow> bool" where
  "number_ok E x \<longleftrightarrow>
     (let t = num_to_string E (Fin x)
      in t \<noteq> [] \<and> (is_digit (hd t) \<or> hd t = CHR ''-'') \<and> CHR 0x00 \<notin> set t \<and>
         (\<forall>r. delimited r \<longrightarrow> json_number (t @ r) = Some (JNum (Fin x), r)))"

fun json_ok :: "env \<Rightarrow> jsval \<Rightarrow> bool" where
  "json_ok E JUndef = False"
| "json_ok E JNull = True"
| "json_ok E (JBool b) = True"
| "json_ok E (JNum n) = (case n of Fin x \<Rightarrow> number_ok E x | _ \<Rightarrow> False)"
| "json_ok E (JStr x) = True"
| "json_ok E (JArr xs) = list_all (json_ok E) xs"
| "json_ok E (JObj m) =
     (distinct (map fst m) \<and> property_order (map fst m) = map fst m \<and> list_all (\<lambda>p. json_ok E (snd p)) m)"

lemma skip_space_start: "r \<noteq> [] \<Longrightarrow> \<not> is_json_space (hd r) \<Longrightarrow> skip_space r = r"
  by (cases r) simp_all

definition reads :: "env \<Rightarrow> jsval \<Rightarrow> bool" where
  "reads E v \<longleftrightarrow> (\<exists>t. stringify E v = Some t \<and> t \<noteq> [] \<and> \<not> is_json_space (hd t) \<and> hd t \<noteq> CHR '']'' \<and>
     (\<forall>n r. n \<ge> 2 * length t + 1 \<longrightarrow> delimited r \<longrightarrow> json_value n (t @ r) = Some (v, r)))"

lemmas json_read_simps = starts_def quote_code is_json_space_def json_literal_def delimited_def

lemma fuel_Suc: "n \<ge> 2 * k + 1 \<Longrightarrow> \<exists>m. n = Suc m \<and> m \<ge> 2 * k"
  by (cases n) auto

lemma reads_literal:
  assumes "stringify E v = Some t" "t \<noteq> []" "hd t \<notin> set [quote, CHR ''['', CHR '']'', CHR ''{'']" "\<not> is_json_space (hd t)"
    and "\<And>r. delimited r \<Longrightarrow> json_literal (t @ r) = Some (v, r)"
  shows "reads E v"
  unfolding reads_def
proof (intro exI[of _ t] conjI allI impI)
  fix n r
  assume "n \<ge> 2 * length t + 1" and r: "delimited r"
  then obtain m where "n = Suc m" using fuel_Suc by blast
  then show "json_value n (t @ r) = Some (v, r)"
    using assms(2-4) assms(5)[OF r] by (simp add: skip_space_start starts_def)
qed (use assms in auto)

lemma reads_string: "reads E (JStr x)"
  unfolding reads_def
proof (intro exI[of _ "json_quote x"] conjI allI impI)
  fix n r
  assume "n \<ge> 2 * length (json_quote x) + 1"
  then obtain m where "n = Suc m" using fuel_Suc by blast
  moreover have "json_quote x @ r = quote # (concat (map json_escape x) @ quote # r)" by (simp add: json_quote_def)
  ultimately show "json_value n (json_quote x @ r) = Some (JStr x, r)"
    by (simp add: skip_space_start starts_def json_string_quoted is_json_space_def quote_code[symmetric])
      (simp add: quote_code)
qed (simp_all add: json_quote_def quote_code is_json_space_def)

lemma reads_number: "number_ok E x \<Longrightarrow> reads E (JNum (Fin x))"
proof -
  assume ok: "number_ok E x"
  let ?t = "num_to_string E (Fin x)"
  have t: "?t \<noteq> []" "is_digit (hd ?t) \<or> hd ?t = CHR ''-''" and num: "\<And>r. delimited r \<Longrightarrow> json_number (?t @ r) = Some (JNum (Fin x), r)"
    using ok by (auto simp: number_ok_def Let_def)
  have h: "hd ?t \<in> set ''0123456789-''" using t(2) by (auto simp: is_digit_def)
  show ?thesis
  proof (rule reads_literal[of _ _ ?t])
    fix r
    assume r: "delimited r"
    obtain c u where "?t = c # u" using t(1) by (cases ?t) auto
    then show "json_literal (?t @ r) = Some (JNum (Fin x), r)"
      using num[OF r] h by (auto simp: json_literal_def)
  qed (use t(1) h in \<open>auto simp: quote_code is_json_space_def\<close>)
qed

subsection \<open>Natural numbers\<close>

text \<open>Natural numbers written in decimal, as the language writes them below \<open>10^21\<close>, are read back.\<close>

definition decimal_digit :: "nat \<Rightarrow> char" where
  "decimal_digit d = ''0123456789'' ! d"

lemma string_of_nat_step:
  "string_of_nat n = (if n < 10 then [decimal_digit n] else string_of_nat (n div 10) @ [decimal_digit (n mod 10)])"
  unfolding decimal_digit_def by (rule string_of_nat.simps)

lemma decimal_digit_check:
  "list_all (\<lambda>d. digit_value (decimal_digit d) = Some d \<and> is_digit (decimal_digit d) \<and> (decimal_digit d = CHR ''0'' \<longleftrightarrow> d = 0)) [0..<10]"
  by code_simp

lemma decimal_digit:
  "d < 10 \<Longrightarrow> digit_value (decimal_digit d) = Some d \<and> is_digit (decimal_digit d) \<and> (decimal_digit d = CHR ''0'' \<longleftrightarrow> d = 0)"
  using decimal_digit_check by (simp add: list_all_iff)

lemma string_of_nat_digits:
  "\<exists>ds. string_of_nat n = map decimal_digit ds \<and> list_all (\<lambda>d. d < 10) ds \<and> ds \<noteq> [] \<and>
     nat_of_digits 10 ds = n \<and> (hd ds = 0 \<longrightarrow> n = 0 \<and> length ds = 1)"
proof (induction n rule: less_induct)
  case (less n)
  show ?case
  proof (cases "n < 10")
    case True
    then show ?thesis by (intro exI[of _ "[n]"]) (simp add: string_of_nat_step[of n] nat_of_digits_def)
  next
    case False
    then obtain ds where "string_of_nat (n div 10) = map decimal_digit ds" "list_all (\<lambda>d. d < 10) ds" "ds \<noteq> []"
      "nat_of_digits 10 ds = n div 10" "hd ds = 0 \<longrightarrow> n div 10 = 0 \<and> length ds = 1"
      using less[of "n div 10"] by auto
    then show ?thesis using False
      by (intro exI[of _ "ds @ [n mod 10]"]) (subst string_of_nat_step, auto simp: nat_of_digits_append)
  qed
qed

lemma digits_prefix_decimal:
  "list_all (\<lambda>d. d < 10) ds \<Longrightarrow> r = [] \<or> digit_value (hd r) = None \<Longrightarrow> digits_prefix 10 (map decimal_digit ds @ r) = ds"
proof (induction ds)
  case Nil
  then show ?case by (cases r) simp_all
qed (simp add: decimal_digit)

lemma number_ok_nat:
  assumes "num_to_string E (Fin (of_nat n)) = string_of_nat n"
  shows "number_ok E (of_nat n)"
proof -
  obtain ds where ds: "string_of_nat n = map decimal_digit ds" "list_all (\<lambda>d. d < 10) ds" "ds \<noteq> []"
    "nat_of_digits 10 ds = n" "hd ds = 0 \<longrightarrow> length ds = 1"
    using string_of_nat_digits[of n] by auto
  then obtain d es where d: "ds = d # es" by (cases ds) auto
  have dig: "is_digit (decimal_digit e)" if "e \<in> set ds" for e using ds(2) that decimal_digit[of e] by (auto simp: list_all_iff)
  have "json_number (map decimal_digit ds @ r) = Some (JNum (Fin (of_nat n)), r)" if r: "delimited r" for r
  proof -
    have r': "r = [] \<or> digit_value (hd r) = None \<and> \<not> is_digit (hd r) \<and> hd r \<notin> set ''.eE''"
      using r by (auto simp: delimited_def is_digit_def digit_value_def)
    have "takeWhile is_digit (map decimal_digit ds @ r) = map decimal_digit ds"
      using r' dig by (cases r) (auto simp: takeWhile_append)
    moreover have "scan_decimal (map decimal_digit ds @ r) = Some (of_nat n, r)"
    proof -
      have p: "digits_prefix 10 (map decimal_digit ds @ r) = ds" using digits_prefix_decimal[OF ds(2)] r' by blast
      have dr: "drop (length ds) (map decimal_digit ds @ r) = r" by simp
      show ?thesis
        unfolding scan_decimal_def Let_def p dr using r' ds(3,4) by (cases r) simp_all
    qed
    moreover have "decimal_digit d \<noteq> CHR ''-''" using dig[of d] by (auto simp: d is_digit_def)
    moreover have "1 < length ds \<longrightarrow> decimal_digit d \<noteq> CHR ''0''"
      using ds(2,5) decimal_digit[of d] by (auto simp: d)
    ultimately show ?thesis
      using r' by (auto simp: json_number_def Let_def d with_sign_def)
  qed
  moreover have "CHR 0x00 \<notin> set (map decimal_digit ds)" using dig by (force simp: is_digit_def)
  ultimately show ?thesis using dig[of d] unfolding number_ok_def Let_def assms ds(1) by (simp add: d)
qed

subsection \<open>Arrays\<close>

lemma reads_text:
  assumes "reads E v"
  obtains t where "stringify E v = Some t" "t \<noteq> []" "\<not> is_json_space (hd t)" "hd t \<noteq> CHR '']''"
    "\<And>n r. n \<ge> 2 * length t + 1 \<Longrightarrow> delimited r \<Longrightarrow> json_value n (t @ r) = Some (v, r)"
  using assms unfolding reads_def by blast

lemma delimited_simps [simp]: "delimited (c # r) \<longleftrightarrow> c \<in> set '',]}''" "delimited []"
  by (simp_all add: delimited_def)

lemma separator_start: "skip_space (c # r) = (if is_json_space c then skip_space r else c # r)" "starts d (c # r) \<longleftrightarrow> c = d"
  by (simp_all add: starts_def)

lemma not_space: "\<not> is_json_space (CHR '','')" "\<not> is_json_space (CHR '']'')" "\<not> is_json_space (CHR ''}'')"
    "\<not> is_json_space (CHR ''['')" "\<not> is_json_space (CHR ''{'')" "\<not> is_json_space (CHR '':'')" "\<not> is_json_space quote"
  by (simp_all add: is_json_space_def quote_code)

abbreviation element_text :: "env \<Rightarrow> jsval \<Rightarrow> string" where
  "element_text E x \<equiv> nullish (stringify E x) ''null''"

lemma reads_elements:
  assumes "xs \<noteq> []" "\<And>x. x \<in> set xs \<Longrightarrow> reads E x" "n \<ge> 2 * length (join_with '','' (map (element_text E) xs)) + 2"
  shows "json_elements n (join_with '','' (map (element_text E) xs) @ CHR '']'' # r) = Some (xs, r)"
  using assms
proof (induction xs arbitrary: n)
  case (Cons x xs)
  obtain t where t: "stringify E x = Some t" and p: "\<And>n r. n \<ge> 2 * length t + 1 \<Longrightarrow> delimited r \<Longrightarrow> json_value n (t @ r) = Some (x, r)"
    using reads_text[OF Cons(3)] by (metis list.set_intros(1))
  obtain m where m: "n = Suc m" using Cons(4) by (cases n) auto
  show ?case
  proof (cases xs)
    case Nil
    then show ?thesis using Cons(4) m p by (simp add: t separator_start not_space)
  next
    case (Cons y ys)
    let ?rest = "join_with '','' (map (element_text E) xs)"
    have j: "join_with '','' (map (element_text E) (x # xs)) = t @ CHR '','' # ?rest" by (simp add: Cons t)
    have "json_value m (t @ CHR '','' # ?rest @ CHR '']'' # r) = Some (x, CHR '','' # ?rest @ CHR '']'' # r)"
      using p[of m "CHR '','' # ?rest @ CHR '']'' # r"] Cons.prems(3) m unfolding j by simp
    moreover have "json_elements m (?rest @ CHR '']'' # r) = Some (xs, r)"
      using Cons.IH[of m] Cons.prems(2,3) m Cons unfolding j by simp
    ultimately show ?thesis unfolding j m by (simp add: separator_start not_space)
  qed
qed simp

lemma join_with_start:
  "xs \<noteq> [] \<Longrightarrow> hd xs \<noteq> [] \<Longrightarrow> join_with s xs \<noteq> [] \<and> hd (join_with s xs) = hd (hd xs)"
  by (induction s xs rule: join_with.induct) auto

lemma reads_array:
  assumes "\<And>x. x \<in> set xs \<Longrightarrow> reads E x"
  shows "reads E (JArr xs)"
proof -
  let ?t = "join_with '','' (map (element_text E) xs)"
  have "json_value n (CHR ''['' # ?t @ CHR '']'' # r) = Some (JArr xs, r)" if fuel: "n \<ge> 2 * (length ?t + 2) + 1" for n r
  proof -
    obtain m where "n = Suc m" using fuel_Suc[OF fuel] by blast
    then have m: "n = Suc m" "m \<ge> 2 * length ?t + 2" using fuel by simp_all
    show ?thesis
    proof (cases xs)
      case Nil
      then show ?thesis using m by (simp add: separator_start not_space quote_code)
    next
      case (Cons x ys)
      obtain t where t: "stringify E x = Some t" "t \<noteq> []" "\<not> is_json_space (hd t)" "hd t \<noteq> CHR '']''"
        using reads_text[OF assms[of x]] Cons by (metis list.set_intros(1))
      then have "?t \<noteq> [] \<and> hd ?t = hd t" using join_with_start[of "map (element_text E) xs"] Cons by simp
      then obtain c u where u: "?t = c # u" "\<not> is_json_space c" "c \<noteq> CHR '']''" using t by (cases ?t) auto
      then have "json_elements m (c # u @ CHR '']'' # r) = Some (xs, r)"
        using reads_elements[of xs E m r] assms Cons m(2) by simp
      then show ?thesis using m u by (simp add: separator_start not_space quote_code)
    qed
  qed
  then show ?thesis unfolding reads_def
    by (intro exI[of _ "CHR ''['' # ?t @ '']''"]) (simp add: is_json_space_def)
qed

subsection \<open>Objects\<close>

abbreviation member_text :: "env \<Rightarrow> string \<times> jsval \<Rightarrow> string" where
  "member_text E p \<equiv> json_quote (fst p) @ '':'' @ element_text E (snd p)"

lemma js_set_new: "k \<notin> fst ` set m \<Longrightarrow> js_set m k v = m @ [(k, v)]"
  by (induction m) auto

lemma reads_members:
  assumes "m \<noteq> []" "\<And>p. p \<in> set m \<Longrightarrow> reads E (snd p)" "n \<ge> 2 * length (join_with '','' (map (member_text E) m)) + 2"
    and "distinct (map fst (acc @ m))"
  shows "json_members n (join_with '','' (map (member_text E) m) @ CHR ''}'' # r) acc = Some (acc @ m, r)"
  using assms
proof (induction m arbitrary: n acc)
  case (Cons p m)
  obtain k v where kv: "p = (k, v)" by (cases p)
  have v: "reads E v" using Cons(3)[of p] by (simp add: kv)
  obtain t where t: "stringify E v = Some t" and p: "\<And>n r. n \<ge> 2 * length t + 1 \<Longrightarrow> delimited r \<Longrightarrow> json_value n (t @ r) = Some (v, r)"
    using reads_text[OF v] by metis
  obtain n' where n': "n = Suc n'" using Cons(4) by (cases n) auto
  have acc: "js_set acc k v = acc @ [p]" using Cons(5) by (subst js_set_new) (auto simp: kv)
  have q: "json_quote k = quote # concat (map json_escape k) @ [quote]" by (simp add: json_quote_def)
  show ?case
  proof (cases m)
    case Nil
    have "json_value n' (t @ CHR ''}'' # r) = Some (v, CHR ''}'' # r)"
      using p[of n' "CHR ''}'' # r"] Cons(4) n' by (simp add: Nil kv t)
    then show ?thesis using acc
      by (simp add: n' Nil kv t q separator_start not_space json_string_quoted)
  next
    case (Cons y ys)
    let ?rest = "join_with '','' (map (member_text E) m)"
    have j: "join_with '','' (map (member_text E) (p # m)) = json_quote k @ CHR '':'' # t @ CHR '','' # ?rest"
      by (simp add: Cons kv t)
    have "json_value n' (t @ CHR '','' # ?rest @ CHR ''}'' # r) = Some (v, CHR '','' # ?rest @ CHR ''}'' # r)"
      using p[of n' "CHR '','' # ?rest @ CHR ''}'' # r"] Cons.prems(3) n' unfolding j by simp
    moreover have "json_members n' (?rest @ CHR ''}'' # r) (acc @ [p]) = Some ((acc @ [p]) @ m, r)"
      using Cons.IH[of n' "acc @ [p]"] Cons.prems(2-4) n' Cons unfolding j by simp
    ultimately show ?thesis using acc unfolding j n'
      by (simp add: q separator_start not_space json_string_quoted)
  qed
qed simp

lemma property_order_remdups: "property_order ks = ks \<Longrightarrow> distinct ks \<Longrightarrow> property_order (remdups ks) = ks"
  by (simp add: distinct_remdups_id)

lemma stringify_object:
  assumes "distinct (map fst m)" "property_order (map fst m) = map fst m" "\<And>p. p \<in> set m \<Longrightarrow> reads E (snd p)"
  shows "stringify E (JObj m) = Some (''{'' @ join_with '','' (map (member_text E) m) @ ''}'')"
proof -
  let ?texts = "map (\<lambda>(k, v). (k, stringify E v)) m"
  have look: "map_of ?texts (fst p) = Some (stringify E (snd p))" if "p \<in> set m" for p
    using that assms(1) by (intro map_of_is_SomeI) (auto simp: comp_def case_prod_beta)
  have some: "\<exists>t. stringify E (snd p) = Some t" if "p \<in> set m" for p using reads_text[OF assms(3)[OF that]] by metis
  have "filter (\<lambda>k. case map_of ?texts k of Some (Some t) \<Rightarrow> True | _ \<Rightarrow> False) (map fst m) = map fst m"
    using look some by (intro filter_True) fastforce
  moreover have "map (\<lambda>k. json_quote k @ '':'' @ nullish (nullish (map_of ?texts k) None) []) (map fst m) = map (member_text E) m"
    using look some by (fastforce simp: comp_def)
  ultimately show ?thesis
    by (simp only: stringify.simps Let_def property_order_remdups[OF assms(2,1)])
qed

lemma reads_object:
  assumes "distinct (map fst m)" "property_order (map fst m) = map fst m" "\<And>p. p \<in> set m \<Longrightarrow> reads E (snd p)"
  shows "reads E (JObj m)"
proof -
  let ?t = "join_with '','' (map (member_text E) m)"
  have "json_value n (CHR ''{'' # ?t @ CHR ''}'' # r) = Some (JObj m, r)" if fuel: "n \<ge> 2 * (length ?t + 2) + 1" for n r
  proof -
    obtain n' where "n = Suc n'" using fuel_Suc[OF fuel] by blast
    then have n': "n = Suc n'" "n' \<ge> 2 * length ?t + 2" using fuel by simp_all
    show ?thesis
    proof (cases m)
      case Nil
      then show ?thesis using n' by (simp add: separator_start not_space quote_code)
    next
      case (Cons p ps)
      have "?t \<noteq> [] \<and> hd ?t = quote"
        using join_with_start[of "map (member_text E) m" "'',''"] Cons by (simp add: json_quote_def)
      then obtain u where u: "?t = quote # u" by (cases ?t) auto
      then have "json_members n' (quote # u @ CHR ''}'' # r) [] = Some (m, r)"
        using reads_members[of m E n' "[]" r] assms Cons n'(2) by simp
      then show ?thesis using n' u by (simp add: separator_start not_space Let_def) (simp add: quote_code separator_start is_json_space_def)
    qed
  qed
  moreover have "stringify E (JObj m) = Some (CHR ''{'' # ?t @ ''}'')"
    using stringify_object[OF assms] by (simp only: append.simps)
  ultimately show ?thesis unfolding reads_def
    by (intro exI[of _ "CHR ''{'' # ?t @ ''}''"]) (simp add: is_json_space_def del: stringify.simps)
qed

lemma json_ok_reads: "json_ok E v \<Longrightarrow> reads E v"
proof (induction v)
  case JNull
  show ?case by (rule reads_literal[of _ _ "''null''"]) (simp_all add: quote_code is_json_space_def json_literal_def)
next
  case (JBool b)
  show ?case by (rule reads_literal[of _ _ "if b then ''true'' else ''false''"])
      (simp_all add: quote_code is_json_space_def json_literal_def)
next
  case (JNum n)
  then show ?case by (cases n) (simp_all add: reads_number)
next
  case (JArr xs)
  then show ?case by (intro reads_array) (simp add: list_all_iff)
next
  case (JObj m)
  then show ?case by (intro reads_object) (auto simp: list_all_iff)
qed (simp_all add: reads_string)

text \<open>The text of a value has no character 0: strings escape it.\<close>

lemma set_join_with: "set (join_with s xs) \<subseteq> set s \<union> \<Union> (set ` set xs)"
  by (induction s xs rule: join_with.induct) auto

lemma escape_no_nul: "CHR 0x00 \<notin> set (json_escape c)"
proof -
  have "list_all (\<lambda>d. hex_digit d \<noteq> CHR 0x00) [0..<16] \<and> list_all (\<lambda>(n, l). l \<noteq> CHR 0x00) short_escapes"
    by code_simp
  then have h: "hex_digit d \<noteq> CHR 0x00" if "d < 16" for d using that by (simp add: list_all_iff)
  have s: "map_of short_escapes n \<noteq> Some (CHR 0x00)" for n by (auto simp: short_escapes_def)
  have "n div 16 < 16" if "n < 32" for n :: nat using that by presburger
  then show ?thesis
    using h[of "of_char c mod 16"] h[of "of_char c div 16"] s[of "of_char c"]
    by (cases "(of_char c :: nat) < 32") (auto simp: json_escape_def Let_def quote_code split: option.splits)
qed

lemma element_no_nul: "json_ok E v \<Longrightarrow> CHR 0x00 \<notin> set (the (stringify E v)) \<Longrightarrow> CHR 0x00 \<notin> set (element_text E v)"
proof -
  assume ok: "json_ok E v" and t: "CHR 0x00 \<notin> set (the (stringify E v))"
  obtain u where "stringify E v = Some u" using reads_text[OF json_ok_reads[OF ok]] by metis
  then show ?thesis using t by simp
qed

lemma stringify_no_nul: "json_ok E v \<Longrightarrow> CHR 0x00 \<notin> set (the (stringify E v))"
proof (induction v)
  case (JNum n)
  then show ?case by (cases n) (auto simp: number_ok_def Let_def)
next
  case (JStr x)
  then show ?case using escape_no_nul by (auto simp: json_quote_def quote_code)
next
  case (JArr xs)
  have "CHR 0x00 \<notin> set (element_text E x)" if "x \<in> set xs" for x
    using JArr(1)[OF that] JArr(2) that by (intro element_no_nul) (simp_all add: list_all_iff)
  then show ?case using set_join_with[of "'',''" "map (element_text E) xs"] by auto
next
  case (JObj m)
  have ok: "json_ok E (snd p)" if "p \<in> set m" for p using JObj(2) that by (simp add: list_all_iff)
  have "CHR 0x00 \<notin> set (member_text E p)" if "p \<in> set m" for p
  proof -
    have "CHR 0x00 \<notin> set (element_text E (snd p))"
      using JObj(1)[OF that _ ok[OF that]] ok[OF that] by (intro element_no_nul) (auto simp: snds.simps)
    then show ?thesis using escape_no_nul by (auto simp: json_quote_def quote_code)
  qed
  then have "CHR 0x00 \<notin> set (join_with '','' (map (member_text E) m))"
    using set_join_with[of "'',''" "map (member_text E) m"] by (auto split: if_splits)
  moreover have "stringify E (JObj m) = Some (''{'' @ join_with '','' (map (member_text E) m) @ ''}'')"
    using JObj(2) ok by (intro stringify_object json_ok_reads) auto
  ultimately show ?case by (simp del: stringify.simps)
qed simp_all

text \<open>
  \<open>JSON.parse(JSON.stringify(v))\<close> is \<open>v\<close> for every value JSON can carry: strings with quotation marks and
  control characters, nested arrays and objects, and the numbers whose text is read back.
\<close>

theorem json_roundtrip:
  assumes "json_ok E v"
  shows "JSON_parse (JSON_stringify E v) = Some v"
proof -
  obtain t where t: "stringify E v = Some t" and p: "\<And>n r. n \<ge> 2 * length t + 1 \<Longrightarrow> delimited r \<Longrightarrow> json_value n (t @ r) = Some (v, r)"
    using reads_text[OF json_ok_reads[OF assms]] by metis
  show ?thesis using p[of "2 * length t + 2" "[]"] by (simp add: JSON_parse_def JSON_stringify_def t)
qed

definition nested0 :: jsval where
  "nested0 = JObj [(''a'', JArr [JBool True, JNull, JNum (Fin 42)]), (''b'', JStr [quote, CHR 0x0A, CHR ''x'']), (''c'', JObj [])]"

theorem json_roundtrip_witness:
  "JSON_parse (JSON_stringify (env0\<lparr>num_to_string := \<lambda>n. ''42''\<rparr>) nested0) = Some nested0"
proof -
  have "string_of_nat 42 = ''42''" by (simp add: string_of_nat.simps)
  then have "number_ok (env0\<lparr>num_to_string := \<lambda>n. ''42''\<rparr>) 42" using number_ok_nat[of "env0\<lparr>num_to_string := \<lambda>n. ''42''\<rparr>" 42] by simp
  then show ?thesis
    by (intro json_roundtrip) (simp add: nested0_def property_order_def is_index_def digits_def is_digit_def)
qed

end
