(* ===== verification/Key.thy ===== *)
theory Key
  imports Bytes Json
begin

section \<open>Key pairs in the browser (\<open>dmpCrypto/dmp.key.ts\<close>)\<close>

text \<open>
  The key pairs of users, sealed with a password: the pair as JSON, encrypted with AES-GCM under the hash of a salt and
  the password. The cryptographic library of the browser (\<open>crypto.subtle\<close>) is the record \<open>subtle\<close> over the type of
  its key objects; its promises are \<open>None\<close> where they are rejected. The random bytes an operation draws are arguments.
\<close>

datatype key_algorithm = ECDSA_P256 | RSA_PSS_SHA256 | RSASSA_PKCS1_SHA256

record 'k subtle =
  digest :: "bytes8 \<Rightarrow> bytes8"
  import_aes :: "bytes8 \<Rightarrow> 'k option"
  aes_encrypt :: "'k \<Rightarrow> bytes8 \<Rightarrow> bytes8 \<Rightarrow> bytes8"
  aes_decrypt :: "'k \<Rightarrow> bytes8 \<Rightarrow> bytes8 \<Rightarrow> bytes8 option"
  export_jwk :: "'k \<Rightarrow> jobject option"
  export_raw :: "'k \<Rightarrow> bytes8 option"
  export_spki :: "'k \<Rightarrow> bytes8 option"
  export_pkcs8 :: "'k \<Rightarrow> bytes8 option"
  import_jwk :: "key_algorithm \<Rightarrow> string list \<Rightarrow> jsval \<Rightarrow> 'k option"
  import_raw :: "key_algorithm \<Rightarrow> string list \<Rightarrow> bytes8 \<Rightarrow> 'k option"
  import_spki :: "key_algorithm \<Rightarrow> string list \<Rightarrow> bytes8 \<Rightarrow> 'k option"
  import_pkcs8 :: "key_algorithm \<Rightarrow> string list \<Rightarrow> bytes8 \<Rightarrow> 'k option"
  rsa_sign :: "'k \<Rightarrow> bytes8 \<Rightarrow> bytes8 \<Rightarrow> bytes8 option"
  rsa_verify :: "'k \<Rightarrow> bytes8 \<Rightarrow> bytes8 \<Rightarrow> bool option"

datatype key_error = Key_Error ErrorCodes | DOMException | Syntax_Error | Type_Error

text \<open>An option of the library as a result.\<close>

definition settled :: "'a option \<Rightarrow> key_error + 'a" where
  "settled x = (case x of None \<Rightarrow> Inl DOMException | Some a \<Rightarrow> Inr a)"

record ClearKeyPair =
  clear_version :: int
  publicKey :: jobject
  privateKey :: jobject

record EncryptedKeyPairV2 =
  sealed_version :: jsval
  sealed_iv :: string
  sealed_salt :: string
  sealed_data :: string

text \<open>What a caller hands in: any of the versions, as the object it is at run time.\<close>

record EncryptedKeyPair =
  in_version :: jsval
  in_iv :: string
  in_salt :: string
  in_data :: "string option"
  encryptedKeys :: "string option"
  encryptedKeyPair :: "string option"

record 'k key =
  cryptoKeyPair :: "'k \<times> 'k"
  exportableKey :: "ClearKeyPair option"
  exportableEncryptedKey :: "EncryptedKeyPairV2 option"
  rawPublicKey :: "bytes8 option"

definition new_key :: "'k \<times> 'k \<Rightarrow> EncryptedKeyPairV2 option \<Rightarrow> 'k key" where
  "new_key pair e = \<lparr>cryptoKeyPair = pair, exportableKey = None, exportableEncryptedKey = e, rawPublicKey = None\<rparr>"

definition CURRENT_KEY_VERSION :: int where
  "CURRENT_KEY_VERSION = 2"

text \<open>Texts as their code units and back; a text with a unit above 255 is not a string of the model.\<close>

definition units_of :: "string \<Rightarrow> units" where
  "units_of x = map of_char x"

definition text_of :: "units \<Rightarrow> string option" where
  "text_of us = (if list_all (\<lambda>u. u < 256) us then Some (map char_of us) else None)"

subsection \<open>Export\<close>

definition exportKey :: "'k subtle \<Rightarrow> 'k key \<Rightarrow> (key_error + ClearKeyPair) \<times> 'k key" where
  "exportKey S k =
     (case exportableKey k of
        Some c \<Rightarrow> (Inr c, k)
      | None \<Rightarrow>
          (case export_jwk S (fst (cryptoKeyPair k)) of
             None \<Rightarrow> (Inl DOMException, k)
           | Some pub \<Rightarrow>
               (case export_jwk S (snd (cryptoKeyPair k)) of
                  None \<Rightarrow> (Inl DOMException, k)
                | Some priv \<Rightarrow>
                    (let c = \<lparr>clear_version = CURRENT_KEY_VERSION, publicKey = pub, privateKey = priv\<rparr>
                     in (Inr c, k\<lparr>exportableKey := Some c\<rparr>)))))"

definition exportEncryptedKey :: "'k key \<Rightarrow> key_error + EncryptedKeyPairV2" where
  "exportEncryptedKey k = (case exportableEncryptedKey k of None \<Rightarrow> Inl (Key_Error EKEYNOTSL) | Some e \<Rightarrow> Inr e)"

definition getRawPublicKey :: "'k subtle \<Rightarrow> 'k key \<Rightarrow> (key_error + bytes8) \<times> 'k key" where
  "getRawPublicKey S k =
     (case rawPublicKey k of
        Some b \<Rightarrow> (Inr b, k)
      | None \<Rightarrow>
          (case export_raw S (fst (cryptoKeyPair k)) of
             None \<Rightarrow> (Inl DOMException, k)
           | Some b \<Rightarrow> (Inr (drop 1 b), k\<lparr>rawPublicKey := Some (drop 1 b)\<rparr>)))"

definition getRawPublicKeyHex :: "'k subtle \<Rightarrow> 'k key \<Rightarrow> string \<Rightarrow> (key_error + string) \<times> 'k key" where
  "getRawPublicKeyHex S k delimiter =
     (case getRawPublicKey S k of (Inl e, k1) \<Rightarrow> (Inl e, k1) | (Inr b, k1) \<Rightarrow> (Inr (toHex b delimiter), k1))"

subsection \<open>Sealing\<close>

text \<open>The key for a password: the hash of the salt and the encoded password.\<close>

definition password_key :: "'k subtle \<Rightarrow> bytes8 \<Rightarrow> units \<Rightarrow> 'k option" where
  "password_key S saltBytes pwd = import_aes S (digest S (concatBytes saltBytes (encode pwd)))"

definition clear_json :: "env \<Rightarrow> ClearKeyPair \<Rightarrow> string" where
  "clear_json E c = JSON_stringify E (JObj [(''publicKey'', JObj (publicKey c)), (''privateKey'', JObj (privateKey c))])"

definition encrypted_texts :: "bytes8 \<Rightarrow> bytes8 \<Rightarrow> bytes8 \<Rightarrow> key_error + EncryptedKeyPairV2" where
  "encrypted_texts ivBytes saltBytes encrypted =
     (case (toBase64 ivBytes False, toBase64 saltBytes False, toBase64 encrypted False) of
        (Some i, Some s, Some d) \<Rightarrow> Inr \<lparr>sealed_version = JNum (Fin (of_int CURRENT_KEY_VERSION)), sealed_iv = i, sealed_salt = s, sealed_data = d\<rparr>
      | _ \<Rightarrow> Inl DOMException)"

definition seal :: "env \<Rightarrow> 'k subtle \<Rightarrow> bytes8 \<Rightarrow> bytes8 \<Rightarrow> units \<Rightarrow> 'k key \<Rightarrow> (key_error + unit) \<times> 'k key" where
  "seal E S saltBytes ivBytes pwd k =
     (case password_key S saltBytes pwd of
        None \<Rightarrow> (Inl DOMException, k)
      | Some aesKey \<Rightarrow>
          (case exportKey S k of
             (Inl e, k1) \<Rightarrow> (Inl e, k1)
           | (Inr keyPair, k1) \<Rightarrow>
               (case encrypted_texts ivBytes saltBytes
                       (aes_encrypt S aesKey ivBytes (encode (units_of (clear_json E keyPair)))) of
                  Inl e \<Rightarrow> (Inl e, k1)
                | Inr e \<Rightarrow> (Inr (), k1\<lparr>exportableEncryptedKey := Some e\<rparr>))))"

subsection \<open>Import\<close>

definition importKey :: "'k subtle \<Rightarrow> jsval \<Rightarrow> jsval \<Rightarrow> key_error + 'k \<times> 'k" where
  "importKey S pub priv =
     (case (import_jwk S ECDSA_P256 [''verify''] pub, import_jwk S ECDSA_P256 [''sign''] priv) of
        (Some a, Some b) \<Rightarrow> Inr (a, b)
      | _ \<Rightarrow> Inl DOMException)"

text \<open>\<open>decryptV2\<close>: a wrong password is told apart from malformed data.\<close>

definition decryptV2 :: "'k subtle \<Rightarrow> units \<Rightarrow> string \<Rightarrow> string \<Rightarrow> string \<Rightarrow> key_error + bytes8" where
  "decryptV2 S pwd ivText saltText dataText =
     (case (fromBase64 ivText False, fromBase64 saltText False, fromBase64 dataText False) of
        (Some i, Some s, Some encrypted) \<Rightarrow>
          (case password_key S s pwd of
             None \<Rightarrow> Inl DOMException
           | Some aesKey \<Rightarrow>
               (case aes_decrypt S aesKey i encrypted of
                  None \<Rightarrow> Inl (Key_Error EINPASSWD)
                | Some decrypted \<Rightarrow> Inr decrypted))
      | _ \<Rightarrow> Inl DOMException)"

text \<open>\<open>JSON.parse(Utils.decode(decrypted))\<close> and the two properties that are read of it.\<close>

definition parse_pair :: "bytes8 \<Rightarrow> key_error + jsval \<times> jsval" where
  "parse_pair decrypted =
     (case decode decrypted of
        None \<Rightarrow> Inl Type_Error
      | Some us \<Rightarrow>
          (case Option.bind (text_of us) JSON_parse of
             None \<Rightarrow> Inl Syntax_Error
           | Some obj \<Rightarrow>
               (case (js_prop obj ''publicKey'', js_prop obj ''privateKey'') of
                  (Inr a, Inr b) \<Rightarrow> Inr (a, b)
                | _ \<Rightarrow> Inl Type_Error)))"

definition version_of :: "env \<Rightarrow> EncryptedKeyPair \<Rightarrow> jnum" where
  "version_of E e =
     parseInt (case in_version e of JUndef \<Rightarrow> ''0'' | JNull \<Rightarrow> ''0'' | v \<Rightarrow> js_String E v)"

text \<open>
  The object that is imported becomes the sealed form of the key, as it is, with the version it came with. (The text
  \<open>undefined\<close> that stands for missing data is no base64, so an object without data does not get that far.)
\<close>

definition given_texts :: "EncryptedKeyPair \<Rightarrow> EncryptedKeyPairV2" where
  "given_texts e = \<lparr>sealed_version = in_version e, sealed_iv = in_iv e, sealed_salt = in_salt e,
     sealed_data = nullish (in_data e) ''undefined''\<rparr>"

definition importEncryptedKeyPair ::
    "env \<Rightarrow> 'k subtle \<Rightarrow> bytes8 \<Rightarrow> bytes8 \<Rightarrow> EncryptedKeyPair \<Rightarrow> units \<Rightarrow> key_error + 'k key" where
  "importEncryptedKeyPair E S newSalt newIv e pwd =
     (let v = version_of E e in
      if v = Fin 0 \<or> v = Fin 1 then
        (case decryptV2 S pwd (in_iv e) (in_salt e) (nullish (encryptedKeys e) (nullish (encryptedKeyPair e) [])) of
           Inl x \<Rightarrow> Inl x
         | Inr decrypted \<Rightarrow>
             (case (import_raw S ECDSA_P256 [''verify''] (take 65 decrypted),
                    import_pkcs8 S ECDSA_P256 [''sign''] (drop 65 decrypted)) of
                (Some a, Some b) \<Rightarrow>
                  (case seal E S newSalt newIv pwd (new_key (a, b) None) of
                     (Inl x, _) \<Rightarrow> Inl x
                   | (Inr _, k) \<Rightarrow> Inr k)
              | _ \<Rightarrow> Inl DOMException))
      else if v = Fin 2 then
        (case decryptV2 S pwd (in_iv e) (in_salt e) (nullish (in_data e) ''undefined'') of
           Inl x \<Rightarrow> Inl x
         | Inr decrypted \<Rightarrow>
             (case parse_pair decrypted of
                Inl x \<Rightarrow> Inl x
              | Inr (a, b) \<Rightarrow>
                  (case importKey S a b of Inl x \<Rightarrow> Inl x | Inr pair \<Rightarrow> Inr (new_key pair (Some (given_texts e))))))
      else Inl (Key_Error EINVKFORM))"

subsection \<open>RSA keys\<close>

definition exportRSAPublicKey :: "'k subtle \<Rightarrow> 'k \<Rightarrow> key_error + string" where
  "exportRSAPublicKey S pub =
     settled (Option.bind (export_spki S pub) (\<lambda>b. convertBinaryToPem b ''PUBLIC KEY''))"

definition exportRSAKey :: "'k subtle \<Rightarrow> 'k \<times> 'k \<Rightarrow> key_error + string \<times> string" where
  "exportRSAKey S pair =
     (case (export_spki S (fst pair), export_pkcs8 S (snd pair)) of
        (Some pub, Some priv) \<Rightarrow>
          (case (convertBinaryToPem priv ''PRIVATE KEY'', convertBinaryToPem pub ''PUBLIC KEY'') of
             (Some x, Some y) \<Rightarrow> Inr (x, y)
           | _ \<Rightarrow> Inl DOMException)
      | _ \<Rightarrow> Inl DOMException)"

definition importRSAPublicKey :: "'k subtle \<Rightarrow> string \<Rightarrow> key_error + 'k" where
  "importRSAPublicKey S pem =
     settled (Option.bind (convertPemPublicKeyToArrayBuffer pem) (import_spki S RSA_PSS_SHA256 [''verify'']))"

definition importRSAPrivateKey :: "'k subtle \<Rightarrow> string \<Rightarrow> key_error + 'k" where
  "importRSAPrivateKey S pem =
     settled (Option.bind (convertPemPrivateKeyToArrayBuffer pem) (import_pkcs8 S RSA_PSS_SHA256 [''sign'']))"

text \<open>The signature is over the hash of the message; the second argument is the random salt of the scheme.\<close>

definition signwtRSAKey :: "'k subtle \<Rightarrow> bytes8 \<Rightarrow> string \<Rightarrow> 'k \<Rightarrow> key_error + string" where
  "signwtRSAKey S random message priv =
     settled (Option.bind (rsa_sign S priv random (digest S (toSupportedArray (units_of message)))) arrayBufferToBase64String)"

definition verifyRSA :: "'k subtle \<Rightarrow> string \<Rightarrow> string \<Rightarrow> string \<Rightarrow> key_error + bool" where
  "verifyRSA S pem signature message =
     (case importRSAPublicKey S pem of
        Inl e \<Rightarrow> Inl e
      | Inr pub \<Rightarrow>
          (case base64StringToArrayBuffer signature of
             None \<Rightarrow> Inl DOMException
           | Some sig \<Rightarrow>
               settled (rsa_verify S pub sig
                 (if message = [] then digest S (toSupportedArray (units_of pem))
                  else toSupportedArray (units_of message)))))"

text \<open>The private part of an RSA key is taken out of its JWK, which keeps the algorithm it was made for.\<close>

definition public_jwk :: "jobject \<Rightarrow> jobject" where
  "public_jwk jwk =
     js_set (foldl js_delete jwk [''d'', ''dp'', ''dq'', ''q'', ''qi'']) ''key_ops'' (JArr [JStr ''verify''])"

definition extractPublicKey :: "'k subtle \<Rightarrow> string \<Rightarrow> key_error + 'k" where
  "extractPublicKey S privateKeyPem =
     (case importRSAPrivateKey S privateKeyPem of
        Inl e \<Rightarrow> Inl e
      | Inr priv \<Rightarrow>
          settled (Option.bind (export_jwk S priv) (\<lambda>jwk. import_jwk S RSASSA_PKCS1_SHA256 [''verify''] (JObj (public_jwk jwk)))))"

end
