(* ===== verification/KeyProps.thy ===== *)
theory KeyProps
  imports Key BytesProps JsonProps
begin

section \<open>Sealed keys\<close>

text \<open>A sealed key pair opens with its password; what signatures cover.\<close>

subsection \<open>Texts\<close>

lemma units_of_units: "is_units (units_of x)" "list_all (\<lambda>u. u < 256) (units_of x)"
proof -
  have "(of_char c :: nat) < 256" for c by simp
  then show "list_all (\<lambda>u. u < 256) (units_of x)" by (simp add: units_of_def list_all_iff)
  then show "is_units (units_of x)" by (auto simp: is_units_def list_all_iff)
qed

lemma text_of_units: "text_of (units_of x) = Some x"
  using units_of_units(2)[of x] by (simp add: text_of_def units_of_def comp_def)

lemma nul_char: "(of_char c :: nat) = 0 \<Longrightarrow> c = CHR 0x00"
proof -
  assume "(of_char c :: nat) = 0"
  then have "c = char_of (0 :: nat)" by (metis char_of_char)
  then show ?thesis by (simp add: char_of_def)
qed

lemma uint8_less: "uint8 n < 256"
  by (simp add: uint8_def)

lemma is_bytes_encode: "is_bytes (encode us)"
proof (induction us rule: encode.induct)
  case (2 u us)
  have c: "is_bytes (continuation n k)" for n k
    by (induction n k rule: continuation.induct) (simp_all add: is_bytes_def uint8_less)
  have "is_bytes (encode_point n)" for n
    using c by (simp add: encode_point_def is_bytes_def uint8_less)
  moreover have "is_bytes (xs @ ys) \<longleftrightarrow> is_bytes xs \<and> is_bytes ys" for xs ys by (simp add: is_bytes_def)
  ultimately show ?case using 2 by (auto simp: encode.simps(2) Let_def is_bytes_def)
qed (simp add: is_bytes_def)

subsection \<open>Opening a sealed key\<close>

text \<open>
  What the code relies on of the library: encryption yields bytes, which the same key and nonce decrypt; and the
  pair can be written as two JWKs and read back.
\<close>

definition aes_ok :: "'k subtle \<Rightarrow> bool" where
  "aes_ok S \<longleftrightarrow> (\<forall>k i d. is_bytes d \<longrightarrow> is_bytes (aes_encrypt S k i d) \<and> aes_decrypt S k i (aes_encrypt S k i d) = Some d)"

definition portable :: "env \<Rightarrow> 'k subtle \<Rightarrow> 'k \<times> 'k \<Rightarrow> bool" where
  "portable E S pair \<longleftrightarrow>
     (case (export_jwk S (fst pair), export_jwk S (snd pair)) of
        (Some p, Some q) \<Rightarrow>
          json_ok E (JObj p) \<and> json_ok E (JObj q) \<and>
          import_jwk S ECDSA_P256 [''verify''] (JObj p) = Some (fst pair) \<and>
          import_jwk S ECDSA_P256 [''sign''] (JObj q) = Some (snd pair)
      | _ \<Rightarrow> False)"

text \<open>The sealed form as an input, as the interface sends it.\<close>

definition as_input :: "EncryptedKeyPairV2 \<Rightarrow> EncryptedKeyPair" where
  "as_input e = \<lparr>in_version = sealed_version e, in_iv = sealed_iv e, in_salt = sealed_salt e,
     in_data = Some (sealed_data e), encryptedKeys = None, encryptedKeyPair = None\<rparr>"

lemma clear_json_read:
  assumes "json_ok E (JObj (publicKey c))" "json_ok E (JObj (privateKey c))"
  shows "parse_pair (encode (units_of (clear_json E c))) = Inr (JObj (publicKey c), JObj (privateKey c))"
proof -
  let ?v = "JObj [(''publicKey'', JObj (publicKey c)), (''privateKey'', JObj (privateKey c))]"
  have ok: "json_ok E ?v" using assms by (simp add: property_order_def is_index_def digits_def is_digit_def)
  obtain t where t: "stringify E ?v = Some t" using reads_text[OF json_ok_reads[OF ok]] by metis
  then have j: "clear_json E c = t" by (simp add: clear_json_def JSON_stringify_def del: stringify.simps)
  have "CHR 0x00 \<notin> set t" using stringify_no_nul[OF ok] t by (simp del: stringify.simps)
  then have "\<forall>u \<in> set (units_of t). u \<noteq> 0" by (auto simp: units_of_def intro: gr0I dest: nul_char)
  then have "takeWhile (\<lambda>u. u \<noteq> 0) (units_of t) = units_of t" by (simp add: takeWhile_eq_all_conv)
  then have "decode (encode (units_of t)) = Some (units_of t)" using decode_encode[OF units_of_units(1)] by simp
  moreover have "JSON_parse t = Some ?v"
    using json_roundtrip[OF ok] t by (simp add: JSON_stringify_def del: stringify.simps)
  ultimately show ?thesis unfolding j by (simp add: parse_pair_def text_of_units js_get_def)
qed

lemma base64_back: "is_bytes b \<Longrightarrow> \<exists>x. toBase64 b False = Some x \<and> fromBase64 x False = Some b"
  by (rule base64_roundtrip)

lemma sealed_opens:
  assumes aes: "aes_ok S" and p: "portable E S pair" and k: "password_key S saltBytes pwd = Some a"
    and b: "is_bytes saltBytes" "is_bytes ivBytes" and two: "num_to_string E (Fin 2) = ''2''"
  shows "\<exists>k e. seal E S saltBytes ivBytes pwd (new_key pair None) = (Inr (), k) \<and> exportEncryptedKey k = Inr e \<and>
    cryptoKeyPair k = pair \<and> importEncryptedKeyPair E S s i (as_input e) pwd = Inr (new_key pair (Some e))"
proof -
  obtain x y where jwk: "export_jwk S (fst pair) = Some x" "export_jwk S (snd pair) = Some y"
    and ok: "json_ok E (JObj x)" "json_ok E (JObj y)"
    and imp: "import_jwk S ECDSA_P256 [''verify''] (JObj x) = Some (fst pair)"
      "import_jwk S ECDSA_P256 [''sign''] (JObj y) = Some (snd pair)"
    using p by (auto simp: portable_def split: option.splits)
  let ?c = "\<lparr>clear_version = CURRENT_KEY_VERSION, publicKey = x, privateKey = y\<rparr>"
  let ?clear = "encode (units_of (clear_json E ?c))"
  let ?enc = "aes_encrypt S a ivBytes ?clear"
  have enc: "is_bytes ?enc" "aes_decrypt S a ivBytes ?enc = Some ?clear" using aes is_bytes_encode by (simp_all add: aes_ok_def)
  obtain iT sT dT where b64: "toBase64 ivBytes False = Some iT" "fromBase64 iT False = Some ivBytes"
    "toBase64 saltBytes False = Some sT" "fromBase64 sT False = Some saltBytes"
    "toBase64 ?enc False = Some dT" "fromBase64 dT False = Some ?enc"
    using base64_back[OF b(1)] base64_back[OF b(2)] base64_back[OF enc(1)] by blast
  let ?e = "\<lparr>sealed_version = JNum (Fin (of_int CURRENT_KEY_VERSION)), sealed_iv = iT, sealed_salt = sT, sealed_data = dT\<rparr>"
  let ?k = "(new_key pair None)\<lparr>exportableKey := Some ?c, exportableEncryptedKey := Some ?e\<rparr>"
  have "seal E S saltBytes ivBytes pwd (new_key pair None) = (Inr (), ?k)"
    by (simp add: seal_def k exportKey_def new_key_def jwk encrypted_texts_def b64 Let_def)
  moreover have "parseInt ''2'' = Fin 2" by (simp add: parseInt_def digit_value_def nat_of_digits_def with_sign_def is_js_space_def)
  then have "version_of E (as_input ?e) = Fin 2"
    by (simp add: version_of_def as_input_def CURRENT_KEY_VERSION_def two)
  moreover have "decryptV2 S pwd iT sT dT = Inr ?clear" by (simp add: decryptV2_def b64 k enc)
  moreover have "parse_pair ?clear = Inr (JObj x, JObj y)" using clear_json_read[of E ?c] ok by simp
  moreover have "importKey S (JObj x) (JObj y) = Inr pair" by (simp add: importKey_def imp)
  moreover have "given_texts (as_input ?e) = ?e" by (simp add: given_texts_def as_input_def)
  ultimately show ?thesis
    by (intro exI[of _ ?k] exI[of _ ?e])
      (simp add: exportEncryptedKey_def importEncryptedKeyPair_def as_input_def new_key_def)
qed

text \<open>
  C35. A sealed key opens with its password: sealing succeeds, the sealed form is exported, and importing it with the same
  password yields the key pair it was made from, with the same sealed form; the JSON of the two JWKs passes through the
  printer, the encoder, the cipher and base 64 and back.
\<close>

theorem sealed_key_opens:
  assumes "aes_ok S" "portable E S pair" "password_key S saltBytes pwd = Some a"
    and "is_bytes saltBytes" "is_bytes ivBytes" "num_to_string E (Fin 2) = ''2''"
  shows "\<exists>k e. seal E S saltBytes ivBytes pwd (new_key pair None) = (Inr (), k) \<and> exportEncryptedKey k = Inr e \<and>
    cryptoKeyPair k = pair \<and> importEncryptedKeyPair E S newSalt newIv (as_input e) pwd = Inr (new_key pair (Some e))"
  by (rule sealed_opens[OF assms])

text \<open>Where the cipher refuses the key of another password, the user is told so.\<close>

lemma wrong_password:
  assumes "version_of E e = Fin 2" "fromBase64 (in_iv e) False = Some i" "fromBase64 (in_salt e) False = Some s"
    and "fromBase64 (nullish (in_data e) ''undefined'') False = Some d"
    and "password_key S s pwd = Some a" "aes_decrypt S a i d = None"
  shows "importEncryptedKeyPair E S newSalt newIv e pwd = Inl (Key_Error EINPASSWD)"
  using assms by (simp add: importEncryptedKeyPair_def decryptV2_def)

text \<open>What follows the first character 0 of a password is not looked at: the encoder stops there.\<close>

lemma encode_stops: "is_units us \<Longrightarrow> encode (us @ 0 # x) = encode us"
proof (induction us rule: encode.induct)
  case 1
  have "codePointAt (0 # x) = 0" by (cases x) simp_all
  then show ?case by (simp add: encode.simps(2))
next
  case (2 u us)
  have c: "codePointAt (u # us @ 0 # x) = codePointAt (u # us)" by (cases us) simp_all
  let ?c = "codePointAt (u # us)"
  show ?case
  proof (cases "?c = 0 \<or> \<not> ?c \<ge> 0x10000")
    case True
    then show ?thesis using 2 c by (auto simp: encode.simps(2) Let_def is_units_def)
  next
    case False
    then obtain v vs where v: "us = v # vs" using 2(2) by (cases us) (auto simp: is_units_def)
    then show ?thesis using 2 c False by (simp add: encode.simps(2) Let_def is_units_def)
  qed
qed

theorem password_cut_at_nul:
  assumes "is_units pwd"
  shows "importEncryptedKeyPair E S newSalt newIv e (pwd @ 0 # x) = importEncryptedKeyPair E S newSalt newIv e pwd"
proof -
  have p: "password_key S b (pwd @ 0 # x) = password_key S b pwd" for b
    by (simp add: password_key_def encode_stops[OF assms])
  have d: "decryptV2 S (pwd @ 0 # x) i s t = decryptV2 S pwd i s t" for i s t by (simp only: decryptV2_def p)
  have s: "seal E S b i (pwd @ 0 # x) k = seal E S b i pwd k" for b i k by (simp only: seal_def p)
  show ?thesis by (simp only: importEncryptedKeyPair_def d s)
qed

subsection \<open>Signatures\<close>

text \<open>A signature verifies for the bytes it was made for and no others (of the same length of hash).\<close>

definition rsa_ok :: "'k subtle \<Rightarrow> 'k \<Rightarrow> 'k \<Rightarrow> bool" where
  "rsa_ok S pub priv \<longleftrightarrow>
     (\<forall>r m s m'. rsa_sign S priv r m = Some s \<longrightarrow> is_bytes s \<and> rsa_verify S pub s m' = Some (m' = m))"

text \<open>
  C36. A signature made by \<open>signwtRSAKey\<close> covers the hash of the message, but \<open>verifyRSA\<close> hashes only the default
  message, the key itself: the signature of any other message is rejected when it is verified with that message,
  unless the message is its own hash.
\<close>

theorem signed_message_rejected:
  assumes "rsa_ok S pub priv" "importRSAPublicKey S pem = Inr pub" "signwtRSAKey S r message priv = Inr signature"
  shows "verifyRSA S pem signature [] = Inr (digest S (toSupportedArray (units_of pem)) = digest S (toSupportedArray (units_of message))) \<and>
    (m \<noteq> [] \<longrightarrow> verifyRSA S pem signature m = Inr (toSupportedArray (units_of m) = digest S (toSupportedArray (units_of message))))"
proof -
  obtain s where s: "rsa_sign S priv r (digest S (toSupportedArray (units_of message))) = Some s"
    "arrayBufferToBase64String s = Some signature"
    using assms(3) by (auto simp: signwtRSAKey_def settled_def split: option.splits Option.bind_splits)
  have ok: "is_bytes s" "\<And>m'. rsa_verify S pub s m' = Some (m' = digest S (toSupportedArray (units_of message)))"
    using assms(1) s(1) by (auto simp: rsa_ok_def)
  have "base64StringToArrayBuffer signature = Some s"
    using base64_roundtrip[OF ok(1), of False] s(2)
    by (simp add: toBase64_def fromBase64_def arrayBufferToBase64String_def base64StringToArrayBuffer_def)
  then show ?thesis by (simp add: verifyRSA_def assms(2) ok(2) settled_def)
qed

subsection \<open>Instances\<close>

text \<open>A library for which all of this holds: the key is its own password, and the hash puts a byte in front.\<close>

definition bytes_of :: "string \<Rightarrow> bytes8" where
  "bytes_of x = map of_char x"

definition subtle0 :: "string subtle" where
  "subtle0 = \<lparr>digest = (\<lambda>b. 0 # b), import_aes = (\<lambda>b. Some (map char_of b)),
     aes_encrypt = (\<lambda>k i d. bytes_of k @ d),
     aes_decrypt = (\<lambda>k i d. if take (length k) d = bytes_of k then Some (drop (length k) d) else None),
     export_jwk = (\<lambda>k. Some [(''k'', JStr k)]), export_raw = (\<lambda>k. Some (bytes_of k)),
     export_spki = (\<lambda>k. Some (bytes_of k)), export_pkcs8 = (\<lambda>k. Some (bytes_of k)),
     import_jwk = (\<lambda>a u v. case v of JObj [(_, JStr k)] \<Rightarrow> Some k | _ \<Rightarrow> None),
     import_raw = (\<lambda>a u b. Some (map char_of b)), import_spki = (\<lambda>a u b. Some (map char_of b)),
     import_pkcs8 = (\<lambda>a u b. Some (map char_of b)),
     rsa_sign = (\<lambda>k r m. if is_bytes m then Some m else None), rsa_verify = (\<lambda>k s m. Some (m = s))\<rparr>"

lemma bytes_of_bytes: "is_bytes (bytes_of x)"
  using units_of_units(2)[of x] by (simp add: bytes_of_def units_of_def is_bytes_def)

lemma aes_ok0: "aes_ok subtle0"
  using bytes_of_bytes by (auto simp: aes_ok_def subtle0_def bytes_of_def is_bytes_def)

definition env2 :: env where
  "env2 = env0\<lparr>num_to_string := \<lambda>n. ''2''\<rparr>"

theorem sealed_key_opens_witness:
  "\<exists>k e. seal env2 subtle0 [1, 2] [3] [0x70, 0x77] (new_key (''pub'', ''priv'') None) = (Inr (), k) \<and> exportEncryptedKey k = Inr e \<and>
     importEncryptedKeyPair env2 subtle0 [] [] (as_input e) [0x70, 0x77] = Inr (new_key (''pub'', ''priv'') (Some e))"
proof -
  have "portable env2 subtle0 (''pub'', ''priv'')"
    by (simp add: portable_def subtle0_def property_order_def is_index_def digits_def is_digit_def)
  moreover have "\<exists>a. password_key subtle0 [1, 2] [0x70, 0x77] = Some a" by (simp add: password_key_def subtle0_def)
  moreover have "is_bytes [1, 2]" "is_bytes [3]" "num_to_string env2 (Fin 2) = ''2''" by (simp_all add: is_bytes_def env2_def)
  ultimately show ?thesis
    using sealed_key_opens[OF aes_ok0, of env2 "(''pub'', ''priv'')" "[1, 2]" "[0x70, 0x77]" _ "[3]" "[]" "[]"] by blast
qed

theorem signed_message_rejected_witness:
  "\<exists>pem signature. signwtRSAKey subtle0 [] ''m'' ''A'' = Inr signature \<and> verifyRSA subtle0 pem signature ''m'' = Inr False"
proof -
  have "is_bytes [65]" by (simp add: is_bytes_def)
  then obtain pem where pem: "convertPemPublicKeyToArrayBuffer pem = Some [65]"
    using pem_roundtrip[of "[65]"] by blast
  have "char_of (65 :: nat) = CHR ''A''" by code_simp
  with pem have p: "importRSAPublicKey subtle0 pem = Inr ''A''"
    by (simp add: importRSAPublicKey_def settled_def subtle0_def)
  have r: "rsa_ok subtle0 ''A'' ''A''" by (auto simp: rsa_ok_def subtle0_def split: if_splits)
  have "is_bytes (digest subtle0 (toSupportedArray (units_of ''m'')))"
    by (simp add: subtle0_def is_bytes_def toSupportedArray_def uint8_def list_all_iff)
  then obtain s where s: "signwtRSAKey subtle0 [] ''m'' ''A'' = Inr s"
    by (auto simp: signwtRSAKey_def subtle0_def settled_def arrayBufferToBase64String_def btoa_def is_bytes_def)
  from signed_message_rejected[OF r p s, of "''m''"] s show ?thesis
    by (auto simp: subtle0_def toSupportedArray_def units_of_def)
qed

end
