(* ===== verification/RankTest.thy ===== *)
theory RankTest
  imports JsOps
begin

section \<open>The rank test of the dashboards (\<open>utils/tools.ts\<close>)\<close>

text \<open>
  The statistic of the test of Mann and Whitney on two samples: both are ranked together, equal values share the
  mean of their ranks. The values are finite numbers. What \<open>mannwhitneyu\<close> computes of the statistic (a square root
  and an approximation of the error function) is left out.
\<close>

datatype sample_set = Set_X | Set_Y

record ranked =
  rset :: sample_set
  rval :: rat
  rrank :: rat

subsection \<open>Ranks\<close>

text \<open>\<open>rank.standard\<close>: sorted, and numbered from 1. The sort of the language is stable.\<close>

definition standard :: "(sample_set \<times> rat) list \<Rightarrow> ranked list" where
  "standard array =
     map (\<lambda>(i, s, v). \<lparr>rset = s, rval = v, rrank = of_nat (i + 1)\<rparr>) (enumerate 0 (sort_key snd array))"

text \<open>The inner loop of \<open>rank.fractional\<close>, with the addition after it.\<close>

function tie_run :: "ranked list \<Rightarrow> nat \<Rightarrow> nat \<Rightarrow> rat \<Rightarrow> nat \<times> rat" where
  "tie_run a pos i sm =
     (if pos + i + 1 < length a \<and> rval (a ! (pos + i)) = rval (a ! (pos + i + 1))
      then tie_run a pos (i + 1) (sm + rrank (a ! (pos + i)))
      else (i, sm + rrank (a ! (pos + i))))"
  by pat_completeness auto
termination by (relation "measure (\<lambda>(a, pos, i, sm). length a - (pos + i))") auto

fun set_ranks :: "ranked list \<Rightarrow> nat \<Rightarrow> nat \<Rightarrow> rat \<Rightarrow> ranked list" where
  "set_ranks a pos 0 v = a"
| "set_ranks a pos (Suc n) v = set_ranks (a[pos := (a ! pos)\<lparr>rrank := v\<rparr>]) (Suc pos) n v"

lemma length_set_ranks [simp]: "length (set_ranks a pos n v) = length a"
  by (induction a pos n v rule: set_ranks.induct) simp_all

function average_ties :: "ranked list \<Rightarrow> nat \<Rightarrow> ranked list" where
  "average_ties a pos =
     (if pos < length a
      then let (i, sm) = tie_run a pos 0 0
           in average_ties (set_ranks a pos (i + 1) (sm / of_nat (i + 1))) (pos + i + 1)
      else a)"
  by pat_completeness auto
termination by (relation "measure (\<lambda>(a, pos). length a - pos)") auto

declare tie_run.simps [simp del] average_ties.simps [simp del]

definition fractional :: "(sample_set \<times> rat) list \<Rightarrow> ranked list" where
  "fractional array = average_ties (standard array) 0"

text \<open>\<open>rank.rank\<close>: each sample from its end to its beginning, one after the other.\<close>

definition rank :: "rat list \<Rightarrow> rat list \<Rightarrow> ranked list" where
  "rank x y = fractional (map (Pair Set_X) (rev x) @ map (Pair Set_Y) (rev y))"

subsection \<open>The statistic\<close>

text \<open>The loop of \<open>statistic\<close>: the value before, \<open>t\<close>, \<open>nt\<close> and the sums of the ranks.\<close>

fun rank_loop :: "rat option \<Rightarrow> ranked list \<Rightarrow> rat \<times> nat \<times> rat \<times> rat \<Rightarrow> rat \<times> nat \<times> rat \<times> rat" where
  "rank_loop prev [] st = st"
| "rank_loop prev (e # es) (t, nt, rx, ry) =
     (let (t1, nt1) =
        (case prev of
           None \<Rightarrow> (t, nt)
         | Some v \<Rightarrow> if rval e = v then (t, nt + 1)
             else if nt > 1 then (t + (of_nat nt ^ 3 - of_nat nt), 1) else (t, nt))
      in rank_loop (Some (rval e)) es
           (t1, nt1, rx + (if rset e = Set_X then rrank e else 0), ry + (if rset e = Set_Y then rrank e else 0)))"

record statistics =
  tcf :: jnum
  ux :: rat
  uy :: rat
  big :: rat
  small :: rat

definition statistic :: "rat list \<Rightarrow> rat list \<Rightarrow> statistics" where
  "statistic x y =
     (let ranked = rank x y;
          nr = of_nat (length ranked) :: rat;
          nx = of_nat (length x) :: rat;
          ny = of_nat (length y) :: rat;
          (t, nt, rx, ry) = rank_loop None ranked (0, 1, 0, 0);
          u = nx * ny + nx * (nx + 1) / 2 - rx;
          w = nx * ny - u
      in \<lparr>tcf = num_add (Fin 1) (num_neg (num_div (Fin t) (Fin (nr ^ 3 - nr)))),
          ux = u, uy = w, big = max u w, small = min u w\<rparr>)"

subsection \<open>Fractional ranks\<close>

text \<open>\<open>win w v\<close>: the part of a rank that \<open>v\<close> gets for \<open>w\<close>, and so the rank of a value among others.\<close>

definition win :: "rat \<Rightarrow> rat \<Rightarrow> rat" where
  "win w v = (if w < v then 1 else if w = v then 1 / 2 else 0)"

definition fractional_rank :: "rat list \<Rightarrow> rat \<Rightarrow> rat" where
  "fractional_rank vs v = (\<Sum>w\<leftarrow>vs. win w v) + 1 / 2"

lemma win_swap: "win a b + win b a = 1"
  by (auto simp: win_def)

lemma tie_run_props:
  assumes "tie_run a pos i sm = (n, s)" "pos + i < length a"
  shows "i \<le> n \<and> pos + n < length a \<and> (\<forall>j. i \<le> j \<and> j \<le> n \<longrightarrow> rval (a ! (pos + j)) = rval (a ! (pos + i))) \<and>
    (pos + n + 1 < length a \<longrightarrow> rval (a ! (pos + n + 1)) \<noteq> rval (a ! (pos + i))) \<and>
    s = sm + (\<Sum>j\<leftarrow>[i..<Suc n]. rrank (a ! (pos + j)))"
  using assms
proof (induction a pos i sm rule: tie_run.induct)
  case (1 a pos i sm)
  show ?case
  proof (cases "pos + i + 1 < length a \<and> rval (a ! (pos + i)) = rval (a ! (pos + i + 1))")
    case True
    then have "tie_run a pos (i + 1) (sm + rrank (a ! (pos + i))) = (n, s)"
      using 1(2) by (subst (asm) tie_run.simps) simp
    from 1(1)[OF True this] have "i + 1 \<le> n \<and> pos + n < length a \<and>
      (\<forall>j. i + 1 \<le> j \<and> j \<le> n \<longrightarrow> rval (a ! (pos + j)) = rval (a ! (pos + (i + 1)))) \<and>
      (pos + n + 1 < length a \<longrightarrow> rval (a ! (pos + n + 1)) \<noteq> rval (a ! (pos + (i + 1)))) \<and>
      s = sm + rrank (a ! (pos + i)) + (\<Sum>j\<leftarrow>[i + 1..<Suc n]. rrank (a ! (pos + j)))"
      using True by simp
    then have n: "i + 1 \<le> n" "pos + n < length a" and run: "\<And>j. i + 1 \<le> j \<Longrightarrow> j \<le> n \<Longrightarrow> rval (a ! (pos + j)) = rval (a ! (pos + i))"
      and stop: "pos + n + 1 < length a \<longrightarrow> rval (a ! (pos + n + 1)) \<noteq> rval (a ! (pos + i))"
      and s: "s = sm + rrank (a ! (pos + i)) + (\<Sum>j\<leftarrow>[Suc i..<Suc n]. rrank (a ! (pos + j)))"
      using True by auto
    have "rval (a ! (pos + j)) = rval (a ! (pos + i))" if "i \<le> j" "j \<le> n" for j
      using run[of j] that by (cases "j = i") auto
    moreover have "[i..<Suc n] = i # [Suc i..<Suc n]" using n by (intro upt_conv_Cons) simp
    then have "s = sm + (\<Sum>j\<leftarrow>[i..<Suc n]. rrank (a ! (pos + j)))" using s by (simp only: list.map sum_list.Cons add.assoc)
    moreover have "i \<le> n" using n by simp
    ultimately show ?thesis using n(2) stop by blast
  next
    case False
    have "tie_run a pos i sm = (i, sm + rrank (a ! (pos + i)))" by (subst tie_run.simps) (use False in auto)
    then have "n = i" "s = sm + rrank (a ! (pos + i))" using 1(2) by simp_all
    moreover have "j = i" if "i \<le> j \<and> j \<le> i" for j using that by simp
    ultimately show ?thesis using False 1(3) by auto
  qed
qed

lemma set_ranks_nth:
  "pos + n \<le> length a \<Longrightarrow> k < length a \<Longrightarrow>
     set_ranks a pos n v ! k = (if pos \<le> k \<and> k < pos + n then (a ! k)\<lparr>rrank := v\<rparr> else a ! k)"
  by (induction a pos n v rule: set_ranks.induct) (auto simp: nth_list_update)

lemma win_block:
  assumes "sorted vs" "pos + i < length vs" "\<And>j. j \<le> i \<Longrightarrow> vs ! (pos + j) = v"
    and "pos > 0 \<Longrightarrow> vs ! (pos - 1) < v" "pos + i + 1 < length vs \<Longrightarrow> vs ! (pos + i + 1) \<noteq> v"
  shows "(\<Sum>w\<leftarrow>vs. win w v) = of_nat pos + of_nat (i + 1) / 2"
proof -
  have "win (vs ! k) v = (if k < pos then 1 else if k \<le> pos + i then 1 / 2 else 0)" if k: "k < length vs" for k
  proof -
    consider "k < pos" | "pos \<le> k" "k \<le> pos + i" | "pos + i < k" by linarith
    then show ?thesis
    proof cases
      case 1
      then have "vs ! k \<le> vs ! (pos - 1)" using assms(1,2) by (intro sorted_nth_mono) auto
      then show ?thesis using 1 assms(4) by (auto simp: win_def)
    next
      case 2
      then show ?thesis using assms(3)[of "k - pos"] by (simp add: win_def)
    next
      case 3
      then have l: "pos + i + 1 < length vs" using k by simp
      have "vs ! (pos + i + 1) \<le> vs ! k" using 3 k assms(1) by (intro sorted_nth_mono) auto
      moreover have "v \<le> vs ! (pos + i + 1)" using sorted_nth_mono[OF assms(1), of pos "pos + i + 1"] l assms(3)[of 0] by simp
      ultimately show ?thesis using 3 assms(5)[OF l] by (auto simp: win_def)
    qed
  qed
  then have "(\<Sum>w\<leftarrow>vs. win w v) = (\<Sum>k = 0..<length vs. if k < pos then 1 else if k \<le> pos + i then 1 / 2 else 0)"
    by (simp add: sum_list_sum_nth)
  also have "\<dots> = (\<Sum>k = 0..<pos. 1) + (\<Sum>k = pos..<pos + i + 1. 1 / 2) + (\<Sum>k = pos + i + 1..<length vs. 0)"
  proof -
    let ?f = "\<lambda>k. if k < pos then 1 else if k \<le> pos + i then 1 / 2 else (0 :: rat)"
    have "sum ?f {0..<length vs} = sum ?f {0..<pos} + sum ?f {pos..<pos + i + 1} + sum ?f {pos + i + 1..<length vs}"
      using sum.atLeastLessThan_concat[of 0 pos "length vs" ?f] assms(2)
        sum.atLeastLessThan_concat[of pos "pos + i + 1" "length vs" ?f] by linarith
    also have "sum ?f {0..<pos} = (\<Sum>k = 0..<pos. 1)" by (intro sum.cong) auto
    also have "sum ?f {pos..<pos + i + 1} = (\<Sum>k = pos..<pos + i + 1. 1 / 2)" by (intro sum.cong) auto
    also have "sum ?f {pos + i + 1..<length vs} = (\<Sum>k = pos + i + 1..<length vs. 0)" by (intro sum.cong) auto
    finally show ?thesis .
  qed
  finally show ?thesis by simp
qed

text \<open>What the ranking has done up to an index at which no run of equal values is cut.\<close>

definition ranked_to :: "rat list \<Rightarrow> nat \<Rightarrow> ranked list \<Rightarrow> bool" where
  "ranked_to vs pos a \<longleftrightarrow> map rval a = vs \<and>
     (\<forall>k < length a. rrank (a ! k) = (if k < pos then fractional_rank vs (vs ! k) else of_nat (k + 1)))"

lemma average_ties_ranks:
  assumes "sorted vs" "ranked_to vs pos a" "0 < pos \<and> pos < length a \<longrightarrow> vs ! (pos - 1) < vs ! pos"
  shows "ranked_to vs (length vs) (average_ties a pos) \<and> map rset (average_ties a pos) = map rset a"
  using assms
proof (induction a pos rule: average_ties.induct)
  case (1 a pos)
  show ?case
  proof (cases "pos < length a")
    case False
    then show ?thesis using 1(3) by (subst (1 2) average_ties.simps) (auto simp: ranked_to_def)
  next
    case True
    obtain i sm where run: "tie_run a pos 0 0 = (i, sm)" by fastforce
    have vs: "map rval a = vs" and rk: "\<And>k. k < length a \<Longrightarrow> rrank (a ! k) = (if k < pos then fractional_rank vs (vs ! k) else of_nat (k + 1))"
      using 1(3) by (auto simp: ranked_to_def)
    have val: "rval (a ! k) = vs ! k" if "k < length a" for k using vs that by auto
    have len: "length vs = length a" using vs by auto
    note r = tie_run_props[OF run]
    have i: "pos + i < length a" using r True by simp
    have same: "vs ! (pos + j) = vs ! pos" if "j \<le> i" for j
      using r True that val[of "pos + j"] val[of pos] by auto
    have stop: "pos + i + 1 < length a \<Longrightarrow> vs ! (pos + i + 1) \<noteq> vs ! pos"
      using r True val[of "pos + i + 1"] val[of pos] by auto
    have before: "vs ! (pos - 1) < vs ! pos" if "pos > 0" using 1(4) that True by simp
    have "sm = (\<Sum>j\<leftarrow>[0..<Suc i]. rrank (a ! (pos + j)))" using r True by simp
    also have "\<dots> = (\<Sum>j\<leftarrow>[0..<Suc i]. of_nat pos + of_nat j + 1)"
      using i by (intro arg_cong[where f = sum_list] map_cong) (auto simp: rk)
    also have "\<dots> = of_nat (i + 1) * (of_nat pos + (of_nat i + 2) / 2)"
      by (induction i) (simp_all add: field_simps)
    finally have mean: "sm / of_nat (i + 1) = fractional_rank vs (vs ! pos)"
      using win_block[OF 1(2), of pos i "vs ! pos"] i same stop before len
      by (simp add: fractional_rank_def field_simps)
    let ?b = "set_ranks a pos (i + 1) (sm / of_nat (i + 1))"
    have nth: "?b ! k = (if pos \<le> k \<and> k < pos + (i + 1) then (a ! k)\<lparr>rrank := sm / of_nat (i + 1)\<rparr> else a ! k)"
      if "k < length a" for k using that i by (intro set_ranks_nth) simp_all
    have vals: "map rval ?b = vs" and sets: "map rset ?b = map rset a"
      using nth len val by (auto intro!: nth_equalityI simp: nth)
    have "rrank (?b ! k) = (if k < pos + i + 1 then fractional_rank vs (vs ! k) else of_nat (k + 1))" if "k < length a" for k
      using that mean nth[OF that] rk[OF that] same[of "k - pos"] by auto
    then have "ranked_to vs (pos + i + 1) ?b" using vals by (simp add: ranked_to_def)
    moreover have "vs ! (pos + i) < vs ! (pos + i + 1)" if "pos + i + 1 < length a"
      using sorted_nth_mono[OF 1(2), of "pos + i" "pos + i + 1"] stop[OF that] same[of i] that len by simp
    ultimately have "ranked_to vs (length vs) (average_ties ?b (pos + i + 1)) \<and>
        map rset (average_ties ?b (pos + i + 1)) = map rset ?b"
      using 1(1)[OF True run[symmetric] _ 1(2)] by simp
    moreover have "average_ties a pos = average_ties ?b (pos + i + 1)"
      by (subst average_ties.simps) (simp add: True run)
    ultimately show ?thesis using sets by simp
  qed
qed

lemma standard_ranked: "ranked_to (map snd (sort_key snd array)) 0 (standard array)"
  by (auto simp: ranked_to_def standard_def nth_enumerate_eq case_prod_beta intro!: nth_equalityI)

lemma standard_sets: "map rset (standard array) = map fst (sort_key snd array)"
  by (auto simp: standard_def nth_enumerate_eq case_prod_beta intro!: nth_equalityI)

lemma fractional_entries:
  assumes "vs = map snd (sort_key snd array)"
  shows "map (\<lambda>e. (rset e, rval e, rrank e)) (fractional array) =
    map (\<lambda>(s, v). (s, v, fractional_rank vs v)) (sort_key snd array)"
proof -
  let ?r = "fractional array"
  have r: "ranked_to vs (length vs) ?r" "map rset ?r = map fst (sort_key snd array)"
    using average_ties_ranks[of vs 0 "standard array"] standard_ranked[of array] standard_sets[of array] assms
    by (simp_all add: fractional_def)
  then have v: "map rval ?r = vs" and len: "length ?r = length array" by (auto simp: ranked_to_def assms dest: arg_cong[where f = length])
  show ?thesis
  proof (rule nth_equalityI)
    fix k
    assume "k < length (map (\<lambda>e. (rset e, rval e, rrank e)) ?r)"
    then have k: "k < length ?r" "k < length array" using len by simp_all
    have "rrank (?r ! k) = fractional_rank vs (vs ! k)" using r(1) k len by (auto simp: ranked_to_def assms)
    moreover have "rval (?r ! k) = vs ! k" using v k by (metis nth_map)
    moreover have "rset (?r ! k) = fst (sort_key snd array ! k)" using r(2) k by (metis length_sort nth_map)
    ultimately show "map (\<lambda>e. (rset e, rval e, rrank e)) ?r ! k = map (\<lambda>(s, v). (s, v, fractional_rank vs v)) (sort_key snd array) ! k"
      using k by (simp add: assms case_prod_beta)
  qed (simp add: len)
qed

lemma sum_list_mset_eq: "mset xs = mset ys \<Longrightarrow> (\<Sum>x\<leftarrow>xs. f x) = (\<Sum>x\<leftarrow>ys. f x :: rat)"
  by (metis mset_map sum_mset_sum_list)

lemma rank_loop_sums:
  "rank_loop prev es (t, nt, rx, ry) = (t', nt', rx', ry') \<Longrightarrow>
     rx' = rx + (\<Sum>e\<leftarrow>es. if rset e = Set_X then rrank e else 0)"
  by (induction es arbitrary: prev t nt rx ry) (fastforce simp: Let_def split: prod.splits)+

lemma rank_sum_x:
  assumes "rank_loop None (rank x y) (0, 1, 0, 0) = (t, nt, rx, ry)"
  shows "rx = (\<Sum>v\<leftarrow>x. fractional_rank (x @ y) v)"
proof -
  let ?arr = "map (Pair Set_X) (rev x) @ map (Pair Set_Y) (rev y)"
  let ?vs = "map snd (sort_key snd ?arr)"
  have "mset ?vs = mset (map snd ?arr)" by (simp only: mset_map mset_sort)
  also have "\<dots> = mset (x @ y)" by (simp add: comp_def)
  finally have fr: "fractional_rank ?vs v = fractional_rank (x @ y) v" for v
    using sum_list_mset_eq[of ?vs "x @ y" "\<lambda>w. win w v"] by (simp only: fractional_rank_def)
  let ?g = "\<lambda>(s, v :: rat, k). if s = Set_X then k else (0 :: rat)"
  have "rx = (\<Sum>e\<leftarrow>rank x y. if rset e = Set_X then rrank e else 0)"
    using rank_loop_sums[OF assms] by simp
  also have "\<dots> = sum_list (map ?g (map (\<lambda>e. (rset e, rval e, rrank e)) (rank x y)))" by (simp add: comp_def)
  also have "\<dots> = (\<Sum>p\<leftarrow>sort_key snd ?arr. if fst p = Set_X then fractional_rank (x @ y) (snd p) else 0)"
    by (simp only: rank_def fractional_entries[OF refl] fr) (simp add: comp_def case_prod_beta)
  also have "\<dots> = (\<Sum>p\<leftarrow>?arr. if fst p = Set_X then fractional_rank (x @ y) (snd p) else 0)"
    by (rule sum_list_mset_eq) simp
  also have "\<dots> = (\<Sum>v\<leftarrow>rev x. fractional_rank (x @ y) v)" by (simp add: comp_def)
  also have "\<dots> = (\<Sum>v\<leftarrow>x. fractional_rank (x @ y) v)" by (rule sum_list_mset_eq) simp
  finally show ?thesis .
qed

subsection \<open>The statistic counts pairs\<close>

lemma sum_list_swap: "(\<Sum>a\<leftarrow>xs. \<Sum>b\<leftarrow>ys. f a b) = (\<Sum>b\<leftarrow>ys. \<Sum>a\<leftarrow>xs. f a b :: rat)"
  by (induction xs) (simp_all add: sum_list_addf)

lemma win_total: "(\<Sum>a\<leftarrow>xs. \<Sum>b\<leftarrow>ys. win b a) = of_nat (length xs) * of_nat (length ys) - (\<Sum>a\<leftarrow>xs. \<Sum>b\<leftarrow>ys. win a b)"
proof -
  have "(\<Sum>a\<leftarrow>xs. \<Sum>b\<leftarrow>ys. win b a) = (\<Sum>a\<leftarrow>xs. \<Sum>b\<leftarrow>ys. 1 - win a b)"
    by (intro arg_cong[where f = sum_list] map_cong refl) (simp add: eq_diff_eq win_swap)
  then show ?thesis by (simp add: sum_list_subtractf sum_list_triv)
qed

lemma rank_sum_pairs:
  "(\<Sum>v\<leftarrow>x. fractional_rank (x @ y) v) =
     of_nat (length x) * of_nat (length y) + of_nat (length x) * (of_nat (length x) + 1) / 2 - (\<Sum>a\<leftarrow>x. \<Sum>b\<leftarrow>y. win a b)"
proof -
  have half: "(\<Sum>a\<leftarrow>x. \<Sum>b\<leftarrow>x. win b a) = of_nat (length x) * of_nat (length x) / 2"
    using win_total[of x x] sum_list_swap[of win x x] by (simp add: field_simps)
  have "(\<Sum>v\<leftarrow>x. fractional_rank (x @ y) v) =
      (\<Sum>a\<leftarrow>x. \<Sum>b\<leftarrow>x. win b a) + (\<Sum>a\<leftarrow>x. \<Sum>b\<leftarrow>y. win b a) + of_nat (length x) / 2"
    by (simp add: fractional_rank_def sum_list_addf sum_list_triv)
  also have "\<dots> = of_nat (length x) * of_nat (length y) + of_nat (length x) * (of_nat (length x) + 1) / 2 - (\<Sum>a\<leftarrow>x. \<Sum>b\<leftarrow>y. win a b)"
    unfolding half win_total[where xs = x and ys = y] by (simp add: add_divide_distrib distrib_left)
  finally show ?thesis .
qed

text \<open>
  C37. The statistic of the rank test counts pairs, in whatever order the samples come and however many values are
  tied: \<open>ux\<close> is the number of pairs in which the first sample has the smaller value, \<open>uy\<close> the number of the others,
  ties counted as one half for each.
\<close>

theorem statistic_counts_pairs:
  "ux (statistic x y) = (\<Sum>a\<leftarrow>x. \<Sum>b\<leftarrow>y. win a b) \<and> uy (statistic x y) = (\<Sum>b\<leftarrow>y. \<Sum>a\<leftarrow>x. win b a) \<and>
   small (statistic x y) + big (statistic x y) = of_nat (length x) * of_nat (length y)"
proof -
  obtain t nt rx ry where l: "rank_loop None (rank x y) (0, 1, 0, 0) = (t, nt, rx, ry)" by (metis prod_cases4)
  have u: "ux (statistic x y) = of_nat (length x) * of_nat (length y) + of_nat (length x) * (of_nat (length x) + 1) / 2 - rx"
    using l by (simp add: statistic_def Let_def)
  then have u: "ux (statistic x y) = (\<Sum>a\<leftarrow>x. \<Sum>b\<leftarrow>y. win a b)"
    unfolding rank_sum_x[OF l] rank_sum_pairs by simp
  moreover have "uy (statistic x y) = of_nat (length x) * of_nat (length y) - ux (statistic x y)"
    using l by (simp add: statistic_def Let_def)
  ultimately have "uy (statistic x y) = (\<Sum>b\<leftarrow>y. \<Sum>a\<leftarrow>x. win b a)"
    using win_total[where xs = x and ys = y] sum_list_swap[where xs = x and ys = y and f = "\<lambda>a b. win b a"] by simp
  moreover have "small (statistic x y) + big (statistic x y) = of_nat (length x) * of_nat (length y)"
    using l by (simp add: statistic_def Let_def min_def max_def)
  ultimately show ?thesis using u by blast
qed

theorem statistic_counts_pairs_witness:
  "ux (statistic [3, 1, 2] [2, 5]) = 9 / 2 \<and> uy (statistic [3, 1, 2] [2, 5]) = 3 / 2"
  using statistic_counts_pairs[of "[3, 1, 2]" "[2, 5]"] by (simp add: win_def)

subsection \<open>The correction for ties\<close>

definition tie_term :: "rat list \<Rightarrow> rat \<Rightarrow> rat" where
  "tie_term vs v = of_nat (count_list vs v) ^ 3 - of_nat (count_list vs v)"

lemma rank_loop_snoc:
  "rank_loop prev (es @ [e]) st = rank_loop (if es = [] then prev else Some (rval (last es))) [e] (rank_loop prev es st)"
  by (induction prev es st rule: rank_loop.induct) (auto simp: Let_def split: option.splits prod.splits)

lemma sorted_last: "sorted xs \<Longrightarrow> x \<in> set xs \<Longrightarrow> x \<le> last xs"
  by (induction xs) auto

lemma rank_loop_ties:
  assumes "sorted (map rval es)" "es \<noteq> []" "rank_loop None es (0, 1, 0, 0) = (t, nt, rx, ry)"
  shows "nt = count_list (map rval es) (rval (last es)) \<and>
    t = (\<Sum>v \<in> set (map rval es) - {rval (last es)}. tie_term (map rval es) v)"
  using assms
proof (induction es arbitrary: t nt rx ry rule: rev_induct)
  case (snoc e es)
  show ?case
  proof (cases "es = []")
    case True
    then show ?thesis using snoc(4) by (simp add: Let_def)
  next
    case False
    obtain t0 n0 x0 y0 where l: "rank_loop None es (0, 1, 0, 0) = (t0, n0, x0, y0)" by (metis prod_cases4)
    let ?vs = "map rval es" and ?v = "rval (last es)"
    have s: "sorted ?vs" "\<forall>v \<in> set ?vs. v \<le> rval e" using snoc(2) by (auto simp: sorted_append)
    note ih = snoc(1)[OF s(1) False l]
    have st: "rank_loop (Some ?v) [e] (t0, n0, x0, y0) = (t, nt, rx, ry)"
      using snoc(4) False by (simp only: rank_loop_snoc l if_False)
    have v: "?v \<in> set ?vs" using False by simp
    show ?thesis
    proof (cases "rval e = ?v")
      case True
      then have "nt = n0 + 1" "t = t0" using st by (auto simp: Let_def)
      moreover have "(\<Sum>v \<in> set ?vs - {?v}. tie_term (?vs @ [?v]) v) = (\<Sum>v \<in> set ?vs - {?v}. tie_term ?vs v)"
        by (intro sum.cong) (auto simp: tie_term_def)
      ultimately show ?thesis using ih True v by (simp add: insert_absorb)
    next
      case new: False
      have "rval e \<notin> set ?vs"
      proof
        assume "rval e \<in> set ?vs"
        then have "rval e \<le> ?v" using sorted_last[OF s(1)] False by (simp add: last_map)
        then show False using new s(2) v by force
      qed
      then have c: "count_list ?vs (rval e) = 0" by (simp add: count_list_0_iff)
      have "n0 \<ge> 1" using ih v by (metis count_list_0_iff less_one not_less)
      then have "nt = 1" "t = t0 + tie_term ?vs ?v"
        using st new ih by (auto simp: Let_def tie_term_def split: if_splits)
      moreover have "t0 + tie_term ?vs ?v = (\<Sum>v \<in> set ?vs. tie_term ?vs v)"
        using ih v sum.remove[of "set ?vs" ?v "tie_term ?vs"] by simp
      moreover have "(\<Sum>v \<in> set ?vs. tie_term (?vs @ [rval e]) v) = (\<Sum>v \<in> set ?vs. tie_term ?vs v)"
        using \<open>rval e \<notin> set ?vs\<close> by (intro sum.cong) (auto simp: tie_term_def)
      ultimately show ?thesis using c \<open>rval e \<notin> set ?vs\<close> by (simp add: insert_Diff_if)
    qed
  qed
qed simp

text \<open>
  The ties of the greatest value of all are not counted: the loop adds a run of equal values when the next
  value is another one, and nothing comes after the last.
\<close>

theorem tie_correction_leaves_out_greatest:
  assumes "length x + length y > 1"
  shows "tcf (statistic x y) =
    Fin (1 - (\<Sum>v \<in> set (x @ y) - {Max (set (x @ y))}. tie_term (x @ y) v) /
      (of_nat (length x + length y) ^ 3 - of_nat (length x + length y)))"
proof -
  let ?arr = "map (Pair Set_X) (rev x) @ map (Pair Set_Y) (rev y)"
  let ?vs = "map rval (rank x y)"
  obtain t nt rx ry where l: "rank_loop None (rank x y) (0, 1, 0, 0) = (t, nt, rx, ry)" by (metis prod_cases4)
  have "map (\<lambda>e. (rset e, rval e, rrank e)) (rank x y) =
      map (\<lambda>(s, v). (s, v, fractional_rank (map snd (sort_key snd ?arr)) v)) (sort_key snd ?arr)"
    unfolding rank_def by (rule fractional_entries[OF refl])
  from arg_cong[OF this, of "map (fst \<circ> snd)"] have vs: "?vs = map snd (sort_key snd ?arr)"
    by (simp add: comp_def case_prod_beta)
  have "mset ?vs = mset (map snd ?arr)" unfolding vs by (simp only: mset_map mset_sort)
  then have m: "mset ?vs = mset (x @ y)" by (simp add: comp_def)
  have s: "sorted ?vs" by (simp add: vs)
  have len: "length (rank x y) = length x + length y" using arg_cong[OF m, of size] by simp
  then have ne: "rank x y \<noteq> []" using assms by auto
  have set: "set ?vs = set (x @ y)" using mset_eq_setD[OF m] .
  have cnt: "count_list ?vs v = count_list (x @ y) v" for v
    using arg_cong[OF m, of "\<lambda>M. count M v"] by (simp only: count_mset)
  have "Max (set (x @ y)) = last ?vs"
    unfolding set[symmetric] using sorted_last[OF s] ne by (intro Max_eqI) (auto simp: last_map)
  then have "t = (\<Sum>v \<in> set (x @ y) - {Max (set (x @ y))}. tie_term (x @ y) v)"
    using rank_loop_ties[OF s ne l] set ne cnt by (simp add: tie_term_def last_map)
  moreover have "(length x + length y) ^ 3 \<noteq> length x + length y"
    using assms power_strict_increasing[of 1 3 "length x + length y"] by simp
  ultimately show ?thesis using l by (simp add: statistic_def Let_def len)
qed

corollary equal_values_uncorrected:
  "1 < length x + length y \<Longrightarrow> set (x @ y) = {v} \<Longrightarrow> tcf (statistic x y) = Fin 1"
  by (subst tie_correction_leaves_out_greatest) simp_all

end
