(* ===== verification/Spec2Isabelle.thy ===== *)
theory Spec2Isabelle
  imports Permission DriveTree Config Organisation Domain StudyVersions Jobs LogThrottler JsNumber Mfa UserProps Tokens
    TransformSpec DataView Standardisation WebAuthnProps InstanceProps LxdProps RelayProps GatewayProps WebDavProps BytesProps
    ApiProps UploadRoute JsonProps KeyProps RankTest
begin

text \<open>
  \<^bold>\<open>The program.\<close> The repository is a data management platform for clinical studies. Its core
  are the classes of \<open>packages/itmat-cores/src/coreFunc\<close>, one per kind of document, which the tRPC
  routers call with the user who made the request. They keep all state in a MongoDB database (one
  collection per kind of document) and the content of files in a MinIO object store; a job executor
  polls the job collection. The interface authenticates requests by session or by token, keeps guests away
  from most procedures, logs each call, relays the notebooks and screens of containers to the browser, and
  serves the drives over WebDAV.

  \<^bold>\<open>How it is modelled.\<close> The state is the record \<open>db\<close> of theory \<open>Database\<close>: the collections as lists
  of documents, the object store, the mails sent, and the position in the supplies of ids, of clock
  readings and of random draws. Each operation of the source is a function of the same name from
  its arguments and the state to a result and the new state; an exception is the left side of the
  result (\<open>error\<close> of theory \<open>Types\<close>), and what was written before it stays written. Asynchronous
  calls are sequential: the model shows what one request does, not how two of them interleave.

  Code that is not in the repository is a parameter. \<open>mongo\<close> holds a driver for every collection,
  and \<open>mongo_ok\<close> is what the operations rely on of it: the locale \<open>document_store\<close> of theory \<open>Store\<close>
  (which documents a filter finds, and what an update or an insertion leaves behind; but not which
  of several matching documents comes first), and the unique indexes the setup package creates.
  Theory \<open>Reference_Store\<close> has a driver over lists that satisfies it. \<open>env\<close> holds the rest: the
  object store (locale \<open>object_store\<close> in theory \<open>FileStore\<close>), the ids, the clock, the regular
  expressions of users, the mail server and the cryptographic functions.

  \<^bold>\<open>The theories.\<close>
  \<^item> \<open>Prelude\<close>, \<open>JsNumber\<close>, \<open>JsOps\<close>, \<open>Json\<close>, \<open>JsonProps\<close>: JavaScript values, truthiness, numbers and operators,
    \<open>parseInt\<close> and \<open>parseFloat\<close>, \<open>JSON.stringify\<close> and \<open>JSON.parse\<close> (the parser runs on fuel: twice the
    length of the text and two); shared lemmas.
  \<^item> \<open>Store\<close>, \<open>Reference_Store\<close>, \<open>Types\<close>, \<open>Database\<close>, \<open>Samples\<close>: collections and their laws, the
    documents (\<open>itmat-types\<close>), the state, the indexes (\<open>itmat-setup\<close>), concrete inputs.
  \<^item> \<open>Permission\<close> (\<open>permissionCore.ts\<close>): roles, and the check of a field or data clip against them.
  \<^item> \<open>FileStore\<close> (\<open>fileCore.ts\<close>, \<open>objStore.ts\<close>): uploads under the limit of their category.
  \<^item> \<open>Drive\<close>, \<open>DriveTree\<close> (\<open>driveCore.ts\<close>): the file trees of users; the tree is a forest of
    parents and children. \<open>recursiveFindDrives\<close> follows child ids, which may form a cycle; it runs
    on fuel, and \<open>drive_depth + 1\<close> (the height of the tree below the drive) is shown to be enough
    exactly where it ends.
  \<^item> \<open>Config\<close>, \<open>Organisation\<close>, \<open>Domain\<close>, \<open>Standardisation\<close>: the documents of the same names
    (\<open>configCore.ts\<close>, \<open>organisationCore.ts\<close>, \<open>domainCore.ts\<close>, \<open>standardizationCore.ts\<close>).
  \<^item> \<open>Study\<close>, \<open>StudyVersions\<close> (\<open>studyCore.ts\<close>): studies and the versions of their data.
  \<^item> \<open>Formula\<close> (\<open>utilsCore.ts\<close>), \<open>Transform\<close>, \<open>TransformSpec\<close> (\<open>transformationCore.ts\<close>): formulas
    and verifiers of fields, and the chains of transformations. The clips are mutable objects, so a chain
    runs on a store of clips; every chain refines functions on values that share its helpers, and the chain
    that reads the latest clip of each group is shown to do so in terms of the keys of the clips alone.
  \<^item> \<open>StudyFields\<close>, \<open>FieldProps\<close> (\<open>dataCore.ts\<close>): the dictionary of the fields of a study.
  \<^item> \<open>DataClips\<close>, \<open>DataProps\<close> (\<open>dataCore.ts\<close>): uploading and deleting data clips, with the check of each
    value against its field; \<open>DataQuery\<close>, \<open>DataReports\<close> (\<open>dataCore.ts\<close>, \<open>cache.ts\<close>, \<open>logCore.ts\<close>): what
    the roles of a requester let him read, the aggregation and its cache, files, summaries and logs;
    \<open>DataView\<close>: the data of a study as the set of its visible clips, and both against it.
  \<^item> \<open>Jobs\<close> (\<open>jobCore.ts\<close>, \<open>poller.ts\<close>): jobs, and one tick of the scheduler. \<open>jobs_step\<close> is the step relation of
    all that writes jobs, \<open>resting\<close> its invariant: a job that is not pending stays so.
  \<^item> \<open>LogThrottler\<close> (\<open>logThrottler.ts\<close>): which of the repeated error messages are logged.
  \<^item> \<open>CloudInit\<close>, \<open>Instances\<close>, \<open>InstanceProps\<close> (\<open>lxd.config.ts\<close>, \<open>instanceCore.ts\<close>,
    \<open>instanceProcedure.ts\<close>): the containers users work in, as documents and jobs.
  \<^item> \<open>LxdManager\<close>, \<open>LxdHandlers\<close>, \<open>LxdProps\<close> (\<open>lxdManager.ts\<close>, \<open>lxdProcedure.ts\<close>, the handlers of
    \<open>itmat-job-executor\<close>): the requests to the container server, whose answers are a parameter, and the
    handlers that run the jobs. A poll looks at most 50 times, the wait for a new container 30 times.
  \<^item> \<open>Mfa\<close> (\<open>mfa.ts\<close>): one-time passwords, equal to RFC 4226 and RFC 6238.
  \<^item> \<open>Users\<close>, \<open>UserSafety\<close>, \<open>UserProps\<close> (\<open>userCore.ts\<close>): accounts, password resets, log-in. \<open>user_step\<close>
    is the step relation of all user operations, \<open>users_ok\<close> its invariant.
  \<^item> \<open>WebAuthn\<close>, \<open>WebAuthnProps\<close> (\<open>webauthnCore.ts\<close>): authenticators, over the library that verifies their
    responses. \<open>webauthn_step\<close> is the step relation, \<open>webauthn_ok\<close> its invariant.
  \<^item> \<open>UserKeys\<close>, \<open>Tokens\<close> (\<open>userCore.ts\<close>, \<open>pubkeycrypto.ts\<close>, \<open>pubkeyAuthentication.ts\<close>,
    \<open>commonMiddleware.ts\<close>, \<open>fileDownload.ts\<close>): keys, access tokens, downloads.
  \<^item> \<open>DriveCopy\<close> (\<open>driveCore.ts\<close>): copies of drives, on the same fuel as their deletion.
  \<^item> \<open>Relay\<close>, \<open>RelayProps\<close>, \<open>Gateway\<close>, \<open>GatewayProps\<close> (\<open>lxd/index.ts\<close>, \<open>server/router.ts\<close>): the relays between the
    socket of a browser and that of a container as machines over socket events, and the proxies in front of
    them, with the caches they keep in the process.
  \<^item> \<open>WebDav\<close>, \<open>WebDavProps\<close> (\<open>dmpWebDAV.ts\<close>): the file system a WebDAV client sees.
  \<^item> \<open>Bytes\<close>, \<open>BytesProps\<close> (\<open>dmpCrypto/dmp.utils.ts\<close>): the encodings of keys and texts, and their arithmetic.
  \<^item> \<open>Key\<close>, \<open>KeyProps\<close> (\<open>dmpCrypto/dmp.key.ts\<close>): key pairs sealed with a password, and signatures, over the
    cryptographic library of the browser; \<open>RankTest\<close> (\<open>utils/tools.ts\<close>): the test of Mann and Whitney.
  \<^item> \<open>Routers\<close>, \<open>Api\<close> (\<open>trpc/*Procedure.ts\<close>, \<open>helper.ts\<close>, \<open>guestProtection.ts\<close>, \<open>trpc/middleware.ts\<close>): each
    procedure a constructor with the input its schema accepts, the routers that call the core with it, and the
    middleware around them. \<open>ApiFrame\<close> shows for every operation which collections it leaves alone, as the
    locales \<open>account_view\<close> and \<open>whole_view\<close>; \<open>ApiProps\<close> instantiates them at the log and at the platform
    without the accounts. \<open>UploadRoute\<close> (\<open>commonMiddleware.ts\<close>): the route for the files of studies beside the API.

  \<^bold>\<open>What the lemmas show.\<close> Each component has lemmas that say what an operation leaves of the
  collections on success and on each error; invariants are shown for the steps of all operations
  of a component (versions of a study, forest of drives, history of a job, requests for a password
  reset, authenticators). Reading fields and data refines a view of the collections (the latest document
  of each group, unless it is a deletion, and the roles allow it), and every clip an upload stores has a value of the
  type of its field. A relay
  hands on each message once and in order; a call of the API adds its entry to the log and touches no other, and no
  call of a guest changes more than accounts and roles; the encodings of bytes are inverse to their decodings, JSON is
  read as it was written, and so a sealed key opens with its password.
  A property that states a defect (a role without permissions grants everything, a failed
  job is not tried again by itself, a folder can be moved below itself, a token of the system can be forged, a file of a drive is open to every user,
  the log-in by authenticator asks for no proof, a refused deletion of a container is forgotten, the sockets of
  containers are open to all, files are uploaded before the user is known) says what the code does, and the text above it says so.

  \<^bold>\<open>Not modelled.\<close> Numbers are exact: doubles are not rounded, so what is shown of arithmetic
  (verifiers, ranks) is stated where doubles are exact. The steps of one request are not interleaved with those of
  another; the only exception are the jobs, where \<open>jobs_step\<close> has runs that end after other steps. Reading and writing of configuration
  files, the HTTP servers, the texts of mails and their QR codes, the checks of the input schemas beyond the
  types of what they accept, the React components of the user interface and the cryptographic library it
  vendors (\<open>msrCrypto.js\<close>) are left out; so is \<open>getLogsSummary\<close>, an aggregation that the database evaluates.
\<close>

end
